(* ===== verification/Prelude.thy ===== *)
theory Prelude
  imports Main "HOL-Library.Char_ord" "HOL-Library.List_Lexorder"
begin

text \<open>
  What every component of the development shares: the result type of fallible Go
  functions and its sequencing, decimal rendering of integers, the small string
  functions of Go's \<^verbatim>\<open>strings\<close> package that the code calls, and the
  \<open>named_theorems\<close> collections the component theories fill.

  A Go \<^verbatim>\<open>string\<close> is a sequence of bytes, and so is Isabelle's \<open>string\<close>, a list of
  8-bit \<open>char\<close>: \<open>length\<close> counts bytes, as Go's \<^verbatim>\<open>len\<close> does.
\<close>

section \<open>Collections of facts\<close>

named_theorems result_simps \<open>how results are sequenced\<close>
named_theorems geometry_simps \<open>unfolding of points and rectangles\<close>

section \<open>Results of fallible functions\<close>

text \<open>
  A Go function that returns \<^verbatim>\<open>(T, error)\<close> is modelled by a value of \<open>'e + 'a\<close>:
  \<open>Inl\<close> is the error, \<open>Inr\<close> the value. \<open>res_bind\<close> is the
  \<^verbatim>\<open>if err != nil { return err }\<close> that follows a call.
\<close>

definition res_bind :: "'e + 'a \<Rightarrow> ('a \<Rightarrow> 'e + 'b) \<Rightarrow> 'e + 'b" where
  "res_bind m k = (case m of Inl e \<Rightarrow> Inl e | Inr a \<Rightarrow> k a)"

lemma res_bind_simps [simp, result_simps]:
  "res_bind (Inl e) k = Inl e"
  "res_bind (Inr a) k = k a"
  by (simp_all add: res_bind_def)

lemma res_bind_cong [fundef_cong]:
  "m = m' \<Longrightarrow> (\<And>a. m' = Inr a \<Longrightarrow> k a = k' a) \<Longrightarrow> res_bind m k = res_bind m' k'"
  by (simp add: res_bind_def split: sum.split)

lemma res_bind_Inr_iff [result_simps]:
  "res_bind m k = Inr b \<longleftrightarrow> (\<exists>a. m = Inr a \<and> k a = Inr b)"
  by (simp add: res_bind_def split: sum.split)

lemma res_bind_Inl_iff [result_simps]:
  "res_bind m k = Inl e \<longleftrightarrow> m = Inl e \<or> (\<exists>a. m = Inr a \<and> k a = Inl e)"
  by (simp add: res_bind_def split: sum.split)

section \<open>Decimal rendering\<close>

text \<open>\<^verbatim>\<open>strconv.Itoa\<close> and the \<^verbatim>\<open>%d\<close> verb.\<close>

definition digit_char :: "nat \<Rightarrow> char" where
  "digit_char d = (char_of (48 + d) :: char)"

fun dec_digits :: "nat \<Rightarrow> nat list" where
  "dec_digits n = (let q = n div 10; d = n mod 10 in if q = 0 then [d] else dec_digits q @ [d])"

declare dec_digits.simps [simp del]

definition utoa :: "nat \<Rightarrow> string" where
  "utoa n = map digit_char (dec_digits n)"

definition itoa :: "int \<Rightarrow> string" where
  "itoa i = (let magnitude = utoa (nat \<bar>i\<bar>) in if 0 \<le> i then magnitude else CHR ''-'' # magnitude)"

lemma dec_digits_nonempty [simp]: "dec_digits n \<noteq> []"
  by (subst dec_digits.simps) (simp add: Let_def)

lemma dec_digits_less_10: "d \<in> set (dec_digits n) \<Longrightarrow> d < 10"
proof (induction n rule: dec_digits.induct)
  case (1 n)
  show ?case
  proof (cases "n div 10 = 0")
    case True
    with "1.prems" show ?thesis by (simp add: dec_digits.simps [of n])
  next
    case False
    with "1.prems" have "d \<in> set (dec_digits (n div 10)) \<or> d = n mod 10"
      by (subst (asm) dec_digits.simps) (auto simp: Let_def)
    with "1.IH" False show ?thesis by auto
  qed
qed

section \<open>Strings\<close>

text \<open>\<^verbatim>\<open>strings.Split(s, sep)\<close> for a one-byte separator: always at least one part.\<close>

fun split_on :: "'a \<Rightarrow> 'a list \<Rightarrow> 'a list list" where
  "split_on c [] = [[]]"
| "split_on c (x # xs) =
     (if x = c then [] # split_on c xs
      else (case split_on c xs of [] \<Rightarrow> [[x]] | p # ps \<Rightarrow> (x # p) # ps))"

text \<open>\<^verbatim>\<open>strings.Join(parts, sep)\<close>.\<close>

fun join_with :: "'a list \<Rightarrow> 'a list list \<Rightarrow> 'a list" where
  "join_with sep [] = []"
| "join_with sep [p] = p"
| "join_with sep (p # q # ps) = p @ sep @ join_with sep (q # ps)"

lemma split_on_nonempty [simp]: "split_on c xs \<noteq> []"
  by (cases xs) (auto split: list.split)

lemma join_split_on: "join_with [c] (split_on c xs) = xs"
proof (induction xs)
  case Nil
  then show ?case by simp
next
  case (Cons x xs)
  obtain p ps where s: "split_on c xs = p # ps"
    by (cases "split_on c xs") auto
  with Cons.IH show ?case
    by (cases ps) auto
qed

text \<open>\<^verbatim>\<open>strings.HasPrefix\<close> and \<^verbatim>\<open>strings.Contains\<close>.\<close>

fun has_prefix :: "'a list \<Rightarrow> 'a list \<Rightarrow> bool" where
  "has_prefix s [] = True"
| "has_prefix [] (p # ps) = False"
| "has_prefix (x # xs) (p # ps) = (x = p \<and> has_prefix xs ps)"

fun contains :: "'a list \<Rightarrow> 'a list \<Rightarrow> bool" where
  "contains [] sub = (sub = [])"
| "contains (x # xs) sub = (has_prefix (x # xs) sub \<or> contains xs sub)"

lemma has_prefix_iff: "has_prefix s p \<longleftrightarrow> (\<exists>r. s = p @ r)"
  by (induction s p rule: has_prefix.induct) auto

lemma contains_iff: "contains s sub \<longleftrightarrow> (\<exists>l r. s = l @ sub @ r)"
proof (induction s)
  case Nil
  then show ?case by simp
next
  case (Cons x xs)
  have "contains (x # xs) sub \<longleftrightarrow> (\<exists>r. x # xs = sub @ r) \<or> (\<exists>l r. xs = l @ sub @ r)"
    using Cons.IH by (simp only: contains.simps has_prefix_iff)
  also have "\<dots> \<longleftrightarrow> (\<exists>l r. x # xs = l @ sub @ r)"
    by (metis append_Cons append_Nil list.inject neq_Nil_conv)
  finally show ?case .
qed

section \<open>Lists\<close>

text \<open>
  Go's \<^verbatim>\<open>sort.SliceStable\<close> with a \<^verbatim>\<open>less\<close> that compares a key: the library's stable
  \<open>sort_key\<close>. A comparison by descending score negates the key.
\<close>

lemma length_filter_less_length:
  "x \<in> set xs \<Longrightarrow> \<not> P x \<Longrightarrow> length (filter P xs) < length xs"
  by (induction xs) (auto simp: le_imp_less_Suc)

end
