(* ===== verification/Stream_Reader.thy ===== *)
theory Stream_Reader
  imports Prelude
begin

text \<open>
  The interface between a reader that accumulates the bytes of a connection and the parser
  that cuts complete messages off the front of its buffer. The parser answers with one of
  three outcomes; the reader keeps calling it until the buffer holds no complete message.
  The law of the parser is that an answer it has given does not change when more bytes
  arrive behind the ones it has looked at; what the reader proves from it is that the
  messages delivered do not depend on how the connection chops the bytes up.
\<close>

section \<open>Outcomes of one parsing attempt\<close>

datatype ('m, 'b) outcome = Await | Emit 'm "'b list" | Crash

text \<open>
  What a reader has done so far: the messages it delivered, in order, and the bytes left in
  its buffer, or \<open>None\<close> when the parser crashed.
\<close>

type_synonym ('m, 'b) reading = "'m list \<times> 'b list option"

definition then_read :: "('m, 'b) reading \<Rightarrow> ('b list \<Rightarrow> ('m, 'b) reading) \<Rightarrow> ('m, 'b) reading" where
  "then_read r k =
     (case r of (ms, None) \<Rightarrow> (ms, None) | (ms, Some b) \<Rightarrow> (case k b of (ms', b') \<Rightarrow> (ms @ ms', b')))"

lemma then_read_simps [simp]:
  "then_read (ms, None) k = (ms, None)"
  "then_read ([], Some b) k = k b"
  "then_read (m # ms, r) k = (m # fst (then_read (ms, r) k), snd (then_read (ms, r) k))"
  by (auto simp: then_read_def split: option.split prod.split)

lemma then_read_assoc: "then_read (then_read r k) h = then_read r (\<lambda>b. then_read (k b) h)"
  by (auto simp: then_read_def split: option.splits prod.splits)

section \<open>The interface\<close>

locale stream_reader =
  fixes attempt :: "'b list \<Rightarrow> ('m, 'b) outcome"
    and drain :: "'b list \<Rightarrow> ('m, 'b) reading"
  assumes emit_shrinks: "attempt b = Emit m r \<Longrightarrow> length r < length b"
    and emit_stable: "attempt b = Emit m r \<Longrightarrow> attempt (b @ c) = Emit m (r @ c)"
    and crash_stable: "attempt b = Crash \<Longrightarrow> attempt (b @ c) = Crash"
    and drain_unfold: "drain b =
          (case attempt b of
             Await \<Rightarrow> ([], Some b)
           | Crash \<Rightarrow> ([], None)
           | Emit m r \<Rightarrow> (m # fst (drain r), snd (drain r)))"
begin

lemma drain_append: "drain (b @ c) = then_read (drain b) (\<lambda>r. drain (r @ c))"
proof (induction b rule: length_induct)
  case (1 b)
  show ?case
  proof (cases "attempt b")
    case Await
    then show ?thesis by (simp add: drain_unfold [of b])
  next
    case Crash
    then show ?thesis by (simp add: drain_unfold [of b] drain_unfold [of "b @ c"] crash_stable)
  next
    case (Emit m r)
    with 1 have "drain (r @ c) = then_read (drain r) (\<lambda>r. drain (r @ c))"
      by (simp add: emit_shrinks)
    with Emit show ?thesis
      by (simp add: drain_unfold [of b] drain_unfold [of "b @ c"] emit_stable)
  qed
qed

lemma drain_idle: "snd (drain b) = Some r \<Longrightarrow> attempt r = Await"
proof (induction b rule: length_induct)
  case (1 b)
  then show ?case
    by (cases "attempt b") (auto simp: drain_unfold [of b] dest: emit_shrinks)
qed

lemma drain_chunks:
  "foldl (\<lambda>r c. then_read r (\<lambda>b. drain (b @ c))) (drain s) cs = drain (s @ concat cs)"
proof (induction cs arbitrary: s)
  case Nil
  then show ?case by simp
next
  case (Cons c cs)
  have "foldl (\<lambda>r c. then_read r (\<lambda>b. drain (b @ c))) (drain s) (c # cs)
      = foldl (\<lambda>r c. then_read r (\<lambda>b. drain (b @ c))) (drain (s @ c)) cs"
    by (simp add: drain_append [of s c])
  with Cons.IH [of "s @ c"] show ?case by simp
qed

lemma drain_messages:
  assumes "\<And>m r. m \<in> set ms \<Longrightarrow> attempt (enc m @ r) = Emit m r" and "attempt t = Await"
  shows "drain (concat (map enc ms) @ t) = (ms, Some t)"
  using assms
proof (induction ms)
  case Nil
  then show ?case by (simp add: drain_unfold [of t])
next
  case (Cons m ms)
  let ?rest = "concat (map enc ms) @ t"
  have "attempt (enc m @ ?rest) = Emit m ?rest"
    by (rule Cons.prems) simp
  moreover have "drain ?rest = (ms, Some t)"
    by (rule Cons.IH) (simp_all add: Cons.prems)
  ultimately show ?case
    by (subst drain_unfold) simp
qed

end

end
