(* ===== verification/Go_Float.thy ===== *)
theory Go_Float
  imports Complex_Main Prelude "HOL-Library.Log_Nat"
begin

text \<open>
  Go's \<^verbatim>\<open>float64\<close>, IEEE 754 binary64 with round to nearest, ties to even. A finite number
  is the rational number it stands for; negative zero, the infinities and NaN are values of
  their own. Arithmetic is computed exactly on rationals and rounded once, which is what the
  standard prescribes for the basic operations. Every definition computes; on numbers
  of at most 53 significant bits the rounding is the identity (\<open>round64_dyadic\<close>), which is how
  concrete float expressions are evaluated.
\<close>

section \<open>Values\<close>

datatype f64 = NaN | PInf | NInf | NZero | Fin rat

text \<open>The numeric value of a finite float; both zeros have value 0.\<close>

fun fval :: "f64 \<Rightarrow> rat" where
  "fval (Fin x) = x"
| "fval _ = 0"

definition is_finite :: "f64 \<Rightarrow> bool" where
  "is_finite f \<longleftrightarrow> (case f of Fin _ \<Rightarrow> True | NZero \<Rightarrow> True | _ \<Rightarrow> False)"

definition is_nan :: "f64 \<Rightarrow> bool" where
  "is_nan f \<longleftrightarrow> f = NaN"

definition is_inf :: "f64 \<Rightarrow> bool" where
  "is_inf f \<longleftrightarrow> f = PInf \<or> f = NInf"

section \<open>Rounding\<close>

text \<open>Powers of two with an integer exponent.\<close>

definition pow2 :: "int \<Rightarrow> rat" where
  "pow2 e = 2 powi e"

text \<open>
  \<open>ilog2 x\<close> is the integer \<open>e\<close> with \<open>2^e \<le> x < 2^(e+1)\<close>, for positive \<open>x\<close>, read off
  the number of binary digits of the integer part of \<open>x\<close> or of \<open>1 / x\<close>.
\<close>

definition ilog2 :: "rat \<Rightarrow> int" where
  "ilog2 x =
     (if 1 \<le> x then bitlen \<lfloor>x\<rfloor> - 1
      else let e = bitlen \<lfloor>1 / x\<rfloor> - 1 in if x * pow2 e = 1 then - e else - e - 1)"

text \<open>Round to the nearest integer, a tie to the even one.\<close>

definition round_even :: "rat \<Rightarrow> int" where
  "round_even y =
     (let k = \<lfloor>y\<rfloor>; d = y - of_int k
      in if d < 1 / 2 then k else if 1 / 2 < d then k + 1 else if even k then k else k + 1)"

text \<open>
  The exponent of the last place of a positive \<open>x\<close>: 53 significant bits, and nothing below
  \<open>2^-1074\<close>. \<open>round64\<close> rounds to that place, with no upper bound on the exponent.
\<close>

definition last_place :: "rat \<Rightarrow> int" where
  "last_place x = max (- 1074) (ilog2 x - 52)"

definition round64 :: "rat \<Rightarrow> rat" where
  "round64 x =
     (if x = 0 then 0
      else let u = pow2 (last_place \<bar>x\<bar>) in u * of_int (round_even (x / u)))"

text \<open>
  The float nearest to a rational: overflow gives an infinity, and a result that rounds to
  zero keeps the sign \<open>neg\<close> of the exact result.
\<close>

definition to_float :: "bool \<Rightarrow> rat \<Rightarrow> f64" where
  "to_float neg x =
     (let r = round64 x in
      if r = 0 then (if neg then NZero else Fin 0)
      else if pow2 1024 \<le> r then PInf
      else if r \<le> - pow2 1024 then NInf
      else Fin r)"

text \<open>A float the machine can hold.\<close>

fun wf_f64 :: "f64 \<Rightarrow> bool" where
  "wf_f64 (Fin x) \<longleftrightarrow> round64 x = x \<and> \<bar>x\<bar> < pow2 1024"
| "wf_f64 _ \<longleftrightarrow> True"

section \<open>Comparison\<close>

text \<open>Go's \<^verbatim>\<open>==\<close>, \<^verbatim>\<open><\<close> and \<^verbatim>\<open><=\<close>: every comparison with NaN is false, the two zeros are equal.\<close>

fun f_eq :: "f64 \<Rightarrow> f64 \<Rightarrow> bool" where
  "f_eq NaN _ = False"
| "f_eq _ NaN = False"
| "f_eq PInf b = (b = PInf)"
| "f_eq NInf b = (b = NInf)"
| "f_eq a PInf = False"
| "f_eq a NInf = False"
| "f_eq a b = (fval a = fval b)"

fun f_lt :: "f64 \<Rightarrow> f64 \<Rightarrow> bool" where
  "f_lt NaN _ = False"
| "f_lt _ NaN = False"
| "f_lt PInf _ = False"
| "f_lt NInf b = (b \<noteq> NInf)"
| "f_lt a PInf = True"
| "f_lt a NInf = False"
| "f_lt a b = (fval a < fval b)"

definition f_le :: "f64 \<Rightarrow> f64 \<Rightarrow> bool" where
  "f_le a b \<longleftrightarrow> f_lt a b \<or> f_eq a b"

section \<open>Arithmetic\<close>

fun f_neg :: "f64 \<Rightarrow> f64" where
  "f_neg NaN = NaN"
| "f_neg PInf = NInf"
| "f_neg NInf = PInf"
| "f_neg NZero = Fin 0"
| "f_neg (Fin x) = (if x = 0 then NZero else Fin (- x))"

text \<open>The sign bit, of a value that is not NaN.\<close>

fun f_signbit :: "f64 \<Rightarrow> bool" where
  "f_signbit NInf = True"
| "f_signbit NZero = True"
| "f_signbit (Fin x) = (x < 0)"
| "f_signbit _ = False"

definition f_abs :: "f64 \<Rightarrow> f64" where
  "f_abs a = (if f_signbit a then f_neg a else a)"

fun f_add :: "f64 \<Rightarrow> f64 \<Rightarrow> f64" where
  "f_add NaN _ = NaN"
| "f_add _ NaN = NaN"
| "f_add PInf b = (if b = NInf then NaN else PInf)"
| "f_add NInf b = (if b = PInf then NaN else NInf)"
| "f_add _ PInf = PInf"
| "f_add _ NInf = NInf"
| "f_add NZero NZero = NZero"
| "f_add a b = (let s = fval a + fval b in to_float (s < 0) s)"

definition f_sub :: "f64 \<Rightarrow> f64 \<Rightarrow> f64" where
  "f_sub a b = f_add a (f_neg b)"

definition signed_inf :: "bool \<Rightarrow> f64" where
  "signed_inf neg = (if neg then NInf else PInf)"

definition signed_zero :: "bool \<Rightarrow> f64" where
  "signed_zero neg = (if neg then NZero else Fin 0)"

definition f_mul :: "f64 \<Rightarrow> f64 \<Rightarrow> f64" where
  "f_mul a b =
     (let neg = (f_signbit a \<noteq> f_signbit b) in
      if a = NaN \<or> b = NaN then NaN
      else if is_inf a then (if is_finite b \<and> fval b = 0 then NaN else signed_inf neg)
      else if is_inf b then (if fval a = 0 then NaN else signed_inf neg)
      else to_float neg (fval a * fval b))"

definition f_div :: "f64 \<Rightarrow> f64 \<Rightarrow> f64" where
  "f_div a b =
     (let neg = (f_signbit a \<noteq> f_signbit b) in
      if a = NaN \<or> b = NaN then NaN
      else if is_inf a then (if is_inf b then NaN else signed_inf neg)
      else if is_inf b then signed_zero neg
      else if fval b = 0 then (if fval a = 0 then NaN else signed_inf neg)
      else to_float neg (fval a / fval b))"

text \<open>Truncation towards zero, and \<^verbatim>\<open>math.Mod\<close>: the exact remainder, with the sign of \<open>a\<close>.\<close>

definition trunc_rat :: "rat \<Rightarrow> int" where
  "trunc_rat x = (if 0 \<le> x then \<lfloor>x\<rfloor> else \<lceil>x\<rceil>)"

definition f_mod :: "f64 \<Rightarrow> f64 \<Rightarrow> f64" where
  "f_mod a b =
     (if a = NaN \<or> b = NaN \<or> is_inf a \<or> (is_finite b \<and> fval b = 0) then NaN
      else if is_inf b then a
      else let r = fval a - fval b * of_int (trunc_rat (fval a / fval b))
           in if r = 0 then signed_zero (f_signbit a) else Fin r)"

text \<open>\<^verbatim>\<open>math.Floor\<close>, \<^verbatim>\<open>math.Min\<close> and \<^verbatim>\<open>math.Max\<close>.\<close>

fun f_floor :: "f64 \<Rightarrow> f64" where
  "f_floor (Fin x) = Fin (of_int \<lfloor>x\<rfloor>)"
| "f_floor a = a"

definition f_min :: "f64 \<Rightarrow> f64 \<Rightarrow> f64" where
  "f_min a b =
     (if a = NInf \<or> b = NInf then NInf
      else if a = NaN \<or> b = NaN then NaN
      else if a = NZero \<and> f_eq b NZero then a
      else if f_lt a b then a else b)"

definition f_max :: "f64 \<Rightarrow> f64 \<Rightarrow> f64" where
  "f_max a b =
     (if a = PInf \<or> b = PInf then PInf
      else if a = NaN \<or> b = NaN then NaN
      else if b = NZero \<and> f_eq a b then a
      else if f_lt b a then a else b)"

text \<open>Conversion of an integer, Go's \<^verbatim>\<open>float64(i)\<close>.\<close>

definition f_of_int :: "int \<Rightarrow> f64" where
  "f_of_int i = to_float False (of_int i)"

section \<open>Exactness of the rounding\<close>

lemma pow2_pos [simp]: "0 < pow2 e"
  by (simp add: pow2_def)

lemma pow2_nonzero [simp]: "pow2 e \<noteq> 0"
  by (simp add: pow2_def)

lemma pow2_add: "pow2 (a + b) = pow2 a * pow2 b"
  by (simp add: pow2_def power_int_add)

lemma pow2_diff: "pow2 (a - b) = pow2 a / pow2 b"
  by (simp add: pow2_def power_int_diff)

lemma pow2_minus: "pow2 (- a) = 1 / pow2 a"
  by (simp add: pow2_def power_int_minus divide_simps)

lemma pow2_0 [simp]: "pow2 0 = 1"
  by (simp add: pow2_def)

lemma pow2_1 [simp]: "pow2 1 = 2"
  by (simp add: pow2_def)

lemma pow2_nat: "0 \<le> e \<Longrightarrow> pow2 e = of_int (2 ^ nat e)"
  by (simp add: pow2_def power_int_def)

lemma pow2_mono: "a \<le> b \<Longrightarrow> pow2 a \<le> pow2 b"
  unfolding pow2_def by (rule power_int_increasing) auto

lemma pow2_strict_mono: "a < b \<Longrightarrow> pow2 a < pow2 b"
  unfolding pow2_def by (rule power_int_strict_increasing) auto

lemma pow2_less_iff: "pow2 a < pow2 b \<longleftrightarrow> a < b"
  using pow2_mono [of b a] pow2_strict_mono [of a b] by linarith

lemma floor_log_bounds:
  fixes y :: rat
  assumes "1 \<le> y"
  defines "e \<equiv> bitlen \<lfloor>y\<rfloor> - 1"
  shows "pow2 e \<le> y \<and> y < pow2 (e + 1)"
proof -
  have pos: "0 < \<lfloor>y\<rfloor>"
    using assms(1) by simp
  then have len: "0 \<le> e"
    unfolding e_def using bitlen_le_iff_power [of "\<lfloor>y\<rfloor>" 0] by auto
  have lo: "2 ^ nat e \<le> \<lfloor>y\<rfloor>" and hi: "\<lfloor>y\<rfloor> < 2 ^ nat (e + 1)"
    using bitlen_bounds [OF pos] by (auto simp: e_def)
  have "pow2 e \<le> of_int \<lfloor>y\<rfloor>"
    unfolding pow2_nat [OF len] using lo by (simp only: of_int_le_iff)
  moreover have "pow2 (e + 1) = of_int (2 ^ nat (e + 1))"
    using len by (simp add: pow2_nat)
  moreover have "of_int (\<lfloor>y\<rfloor> + 1) \<le> (of_int (2 ^ nat (e + 1)) :: rat)"
    using hi by (simp only: of_int_le_iff)
  ultimately show ?thesis
    using of_int_floor_le [of y] floor_correct [of y] by (intro conjI) linarith+
qed

lemma ilog2_bounds:
  assumes "0 < x"
  shows "pow2 (ilog2 x) \<le> x \<and> x < pow2 (ilog2 x + 1)"
proof (cases "1 \<le> x")
  case True
  then show ?thesis
    using floor_log_bounds [of x] by (simp add: ilog2_def)
next
  case False
  define e where "e = bitlen \<lfloor>1 / x\<rfloor> - 1"
  have "1 \<le> 1 / x"
    using assms False by (simp add: divide_simps)
  from floor_log_bounds [OF this]
  have b: "pow2 e \<le> 1 / x" "1 / x < pow2 (e + 1)"
    by (auto simp: e_def)
  have lo: "x * pow2 e \<le> 1" and hi: "1 < x * pow2 (e + 1)"
    using b assms by (auto simp: field_simps)
  show ?thesis
  proof (cases "x * pow2 e = 1")
    case True
    then have "x = pow2 (- e)"
      by (simp add: pow2_minus divide_simps)
    moreover have "ilog2 x = - e"
      using True \<open>\<not> 1 \<le> x\<close> by (simp add: ilog2_def e_def Let_def)
    ultimately show ?thesis
      by (simp add: pow2_strict_mono)
  next
    case ne: False
    have "ilog2 x = - (e + 1)"
      using ne \<open>\<not> 1 \<le> x\<close> by (simp add: ilog2_def e_def Let_def)
    moreover have "pow2 (- (e + 1)) < x"
      unfolding pow2_minus using hi by (simp add: divide_simps)
    moreover have "x < pow2 (- e)"
      unfolding pow2_minus using lo ne by (simp add: divide_simps)
    ultimately show ?thesis
      by simp
  qed
qed

lemma round_even_of_int [simp]: "round_even (of_int k) = k"
  by (simp add: round_even_def Let_def)

lemma round64_0 [simp]: "round64 0 = 0"
  by (simp add: round64_def)

text \<open>A number of at most 53 significant bits, above the least exponent, is left unchanged.\<close>

lemma round64_dyadic:
  assumes "\<bar>m\<bar> < 2 ^ 53" "- 1074 \<le> e"
  shows "round64 (of_int m * pow2 e) = of_int m * pow2 e"
proof (cases "m = 0")
  case False
  define x where "x = of_int m * pow2 e"
  define p where "p = last_place \<bar>x\<bar>"
  have ab: "\<bar>x\<bar> = of_int \<bar>m\<bar> * pow2 e"
    by (simp add: x_def abs_mult abs_of_pos)
  have pos: "0 < \<bar>x\<bar>"
    using False by (simp add: x_def)
  have "of_int \<bar>m\<bar> < (of_int (2 ^ 53) :: rat)"
    using assms(1) by (simp only: of_int_less_iff)
  then have "\<bar>x\<bar> < pow2 (53 + e)"
    unfolding ab pow2_add by (simp add: pow2_nat)
  then have "pow2 (ilog2 \<bar>x\<bar>) < pow2 (53 + e)"
    using ilog2_bounds [OF pos] by linarith
  then have "p \<le> e"
    using assms(2) by (simp add: p_def last_place_def pow2_less_iff)
  then have "x / pow2 p = of_int (m * 2 ^ nat (e - p))"
    using pow2_nat [of "e - p"] by (simp add: x_def pow2_diff flip: times_divide_eq_right)
  then have "pow2 p * of_int (round_even (x / pow2 p)) = x"
    by (metis round_even_of_int nonzero_mult_div_cancel_left pow2_nonzero times_divide_eq_right)
  then show ?thesis
    using pos by (simp add: round64_def Let_def p_def flip: x_def)
qed simp

lemma round64_dyadic_le:
  assumes "\<bar>m\<bar> \<le> 2 ^ 53" "- 1074 \<le> e"
  shows "round64 (of_int m * pow2 e) = of_int m * pow2 e"
proof (cases "\<bar>m\<bar> = 2 ^ 53")
  case True
  then obtain k :: int where "m = 2 * k" "\<bar>k\<bar> < 2 ^ 53"
    by (cases "0 \<le> m") (force intro: that [of "2 ^ 52"] that [of "- (2 ^ 52)"])+
  then show ?thesis
    using round64_dyadic [of k "e + 1"] assms(2) by (simp add: pow2_add mult.commute mult.left_commute)
next
  case False
  with assms show ?thesis
    by (intro round64_dyadic) auto
qed

lemma round_even_cases: "\<lfloor>y\<rfloor> \<le> round_even y \<and> round_even y \<le> \<lfloor>y\<rfloor> + 1"
  by (simp add: round_even_def Let_def)

lemma round_even_mono: "a \<le> b \<Longrightarrow> round_even a \<le> round_even b"
proof (cases "\<lfloor>a\<rfloor> = \<lfloor>b\<rfloor>")
  case False
  assume "a \<le> b"
  with False have "\<lfloor>a\<rfloor> + 1 \<le> \<lfloor>b\<rfloor>"
    using floor_mono [of a b] by linarith
  then show ?thesis
    using round_even_cases [of a] round_even_cases [of b] by auto
qed (simp add: round_even_def Let_def)

lemma round_even_minus: "round_even (- a) = - round_even a"
proof (cases "a = of_int \<lfloor>a\<rfloor>")
  case True
  then show ?thesis
    by (metis of_int_minus round_even_of_int)
next
  case False
  then have "\<lfloor>- a\<rfloor> = - \<lfloor>a\<rfloor> - 1"
    by (simp add: floor_minus ceiling_altdef)
  then show ?thesis
    by (auto simp: round_even_def Let_def)
qed

lemma round64_minus: "round64 (- x) = - round64 x"
  by (simp add: round64_def Let_def round_even_minus)

lemma ilog2_mono: "0 < x \<Longrightarrow> x \<le> y \<Longrightarrow> ilog2 x \<le> ilog2 y"
  using ilog2_bounds [of x] ilog2_bounds [of y] pow2_less_iff [of "ilog2 x" "ilog2 y + 1"] by auto

lemma round64_nonneg: "0 \<le> x \<Longrightarrow> 0 \<le> round64 x"
  using round_even_mono [of 0 "x / pow2 (last_place \<bar>x\<bar>)"] round_even_of_int [of 0]
  by (simp add: round64_def Let_def less_imp_le)

lemma round64_mono_pos:
  assumes "0 < x" "x \<le> y"
  shows "round64 x \<le> round64 y"
proof (cases "last_place x = last_place y")
  case True
  have "round_even (x / pow2 (last_place y)) \<le> round_even (y / pow2 (last_place y))"
    by (intro round_even_mono divide_right_mono) (use assms in \<open>auto simp: less_imp_le\<close>)
  with assms True show ?thesis
    by (simp add: round64_def Let_def)
next
  case False
  define p q where "p = last_place x" and "q = last_place y"
  have le: "ilog2 x \<le> ilog2 y"
    using assms by (rule ilog2_mono)
  with False have q: "q = ilog2 y - 52" and pq: "p < q"
    by (auto simp: p_def q_def last_place_def)
  then have lt: "ilog2 x + 1 \<le> ilog2 y"
    by (auto simp: p_def q_def last_place_def)
  have "x \<le> pow2 (ilog2 y)"
    using ilog2_bounds [of x] assms pow2_mono [OF lt] by auto
  then have "x / pow2 p \<le> pow2 (ilog2 y - p)"
    by (simp add: pow2_diff divide_right_mono less_imp_le)
  also have up: "\<dots> = of_int (2 ^ nat (ilog2 y - p))"
    using pq q by (intro pow2_nat) simp
  finally have "round_even (x / pow2 p) \<le> 2 ^ nat (ilog2 y - p)"
    using round_even_mono round_even_of_int by metis
  then have "of_int (round_even (x / pow2 p)) \<le> pow2 (ilog2 y - p)"
    unfolding up by (simp only: of_int_le_iff)
  then have "round64 x \<le> pow2 p * pow2 (ilog2 y - p)"
    using assms by (simp add: round64_def Let_def p_def)
  also have "\<dots> = pow2 q * pow2 52"
    by (simp add: q flip: pow2_add)
  also have "\<dots> \<le> round64 y"
  proof -
    have "pow2 52 \<le> y / pow2 q"
      using ilog2_bounds [of y] assms by (simp add: q pow2_diff field_simps)
    then have "2 ^ 52 \<le> round_even (y / pow2 q)"
      using round_even_mono [of "of_int (2 ^ 52)"] round_even_of_int [of "2 ^ 52"]
      by (simp add: pow2_nat)
    then have "pow2 52 \<le> of_int (round_even (y / pow2 q))"
      unfolding pow2_nat [of 52, simplified] by (simp flip: of_int_le_iff)
    with assms show ?thesis
      by (simp add: round64_def Let_def q_def)
  qed
  finally show ?thesis .
qed

text \<open>Rounding is monotone.\<close>

lemma round64_mono: "x \<le> y \<Longrightarrow> round64 x \<le> round64 y"
proof -
  assume le: "x \<le> y"
  consider "0 < x" | "x \<le> 0" "0 \<le> y" | "y < 0" by linarith
  then show ?thesis
  proof cases
    case 1
    then show ?thesis using le by (rule round64_mono_pos)
  next
    case 2
    then show ?thesis
      using round64_nonneg [of "- x"] round64_nonneg [of y] by (simp add: round64_minus)
  next
    case 3
    with le show ?thesis
      using round64_mono_pos [of "- y" "- x"] by (simp add: round64_minus)
  qed
qed

lemma round64_form: "\<exists>m e. round64 x = of_int m * pow2 e \<and> \<bar>m\<bar> \<le> 2 ^ 53 \<and> - 1074 \<le> e"
proof (cases "x = 0")
  case False
  define p where "p = last_place \<bar>x\<bar>"
  have "ilog2 \<bar>x\<bar> + 1 \<le> p + 53"
    by (simp add: p_def last_place_def)
  then have "\<bar>x\<bar> \<le> pow2 (p + 53)"
    using ilog2_bounds [of "\<bar>x\<bar>"] False pow2_mono [of "ilog2 \<bar>x\<bar> + 1" "p + 53"] by simp
  then have "\<bar>x / pow2 p\<bar> \<le> of_int (2 ^ 53)"
    by (simp add: pow2_add pow2_nat [of 53, simplified] field_simps abs_of_pos)
  then have "of_int (- (2 ^ 53)) \<le> x / pow2 p" "x / pow2 p \<le> of_int (2 ^ 53)"
    unfolding abs_le_iff of_int_minus by linarith+
  then have "- (2 ^ 53) \<le> round_even (x / pow2 p)" "round_even (x / pow2 p) \<le> 2 ^ 53"
    using round_even_mono [of "of_int (- (2 ^ 53))" "x / pow2 p"]
      round_even_mono [of "x / pow2 p" "of_int (2 ^ 53)"]
    unfolding round_even_of_int by blast+
  then have "\<bar>round_even (x / pow2 p)\<bar> \<le> 2 ^ 53"
    by simp
  moreover have "- 1074 \<le> p"
    by (simp add: p_def last_place_def)
  ultimately show ?thesis
    using False by (intro exI [of _ "round_even (x / pow2 p)"] exI [of _ p])
      (simp add: round64_def Let_def p_def)
qed (auto intro!: exI [of _ "0 :: int"])

lemma round64_idem [simp]: "round64 (round64 x) = round64 x"
  using round64_form [of x] round64_dyadic_le by metis

lemma wf_to_float: "wf_f64 (to_float n x)"
  by (auto simp: to_float_def Let_def abs_less_iff)

lemma wf_f_of_int [simp]: "wf_f64 (f_of_int i)"
  by (simp add: f_of_int_def wf_to_float)

lemma round64_of_int: "\<bar>m\<bar> < 2 ^ 53 \<Longrightarrow> round64 (of_int m) = of_int m"
  using round64_dyadic [of m 0] by simp

lemma pow2_1024_big: "of_int (2 ^ 53) < pow2 1024"
  using pow2_strict_mono [of 53 1024] by (simp add: pow2_nat [of 53, simplified])

lemma to_float_of_int:
  "\<bar>m\<bar> < 2 ^ 53 \<Longrightarrow> to_float n (of_int m) = (if m = 0 then signed_zero n else Fin (of_int m))"
proof -
  assume m: "\<bar>m\<bar> < 2 ^ 53"
  then have "\<bar>of_int m :: rat\<bar> < of_int (2 ^ 53)"
    by (simp only: of_int_less_iff flip: of_int_abs)
  then have "of_int m < pow2 1024" "- pow2 1024 < of_int m"
    using pow2_1024_big by linarith+
  with m show ?thesis
    by (simp add: to_float_def round64_of_int Let_def signed_zero_def)
qed

lemma to_float_numerals [simp]:
  "to_float n 0 = signed_zero n"
  "to_float n 1 = Fin 1"
  "to_float n (- 1) = Fin (- 1)"
  "(numeral k :: int) < 2 ^ 53 \<Longrightarrow> to_float n (numeral k) = Fin (numeral k)"
  "(numeral k :: int) < 2 ^ 53 \<Longrightarrow> to_float n (- numeral k) = Fin (- numeral k)"
  using to_float_of_int [of 0 n] to_float_of_int [of 1 n] to_float_of_int [of "- 1" n]
    to_float_of_int [of "numeral k" n] to_float_of_int [of "- numeral k" n] by simp_all

lemma f_of_int_exact: "\<bar>i\<bar> < 2 ^ 53 \<Longrightarrow> f_of_int i = Fin (of_int i)"
  by (simp add: f_of_int_def to_float_of_int signed_zero_def)

end
