(* ===== verification/Go_Text.thy ===== *)
theory Go_Text
  imports Main Prelude
begin

text \<open>
  Go's text encodings, as the \<^verbatim>\<open>[]rune(s)\<close> and \<^verbatim>\<open>string(runes)\<close> conversions and the package
  \<^verbatim>\<open>unicode/utf16\<close> perform them. A rune is a natural number, a UTF-16 code unit a natural number
  below 65536. Malformed input is replaced by U+FFFD, one byte or one code unit at a time.
\<close>

section \<open>Runes\<close>

definition rune_error :: nat where
  "rune_error = 65533"

definition is_surrogate :: "nat \<Rightarrow> bool" where
  "is_surrogate r \<longleftrightarrow> 55296 \<le> r \<and> r < 57344"

definition valid_rune :: "nat \<Rightarrow> bool" where
  "valid_rune r \<longleftrightarrow> r < 1114112 \<and> \<not> is_surrogate r"

section \<open>UTF-8\<close>

definition is_cont :: "nat \<Rightarrow> bool" where
  "is_cont b \<longleftrightarrow> 128 \<le> b \<and> b < 192"

text \<open>The range the second byte of a longer sequence must lie in, given the first.\<close>

definition second_ok :: "nat \<Rightarrow> nat \<Rightarrow> bool" where
  "second_ok b0 b1 \<longleftrightarrow>
     (if b0 = 224 then 160 else if b0 = 240 then 144 else 128) \<le> b1 \<and>
     b1 < (if b0 = 237 then 160 else if b0 = 244 then 144 else 192)"

text \<open>The rune at the front of a non-empty byte sequence, and the number of bytes it takes.\<close>

definition decode_rune :: "nat list \<Rightarrow> nat \<times> nat" where
  "decode_rune bs =
     (case bs of
        [] \<Rightarrow> (rune_error, 0)
      | b0 # bs1 \<Rightarrow>
          if b0 < 128 then (b0, 1)
          else if 194 \<le> b0 \<and> b0 < 224 then
            (case bs1 of
               b1 # _ \<Rightarrow> if is_cont b1 then ((b0 - 192) * 64 + (b1 - 128), 2) else (rune_error, 1)
             | _ \<Rightarrow> (rune_error, 1))
          else if 224 \<le> b0 \<and> b0 < 240 then
            (case bs1 of
               b1 # b2 # _ \<Rightarrow>
                 if second_ok b0 b1 \<and> is_cont b2
                 then ((b0 - 224) * 4096 + (b1 - 128) * 64 + (b2 - 128), 3)
                 else (rune_error, 1)
             | _ \<Rightarrow> (rune_error, 1))
          else if 240 \<le> b0 \<and> b0 < 245 then
            (case bs1 of
               b1 # b2 # b3 # _ \<Rightarrow>
                 if second_ok b0 b1 \<and> is_cont b2 \<and> is_cont b3
                 then ((b0 - 240) * 262144 + (b1 - 128) * 4096 + (b2 - 128) * 64 + (b3 - 128), 4)
                 else (rune_error, 1)
             | _ \<Rightarrow> (rune_error, 1))
          else (rune_error, 1))"

lemma decode_rune_width: "bs \<noteq> [] \<Longrightarrow> 0 < snd (decode_rune bs)"
  by (auto simp: decode_rune_def split: list.splits)

fun decode_utf8 :: "nat list \<Rightarrow> nat list" where
  "decode_utf8 [] = []"
| "decode_utf8 (b # bs) =
     (let (r, n) = decode_rune (b # bs) in r # decode_utf8 (drop (n - 1) bs))"

definition encode_rune :: "nat \<Rightarrow> nat list" where
  "encode_rune r0 =
     (let r = (if valid_rune r0 then r0 else rune_error) in
      if r < 128 then [r]
      else if r < 2048 then [192 + r div 64, 128 + r mod 64]
      else if r < 65536 then [224 + r div 4096, 128 + r div 64 mod 64, 128 + r mod 64]
      else [240 + r div 262144, 128 + r div 4096 mod 64, 128 + r div 64 mod 64, 128 + r mod 64])"

definition encode_utf8 :: "nat list \<Rightarrow> nat list" where
  "encode_utf8 rs = concat (map encode_rune rs)"

text \<open>The conversions between a string and its runes.\<close>

definition byte_of :: "char \<Rightarrow> nat" where
  "byte_of c = of_char c"

definition runes_of :: "string \<Rightarrow> nat list" where
  "runes_of s = decode_utf8 (map byte_of s)"

definition string_of_runes :: "nat list \<Rightarrow> string" where
  "string_of_runes rs = map char_of (encode_utf8 rs)"

section \<open>UTF-16\<close>

definition encode_unit :: "nat \<Rightarrow> nat list" where
  "encode_unit r =
     (if \<not> valid_rune r then [rune_error]
      else if r < 65536 then [r]
      else [55296 + (r - 65536) div 1024, 56320 + (r - 65536) mod 1024])"

definition encode_utf16 :: "nat list \<Rightarrow> nat list" where
  "encode_utf16 rs = concat (map encode_unit rs)"

fun decode_utf16 :: "nat list \<Rightarrow> nat list" where
  "decode_utf16 [] = []"
| "decode_utf16 (u # us) =
     (if \<not> is_surrogate u then u # decode_utf16 us
      else (case us of
              v # vs \<Rightarrow>
                if u < 56320 \<and> 56320 \<le> v \<and> v < 57344
                then ((u - 55296) * 1024 + (v - 56320) + 65536) # decode_utf16 vs
                else rune_error # decode_utf16 us
            | [] \<Rightarrow> [rune_error]))"

text \<open>The UTF-16 units of a string, and the string of a sequence of units.\<close>

definition units_of :: "string \<Rightarrow> nat list" where
  "units_of s = encode_utf16 (runes_of s)"

definition decode_units :: "nat list \<Rightarrow> string" where
  "decode_units us = string_of_runes (decode_utf16 us)"

section \<open>Round trips\<close>

text \<open>A number is the sum of its digits of six bits.\<close>

lemma six_bits: "(r :: nat) = r div 4096 * 4096 + r div 64 mod 64 * 64 + r mod 64"
proof -
  have "r div 64 = r div 4096 * 64 + r div 64 mod 64"
    using div_mult_mod_eq [of "r div 64" 64] div_mult2_eq [of r 64 64] by simp
  then show ?thesis
    using div_mult_mod_eq [of r 64] by linarith
qed

lemma six_bits_4:
  "(r :: nat) = r div 262144 * 262144 + r div 4096 mod 64 * 4096 + r div 64 mod 64 * 64 + r mod 64"
proof -
  have "r div 4096 = r div 262144 * 64 + r div 4096 mod 64"
    using div_mult_mod_eq [of "r div 4096" 64] div_mult2_eq [of r 4096 64] by simp
  then show ?thesis
    using six_bits [of r] by linarith
qed

lemma decode_encode_rune:
  assumes "valid_rune r"
  shows "decode_rune (encode_rune r @ bs) = (r, length (encode_rune r)) \<and> encode_rune r \<noteq> []"
proof -
  consider "r < 128" | "128 \<le> r" "r < 2048" | "2048 \<le> r" "r < 65536" | "65536 \<le> r"
    by linarith
  then show ?thesis
  proof cases
    case 1
    with assms show ?thesis
      by (simp add: encode_rune_def decode_rune_def Let_def)
  next
    case 2
    then have "2 \<le> r div 64" "r div 64 < 32"
      by auto
    with assms 2 show ?thesis
      by (simp add: encode_rune_def decode_rune_def Let_def is_cont_def)
  next
    case 3
    define a b c where "a = r div 4096" and "b = r div 64 mod 64" and "c = r mod 64"
    have r: "r = a * 4096 + b * 64 + c" and bc: "b < 64" "c < 64"
      unfolding a_def b_def c_def by (rule six_bits) simp_all
    then have a: "a < 16"
      using 3 by linarith
    have e: "encode_rune r = [224 + a, 128 + b, 128 + c]"
      using assms 3 by (simp add: encode_rune_def a_def b_def c_def)
    have "second_ok (224 + a) (128 + b)"
    proof -
      have "a = 0 \<Longrightarrow> 32 \<le> b" "a = 13 \<Longrightarrow> b < 32"
        using assms 3 r bc by (auto simp: valid_rune_def is_surrogate_def)
      with a bc show ?thesis
        by (auto simp: second_ok_def)
    qed
    with a bc show ?thesis
      unfolding e by (simp add: decode_rune_def is_cont_def r)
  next
    case 4
    define a b c d where "a = r div 262144" and "b = r div 4096 mod 64"
      and "c = r div 64 mod 64" and "d = r mod 64"
    have r: "r = a * 262144 + b * 4096 + c * 64 + d" and bcd: "b < 64" "c < 64" "d < 64"
      unfolding a_def b_def c_def d_def by (rule six_bits_4) simp_all
    then have a: "a < 5"
      using assms by (simp add: valid_rune_def)
    have e: "encode_rune r = [240 + a, 128 + b, 128 + c, 128 + d]"
      using assms 4 by (simp add: encode_rune_def a_def b_def c_def d_def)
    have "second_ok (240 + a) (128 + b)"
    proof -
      have "a = 0 \<Longrightarrow> 16 \<le> b" "a = 4 \<Longrightarrow> b < 16"
        using assms 4 r bcd by (auto simp: valid_rune_def)
      with a bcd show ?thesis
        by (auto simp: second_ok_def)
    qed
    with a bcd show ?thesis
      unfolding e by (simp add: decode_rune_def is_cont_def r)
  qed
qed

lemma decode_utf8_encode_rune:
  assumes "valid_rune r"
  shows "decode_utf8 (encode_rune r @ bs) = r # decode_utf8 bs"
proof -
  obtain c cs where e: "encode_rune r = c # cs"
    using decode_encode_rune [OF assms, of bs] by (cases "encode_rune r") auto
  with decode_encode_rune [OF assms, of bs] show ?thesis
    by simp
qed

lemma decode_encode_utf8: "\<forall>r \<in> set rs. valid_rune r \<Longrightarrow> decode_utf8 (encode_utf8 rs) = rs"
  by (induction rs) (auto simp: encode_utf8_def decode_utf8_encode_rune)

lemma encode_rune_bytes: "b \<in> set (encode_rune r) \<Longrightarrow> b < 256"
  by (auto simp: encode_rune_def Let_def valid_rune_def rune_error_def split: if_splits)

lemma runes_of_string_of_runes:
  assumes "\<forall>r \<in> set rs. valid_rune r"
  shows "runes_of (string_of_runes rs) = rs"
proof -
  have "map byte_of (map char_of (encode_utf8 rs)) = encode_utf8 rs"
    using encode_rune_bytes by (force simp: encode_utf8_def byte_of_def intro!: map_idI)
  then show ?thesis
    unfolding runes_of_def string_of_runes_def by (simp only: decode_encode_utf8 [OF assms])
qed

lemma decode_utf16_encode_unit:
  "valid_rune r \<Longrightarrow> decode_utf16 (encode_unit r @ us) = r # decode_utf16 us"
  by (auto simp: encode_unit_def valid_rune_def is_surrogate_def)

lemma decode_encode_utf16: "\<forall>r \<in> set rs. valid_rune r \<Longrightarrow> decode_utf16 (encode_utf16 rs) = rs"
  by (induction rs) (auto simp: encode_utf16_def decode_utf16_encode_unit)

end
