(* ===== verification/Go_Number.thy ===== *)
theory Go_Number
  imports Go_Float Go_Text
begin

text \<open>
  Go's conversions between strings and numbers: \<^verbatim>\<open>strconv.ParseFloat\<close> with its whole syntax,
  the shortest decimal digits that \<^verbatim>\<open>strconv.FormatFloat(f, verb, -1, 64)\<close> prints, and
  \<^verbatim>\<open>strings.TrimSpace\<close>. These are the standard library's functions, written out for the inputs
  the program gives them.
\<close>

section \<open>Character classes\<close>

definition is_dec :: "char \<Rightarrow> bool" where
  "is_dec c \<longleftrightarrow> 48 \<le> byte_of c \<and> byte_of c < 58"

definition dec_value :: "char \<Rightarrow> nat" where
  "dec_value c = byte_of c - 48"

text \<open>ASCII lower case, as \<^verbatim>\<open>c | 0x20\<close> gives it for a letter.\<close>

definition lower_char :: "char \<Rightarrow> char" where
  "lower_char c = (if 65 \<le> byte_of c \<and> byte_of c < 91 then char_of (byte_of c + 32) else c)"

definition hex_value :: "char \<Rightarrow> nat option" where
  "hex_value c =
     (let b = byte_of (lower_char c) in
      if is_dec c then Some (dec_value c)
      else if 97 \<le> b \<and> b < 103 then Some (b - 87) else None)"

section \<open>ParseFloat\<close>

datatype num_error = ErrSyntax | ErrRange

text \<open>
  \<^verbatim>\<open>underscoreOK\<close>: an underscore stands between digits, or between a base prefix and a digit.
  The last class seen is \<open>0\<close> for the start, \<open>1\<close> for a digit, \<open>2\<close> for an underscore and \<open>3\<close>
  for anything else.
\<close>

fun underscores_ok :: "bool \<Rightarrow> nat \<Rightarrow> string \<Rightarrow> bool" where
  "underscores_ok hex saw [] = (saw \<noteq> 2)"
| "underscores_ok hex saw (c # cs) =
     (if is_dec c \<or> (hex \<and> hex_value c \<noteq> None) then underscores_ok hex 1 cs
      else if c = CHR ''_'' then saw = 1 \<and> underscores_ok hex 2 cs
      else saw \<noteq> 2 \<and> underscores_ok hex 3 cs)"

definition strip_sign :: "string \<Rightarrow> bool \<times> string" where
  "strip_sign s =
     (case s of
        c # cs \<Rightarrow> if c = CHR ''+'' then (False, cs) else if c = CHR ''-'' then (True, cs) else (False, s)
      | [] \<Rightarrow> (False, []))"

definition base_prefix :: "string \<Rightarrow> bool" where
  "base_prefix s = (case s of c0 # c1 # _ \<Rightarrow> c0 = CHR ''0'' \<and> lower_char c1 \<in> set ''box'' | _ \<Rightarrow> False)"

definition hex_prefix :: "string \<Rightarrow> bool" where
  "hex_prefix s = (case s of c0 # c1 # _ # _ \<Rightarrow> c0 = CHR ''0'' \<and> lower_char c1 = CHR ''x'' | _ \<Rightarrow> False)"

text \<open>
  The digits of a mantissa in base \<open>b\<close>: their value, how many of them follow the point,
  whether any digit and whether the point was seen, and what is left.
\<close>

fun read_mantissa ::
  "nat \<Rightarrow> nat \<Rightarrow> nat \<Rightarrow> bool \<Rightarrow> bool \<Rightarrow> string \<Rightarrow> nat \<times> nat \<times> bool \<times> string" where
  "read_mantissa b v places digits dot [] = (v, places, digits, [])"
| "read_mantissa b v places digits dot (c # cs) =
     (if c = CHR ''_'' then read_mantissa b v places digits dot cs
      else if c = CHR ''.'' \<and> \<not> dot then read_mantissa b v places digits True cs
      else (case hex_value c of
              Some d \<Rightarrow>
                if d < b then read_mantissa b (v * b + d) (if dot then places + 1 else places) True dot cs
                else (v, places, digits, c # cs)
            | None \<Rightarrow> (v, places, digits, c # cs)))"

text \<open>The digits of an exponent; values from 10000 on stop growing.\<close>

fun read_exp_digits :: "nat \<Rightarrow> string \<Rightarrow> nat \<times> string" where
  "read_exp_digits e [] = (e, [])"
| "read_exp_digits e (c # cs) =
     (if c = CHR ''_'' then read_exp_digits e cs
      else if is_dec c then read_exp_digits (if e < 10000 then e * 10 + dec_value c else e) cs
      else (e, c # cs))"

text \<open>An optional exponent introduced by \<open>x\<close>; \<open>None\<close> is a malformed one.\<close>

definition read_exponent :: "char \<Rightarrow> bool \<Rightarrow> string \<Rightarrow> (int \<times> string) option" where
  "read_exponent x required s =
     (case s of
        c # cs \<Rightarrow>
          if lower_char c = x then
            let (neg, ds) = strip_sign cs in
            (case ds of
               d # _ \<Rightarrow>
                 if is_dec d then
                   let (e, rest) = read_exp_digits 0 ds in Some (if neg then - int e else int e, rest)
                 else None
             | [] \<Rightarrow> None)
          else if required then None else Some (0, s)
      | [] \<Rightarrow> if required then None else Some (0, s))"

definition pow10 :: "int \<Rightarrow> rat" where
  "pow10 e = 10 powi e"

definition finish_float :: "bool \<Rightarrow> rat \<Rightarrow> num_error + f64" where
  "finish_float neg x =
     (let f = to_float neg (if neg then - x else x) in if is_inf f then Inl ErrRange else Inr f)"

definition parse_special :: "bool \<Rightarrow> bool \<Rightarrow> string \<Rightarrow> f64 option" where
  "parse_special signed neg body =
     (let b = map lower_char body in
      if b = ''inf'' \<or> b = ''infinity'' then Some (signed_inf neg)
      else if b = ''nan'' \<and> \<not> signed then Some NaN
      else None)"

definition parse_float :: "string \<Rightarrow> num_error + f64" where
  "parse_float s =
     (let (neg, body) = strip_sign s in
      case parse_special (body \<noteq> s) neg body of
        Some f \<Rightarrow> Inr f
      | None \<Rightarrow>
          (let hex = hex_prefix body;
               (v, places, digits, rest) =
                 read_mantissa (if hex then 16 else 10) 0 0 False False (if hex then drop 2 body else body)
           in if \<not> digits then Inl ErrSyntax
              else (case read_exponent (if hex then CHR ''p'' else CHR ''e'') hex rest of
                 None \<Rightarrow> Inl ErrSyntax
               | Some (e, left) \<Rightarrow>
                   if left \<noteq> [] then Inl ErrSyntax
                   else if CHR ''_'' \<in> set body \<and>
                     \<not> underscores_ok hex (if base_prefix body then 1 else 0)
                         (if base_prefix body then drop 2 body else body)
                   then Inl ErrSyntax
                   else if hex then finish_float neg (of_nat v * pow2 (e - 4 * int places))
                   else finish_float neg (of_nat v * pow10 (e - int places)))))"

text \<open>The value of a call whose range error is ignored: it is then an infinity.\<close>

definition parse_float_value :: "string \<Rightarrow> f64" where
  "parse_float_value s =
     (case parse_float s of Inr f \<Rightarrow> f | Inl ErrRange \<Rightarrow> signed_inf (fst (strip_sign s)) | Inl ErrSyntax \<Rightarrow> Fin 0)"

section \<open>TrimSpace\<close>

text \<open>\<^verbatim>\<open>unicode.IsSpace\<close>, and the runes of a string paired with the bytes that spell them.\<close>

definition is_space_rune :: "nat \<Rightarrow> bool" where
  "is_space_rune r \<longleftrightarrow>
     (9 \<le> r \<and> r \<le> 13) \<or> r \<in> {32, 133, 160, 5760, 8232, 8233, 8239, 8287, 12288} \<or> (8192 \<le> r \<and> r \<le> 8202)"

fun rune_chunks :: "string \<Rightarrow> (nat \<times> string) list" where
  "rune_chunks [] = []"
| "rune_chunks (c # cs) =
     (let (r, n) = decode_rune (map byte_of (c # cs))
      in (r, c # take (n - 1) cs) # rune_chunks (drop (n - 1) cs))"

definition trim_space :: "string \<Rightarrow> string" where
  "trim_space s =
     (let blank = (\<lambda>(r, bytes). is_space_rune r)
      in concat (map snd (rev (dropWhile blank (rev (dropWhile blank (rune_chunks s)))))))"

section \<open>Shortest decimal digits\<close>

text \<open>The \<open>e\<close> with \<open>10^e \<le> x < 10^(e+1)\<close>, for positive \<open>x\<close>.\<close>

definition dec_exponent :: "rat \<Rightarrow> int" where
  "dec_exponent x =
     (if 1 \<le> x then int (length (dec_digits (nat \<lfloor>x\<rfloor>))) - 1
      else let e = int (length (dec_digits (nat \<lfloor>1 / x\<rfloor>))) - 1 in if x * pow10 e = 1 then - e else - e - 1)"

text \<open>
  The decimals of \<open>n\<close> significant digits next to \<open>x\<close>, below and above, that read back as
  \<open>x\<close>, the nearest first; a number is given by the integer \<open>d\<close> in \<open>d * 10^(E - n + 1)\<close>.
\<close>

definition last_digit :: "rat \<Rightarrow> nat \<Rightarrow> int" where
  "last_digit x n = dec_exponent x - int n + 1"

definition decimal_candidates :: "rat \<Rightarrow> nat \<Rightarrow> int list" where
  "decimal_candidates x n =
     (let u = pow10 (last_digit x n); lo = \<lfloor>x / u\<rfloor>; hi = \<lceil>x / u\<rceil>
      in filter (\<lambda>d. round64 (of_int d * u) = x) (if round_even (x / u) = lo then [lo, hi] else [hi, lo]))"

definition shortest_length :: "rat \<Rightarrow> nat" where
  "shortest_length x =
     (case find (\<lambda>n. decimal_candidates x n \<noteq> []) [1..<18] of Some n \<Rightarrow> n | None \<Rightarrow> 17)"

text \<open>The digits without trailing zeros, and the power of ten of the last of them.\<close>

fun strip_zeros :: "nat list \<Rightarrow> nat list" where
  "strip_zeros ds = rev (dropWhile (\<lambda>d. d = 0) (rev ds))"

definition shortest_digits :: "rat \<Rightarrow> nat list \<times> int" where
  "shortest_digits x =
     (let n = shortest_length x;
          d = (case decimal_candidates x n of d # _ \<Rightarrow> d | [] \<Rightarrow> round_even (x / pow10 (last_digit x n)));
          ds = dec_digits (nat d); ds' = strip_zeros ds
      in (ds', last_digit x n + int (length ds - length ds')))"

text \<open>Scientific exponent of the shortest digits.\<close>

definition sci_exponent :: "nat list \<times> int \<Rightarrow> int" where
  "sci_exponent dk = snd dk + int (length (fst dk)) - 1"

text \<open>The mantissa of the \<^verbatim>\<open>'e'\<close> format, and the \<^verbatim>\<open>'f'\<close> format, of a positive number.\<close>

definition digits_string :: "nat list \<Rightarrow> string" where
  "digits_string ds = map digit_char ds"

definition format_mantissa :: "nat list \<times> int \<Rightarrow> string" where
  "format_mantissa dk =
     (case digits_string (fst dk) of
        [] \<Rightarrow> [] | [c] \<Rightarrow> [c] | c # cs \<Rightarrow> c # CHR ''.'' # cs)"

definition format_positional :: "nat list \<times> int \<Rightarrow> string" where
  "format_positional dk =
     (let ds = digits_string (fst dk); point = int (length ds) + snd dk in
      if point \<le> 0 then ''0.'' @ replicate (nat (- point)) (CHR ''0'') @ ds
      else if int (length ds) \<le> point then ds @ replicate (nat (snd dk)) (CHR ''0'')
      else take (nat point) ds @ CHR ''.'' # drop (nat point) ds)"

end
