(* ===== verification/Ws_Frame.thy ===== *)
theory Ws_Frame
  imports Stream_Reader Go_Number "HOL-Library.Word"
begin

text \<open>
  The WebSocket frame codec of \<^verbatim>\<open>core/internal/iossimdriver/ws_frame.go\<close>: the masked text
  frame the simulator HID client sends and the incremental parser that cuts frames off the
  front of its receive buffer. Bytes are \<open>8 word\<close>; the payload length is Go's 64-bit
  \<^verbatim>\<open>int\<close>, kept as a \<open>64 word\<close> read signed, because the conversion of the 64-bit length
  field to \<^verbatim>\<open>int\<close> and the additions to it can wrap.
\<close>

unbundle bit_operations_syntax

type_synonym byte = "8 word"

section \<open>Encoding\<close>

datatype ws_error = PayloadTooLarge | MaskUnavailable

definition wsOpcodeText :: byte where
  "wsOpcodeText = 0x1"

definition maxWsFramePayload :: nat where
  "maxWsFramePayload = 65535"

text \<open>\<^verbatim>\<open>binary.BigEndian.PutUint16\<close> and \<^verbatim>\<open>binary.BigEndian.Uint16\<close> / \<^verbatim>\<open>Uint64\<close>.\<close>

definition put_uint16 :: "16 word \<Rightarrow> byte list" where
  "put_uint16 w = [ucast (drop_bit 8 w), ucast w]"

definition uint16_be :: "byte list \<Rightarrow> 16 word" where
  "uint16_be bs = ucast (bs ! 1) OR push_bit 8 (ucast (bs ! 0))"

definition uint64_be :: "byte list \<Rightarrow> 64 word" where
  "uint64_be bs = fold (\<lambda>b acc. push_bit 8 acc OR ucast b) (take 8 bs) 0"

definition xor_mask :: "byte list \<Rightarrow> byte list \<Rightarrow> byte list" where
  "xor_mask key bs = map (\<lambda>i. bs ! i XOR key ! (i mod 4)) [0..<length bs]"

text \<open>
  \<open>rnd\<close> is what \<^verbatim>\<open>rand.Read\<close> put into the four mask bytes, \<open>None\<close> when it failed.
\<close>

definition encode_ws_text_frame :: "byte list option \<Rightarrow> byte list \<Rightarrow> ws_error + byte list" where
  "encode_ws_text_frame rnd payload =
     (let n = length payload in
      if maxWsFramePayload < n then Inl PayloadTooLarge
      else let header =
             (if n \<le> 125 then [0x80 OR wsOpcodeText, 0x80 OR of_nat n]
              else [0x80 OR wsOpcodeText, 0x80 OR 126] @ put_uint16 (of_nat n))
           in case rnd of
                None \<Rightarrow> Inl MaskUnavailable
              | Some key \<Rightarrow> Inr (header @ key @ xor_mask key payload))"

section \<open>Extraction\<close>

text \<open>
  A slice expression \<^verbatim>\<open>b[lo:hi]\<close> panics unless \<open>0 \<le> lo \<le> hi \<le> cap(b)\<close>; the capacity of the
  buffer is a parameter.
\<close>

definition slice_ok :: "nat \<Rightarrow> 64 word \<Rightarrow> 64 word \<Rightarrow> bool" where
  "slice_ok capacity lo hi \<longleftrightarrow> 0 \<le> sint lo \<and> sint lo \<le> sint hi \<and> sint hi \<le> int capacity"

text \<open>The payload length and the offset just behind it; \<open>None\<close> while they have not arrived.\<close>

definition frame_length :: "byte list \<Rightarrow> (64 word \<times> nat) option" where
  "frame_length b =
     (let len7 = b ! 1 AND 0x7f in
      if len7 = 126 then
        (if length b < 4 then None else Some (ucast (uint16_be (take 2 (drop 2 b))), 4))
      else if len7 = 127 then
        (if length b < 10 then None else Some (uint64_be (take 8 (drop 2 b)), 10))
      else Some (ucast len7, 2))"

definition mask_len :: "byte list \<Rightarrow> nat" where
  "mask_len b = (if b ! 1 AND 0x80 \<noteq> 0 then 4 else 0)"

text \<open>
  \<^verbatim>\<open>extractWsFrame\<close>: \<open>Await\<close> is its \<^verbatim>\<open>ok == false\<close>, which leaves the buffer alone; \<open>Emit\<close>
  carries the opcode, the unmasked payload and the advanced buffer; \<open>Crash\<close> is a run-time
  panic of one of its two slice expressions.
\<close>

definition extract_ws_frame :: "nat \<Rightarrow> byte list \<Rightarrow> (byte \<times> byte list, byte) outcome" where
  "extract_ws_frame capacity b =
     (if length b < 2 then Await
      else let opcode = b ! 0 AND 0x0f in
        (case frame_length b of
           None \<Rightarrow> Await
         | Some (len, offset) \<Rightarrow>
             let body = offset + mask_len b;
                 total = of_nat body + len in
             if int (length b) < sint total then Await
             else if mask_len b = 4 \<and> \<not> slice_ok capacity (of_nat offset) (of_nat offset + 4) then Crash
             else if \<not> slice_ok capacity (of_nat body) (of_nat body + len) then Crash
             else let raw = take (unat len) (drop body b);
                      payload = (if mask_len b = 4 then xor_mask (take 4 (drop offset b)) raw else raw)
                  in Emit (opcode, payload) (drop (body + unat len) b)))"

section \<open>The read loop\<close>

text \<open>
  \<^verbatim>\<open>drain\<close> inside \<^verbatim>\<open>HidClient.readLoop\<close>: every complete frame is cut off; the trimmed payloads of the
  text frames go to \<^verbatim>\<open>handleLine\<close> (see \<open>text_payloads\<close>), frames with other opcodes are
  dropped. The capacity does not matter (\<open>extract_capacity\<close> below), so the loop takes
  the least a buffer of this length can have.
\<close>

definition next_frame :: "byte list \<Rightarrow> (byte \<times> byte list, byte) outcome" where
  "next_frame b = extract_ws_frame (length b) b"

section \<open>Arithmetic of the length computation\<close>

lemma sint_small_64: "n < 2 ^ 63 \<Longrightarrow> sint (of_nat n :: 64 word) = int n"
  by (simp add: signed_of_nat signed_take_bit_int_eq_self)

lemma int_unat_of_sint:
  assumes "0 \<le> sint (w :: 64 word)"
  shows "int (unat w) = sint w"
proof -
  have "sint w < 2 ^ 63"
    using sint_lt [of w] by simp
  with assms have "uint w = sint w"
    by (simp add: uint_sint take_bit_int_eq_self)
  then show ?thesis by simp
qed

lemma mask_len_cases: "mask_len b = 0 \<or> mask_len b = 4"
  by (simp add: mask_len_def)

lemma frame_length_offset_le: "frame_length b = Some (len, off) \<Longrightarrow> off \<le> 10"
  by (auto simp: frame_length_def Let_def split: if_splits)

lemma slice_ok_small:
  assumes "n < 2 ^ 62"
  shows "slice_ok capacity (of_nat n) (of_nat n + 4) \<longleftrightarrow> n + 4 \<le> capacity"
proof -
  have "sint (of_nat n + 4 :: 64 word) = int (n + 4)"
    using sint_small_64 [of "n + 4"] assms by simp
  with assms show ?thesis
    by (simp add: slice_ok_def sint_small_64 del: of_nat_add)
qed

lemma unat_len_of_total:
  fixes len :: "64 word"
  assumes n: "n < 2 ^ 62" and t: "int n \<le> sint (of_nat n + len)"
  shows "int (n + unat len) = sint (of_nat n + len)"
proof -
  let ?t = "of_nat n + len"
  have u: "int (unat ?t) = sint ?t"
    by (rule int_unat_of_sint) (use t in linarith)
  have "unat (of_nat n :: 64 word) = n"
    using n by (simp add: unat_of_nat)
  moreover have "n \<le> unat ?t"
    using t u by linarith
  ultimately have "unat (?t - of_nat n) = unat ?t - n"
    using unat_sub [of "of_nat n" ?t] by (simp only: word_le_nat_alt)
  with \<open>n \<le> unat ?t\<close> u show ?thesis
    by simp
qed

section \<open>What an attempt answers\<close>

definition frame_end :: "byte list \<Rightarrow> 64 word \<Rightarrow> nat \<Rightarrow> int" where
  "frame_end b len off = sint (of_nat (off + mask_len b) + len)"

definition frame_payload :: "byte list \<Rightarrow> 64 word \<Rightarrow> nat \<Rightarrow> byte list" where
  "frame_payload b len off =
     (let raw = take (unat len) (drop (off + mask_len b) b)
      in if mask_len b = 4 then xor_mask (take 4 (drop off b)) raw else raw)"

lemma extract_short: "length b < 2 \<or> frame_length b = None \<Longrightarrow> extract_ws_frame capacity b = Await"
  by (auto simp: extract_ws_frame_def)

lemma body_small: "frame_length b = Some (len, off) \<Longrightarrow> off + mask_len b \<le> 14"
  using frame_length_offset_le [of b len off] mask_len_cases [of b] by auto

lemma frame_end_split:
  assumes "frame_length b = Some (len, off)" and "int (off + mask_len b) \<le> frame_end b len off"
  shows "frame_end b len off = int (off + mask_len b + unat len)"
  using unat_len_of_total [of "off + mask_len b" len] assms body_small [OF assms(1)]
  by (simp add: frame_end_def)

lemma slice_ok_frame_end:
  assumes "frame_length b = Some (len, off)" and "frame_end b len off \<le> int (length b)"
    and "length b \<le> capacity"
  shows "slice_ok capacity (of_nat (off + mask_len b)) (of_nat (off + mask_len b) + len)
     \<longleftrightarrow> int (off + mask_len b) \<le> frame_end b len off"
  using assms body_small [OF assms(1)] sint_small_64 [of "off + mask_len b"]
  by (auto simp: slice_ok_def frame_end_def simp del: of_nat_add)

text \<open>
  The answer in closed form. It does not mention the capacity: where the first slice
  expression (the mask) would pass or fail depending on it, the second (the payload)
  fails anyway.
\<close>

lemma extract_closed:
  assumes "2 \<le> length b" and fl: "frame_length b = Some (len, off)" and cap: "length b \<le> capacity"
  shows "extract_ws_frame capacity b =
     (if int (length b) < frame_end b len off then Await
      else if frame_end b len off < int (off + mask_len b) then Crash
      else Emit (b ! 0 AND 0x0f, frame_payload b len off) (drop (off + mask_len b + unat len) b))"
proof (cases "int (length b) < frame_end b len off")
  case True
  with assms show ?thesis by (simp add: extract_ws_frame_def frame_end_def)
next
  case False
  then have le: "frame_end b len off \<le> int (length b)" by simp
  note payload_slice = slice_ok_frame_end [OF fl le cap]
  show ?thesis
  proof (cases "frame_end b len off < int (off + mask_len b)")
    case True
    with payload_slice have "\<not> slice_ok capacity (of_nat (off + mask_len b)) (of_nat (off + mask_len b) + len)"
      by simp
    with assms False True show ?thesis
      by (simp add: extract_ws_frame_def frame_end_def Let_def)
  next
    case in_range: False
    with frame_end_split [OF fl] le have "off + mask_len b + unat len \<le> length b"
      by linarith
    then have "mask_len b = 4 \<longrightarrow> slice_ok capacity (of_nat off) (of_nat off + 4)"
      using frame_length_offset_le [OF fl] cap by (simp add: slice_ok_small)
    moreover have "slice_ok capacity (of_nat (off + mask_len b)) (of_nat (off + mask_len b) + len)"
      using payload_slice in_range by simp
    ultimately show ?thesis
      using assms False in_range
      by (simp add: extract_ws_frame_def frame_end_def frame_payload_def Let_def)
  qed
qed

lemma next_frame_cases:
  obtains (short) "length b < 2 \<or> frame_length b = None" "next_frame b = Await"
  | (framed) len off where "2 \<le> length b" "frame_length b = Some (len, off)"
      "next_frame b =
         (if int (length b) < frame_end b len off then Await
          else if frame_end b len off < int (off + mask_len b) then Crash
          else Emit (b ! 0 AND 0x0f, frame_payload b len off) (drop (off + mask_len b + unat len) b))"
proof (cases "length b < 2 \<or> frame_length b = None")
  case True
  then show ?thesis using short extract_short unfolding next_frame_def by blast
next
  case False
  then obtain len off where "2 \<le> length b" "frame_length b = Some (len, off)"
    by (cases "frame_length b") (auto simp: not_less)
  then show ?thesis using framed extract_closed [OF _ _ order_refl] unfolding next_frame_def by blast
qed

lemma frame_length_append:
  assumes "2 \<le> length b" and "frame_length b = Some v"
  shows "frame_length (b @ c) = Some v"
  using assms by (auto simp: frame_length_def Let_def nth_append split: if_splits)

lemma mask_len_append: "2 \<le> length b \<Longrightarrow> mask_len (b @ c) = mask_len b"
  by (simp add: mask_len_def nth_append)

lemma frame_payload_append:
  assumes "2 \<le> length b" and "off + mask_len b + unat len \<le> length b"
  shows "frame_payload (b @ c) len off = frame_payload b len off"
  using assms by (auto simp: frame_payload_def mask_len_append Let_def)

lemma extract_stable:
  assumes ans: "next_frame b = a" and "a \<noteq> Await"
  shows "next_frame (b @ c) = (case a of Emit m r \<Rightarrow> Emit m (r @ c) | x \<Rightarrow> x)"
proof (cases b rule: next_frame_cases)
  case short
  with assms show ?thesis by simp
next
  case (framed len off)
  have e: "frame_end (b @ c) len off = frame_end b len off"
    using framed(1) by (simp add: frame_end_def mask_len_append)
  have "next_frame (b @ c) =
     (if int (length (b @ c)) < frame_end b len off then Await
      else if frame_end b len off < int (off + mask_len b) then Crash
      else Emit ((b @ c) ! 0 AND 0x0f, frame_payload (b @ c) len off)
             (drop (off + mask_len b + unat len) (b @ c)))"
    unfolding next_frame_def
    using extract_closed [of "b @ c" len off "length (b @ c)"] framed(1) e
      frame_length_append [OF framed(1,2)]
    by (simp add: mask_len_append)
  moreover have "off + mask_len b + unat len \<le> length b"
    if "\<not> int (length b) < frame_end b len off" "\<not> frame_end b len off < int (off + mask_len b)"
    using that frame_end_split [OF framed(2)] by linarith
  ultimately show ?thesis
    using framed(1,3) assms
    by (auto simp: nth_append frame_payload_append split: if_splits)
qed

lemma next_frame_shrinks: "next_frame b = Emit m r \<Longrightarrow> length r < length b"
proof (cases b rule: next_frame_cases)
  case (framed len off)
  moreover have "2 \<le> off"
    using framed(2) by (auto simp: frame_length_def Let_def split: if_splits)
  moreover assume "next_frame b = Emit m r"
  ultimately show ?thesis
    by (auto split: if_splits)
qed auto

section \<open>The read loop\<close>

function drain_frames :: "byte list \<Rightarrow> (byte \<times> byte list, byte) reading" where
  "drain_frames buf =
     (case next_frame buf of
        Await \<Rightarrow> ([], Some buf)
      | Crash \<Rightarrow> ([], None)
      | Emit m r \<Rightarrow> (m # fst (drain_frames r), snd (drain_frames r)))"
  by pat_completeness auto
termination
  by (relation "measure length") (auto simp: next_frame_shrinks)

declare drain_frames.simps [simp del]

text \<open>
  \<^verbatim>\<open>readLoop\<close>: drain the bytes left over from the handshake, then append each chunk a
  \<^verbatim>\<open>conn.Read\<close> returned and drain again. \<open>text_payloads\<close> are the lines that reach
  \<^verbatim>\<open>handleLine\<close>: \<^verbatim>\<open>strings.TrimSpace(string(payload))\<close> of every text frame, where \<open>byte_text\<close> is
  the conversion of bytes to a string.
\<close>

definition read_loop :: "byte list \<Rightarrow> byte list list \<Rightarrow> (byte \<times> byte list, byte) reading" where
  "read_loop seed chunks = foldl (\<lambda>r c. then_read r (\<lambda>b. drain_frames (b @ c))) (drain_frames seed) chunks"

definition byte_text :: "byte list \<Rightarrow> string" where
  "byte_text bs = map (\<lambda>b. char_of (unat b)) bs"

definition text_payloads :: "(byte \<times> byte list, byte) reading \<Rightarrow> string list" where
  "text_payloads r =
     map (\<lambda>(opcode, p). trim_space (byte_text p)) (filter (\<lambda>(opcode, p). opcode = wsOpcodeText) (fst r))"

interpretation ws: stream_reader next_frame drain_frames
proof
  show "next_frame b = Emit m r \<Longrightarrow> length r < length b" for b m r
    by (rule next_frame_shrinks)
  show "next_frame b = Emit m r \<Longrightarrow> next_frame (b @ c) = Emit m (r @ c)" for b m r c
    using extract_stable [of b "Emit m r" c] by simp
  show "next_frame b = Crash \<Longrightarrow> next_frame (b @ c) = Crash" for b c
    using extract_stable [of b Crash c] by simp
  show "drain_frames b =
      (case next_frame b of Await \<Rightarrow> ([], Some b) | Crash \<Rightarrow> ([], None)
       | Emit m r \<Rightarrow> (m # fst (drain_frames r), snd (drain_frames r)))" for b
    by (rule drain_frames.simps)
qed

section \<open>Encoded frames\<close>

lemma xor_mask_length [simp]: "length (xor_mask key bs) = length bs"
  by (simp add: xor_mask_def)

lemma xor_mask_involutive [simp]: "xor_mask key (xor_mask key bs) = bs"
  by (rule nth_equalityI) (simp_all add: xor_mask_def xor.assoc)

lemma uint16_be_put: "uint16_be (put_uint16 w) = w"
  by (rule bit_word_eqI)
    (auto simp: uint16_be_def put_uint16_def bit_or_iff bit_push_bit_iff bit_ucast_iff bit_drop_bit_eq)

lemma and_7f: "w AND 0x7f = take_bit 7 (w :: byte)"
  by (simp add: take_bit_eq_mask mask_numeral)

lemma len7_bits: "n \<le> 125 \<Longrightarrow> (0x80 OR of_nat n :: byte) AND 0x7f = of_nat n"
  unfolding and_7f by (simp add: take_bit_of_nat take_bit_nat_eq_self take_bit_or)

lemma mask_bit: "(0x80 OR w :: byte) AND 0x80 \<noteq> 0"
proof
  assume "(0x80 OR w) AND 0x80 = 0"
  then have "bit ((0x80 OR w) AND 0x80 :: byte) 7 = bit (0 :: byte) 7"
    by simp
  then show False
    by (simp add: bit_and_iff bit_or_iff)
qed

lemma encode_shape:
  assumes "encode_ws_text_frame (Some key) p = Inr f"
  shows "length p \<le> 65535" and
    "f = (if length p \<le> 125 then [0x80 OR wsOpcodeText, 0x80 OR of_nat (length p)]
          else [0x80 OR wsOpcodeText, 0x80 OR 126] @ put_uint16 (of_nat (length p)))
         @ key @ xor_mask key p"
  using assms
  by (auto simp: encode_ws_text_frame_def Let_def maxWsFramePayload_def split: if_splits)

lemma next_frame_encoded:
  assumes enc: "encode_ws_text_frame (Some key) p = Inr f" and key: "length key = 4"
  shows "next_frame (f @ r) = Emit (wsOpcodeText, p) r"
proof -
  let ?n = "length p" and ?b = "f @ r"
  let ?off = "if ?n \<le> 125 then 2 else 4 :: nat"
  note f = encode_shape [OF enc]
  have len: "length f = ?off + 4 + ?n"
    by (subst f(2)) (simp add: put_uint16_def key)
  have op: "?b ! 0 AND 0x0f = wsOpcodeText"
    by (subst f(2)) (simp add: wsOpcodeText_def)
  have masked: "mask_len ?b = 4"
    by (subst f(2)) (simp add: mask_len_def mask_bit)
  have fl: "frame_length ?b = Some (of_nat ?n, ?off)"
  proof (cases "?n \<le> 125")
    case True
    have "?b ! 1 = 0x80 OR of_nat ?n"
      by (subst f(2)) (simp add: True)
    moreover have "(of_nat ?n :: byte) \<noteq> 126" "(of_nat ?n :: byte) \<noteq> 127"
      using True by (auto simp: word_unat_eq_iff unat_of_nat)
    ultimately show ?thesis
      using True by (simp add: frame_length_def len7_bits unsigned_of_nat take_bit_nat_eq_self)
  next
    case False
    have "take 2 (drop 2 ?b) = put_uint16 (of_nat ?n)"
      by (subst f(2)) (simp add: False put_uint16_def)
    moreover have "?b ! 1 AND 0x7f = 126"
      by (subst f(2)) (simp add: False)
    moreover have "(ucast (of_nat ?n :: 16 word) :: 64 word) = of_nat ?n"
      using f(1) by (simp add: unsigned_of_nat take_bit_nat_eq_self)
    ultimately show ?thesis
      using False len by (simp add: frame_length_def uint16_be_put)
  qed
  have fe: "frame_end ?b (of_nat ?n) ?off = int (length f)"
    using f(1) sint_small_64 [of "?off + 4 + ?n"] by (simp add: frame_end_def masked len)
  have un: "unat (of_nat ?n :: 64 word) = ?n"
    using f(1) by (simp add: unat_of_nat)
  have key': "take 4 (drop ?off ?b) = key" and raw: "take ?n (drop (?off + 4) ?b) = xor_mask key p"
    by (subst f(2); simp add: put_uint16_def key)+
  have "2 \<le> length ?b" using len by simp
  from extract_closed [OF this fl order_refl] show ?thesis
    using len key' raw
    by (simp add: next_frame_def op fe masked un frame_payload_def Let_def)
qed

section \<open>Properties\<close>

lemma frame_end_overflow:
  assumes "frame_length b = Some (len, off)"
  shows "frame_end b len off < int (off + mask_len b) \<longleftrightarrow> 2 ^ 63 \<le> off + mask_len b + unat len"
proof -
  let ?body = "off + mask_len b"
  have small: "?body < 2 ^ 62"
    using body_small [OF assms] by simp
  show ?thesis
  proof
    assume "frame_end b len off < int ?body"
    moreover have "sint (of_nat (?body + unat len) :: 64 word) = frame_end b len off"
      by (simp add: frame_end_def)
    ultimately show "2 ^ 63 \<le> ?body + unat len"
      using sint_small_64 [of "?body + unat len"] by (cases "?body + unat len < 2 ^ 63") auto
  next
    assume "2 ^ 63 \<le> ?body + unat len"
    then have big: "(2 :: int) ^ 63 \<le> int (?body + unat len)"
      by (metis of_nat_le_iff of_nat_numeral of_nat_power)
    have "frame_end b len off < 2 ^ 63"
      using sint_lt [of "of_nat ?body + len"] by (simp add: frame_end_def)
    with big have "frame_end b len off \<noteq> int (?body + unat len)"
      by linarith
    then show "frame_end b len off < int ?body"
      using frame_end_split [OF assms] by (meson not_less)
  qed
qed

text \<open>
  C35: whatever a peer sends, the parser panics on exactly the buffers whose announced
  length, added to the header size, leaves Go's 64-bit \<^verbatim>\<open>int\<close> and whose wrapped-around end
  then lies inside the buffer.
\<close>

theorem next_frame_crash_iff:
  "next_frame b = Crash \<longleftrightarrow>
     2 \<le> length b \<and> (\<exists>len off. frame_length b = Some (len, off) \<and>
       frame_end b len off \<le> int (length b) \<and> 2 ^ 63 \<le> off + mask_len b + unat len)"
proof (cases b rule: next_frame_cases)
  case short
  then show ?thesis by auto
next
  case (framed len off)
  then show ?thesis
    using frame_end_overflow [OF framed(2)] by (auto split: if_splits)
qed

text \<open>
  Ten bytes of header whose 64-bit length field has its top bit set crash the reader,
  although no complete frame is in the buffer, where \<^verbatim>\<open>extractWsFrame\<close> promises
  \<^verbatim>\<open>ok == false\<close>.
\<close>

theorem next_frame_crash_example:
  "next_frame [0x81, 127, 0x80, 0, 0, 0, 0, 0, 0, 0] = Crash"
  by (simp add: next_frame_crash_iff frame_length_def frame_end_def mask_len_def uint64_be_def)

text \<open>
  As long as a frame has not arrived completely, the parser asks for more bytes and
  leaves the buffer alone: no proper prefix of an encoded frame is taken for a frame.
\<close>

theorem encoded_prefix_awaits:
  assumes "encode_ws_text_frame (Some key) p = Inr f" and "length key = 4" and "k < length f"
  shows "next_frame (take k f) = Await"
proof (rule ccontr)
  assume "next_frame (take k f) \<noteq> Await"
  with extract_stable [OF refl this, of "drop k f"] next_frame_encoded [OF assms(1,2), of "[]"]
  show False
    using assms(3) by (cases "next_frame (take k f)") auto
qed

text \<open>
  The messages \<^verbatim>\<open>readLoop\<close> delivers and the bytes it keeps depend only on the bytes
  received, never on how the connection split them into reads: the loop over any sequence of
  chunks equals one drain of their concatenation.
\<close>

theorem read_loop_chunking:
  "read_loop seed chunks = drain_frames (seed @ concat chunks)"
  unfolding read_loop_def by (rule ws.drain_chunks)

text \<open>
  C11: end to end, for frames built by \<^verbatim>\<open>encodeWsTextFrame\<close> and received in any chunking, the lines that
  reach \<^verbatim>\<open>handleLine\<close> are the payloads sent, each read as text without the white space around it, in
  order, and nothing is left in the buffer.
\<close>

theorem ws_stream_delivery:
  assumes "list_all2 (\<lambda>(key, p) f. length key = 4 \<and> encode_ws_text_frame (Some key) p = Inr f) kps fs"
    and "seed @ concat chunks = concat fs"
  shows "text_payloads (read_loop seed chunks) = map (\<lambda>(key, p). trim_space (byte_text p)) kps \<and>
    snd (read_loop seed chunks) = Some []"
proof -
  have "drain_frames (concat fs) = (map (\<lambda>(key, p). (wsOpcodeText, p)) kps, Some [])"
    using assms(1)
  proof (induction kps fs rule: list_all2_induct)
    case Nil
    then show ?case by (simp add: drain_frames.simps next_frame_def extract_short)
  next
    case (Cons kp kps f fs)
    then show ?case
      using next_frame_encoded [of "fst kp" "snd kp" f "concat fs"]
      by (simp add: case_prod_beta drain_frames.simps [of "f @ concat fs"])
  qed
  moreover have "read_loop seed chunks = drain_frames (concat fs)"
    unfolding read_loop_def ws.drain_chunks assms(2) ..
  ultimately show ?thesis
    by (simp add: text_payloads_def filter_map comp_def case_prod_beta)
qed

section \<open>Witnesses\<close>

lemma hi_frame:
  "encode_ws_text_frame (Some [1, 2, 3, 4]) [104, 105] = Inr [0x81, 0x82, 1, 2, 3, 4, 105, 107]"
  by (simp add: encode_ws_text_frame_def maxWsFramePayload_def wsOpcodeText_def xor_mask_def upt_rec)

lemma encoded_prefix_awaits_witness:
  "next_frame (take 7 [0x81, 0x82, 1, 2, 3, 4, 105, 107]) = Await"
  by (rule encoded_prefix_awaits [OF hi_frame]) simp_all

lemma hi_line_frame:
  "encode_ws_text_frame (Some [1, 2, 3, 4]) [104, 105, 10] = Inr [0x81, 0x83, 1, 2, 3, 4, 105, 107, 9]"
  by (simp add: encode_ws_text_frame_def maxWsFramePayload_def wsOpcodeText_def xor_mask_def upt_rec)

lemma hi_line_trimmed: "trim_space (byte_text [104, 105, 10]) = ''hi''"
proof -
  have chars: "char_of (104 :: nat) = CHR ''h''" "char_of (105 :: nat) = CHR ''i''"
    by (simp_all add: char_of_def bit_iff_odd)
  have "rune_chunks [CHR ''h'', CHR ''i'', char_of (10 :: nat)] = [(104, ''h''), (105, ''i''), (10, [char_of (10 :: nat)])]"
    by (simp add: decode_rune_def byte_of_def)
  then show ?thesis
    by (simp add: trim_space_def byte_text_def chars is_space_rune_def)
qed

text \<open>The frame of the line \<^verbatim>\<open>hi\<close> in three pieces; the line end is gone.\<close>

lemma ws_stream_delivery_witness:
  "text_payloads (read_loop [0x81] [[0x83, 1, 2], [3, 4, 105, 107, 9]]) = [''hi'']"
  using ws_stream_delivery [of "[([1, 2, 3, 4], [104, 105, 10])]" "[[0x81, 0x83, 1, 2, 3, 4, 105, 107, 9]]"
      "[0x81]" "[[0x83, 1, 2], [3, 4, 105, 107, 9]]"]
  by (simp add: hi_line_frame hi_line_trimmed)

end
