(* ===== verification/Expr_Tokens.thy ===== *)
theory Expr_Tokens
  imports Go_Text
begin

text \<open>
  The tokenizer of the script expression language
  (\<^verbatim>\<open>core/internal/script/expression/token.go\<close> and \<^verbatim>\<open>tokenize.go\<close>). The source is scanned as
  UTF-16 code units; a scanner state is the offset of the next unit together with the units
  from there on, so that \<^verbatim>\<open>units[i]\<close> is the head of the list and every offset in the code is
  an offset here.
\<close>

section \<open>Tokens and errors\<close>

datatype token_kind = TokenNumber | TokenString | TokenIdentifier | TokenPunct | TokenEOF

record token =
  Kind :: token_kind
  Value :: string
  Position :: nat

record parse_error =
  Message :: string
  ErrorPosition :: nat

definition describe_token :: "token \<Rightarrow> string" where
  "describe_token t = (if Kind t = TokenEOF then ''end of input'' else Value t)"

abbreviation tok :: "token_kind \<Rightarrow> string \<Rightarrow> nat \<Rightarrow> token" where
  "tok k v p \<equiv> \<lparr>Kind = k, Value = v, Position = p\<rparr>"

abbreviation parse_err :: "string \<Rightarrow> nat \<Rightarrow> parse_error" where
  "parse_err m p \<equiv> \<lparr>Message = m, ErrorPosition = p\<rparr>"

section \<open>Character classes\<close>

definition unit :: "char \<Rightarrow> nat" where
  "unit c = byte_of c"

definition is_digit_unit :: "nat \<Rightarrow> bool" where
  "is_digit_unit ch \<longleftrightarrow> unit CHR ''0'' \<le> ch \<and> ch \<le> unit CHR ''9''"

definition is_identifier_start :: "nat \<Rightarrow> bool" where
  "is_identifier_start ch \<longleftrightarrow>
     (unit CHR ''a'' \<le> ch \<and> ch \<le> unit CHR ''z'') \<or> (unit CHR ''A'' \<le> ch \<and> ch \<le> unit CHR ''Z'') \<or>
     ch = unit CHR ''_''"

definition is_identifier_part :: "nat \<Rightarrow> bool" where
  "is_identifier_part ch \<longleftrightarrow> is_identifier_start ch \<or> is_digit_unit ch"

definition is_space_unit :: "nat \<Rightarrow> bool" where
  "is_space_unit ch \<longleftrightarrow> ch = 32 \<or> ch = 9 \<or> ch = 10 \<or> ch = 13"

definition two_char_punct :: "string list" where
  "two_char_punct = [''=='', ''!='', ''<='', ''>='']"

definition one_char_punct :: "nat list" where
  "one_char_punct = map unit ''()+-*/%<>''"

section \<open>String literals\<close>

definition unescape :: "nat \<Rightarrow> nat \<Rightarrow> parse_error + nat" where
  "unescape escaped backslash =
     (if escaped = 92 \<or> escaped = unit CHR 0x22 \<or> escaped = 39 then Inr escaped
      else if escaped = unit CHR ''n'' then Inr 10
      else if escaped = unit CHR ''t'' then Inr 9
      else Inl (parse_err
        (''unknown escape sequence '' @ [CHR 0x22, CHR 0x5C] @ decode_units [escaped] @ [CHR 0x22] @
          '' in string literal'') backslash))"

text \<open>
  The loop of \<^verbatim>\<open>readStringLiteral\<close>: \<open>value\<close> is what has been read, \<open>i\<close> the current offset;
  the result carries the value, the offset after the closing quote and the units from there.
\<close>

fun read_string_loop ::
  "nat \<Rightarrow> nat \<Rightarrow> nat list \<Rightarrow> nat \<Rightarrow> nat list \<Rightarrow> parse_error + (string \<times> nat \<times> nat list)" where
  "read_string_loop quote start value i [] = Inl (parse_err ''unterminated string literal'' start)"
| "read_string_loop quote start value i (ch # rest) =
     (if ch = quote then Inr (decode_units value, i + 1, rest)
      else if ch = 92 then
        (case rest of
           [] \<Rightarrow> Inl (parse_err ''unterminated string literal'' start)
         | escaped # rest' \<Rightarrow>
             res_bind (unescape escaped i)
               (\<lambda>replacement. read_string_loop quote start (value @ [replacement]) (i + 2) rest'))
      else read_string_loop quote start (value @ [ch]) (i + 1) rest)"

definition read_string_literal ::
  "nat \<Rightarrow> nat list \<Rightarrow> nat \<Rightarrow> parse_error + (string \<times> nat \<times> nat list)" where
  "read_string_literal quote rest start = read_string_loop quote start [] (start + 1) rest"

section \<open>The scanner\<close>

text \<open>\<^verbatim>\<open>consumeDigits\<close>, and the units of a number token at the front of \<open>us\<close>.\<close>

definition consume_digits :: "nat list \<Rightarrow> nat list" where
  "consume_digits us = takeWhile is_digit_unit us"

definition number_units :: "nat list \<Rightarrow> nat list" where
  "number_units us =
     (let ds = consume_digits us in
      case drop (length ds) us of
        dot # d # rest \<Rightarrow>
          if dot = unit CHR ''.'' \<and> is_digit_unit d then ds @ dot # consume_digits (d # rest) else ds
      | _ \<Rightarrow> ds)"

lemma number_units_prefix:
  assumes "is_digit_unit u"
  shows "\<exists>r. u # us = number_units (u # us) @ r \<and> number_units (u # us) \<noteq> []"
proof -
  define ds where "ds = consume_digits (u # us)"
  define rest where "rest = drop (length ds) (u # us)"
  have split: "u # us = ds @ rest"
    unfolding ds_def rest_def consume_digits_def by (metis append_eq_conv_conj takeWhile_dropWhile_id)
  have ne: "ds \<noteq> []"
    using assms by (simp add: ds_def consume_digits_def)
  show ?thesis
  proof (cases "number_units (u # us) = ds")
    case True
    with split ne show ?thesis by auto
  next
    case False
    then obtain dot d tl where r: "rest = dot # d # tl"
      and n: "number_units (u # us) = ds @ dot # consume_digits (d # tl)"
      unfolding number_units_def Let_def ds_def [symmetric] rest_def [symmetric]
      by (auto split: list.splits if_splits)
    have "d # tl = consume_digits (d # tl) @ dropWhile is_digit_unit (d # tl)"
      unfolding consume_digits_def by (rule takeWhile_dropWhile_id [symmetric])
    with split r n show ?thesis
      by (metis append.assoc append_Cons append_is_Nil_conv list.distinct(1))
  qed
qed

datatype scan = Skip | Lexeme token "nat list" nat | Reject parse_error

text \<open>
  One iteration of the loop of \<^verbatim>\<open>tokenize\<close>: skip a blank, produce a token together with the
  units that follow it and their offset, or fail.
\<close>

definition scan_token :: "nat \<Rightarrow> nat \<Rightarrow> nat list \<Rightarrow> scan" where
  "scan_token i ch rest =
     (let us = ch # rest in
      if is_space_unit ch then Skip
      else if is_digit_unit ch then
        let lexeme = number_units us; n = length lexeme
        in Lexeme (tok TokenNumber (decode_units lexeme) i) (drop n us) (i + n)
      else if ch = 34 \<or> ch = 39 then
        (case read_string_literal ch rest i of
           Inl e \<Rightarrow> Reject e
         | Inr (value, endIndex, us') \<Rightarrow> Lexeme (tok TokenString value i) us' endIndex)
      else if is_identifier_start ch then
        let lexeme = ch # takeWhile is_identifier_part rest; n = length lexeme
        in Lexeme (tok TokenIdentifier (decode_units lexeme) i) (drop n us) (i + n)
      else if rest \<noteq> [] \<and> decode_units (take 2 us) \<in> set two_char_punct then
        Lexeme (tok TokenPunct (decode_units (take 2 us)) i) (drop 2 us) (i + 2)
      else if ch \<in> set one_char_punct then
        Lexeme (tok TokenPunct (decode_units [ch]) i) rest (i + 1)
      else Reject (parse_err
        (''unexpected character '' @ [CHR 0x22] @ decode_units [ch] @ [CHR 0x22] @ '' in expression'') i))"

text \<open>
  A string literal, and every lexeme, takes a non-empty piece off the front of the units; the
  text of a token that is not a string is that piece.
\<close>

lemma read_string_loop_span:
  "read_string_loop q s v i us = Inr (w, j, us') \<Longrightarrow> \<exists>c. us = c @ us' \<and> c \<noteq> [] \<and> j = i + length c"
proof (induction q s v i us rule: read_string_loop.induct)
  case (1 q s v i)
  then show ?case by simp
next
  case (2 q s v i ch rest)
  consider "ch = q" | e es where "ch \<noteq> q" "ch = 92" "rest = e # es" | "ch \<noteq> q" "ch = 92" "rest = []"
    | "ch \<noteq> q" "ch \<noteq> 92"
    by (cases rest) auto
  then show ?case
  proof cases
    case 1
    with "2.prems" show ?thesis by (intro exI [of _ "[ch]"]) auto
  next
    case 2
    then obtain r c where "es = c @ us'" "j = i + 2 + length c"
      using "2.IH"(1) [OF 2(1,2,3)] "2.prems" by (auto simp: res_bind_Inr_iff)
    with 2 show ?thesis by (intro exI [of _ "ch # e # c"]) auto
  next
    case 3
    with "2.prems" show ?thesis by simp
  next
    case 4
    then obtain c where "rest = c @ us'" "j = i + 1 + length c"
      using "2.IH"(2) "2.prems" by auto
    with 4 show ?thesis by (intro exI [of _ "ch # c"]) auto
  qed
qed

definition lexeme_of :: "nat \<Rightarrow> nat list \<Rightarrow> token \<Rightarrow> bool" where
  "lexeme_of i c t \<longleftrightarrow>
     c \<noteq> [] \<and> Position t = i \<and> Kind t \<noteq> TokenEOF \<and> (Kind t \<noteq> TokenString \<longrightarrow> Value t = decode_units c)"

lemma scan_token_span:
  assumes "scan_token i ch rest = Lexeme t us' j"
  shows "\<exists>c. ch # rest = c @ us' \<and> j = i + length c \<and> lexeme_of i c t"
proof -
  have ns: "\<not> is_space_unit ch"
    using assms by (auto simp: scan_token_def Let_def)
  consider (digit) "is_digit_unit ch"
    | (quoted) "\<not> is_digit_unit ch" "ch = 34 \<or> ch = 39"
    | (word) "\<not> is_digit_unit ch" "\<not> (ch = 34 \<or> ch = 39)" "is_identifier_start ch"
    | (operator) "\<not> is_digit_unit ch" "\<not> (ch = 34 \<or> ch = 39)" "\<not> is_identifier_start ch"
    by blast
  then show ?thesis
  proof cases
    case digit
    define l where "l = number_units (ch # rest)"
    obtain r where l: "ch # rest = l @ r" "l \<noteq> []"
      using number_units_prefix [OF digit] unfolding l_def by blast
    then have "drop (length l) (ch # rest) = r"
      by simp
    with assms digit ns have "t = tok TokenNumber (decode_units l) i" "us' = r" "j = i + length l"
      by (simp_all add: scan_token_def Let_def l_def)
    with l show ?thesis
      by (auto simp: lexeme_of_def)
  next
    case quoted
    then obtain v where r: "read_string_literal ch rest i = Inr (v, j, us')" and t: "t = tok TokenString v i"
      using assms ns by (auto simp: scan_token_def Let_def split: sum.splits prod.splits)
    obtain c where "rest = c @ us'" "j = i + 1 + length c"
      using read_string_loop_span [OF r [unfolded read_string_literal_def]] by auto
    with t show ?thesis by (intro exI [of _ "ch # c"]) (auto simp: lexeme_of_def)
  next
    case word
    define n where "n = length (takeWhile is_identifier_part rest)"
    from assms word ns have "t = tok TokenIdentifier (decode_units (ch # takeWhile is_identifier_part rest)) i"
      "us' = drop n rest" "j = i + Suc n"
      by (auto simp: scan_token_def Let_def n_def)
    then show ?thesis
      by (intro exI [of _ "ch # takeWhile is_identifier_part rest"])
        (auto simp: lexeme_of_def n_def simp flip: dropWhile_eq_drop)
  next
    case operator
    with assms ns show ?thesis
      by (cases rest)
        (auto simp: scan_token_def lexeme_of_def Let_def split: if_splits
          intro!: exI [of _ "take 2 (ch # rest)"] exI [of _ "[ch]"])
  qed
qed

lemma scan_token_shrinks:
  "scan_token i ch rest = Lexeme t us' j \<Longrightarrow> length us' < Suc (length rest)"
  using scan_token_span [of i ch rest t us' j]
  by (metis length_Cons length_append length_greater_0_conv less_add_same_cancel2 lexeme_of_def)

function tokenize_from :: "nat \<Rightarrow> nat list \<Rightarrow> parse_error + token list" where
  "tokenize_from i [] = Inr [tok TokenEOF [] i]"
| "tokenize_from i (ch # rest) =
     (case scan_token i ch rest of
        Skip \<Rightarrow> tokenize_from (i + 1) rest
      | Lexeme t us' j \<Rightarrow> res_bind (tokenize_from j us') (\<lambda>ts. Inr (t # ts))
      | Reject e \<Rightarrow> Inl e)"
  by pat_completeness auto
termination
  by (relation "measure (\<lambda>(i, us). length us)") (auto dest: scan_token_shrinks)

definition tokenize :: "string \<Rightarrow> parse_error + token list" where
  "tokenize source = tokenize_from 0 (units_of source)"

section \<open>What the tokenizer delivers\<close>

text \<open>
  \<open>covers i us ts\<close>: the tokens \<open>ts\<close> cut the units \<open>us\<close>, which begin at offset \<open>i\<close>, into
  lexemes with nothing but blanks between them, each token at the offset of its lexeme, and
  end with an end-of-input token at the end of the source.
\<close>

inductive covers :: "nat \<Rightarrow> nat list \<Rightarrow> token list \<Rightarrow> bool" where
  covers_end: "covers i [] [tok TokenEOF [] i]"
| covers_blank: "is_space_unit u \<Longrightarrow> covers (i + 1) us ts \<Longrightarrow> covers i (u # us) ts"
| covers_token: "lexeme_of i c t \<Longrightarrow> covers (i + length c) us ts \<Longrightarrow> covers i (c @ us) (t # ts)"

lemma scan_token_Skip: "scan_token i ch rest = Skip \<Longrightarrow> is_space_unit ch"
  by (auto simp: scan_token_def Let_def split: if_splits sum.splits)

lemma read_string_loop_error:
  "read_string_loop q s v i us = Inl e \<Longrightarrow> s < i \<Longrightarrow> s \<le> ErrorPosition e \<and> ErrorPosition e < i + length us"
proof (induction q s v i us rule: read_string_loop.induct)
  case (2 q s v i ch rest)
  consider "ch = q" | e es where "ch \<noteq> q" "ch = 92" "rest = e # es" | "ch \<noteq> q" "ch = 92" "rest = []"
    | "ch \<noteq> q" "ch \<noteq> 92"
    by (cases rest) auto
  then show ?case
  proof cases
    case (2 e' es)
    show ?thesis
    proof (cases "unescape e' i")
      case (Inl d)
      then have "ErrorPosition d = i"
        by (auto simp: unescape_def split: if_splits)
      with 2 Inl "2.prems" show ?thesis by auto
    next
      case (Inr r)
      with 2 "2.prems" show ?thesis
        using "2.IH"(1) [OF 2 Inr] by auto
    qed
  qed (use 2 in auto)
qed auto

lemma scan_token_error:
  "scan_token i ch rest = Reject e \<Longrightarrow> i \<le> ErrorPosition e \<and> ErrorPosition e < i + length (ch # rest)"
  using read_string_loop_error [of ch i "[]" "i + 1" rest]
  by (auto simp: scan_token_def Let_def read_string_literal_def split: if_splits sum.splits)

lemma tokenize_from_covers:
  "case tokenize_from i us of
     Inr ts \<Rightarrow> covers i us ts
   | Inl e \<Rightarrow> i \<le> ErrorPosition e \<and> ErrorPosition e < i + length us"
proof (induction i us rule: tokenize_from.induct)
  case (1 i)
  then show ?case by (simp add: covers_end)
next
  case (2 i ch rest)
  show ?case
  proof (cases "scan_token i ch rest")
    case Skip
    with "2.IH"(1) scan_token_Skip [OF Skip] show ?thesis
      by (auto simp: covers_blank split: sum.splits)
  next
    case (Lexeme t us' j)
    obtain c where c: "ch # rest = c @ us'" and j: "j = i + length c" and lex: "lexeme_of i c t"
      using scan_token_span [OF Lexeme] by blast
    have len: "length us' + length c = Suc (length rest)"
      using c by (metis add.commute length_Cons length_append)
    have "covers i (ch # rest) (t # ts)" if "covers j us' ts" for ts
      using covers_token [OF lex] that unfolding c j by blast
    with "2.IH"(2) [OF Lexeme] Lexeme len j show ?thesis
      by (cases "tokenize_from j us'") auto
  next
    case (Reject e)
    then show ?thesis
      using scan_token_error [OF Reject] by simp
  qed
qed

text \<open>
  Tokenizing never loses or invents text: a token list cuts the UTF-16 units of the
  source into lexemes separated by blanks only, each token carrying the offset and (string
  literals apart) the text of its lexeme, with an end-of-input token after the last unit. A
  lexical error points at a unit of the source.
\<close>

theorem tokenize_covers:
  "case tokenize source of
     Inr ts \<Rightarrow> covers 0 (units_of source) ts
   | Inl e \<Rightarrow> ErrorPosition e < length (units_of source)"
  using tokenize_from_covers [of 0 "units_of source"] by (auto simp: tokenize_def split: sum.splits)

text \<open>The shape of a covering token list.\<close>

lemma covers_shape:
  "covers i us ts \<Longrightarrow>
     \<exists>body. ts = body @ [tok TokenEOF [] (i + length us)] \<and>
       (\<forall>t \<in> set body. Kind t \<noteq> TokenEOF \<and> i \<le> Position t \<and> Position t < i + length us) \<and>
       sorted_wrt (\<lambda>a b. Position a < Position b) ts"
proof (induction rule: covers.induct)
  case (covers_token i c t us ts)
  then obtain body where b: "ts = body @ [tok TokenEOF [] (i + length c + length us)]"
    "\<forall>t \<in> set body. Kind t \<noteq> TokenEOF \<and> i + length c \<le> Position t \<and> Position t < i + length c + length us"
    "sorted_wrt (\<lambda>a b. Position a < Position b) ts"
    by blast
  moreover have "0 < length c" "Position t = i" "Kind t \<noteq> TokenEOF"
    using covers_token.hyps(1) by (auto simp: lexeme_of_def)
  moreover from this b(2) have "\<forall>u \<in> set body. Position t < Position u"
    by (metis add_less_cancel_left add.right_neutral order_less_le_trans)
  ultimately show ?case
    by (intro exI [of _ "t # body"]) (auto simp: add.assoc)
qed force+

section \<open>String literals\<close>

text \<open>The spelling of a sequence of units as a double-quoted literal.\<close>

definition escape_unit :: "nat \<Rightarrow> nat list" where
  "escape_unit u =
     (if u = 92 \<or> u = 34 then [92, u] else if u = 10 then [92, unit CHR ''n'']
      else if u = 9 then [92, unit CHR ''t''] else [u])"

definition quote_units :: "nat list \<Rightarrow> nat list" where
  "quote_units us = 34 # concat (map escape_unit us) @ [34]"

lemma read_quoted:
  "read_string_loop 34 s v i (concat (map escape_unit us) @ 34 # rest) =
     Inr (decode_units (v @ us), i + length (concat (map escape_unit us)) + 1, rest)"
  by (induction us arbitrary: v i) (auto simp: escape_unit_def unescape_def unit_def byte_of_def)

text \<open>
  A value written as a double-quoted literal, with quotes, backslashes, newlines and tabs
  escaped, is tokenized to one string token holding that value.
\<close>

theorem string_literal_roundtrip:
  "tokenize_from i (quote_units us) =
     Inr [tok TokenString (decode_units us) i, tok TokenEOF [] (i + length (quote_units us))]"
  by (simp add: quote_units_def scan_token_def is_space_unit_def is_digit_unit_def unit_def byte_of_def
      read_string_literal_def read_quoted [where rest = "[]", simplified] Let_def)

end
