(* ===== verification/Expr_Parser.thy ===== *)
theory Expr_Parser
  imports Expr_Tokens Go_Number
begin

text \<open>
  The syntax tree and the recursive-descent parser of the expression language
  (\<^verbatim>\<open>core/internal/script/expression/ast.go\<close> and \<^verbatim>\<open>parse.go\<close>). The parser's state, a position
  in the token array, is the list of the tokens from that position on. Reading past the end
  of the array, which would panic, is an outcome of its own, and so is running out of fuel:
  \<open>parse_or\<close> is given fuel for the nesting of parentheses, and each loop over the operands of
  one precedence level for its length.
\<close>

section \<open>Syntax trees\<close>

datatype binary_operator =
  BinaryOr | BinaryAnd | BinaryEq | BinaryNeq | BinaryLt | BinaryLte | BinaryGt | BinaryGte
| BinaryAdd | BinarySub | BinaryMul | BinaryDiv | BinaryMod

datatype unary_operator = UnaryMinus | UnaryNot

datatype cast_function = CastNumber | CastString | CastBool

datatype expr =
  NumberLiteral nat f64
| StringLiteral nat string
| BooleanLiteral nat bool
| Identifier nat string
| UnaryExpr nat unary_operator expr
| BinaryExpr nat binary_operator expr expr
| CastExpr nat cast_function expr

fun start :: "expr \<Rightarrow> nat" where
  "start (NumberLiteral p _) = p"
| "start (StringLiteral p _) = p"
| "start (BooleanLiteral p _) = p"
| "start (Identifier p _) = p"
| "start (UnaryExpr p _ _) = p"
| "start (BinaryExpr p _ _ _) = p"
| "start (CastExpr p _ _) = p"

section \<open>Parser results\<close>

datatype parsed = Parsed expr "token list" | Failed parse_error | Panicked | OutOfFuel

fun then_parse :: "parsed \<Rightarrow> (expr \<Rightarrow> token list \<Rightarrow> parsed) \<Rightarrow> parsed" where
  "then_parse (Parsed e ts) k = k e ts"
| "then_parse (Failed err) _ = Failed err"
| "then_parse Panicked _ = Panicked"
| "then_parse OutOfFuel _ = OutOfFuel"

text \<open>\<^verbatim>\<open>advance\<close>, \<^verbatim>\<open>isPunct\<close> and \<^verbatim>\<open>isKeyword\<close>, for a position inside the array.\<close>

definition advance :: "token list \<Rightarrow> token list" where
  "advance ts = (case ts of [] \<Rightarrow> [] | t # rest \<Rightarrow> if Kind t = TokenEOF then ts else rest)"

definition is_punct :: "string \<Rightarrow> token \<Rightarrow> bool" where
  "is_punct v t \<longleftrightarrow> Kind t = TokenPunct \<and> Value t = v"

definition is_keyword :: "string \<Rightarrow> token \<Rightarrow> bool" where
  "is_keyword v t \<longleftrightarrow> Kind t = TokenIdentifier \<and> Value t = v"

definition quoted :: "string \<Rightarrow> string" where
  "quoted s = CHR 0x22 # s @ [CHR 0x22]"

definition expect_punct :: "string \<Rightarrow> token list \<Rightarrow> (token list \<Rightarrow> parsed) \<Rightarrow> parsed" where
  "expect_punct v ts k =
     (case ts of
        [] \<Rightarrow> Panicked
      | t # _ \<Rightarrow>
          if is_punct v t then k (advance ts)
          else Failed (parse_err (''expected '' @ quoted v @ '' but found '' @ quoted (describe_token t)) (Position t)))"

section \<open>Operators by precedence level\<close>

definition or_op :: "token \<Rightarrow> binary_operator option" where
  "or_op t = (if is_keyword ''or'' t then Some BinaryOr else None)"

definition and_op :: "token \<Rightarrow> binary_operator option" where
  "and_op t = (if is_keyword ''and'' t then Some BinaryAnd else None)"

definition equality_op :: "token \<Rightarrow> binary_operator option" where
  "equality_op t =
     (if is_punct ''=='' t then Some BinaryEq else if is_punct ''!='' t then Some BinaryNeq else None)"

definition comparison_op :: "token \<Rightarrow> binary_operator option" where
  "comparison_op t =
     (if is_punct ''<'' t then Some BinaryLt else if is_punct ''<='' t then Some BinaryLte
      else if is_punct ''>'' t then Some BinaryGt else if is_punct ''>='' t then Some BinaryGte else None)"

definition additive_op :: "token \<Rightarrow> binary_operator option" where
  "additive_op t =
     (if is_punct ''+'' t then Some BinaryAdd else if is_punct ''-'' t then Some BinarySub else None)"

definition multiplicative_op :: "token \<Rightarrow> binary_operator option" where
  "multiplicative_op t =
     (if is_punct ''*'' t then Some BinaryMul else if is_punct ''/'' t then Some BinaryDiv
      else if is_punct ''%'' t then Some BinaryMod else None)"

text \<open>
  The loop the six left-associative levels share: while the current token is an operator of
  the level, consume it and parse another operand.
\<close>

fun operand_loop ::
  "(token \<Rightarrow> binary_operator option) \<Rightarrow> (token list \<Rightarrow> parsed) \<Rightarrow> nat \<Rightarrow> expr \<Rightarrow> token list \<Rightarrow> parsed"
where
  "operand_loop op sub fuel left [] = Panicked"
| "operand_loop op sub fuel left (t # ts) =
     (case op t of
        None \<Rightarrow> Parsed left (t # ts)
      | Some operator \<Rightarrow>
          (case fuel of
             0 \<Rightarrow> OutOfFuel
           | Suc n \<Rightarrow>
               then_parse (sub (advance (t # ts)))
                 (\<lambda>right. operand_loop op sub n (BinaryExpr (start left) operator left right))))"

definition left_assoc ::
  "(token \<Rightarrow> binary_operator option) \<Rightarrow> (token list \<Rightarrow> parsed) \<Rightarrow> token list \<Rightarrow> parsed" where
  "left_assoc op sub ts = then_parse (sub ts) (\<lambda>left ts'. operand_loop op sub (length ts') left ts')"

section \<open>The levels\<close>

definition cast_function_of :: "string \<Rightarrow> cast_function option" where
  "cast_function_of name =
     (if name = ''number'' then Some CastNumber else if name = ''string'' then Some CastString
      else if name = ''bool'' then Some CastBool else None)"

definition followed_by_call :: "token list \<Rightarrow> bool" where
  "followed_by_call rest = (case rest of [] \<Rightarrow> False | t # _ \<Rightarrow> is_punct ''('' t)"

text \<open>
  \<open>rec\<close> is \<^verbatim>\<open>parseOr\<close>, called back for what stands inside parentheses; \<open>rest\<close> are the tokens
  after the identifier \<open>t\<close>.
\<close>

definition parse_identifier_like :: "(token list \<Rightarrow> parsed) \<Rightarrow> token \<Rightarrow> token list \<Rightarrow> parsed" where
  "parse_identifier_like rec t rest =
     (if Value t = ''true'' \<or> Value t = ''false'' then Parsed (BooleanLiteral (Position t) (Value t = ''true'')) rest
      else if followed_by_call rest then
        (case cast_function_of (Value t) of
           Some f \<Rightarrow>
             then_parse (rec (advance rest))
               (\<lambda>argument ts. expect_punct '')'' ts (Parsed (CastExpr (Position t) f argument)))
         | None \<Rightarrow>
             Failed (parse_err
               (''unknown function '' @ quoted (Value t) @ '', only number, string, and bool are callable'')
               (Position t)))
      else Parsed (Identifier (Position t) (Value t)) rest)"

definition parse_primary :: "(token list \<Rightarrow> parsed) \<Rightarrow> token list \<Rightarrow> parsed" where
  "parse_primary rec ts =
     (case ts of
        [] \<Rightarrow> Panicked
      | t # rest \<Rightarrow>
          (case Kind t of
             TokenNumber \<Rightarrow> Parsed (NumberLiteral (Position t) (parse_float_value (Value t))) (advance ts)
           | TokenString \<Rightarrow> Parsed (StringLiteral (Position t) (Value t)) (advance ts)
           | TokenIdentifier \<Rightarrow> parse_identifier_like rec t (advance ts)
           | _ \<Rightarrow>
               if is_punct ''('' t then
                 then_parse (rec (advance ts)) (\<lambda>inner ts'. expect_punct '')'' ts' (Parsed inner))
               else Failed (parse_err
                 (''expected an expression but found '' @ quoted (describe_token t)) (Position t))))"

fun parse_unary :: "(token list \<Rightarrow> parsed) \<Rightarrow> token list \<Rightarrow> parsed" where
  "parse_unary rec [] = Panicked"
| "parse_unary rec (t # ts) =
     (if is_punct ''-'' t then
        then_parse (parse_unary rec ts) (\<lambda>argument. Parsed (UnaryExpr (Position t) UnaryMinus argument))
      else parse_primary rec (t # ts))"

definition parse_multiplicative :: "(token list \<Rightarrow> parsed) \<Rightarrow> token list \<Rightarrow> parsed" where
  "parse_multiplicative rec = left_assoc multiplicative_op (parse_unary rec)"

definition parse_additive :: "(token list \<Rightarrow> parsed) \<Rightarrow> token list \<Rightarrow> parsed" where
  "parse_additive rec = left_assoc additive_op (parse_multiplicative rec)"

definition parse_comparison :: "(token list \<Rightarrow> parsed) \<Rightarrow> token list \<Rightarrow> parsed" where
  "parse_comparison rec = left_assoc comparison_op (parse_additive rec)"

definition parse_equality :: "(token list \<Rightarrow> parsed) \<Rightarrow> token list \<Rightarrow> parsed" where
  "parse_equality rec = left_assoc equality_op (parse_comparison rec)"

fun parse_not :: "(token list \<Rightarrow> parsed) \<Rightarrow> token list \<Rightarrow> parsed" where
  "parse_not rec [] = Panicked"
| "parse_not rec (t # ts) =
     (if is_keyword ''not'' t then
        then_parse (parse_not rec ts) (\<lambda>argument. Parsed (UnaryExpr (Position t) UnaryNot argument))
      else parse_equality rec (t # ts))"

definition parse_and :: "(token list \<Rightarrow> parsed) \<Rightarrow> token list \<Rightarrow> parsed" where
  "parse_and rec = left_assoc and_op (parse_not rec)"

fun parse_or :: "nat \<Rightarrow> token list \<Rightarrow> parsed" where
  "parse_or 0 ts = OutOfFuel"
| "parse_or (Suc n) ts = left_assoc or_op (parse_and (parse_or n)) ts"

text \<open>\<^verbatim>\<open>Parse\<close> after tokenizing, and on a source.\<close>

definition parse_tokens :: "token list \<Rightarrow> parsed" where
  "parse_tokens ts =
     (case ts of
        [] \<Rightarrow> Panicked
      | t # _ \<Rightarrow>
          if Kind t = TokenEOF then Failed (parse_err ''expression source is empty'' 0)
          else then_parse (parse_or (length ts) ts)
            (\<lambda>result ts'.
               case ts' of
                 [] \<Rightarrow> Panicked
               | u # _ \<Rightarrow>
                   if Kind u = TokenEOF then Parsed result ts'
                   else Failed (parse_err (''unexpected trailing input '' @ quoted (describe_token u)) (Position u))))"

definition parse :: "string \<Rightarrow> parsed" where
  "parse source =
     (case tokenize source of Inl e \<Rightarrow> Failed e | Inr ts \<Rightarrow> parse_tokens ts)"

end
