(* ===== verification/Expr_Grammar.thy ===== *)
theory Expr_Grammar
  imports Expr_Parser
begin

text \<open>
  Correctness of the expression parser: it terminates within its fuel and never reads past the
  end of the tokens, and the trees it returns are exactly those of the grammar that the
  documentation of \<^verbatim>\<open>Parse\<close> describes (precedence from lowest to highest: or, and, not, equality,
  comparison, additive, multiplicative, unary, primary; binary operators associate to the left).
\<close>

section \<open>The levels as one function\<close>

datatype level = LOr | LAnd | LNot | LEquality | LComparison | LAdditive | LMultiplicative | LUnary | LPrimary

text \<open>The binary operators of a level, and the level of its operands.\<close>

fun level_op :: "level \<Rightarrow> token \<Rightarrow> binary_operator option" where
  "level_op LOr = or_op"
| "level_op LAnd = and_op"
| "level_op LEquality = equality_op"
| "level_op LComparison = comparison_op"
| "level_op LAdditive = additive_op"
| "level_op LMultiplicative = multiplicative_op"
| "level_op _ = (\<lambda>_. None)"

fun tighter :: "level \<Rightarrow> level" where
  "tighter LOr = LAnd"
| "tighter LAnd = LNot"
| "tighter LNot = LEquality"
| "tighter LEquality = LComparison"
| "tighter LComparison = LAdditive"
| "tighter LAdditive = LMultiplicative"
| "tighter LMultiplicative = LUnary"
| "tighter _ = LPrimary"

definition binary_level :: "level \<Rightarrow> bool" where
  "binary_level l \<longleftrightarrow> l \<notin> {LNot, LUnary, LPrimary}"

fun level_parser :: "level \<Rightarrow> (token list \<Rightarrow> parsed) \<Rightarrow> token list \<Rightarrow> parsed" where
  "level_parser LOr rec = left_assoc or_op (parse_and rec)"
| "level_parser LAnd rec = parse_and rec"
| "level_parser LNot rec = parse_not rec"
| "level_parser LEquality rec = parse_equality rec"
| "level_parser LComparison rec = parse_comparison rec"
| "level_parser LAdditive rec = parse_additive rec"
| "level_parser LMultiplicative rec = parse_multiplicative rec"
| "level_parser LUnary rec = parse_unary rec"
| "level_parser LPrimary rec = parse_primary rec"

lemma level_parser_binary:
  "binary_level l \<Longrightarrow> level_parser l rec = left_assoc (level_op l) (level_parser (tighter l) rec)"
  by (cases l)
    (simp_all add: binary_level_def parse_and_def parse_equality_def parse_comparison_def
      parse_additive_def parse_multiplicative_def)

lemma parse_or_level: "parse_or (Suc n) = level_parser LOr (parse_or n)"
  by (rule ext) simp

text \<open>Operators are words or punctuation, so never the end of input nor an opening parenthesis.\<close>

lemmas operator_defs =
  or_op_def and_op_def equality_op_def comparison_op_def additive_op_def multiplicative_op_def
  is_punct_def is_keyword_def

lemma level_op_token: "level_op l t = Some b \<Longrightarrow> Kind t \<noteq> TokenEOF \<and> \<not> is_punct ''('' t \<and> \<not> is_punct '')'' t"
  by (cases l) (auto simp: operator_defs split: if_splits)

text \<open>Induction over the levels, from the tightest to the loosest.\<close>

lemma level_induct [case_names primary unary notlevel binary]:
  assumes "P LPrimary" "P LPrimary \<Longrightarrow> P LUnary" "P LEquality \<Longrightarrow> P LNot"
    "\<And>l. binary_level l \<Longrightarrow> P (tighter l) \<Longrightarrow> P l"
  shows "P l"
proof -
  have "P LUnary" "P LMultiplicative" "P LAdditive" "P LComparison" "P LEquality" "P LNot" "P LAnd" "P LOr"
    using assms(1,2,3) assms(4) [of LMultiplicative] assms(4) [of LAdditive] assms(4) [of LComparison]
      assms(4) [of LEquality] assms(4) [of LAnd] assms(4) [of LOr]
    by (simp_all add: binary_level_def)
  with assms(1) show ?thesis
    by (cases l) auto
qed

section \<open>Sequencing\<close>

lemma then_parse_Parsed_iff:
  "then_parse p k = Parsed e ts \<longleftrightarrow> (\<exists>a us. p = Parsed a us \<and> k a us = Parsed e ts)"
  by (cases p) auto

lemma expect_punct_Parsed_iff:
  "expect_punct v ts k = Parsed e us \<longleftrightarrow> (\<exists>t rest. ts = t # rest \<and> is_punct v t \<and> k (advance ts) = Parsed e us)"
  by (auto simp: expect_punct_def split: list.splits)

lemma advance_Cons [simp]: "Kind t \<noteq> TokenEOF \<Longrightarrow> advance (t # ts) = ts"
  by (simp add: advance_def)

lemma length_advance: "length (advance ts) \<le> length ts"
  by (auto simp: advance_def split: list.splits)

section \<open>Progress\<close>

text \<open>
  The contract the levels share: a successful parse consumes at least one token. Under it the
  fuel of the operand loop is immaterial once it reaches the number of tokens left.
\<close>

locale consuming_parser =
  fixes sub :: "token list \<Rightarrow> parsed"
  assumes consumes: "sub ts = Parsed e ts' \<Longrightarrow> length ts' < length ts"
begin

lemma operand_loop_consumes:
  "operand_loop op sub fuel left ts = Parsed e ts' \<Longrightarrow> length ts' \<le> length ts"
proof (induction fuel arbitrary: left ts)
  case 0
  then show ?case by (cases ts) (auto split: option.splits)
next
  case (Suc n)
  show ?case
  proof (cases ts)
    case (Cons t rest)
    show ?thesis
    proof (cases "op t")
      case (Some b)
      with Suc.prems Cons obtain r us where "sub (advance ts) = Parsed r us"
        "operand_loop op sub n (BinaryExpr (start left) b left r) us = Parsed e ts'"
        by (auto simp: then_parse_Parsed_iff)
      then show ?thesis
        using Suc.IH consumes length_advance [of ts] by fastforce
    qed (use Suc.prems Cons in auto)
  qed (use Suc.prems in simp)
qed

lemma left_assoc_consumes: "left_assoc op sub ts = Parsed e ts' \<Longrightarrow> length ts' < length ts"
  using consumes operand_loop_consumes by (fastforce simp: left_assoc_def then_parse_Parsed_iff)

lemma operand_loop_fuel:
  "length ts \<le> fuel \<Longrightarrow> operand_loop op sub fuel left ts = operand_loop op sub (length ts) left ts"
proof (induction fuel arbitrary: left ts rule: less_induct)
  case (less fuel)
  show ?case
  proof (cases ts)
    case (Cons t rest)
    then obtain n where n: "fuel = Suc n" using less.prems by (cases fuel) auto
    have "operand_loop op sub n l us = operand_loop op sub (length rest) l us"
      if "sub (advance ts) = Parsed r us" for l r us
    proof -
      have "length us \<le> length rest"
        using consumes [OF that] length_advance [of ts] Cons by simp
      then show ?thesis
        using less.IH [of n us l] less.IH [of "length rest" us l] less.prems n Cons
        by (cases "length rest < fuel") auto
    qed
    then show ?thesis
      unfolding Cons n by (cases "sub (advance (t # rest))") (auto simp: Cons split: option.splits)
  qed simp
qed

end

lemma parse_primary_consumes:
  assumes "consuming_parser rec" "parse_primary rec ts = Parsed e ts'"
  shows "length ts' < length ts"
proof -
  obtain t rest where ts: "ts = t # rest"
    using assms(2) by (cases ts) (auto simp: parse_primary_def)
  have inner: "length us < length rest" if "rec (advance rest) = Parsed a us" for a us
    using consuming_parser.consumes [OF assms(1) that] length_advance [of rest] by simp
  have paren: "length us < length rest" if "rec rest = Parsed a us" for a us
    using consuming_parser.consumes [OF assms(1) that] .
  show ?thesis
    using assms(2) unfolding ts
    by (cases "Kind t")
      (auto simp: parse_primary_def parse_identifier_like_def then_parse_Parsed_iff expect_punct_Parsed_iff
        is_punct_def split: if_splits option.splits dest!: inner paren)
qed

lemma parse_unary_consumes:
  assumes "consuming_parser rec"
  shows "parse_unary rec ts = Parsed e ts' \<Longrightarrow> length ts' < length ts"
  by (induction ts arbitrary: e)
    (auto simp: then_parse_Parsed_iff less_SucI split: if_splits dest!: parse_primary_consumes [OF assms])

lemma parse_not_consumes:
  assumes "consuming_parser (parse_equality rec)"
  shows "parse_not rec ts = Parsed e ts' \<Longrightarrow> length ts' < length ts"
  by (induction ts arbitrary: e)
    (auto simp: then_parse_Parsed_iff less_SucI split: if_splits dest!: consuming_parser.consumes [OF assms])

lemma level_parser_consuming: "consuming_parser rec \<Longrightarrow> consuming_parser (level_parser l rec)"
proof (induction l rule: level_induct)
  case primary
  show ?case
    unfolding level_parser.simps by (rule consuming_parser.intro) (rule parse_primary_consumes [OF primary])
next
  case unary
  show ?case
    unfolding level_parser.simps by (rule consuming_parser.intro) (rule parse_unary_consumes [OF unary(2)])
next
  case notlevel
  then have "consuming_parser (parse_equality rec)"
    by simp
  then show ?case
    unfolding level_parser.simps by (intro consuming_parser.intro) (rule parse_not_consumes)
next
  case (binary l)
  then have "consuming_parser (level_parser (tighter l) rec)"
    by blast
  then show ?case
    unfolding level_parser_binary [OF binary(1)]
    by (intro consuming_parser.intro) (rule consuming_parser.left_assoc_consumes)
qed

lemma parse_or_consuming: "consuming_parser (parse_or n)"
proof (induction n)
  case 0
  show ?case by (simp add: consuming_parser_def)
next
  case (Suc n)
  then show ?case
    unfolding parse_or_level by (rule level_parser_consuming)
qed

text \<open>The contract holds for the code's parser at every level and every fuel.\<close>

interpretation level: consuming_parser "level_parser l (parse_or n)" for l n
  by (rule level_parser_consuming [OF parse_or_consuming])

section \<open>Totality\<close>

text \<open>
  A token list that ends with the end-of-input token and has no other. On such a list, and
  with fuel for its length, a level neither panics nor runs out of fuel, and what it leaves
  is again such a list.
\<close>

definition terminated :: "token list \<Rightarrow> bool" where
  "terminated ts \<longleftrightarrow> (\<exists>body eof. ts = body @ [eof] \<and> Kind eof = TokenEOF \<and> (\<forall>t \<in> set body. Kind t \<noteq> TokenEOF))"

fun completes :: "parsed \<Rightarrow> bool" where
  "completes (Parsed e ts) = terminated ts"
| "completes (Failed err) = True"
| "completes _ = False"

definition total_parser :: "nat \<Rightarrow> (token list \<Rightarrow> parsed) \<Rightarrow> bool" where
  "total_parser n p \<longleftrightarrow> (\<forall>ts. terminated ts \<longrightarrow> length ts \<le> n \<longrightarrow> completes (p ts))"

lemma terminated_Nil [simp]: "\<not> terminated []"
  by (simp add: terminated_def)

lemma terminated_Cons: "Kind t \<noteq> TokenEOF \<Longrightarrow> terminated (t # ts) \<longleftrightarrow> terminated ts"
  unfolding terminated_def by (auto simp: Cons_eq_append_conv intro: exI [of _ "t # _"])

lemma terminated_advance: "terminated ts \<Longrightarrow> terminated (advance ts)"
  by (cases ts) (auto simp: advance_def terminated_Cons)

lemma terminated_eof: "terminated (t # ts) \<Longrightarrow> Kind t = TokenEOF \<Longrightarrow> ts = []"
  by (auto simp: terminated_def Cons_eq_append_conv)

lemma completes_then_parse:
  "completes p \<Longrightarrow> (\<And>e ts. p = Parsed e ts \<Longrightarrow> terminated ts \<Longrightarrow> completes (k e ts)) \<Longrightarrow> completes (then_parse p k)"
  by (cases p) auto

lemma completes_expect_punct:
  "terminated ts \<Longrightarrow> (terminated (advance ts) \<Longrightarrow> completes (k (advance ts))) \<Longrightarrow> completes (expect_punct v ts k)"
  by (cases ts) (auto simp: expect_punct_def terminated_advance)

lemma completes_operand_loop:
  assumes "consuming_parser sub" "total_parser n sub"
    and "\<And>t b. op t = Some b \<Longrightarrow> Kind t \<noteq> TokenEOF"
  shows "terminated ts \<Longrightarrow> length ts \<le> n \<Longrightarrow> length ts \<le> fuel \<Longrightarrow> completes (operand_loop op sub fuel left ts)"
proof (induction fuel arbitrary: left ts)
  case 0
  then show ?case by auto
next
  case (Suc f)
  obtain t rest where ts: "ts = t # rest"
    using Suc.prems(1) by (cases ts) auto
  show ?case
  proof (cases "op t")
    case None
    with Suc.prems ts show ?thesis by simp
  next
    case (Some b)
    with assms(3) have adv: "advance ts = rest" and rest: "terminated rest"
      using Suc.prems(1) ts terminated_Cons by auto
    have "completes (sub rest)"
      using assms(2) rest Suc.prems(2) ts by (simp add: total_parser_def)
    then have "completes (then_parse (sub rest) (\<lambda>r. operand_loop op sub f (BinaryExpr (start left) b left r)))"
    proof (rule completes_then_parse)
      fix e us
      assume "sub rest = Parsed e us" "terminated us"
      moreover from this have "length us < length rest"
        using consuming_parser.consumes [OF assms(1)] by blast
      ultimately show "completes (operand_loop op sub f (BinaryExpr (start left) b left e) us)"
        using Suc.IH Suc.prems ts by simp
    qed
    with Some adv ts show ?thesis by simp
  qed
qed

lemma total_left_assoc:
  assumes "consuming_parser sub" "total_parser n sub"
    and "\<And>t b. op t = Some b \<Longrightarrow> Kind t \<noteq> TokenEOF"
  shows "total_parser n (left_assoc op sub)"
  unfolding total_parser_def left_assoc_def
proof (intro allI impI, rule completes_then_parse)
  fix ts
  assume "terminated ts" "length ts \<le> n"
  then show "completes (sub ts)"
    using assms(2) by (simp add: total_parser_def)
  fix e us
  assume "sub ts = Parsed e us" "terminated us"
  moreover from this have "length us < length ts"
    using consuming_parser.consumes [OF assms(1)] by blast
  ultimately show "completes (operand_loop op sub (length us) e us)"
    using completes_operand_loop [OF assms] \<open>length ts \<le> n\<close> by simp
qed

lemma total_primary:
  assumes "total_parser n rec"
  shows "total_parser (Suc n) (parse_primary rec)"
  unfolding total_parser_def
proof (intro allI impI)
  fix ts
  assume ts: "terminated ts" "length ts \<le> Suc n"
  then obtain t rest where Cons: "ts = t # rest"
    by (cases ts) auto
  show "completes (parse_primary rec ts)"
  proof (cases "Kind t = TokenEOF")
    case True
    then show ?thesis by (simp add: Cons parse_primary_def is_punct_def)
  next
    case False
    then have rest: "terminated rest"
      using ts Cons terminated_Cons by simp
    have rec: "completes (rec us)" if "terminated us" "length us \<le> length rest" for us
      using assms that ts Cons by (simp add: total_parser_def)
    have call: "completes (then_parse (rec us) (\<lambda>e vs. expect_punct v vs (\<lambda>ws. Parsed (k e) ws)))"
      if "terminated us" "length us \<le> length rest" for us v k
      by (intro completes_then_parse rec that completes_expect_punct) auto
    show ?thesis
      using False rest call [OF rest] call [OF terminated_advance [OF rest] length_advance]
        call [where k = "\<lambda>e. e", OF rest]
      by (cases "Kind t") (auto simp: Cons parse_primary_def parse_identifier_like_def split: option.splits)
  qed
qed

lemma total_unary:
  assumes "total_parser n (parse_primary rec)"
  shows "total_parser n (parse_unary rec)"
proof -
  have "terminated ts \<Longrightarrow> length ts \<le> n \<Longrightarrow> completes (parse_unary rec ts)" for ts
  proof (induction ts)
    case (Cons t ts)
    have "completes (then_parse (parse_unary rec ts) (\<lambda>a. Parsed (UnaryExpr (Position t) UnaryMinus a)))"
      if "is_punct ''-'' t"
      by (rule completes_then_parse) (use Cons that in \<open>auto simp: terminated_Cons is_punct_def\<close>)
    with Cons.prems assms show ?case
      by (auto simp: total_parser_def)
  qed simp
  then show ?thesis
    by (simp add: total_parser_def)
qed

lemma total_not:
  assumes "total_parser n (parse_equality rec)"
  shows "total_parser n (parse_not rec)"
proof -
  have "terminated ts \<Longrightarrow> length ts \<le> n \<Longrightarrow> completes (parse_not rec ts)" for ts
  proof (induction ts)
    case (Cons t ts)
    have "completes (then_parse (parse_not rec ts) (\<lambda>a. Parsed (UnaryExpr (Position t) UnaryNot a)))"
      if "is_keyword ''not'' t"
      by (rule completes_then_parse) (use Cons that in \<open>auto simp: terminated_Cons is_keyword_def\<close>)
    with Cons.prems assms show ?case
      by (auto simp: total_parser_def)
  qed simp
  then show ?thesis
    by (simp add: total_parser_def)
qed

lemma total_level:
  assumes "total_parser n (parse_or n)"
  shows "total_parser (Suc n) (level_parser l (parse_or n))"
proof (induction l rule: level_induct)
  case primary
  show ?case using total_primary [OF assms] by simp
next
  case unary
  then show ?case using total_unary by simp
next
  case notlevel
  then show ?case using total_not by simp
next
  case (binary l)
  show ?case
    unfolding level_parser_binary [OF binary(1)]
    by (rule total_left_assoc [OF level.consuming_parser_axioms binary(2)]) (use level_op_token in blast)
qed

lemma total_or: "total_parser n (parse_or n)"
proof (induction n)
  case 0
  show ?case by (auto simp: total_parser_def)
next
  case (Suc n)
  then show ?case unfolding parse_or_level by (rule total_level)
qed

lemma parse_tokens_completes: "terminated ts \<Longrightarrow> completes (parse_tokens ts)"
proof -
  assume ts: "terminated ts"
  then obtain t rest where Cons: "ts = t # rest"
    by (cases ts) auto
  have "completes (parse_or (length ts) ts)"
    using total_or [of "length ts"] ts by (simp add: total_parser_def)
  with Cons show ?thesis
    by (auto simp: parse_tokens_def split: list.splits intro!: completes_then_parse)
qed

lemma tokenize_terminated: "tokenize source = Inr ts \<Longrightarrow> terminated ts"
  using tokenize_from_covers [of 0 "units_of source"] covers_shape [of 0 "units_of source" ts]
  by (force simp: tokenize_def terminated_def)

text \<open>
  Parsing always returns: on every source text the parser delivers a tree or a parse error,
  never reading past the end of the token array, and the fuel it is given, the number of
  tokens, is always enough.
\<close>

theorem parse_total: "(\<exists>e rest. parse source = Parsed e rest) \<or> (\<exists>err. parse source = Failed err)"
proof (cases "tokenize source")
  case (Inr ts)
  have "completes (parse_tokens ts)"
    by (rule parse_tokens_completes [OF tokenize_terminated [OF Inr]])
  with Inr show ?thesis
    by (cases "parse_tokens ts") (auto simp: parse_def)
qed (simp add: parse_def)

section \<open>The grammar\<close>

text \<open>
  \<open>derives l ts e\<close>: the tokens \<open>ts\<close>, all of them, spell the tree \<open>e\<close> at precedence level \<open>l\<close>.
  A word is an identifier wherever an operand is expected, keywords included, except that
  \<open>not\<close> at the start of a \<open>not\<close> level is the operator.
\<close>

definition starts_with_not :: "token list \<Rightarrow> bool" where
  "starts_with_not ts \<longleftrightarrow> (case ts of [] \<Rightarrow> False | t # _ \<Rightarrow> is_keyword ''not'' t)"

definition starts_with_minus :: "token list \<Rightarrow> bool" where
  "starts_with_minus ts \<longleftrightarrow> (case ts of [] \<Rightarrow> False | t # _ \<Rightarrow> is_punct ''-'' t)"

inductive derives :: "level \<Rightarrow> token list \<Rightarrow> expr \<Rightarrow> bool" where
  d_number: "Kind t = TokenNumber \<Longrightarrow> derives LPrimary [t] (NumberLiteral (Position t) (parse_float_value (Value t)))"
| d_string: "Kind t = TokenString \<Longrightarrow> derives LPrimary [t] (StringLiteral (Position t) (Value t))"
| d_bool: "Kind t = TokenIdentifier \<Longrightarrow> Value t = ''true'' \<or> Value t = ''false'' \<Longrightarrow>
    derives LPrimary [t] (BooleanLiteral (Position t) (Value t = ''true''))"
| d_identifier: "Kind t = TokenIdentifier \<Longrightarrow> Value t \<noteq> ''true'' \<Longrightarrow> Value t \<noteq> ''false'' \<Longrightarrow>
    derives LPrimary [t] (Identifier (Position t) (Value t))"
| d_paren: "is_punct ''('' l \<Longrightarrow> derives LOr ts e \<Longrightarrow> is_punct '')'' r \<Longrightarrow> derives LPrimary (l # ts @ [r]) e"
| d_cast: "Kind t = TokenIdentifier \<Longrightarrow> cast_function_of (Value t) = Some f \<Longrightarrow> is_punct ''('' l \<Longrightarrow>
    derives LOr ts e \<Longrightarrow> is_punct '')'' r \<Longrightarrow> derives LPrimary (t # l # ts @ [r]) (CastExpr (Position t) f e)"
| d_minus: "is_punct ''-'' t \<Longrightarrow> derives LUnary ts e \<Longrightarrow> derives LUnary (t # ts) (UnaryExpr (Position t) UnaryMinus e)"
| d_primary: "derives LPrimary ts e \<Longrightarrow> derives LUnary ts e"
| d_not: "is_keyword ''not'' t \<Longrightarrow> derives LNot ts e \<Longrightarrow> derives LNot (t # ts) (UnaryExpr (Position t) UnaryNot e)"
| d_equality: "derives LEquality ts e \<Longrightarrow> \<not> starts_with_not ts \<Longrightarrow> derives LNot ts e"
| d_operand: "binary_level l \<Longrightarrow> derives (tighter l) ts e \<Longrightarrow> derives l ts e"
| d_binary: "binary_level l \<Longrightarrow> derives l ts a \<Longrightarrow> level_op l t = Some b \<Longrightarrow> derives (tighter l) us c \<Longrightarrow>
    derives l (ts @ t # us) (BinaryExpr (start a) b a c)"

subsection \<open>Soundness\<close>

definition sound_at :: "level \<Rightarrow> (token list \<Rightarrow> parsed) \<Rightarrow> bool" where
  "sound_at l p \<longleftrightarrow> (\<forall>ts e rest. p ts = Parsed e rest \<longrightarrow> (\<exists>us. ts = us @ rest \<and> derives l us e))"

lemma sound_atD: "sound_at l p \<Longrightarrow> p ts = Parsed e rest \<Longrightarrow> \<exists>us. ts = us @ rest \<and> derives l us e"
  by (simp add: sound_at_def)

lemma sound_operand_loop:
  assumes "binary_level l" "sound_at (tighter l) sub"
  shows "operand_loop (level_op l) sub fuel left ts = Parsed e rest \<Longrightarrow> derives l vs left \<Longrightarrow>
    \<exists>us. ts = us @ rest \<and> derives l (vs @ us) e"
proof (induction fuel arbitrary: left ts vs)
  case 0
  then show ?case by (cases ts) (auto split: option.splits)
next
  case (Suc n)
  obtain t ts' where ts: "ts = t # ts'"
    using Suc.prems(1) by (cases ts) auto
  show ?case
  proof (cases "level_op l t")
    case None
    with Suc.prems ts show ?thesis by auto
  next
    case (Some b)
    then have adv: "advance ts = ts'"
      using level_op_token ts by simp
    obtain r us where r: "sub ts' = Parsed r us"
      and loop: "operand_loop (level_op l) sub n (BinaryExpr (start left) b left r) us = Parsed e rest"
      using Suc.prems(1) Some ts adv by (auto simp: then_parse_Parsed_iff)
    obtain ws where ws: "ts' = ws @ us" "derives (tighter l) ws r"
      using sound_atD [OF assms(2) r] by blast
    have "derives l (vs @ t # ws) (BinaryExpr (start left) b left r)"
      by (rule d_binary [OF assms(1) Suc.prems(2) Some ws(2)])
    from Suc.IH [OF loop this] ws(1) ts show ?thesis
      by auto
  qed
qed

lemma sound_left_assoc:
  assumes "binary_level l" "sound_at (tighter l) sub"
  shows "sound_at l (left_assoc (level_op l) sub)"
  unfolding sound_at_def left_assoc_def
proof (intro allI impI)
  fix ts e rest
  assume "then_parse (sub ts) (\<lambda>left ts'. operand_loop (level_op l) sub (length ts') left ts') = Parsed e rest"
  then obtain a vs where a: "sub ts = Parsed a vs"
    and loop: "operand_loop (level_op l) sub (length vs) a vs = Parsed e rest"
    by (auto simp: then_parse_Parsed_iff)
  obtain us where us: "ts = us @ vs" "derives l us a"
    using sound_atD [OF assms(2) a] d_operand [OF assms(1)] by blast
  with sound_operand_loop [OF assms loop us(2)] show "\<exists>us. ts = us @ rest \<and> derives l us e"
    by auto
qed

lemma sound_primary:
  assumes "sound_at LOr rec"
  shows "sound_at LPrimary (parse_primary rec)"
  unfolding sound_at_def
proof (intro allI impI)
  fix ts e rest
  assume p: "parse_primary rec ts = Parsed e rest"
  then obtain t ts' where ts: "ts = t # ts'"
    by (cases ts) (auto simp: parse_primary_def)
  have group: "\<exists>us r. us' = us @ r # rest \<and> derives LOr us a \<and> is_punct '')'' r"
    if "rec us' = Parsed a ws" "ws = r # ws'" "is_punct '')'' r" "rest = advance ws" for us' a ws ws' r
    using sound_atD [OF assms that(1)] that(2-4) by (auto simp: is_punct_def)
  show "\<exists>us. ts = us @ rest \<and> derives LPrimary us e"
  proof (cases "Kind t")
    case TokenNumber
    with p ts show ?thesis by (auto simp: parse_primary_def intro: d_number)
  next
    case TokenString
    with p ts show ?thesis by (auto simp: parse_primary_def intro: d_string)
  next
    case TokenIdentifier
    consider "Value t = ''true'' \<or> Value t = ''false''" | "Value t \<noteq> ''true''" "Value t \<noteq> ''false''" "followed_by_call ts'"
      | "Value t \<noteq> ''true''" "Value t \<noteq> ''false''" "\<not> followed_by_call ts'"
      by blast
    then show ?thesis
    proof cases
      case 1
      with p ts TokenIdentifier show ?thesis
        by (auto simp: parse_primary_def parse_identifier_like_def intro: d_bool)
    next
      case 2
      then obtain l ls where l: "ts' = l # ls" "is_punct ''('' l"
        by (auto simp: followed_by_call_def split: list.splits)
      then have adv: "advance ts' = ls"
        by (simp add: is_punct_def)
      obtain f a ws r ws' where f: "cast_function_of (Value t) = Some f" and "rec ls = Parsed a ws"
        "ws = r # ws'" "is_punct '')'' r" "rest = advance ws" and e: "e = CastExpr (Position t) f a"
        using p ts TokenIdentifier 2 adv
        by (auto simp: parse_primary_def parse_identifier_like_def then_parse_Parsed_iff
            expect_punct_Parsed_iff split: option.splits)
      then obtain us r where "ls = us @ r # rest" "derives LOr us a" "is_punct '')'' r"
        using group by blast
      with d_cast [OF TokenIdentifier f l(2) this(2,3)] l(1) ts e show ?thesis
        by (intro exI [of _ "t # l # us @ [r]"]) simp
    next
      case 3
      with p ts TokenIdentifier show ?thesis
        by (auto simp: parse_primary_def parse_identifier_like_def intro: d_identifier)
    qed
  next
    case TokenPunct
    then obtain ws r ws' where l: "is_punct ''('' t" and "rec ts' = Parsed e ws"
        "ws = r # ws'" "is_punct '')'' r" "rest = advance ws"
      using p ts by (auto simp: parse_primary_def then_parse_Parsed_iff expect_punct_Parsed_iff split: if_splits)
    then obtain us r where "ts' = us @ r # rest" "derives LOr us e" "is_punct '')'' r"
      using group by blast
    with d_paren [OF l this(2,3)] ts show ?thesis
      by (intro exI [of _ "t # us @ [r]"]) simp
  next
    case TokenEOF
    with p ts show ?thesis by (simp add: parse_primary_def is_punct_def)
  qed
qed

lemma derives_nonempty: "derives l ts e \<Longrightarrow> ts \<noteq> []"
  by (induction rule: derives.induct) auto

lemma sound_unary:
  assumes "sound_at LPrimary (parse_primary rec)"
  shows "sound_at LUnary (parse_unary rec)"
proof -
  have "parse_unary rec ts = Parsed e rest \<Longrightarrow> \<exists>us. ts = us @ rest \<and> derives LUnary us e" for ts e rest
  proof (induction ts arbitrary: e)
    case (Cons t ts)
    show ?case
    proof (cases "is_punct ''-'' t")
      case True
      with Cons obtain a us where "e = UnaryExpr (Position t) UnaryMinus a" "ts = us @ rest" "derives LUnary us a"
        by (auto simp: then_parse_Parsed_iff)
      with d_minus [OF True] show ?thesis
        by (intro exI [of _ "t # us"]) simp
    next
      case False
      with Cons.prems sound_atD [OF assms] show ?thesis
        by (metis d_primary parse_unary.simps(2))
    qed
  qed simp
  then show ?thesis
    by (simp add: sound_at_def)
qed

lemma sound_not:
  assumes "sound_at LEquality (parse_equality rec)"
  shows "sound_at LNot (parse_not rec)"
proof -
  have "parse_not rec ts = Parsed e rest \<Longrightarrow> \<exists>us. ts = us @ rest \<and> derives LNot us e" for ts e rest
  proof (induction ts arbitrary: e)
    case (Cons t ts)
    show ?case
    proof (cases "is_keyword ''not'' t")
      case True
      with Cons obtain a us where "e = UnaryExpr (Position t) UnaryNot a" "ts = us @ rest" "derives LNot us a"
        by (auto simp: then_parse_Parsed_iff)
      with d_not [OF True] show ?thesis
        by (intro exI [of _ "t # us"]) simp
    next
      case False
      with Cons.prems obtain us where us: "t # ts = us @ rest" "derives LEquality us e"
        using sound_atD [OF assms, of "t # ts" e rest] by auto
      then have "\<not> starts_with_not us"
        using False derives_nonempty by (cases us) (auto simp: starts_with_not_def)
      with us show ?thesis
        using d_equality by blast
    qed
  qed simp
  then show ?thesis
    by (simp add: sound_at_def)
qed

lemma sound_level: "sound_at LOr rec \<Longrightarrow> sound_at l (level_parser l rec)"
proof (induction l rule: level_induct)
  case primary
  then show ?case using sound_primary by simp
next
  case unary
  then show ?case using sound_unary by simp
next
  case notlevel
  then show ?case using sound_not by simp
next
  case (binary l)
  then show ?case
    unfolding level_parser_binary [OF binary(1)] by (intro sound_left_assoc)
qed

lemma sound_or: "sound_at LOr (parse_or n)"
proof (induction n)
  case 0
  show ?case by (simp add: sound_at_def)
next
  case (Suc n)
  then show ?case unfolding parse_or_level by (rule sound_level)
qed

subsection \<open>Completeness\<close>

fun rank :: "level \<Rightarrow> nat" where
  "rank LOr = 0"
| "rank LAnd = 1"
| "rank LNot = 2"
| "rank LEquality = 3"
| "rank LComparison = 4"
| "rank LAdditive = 5"
| "rank LMultiplicative = 6"
| "rank LUnary = 7"
| "rank LPrimary = 8"

text \<open>The next token cannot extend an expression of level \<open>l\<close>.\<close>

definition stops :: "level \<Rightarrow> token list \<Rightarrow> bool" where
  "stops l rest \<longleftrightarrow>
     (case rest of
        [] \<Rightarrow> False
      | t # _ \<Rightarrow> \<not> is_punct ''('' t \<and> (\<forall>l'. rank l \<le> rank l' \<longrightarrow> level_op l' t = None))"

lemma rank_tighter: "rank l \<le> rank (tighter l)"
  by (cases l) auto

lemma stops_tighter: "stops l rest \<Longrightarrow> stops (tighter l) rest"
  using rank_tighter [of l] by (fastforce simp: stops_def split: list.splits)

lemma level_op_unique: "level_op l t = Some b \<Longrightarrow> level_op l' t = Some b' \<Longrightarrow> l = l'"
  by (cases l; cases l') (auto simp: operator_defs split: if_splits)

lemma stops_operator: "binary_level l \<Longrightarrow> level_op l t = Some b \<Longrightarrow> stops (tighter l) (t # us)"
  using level_op_token [of l t b] level_op_unique [of l t b]
  by (cases l) (fastforce simp: stops_def binary_level_def)+

lemma stops_loop: "stops l rest \<Longrightarrow> operand_loop (level_op l) sub f e rest = Parsed e rest"
  by (cases rest) (auto simp: stops_def)

lemma stops_paren: "is_punct '')'' r \<Longrightarrow> stops l (r # rest)"
  using level_op_token by (fastforce simp: stops_def is_punct_def)

lemma stops_eof: "Kind t = TokenEOF \<Longrightarrow> stops l (t # rest)"
  using level_op_token by (fastforce simp: stops_def is_punct_def)

lemma derives_primary_start: "derives l ts e \<Longrightarrow> l = LPrimary \<Longrightarrow> ts = t # us \<Longrightarrow> \<not> is_punct ''-'' t"
  by (induction rule: derives.induct) (auto simp: is_punct_def binary_level_def)

text \<open>
  What is shown of a derivation: followed by a token that cannot extend it, the level returns
  exactly its tree; on a binary level, followed by a token that cannot extend an operand, the
  level continues in the operand loop with that tree.
\<close>

definition complete_at :: "level \<Rightarrow> nat \<Rightarrow> token list \<Rightarrow> expr \<Rightarrow> bool" where
  "complete_at l n ts e \<longleftrightarrow>
     (\<forall>rest. stops l rest \<longrightarrow> level_parser l (parse_or n) (ts @ rest) = Parsed e rest) \<and>
     (binary_level l \<longrightarrow> (\<forall>rest. stops (tighter l) rest \<longrightarrow>
        level_parser l (parse_or n) (ts @ rest) =
        operand_loop (level_op l) (level_parser (tighter l) (parse_or n)) (length rest) e rest))"

lemma complete_atD: "complete_at l n ts e \<Longrightarrow> stops l rest \<Longrightarrow> level_parser l (parse_or n) (ts @ rest) = Parsed e rest"
  by (simp add: complete_at_def)

lemma complete_at_plain:
  "\<not> binary_level l \<Longrightarrow> (\<And>rest. stops l rest \<Longrightarrow> level_parser l (parse_or n) (ts @ rest) = Parsed e rest) \<Longrightarrow>
     complete_at l n ts e"
  by (simp add: complete_at_def)

lemma complete_at_binary:
  assumes "binary_level l"
    and "\<And>rest. stops (tighter l) rest \<Longrightarrow>
      level_parser l (parse_or n) (ts @ rest) =
      operand_loop (level_op l) (level_parser (tighter l) (parse_or n)) (length rest) e rest"
  shows "complete_at l n ts e"
  using assms stops_tighter stops_loop by (auto simp: complete_at_def)

lemma complete_operand:
  assumes "binary_level l" "complete_at (tighter l) n ts e"
  shows "complete_at l n ts e"
  by (rule complete_at_binary [OF assms(1)])
    (simp add: level_parser_binary [OF assms(1)] left_assoc_def complete_atD [OF assms(2)])

lemma complete_binary:
  assumes l: "binary_level l" and a: "complete_at l n ts a" and b: "level_op l t = Some b"
    and c: "complete_at (tighter l) n us c"
  shows "complete_at l n (ts @ t # us) (BinaryExpr (start a) b a c)"
proof (rule complete_at_binary [OF l])
  fix rest
  assume rest: "stops (tighter l) rest"
  let ?sub = "level_parser (tighter l) (parse_or n)"
  let ?loop = "operand_loop (level_op l) ?sub"
  have "level_parser l (parse_or n) ((ts @ t # us) @ rest) = ?loop (length (t # us @ rest)) a (t # us @ rest)"
    using a l stops_operator [OF l b] by (simp add: complete_at_def)
  also have "\<dots> = ?loop (length (us @ rest)) (BinaryExpr (start a) b a c) rest"
    using level_op_token [OF b] by (simp add: b complete_atD [OF c rest])
  also have "\<dots> = ?loop (length rest) (BinaryExpr (start a) b a c) rest"
    by (rule level.operand_loop_fuel) simp
  finally show "level_parser l (parse_or n) ((ts @ t # us) @ rest) = ?loop (length rest) (BinaryExpr (start a) b a c) rest" .
qed

lemma complete_group:
  assumes "\<And>m. length ts \<le> Suc m \<Longrightarrow> complete_at LOr m ts e" "length ts \<le> n" "ts \<noteq> []" "is_punct '')'' r"
  shows "parse_or n (ts @ r # rest) = Parsed e (r # rest)"
proof -
  obtain m where n: "n = Suc m"
    using assms(2,3) by (cases n) auto
  have "stops LOr (r # rest)"
    by (rule stops_paren [OF assms(4)])
  with complete_atD [OF assms(1)] assms(2) show ?thesis
    unfolding n parse_or_level by simp
qed

lemma complete_aux: "derives l ts e \<Longrightarrow> length ts \<le> Suc n \<Longrightarrow> complete_at l n ts e"
proof (induction arbitrary: n rule: derives.induct)
  case (d_number t)
  then show ?case
    by (intro complete_at_plain) (auto simp: binary_level_def parse_primary_def)
next
  case (d_string t)
  then show ?case
    by (intro complete_at_plain) (auto simp: binary_level_def parse_primary_def)
next
  case (d_bool t)
  then show ?case
    by (intro complete_at_plain) (auto simp: binary_level_def parse_primary_def parse_identifier_like_def)
next
  case (d_identifier t)
  then show ?case
    by (intro complete_at_plain)
      (auto simp: binary_level_def parse_primary_def parse_identifier_like_def followed_by_call_def stops_def
        split: list.splits)
next
  case (d_paren l ts e r)
  have "parse_or n (ts @ r # rest) = Parsed e (r # rest)" for rest
    by (rule complete_group [OF d_paren.IH]) (use d_paren.prems d_paren.hyps derives_nonempty in auto)
  with d_paren.hyps show ?case
    by (intro complete_at_plain) (auto simp: binary_level_def parse_primary_def is_punct_def expect_punct_def)
next
  case (d_cast t f l ts e r)
  have "parse_or n (ts @ r # rest) = Parsed e (r # rest)" for rest
    by (rule complete_group [OF d_cast.IH]) (use d_cast.prems d_cast.hyps derives_nonempty in auto)
  moreover have "Value t \<noteq> ''true''" "Value t \<noteq> ''false''"
    using d_cast.hyps(2) by (auto simp: cast_function_of_def)
  ultimately show ?case
    using d_cast.hyps
    by (intro complete_at_plain)
      (auto simp: binary_level_def parse_primary_def parse_identifier_like_def followed_by_call_def
        is_punct_def expect_punct_def)
next
  case (d_minus t ts e)
  then have "complete_at LUnary n ts e" by simp
  moreover have "stops LUnary rest" if "stops LUnary rest" for rest using that .
  ultimately show ?case
    using d_minus.hyps by (intro complete_at_plain) (auto simp: binary_level_def dest: complete_atD)
next
  case (d_primary ts e)
  then have c: "complete_at LPrimary n ts e" by simp
  obtain t us where ts: "ts = t # us" using derives_nonempty [OF d_primary.hyps] by (cases ts) auto
  have "\<not> is_punct ''-'' t"
    using derives_primary_start [OF d_primary.hyps] ts by blast
  note first = this
  show ?case
  proof (rule complete_at_plain)
    fix rest
    assume "stops LUnary rest"
    then show "level_parser LUnary (parse_or n) (ts @ rest) = Parsed e rest"
      using complete_atD [OF c] stops_tighter [of LUnary rest] first ts by simp
  qed (simp add: binary_level_def)
next
  case (d_not t ts e)
  then have "complete_at LNot n ts e" by simp
  then show ?case
    using d_not.hyps by (intro complete_at_plain) (auto simp: binary_level_def dest: complete_atD)
next
  case (d_equality ts e)
  then have c: "complete_at LEquality n ts e" by simp
  obtain t us where ts: "ts = t # us" using derives_nonempty [OF d_equality.hyps(1)] by (cases ts) auto
  have "\<not> is_keyword ''not'' t"
    using d_equality.hyps(2) ts by (simp add: starts_with_not_def)
  note first = this
  show ?case
  proof (rule complete_at_plain)
    fix rest
    assume "stops LNot rest"
    then show "level_parser LNot (parse_or n) (ts @ rest) = Parsed e rest"
      using complete_atD [OF c] stops_tighter [of LNot rest] first ts by simp
  qed (simp add: binary_level_def)
next
  case (d_operand l ts e)
  show ?case
    by (rule complete_operand [OF d_operand.hyps(1) d_operand.IH [OF d_operand.prems]])
next
  case (d_binary l ts a t b us c)
  have "length ts \<le> Suc n" "length us \<le> Suc n"
    using d_binary.prems by simp_all
  then show ?case
    by (intro complete_binary d_binary.hyps d_binary.IH)
qed

lemma derives_not_eof: "derives l ts e \<Longrightarrow> t \<in> set ts \<Longrightarrow> Kind t \<noteq> TokenEOF"
  by (induction rule: derives.induct) (auto simp: is_punct_def is_keyword_def dest: level_op_token)

lemma parse_tokens_Parsed:
  assumes "parse_tokens ts = Parsed e rest"
  shows "parse_or (length ts) ts = Parsed e rest \<and> (\<exists>u us. rest = u # us \<and> Kind u = TokenEOF)"
proof (cases "parse_or (length ts) ts")
  case (Parsed a us)
  with assms show ?thesis
    by (cases us) (auto simp: parse_tokens_def simp del: parse_or.simps split: list.splits if_splits)
qed (use assms in \<open>auto simp: parse_tokens_def simp del: parse_or.simps split: list.splits if_splits\<close>)

text \<open>
  C4: The parser implements the documented grammar, no more and no less. A token list ended by
  the end-of-input token parses to a tree exactly when its tokens derive that tree: or binds
  loosest, then and, not, equality, comparison, additive, multiplicative, unary minus and
  primaries, and every binary operator associates to the left.
\<close>

theorem parse_tokens_iff_grammar:
  "(\<exists>rest. parse_tokens ts = Parsed e rest) \<and> terminated ts \<longleftrightarrow>
     (\<exists>body eof. ts = body @ [eof] \<and> Kind eof = TokenEOF \<and> derives LOr body e)"
proof
  assume l: "(\<exists>rest. parse_tokens ts = Parsed e rest) \<and> terminated ts"
  then obtain body eof where ts: "ts = body @ [eof]" "Kind eof = TokenEOF" "\<forall>t \<in> set body. Kind t \<noteq> TokenEOF"
    by (auto simp: terminated_def)
  obtain rest where p: "parse_tokens ts = Parsed e rest"
    using l by blast
  have "\<exists>u us. parse_or (length ts) ts = Parsed e (u # us) \<and> Kind u = TokenEOF"
    using parse_tokens_Parsed [OF p] by (cases rest) auto
  then obtain u us where "parse_or (length ts) ts = Parsed e (u # us)" "Kind u = TokenEOF"
    by blast
  then obtain vs where vs: "ts = vs @ u # us" "derives LOr vs e" "Kind u = TokenEOF"
    using sound_atD [OF sound_or] by blast
  have "us = []"
    using vs ts by (cases us rule: rev_cases) auto
  with vs ts show "\<exists>body eof. ts = body @ [eof] \<and> Kind eof = TokenEOF \<and> derives LOr body e"
    by blast
next
  assume "\<exists>body eof. ts = body @ [eof] \<and> Kind eof = TokenEOF \<and> derives LOr body e"
  then obtain body eof where ts: "ts = body @ [eof]" "Kind eof = TokenEOF" and d: "derives LOr body e"
    by blast
  obtain t rest where Cons: "body = t # rest"
    using derives_nonempty [OF d] by (cases body) auto
  have "complete_at LOr (length body) body e"
    by (rule complete_aux [OF d]) simp
  from complete_atD [OF this stops_eof [OF ts(2)]] have "parse_or (length ts) ts = Parsed e [eof]"
    using parse_or_level [of "length body"] by (simp add: ts(1) del: parse_or.simps)
  moreover have "Kind t \<noteq> TokenEOF"
    using derives_not_eof [OF d] Cons by simp
  moreover have "terminated ts"
    using derives_not_eof [OF d] ts by (auto simp: terminated_def)
  ultimately show "(\<exists>rest. parse_tokens ts = Parsed e rest) \<and> terminated ts"
    using ts Cons by (simp add: parse_tokens_def)
qed

end
