(* ===== verification/Expr_Eval.thy ===== *)
theory Expr_Eval
  imports Expr_Grammar
begin

text \<open>
  The evaluator of the expression language: values, number formatting, casts and operators
  (\<^verbatim>\<open>core/internal/script/expression/value.go\<close>, \<^verbatim>\<open>jsnumber.go\<close> and \<^verbatim>\<open>eval.go\<close>). A value is one of
  the three kinds the constructors of \<^verbatim>\<open>Value\<close> build; a lookup is a partial function from names
  to values.
\<close>

section \<open>Values\<close>

datatype expr_value = NumberValue f64 | StringValue string | BoolValue bool

datatype value_kind = KindNumber | KindString | KindBool

fun kind_of :: "expr_value \<Rightarrow> value_kind" where
  "kind_of (NumberValue _) = KindNumber"
| "kind_of (StringValue _) = KindString"
| "kind_of (BoolValue _) = KindBool"

type_synonym lookup = "string \<Rightarrow> expr_value option"

record eval_error =
  EvalMessage :: string
  EvalPosition :: nat

abbreviation eval_err :: "string \<Rightarrow> nat \<Rightarrow> eval_error" where
  "eval_err m p \<equiv> \<lparr>EvalMessage = m, EvalPosition = p\<rparr>"

section \<open>Number formatting\<close>

definition format_positive :: "rat \<Rightarrow> string" where
  "format_positive x =
     (let dk = shortest_digits x; decExp = sci_exponent dk in
      if - 6 \<le> decExp \<and> decExp \<le> 20 then format_positional dk
      else format_mantissa dk @ ''e'' @ (if decExp < 0 then ''-'' else ''+'') @ itoa \<bar>decExp\<bar>)"

fun format_number :: "f64 \<Rightarrow> string" where
  "format_number NaN = ''NaN''"
| "format_number NZero = ''0''"
| "format_number PInf = ''Infinity''"
| "format_number NInf = ''-Infinity''"
| "format_number (Fin x) =
     (if x = 0 then ''0'' else if x < 0 then CHR ''-'' # format_positive (- x) else format_positive x)"

section \<open>Descriptions\<close>

fun describe_value :: "expr_value \<Rightarrow> string" where
  "describe_value (StringValue s) = ''string value '' @ quoted s"
| "describe_value (BoolValue b) = (if b then ''boolean value true'' else ''boolean value false'')"
| "describe_value (NumberValue f) = ''number value '' @ format_number f"

definition describe_arithmetic_rejection :: "expr_value \<Rightarrow> string" where
  "describe_arithmetic_rejection v =
     (if kind_of v = KindBool
      then ''cannot use '' @ describe_value v @ '' in arithmetic, a boolean has no valid numeric conversion''
      else ''cannot use '' @ describe_value v @ '' in arithmetic, convert it with number(...)'')"

definition describe_logical_rejection :: "expr_value \<Rightarrow> string" where
  "describe_logical_rejection v =
     (if kind_of v = KindNumber
      then ''cannot use '' @ describe_value v @ '' in a logical operation, a number cannot be used as a boolean''
      else ''cannot use '' @ describe_value v @ '' in a logical operation, convert it with bool(...)'')"

section \<open>Operators\<close>

definition eval_identifier :: "lookup \<Rightarrow> nat \<Rightarrow> string \<Rightarrow> eval_error + expr_value" where
  "eval_identifier lookup p name =
     (case lookup name of
        None \<Rightarrow> Inl (eval_err (''variable '' @ quoted name @ '' is not defined'') p)
      | Some v \<Rightarrow> Inr v)"

definition eval_unary :: "nat \<Rightarrow> unary_operator \<Rightarrow> expr_value \<Rightarrow> eval_error + expr_value" where
  "eval_unary p operator v =
     (case operator of
        UnaryMinus \<Rightarrow>
          (case v of NumberValue f \<Rightarrow> Inr (NumberValue (f_neg f))
           | _ \<Rightarrow> Inl (eval_err (describe_arithmetic_rejection v) p))
      | UnaryNot \<Rightarrow>
          (case v of BoolValue b \<Rightarrow> Inr (BoolValue (\<not> b))
           | _ \<Rightarrow> Inl (eval_err (describe_logical_rejection v) p)))"

definition values_equal :: "expr_value \<Rightarrow> expr_value \<Rightarrow> bool" where
  "values_equal l r =
     (case (l, r) of
        (NumberValue a, NumberValue b) \<Rightarrow> f_eq a b
      | (StringValue a, StringValue b) \<Rightarrow> a = b
      | (BoolValue a, BoolValue b) \<Rightarrow> a = b
      | _ \<Rightarrow> False)"

definition eval_equality :: "binary_operator \<Rightarrow> expr_value \<Rightarrow> expr_value \<Rightarrow> expr_value" where
  "eval_equality operator l r =
     (let equal = (kind_of l = kind_of r \<and> values_equal l r)
      in BoolValue (if operator = BinaryEq then equal else \<not> equal))"

definition compare_numbers :: "binary_operator \<Rightarrow> f64 \<Rightarrow> f64 \<Rightarrow> bool" where
  "compare_numbers operator l r =
     (case operator of BinaryLt \<Rightarrow> f_lt l r | BinaryLte \<Rightarrow> f_le l r | BinaryGt \<Rightarrow> f_lt r l | _ \<Rightarrow> f_le r l)"

definition eval_comparison ::
  "binary_operator \<Rightarrow> expr_value \<Rightarrow> expr_value \<Rightarrow> nat \<Rightarrow> eval_error + expr_value" where
  "eval_comparison operator l r p =
     (case (l, r) of
        (NumberValue a, NumberValue b) \<Rightarrow> Inr (BoolValue (compare_numbers operator a b))
      | _ \<Rightarrow> Inl (eval_err
          (''cannot compare '' @ describe_value l @ '' and '' @ describe_value r @ '', both sides must be numbers'') p))"

definition is_zero :: "f64 \<Rightarrow> bool" where
  "is_zero f \<longleftrightarrow> f_eq f (Fin 0)"

definition eval_arithmetic ::
  "binary_operator \<Rightarrow> expr_value \<Rightarrow> expr_value \<Rightarrow> nat \<Rightarrow> nat \<Rightarrow> eval_error + expr_value" where
  "eval_arithmetic operator l r leftStart rightStart =
     (case (l, r) of
        (NumberValue a, NumberValue b) \<Rightarrow>
          (case operator of
             BinaryAdd \<Rightarrow> Inr (NumberValue (f_add a b))
           | BinarySub \<Rightarrow> Inr (NumberValue (f_sub a b))
           | BinaryMul \<Rightarrow> Inr (NumberValue (f_mul a b))
           | BinaryDiv \<Rightarrow>
               if is_zero b then Inl (eval_err ''division by zero'' rightStart) else Inr (NumberValue (f_div a b))
           | _ \<Rightarrow>
               if is_zero b then Inl (eval_err ''modulo by zero'' rightStart) else Inr (NumberValue (f_mod a b)))
      | (NumberValue _, _) \<Rightarrow> Inl (eval_err (describe_arithmetic_rejection r) rightStart)
      | _ \<Rightarrow> Inl (eval_err (describe_arithmetic_rejection l) leftStart))"

section \<open>Casts\<close>

text \<open>The pattern \<^verbatim>\<open>^[+-]?\d+(\.\d+)?$\<close> that \<^verbatim>\<open>number(...)\<close> accepts.\<close>

definition strict_number_pattern :: "string \<Rightarrow> bool" where
  "strict_number_pattern s =
     (let body = snd (strip_sign s); whole = takeWhile is_dec body; rest = dropWhile is_dec body
      in whole \<noteq> [] \<and>
         (case rest of
            [] \<Rightarrow> True
          | c # ds \<Rightarrow> c = CHR ''.'' \<and> ds \<noteq> [] \<and> list_all is_dec ds))"

fun cast_to_number :: "expr_value \<Rightarrow> nat \<Rightarrow> eval_error + expr_value" where
  "cast_to_number (NumberValue f) p = Inr (NumberValue f)"
| "cast_to_number (StringValue s) p =
     (if strict_number_pattern s then Inr (NumberValue (parse_float_value s))
      else Inl (eval_err (''cannot convert '' @ quoted s @ '' to a number'') p))"
| "cast_to_number (BoolValue b) p =
     Inl (eval_err ''cannot convert a boolean to a number, compare it directly instead'' p)"

fun cast_to_string :: "expr_value \<Rightarrow> expr_value" where
  "cast_to_string (StringValue s) = StringValue s"
| "cast_to_string (NumberValue f) = StringValue (format_number f)"
| "cast_to_string (BoolValue b) = StringValue (if b then ''true'' else ''false'')"

fun cast_to_bool :: "expr_value \<Rightarrow> nat \<Rightarrow> eval_error + expr_value" where
  "cast_to_bool (BoolValue b) p = Inr (BoolValue b)"
| "cast_to_bool (StringValue s) p =
     (if s = ''true'' then Inr (BoolValue True)
      else if s = ''false'' then Inr (BoolValue False)
      else Inl (eval_err
        (''cannot convert '' @ quoted s @ '' to a boolean, expected '' @ quoted ''true'' @ '' or '' @ quoted ''false'') p))"
| "cast_to_bool (NumberValue f) p =
     Inl (eval_err ''cannot convert a number to a boolean, compare it directly instead'' p)"

fun eval_cast :: "cast_function \<Rightarrow> expr_value \<Rightarrow> nat \<Rightarrow> eval_error + expr_value" where
  "eval_cast CastNumber v p = cast_to_number v p"
| "eval_cast CastString v p = Inr (cast_to_string v)"
| "eval_cast CastBool v p = cast_to_bool v p"

section \<open>Evaluation\<close>

text \<open>
  The two halves of \<^verbatim>\<open>evalLogical\<close>: what the left operand decides (\<open>None\<close>: the right one has
  to be evaluated), and what the right operand gives.
\<close>

definition logical_left :: "binary_operator \<Rightarrow> expr_value \<Rightarrow> nat \<Rightarrow> (eval_error + expr_value) option" where
  "logical_left operator l p =
     (case l of
        BoolValue b \<Rightarrow>
          if operator = BinaryAnd \<and> \<not> b then Some (Inr (BoolValue False))
          else if operator = BinaryOr \<and> b then Some (Inr (BoolValue True))
          else None
      | _ \<Rightarrow> Some (Inl (eval_err (describe_logical_rejection l) p)))"

definition logical_right :: "expr_value \<Rightarrow> nat \<Rightarrow> eval_error + expr_value" where
  "logical_right r p =
     (case r of BoolValue b \<Rightarrow> Inr r | _ \<Rightarrow> Inl (eval_err (describe_logical_rejection r) p))"

definition eval_operator ::
  "binary_operator \<Rightarrow> expr_value \<Rightarrow> expr_value \<Rightarrow> nat \<Rightarrow> nat \<Rightarrow> nat \<Rightarrow> eval_error + expr_value" where
  "eval_operator operator l r p leftStart rightStart =
     (if operator \<in> {BinaryEq, BinaryNeq} then Inr (eval_equality operator l r)
      else if operator \<in> {BinaryLt, BinaryLte, BinaryGt, BinaryGte} then eval_comparison operator l r p
      else eval_arithmetic operator l r leftStart rightStart)"

primrec eval :: "expr \<Rightarrow> lookup \<Rightarrow> eval_error + expr_value" where
  "eval (NumberLiteral p f) lookup = Inr (NumberValue f)"
| "eval (StringLiteral p s) lookup = Inr (StringValue s)"
| "eval (BooleanLiteral p b) lookup = Inr (BoolValue b)"
| "eval (Identifier p name) lookup = eval_identifier lookup p name"
| "eval (UnaryExpr p operator a) lookup = res_bind (eval a lookup) (eval_unary p operator)"
| "eval (BinaryExpr p operator a b) lookup =
     (if operator = BinaryAnd \<or> operator = BinaryOr then
        res_bind (eval a lookup)
          (\<lambda>l. case logical_left operator l (start a) of
                 Some res \<Rightarrow> res
               | None \<Rightarrow> res_bind (eval b lookup) (\<lambda>r. logical_right r (start b)))
      else
        res_bind (eval a lookup)
          (\<lambda>l. res_bind (eval b lookup) (\<lambda>r. eval_operator operator l r p (start a) (start b))))"
| "eval (CastExpr p f a) lookup = res_bind (eval a lookup) (\<lambda>v. eval_cast f v (start a))"

datatype evaluate_error = ParseFailure parse_error | EvalFailure eval_error | EvaluatePanic

definition evaluate :: "string \<Rightarrow> lookup \<Rightarrow> evaluate_error + expr_value" where
  "evaluate source lookup =
     (case parse source of
        Parsed e _ \<Rightarrow> (case eval e lookup of Inl err \<Rightarrow> Inl (EvalFailure err) | Inr v \<Rightarrow> Inr v)
      | Failed err \<Rightarrow> Inl (ParseFailure err)
      | _ \<Rightarrow> Inl EvaluatePanic)"

end
