(* ===== verification/Expr_Props.thy ===== *)
theory Expr_Props
  imports Expr_Eval
begin

text \<open>
  Properties of evaluation: well-typed expressions do not go wrong, evaluation depends only on
  the names that occur, short-circuit connectives obey De Morgan's laws, and every error a
  source text can produce points into the text.
\<close>

section \<open>Static typing\<close>

text \<open>
  Kinds computed from the kinds of the variables. An expression with a kind may still fail,
  but only for a reason that depends on the values: division or modulo by zero, or a string
  that a cast cannot convert.
\<close>

fun operator_kind :: "binary_operator \<Rightarrow> value_kind \<Rightarrow> value_kind \<Rightarrow> value_kind option" where
  "operator_kind BinaryOr KindBool KindBool = Some KindBool"
| "operator_kind BinaryAnd KindBool KindBool = Some KindBool"
| "operator_kind BinaryEq _ _ = Some KindBool"
| "operator_kind BinaryNeq _ _ = Some KindBool"
| "operator_kind BinaryLt KindNumber KindNumber = Some KindBool"
| "operator_kind BinaryLte KindNumber KindNumber = Some KindBool"
| "operator_kind BinaryGt KindNumber KindNumber = Some KindBool"
| "operator_kind BinaryGte KindNumber KindNumber = Some KindBool"
| "operator_kind BinaryAdd KindNumber KindNumber = Some KindNumber"
| "operator_kind BinarySub KindNumber KindNumber = Some KindNumber"
| "operator_kind BinaryMul KindNumber KindNumber = Some KindNumber"
| "operator_kind BinaryDiv KindNumber KindNumber = Some KindNumber"
| "operator_kind BinaryMod KindNumber KindNumber = Some KindNumber"
| "operator_kind _ _ _ = None"

fun unary_kind :: "unary_operator \<Rightarrow> value_kind \<Rightarrow> value_kind option" where
  "unary_kind UnaryMinus KindNumber = Some KindNumber"
| "unary_kind UnaryNot KindBool = Some KindBool"
| "unary_kind _ _ = None"

fun cast_kind :: "cast_function \<Rightarrow> value_kind \<Rightarrow> value_kind option" where
  "cast_kind CastNumber k = (if k = KindBool then None else Some KindNumber)"
| "cast_kind CastString k = Some KindString"
| "cast_kind CastBool k = (if k = KindNumber then None else Some KindBool)"

primrec kind_check :: "(string \<Rightarrow> value_kind option) \<Rightarrow> expr \<Rightarrow> value_kind option" where
  "kind_check env (NumberLiteral p f) = Some KindNumber"
| "kind_check env (StringLiteral p s) = Some KindString"
| "kind_check env (BooleanLiteral p b) = Some KindBool"
| "kind_check env (Identifier p name) = env name"
| "kind_check env (UnaryExpr p operator a) = Option.bind (kind_check env a) (unary_kind operator)"
| "kind_check env (BinaryExpr p operator a b) =
     Option.bind (kind_check env a) (\<lambda>k. Option.bind (kind_check env b) (operator_kind operator k))"
| "kind_check env (CastExpr p f a) = Option.bind (kind_check env a) (cast_kind f)"

definition value_dependent :: "eval_error \<Rightarrow> bool" where
  "value_dependent err \<longleftrightarrow>
     EvalMessage err \<in> {''division by zero'', ''modulo by zero''} \<or> has_prefix (EvalMessage err) (''cannot convert '' @ [CHR 0x22])"

definition kinded :: "value_kind \<Rightarrow> eval_error + expr_value \<Rightarrow> bool" where
  "kinded k res \<longleftrightarrow> (case res of Inl err \<Rightarrow> value_dependent err | Inr v \<Rightarrow> kind_of v = k)"

lemma kinded_simps [simp]:
  "kinded k (Inr v) \<longleftrightarrow> kind_of v = k"
  "kinded k (Inl err) \<longleftrightarrow> value_dependent err"
  by (simp_all add: kinded_def)

lemma kinded_bind:
  "kinded k m \<Longrightarrow> (\<And>v. kind_of v = k \<Longrightarrow> kinded k' (f v)) \<Longrightarrow> kinded k' (res_bind m f)"
  by (cases m) auto

lemma kind_of_iff:
  "kind_of v = KindNumber \<longleftrightarrow> (\<exists>f. v = NumberValue f)"
  "kind_of v = KindString \<longleftrightarrow> (\<exists>s. v = StringValue s)"
  "kind_of v = KindBool \<longleftrightarrow> (\<exists>b. v = BoolValue b)"
  by (cases v; simp)+

lemma kinded_cast: "cast_kind f (kind_of v) = Some k \<Longrightarrow> kinded k (eval_cast f v p)"
  by (cases f; cases v) (auto simp: value_dependent_def quoted_def split: if_splits)

lemma kinded_unary: "unary_kind operator (kind_of v) = Some k \<Longrightarrow> kinded k (eval_unary p operator v)"
  by (cases operator; cases v) (auto simp: eval_unary_def)

lemma kinded_operator:
  "operator_kind operator (kind_of l) (kind_of r) = Some k \<Longrightarrow> operator \<notin> {BinaryAnd, BinaryOr} \<Longrightarrow>
     kinded k (eval_operator operator l r p ls rs)"
  by (cases operator; cases l; cases r)
    (auto simp: eval_operator_def eval_equality_def eval_comparison_def eval_arithmetic_def value_dependent_def Let_def)

lemma kinded_logical:
  assumes "operator_kind operator (kind_of l) k = Some k'" "operator = BinaryAnd \<or> operator = BinaryOr" "kinded k r"
  shows "kinded k' (case logical_left operator l p of Some res \<Rightarrow> res | None \<Rightarrow> res_bind r (\<lambda>v. logical_right v q))"
proof -
  have k: "k = KindBool" "k' = KindBool" and "kind_of l = KindBool"
    using assms(1,2) by (cases "kind_of l"; cases k; auto)+
  then obtain b where l: "l = BoolValue b"
    by (auto simp: kind_of_iff)
  have "kinded KindBool (res_bind r (\<lambda>v. logical_right v q))"
    by (rule kinded_bind [OF assms(3)]) (auto simp: k kind_of_iff logical_right_def)
  with k l show ?thesis
    by (auto simp: logical_left_def)
qed

text \<open>
  C30: Well-kinded expressions do not go wrong: if every variable has the kind the environment
  gives it and the expression checks with kind \<open>k\<close>, evaluation returns a value of kind \<open>k\<close>
  or one of the errors that depend on values (division or modulo by zero, a string that a cast
  rejects), never an undefined variable or a value of the wrong type.
\<close>

theorem kind_check_sound:
  assumes "\<And>name k. env name = Some k \<Longrightarrow> \<exists>v. lookup name = Some v \<and> kind_of v = k"
    and "kind_check env e = Some k"
  shows "case eval e lookup of Inl err \<Rightarrow> value_dependent err | Inr v \<Rightarrow> kind_of v = k"
proof -
  have "kind_check env e = Some k \<Longrightarrow> kinded k (eval e lookup)" for k
  proof (induction e arbitrary: k)
    case (Identifier p name)
    then obtain v where "lookup name = Some v" "kind_of v = k"
      using assms(1) [of name k] by auto
    then show ?case
      by (simp add: eval_identifier_def)
  next
    case (UnaryExpr p operator a)
    then obtain k' where "kind_check env a = Some k'" "unary_kind operator k' = Some k"
      by (auto simp: bind_eq_Some_conv)
    with UnaryExpr.IH show ?case
      by (auto intro!: kinded_bind kinded_unary)
  next
    case (BinaryExpr p operator a b)
    then obtain ka kb where k: "kind_check env a = Some ka" "kind_check env b = Some kb"
      "operator_kind operator ka kb = Some k"
      by (auto simp: bind_eq_Some_conv)
    note IH = BinaryExpr.IH(1) [OF k(1)] BinaryExpr.IH(2) [OF k(2)]
    show ?case
    proof (cases "operator = BinaryAnd \<or> operator = BinaryOr")
      case True
      with IH k(3) show ?thesis
        by (auto intro!: kinded_bind [OF IH(1)] kinded_logical)
    next
      case False
      with IH k(3) show ?thesis
        by (auto intro!: kinded_bind [OF IH(1)] kinded_bind [OF IH(2)] kinded_operator)
    qed
  next
    case (CastExpr p f a)
    then obtain k' where "kind_check env a = Some k'" "cast_kind f k' = Some k"
      by (auto simp: bind_eq_Some_conv)
    with CastExpr.IH show ?case
      by (auto intro!: kinded_bind kinded_cast)
  qed simp_all
  with assms(2) show ?thesis
    by (simp add: kinded_def)
qed

theorem kind_check_sound_witness:
  "case eval (BinaryExpr 0 BinaryLt (Identifier 0 ''n'') (NumberLiteral 4 (Fin 3))) [''n'' \<mapsto> NumberValue (Fin 2)] of
     Inl err \<Rightarrow> value_dependent err | Inr v \<Rightarrow> kind_of v = KindBool"
  by (rule kind_check_sound [where env = "[''n'' \<mapsto> KindNumber]"]) (auto split: if_splits)

section \<open>Names\<close>

primrec names :: "expr \<Rightarrow> string set" where
  "names (NumberLiteral p f) = {}"
| "names (StringLiteral p s) = {}"
| "names (BooleanLiteral p b) = {}"
| "names (Identifier p name) = {name}"
| "names (UnaryExpr p operator a) = names a"
| "names (BinaryExpr p operator a b) = names a \<union> names b"
| "names (CastExpr p f a) = names a"

lemma eval_coincidence: "(\<And>name. name \<in> names e \<Longrightarrow> lookup name = lookup' name) \<Longrightarrow> eval e lookup = eval e lookup'"
  by (induction e) (auto simp: eval_identifier_def cong: option.case_cong)

section \<open>Connectives\<close>

text \<open>
  The short-circuit connectives obey De Morgan's law: \<open>not (a and b)\<close> and
  \<open>(not a) or (not b)\<close> evaluate to the same value, or both fail, whatever the operands are
  and whether or not the right one can be evaluated.
\<close>

theorem de_morgan:
  "eval (UnaryExpr p UnaryNot (BinaryExpr q BinaryAnd a b)) lookup = Inr v \<longleftrightarrow>
   eval (BinaryExpr q' BinaryOr (UnaryExpr p' UnaryNot a) (UnaryExpr r' UnaryNot b)) lookup = Inr v"
proof (cases "eval a lookup")
  case (Inr va)
  show ?thesis
  proof (cases va)
    case (BoolValue x)
    show ?thesis
    proof (cases "eval b lookup")
      case (Inr vb)
      with BoolValue \<open>eval a lookup = Inr va\<close> show ?thesis
        by (cases vb) (auto simp: logical_left_def logical_right_def eval_unary_def)
    qed (use BoolValue Inr in \<open>auto simp: logical_left_def logical_right_def eval_unary_def\<close>)
  qed (use Inr in \<open>auto simp: logical_left_def logical_right_def eval_unary_def\<close>)
qed simp

section \<open>Error positions\<close>

primrec starts :: "expr \<Rightarrow> nat set" where
  "starts (NumberLiteral p f) = {p}"
| "starts (StringLiteral p s) = {p}"
| "starts (BooleanLiteral p b) = {p}"
| "starts (Identifier p name) = {p}"
| "starts (UnaryExpr p operator a) = insert p (starts a)"
| "starts (BinaryExpr p operator a b) = insert p (starts a \<union> starts b)"
| "starts (CastExpr p f a) = insert p (starts a)"

lemma start_in_starts [simp]: "start e \<in> starts e"
  by (cases e) auto

lemma eval_cast_error: "eval_cast f v p = Inl err \<Longrightarrow> EvalPosition err = p"
  by (cases f; cases v) (auto split: if_splits)

lemma eval_unary_error: "eval_unary p operator v = Inl err \<Longrightarrow> EvalPosition err = p"
  by (auto simp: eval_unary_def split: unary_operator.splits expr_value.splits)

lemma eval_operator_error:
  "eval_operator operator l r p ls rs = Inl err \<Longrightarrow> EvalPosition err \<in> {p, ls, rs}"
  by (auto simp: eval_operator_def eval_comparison_def eval_arithmetic_def
      split: if_splits binary_operator.splits expr_value.splits)

lemma logical_error:
  "logical_left operator l p = Some (Inl err) \<Longrightarrow> EvalPosition err = p"
  "logical_right r p = Inl err \<Longrightarrow> EvalPosition err = p"
  by (auto simp: logical_left_def logical_right_def split: if_splits expr_value.splits)

lemma eval_error_in_starts: "eval e lookup = Inl err \<Longrightarrow> EvalPosition err \<in> starts e"
proof (induction e)
  case (BinaryExpr p operator a b)
  then show ?case
    by (auto simp: res_bind_Inl_iff split: if_splits option.splits dest!: eval_operator_error logical_error)
qed (auto simp: eval_identifier_def res_bind_Inl_iff split: option.splits dest!: eval_unary_error eval_cast_error)

lemma derives_starts: "derives l ts e \<Longrightarrow> starts e \<subseteq> Position ` set ts"
proof (induction rule: derives.induct)
  case (d_binary l ts a t b us c)
  then have "start a \<in> Position ` set ts"
    using start_in_starts by blast
  with d_binary.IH show ?case
    by auto
qed auto

text \<open>A failing parser names the position of one of the tokens it was given.\<close>

definition points :: "(token list \<Rightarrow> parsed) \<Rightarrow> bool" where
  "points p \<longleftrightarrow> (\<forall>ts err. p ts = Failed err \<longrightarrow> ErrorPosition err \<in> Position ` set ts)"

lemma pointsD: "points p \<Longrightarrow> p ts = Failed err \<Longrightarrow> set ts \<subseteq> A \<Longrightarrow> ErrorPosition err \<in> Position ` A"
  unfolding points_def by blast

lemma then_parse_Failed_iff:
  "then_parse p k = Failed err \<longleftrightarrow> p = Failed err \<or> (\<exists>a us. p = Parsed a us \<and> k a us = Failed err)"
  by (cases p) auto

lemma set_advance: "set (advance ts) \<subseteq> set ts"
  by (auto simp: advance_def split: list.splits if_splits)

lemma sound_set: "sound_at l p \<Longrightarrow> p ts = Parsed e rest \<Longrightarrow> set rest \<subseteq> set ts"
  using sound_atD by fastforce

lemma expect_punct_Failed:
  "expect_punct v ts (Parsed e) = Failed err \<Longrightarrow> set ts \<subseteq> A \<Longrightarrow> ErrorPosition err \<in> Position ` A"
  by (auto simp: expect_punct_def split: list.splits if_splits)

lemma points_operand_loop:
  assumes "points sub" "sound_at l sub"
  shows "operand_loop op sub fuel left ts = Failed err \<Longrightarrow> ErrorPosition err \<in> Position ` set ts"
proof (induction fuel arbitrary: left ts)
  case 0
  then show ?case by (cases ts) (auto split: option.splits)
next
  case (Suc n)
  obtain t rest where ts: "ts = t # rest"
    using Suc.prems by (cases ts) auto
  obtain b where "op t = Some b"
    using Suc.prems ts by (cases "op t") auto
  then consider "sub (advance ts) = Failed err"
    | r us where "sub (advance ts) = Parsed r us" "operand_loop op sub n (BinaryExpr (start left) b left r) us = Failed err"
    using Suc.prems ts by (auto simp: then_parse_Failed_iff)
  then show ?case
  proof cases
    case 1
    show ?thesis
      by (rule pointsD [OF assms(1) 1 set_advance])
  next
    case 2
    have "set us \<subseteq> set ts"
      using sound_set [OF assms(2) 2(1)] set_advance [of ts] by blast
    with Suc.IH [OF 2(2)] show ?thesis
      by blast
  qed
qed

lemma points_left_assoc:
  assumes "points sub" "sound_at l sub"
  shows "points (left_assoc op sub)"
  unfolding points_def left_assoc_def then_parse_Failed_iff
  using pointsD [OF assms(1) _ order_refl] points_operand_loop [OF assms] sound_set [OF assms(2)] by blast

lemma points_primary:
  assumes "points rec" "sound_at LOr rec"
  shows "points (parse_primary rec)"
  unfolding points_def
proof (intro allI impI)
  fix ts err
  assume p: "parse_primary rec ts = Failed err"
  obtain t rest where ts: "ts = t # rest"
    using p by (cases ts) (auto simp: parse_primary_def)
  have call: "ErrorPosition err \<in> Position ` set ts"
    if "then_parse (rec us) (\<lambda>e vs. expect_punct v vs (\<lambda>ws. Parsed (k e) ws)) = Failed err" "set us \<subseteq> set ts" for us v k
    using that pointsD [OF assms(1)] sound_set [OF assms(2)] expect_punct_Failed
    unfolding then_parse_Failed_iff by (meson order_trans)
  have "set (advance rest) \<subseteq> set ts" "set rest \<subseteq> set ts"
    using set_advance [of rest] ts by auto
  with p call call [where k = "\<lambda>e. e"] show "ErrorPosition err \<in> Position ` set ts"
    unfolding ts
    by (cases "Kind t") (auto simp: parse_primary_def parse_identifier_like_def is_punct_def split: if_splits option.splits)
qed

lemma points_unary:
  assumes "points (parse_primary rec)"
  shows "parse_unary rec ts = Failed err \<Longrightarrow> ErrorPosition err \<in> Position ` set ts"
proof (induction ts)
  case (Cons t ts)
  show ?case
  proof (cases "is_punct ''-'' t")
    case True
    with Cons have "ErrorPosition err \<in> Position ` set ts"
      by (simp add: then_parse_Failed_iff)
    then show ?thesis by auto
  next
    case False
    with Cons.prems have "parse_primary rec (t # ts) = Failed err" by simp
    then show ?thesis by (rule pointsD [OF assms _ order_refl])
  qed
qed simp

lemma points_not:
  assumes "points (parse_equality rec)"
  shows "parse_not rec ts = Failed err \<Longrightarrow> ErrorPosition err \<in> Position ` set ts"
proof (induction ts)
  case (Cons t ts)
  show ?case
  proof (cases "is_keyword ''not'' t")
    case True
    with Cons have "ErrorPosition err \<in> Position ` set ts"
      by (simp add: then_parse_Failed_iff)
    then show ?thesis by auto
  next
    case False
    with Cons.prems have "parse_equality rec (t # ts) = Failed err" by simp
    then show ?thesis by (rule pointsD [OF assms _ order_refl])
  qed
qed simp

lemma points_level:
  assumes "points rec" "sound_at LOr rec"
  shows "points (level_parser l rec)"
proof (induction l rule: level_induct)
  case primary
  then show ?case using points_primary [OF assms] by simp
next
  case unary
  then show ?case using points_unary by (auto simp: points_def)
next
  case notlevel
  then show ?case using points_not by (auto simp: points_def)
next
  case (binary l)
  show ?case
    unfolding level_parser_binary [OF binary(1)] by (rule points_left_assoc [OF binary(2) sound_level [OF assms(2)]])
qed

lemma points_or: "points (parse_or n)"
proof (induction n)
  case 0
  show ?case by (simp add: points_def)
next
  case (Suc n)
  then show ?case unfolding parse_or_level by (rule points_level [OF _ sound_or])
qed

lemma parse_tokens_points:
  assumes "parse_tokens ts = Failed err"
  shows "ErrorPosition err = 0 \<or> ErrorPosition err \<in> Position ` set ts"
proof -
  obtain t rest where ts: "ts = t # rest"
    using assms by (cases ts) (auto simp: parse_tokens_def)
  show ?thesis
  proof (cases "Kind t = TokenEOF")
    case True
    with assms ts show ?thesis by (auto simp: parse_tokens_def)
  next
    case False
    show ?thesis
    proof (cases "parse_or (length ts) ts")
      case (Parsed a us)
      have "set us \<subseteq> set ts"
        by (rule sound_set [OF sound_or Parsed])
      moreover have "ErrorPosition err \<in> Position ` set us"
        using assms ts False Parsed
        by (auto simp: parse_tokens_def simp del: parse_or.simps split: list.splits if_splits)
      ultimately show ?thesis by blast
    next
      case (Failed e)
      with assms ts False have "e = err"
        by (simp add: parse_tokens_def del: parse_or.simps)
      with pointsD [OF points_or Failed order_refl] show ?thesis by blast
    qed (use assms ts False in \<open>simp_all add: parse_tokens_def del: parse_or.simps\<close>)
  qed
qed

lemma parse_starts:
  assumes "parse_tokens ts = Parsed e rest" "p \<in> starts e"
  shows "\<exists>t \<in> set ts. Kind t \<noteq> TokenEOF \<and> Position t = p"
proof -
  obtain us where "ts = us @ rest" "derives LOr us e"
    using sound_atD [OF sound_or] parse_tokens_Parsed [OF assms(1)] by blast
  with derives_starts derives_not_eof assms(2) show ?thesis
    by fastforce
qed

lemma tokenize_positions:
  assumes "tokenize source = Inr ts" "t \<in> set ts"
  shows "Position t \<le> length (units_of source) \<and> (Kind t \<noteq> TokenEOF \<longrightarrow> Position t < length (units_of source))"
proof -
  have "covers 0 (units_of source) ts"
    using tokenize_from_covers [of 0 "units_of source"] assms(1) by (simp add: tokenize_def)
  from covers_shape [OF this] assms(2) show ?thesis
    by (auto simp: less_imp_le)
qed

text \<open>
  Every error a source text can produce points into it: a parse error at a unit of the text
  or at its end, an evaluation error at a unit of the text. Evaluation itself never panics.
\<close>

theorem evaluate_error_position:
  "case evaluate source lookup of
     Inl (ParseFailure err) \<Rightarrow> ErrorPosition err \<le> length (units_of source)
   | Inl (EvalFailure err) \<Rightarrow> EvalPosition err < length (units_of source)
   | Inl EvaluatePanic \<Rightarrow> False
   | Inr v \<Rightarrow> True"
proof (cases "tokenize source")
  case (Inl e)
  then show ?thesis
    using tokenize_from_covers [of 0 "units_of source"]
    by (auto simp: evaluate_def parse_def tokenize_def)
next
  case (Inr ts)
  note pos = tokenize_positions [OF Inr]
  have "completes (parse_tokens ts)"
    by (rule parse_tokens_completes [OF tokenize_terminated [OF Inr]])
  then consider e rest where "parse_tokens ts = Parsed e rest" | err where "parse_tokens ts = Failed err"
    by (cases "parse_tokens ts") auto
  then show ?thesis
  proof cases
    case 1
    have "EvalPosition err < length (units_of source)" if "eval e lookup = Inl err" for err
      using parse_starts [OF 1 eval_error_in_starts [OF that]] pos by force
    with 1 Inr show ?thesis
      by (cases "eval e lookup") (auto simp: evaluate_def parse_def)
  next
    case 2
    have "ErrorPosition err \<le> length (units_of source)"
      using parse_tokens_points [OF 2] pos by auto
    with 2 Inr show ?thesis
      by (simp add: evaluate_def parse_def)
  qed
qed

end
