(* ===== verification/Ui_Tree.thy ===== *)
theory Ui_Tree
  imports Prelude Go_Number
begin

text \<open>
  The accessibility tree a driver reports (\<^verbatim>\<open>core/internal/wire/tree_node.go\<close>), the cursors
  that walk it (\<^verbatim>\<open>core/internal/orchestra/cursor.go\<close>) and the rectangles its nodes carry
  (\<^verbatim>\<open>bounds.go\<close>). A nil pointer to a flag is \<open>None\<close>, distinct from an explicit false.
\<close>

section \<open>Nodes and cursors\<close>

datatype tree_node =
  TreeNode
    (Attributes: "string \<rightharpoonup> string")
    (Children: "tree_node list")
    (Clickable: "bool option")
    (Enabled: "bool option")
    (Focused: "bool option")
    (Selected: "bool option")
    (Checked: "bool option")
    (Visible: "bool option")

text \<open>Reading a missing key of a Go map gives the empty string.\<close>

definition attr :: "tree_node \<Rightarrow> string \<Rightarrow> string" where
  "attr n key = (case Attributes n key of None \<Rightarrow> [] | Some v \<Rightarrow> v)"

datatype cursor = Cursor (Node: tree_node) (Parent: "cursor option") (Depth: nat) (ChildIndex: nat)

text \<open>\<^verbatim>\<open>RootOf\<close> and \<^verbatim>\<open>Path\<close> follow the chain of parents.\<close>

primrec root_of :: "cursor \<Rightarrow> tree_node" where
  "root_of (Cursor n p d i) = (case map_option root_of p of None \<Rightarrow> n | Some r \<Rightarrow> r)"

primrec path :: "cursor \<Rightarrow> nat list" where
  "path (Cursor n p d i) = (case map_option path p of None \<Rightarrow> [] | Some q \<Rightarrow> q @ [i])"

section \<open>Walking\<close>

definition root_cursor :: "tree_node \<Rightarrow> cursor" where
  "root_cursor tree = Cursor tree None 0 0"

definition child_cursors :: "cursor \<Rightarrow> cursor list" where
  "child_cursors c =
     map (\<lambda>(i, n). Cursor n (Some c) (Depth c + 1) i) (enumerate 0 (Children (Node c)))"

text \<open>
  The loop of \<^verbatim>\<open>Walk\<close>. The stack is a list whose head is its top; pushing the children from
  the last to the first leaves the first on top.
\<close>

primrec tree_size :: "tree_node \<Rightarrow> nat" where
  "tree_size (TreeNode a cs k e f s h v) = Suc (sum_list (map tree_size cs))"

lemma tree_size_Children: "tree_size n = Suc (sum_list (map tree_size (Children n)))"
  by (cases n) simp

lemma sum_child_cursors [simp]:
  "sum_list (map (tree_size \<circ> Node) (child_cursors c)) = sum_list (map tree_size (Children (Node c)))"
proof -
  have "map (tree_size \<circ> Node) (child_cursors c) = map tree_size (map snd (enumerate 0 (Children (Node c))))"
    by (simp add: child_cursors_def case_prod_beta' comp_def del: map_snd_enumerate)
  then show ?thesis by (simp only: map_snd_enumerate)
qed

function walk_stack :: "cursor list \<Rightarrow> cursor list" where
  "walk_stack [] = []"
| "walk_stack (c # stack) = c # walk_stack (child_cursors c @ stack)"
  by pat_completeness auto
termination
  by (relation "measure (\<lambda>stack. sum_list (map (tree_size \<circ> Node) stack))")
    (simp_all add: tree_size_Children)

definition walk :: "tree_node \<Rightarrow> cursor list" where
  "walk tree = walk_stack [root_cursor tree]"

subsection \<open>Pre-order\<close>

text \<open>The pre-order listing of the subtree under a cursor, by recursion on the tree.\<close>

function preorder :: "cursor \<Rightarrow> cursor list" where
  "preorder c = c # concat (map preorder (child_cursors c))"
  by pat_completeness auto
termination
proof (relation "measure (\<lambda>c. tree_size (Node c))")
  fix c x
  assume "x \<in> set (child_cursors c)"
  then have "tree_size (Node x) \<in> set (map (tree_size \<circ> Node) (child_cursors c))"
    by auto
  then have "tree_size (Node x) \<le> sum_list (map (tree_size \<circ> Node) (child_cursors c))"
    by (simp only: member_le_sum_list)
  then show "(x, c) \<in> measure (\<lambda>c. tree_size (Node c))"
    by (simp add: tree_size_Children [of "Node c"])
qed simp

declare preorder.simps [simp del]

lemma walk_stack_preorder: "walk_stack stack = concat (map preorder stack)"
proof (induction stack rule: walk_stack.induct)
  case (2 c stack)
  then show ?case
    by (simp add: preorder.simps [of c])
qed simp

lemma walk_preorder: "walk tree = preorder (root_cursor tree)"
  by (simp add: walk_def walk_stack_preorder)

subsection \<open>Paths\<close>

text \<open>The node at a path.\<close>

fun node_at :: "tree_node \<Rightarrow> nat list \<Rightarrow> tree_node option" where
  "node_at n [] = Some n"
| "node_at n (i # is) = (if i < length (Children n) then node_at (Children n ! i) is else None)"

lemma node_at_append: "node_at n (p @ q) = (case node_at n p of None \<Rightarrow> None | Some m \<Rightarrow> node_at m q)"
  by (induction p arbitrary: n) auto

text \<open>A cursor that sits in the tree \<open>tree\<close>: its chain of parents leads there.\<close>

definition cursor_in :: "tree_node \<Rightarrow> cursor \<Rightarrow> bool" where
  "cursor_in tree c \<longleftrightarrow> root_of c = tree \<and> node_at tree (path c) = Some (Node c) \<and> Depth c = length (path c)"

lemma child_cursorsE:
  assumes "d \<in> set (child_cursors c)"
  obtains i where "i < length (Children (Node c))" "d = Cursor (Children (Node c) ! i) (Some c) (Depth c + 1) i"
  using assms by (auto simp: child_cursors_def in_set_enumerate_eq)

lemma cursor_in_root: "cursor_in tree (root_cursor tree)"
  by (simp add: cursor_in_def root_cursor_def)

lemma cursor_in_child: "cursor_in tree c \<Longrightarrow> d \<in> set (child_cursors c) \<Longrightarrow> cursor_in tree d"
  by (erule child_cursorsE) (auto simp: cursor_in_def node_at_append)

lemma preorder_cursor_in: "cursor_in tree c \<Longrightarrow> d \<in> set (preorder c) \<Longrightarrow> cursor_in tree d"
proof (induction c arbitrary: d rule: preorder.induct)
  case (1 c)
  then show ?case
    using cursor_in_child by (subst (asm) preorder.simps) auto
qed

lemma path_child: "d \<in> set (child_cursors c) \<Longrightarrow> path d = path c @ [ChildIndex d]"
  by (erule child_cursorsE) simp

lemma preorder_path: "d \<in> set (preorder c) \<Longrightarrow> \<exists>q. path d = path c @ q"
proof (induction c arbitrary: d rule: preorder.induct)
  case (1 c)
  show ?case
  proof (cases "d = c")
    case False
    then obtain x where x: "x \<in> set (child_cursors c)" "d \<in> set (preorder x)"
      using "1.prems" by (subst (asm) preorder.simps) auto
    with "1.IH" [OF x] path_child [OF x(1)] show ?thesis by auto
  qed simp
qed

lemma map_ChildIndex: "map ChildIndex (child_cursors c) = [0..<length (Children (Node c))]"
proof -
  have "map ChildIndex (child_cursors c) = map fst (enumerate 0 (Children (Node c)))"
    by (simp add: child_cursors_def case_prod_beta' comp_def del: map_fst_enumerate)
  then show ?thesis by simp
qed

lemma distinct_concat_keys:
  assumes "distinct (map k xs)" "\<And>x. x \<in> set xs \<Longrightarrow> distinct (map f (g x))"
    and key: "\<And>x y. x \<in> set xs \<Longrightarrow> y \<in> set (g x) \<Longrightarrow> h (f y) = k x"
  shows "distinct (map f (concat (map g xs)))"
  using assms
proof (induction xs)
  case (Cons x xs)
  have "f y \<noteq> f z" if "y \<in> set (g x)" "x' \<in> set xs" "z \<in> set (g x')" for x' y z
  proof
    assume "f y = f z"
    then have "k x = k x'"
      using Cons.prems(3) [of x y] Cons.prems(3) [of x' z] that by simp
    with Cons.prems(1) that(2) show False by (auto simp: image_iff)
  qed
  moreover have "distinct (map f (concat (map g xs)))"
    using Cons.prems by (intro Cons.IH) auto
  moreover have "distinct (map f (g x))"
    using Cons.prems(2) by simp
  ultimately show ?case
    by auto
qed simp

lemma distinct_paths_preorder: "distinct (map path (preorder c))"
proof (induction c rule: preorder.induct)
  case (1 c)
  have "distinct (map path (concat (map preorder (child_cursors c))))"
  proof (rule distinct_concat_keys [where k = ChildIndex and h = "\<lambda>p. p ! length (path c)"])
    show "distinct (map ChildIndex (child_cursors c))"
      by (simp add: map_ChildIndex)
    fix x y
    assume "x \<in> set (child_cursors c)" "y \<in> set (preorder x)"
    then show "path y ! length (path c) = ChildIndex x"
      using preorder_path [of y x] path_child [of x c] by (auto simp: nth_append)
  qed (rule "1.IH")
  moreover have "length (path c) < length (path y)" if "x \<in> set (child_cursors c)" "y \<in> set (preorder x)" for x y
    using preorder_path [OF that(2)] path_child [OF that(1)] by auto
  then have "path c \<notin> set (map path (concat (map preorder (child_cursors c))))"
    by fastforce
  moreover have "map path (preorder c) = path c # map path (concat (map preorder (child_cursors c)))"
    by (subst preorder.simps) simp
  ultimately show ?case
    by (simp only: distinct.simps simp_thms)
qed

text \<open>
  A walk visits every node of the tree once: each cursor it returns leads back to the root
  and its path leads from the root to its node, the paths of the cursors are pairwise distinct,
  and there are as many cursors as nodes. So equality of paths identifies tree positions.
\<close>

theorem walk_positions:
  "distinct (map path (walk tree)) \<and> length (walk tree) = tree_size tree \<and>
   list_all (\<lambda>c. root_of c = tree \<and> node_at tree (path c) = Some (Node c) \<and> Depth c = length (path c)) (walk tree)"
  unfolding list_all_iff
proof (intro conjI ballI)
  show "distinct (map path (walk tree))"
    by (simp add: walk_preorder distinct_paths_preorder)
  have "length (preorder c) = tree_size (Node c)" for c
  proof (induction c rule: preorder.induct)
    case (1 c)
    then have eq: "map (length \<circ> preorder) (child_cursors c) = map (tree_size \<circ> Node) (child_cursors c)"
      by simp
    have "length (preorder c) = Suc (sum_list (map (length \<circ> preorder) (child_cursors c)))"
      by (subst preorder.simps) (simp add: length_concat comp_def)
    also have "\<dots> = tree_size (Node c)"
      unfolding eq by (simp add: tree_size_Children [of "Node c"])
    finally show ?case .
  qed
  then show "length (walk tree) = tree_size tree"
    by (simp add: walk_preorder root_cursor_def)
  fix c
  assume "c \<in> set (walk tree)"
  then have "cursor_in tree c"
    using preorder_cursor_in [OF cursor_in_root] by (simp add: walk_preorder)
  then show "root_of c = tree" "node_at tree (path c) = Some (Node c)" "Depth c = length (path c)"
    by (simp_all add: cursor_in_def)
qed

end
