(* ===== verification/Ui_Bounds.thy ===== *)
theory Ui_Bounds
  imports Ui_Tree
begin

text \<open>
  Rectangles on the screen (\<^verbatim>\<open>core/internal/orchestra/bounds.go\<close>, \<^verbatim>\<open>core/internal/wire/shapes.go\<close>):
  parsing the \<^verbatim>\<open>bounds\<close> attribute, anchors, containment and intersection, on binary64 numbers.
\<close>

section \<open>Shapes\<close>

record bounds =
  Left :: f64
  Top :: f64
  Right :: f64
  Bottom :: f64

record point =
  X :: f64
  Y :: f64

abbreviation mk_bounds :: "f64 \<Rightarrow> f64 \<Rightarrow> f64 \<Rightarrow> f64 \<Rightarrow> bounds" where
  "mk_bounds l t r b \<equiv> \<lparr>Left = l, Top = t, Right = r, Bottom = b\<rparr>"

abbreviation mk_point :: "f64 \<Rightarrow> f64 \<Rightarrow> point" where
  "mk_point x y \<equiv> \<lparr>X = x, Y = y\<rparr>"

section \<open>Parsing\<close>

definition parse_js_number :: "string \<Rightarrow> f64 option" where
  "parse_js_number raw =
     (let s = trim_space raw in
      if s = [] then Some (Fin 0)
      else (case parse_float s of
              Inl _ \<Rightarrow> None
            | Inr v \<Rightarrow> if is_nan v \<or> is_inf v then None else Some v))"

definition parse_bounds :: "string \<Rightarrow> bounds option" where
  "parse_bounds s =
     (if s = [] then None
      else (case split_on CHR '','' s of
              [a, b, c, d] \<Rightarrow>
                (case (parse_js_number a, parse_js_number b) of
                   (Some l, Some t) \<Rightarrow>
                     (case (parse_js_number c, parse_js_number d) of
                        (Some r, Some b') \<Rightarrow> Some (mk_bounds l t r b')
                      | _ \<Rightarrow> None)
                 | _ \<Rightarrow> None)
            | _ \<Rightarrow> None))"

section \<open>Anchors\<close>

definition midpoint :: "f64 \<Rightarrow> f64 \<Rightarrow> f64" where
  "midpoint a b = f_div (f_add a b) (Fin 2)"

definition bounds_center :: "bounds \<Rightarrow> point" where
  "bounds_center b = mk_point (midpoint (Left b) (Right b)) (midpoint (Top b) (Bottom b))"

datatype anchor_error = UnknownAnchor string

definition bounds_anchor :: "bounds \<Rightarrow> string \<Rightarrow> anchor_error + point" where
  "bounds_anchor b anchor =
     (if anchor = ''center'' then Inr (bounds_center b)
      else if anchor = ''topLeft'' then Inr (mk_point (Left b) (Top b))
      else if anchor = ''topRight'' then Inr (mk_point (Right b) (Top b))
      else if anchor = ''bottomLeft'' then Inr (mk_point (Left b) (Bottom b))
      else if anchor = ''bottomRight'' then Inr (mk_point (Right b) (Bottom b))
      else if anchor = ''top'' then Inr (mk_point (midpoint (Left b) (Right b)) (Top b))
      else if anchor = ''bottom'' then Inr (mk_point (midpoint (Left b) (Right b)) (Bottom b))
      else if anchor = ''left'' then Inr (mk_point (Left b) (midpoint (Top b) (Bottom b)))
      else if anchor = ''right'' then Inr (mk_point (Right b) (midpoint (Top b) (Bottom b)))
      else Inl (UnknownAnchor anchor))"

section \<open>Containment\<close>

definition bounds_contain :: "bounds \<Rightarrow> f64 \<Rightarrow> f64 \<Rightarrow> bool" where
  "bounds_contain b x y \<longleftrightarrow> f_le (Left b) x \<and> f_lt x (Right b) \<and> f_le (Top b) y \<and> f_lt y (Bottom b)"

definition bounds_intersect :: "bounds \<Rightarrow> bounds \<Rightarrow> bool" where
  "bounds_intersect a b \<longleftrightarrow>
     \<not> (f_le (Right a) (Left b) \<or> f_le (Right b) (Left a) \<or> f_le (Bottom a) (Top b) \<or> f_le (Bottom b) (Top a))"

section \<open>Facts about finite floats\<close>

lemma is_finite_simps [simp]:
  "is_finite (Fin x)" "is_finite NZero" "\<not> is_finite NaN" "\<not> is_finite PInf" "\<not> is_finite NInf"
  by (simp_all add: is_finite_def)

lemma is_finite_cases: "is_finite a \<longleftrightarrow> a = NZero \<or> (\<exists>x. a = Fin x)"
  by (cases a) (auto simp: is_finite_def)

lemma f_lt_finite: "is_finite a \<Longrightarrow> is_finite b \<Longrightarrow> f_lt a b \<longleftrightarrow> fval a < fval b"
  by (auto simp: is_finite_cases)

lemma f_le_finite: "is_finite a \<Longrightarrow> is_finite b \<Longrightarrow> f_le a b \<longleftrightarrow> fval a \<le> fval b"
  by (auto simp: is_finite_cases f_le_def)

lemma f_le_lt_trans: "f_le a b \<Longrightarrow> f_lt b c \<Longrightarrow> f_lt a c"
  by (cases a; cases b; cases c) (auto simp: f_le_def)

lemma f_lt_asym: "f_lt a b \<Longrightarrow> \<not> f_le b a"
  by (cases a; cases b) (auto simp: f_le_def)

lemma finite_not_special: "\<not> is_nan a \<and> \<not> is_inf a \<longleftrightarrow> is_finite a"
  by (cases a) (auto simp: is_nan_def is_inf_def is_finite_def)

lemma to_float_value:
  assumes "\<bar>round64 x\<bar> < pow2 1024"
  shows "is_finite (to_float n x) \<and> fval (to_float n x) = round64 x"
  using assms by (auto simp: to_float_def is_finite_def Let_def abs_less_iff)

text \<open>Numbers below \<open>2^1022\<close> in magnitude: their sum does not overflow.\<close>

definition moderate :: "f64 \<Rightarrow> bool" where
  "moderate a \<longleftrightarrow> is_finite a \<and> wf_f64 a \<and> \<bar>fval a\<bar> \<le> pow2 1022"

lemma wf_round: "is_finite a \<Longrightarrow> wf_f64 a \<Longrightarrow> round64 (fval a) = fval a"
  by (auto simp: is_finite_cases)

lemma round64_double: "round64 x = x \<Longrightarrow> round64 (2 * x) = 2 * x"
proof -
  assume x: "round64 x = x"
  obtain m e where "round64 x = of_int m * pow2 e" "\<bar>m\<bar> \<le> 2 ^ 53" "- 1074 \<le> e"
    using round64_form [of x] by blast
  moreover from this x have "2 * x = of_int m * pow2 (e + 1)"
    by (simp add: pow2_add)
  ultimately show ?thesis
    using round64_dyadic_le [of m "e + 1"] by (simp only: add_increasing2 zero_le_one)
qed

lemma f_add_finite:
  assumes "is_finite a" "is_finite b" "\<bar>round64 (fval a + fval b)\<bar> < pow2 1024"
  shows "is_finite (f_add a b) \<and> fval (f_add a b) = round64 (fval a + fval b)"
  using assms(1,2) to_float_value [OF assms(3)]
  by (cases a; cases b) (auto simp: Let_def)

lemma f_halve_finite:
  assumes "is_finite a" "\<bar>round64 (fval a / 2)\<bar> < pow2 1024"
  shows "is_finite (f_div a (Fin 2)) \<and> fval (f_div a (Fin 2)) = round64 (fval a / 2)"
  using assms to_float_value [of "fval a / 2"]
  by (auto simp: is_finite_cases [of a] f_div_def Let_def is_inf_def)

lemma midpoint_between:
  assumes "moderate a" "moderate b" "fval a \<le> fval b"
  shows "is_finite (midpoint a b) \<and> fval a \<le> fval (midpoint a b) \<and> fval (midpoint a b) \<le> fval b"
proof -
  have wf: "round64 (fval a) = fval a" "round64 (fval b) = fval b"
    using assms(1,2) wf_round by (auto simp: moderate_def)
  define r where "r = round64 (fval a + fval b)"
  have "round64 (2 * fval a) \<le> r" "r \<le> round64 (2 * fval b)"
    unfolding r_def using assms(3) by (auto intro!: round64_mono)
  then have r: "2 * fval a \<le> r" "r \<le> 2 * fval b"
    by (simp_all add: round64_double wf)
  have "pow2 1024 = 4 * pow2 1022"
    using pow2_add [of 2 1022] by (simp add: pow2_nat [of 2, simplified])
  moreover have "\<bar>fval a\<bar> \<le> pow2 1022" "\<bar>fval b\<bar> \<le> pow2 1022" "0 < pow2 1022"
    using assms(1,2) by (auto simp: moderate_def)
  ultimately have "\<bar>r\<bar> < pow2 1024" and big: "\<bar>fval a\<bar> < pow2 1024" "\<bar>fval b\<bar> < pow2 1024"
    using r by linarith+
  then have sum: "is_finite (f_add a b)" "fval (f_add a b) = r"
    using f_add_finite [of a b] assms(1,2) by (auto simp: r_def moderate_def)
  have "round64 (fval a) \<le> round64 (r / 2)" "round64 (r / 2) \<le> round64 (fval b)"
    using r by (auto intro!: round64_mono)
  then have half: "fval a \<le> round64 (r / 2)" "round64 (r / 2) \<le> fval b"
    by (simp_all add: wf)
  then have "\<bar>round64 (r / 2)\<bar> < pow2 1024"
    using big by linarith
  with f_halve_finite [OF sum(1)] sum(2) half show ?thesis
    by (simp add: midpoint_def)
qed

section \<open>Properties\<close>

lemma parse_js_number_finite: "parse_js_number s = Some v \<Longrightarrow> is_finite v"
  using finite_not_special [of v]
  by (auto simp: parse_js_number_def Let_def is_finite_def split: if_splits sum.splits)

lemma parse_bounds_finite:
  "parse_bounds s = Some b \<Longrightarrow> is_finite (Left b) \<and> is_finite (Top b) \<and> is_finite (Right b) \<and> is_finite (Bottom b)"
  by (auto simp: parse_bounds_def split: if_splits list.splits option.splits dest: parse_js_number_finite)

text \<open>
  Every anchor of a rectangle is a point of the rectangle, edges included: for a rectangle
  with left at most right and top at most bottom, whose coordinates are at most \<open>2^1022\<close> in
  magnitude, none of the nine anchors leaves it through rounding.
\<close>

theorem bounds_anchor_inside:
  assumes "moderate (Left b)" "moderate (Top b)" "moderate (Right b)" "moderate (Bottom b)"
    and "f_le (Left b) (Right b)" "f_le (Top b) (Bottom b)"
    and "bounds_anchor b anchor = Inr p"
  shows "f_le (Left b) (X p) \<and> f_le (X p) (Right b) \<and> f_le (Top b) (Y p) \<and> f_le (Y p) (Bottom b)"
proof -
  have fin: "is_finite (Left b)" "is_finite (Top b)" "is_finite (Right b)" "is_finite (Bottom b)"
    using assms(1-4) by (auto simp: moderate_def)
  have le: "fval (Left b) \<le> fval (Right b)" "fval (Top b) \<le> fval (Bottom b)"
    using assms(5,6) fin by (simp_all add: f_le_finite)
  note mid = midpoint_between [OF assms(1,3) le(1)] midpoint_between [OF assms(2,4) le(2)]
  show ?thesis
    using assms(7) mid le fin
    by (auto simp: bounds_anchor_def bounds_center_def f_le_finite split: if_splits)
qed

theorem bounds_anchor_inside_witness:
  "\<exists>p. bounds_anchor (mk_bounds (Fin 0) (Fin 10) (Fin 100) (Fin 30)) ''center'' = Inr p \<and>
     f_le (Fin 0) (X p) \<and> f_le (X p) (Fin 100) \<and> f_le (Fin 10) (Y p) \<and> f_le (Y p) (Fin 30)"
proof -
  have "of_int 100 \<le> pow2 1022"
    using pow2_mono [of 10 1022] pow2_nat [of 10] by simp
  moreover have "round64 (of_int i) = of_int i" if "\<bar>i\<bar> \<le> 100" for i
    using that by (intro round64_of_int) simp
  from this [of 0] this [of 10] this [of 100] this [of 30]
  have "round64 10 = 10" "round64 100 = 100" "round64 30 = 30" by simp_all
  moreover have "pow2 1022 < pow2 1024"
    by (rule pow2_strict_mono) simp
  ultimately have "moderate (Fin 0)" "moderate (Fin 10)" "moderate (Fin 100)" "moderate (Fin 30)"
    by (auto simp: moderate_def is_finite_def)
  then show ?thesis
    using bounds_anchor_inside [of "mk_bounds (Fin 0) (Fin 10) (Fin 100) (Fin 30)" "''center''"]
    by (simp add: bounds_anchor_def f_le_def)
qed

lemma contain_intersect:
  assumes "bounds_contain a x y" "bounds_contain b x y"
  shows "bounds_intersect a b"
  using assms f_le_lt_trans [of "Left b" x "Right a"] f_le_lt_trans [of "Left a" x "Right b"]
    f_le_lt_trans [of "Top b" y "Bottom a"] f_le_lt_trans [of "Top a" y "Bottom b"] f_lt_asym
  by (auto simp: bounds_contain_def bounds_intersect_def)

text \<open>
  The code's test for intersection accepts a rectangle of no area that lies inside another one,
  where the comment on \<^verbatim>\<open>BoundsIntersect\<close> asks for an overlap of nonzero area.
\<close>

theorem bounds_intersect_empty_area:
  "bounds_intersect (mk_bounds (Fin 5) (Fin 0) (Fin 5) (Fin 10)) (mk_bounds (Fin 0) (Fin 0) (Fin 10) (Fin 10))"
  by (simp add: bounds_intersect_def f_le_def)

end
