(* ===== verification/Ui_Select.thy ===== *)
theory Ui_Select
  imports Ui_Bounds "HOL-Library.Multiset" "HOL-Library.Sublist"
begin

text \<open>
  Element selection: patterns (\<^verbatim>\<open>core/internal/orchestra/pattern.go\<close>), filters on cursor lists
  (\<^verbatim>\<open>filter.go\<close>), selectors and their compilation with priority broadening (\<^verbatim>\<open>selector.go\<close>,
  \<^verbatim>\<open>priority_broadening.go\<close>) and resolution against a tree (\<^verbatim>\<open>finder.go\<close>). A compiled regular
  expression is the predicate its \<^verbatim>\<open>MatchString\<close> computes, a parameter of the pattern.
\<close>

section \<open>Patterns\<close>

datatype pattern = LiteralPattern string | RegexPattern "string \<Rightarrow> bool"

fun pattern_matches :: "pattern \<Rightarrow> string \<Rightarrow> bool" where
  "pattern_matches (LiteralPattern l) v = (v = l)"
| "pattern_matches (RegexPattern re) v = re v"

text \<open>
  The scan for constructs RE2 cannot express. The error carries the construct and its byte
  position; \<open>i\<close> is the position of the head of the remaining source.
\<close>

datatype regex_error =
  Backreference char nat | Lookahead nat | NegativeLookahead nat | Lookbehind nat | NegativeLookbehind nat

fun scan_regex :: "bool \<Rightarrow> nat \<Rightarrow> string \<Rightarrow> regex_error option" where
  "scan_regex inClass i [] = None"
| "scan_regex inClass i (c # cs) =
     (if c = CHR 0x5C then
        (case cs of
           [] \<Rightarrow> None
         | d # ds \<Rightarrow>
             if \<not> inClass \<and> CHR ''1'' \<le> d \<and> d \<le> CHR ''9'' then Some (Backreference d i)
             else scan_regex inClass (i + 2) ds)
      else if c = CHR ''['' then scan_regex True (i + 1) cs
      else if c = CHR '']'' then scan_regex False (i + 1) cs
      else if inClass then scan_regex inClass (i + 1) cs
      else if c = CHR ''('' \<and> has_prefix cs ''?='' then Some (Lookahead i)
      else if c = CHR ''('' \<and> has_prefix cs ''?!'' then Some (NegativeLookahead i)
      else if c = CHR ''('' \<and> has_prefix cs ''?<='' then Some (Lookbehind i)
      else if c = CHR ''('' \<and> has_prefix cs ''?<!'' then Some (NegativeLookbehind i)
      else scan_regex inClass (i + 1) cs)"

definition reject_unsupported_js_regex_syntax :: "string \<Rightarrow> regex_error option" where
  "reject_unsupported_js_regex_syntax source = scan_regex False 0 source"

datatype compile_error = UnsupportedSyntax regex_error | UnsupportedFlag nat | EngineError string

text \<open>
  The Go flags of a JavaScript flag string (a rune at a time), and the compilation. \<open>engine\<close>
  is \<^verbatim>\<open>regexp.Compile\<close>: an error or the predicate of the compiled expression.
\<close>

fun go_flags :: "nat list \<Rightarrow> compile_error + string" where
  "go_flags [] = Inr []"
| "go_flags (f # fs) =
     (if f \<in> set (map byte_of ''ims'') then res_bind (go_flags fs) (\<lambda>g. Inr (char_of f # g))
      else if f \<in> set (map byte_of ''gyud'') then go_flags fs
      else Inl (UnsupportedFlag f))"

definition compile_js_regex ::
  "(string \<Rightarrow> string + (string \<Rightarrow> bool)) \<Rightarrow> string \<Rightarrow> string \<Rightarrow> compile_error + pattern" where
  "compile_js_regex engine source flags =
     (case reject_unsupported_js_regex_syntax source of
        Some e \<Rightarrow> Inl (UnsupportedSyntax e)
      | None \<Rightarrow>
          res_bind (go_flags (runes_of flags))
            (\<lambda>g. case engine (if g \<noteq> [] then ''(?'' @ g @ '')'' @ source else source) of
                   Inl msg \<Rightarrow> Inl (EngineError msg)
                 | Inr re \<Rightarrow> Inr (RegexPattern re)))"

section \<open>Filters\<close>

type_synonym element_filter_fun = "cursor list \<Rightarrow> cursor list"

definition attr_matches :: "string \<Rightarrow> pattern \<Rightarrow> cursor \<Rightarrow> bool" where
  "attr_matches key p c = (case Attributes (Node c) key of Some v \<Rightarrow> pattern_matches p v | None \<Rightarrow> False)"

definition by_attr :: "string \<Rightarrow> pattern \<Rightarrow> element_filter_fun" where
  "by_attr key p cursors = filter (attr_matches key p) cursors"

definition id_matches :: "pattern \<Rightarrow> element_filter_fun" where "id_matches = by_attr ''id''"
definition text_matches :: "pattern \<Rightarrow> element_filter_fun" where "text_matches = by_attr ''text''"
definition label_matches :: "pattern \<Rightarrow> element_filter_fun" where "label_matches = by_attr ''label''"
definition hint_matches :: "pattern \<Rightarrow> element_filter_fun" where "hint_matches = by_attr ''hint''"
definition value_matches :: "pattern \<Rightarrow> element_filter_fun" where "value_matches = by_attr ''value''"

definition role_is :: "string \<Rightarrow> element_filter_fun" where
  "role_is role cursors = filter (\<lambda>c. Attributes (Node c) ''role'' = Some role) cursors"

definition is_enabled :: element_filter_fun where
  "is_enabled cursors = filter (\<lambda>c. Enabled (Node c) = Some True) cursors"

definition is_clickable :: element_filter_fun where
  "is_clickable cursors = filter (\<lambda>c. Clickable (Node c) = Some True) cursors"

definition is_focused :: element_filter_fun where
  "is_focused cursors = filter (\<lambda>c. Focused (Node c) = Some True) cursors"

fun intersect :: "element_filter_fun list \<Rightarrow> element_filter_fun" where
  "intersect [] cursors = cursors"
| "intersect (f # fs) cursors = (let result = f cursors in if result = [] then [] else intersect fs result)"

definition nth_filter :: "element_filter_fun \<Rightarrow> int \<Rightarrow> element_filter_fun" where
  "nth_filter f index cursors =
     (let r = f cursors in if index < 0 \<or> int (length r) \<le> index then [] else [r ! nat index])"

section \<open>Selectors\<close>

record selector =
  SelID :: "pattern option"
  SelText :: "pattern option"
  SelLabel :: "pattern option"
  SelHint :: "pattern option"
  SelValue :: "pattern option"
  SelRole :: "string option"
  SelEnabled :: "bool option"
  SelClickable :: "bool option"
  SelFocused :: "bool option"
  SelNth :: "int option"

definition has_content :: "selector \<Rightarrow> bool" where
  "has_content s \<longleftrightarrow>
     SelID s \<noteq> None \<or> SelText s \<noteq> None \<or> SelLabel s \<noteq> None \<or> SelHint s \<noteq> None \<or> SelValue s \<noteq> None"

definition opt_list :: "'a option \<Rightarrow> ('a \<Rightarrow> 'b) \<Rightarrow> 'b list" where
  "opt_list x f = (case x of None \<Rightarrow> [] | Some a \<Rightarrow> [f a])"

definition constraint_filters :: "selector \<Rightarrow> element_filter_fun list" where
  "constraint_filters s =
     opt_list (SelRole s) role_is @
     (if SelEnabled s = Some True then [is_enabled] else []) @
     (if SelClickable s = Some True then [is_clickable] else []) @
     (if SelFocused s = Some True then [is_focused] else [])"

definition priority_filters :: "selector \<Rightarrow> element_filter_fun list" where
  "priority_filters s =
     opt_list (SelID s) id_matches @
     opt_list (SelLabel s) label_matches @
     (case SelText s of
        None \<Rightarrow> []
      | Some p \<Rightarrow> text_matches p # (if SelLabel s = None then [label_matches p] else [])) @
     opt_list (SelValue s) value_matches @
     opt_list (SelHint s) hint_matches"

definition score_cursor :: "cursor \<Rightarrow> int" where
  "score_cursor c =
     (if Clickable (Node c) = Some True then 1 else 0) + (if Focused (Node c) = Some True then 1 else 0)"

definition rank_candidates :: "cursor list \<Rightarrow> cursor list" where
  "rank_candidates cs = sort_key (\<lambda>c. - score_cursor c) cs"

definition identity_filter :: element_filter_fun where
  "identity_filter cursors = cursors"

fun broadened :: "selector \<Rightarrow> element_filter_fun list \<Rightarrow> element_filter_fun" where
  "broadened s [] cursors = []"
| "broadened s (content # rest) cursors =
     (let constraints = constraint_filters s;
          combined = (if constraints \<noteq> [] then intersect (content # constraints) else content);
          result = combined cursors
      in if result \<noteq> [] then (if SelNth s \<noteq> None then result else rank_candidates result)
         else broadened s rest cursors)"

definition compile_selector :: "selector \<Rightarrow> element_filter_fun" where
  "compile_selector s =
     (if priority_filters s = [] then
        let constraintOnly =
          (if constraint_filters s \<noteq> [] then intersect (constraint_filters s) else identity_filter)
        in (case SelNth s of Some n \<Rightarrow> nth_filter constraintOnly n | None \<Rightarrow> constraintOnly)
      else
        (case SelNth s of
           Some n \<Rightarrow> nth_filter (broadened s (priority_filters s)) n
         | None \<Rightarrow> broadened s (priority_filters s)))"

section \<open>Finding\<close>

definition find_all :: "element_filter_fun \<Rightarrow> tree_node \<Rightarrow> cursor list" where
  "find_all f tree = f (walk tree)"

definition find_one :: "element_filter_fun \<Rightarrow> tree_node \<Rightarrow> cursor option" where
  "find_one f tree = (case find_all f tree of [] \<Rightarrow> None | c # _ \<Rightarrow> Some c)"

record resolved_point =
  ResCursor :: cursor
  ResBounds :: "bounds option"
  ResPoint :: "point option"

definition resolve_first :: "element_filter_fun \<Rightarrow> tree_node \<Rightarrow> resolved_point option" where
  "resolve_first f tree =
     map_option
       (\<lambda>c. let b = Option.bind (Attributes (Node c) ''bounds'') parse_bounds
            in \<lparr>ResCursor = c, ResBounds = b, ResPoint = map_option bounds_center b\<rparr>)
       (find_one f tree)"

section \<open>The contract of a filter\<close>

text \<open>
  A filter selects among the cursors it is given: it invents none and repeats none. A filter
  that keeps their order besides is an ordered filter.
\<close>

locale element_filter =
  fixes f :: "cursor list \<Rightarrow> cursor list"
  assumes selects: "mset (f cs) \<subseteq># mset cs"
begin

lemma subset: "set (f cs) \<subseteq> set cs"
  using set_mset_mono [OF selects [of cs]] by simp

lemma shorter: "length (f cs) \<le> length cs"
  using size_mset_mono [OF selects [of cs]] by simp

lemma keeps_distinct_keys: "distinct (map k cs) \<Longrightarrow> distinct (map k (f cs))"
proof -
  assume d: "distinct (map k cs)"
  have "mset (map k (f cs)) \<subseteq># mset (map k cs)"
    using image_mset_subseteq_mono [OF selects] by simp
  then obtain r where "mset (map k cs) = mset (map k (f cs)) + mset r"
    by (metis ex_mset mset_subset_eq_exists_conv)
  then have "mset (map k (f cs) @ r) = mset (map k cs)"
    by simp
  with d show ?thesis
    by (metis distinct_append mset_eq_imp_distinct_iff)
qed

text \<open>Found cursors are cursors of the tree, at pairwise different positions.\<close>

lemma find_all_positions:
  "set (find_all f tree) \<subseteq> set (walk tree) \<and> distinct (map path (find_all f tree))"
  using subset [of "walk tree"] keeps_distinct_keys [of path "walk tree"] distinct_paths_preorder
  by (simp add: find_all_def walk_preorder)

lemma nth_filter_selects: "mset (nth_filter f i cs) \<subseteq># mset cs"
proof (cases "i < 0 \<or> int (length (f cs)) \<le> i")
  case False
  then have "f cs ! nat i \<in># mset (f cs)"
    by (auto simp: not_le intro!: nth_mem)
  with subset [of cs] have "f cs ! nat i \<in> set cs"
    by auto
  with False show ?thesis
    by (simp add: nth_filter_def)
qed (simp add: nth_filter_def)

end

locale ordered_filter =
  fixes f :: "cursor list \<Rightarrow> cursor list"
  assumes subseq: "subseq (f cs) cs"

lemma subseq_mset: "subseq xs ys \<Longrightarrow> mset xs \<subseteq># mset ys"
proof (induction rule: list_emb.induct)
  case (list_emb_Cons xs ys y)
  show ?case
    by (rule subset_mset.order_trans [OF list_emb_Cons.IH]) simp
qed simp_all

sublocale ordered_filter \<subseteq> element_filter f
  by unfold_locales (rule subseq_mset [OF subseq])

text \<open>Every filter of the code keeps the contract; the ranked one may reorder.\<close>

interpretation attr_filter: ordered_filter "by_attr key p" for key p
  by unfold_locales (simp add: by_attr_def)

interpretation role_filter: ordered_filter "role_is role" for role
  by unfold_locales (simp add: role_is_def)

interpretation enabled_filter: ordered_filter is_enabled
  by unfold_locales (simp add: is_enabled_def)

interpretation clickable_filter: ordered_filter is_clickable
  by unfold_locales (simp add: is_clickable_def)

interpretation focused_filter: ordered_filter is_focused
  by unfold_locales (simp add: is_focused_def)

section \<open>Declarative reading of a selector\<close>

text \<open>The constraints a cursor must meet, and the content predicates in priority order.\<close>

definition constraint_preds :: "selector \<Rightarrow> (cursor \<Rightarrow> bool) list" where
  "constraint_preds s =
     opt_list (SelRole s) (\<lambda>role c. Attributes (Node c) ''role'' = Some role) @
     (if SelEnabled s = Some True then [\<lambda>c. Enabled (Node c) = Some True] else []) @
     (if SelClickable s = Some True then [\<lambda>c. Clickable (Node c) = Some True] else []) @
     (if SelFocused s = Some True then [\<lambda>c. Focused (Node c) = Some True] else [])"

definition meets_constraints :: "selector \<Rightarrow> cursor \<Rightarrow> bool" where
  "meets_constraints s c \<longleftrightarrow> list_all (\<lambda>P. P c) (constraint_preds s)"

definition content_preds :: "selector \<Rightarrow> (cursor \<Rightarrow> bool) list" where
  "content_preds s =
     opt_list (SelID s) (attr_matches ''id'') @
     opt_list (SelLabel s) (attr_matches ''label'') @
     (case SelText s of
        None \<Rightarrow> []
      | Some p \<Rightarrow> attr_matches ''text'' p # (if SelLabel s = None then [attr_matches ''label'' p] else [])) @
     opt_list (SelValue s) (attr_matches ''value'') @
     opt_list (SelHint s) (attr_matches ''hint'')"

text \<open>
  The matches of a selector: with content, those that meet the constraints and satisfy the
  first content predicate that has any such match; without, all that meet the constraints.
\<close>

definition selector_matches :: "selector \<Rightarrow> cursor list \<Rightarrow> cursor list" where
  "selector_matches s cs =
     (if content_preds s = [] then filter (meets_constraints s) cs
      else (case find (\<lambda>P. \<exists>c \<in> set cs. P c \<and> meets_constraints s c) (content_preds s) of
              None \<Rightarrow> []
            | Some P \<Rightarrow> filter (\<lambda>c. P c \<and> meets_constraints s c) cs))"

lemma opt_list_map: "opt_list x (\<lambda>a. g (f a)) = map g (opt_list x f)"
  by (cases x) (simp_all add: opt_list_def)

lemma constraint_filters_preds: "constraint_filters s = map filter (constraint_preds s)"
proof -
  have "role_is role = filter (\<lambda>c. Attributes (Node c) ''role'' = Some role)" for role
    by (auto simp: role_is_def fun_eq_iff)
  moreover have "is_enabled = filter (\<lambda>c. Enabled (Node c) = Some True)"
    "is_clickable = filter (\<lambda>c. Clickable (Node c) = Some True)"
    "is_focused = filter (\<lambda>c. Focused (Node c) = Some True)"
    by (auto simp: is_enabled_def is_clickable_def is_focused_def fun_eq_iff)
  ultimately show ?thesis
    by (cases "SelRole s") (simp_all add: constraint_filters_def constraint_preds_def opt_list_def)
qed

lemma by_attr_filter: "by_attr key = (\<lambda>p. filter (attr_matches key p))"
  by (auto simp: by_attr_def fun_eq_iff)

lemma priority_filters_preds: "priority_filters s = map filter (content_preds s)"
  by (simp add: priority_filters_def content_preds_def id_matches_def text_matches_def label_matches_def
      hint_matches_def value_matches_def by_attr_filter opt_list_map [where g = filter] split: option.split)

lemma intersect_preds: "intersect (map filter Ps) cs = filter (\<lambda>c. list_all (\<lambda>P. P c) Ps) cs"
proof (induction Ps arbitrary: cs)
  case (Cons P Ps)
  show ?case
  proof (cases "filter P cs = []")
    case True
    then have "filter (\<lambda>c. P c \<and> list_all (\<lambda>P. P c) Ps) cs = []"
      by (auto simp: filter_empty_conv)
    with True show ?thesis by simp
  next
    case False
    with Cons.IH show ?thesis
      by (simp add: Let_def conj_commute)
  qed
qed simp

lemma constrained_content:
  "(if constraint_filters s \<noteq> [] then intersect (filter P # constraint_filters s) else filter P) cs =
   filter (\<lambda>c. P c \<and> meets_constraints s c) cs"
  using intersect_preds [of "P # constraint_preds s" cs]
  by (cases "constraint_preds s = []") (simp_all add: constraint_filters_preds meets_constraints_def)

lemma broadened_preds:
  "broadened s (map filter Ps) cs =
     (case find (\<lambda>P. \<exists>c \<in> set cs. P c \<and> meets_constraints s c) Ps of
        None \<Rightarrow> []
      | Some P \<Rightarrow> (if SelNth s \<noteq> None then id else rank_candidates) (filter (\<lambda>c. P c \<and> meets_constraints s c) cs))"
proof (induction Ps)
  case (Cons P Ps)
  define ms where "ms = filter (\<lambda>c. P c \<and> meets_constraints s c) cs"
  have step: "broadened s (map filter (P # Ps)) cs =
      (if ms \<noteq> [] then (if SelNth s \<noteq> None then ms else rank_candidates ms) else broadened s (map filter Ps) cs)"
    using constrained_content [of s P cs] by (simp add: Let_def ms_def del: intersect.simps)
  have "(\<exists>c \<in> set cs. P c \<and> meets_constraints s c) \<longleftrightarrow> ms \<noteq> []"
    by (auto simp: ms_def filter_empty_conv)
  then show ?case
    unfolding step by (simp add: Cons.IH ms_def)
qed simp

lemma content_preds_empty: "content_preds s = [] \<longleftrightarrow> \<not> has_content s"
  by (auto simp: content_preds_def has_content_def opt_list_def split: option.splits)

lemma intersect_constraints:
  "(if constraint_filters s \<noteq> [] then intersect (constraint_filters s) else identity_filter) =
   filter (meets_constraints s)"
proof
  fix cs
  have "(\<lambda>c. list_all (\<lambda>P. P c) (constraint_preds s)) = meets_constraints s"
    by (simp add: meets_constraints_def fun_eq_iff)
  with intersect_preds [of "constraint_preds s" cs]
  show "(if constraint_filters s \<noteq> [] then intersect (constraint_filters s) else identity_filter) cs =
      filter (meets_constraints s) cs"
    by (auto simp: constraint_filters_preds identity_filter_def)
qed

lemma rank_Nil [simp]: "rank_candidates [] = []"
  by (simp add: rank_candidates_def)

lemma broadened_matches:
  "has_content s \<Longrightarrow> broadened s (priority_filters s) cs =
     (if SelNth s \<noteq> None then selector_matches s cs else rank_candidates (selector_matches s cs))"
  unfolding priority_filters_preds broadened_preds selector_matches_def
  by (auto simp: content_preds_empty split: option.split)

lemma compile_selector_matches:
  "compile_selector s cs =
     (case SelNth s of
        Some n \<Rightarrow>
          (let ms = selector_matches s cs in if n < 0 \<or> int (length ms) \<le> n then [] else [ms ! nat n])
      | None \<Rightarrow> (if has_content s then rank_candidates (selector_matches s cs) else selector_matches s cs))"
proof (cases "has_content s")
  case True
  then have "priority_filters s \<noteq> []"
    by (simp add: priority_filters_preds content_preds_empty)
  with True show ?thesis
    by (simp add: compile_selector_def nth_filter_def Let_def broadened_matches split: option.split)
next
  case False
  then have "priority_filters s = []" "selector_matches s cs = filter (meets_constraints s) cs"
    using content_preds_empty [of s] by (simp_all add: priority_filters_preds selector_matches_def)
  with False show ?thesis
    unfolding compile_selector_def intersect_constraints Let_def
    by (simp add: nth_filter_def split: option.split)
qed

text \<open>
  C10: Compiling a selector gives its declarative reading: the cursors that meet all constraints
  and match the first content field, in the order id, label, text (then label, when no label is
  given), value, hint, that has a match; ranked by score unless a position is asked for, and
  cut down to that position when it is.
\<close>

theorem compile_selector_spec:
  "compile_selector s cs =
     (case SelNth s of
        Some n \<Rightarrow>
          (let ms = selector_matches s cs in if n < 0 \<or> int (length ms) \<le> n then [] else [ms ! nat n])
      | None \<Rightarrow> (if has_content s then rank_candidates (selector_matches s cs) else selector_matches s cs))"
  by (rule compile_selector_matches)

lemma selector_matches_subseq: "subseq (selector_matches s cs) cs"
  by (simp add: selector_matches_def split: option.split)

lemma mset_rank [simp]: "mset (rank_candidates cs) = mset cs"
  by (simp add: rank_candidates_def)

lemma compile_selector_selects: "mset (compile_selector s cs) \<subseteq># mset cs"
proof -
  have sub: "mset (selector_matches s cs) \<subseteq># mset cs"
    by (rule subseq_mset [OF selector_matches_subseq])
  have "selector_matches s cs ! nat n \<in> set cs" if "\<not> n < 0" "\<not> int (length (selector_matches s cs)) \<le> n" for n
  proof -
    have "nat n < length (selector_matches s cs)"
      using that by linarith
    from nth_mem [OF this] show ?thesis
      using set_mset_mono [OF sub] by auto
  qed
  with sub show ?thesis
    by (cases "SelNth s") (simp_all add: compile_selector_matches Let_def)
qed

interpretation selected: element_filter "compile_selector s" for s
  by unfold_locales (rule compile_selector_selects)

text \<open>
  What a selector finds in a tree are cursors of that tree at pairwise different positions,
  each of which meets every constraint of the selector.
\<close>

theorem selector_finds_positions:
  "set (find_all (compile_selector s) tree) \<subseteq> {c \<in> set (walk tree). meets_constraints s c} \<and>
   distinct (map path (find_all (compile_selector s) tree))"
proof -
  have m: "set (selector_matches s cs) \<subseteq> {c. meets_constraints s c}" for cs
    by (auto simp: selector_matches_def split: option.splits)
  have "set (compile_selector s cs) \<subseteq> set (selector_matches s cs)" for cs
    using mset_eq_setD [OF mset_rank [of "selector_matches s cs"]]
    by (auto simp: compile_selector_matches Let_def not_le nat_less_iff split: option.splits if_splits)
  with m selected.find_all_positions [of s tree] show ?thesis
    by (fastforce simp: find_all_def)
qed

lemma find_SomeD: "find Q xs = Some x \<Longrightarrow> x \<in> set xs \<and> Q x"
  by (auto simp: find_Some_iff)

lemma sorted_rank: "sorted_wrt (\<lambda>a b. score_cursor b \<le> score_cursor a) (rank_candidates cs)"
  using sorted_sort_key [of "\<lambda>c. - score_cursor c" cs]
  by (simp add: rank_candidates_def sorted_map)

lemma stable_rank: "filter (\<lambda>c. score_cursor c = k) (rank_candidates cs) = filter (\<lambda>c. score_cursor c = k) cs"
  using sort_key_stable [of "\<lambda>c. - score_cursor c" "- k" cs] by (simp add: rank_candidates_def)

text \<open>
  A selector with content but no position finds something exactly when some cursor of the
  tree meets its constraints and matches one of its content fields; the best-scored match comes
  first, and matches of equal score keep their document order.
\<close>

theorem selector_broadening:
  assumes "has_content s" "SelNth s = None"
  shows "(find_one (compile_selector s) tree \<noteq> None \<longleftrightarrow>
      (\<exists>c \<in> set (walk tree). meets_constraints s c \<and> (\<exists>P \<in> set (content_preds s). P c))) \<and>
    sorted_wrt (\<lambda>a b. score_cursor b \<le> score_cursor a) (find_all (compile_selector s) tree) \<and>
    (\<forall>k. subseq (filter (\<lambda>c. score_cursor c = k) (find_all (compile_selector s) tree)) (walk tree))"
proof -
  have f: "find_all (compile_selector s) tree = rank_candidates (selector_matches s (walk tree))"
    using assms by (simp add: find_all_def compile_selector_matches)
  have "subseq (filter Q (selector_matches s (walk tree))) (walk tree)" for Q
    using selector_matches_subseq [of s "walk tree"] by (meson subseq_filter_left subseq_order.order_trans)
  moreover have "find_one (compile_selector s) tree = None \<longleftrightarrow> selector_matches s (walk tree) = []"
    unfolding find_one_def f by (metis list.case_eq_if list.simps(4) mset_rank mset_zero_iff option.distinct(1))
  moreover have "selector_matches s (walk tree) = [] \<longleftrightarrow>
      \<not> (\<exists>c \<in> set (walk tree). meets_constraints s c \<and> (\<exists>P \<in> set (content_preds s). P c))"
    using assms(1) content_preds_empty [of s]
    by (auto simp: selector_matches_def find_None_iff filter_empty_conv split: option.splits dest!: find_SomeD)
  ultimately show ?thesis
    unfolding f stable_rank by (auto intro: sorted_rank)
qed

theorem selector_broadening_witness:
  "find_one
     (compile_selector
       \<lparr>SelID = None, SelText = Some (LiteralPattern ''OK''), SelLabel = None, SelHint = None, SelValue = None,
        SelRole = None, SelEnabled = None, SelClickable = Some True, SelFocused = None, SelNth = None\<rparr>)
     (TreeNode [''label'' \<mapsto> ''OK''] [] (Some True) None None None None None) \<noteq> None"
  (is "find_one (compile_selector ?s) ?t \<noteq> None")
proof -
  have "root_cursor ?t \<in> set (walk ?t) \<and> meets_constraints ?s (root_cursor ?t) \<and>
      attr_matches ''label'' (LiteralPattern ''OK'') (root_cursor ?t)"
    by (simp add: walk_def root_cursor_def meets_constraints_def constraint_preds_def opt_list_def attr_matches_def)
  moreover have "attr_matches ''label'' (LiteralPattern ''OK'') \<in> set (content_preds ?s)"
    by (simp add: content_preds_def opt_list_def)
  ultimately show ?thesis
    using selector_broadening [of ?s ?t] by (auto simp: has_content_def)
qed

end
