(* ===== verification/Ui_Analysis.thy ===== *)
theory Ui_Analysis
  imports Ui_Select "HOL-Library.Word"
begin

text \<open>
  Analyses of a whole tree: pruning of system overlays (\<^verbatim>\<open>overlay_filter.go\<close>), detection of
  an element drawn over a tap target (\<^verbatim>\<open>obscurement.go\<close>), the signature of the visible leaves
  (\<^verbatim>\<open>tree_signature.go\<close>), the flat element list (\<^verbatim>\<open>compact_element.go\<close>) and the check of
  application ids (\<^verbatim>\<open>app_id.go\<close>), all in \<^verbatim>\<open>core/internal/orchestra\<close>.
\<close>

section \<open>System overlays\<close>

definition system_overlay_prefixes :: "string list" where
  "system_overlay_prefixes = [''com.samsung.android.app.cocktailbarservice:'']"

definition is_system_overlay :: "tree_node \<Rightarrow> bool" where
  "is_system_overlay n =
     (case Attributes n ''id'' of
        None \<Rightarrow> False
      | Some i \<Rightarrow> list_ex (has_prefix i) system_overlay_prefixes)"

fun prune_overlays :: "tree_node \<Rightarrow> tree_node" where
  "prune_overlays (TreeNode a cs k e f s h v) =
     TreeNode a (map prune_overlays (filter (\<lambda>c. \<not> is_system_overlay c) cs)) k e f s h v"

definition filter_overlay_children :: "tree_node list \<Rightarrow> tree_node list" where
  "filter_overlay_children cs = map prune_overlays (filter (\<lambda>c. \<not> is_system_overlay c) cs)"

definition filter_system_overlays :: "tree_node \<Rightarrow> tree_node option" where
  "filter_system_overlays tree = (if is_system_overlay tree then None else Some (prune_overlays tree))"

section \<open>Obscurement\<close>

record obscurer_info =
  ObsRole :: string
  ObsID :: string
  ObsLabel :: string

definition is_ancestor_or_self_path :: "nat list \<Rightarrow> nat list \<Rightarrow> bool" where
  "is_ancestor_or_self_path ancestor descendant \<longleftrightarrow>
     length ancestor \<le> length descendant \<and>
     (\<forall>i < length ancestor. descendant ! i = ancestor ! i)"

definition covers_point :: "point \<Rightarrow> cursor \<Rightarrow> bool" where
  "covers_point p c \<longleftrightarrow>
     (case parse_bounds (attr (Node c) ''bounds'') of None \<Rightarrow> False | Some b \<Rightarrow> bounds_contain b (X p) (Y p))"

text \<open>The last cursor of the walk that covers the point.\<close>

definition topmost_at :: "point \<Rightarrow> cursor list \<Rightarrow> cursor option" where
  "topmost_at p cs = fold (\<lambda>c topmost. if covers_point p c then Some c else topmost) cs None"

definition is_layout_wrapper :: "cursor \<Rightarrow> bool" where
  "is_layout_wrapper c \<longleftrightarrow>
     attr (Node c) ''role'' \<in> {''container'', ''other''} \<and> attr (Node c) ''id'' = [] \<and> attr (Node c) ''label'' = []"

text \<open>\<open>None\<close>: not obscured; \<open>Some\<close>: obscured by that element.\<close>

definition detect_obscurement :: "tree_node \<Rightarrow> cursor \<Rightarrow> obscurer_info option" where
  "detect_obscurement tree target =
     (case parse_bounds (attr (Node target) ''bounds'') of
        None \<Rightarrow> None
      | Some b \<Rightarrow>
          (case topmost_at (bounds_center b) (walk tree) of
             None \<Rightarrow> None
           | Some front \<Rightarrow>
               if is_ancestor_or_self_path (path front) (path target) then None
               else if is_layout_wrapper front then None
               else Some \<lparr>ObsRole = attr (Node front) ''role'', ObsID = attr (Node front) ''id'',
                          ObsLabel = attr (Node front) ''label''\<rparr>))"

section \<open>Leaf signature\<close>

definition bounds_bucket_px :: f64 where
  "bounds_bucket_px = Fin 50"

text \<open>
  Conversion of a float to \<^verbatim>\<open>int\<close>. Outside the range of a 64-bit integer its value is up to
  the platform, the parameter \<open>wild\<close>.
\<close>

definition f_to_int :: "(f64 \<Rightarrow> int) \<Rightarrow> f64 \<Rightarrow> int" where
  "f_to_int wild f =
     (case f of
        Fin x \<Rightarrow> if - (2 ^ 63) \<le> trunc_rat x \<and> trunc_rat x < 2 ^ 63 then trunc_rat x else wild f
      | NZero \<Rightarrow> 0
      | _ \<Rightarrow> wild f)"

definition bucket_component :: "(f64 \<Rightarrow> int) \<Rightarrow> string \<Rightarrow> string" where
  "bucket_component wild p =
     (case parse_float (trim_space p) of
        Inl _ \<Rightarrow> p
      | Inr n \<Rightarrow> itoa (f_to_int wild (f_floor (f_div n bounds_bucket_px))))"

definition bucket_bounds :: "(f64 \<Rightarrow> int) \<Rightarrow> string \<Rightarrow> string" where
  "bucket_bounds wild bounds =
     (if bounds = [] then []
      else let parts = split_on CHR '','' bounds in
        if length parts \<noteq> 4 then bounds else join_with '','' (map (bucket_component wild) parts))"

text \<open>The leaves of a tree, left to right: \<^verbatim>\<open>visitLeaves\<close>.\<close>

fun visit_leaves :: "tree_node \<Rightarrow> tree_node list" where
  "visit_leaves (TreeNode a cs k e f s h v) =
     (if cs = [] then [TreeNode a cs k e f s h v] else concat (map visit_leaves cs))"

definition leaf_string :: "(f64 \<Rightarrow> int) \<Rightarrow> tree_node \<Rightarrow> string" where
  "leaf_string wild n = attr n ''text'' @ ''|'' @ attr n ''label'' @ ''|'' @ bucket_bounds wild (attr n ''bounds'')"

fun collect_leaves :: "(f64 \<Rightarrow> int) \<Rightarrow> tree_node \<Rightarrow> string list" where
  "collect_leaves wild (TreeNode a cs k e f s h v) =
     (if cs = [] then [leaf_string wild (TreeNode a cs k e f s h v)] else concat (map (collect_leaves wild) cs))"

fun count_leaves :: "tree_node \<Rightarrow> nat" where
  "count_leaves (TreeNode a cs k e f s h v) = (if cs = [] then 1 else sum_list (map count_leaves cs))"

definition djb2_step :: "32 word \<Rightarrow> char \<Rightarrow> 32 word" where
  "djb2_step h c = xor (push_bit 5 h + h) (of_nat (byte_of c))"

fun hex_digits :: "nat \<Rightarrow> nat list" where
  "hex_digits n = (if n < 16 then [n] else hex_digits (n div 16) @ [n mod 16])"

declare hex_digits.simps [simp del]

definition hex_char :: "nat \<Rightarrow> char" where
  "hex_char d = (char_of (if d < 10 then 48 + d else 87 + d) :: char)"

definition djb2 :: "string \<Rightarrow> string" where
  "djb2 s = map hex_char (hex_digits (unat (foldl djb2_step 5381 s)))"

text \<open>\<^verbatim>\<open>sort.Strings\<close> orders byte strings lexicographically.\<close>

definition hash_visible_leaves :: "(f64 \<Rightarrow> int) \<Rightarrow> tree_node \<Rightarrow> string" where
  "hash_visible_leaves wild tree = djb2 (join_with [CHR 0x00] (sort (collect_leaves wild tree)))"

definition leaf_bottom :: "tree_node \<Rightarrow> f64 option" where
  "leaf_bottom n =
     (let bounds = attr n ''bounds'' in
      if bounds = [] then None
      else (case split_on CHR '','' bounds of
              [_, _, _, d] \<Rightarrow> (case parse_float (trim_space d) of Inl _ \<Rightarrow> None | Inr v \<Rightarrow> Some v)
            | _ \<Rightarrow> None))"

definition max_leaf_bounds_bottom :: "tree_node \<Rightarrow> f64" where
  "max_leaf_bounds_bottom tree =
     fold (\<lambda>n m. case leaf_bottom n of Some v \<Rightarrow> if f_lt m v then v else m | None \<Rightarrow> m)
       (visit_leaves tree) (Fin 0)"

section \<open>Compact elements\<close>

record compact_element =
  ElementID :: string
  CRole :: string
  CLabel :: string
  CText :: string
  ResourceID :: string
  CBounds :: bounds
  CClickable :: bool
  CEnabled :: bool
  CSelector :: "(string \<rightharpoonup> string) option"

definition compact_selector :: "string \<Rightarrow> string \<Rightarrow> string \<Rightarrow> (string \<rightharpoonup> string) option" where
  "compact_selector resourceID label text =
     (if resourceID \<noteq> [] \<or> label \<noteq> [] \<or> text \<noteq> [] then
        Some (Map.empty
          (''resourceId'' := (if resourceID \<noteq> [] then Some resourceID else None),
           ''contentDesc'' := (if label \<noteq> [] then Some label else None),
           ''text'' := (if text \<noteq> [] then Some text else None)))
      else None)"

definition compact_of :: "nat \<Rightarrow> tree_node \<Rightarrow> bounds \<Rightarrow> compact_element" where
  "compact_of counter n b =
     \<lparr>ElementID = ''tree-'' @ utoa counter, CRole = attr n ''role'', CLabel = attr n ''label'',
      CText = attr n ''text'', ResourceID = attr n ''id'', CBounds = b,
      CClickable = (Clickable n = Some True), CEnabled = (Enabled n = None \<or> Enabled n = Some True),
      CSelector = compact_selector (attr n ''id'') (attr n ''label'') (attr n ''text'')\<rparr>"

fun compact_loop :: "nat \<Rightarrow> cursor list \<Rightarrow> compact_element list" where
  "compact_loop counter [] = []"
| "compact_loop counter (c # cs) =
     (case parse_bounds (attr (Node c) ''bounds'') of
        None \<Rightarrow> compact_loop counter cs
      | Some b \<Rightarrow> compact_of counter (Node c) b # compact_loop (counter + 1) cs)"

definition tree_node_to_compact_elements :: "tree_node \<Rightarrow> compact_element list" where
  "tree_node_to_compact_elements tree = compact_loop 0 (walk tree)"

section \<open>Application ids\<close>

datatype app_id_error = AppIDEmpty | AppIDTooLong | AppIDDisallowed nat

definition max_app_id_length :: nat where
  "max_app_id_length = 255"

definition is_valid_app_id_rune :: "nat \<Rightarrow> bool" where
  "is_valid_app_id_rune r \<longleftrightarrow>
     (97 \<le> r \<and> r \<le> 122) \<or> (65 \<le> r \<and> r \<le> 90) \<or> (48 \<le> r \<and> r \<le> 57) \<or> r = 46 \<or> r = 95 \<or> r = 45"

definition validate_app_id :: "string \<Rightarrow> app_id_error option" where
  "validate_app_id appID =
     (if appID = [] then Some AppIDEmpty
      else if max_app_id_length < length appID then Some AppIDTooLong
      else map_option AppIDDisallowed (find (\<lambda>r. \<not> is_valid_app_id_rune r) (runes_of appID)))"

end
