(* ===== verification/Ui_Analysis_Props.thy ===== *)
theory Ui_Analysis_Props
  imports Ui_Analysis
begin

text \<open>
  What the tree analyses promise: overlays and everything beneath them go and nothing else does,
  an obscurer is the element drawn last over the target's centre, the leaf signature does not
  depend on the order of siblings, and an accepted application id is harmless.
\<close>

section \<open>Pruning\<close>

text \<open>All nodes of a tree, and the nodes not at or beneath an overlay.\<close>

fun nodes :: "tree_node \<Rightarrow> tree_node list" where
  "nodes (TreeNode a cs k e f s h v) = TreeNode a cs k e f s h v # concat (map nodes cs)"

inductive kept_node :: "tree_node \<Rightarrow> tree_node \<Rightarrow> bool" where
  kept_root: "\<not> is_system_overlay t \<Longrightarrow> kept_node t t"
| kept_child: "\<not> is_system_overlay t \<Longrightarrow> c \<in> set (Children t) \<Longrightarrow> kept_node c n \<Longrightarrow> kept_node t n"

inductive_cases kept_nodeE: "kept_node t n"

lemma Attributes_prune [simp]: "Attributes (prune_overlays n) = Attributes n"
  by (cases n) simp

lemma overlay_prune [simp]: "is_system_overlay (prune_overlays n) \<longleftrightarrow> is_system_overlay n"
  by (simp add: is_system_overlay_def)

lemma nodes_prune: "\<not> is_system_overlay t \<Longrightarrow> set (nodes (prune_overlays t)) = prune_overlays ` {n. kept_node t n}"
proof (induction t)
  case (TreeNode a cs k e f s h v)
  let ?t = "TreeNode a cs k e f s h v"
  have split: "kept_node ?t n \<longleftrightarrow> n = ?t \<or> (\<exists>c \<in> set cs. \<not> is_system_overlay c \<and> kept_node c n)" for n
    using TreeNode.prems by (auto elim!: kept_nodeE [of ?t n] intro: kept_root kept_child elim: kept_nodeE)
  have "set (nodes (prune_overlays ?t)) =
      insert (prune_overlays ?t) (\<Union>c \<in> {c \<in> set cs. \<not> is_system_overlay c}. set (nodes (prune_overlays c)))"
    by auto
  also have "\<dots> = prune_overlays ` {n. kept_node ?t n}"
    using TreeNode.IH unfolding split by (auto simp del: prune_overlays.simps)
  finally show ?case .
qed

lemma kept_not_overlay: "kept_node t n \<Longrightarrow> \<not> is_system_overlay n"
  by (induction rule: kept_node.induct)

lemma prune_idem [simp]: "prune_overlays (prune_overlays t) = prune_overlays t"
  by (induction t) (auto simp: filter_map comp_def)

text \<open>
  Pruning removes exactly the overlays and what is beneath them: it gives nothing when the
  root is an overlay, and otherwise a tree whose nodes are those reachable from the root without
  passing an overlay, each with its own children pruned; none of them is an overlay and pruning
  again changes nothing.
\<close>

theorem filter_system_overlays_spec:
  "case filter_system_overlays t of
     None \<Rightarrow> is_system_overlay t
   | Some t' \<Rightarrow>
       set (nodes t') = prune_overlays ` {n. kept_node t n} \<and>
       list_all (\<lambda>n. \<not> is_system_overlay n) (nodes t') \<and>
       filter_system_overlays t' = Some t'"
  using nodes_prune [of t] kept_not_overlay [of t] by (auto simp: filter_system_overlays_def list_all_iff)

section \<open>Obscurement\<close>

lemma is_ancestor_prefix: "is_ancestor_or_self_path a d \<longleftrightarrow> prefix a d"
proof -
  have "take (length a) d = a \<longleftrightarrow> length a \<le> length d \<and> (\<forall>i < length a. d ! i = a ! i)"
    by (auto simp: list_eq_iff_nth_eq)
  then show ?thesis
    unfolding is_ancestor_or_self_path_def by (metis append_eq_conv_conj prefix_def take_is_prefix)
qed

lemma topmost_at_snoc: "topmost_at p (cs @ [x]) = (if covers_point p x then Some x else topmost_at p cs)"
  by (simp add: topmost_at_def)

definition drawn_last :: "point \<Rightarrow> cursor list \<Rightarrow> cursor \<Rightarrow> bool" where
  "drawn_last p cs c \<longleftrightarrow>
     (\<exists>before after. cs = before @ c # after \<and> covers_point p c \<and> (\<forall>d \<in> set after. \<not> covers_point p d))"

lemma drawn_last_snoc:
  "drawn_last p (cs @ [x]) c \<longleftrightarrow> (if covers_point p x then c = x else drawn_last p cs c)"
proof
  assume "drawn_last p (cs @ [x]) c"
  then obtain before after where s: "cs @ [x] = before @ c # after" "covers_point p c"
    "\<forall>d \<in> set after. \<not> covers_point p d"
    by (auto simp: drawn_last_def)
  then show "if covers_point p x then c = x else drawn_last p cs c"
    by (cases after rule: rev_cases) (auto simp: drawn_last_def)
next
  assume r: "if covers_point p x then c = x else drawn_last p cs c"
  show "drawn_last p (cs @ [x]) c"
  proof (cases "covers_point p x")
    case True
    with r show ?thesis
      unfolding drawn_last_def by (intro exI [of _ cs] exI [of _ "[]"]) auto
  next
    case False
    with r obtain before after where "cs = before @ c # after" "covers_point p c"
      "\<forall>d \<in> set after. \<not> covers_point p d"
      by (auto simp: drawn_last_def)
    with False show ?thesis
      unfolding drawn_last_def by (intro exI [of _ before] exI [of _ "after @ [x]"]) auto
  qed
qed

lemma topmost_at_Some: "topmost_at p cs = Some c \<longleftrightarrow> drawn_last p cs c"
  by (induction cs rule: rev_induct)
    (auto simp: topmost_at_snoc drawn_last_snoc, simp_all add: topmost_at_def drawn_last_def)

text \<open>
  A target is reported as obscured exactly when the node drawn last over the centre of its
  rectangle, in document order, is neither the target nor one of its ancestors (by tree
  position) nor an anonymous layout wrapper. A target without a readable rectangle never is.
\<close>

theorem detect_obscurement_iff:
  "detect_obscurement tree target \<noteq> None \<longleftrightarrow>
     (\<exists>b c. parse_bounds (attr (Node target) ''bounds'') = Some b \<and> drawn_last (bounds_center b) (walk tree) c \<and>
        \<not> prefix (path c) (path target) \<and> \<not> is_layout_wrapper c)"
proof (cases "parse_bounds (attr (Node target) ''bounds'')")
  case (Some b)
  show ?thesis
  proof (cases "topmost_at (bounds_center b) (walk tree)")
    case None
    then have "\<not> drawn_last (bounds_center b) (walk tree) c" for c
      by (simp flip: topmost_at_Some)
    with Some None show ?thesis
      by (simp add: detect_obscurement_def)
  next
    case top: (Some c)
    then have "drawn_last (bounds_center b) (walk tree) c' \<longleftrightarrow> c' = c" for c'
      by (auto simp flip: topmost_at_Some)
    with Some top show ?thesis
      by (simp add: detect_obscurement_def is_ancestor_prefix)
  qed
qed (simp add: detect_obscurement_def)

section \<open>Leaf signature\<close>

text \<open>Two trees that differ only in the order of siblings, at any depth.\<close>

inductive reordered :: "tree_node \<Rightarrow> tree_node \<Rightarrow> bool" where
  reordered_swap: "mset cs = mset cs' \<Longrightarrow> reordered (TreeNode a cs k e f s h v) (TreeNode a cs' k e f s h v)"
| reordered_inside: "list_all2 reordered cs cs' \<Longrightarrow>
    reordered (TreeNode a cs k e f s h v) (TreeNode a cs' k e f s h v)"
| reordered_trans: "reordered t u \<Longrightarrow> reordered u w \<Longrightarrow> reordered t w"

lemma mset_concat_map: "mset (concat (map g xs)) = (\<Sum>x \<in># mset xs. mset (g x))"
  by (induction xs) auto

lemma leaf_string_attrs:
  "leaf_string wild (TreeNode a cs k e f s h v) = leaf_string wild (TreeNode a cs' k e f s h v)"
  by (simp add: leaf_string_def attr_def)

lemma collect_leaves_reordered: "reordered t u \<Longrightarrow> mset (collect_leaves wild t) = mset (collect_leaves wild u)"
proof (induction rule: reordered.induct)
  case (reordered_swap cs cs' a k e f s h v)
  then have "cs = [] \<longleftrightarrow> cs' = []"
    by (metis mset_zero_iff)
  with reordered_swap show ?case
    by (simp add: mset_concat_map leaf_string_attrs [of wild a cs k e f s h v cs'])
next
  case (reordered_inside cs cs' a k e f s h v)
  then have "mset (concat (map (collect_leaves wild) cs)) = mset (concat (map (collect_leaves wild) cs'))"
    by (induction rule: list_all2_induct) auto
  moreover have "cs = [] \<longleftrightarrow> cs' = []"
    using reordered_inside by auto
  ultimately show ?case
    by auto
qed simp

lemma length_collect_leaves: "length (collect_leaves wild t) = count_leaves t"
  by (induction t) (auto simp: length_concat comp_def cong: map_cong)

text \<open>
  The signature of the visible leaves does not depend on the order of siblings: trees that
  differ only by reordering children, at any depth and any number of times, have the same hash
  and the same number of leaves.
\<close>

theorem hash_visible_leaves_order:
  assumes "reordered t u"
  shows "hash_visible_leaves wild t = hash_visible_leaves wild u \<and> count_leaves t = count_leaves u"
proof -
  have m: "mset (collect_leaves wild t) = mset (collect_leaves wild u)" for wild
    by (rule collect_leaves_reordered [OF assms])
  from mset_eq_length [OF m [of wild]] properties_for_sort [of "sort (collect_leaves wild u)" "collect_leaves wild t"] m [of wild]
  show ?thesis
    by (simp add: hash_visible_leaves_def length_collect_leaves)
qed

definition sample_leaf :: "string \<Rightarrow> tree_node" where
  "sample_leaf txt = TreeNode [''text'' \<mapsto> txt] [] None None None None None None"

theorem hash_visible_leaves_order_witness:
  "count_leaves (TreeNode Map.empty [sample_leaf ''a'', sample_leaf ''b''] None None None None None None) = 2 \<and>
   hash_visible_leaves (\<lambda>_. 0) (TreeNode Map.empty [sample_leaf ''a'', sample_leaf ''b''] None None None None None None) =
   hash_visible_leaves (\<lambda>_. 0) (TreeNode Map.empty [sample_leaf ''b'', sample_leaf ''a''] None None None None None None)"
proof -
  have "reordered (TreeNode Map.empty [sample_leaf ''a'', sample_leaf ''b''] None None None None None None)
      (TreeNode Map.empty [sample_leaf ''b'', sample_leaf ''a''] None None None None None None)"
    by (rule reordered_swap) simp
  from hash_visible_leaves_order [OF this, of "\<lambda>_. 0"] show ?thesis
    by (simp add: sample_leaf_def)
qed

section \<open>Application ids\<close>

definition safe_app_id_char :: "char \<Rightarrow> bool" where
  "safe_app_id_char c \<longleftrightarrow> is_valid_app_id_rune (byte_of c)"

lemma decode_rune_ascii: "b < 128 \<Longrightarrow> decode_rune (b # bs) = (b, 1)"
  by (simp add: decode_rune_def)

lemma decode_rune_non_ascii:
  assumes "128 \<le> b"
  shows "128 \<le> fst (decode_rune (b # bs))"
proof -
  have two: "128 \<le> (b - 192) * 64 + x" if "194 \<le> b" for x
    using that by linarith
  have three: "128 \<le> (b - 224) * 4096 + (b1 - 128) * 64 + x" if "224 \<le> b" "second_ok b b1" for b1 x
    using that by (cases "b = 224") (auto simp: second_ok_def)
  have four: "128 \<le> (b - 240) * 262144 + (b1 - 128) * 4096 + x + y" if "240 \<le> b" "second_ok b b1" for b1 x y
    using that by (cases "b = 240") (auto simp: second_ok_def)
  show ?thesis
    using assms two three four by (auto simp: decode_rune_def rune_error_def split: list.splits)
qed

lemma valid_app_id_rune_ascii: "is_valid_app_id_rune r \<Longrightarrow> r < 128"
  by (auto simp: is_valid_app_id_rune_def)

lemma decode_utf8_all_valid:
  "list_all is_valid_app_id_rune (decode_utf8 bs) \<longleftrightarrow> list_all is_valid_app_id_rune bs"
proof (induction bs rule: decode_utf8.induct)
  case (2 b bs)
  show ?case
  proof (cases "b < 128")
    case True
    with "2.IH" [OF decode_rune_ascii [OF True, symmetric] refl] show ?thesis
      by (simp add: decode_rune_ascii)
  next
    case False
    then have "128 \<le> fst (decode_rune (b # bs))"
      by (intro decode_rune_non_ascii) simp
    with False have "\<not> is_valid_app_id_rune (fst (decode_rune (b # bs)))" "\<not> is_valid_app_id_rune b"
      using valid_app_id_rune_ascii by (meson leD, meson)
    then show ?thesis
      by (simp add: case_prod_beta' Let_def)
  qed
qed simp

text \<open>
  An application id is accepted exactly when it is not empty, has at most 255 bytes, and
  consists of ASCII letters, digits, dots, underscores and hyphens; so no space, quote or shell
  metacharacter ever reaches a device command.
\<close>

theorem validate_app_id_iff:
  "validate_app_id s = None \<longleftrightarrow> s \<noteq> [] \<and> length s \<le> 255 \<and> list_all safe_app_id_char s"
  using decode_utf8_all_valid [of "map byte_of s"]
  by (auto simp: validate_app_id_def max_app_id_length_def runes_of_def find_None_iff list_all_iff safe_app_id_char_def)

end
