(* ===== verification/Go_Effects.thy ===== *)
theory Go_Effects
  imports Prelude
begin

text \<open>
  Operations on the outside world. A call that reads or changes the world \<open>'w\<close> (a device, a
  clock) and may fail is a function from the world to its outcome and the world afterwards;
  \<open>op_bind\<close> is a call followed by \<^verbatim>\<open>if err != nil { return err }\<close>. The clock interface of
  \<^verbatim>\<open>core/internal/clock/clock.go\<close> is a record of such operations, with the laws its documentation
  states as a locale.
\<close>

section \<open>Operations\<close>

type_synonym ('w, 'e, 'a) op = "'w \<Rightarrow> ('e + 'a) \<times> 'w"

definition op_return :: "'a \<Rightarrow> ('w, 'e, 'a) op" where
  "op_return a w = (Inr a, w)"

definition op_fail :: "'e \<Rightarrow> ('w, 'e, 'a) op" where
  "op_fail e w = (Inl e, w)"

definition op_bind :: "('w, 'e, 'a) op \<Rightarrow> ('a \<Rightarrow> ('w, 'e, 'b) op) \<Rightarrow> ('w, 'e, 'b) op" where
  "op_bind m k w = (case m w of (Inl e, w') \<Rightarrow> (Inl e, w') | (Inr a, w') \<Rightarrow> k a w')"

definition op_map :: "('a \<Rightarrow> 'b) \<Rightarrow> ('w, 'e, 'a) op \<Rightarrow> ('w, 'e, 'b) op" where
  "op_map g m = op_bind m (\<lambda>a. op_return (g a))"

text \<open>Seeing an operation's errors as errors of a richer type.\<close>

definition op_lift :: "('e \<Rightarrow> 'f) \<Rightarrow> ('w, 'e, 'a) op \<Rightarrow> ('w, 'f, 'a) op" where
  "op_lift g m w = (case m w of (Inl e, w') \<Rightarrow> (Inl (g e), w') | (Inr a, w') \<Rightarrow> (Inr a, w'))"

lemma op_bind_Inr_iff [result_simps]:
  "op_bind m k w = (Inr b, w2) \<longleftrightarrow> (\<exists>a w1. m w = (Inr a, w1) \<and> k a w1 = (Inr b, w2))"
  by (auto simp: op_bind_def split: prod.splits sum.splits)

lemma op_return_simp [simp, result_simps]: "op_return a w = (Inr a, w)"
  by (simp add: op_return_def)

lemma op_fail_simp [simp, result_simps]: "op_fail e w = (Inl e, w)"
  by (simp add: op_fail_def)

lemma op_lift_Inr_iff [result_simps]: "op_lift g m w = (Inr a, w') \<longleftrightarrow> m w = (Inr a, w')"
  by (auto simp: op_lift_def split: prod.splits sum.splits)

lemma op_map_Inr_iff [result_simps]: "op_map g m w = (Inr b, w') \<longleftrightarrow> (\<exists>a. m w = (Inr a, w') \<and> b = g a)"
  by (auto simp: op_map_def op_bind_Inr_iff)

text \<open>
  A relation between the world before and after, kept by every step of a program. With the
  relation reflexive and transitive, it is kept by the program.
\<close>

definition op_keeps :: "('w \<Rightarrow> 'w \<Rightarrow> bool) \<Rightarrow> ('w, 'e, 'a) op \<Rightarrow> bool" where
  "op_keeps R m \<longleftrightarrow> (\<forall>w. R w (snd (m w)))"

lemma op_keeps_return: "reflp R \<Longrightarrow> op_keeps R (op_return a)"
  by (simp add: op_keeps_def reflpD)

lemma op_keeps_fail: "reflp R \<Longrightarrow> op_keeps R (op_fail e)"
  by (simp add: op_keeps_def reflpD)

lemma op_keeps_bind:
  "transp R \<Longrightarrow> op_keeps R m \<Longrightarrow> (\<And>a. op_keeps R (k a)) \<Longrightarrow> op_keeps R (op_bind m k)"
  by (auto simp: op_keeps_def op_bind_def split: prod.splits sum.splits)
    (metis snd_conv, metis snd_conv transpD)

lemma op_keeps_lift: "op_keeps R m \<Longrightarrow> op_keeps R (op_lift g m)"
  by (auto simp: op_keeps_def op_lift_def split: prod.splits sum.splits) (metis snd_conv)+

section \<open>Clocks\<close>

record ('w, 'e) clock =
  NowMs :: "'w \<Rightarrow> int"
  SleepMs :: "int \<Rightarrow> ('w, 'e, unit) op"
  CtxErr :: "'w \<Rightarrow> 'e option"

text \<open>
  The documented law of \<^verbatim>\<open>Sleep\<close>: it returns without error only after at least the given time.
  \<open>step\<close> is an operation used together with the clock; time does not run backwards in it.
\<close>

locale timed =
  fixes clk :: "('w, 'e) clock" and step :: "('w, 'e, 'a) op"
  assumes sleep_elapses: "SleepMs clk ms w = (Inr u, w') \<Longrightarrow> NowMs clk w + max 0 ms \<le> NowMs clk w'"
    and step_forward: "step w = (r, w') \<Longrightarrow> NowMs clk w \<le> NowMs clk w'"

subsection \<open>The fake clock\<close>

text \<open>
  \<^verbatim>\<open>FakeClock\<close>: the time is part of the world and \<^verbatim>\<open>Sleep\<close> moves it at once, unless the context
  is done. The rest of the world is a device state.
\<close>

record 'd fake_world =
  Current :: int
  Cancelled :: bool
  Device :: 'd

datatype ctx_error = ContextDone

definition fake_clock :: "('d fake_world, ctx_error) clock" where
  "fake_clock =
     \<lparr>NowMs = Current,
      SleepMs = (\<lambda>ms w.
        if Cancelled w then (Inl ContextDone, w)
        else (Inr (), if 0 < ms then w\<lparr>Current := Current w + ms\<rparr> else w)),
      CtxErr = (\<lambda>w. if Cancelled w then Some ContextDone else None)\<rparr>"

definition fake_advance :: "int \<Rightarrow> 'd fake_world \<Rightarrow> 'd fake_world" where
  "fake_advance ms w = w\<lparr>Current := Current w + ms\<rparr>"

text \<open>A device operation beside the fake clock: it takes no time.\<close>

definition on_device :: "('d \<Rightarrow> (ctx_error + 'a) \<times> 'd) \<Rightarrow> ('d fake_world, ctx_error, 'a) op" where
  "on_device f w = (case f (Device w) of (r, d) \<Rightarrow> (r, w\<lparr>Device := d\<rparr>))"

interpretation fake: timed fake_clock "on_device f" for f
  by unfold_locales (auto simp: fake_clock_def on_device_def split: if_splits prod.splits)

end
