(* ===== verification/Ui_Wait.thy ===== *)
theory Ui_Wait
  imports Go_Effects Ui_Analysis
begin

text \<open>
  Polling: \<^verbatim>\<open>WaitUntil\<close> and the waits it specializes to (\<^verbatim>\<open>core/internal/orchestra/wait.go\<close>), and
  \<^verbatim>\<open>Finder.WaitFor\<close> (\<^verbatim>\<open>polling_finder.go\<close>). The loops take fuel; \<open>None\<close> is running out of it,
  and the theorems give the number of polls that is always enough.
\<close>

section \<open>WaitUntil\<close>

text \<open>
  The outcomes: the predicate accepted the value; the deadline passed, with the last value
  fetched; a context, fetch or sleep error, with the last value fetched before it, if any.
\<close>

datatype ('a, 'e) wait_result = Accepted 'a | Expired 'a | Aborted 'e "'a option"

text \<open>The predicate may keep state of its own, so it is an operation on the world as well.\<close>

fun wait_loop ::
  "nat \<Rightarrow> ('w, 'e) clock \<Rightarrow> int \<Rightarrow> int \<Rightarrow> ('w, 'e, 'a) op \<Rightarrow> ('a \<Rightarrow> 'w \<Rightarrow> bool \<times> 'w) \<Rightarrow> 'a option \<Rightarrow> 'w \<Rightarrow>
   (('a, 'e) wait_result \<times> 'w) option"
where
  "wait_loop 0 clk deadline interval fetch predicate lastv w = None"
| "wait_loop (Suc n) clk deadline interval fetch predicate lastv w =
     (case CtxErr clk w of
        Some e \<Rightarrow> Some (Aborted e lastv, w)
      | None \<Rightarrow>
          (case fetch w of
             (Inl e, w1) \<Rightarrow> Some (Aborted e lastv, w1)
           | (Inr v, w1) \<Rightarrow>
               (case predicate v w1 of
                  (True, w2) \<Rightarrow> Some (Accepted v, w2)
                | (False, w2) \<Rightarrow>
                    (let remaining = deadline - NowMs clk w2 in
                     if remaining \<le> 0 then Some (Expired v, w2)
                     else (case SleepMs clk (min interval remaining) w2 of
                             (Inl e, w3) \<Rightarrow> Some (Aborted e (Some v), w3)
                           | (Inr _, w3) \<Rightarrow> wait_loop n clk deadline interval fetch predicate (Some v) w3)))))"

definition wait_until ::
  "nat \<Rightarrow> ('w, 'e) clock \<Rightarrow> int \<Rightarrow> int \<Rightarrow> ('w, 'e, 'a) op \<Rightarrow> ('a \<Rightarrow> 'w \<Rightarrow> bool \<times> 'w) \<Rightarrow> 'w \<Rightarrow>
   (('a, 'e) wait_result \<times> 'w) option"
where
  "wait_until fuel clk timeout interval fetch predicate w =
     wait_loop fuel clk (NowMs clk w + timeout) interval fetch predicate None w"

text \<open>A predicate without state.\<close>

definition stateless :: "('a \<Rightarrow> bool) \<Rightarrow> 'a \<Rightarrow> 'w \<Rightarrow> bool \<times> 'w" where
  "stateless P v w = (P v, w)"

text \<open>Reading a value off the hierarchy.\<close>

definition fetch_tree :: "('w, 'e, tree_node) op \<Rightarrow> (tree_node \<Rightarrow> 'a) \<Rightarrow> ('w, 'e, 'a) op" where
  "fetch_tree hierarchy g = op_map g hierarchy"

definition default_ms :: "int \<Rightarrow> int \<Rightarrow> int" where
  "default_ms d v = (if v = 0 then d else v)"

section \<open>Keyboard and focus\<close>

record keyboard_state =
  KbVisible :: bool
  KbBounds :: "bounds option"

definition is_keyboard_node :: "tree_node \<Rightarrow> bool" where
  "is_keyboard_node n \<longleftrightarrow> attr n ''role'' = ''keyboard'' \<or> attr n ''ext:isIme'' = ''true''"

definition find_keyboard_node :: "tree_node \<Rightarrow> cursor option" where
  "find_keyboard_node tree = find (\<lambda>c. is_keyboard_node (Node c)) (walk tree)"

definition find_focused_node :: "tree_node \<Rightarrow> cursor option" where
  "find_focused_node tree = find (\<lambda>c. Focused (Node c) = Some True) (walk tree)"

definition cursor_bounds :: "cursor \<Rightarrow> bounds option" where
  "cursor_bounds c = parse_bounds (attr (Node c) ''bounds'')"

definition read_keyboard_state :: "tree_node \<Rightarrow> keyboard_state" where
  "read_keyboard_state tree =
     (case find_keyboard_node tree of
        None \<Rightarrow> \<lparr>KbVisible = False, KbBounds = None\<rparr>
      | Some kb \<Rightarrow> \<lparr>KbVisible = True, KbBounds = cursor_bounds kb\<rparr>)"

definition wait_for_keyboard where
  "wait_for_keyboard fuel clk hierarchy expectVisible timeout interval =
     wait_until fuel clk timeout interval (fetch_tree hierarchy read_keyboard_state)
       (stateless (\<lambda>s. KbVisible s = expectVisible))"

text \<open>Go's \<^verbatim>\<open>==\<close> on rectangles compares the four numbers.\<close>

definition bounds_eq :: "bounds \<Rightarrow> bounds \<Rightarrow> bool" where
  "bounds_eq a b \<longleftrightarrow> f_eq (Left a) (Left b) \<and> f_eq (Top a) (Top b) \<and> f_eq (Right a) (Right b) \<and> f_eq (Bottom a) (Bottom b)"

definition focused_match :: "selector \<Rightarrow> tree_node \<Rightarrow> cursor option" where
  "focused_match s tree =
     (case Option.bind (find_focused_node tree) cursor_bounds of
        None \<Rightarrow> None
      | Some fb \<Rightarrow>
          find (\<lambda>c. case cursor_bounds c of None \<Rightarrow> False | Some cb \<Rightarrow> bounds_eq cb fb \<or> bounds_intersect cb fb)
            (compile_selector s (walk tree)))"

definition wait_for_focus where
  "wait_for_focus fuel clk hierarchy s timeout interval =
     wait_until fuel clk (default_ms 1500 timeout) (default_ms 50 interval)
       (fetch_tree hierarchy (focused_match s)) (stateless (\<lambda>c. c \<noteq> None))"

definition input_ready :: "selector \<Rightarrow> tree_node \<Rightarrow> bool" where
  "input_ready s tree =
     (case find_focused_node tree of
        Some focused \<Rightarrow>
          (case cursor_bounds focused of
             None \<Rightarrow> False
           | Some fb \<Rightarrow>
               list_ex (\<lambda>c. case cursor_bounds c of None \<Rightarrow> False | Some cb \<Rightarrow> bounds_intersect cb fb)
                 (compile_selector s (walk tree)))
      | None \<Rightarrow> KbVisible (read_keyboard_state tree))"

definition wait_for_input_ready where
  "wait_for_input_ready fuel clk hierarchy s timeout interval =
     wait_until fuel clk (default_ms 1500 timeout) (default_ms 50 interval)
       (fetch_tree hierarchy (input_ready s)) (stateless (\<lambda>ready. ready))"

section \<open>Text\<close>

definition match_text :: "string \<Rightarrow> string \<Rightarrow> bool" where
  "match_text expected actual \<longleftrightarrow> actual = expected"

definition match_text_pattern :: "(string \<Rightarrow> bool) \<Rightarrow> string \<Rightarrow> bool" where
  "match_text_pattern regex actual = regex actual"

definition text_match :: "selector \<Rightarrow> (string \<Rightarrow> bool) \<Rightarrow> tree_node \<Rightarrow> cursor option" where
  "text_match s accepts tree = find (\<lambda>c. accepts (attr (Node c) ''text'')) (compile_selector s (walk tree))"

definition wait_for_text where
  "wait_for_text fuel clk hierarchy s accepts timeout interval =
     wait_until fuel clk (default_ms 1000 timeout) (default_ms 50 interval)
       (fetch_tree hierarchy (text_match s accepts)) (stateless (\<lambda>c. c \<noteq> None))"

section \<open>Committed input\<close>

definition is_input_role :: "string \<Rightarrow> bool" where
  "is_input_role role \<longleftrightarrow> role \<in> {''text-field'', ''secure-text-field'', ''search-field''}"

definition max_safe_integer :: f64 where
  "max_safe_integer = Fin 9007199254740991"

definition area_of :: "cursor \<Rightarrow> f64" where
  "area_of c =
     (case cursor_bounds c of
        None \<Rightarrow> max_safe_integer
      | Some b \<Rightarrow> f_mul (f_sub (Right b) (Left b)) (f_sub (Bottom b) (Top b)))"

definition has_typed_change :: "string \<Rightarrow> string \<Rightarrow> bool" where
  "has_typed_change actual label \<longleftrightarrow> actual \<noteq> [] \<and> actual \<noteq> label"

definition rune_count :: "string \<Rightarrow> nat" where
  "rune_count s = length (runes_of s)"

definition matches_input_expectation :: "cursor \<Rightarrow> string \<Rightarrow> nat \<Rightarrow> bool" where
  "matches_input_expectation c expected expectedLength =
     (let actual = attr (Node c) ''text''; label = attr (Node c) ''label'' in
      if attr (Node c) ''role'' = ''secure-text-field'' then
        rune_count actual = expectedLength \<or> has_typed_change actual label
      else actual = expected \<or> has_typed_change actual label)"

text \<open>\<^verbatim>\<open>sort.SliceStable\<close> with a strict comparison: insertion of each element after its equals.\<close>

fun stable_insert :: "('a \<Rightarrow> 'a \<Rightarrow> bool) \<Rightarrow> 'a \<Rightarrow> 'a list \<Rightarrow> 'a list" where
  "stable_insert lt x [] = [x]"
| "stable_insert lt x (y # ys) = (if lt y x then y # stable_insert lt x ys else x # y # ys)"

definition stable_sort :: "('a \<Rightarrow> 'a \<Rightarrow> bool) \<Rightarrow> 'a list \<Rightarrow> 'a list" where
  "stable_sort lt xs = foldr (stable_insert lt) xs []"

definition anchored_candidates :: "tree_node \<Rightarrow> bounds \<Rightarrow> cursor list" where
  "anchored_candidates tree anchor =
     filter (\<lambda>c. is_input_role (attr (Node c) ''role'') \<and>
        (case cursor_bounds c of None \<Rightarrow> False | Some b \<Rightarrow> bounds_intersect b anchor)) (walk tree)"

definition find_anchored_input :: "tree_node \<Rightarrow> bounds \<Rightarrow> string \<Rightarrow> nat \<Rightarrow> cursor option" where
  "find_anchored_input tree anchor expected expectedLength =
     find (\<lambda>c. matches_input_expectation c expected expectedLength)
       (stable_sort (\<lambda>a b. f_lt (area_of a) (area_of b)) (anchored_candidates tree anchor))"

definition wait_for_input_committed where
  "wait_for_input_committed fuel clk hierarchy anchor expected timeout interval =
     wait_until fuel clk (default_ms 1000 timeout) (default_ms 50 interval)
       (fetch_tree hierarchy (\<lambda>tree. find_anchored_input tree anchor expected (rune_count expected)))
       (stateless (\<lambda>c. c \<noteq> None))"

section \<open>Stable tree\<close>

text \<open>
  The structural signature. The keys of a node's attributes, which the code sorts, are a
  parameter \<open>keys\<close> listing the domain of the map in ascending order.
\<close>

fun append_tree_signature :: "((string \<rightharpoonup> string) \<Rightarrow> string list) \<Rightarrow> tree_node \<Rightarrow> string list" where
  "append_tree_signature keys (TreeNode a cs k e f s h v) =
     [''[''] @
     concat (map (\<lambda>key. [key, ''='', case a key of None \<Rightarrow> [] | Some x \<Rightarrow> x, '';'']) (keys a)) @
     (if f = Some True then [''F;''] else []) @
     (if k = Some True then [''C;''] else []) @
     (if e = Some False then [''D;''] else []) @
     concat (map (append_tree_signature keys) cs) @
     ['']'']"

definition hash_tree_signature :: "((string \<rightharpoonup> string) \<Rightarrow> string list) \<Rightarrow> tree_node \<Rightarrow> string" where
  "hash_tree_signature keys tree = join_with ''|'' (append_tree_signature keys tree)"

text \<open>
  The predicate of \<^verbatim>\<open>WaitForTreeStable\<close> keeps the last signature and since when it holds; its
  state is a component of the world.
\<close>

record 'd stable_world =
  LastHash :: string
  StableSince :: int
  Rest :: 'd

definition stable_predicate ::
  "((string \<rightharpoonup> string) \<Rightarrow> string list) \<Rightarrow> ('d \<Rightarrow> int) \<Rightarrow> int \<Rightarrow> tree_node \<Rightarrow> 'd stable_world \<Rightarrow> bool \<times> 'd stable_world" where
  "stable_predicate keys now quiet tree w =
     (let hash = hash_tree_signature keys tree; t = now (Rest w) in
      if hash \<noteq> LastHash w then (False, w\<lparr>LastHash := hash, StableSince := t\<rparr>)
      else (quiet \<le> t - StableSince w, w))"

definition on_rest :: "('d, 'e, 'a) op \<Rightarrow> ('d stable_world, 'e, 'a) op" where
  "on_rest m w = (case m (Rest w) of (r, d) \<Rightarrow> (r, w\<lparr>Rest := d\<rparr>))"

definition rest_clock :: "('d, 'e) clock \<Rightarrow> ('d stable_world, 'e) clock" where
  "rest_clock clk =
     \<lparr>NowMs = NowMs clk \<circ> Rest, SleepMs = (\<lambda>ms. on_rest (SleepMs clk ms)), CtxErr = CtxErr clk \<circ> Rest\<rparr>"

definition wait_for_tree_stable where
  "wait_for_tree_stable fuel keys clk hierarchy quiet timeout interval d =
     wait_until fuel (rest_clock clk) (default_ms 3000 timeout) (default_ms 100 interval)
       (on_rest hierarchy) (stable_predicate keys (NowMs clk) quiet)
       \<lparr>LastHash = [], StableSince = - 1, Rest = d\<rparr>"

section \<open>Finder\<close>

datatype 'e find_error = FindFailed 'e | FindTimeout int nat

definition finder_find :: "('w, 'e, tree_node) op \<Rightarrow> element_filter_fun \<Rightarrow> ('w, 'e, cursor list) op" where
  "finder_find hierarchy f = op_map (\<lambda>tree. f (walk tree)) hierarchy"

definition finder_find_one :: "('w, 'e, tree_node) op \<Rightarrow> element_filter_fun \<Rightarrow> ('w, 'e, cursor option) op" where
  "finder_find_one hierarchy f = op_map (\<lambda>cs. case cs of [] \<Rightarrow> None | c # _ \<Rightarrow> Some c) (finder_find hierarchy f)"

fun wait_for_loop ::
  "nat \<Rightarrow> ('w, 'e) clock \<Rightarrow> ('w, 'e, tree_node) op \<Rightarrow> element_filter_fun \<Rightarrow> int \<Rightarrow> int \<Rightarrow> int \<Rightarrow> nat \<Rightarrow> 'w \<Rightarrow>
   (('e find_error + cursor list) \<times> 'w) option"
where
  "wait_for_loop 0 clk hierarchy f poll startedAt deadline polls w = None"
| "wait_for_loop (Suc n) clk hierarchy f poll startedAt deadline polls w =
     (case CtxErr clk w of
        Some e \<Rightarrow> Some (Inl (FindFailed e), w)
      | None \<Rightarrow>
          (case finder_find hierarchy f w of
             (Inl e, w1) \<Rightarrow> Some (Inl (FindFailed e), w1)
           | (Inr results, w1) \<Rightarrow>
               if results \<noteq> [] then Some (Inr results, w1)
               else (let now = NowMs clk w1 in
                 if deadline \<le> now then Some (Inl (FindTimeout (now - startedAt) (polls + 1)), w1)
                 else (case SleepMs clk (min poll (deadline - now)) w1 of
                         (Inl e, w2) \<Rightarrow> Some (Inl (FindFailed e), w2)
                       | (Inr _, w2) \<Rightarrow> wait_for_loop n clk hierarchy f poll startedAt deadline (polls + 1) w2))))"

definition finder_wait_for ::
  "nat \<Rightarrow> ('w, 'e) clock \<Rightarrow> ('w, 'e, tree_node) op \<Rightarrow> element_filter_fun \<Rightarrow> int \<Rightarrow> int \<Rightarrow> 'w \<Rightarrow>
   (('e find_error + cursor list) \<times> 'w) option"
where
  "finder_wait_for fuel clk hierarchy f timeout poll w =
     wait_for_loop fuel clk hierarchy f (if poll \<le> 0 then 250 else poll) (NowMs clk w) (NowMs clk w + timeout) 0 w"

end
