(* ===== verification/Ui_Wait_Props.thy ===== *)
theory Ui_Wait_Props
  imports Ui_Wait
begin

text \<open>
  The polling loops return: with a positive interval, the number of polls is bounded by the
  timeout over the interval. What they return is what the predicate accepted, or a timeout at the
  deadline and not before.
\<close>

section \<open>Polling against any lawful clock\<close>

locale polling = timed clk fetch
  for clk :: "('w, 'e) clock" and fetch :: "('w, 'e, 'a) op" +
  fixes predicate :: "'a \<Rightarrow> 'w \<Rightarrow> bool \<times> 'w"
  assumes predicate_forward: "predicate v w = (b, w') \<Longrightarrow> NowMs clk w \<le> NowMs clk w'"
begin

abbreviation loop :: "nat \<Rightarrow> int \<Rightarrow> int \<Rightarrow> 'a option \<Rightarrow> 'w \<Rightarrow> (('a, 'e) wait_result \<times> 'w) option" where
  "loop n deadline interval \<equiv> wait_loop n clk deadline interval fetch predicate"

text \<open>
  One turn of the loop: it ends, or it has fetched a value the predicate rejects and has slept
  at least the interval or up to the deadline.
\<close>

lemma loop_step:
  assumes "0 < interval"
  obtains (ends) r w' where "\<And>n. loop (Suc n) deadline interval lastv w = Some (r, w')"
      "(\<exists>e l. r = Aborted e l) \<or>
       (\<exists>v w0 w1. r = Accepted v \<and> fetch w0 = (Inr v, w1) \<and> predicate v w1 = (True, w')) \<or>
       (\<exists>v w0 w1. r = Expired v \<and> fetch w0 = (Inr v, w1) \<and> predicate v w1 = (False, w') \<and> deadline \<le> NowMs clk w')"
  | (again) v w' where "\<And>n. loop (Suc n) deadline interval lastv w = loop n deadline interval (Some v) w'"
      "NowMs clk w < deadline" "min deadline (NowMs clk w + interval) \<le> NowMs clk w'"
proof (cases "CtxErr clk w")
  case (Some e)
  show ?thesis
    by (rule ends [of "Aborted e lastv" w]) (simp_all add: Some)
next
  case ctx: None
  obtain r1 w1 where f: "fetch w = (r1, w1)" by force
  show ?thesis
  proof (cases r1)
    case (Inl e)
    show ?thesis
      by (rule ends [of "Aborted e lastv" w1]) (simp_all add: ctx f Inl)
  next
    case v: (Inr v)
    obtain b w2 where p: "predicate v w1 = (b, w2)" by force
    have fwd: "NowMs clk w \<le> NowMs clk w2"
      using step_forward [OF f] predicate_forward [OF p] by linarith
    consider (accepted) "b" | (expired) "\<not> b" "deadline - NowMs clk w2 \<le> 0"
      | (sleeping) "\<not> b" "0 < deadline - NowMs clk w2" by linarith
    then show ?thesis
    proof cases
      case accepted
      show ?thesis
        by (rule ends [of "Accepted v" w2]) (use accepted p f v in \<open>auto simp: ctx\<close>)
    next
      case expired
      show ?thesis
        by (rule ends [of "Expired v" w2]) (use expired p f v in \<open>auto simp: ctx\<close>)
    next
      case sleeping
      define s where "s = min interval (deadline - NowMs clk w2)"
      obtain r3 w3 where sl: "SleepMs clk s w2 = (r3, w3)" by force
      show ?thesis
      proof (cases r3)
        case (Inl e)
        show ?thesis
          by (rule ends [of "Aborted e (Some v)" w3])
            (use sleeping p sl Inl in \<open>auto simp: ctx f v Let_def s_def\<close>)
      next
        case (Inr u)
        have "NowMs clk w2 + max 0 s \<le> NowMs clk w3"
          using sleep_elapses sl Inr by blast
        then have "min deadline (NowMs clk w + interval) \<le> NowMs clk w3"
          using fwd sleeping assms by (auto simp: s_def)
        then show ?thesis
          by (intro again [of v w3]) (use sleeping p sl Inr fwd in \<open>auto simp: ctx f v Let_def s_def\<close>)
      qed
    qed
  qed
qed

lemma loop_returns:
  assumes "0 < interval"
  shows "deadline - NowMs clk w \<le> int n * interval \<Longrightarrow> loop (Suc n) deadline interval lastv w \<noteq> None"
proof (induction n arbitrary: lastv w)
  case 0
  show ?case
    by (rule loop_step [OF assms, of deadline lastv w]) (use 0 in auto)
next
  case (Suc n)
  show ?case
  proof (rule loop_step [OF assms, of deadline lastv w])
    fix r w'
    assume "\<And>n. loop (Suc n) deadline interval lastv w = Some (r, w')"
    then show ?thesis by simp
  next
    fix v w'
    assume turn: "\<And>n. loop (Suc n) deadline interval lastv w = loop n deadline interval (Some v) w'"
      and le: "min deadline (NowMs clk w + interval) \<le> NowMs clk w'"
    have "deadline - NowMs clk w' \<le> int n * interval"
    proof (cases "deadline \<le> NowMs clk w'")
      case True
      then show ?thesis using assms by (simp add: order_trans [of _ 0])
    next
      case False
      with le have "NowMs clk w + interval \<le> NowMs clk w'" by simp
      with Suc.prems show ?thesis by (simp add: algebra_simps)
    qed
    with Suc.IH turn show ?thesis by simp
  qed
qed

lemma loop_outcome:
  assumes "0 < interval"
  shows "loop n deadline interval lastv w = Some (r, w') \<Longrightarrow>
    (case r of
       Accepted v \<Rightarrow> \<exists>w0 w1. fetch w0 = (Inr v, w1) \<and> predicate v w1 = (True, w')
     | Expired v \<Rightarrow> (\<exists>w0 w1. fetch w0 = (Inr v, w1) \<and> predicate v w1 = (False, w')) \<and> deadline \<le> NowMs clk w'
     | Aborted e l \<Rightarrow> True)"
proof (induction n arbitrary: lastv w)
  case (Suc n)
  show ?case
    by (rule loop_step [OF assms, of deadline lastv w]) (use Suc in \<open>auto split: wait_result.split\<close>)
qed simp

end

section \<open>What a wait ends with\<close>

text \<open>
  A poll begun by the deadline, but for the time \<open>late\<close> that a sleep may take too long, whose fetch gave
  \<open>v\<close>, with the answer of the predicate to it.
\<close>

definition polled ::
  "int \<Rightarrow> ('w, 'e) clock \<Rightarrow> ('w, 'e, 'a) op \<Rightarrow> ('a \<Rightarrow> 'w \<Rightarrow> bool \<times> 'w) \<Rightarrow> int \<Rightarrow> 'a \<Rightarrow> bool \<Rightarrow> 'w \<Rightarrow> bool" where
  "polled late clk fetch predicate deadline v b w' \<longleftrightarrow>
     (\<exists>w0 w1. NowMs clk w0 \<le> deadline + late \<and> fetch w0 = (Inr v, w1) \<and> predicate v w1 = (b, w'))"

text \<open>
  The end of a wait in the world \<open>w'\<close>: a value fetched and accepted; a value fetched and refused, at the
  deadline or after it; or an error, which is that of the context, of a fetch, or of a sleep that would have
  ended by the deadline, with the value that was refused last, if there was one.
\<close>

definition wait_ends ::
  "int \<Rightarrow> ('w, 'e) clock \<Rightarrow> ('w, 'e, 'a) op \<Rightarrow> ('a \<Rightarrow> 'w \<Rightarrow> bool \<times> 'w) \<Rightarrow> int \<Rightarrow> 'a option \<Rightarrow> ('a, 'e) wait_result \<Rightarrow> 'w \<Rightarrow> bool" where
  "wait_ends late clk fetch predicate deadline lastv r w' \<longleftrightarrow>
     (case r of
        Accepted v \<Rightarrow> polled late clk fetch predicate deadline v True w'
      | Expired v \<Rightarrow> polled late clk fetch predicate deadline v False w' \<and> deadline \<le> NowMs clk w'
      | Aborted e l \<Rightarrow>
          (CtxErr clk w' = Some e \<or> (\<exists>w0. NowMs clk w0 \<le> deadline + late \<and> fetch w0 = (Inl e, w')) \<or>
           (\<exists>w0 ms. NowMs clk w0 + ms \<le> deadline \<and> SleepMs clk ms w0 = (Inl e, w'))) \<and>
          (l = lastv \<or> (\<exists>v w2. l = Some v \<and> polled late clk fetch predicate deadline v False w2)))"

locale punctual_polling = polling +
  fixes late :: int
  assumes late_nonneg: "0 \<le> late"
    and sleep_punctual: "SleepMs clk ms w = (Inr u, w') \<Longrightarrow> NowMs clk w' \<le> NowMs clk w + max 0 ms + late"
begin

lemma loop_ends:
  "loop n deadline interval lastv w = Some (r, w') \<Longrightarrow> NowMs clk w \<le> deadline + late \<Longrightarrow>
   wait_ends late clk fetch predicate deadline lastv r w'"
proof (induction n arbitrary: lastv w)
  case (Suc n)
  show ?case
  proof (cases "CtxErr clk w")
    case Some
    with Suc.prems show ?thesis
      by (auto simp: wait_ends_def)
  next
    case ctx: None
    obtain r1 w1 where f: "fetch w = (r1, w1)" by force
    show ?thesis
    proof (cases r1)
      case Inl
      with Suc.prems ctx f show ?thesis
        by (auto simp: wait_ends_def)
    next
      case v: (Inr v)
      obtain b w2 where p: "predicate v w1 = (b, w2)" by force
      have here: "polled late clk fetch predicate deadline v b w2"
        using Suc.prems(2) f v p by (auto simp: polled_def)
      show ?thesis
      proof (cases "b \<or> deadline - NowMs clk w2 \<le> 0")
        case True
        with Suc.prems ctx f v p here show ?thesis
          by (cases b) (auto simp: wait_ends_def split: if_splits)
      next
        case False
        define ms where "ms = min interval (deadline - NowMs clk w2)"
        obtain r3 w3 where s: "SleepMs clk ms w2 = (r3, w3)" by force
        have by_then: "NowMs clk w2 + ms \<le> deadline"
          by (simp add: ms_def)
        show ?thesis
        proof (cases r3)
          case Inl
          with Suc.prems ctx f v p s False here by_then show ?thesis
            by (auto simp: Let_def ms_def wait_ends_def)
        next
          case Inr
          with Suc.prems ctx f v p s False
          have again: "loop n deadline interval (Some v) w3 = Some (r, w')"
            by (simp add: Let_def ms_def)
          have "NowMs clk w3 \<le> deadline + late"
            using sleep_punctual [of ms w2 _ w3] s Inr False by_then by (auto simp: max_def split: if_splits)
          from Suc.IH [OF again this] False here show ?thesis
            by (cases r) (auto simp: wait_ends_def)
        qed
      qed
    qed
  qed
qed simp

end

section \<open>Polling that takes no time of its own\<close>

text \<open>Time passes only by sleeping, and exactly as much as asked: the wait ends by its deadline.\<close>

locale exact_polling = polling +
  assumes fetch_frozen: "fetch w = (r, w') \<Longrightarrow> NowMs clk w' = NowMs clk w"
    and predicate_frozen: "predicate v w = (b, w') \<Longrightarrow> NowMs clk w' = NowMs clk w"
    and sleep_exact: "SleepMs clk ms w = (r3, w') \<Longrightarrow> NowMs clk w' = NowMs clk w + (case r3 of Inl _ \<Rightarrow> 0 | Inr _ \<Rightarrow> max 0 ms)"
begin

lemma not_late:
  "loop n deadline interval lastv w = Some (r, w') \<Longrightarrow>
     NowMs clk w \<le> NowMs clk w' \<and> NowMs clk w' \<le> max deadline (NowMs clk w)"
proof (induction n arbitrary: lastv w)
  case (Suc n)
  show ?case
  proof (cases "CtxErr clk w")
    case Some
    with Suc.prems show ?thesis by simp
  next
    case ctx: None
    obtain r1 w1 where f: "fetch w = (r1, w1)" by force
    show ?thesis
    proof (cases r1)
      case Inl
      with Suc.prems ctx f fetch_frozen [OF f] show ?thesis by simp
    next
      case v: (Inr v)
      obtain b w2 where p: "predicate v w1 = (b, w2)" by force
      have t: "NowMs clk w2 = NowMs clk w"
        using fetch_frozen [OF f] predicate_frozen [OF p] by simp
      show ?thesis
      proof (cases "b \<or> deadline - NowMs clk w2 \<le> 0")
        case True
        with Suc.prems ctx f v p t show ?thesis
          by (cases b) (auto split: if_splits)
      next
        case False
        define ms where "ms = min interval (deadline - NowMs clk w2)"
        obtain r3 w3 where s: "SleepMs clk ms w2 = (r3, w3)" by force
        have le: "NowMs clk w \<le> NowMs clk w3 \<and> NowMs clk w3 \<le> max deadline (NowMs clk w)"
          using sleep_exact [OF s] t False by (cases r3) (auto simp: ms_def)
        show ?thesis
        proof (cases r3)
          case Inl
          with Suc.prems ctx f v p s False le show ?thesis by (simp add: Let_def ms_def)
        next
          case Inr
          with Suc.prems ctx f v p s False
          have "loop n deadline interval (Some v) w3 = Some (r, w')"
            by (simp add: Let_def ms_def)
          from Suc.IH [OF this] le show ?thesis by (auto simp: max_def split: if_splits)
        qed
      qed
    qed
  qed
qed simp

end

section \<open>The fake clock\<close>

lemma fake_clock_simps [simp]:
  "NowMs fake_clock = Current"
  "SleepMs fake_clock ms w =
     (if Cancelled w then (Inl ContextDone, w) else (Inr (), if 0 < ms then w\<lparr>Current := Current w + ms\<rparr> else w))"
  "CtxErr fake_clock w = (if Cancelled w then Some ContextDone else None)"
  by (simp_all add: fake_clock_def)

lemma stateless_simps [simp]:
  "(case stateless P v w of (b, w') \<Rightarrow> k b w') = k (P v) w"
  "stateless P v w = (b, w') \<longleftrightarrow> b = P v \<and> w' = w"
  by (auto simp: stateless_def)

lemma on_device_time: "on_device f w = (r, w') \<Longrightarrow> Current w' = Current w \<and> Cancelled w' = Cancelled w"
  by (auto simp: on_device_def split: prod.splits)

sublocale exact_polling \<subseteq> punctual: punctual_polling clk fetch predicate 0
  by unfold_locales (simp_all add: sleep_exact)

interpretation fake_poll: exact_polling fake_clock "on_device f" "stateless P" for f P
  by unfold_locales (auto dest: on_device_time split: if_splits)

lemma ceiling_polls: "0 < interval \<Longrightarrow> timeout \<le> int (nat (timeout div interval) + 1) * interval" for timeout :: int
proof -
  assume i: "0 < interval"
  show ?thesis
  proof (cases "0 \<le> timeout")
    case True
    with i have "0 \<le> timeout div interval" by (simp add: pos_imp_zdiv_nonneg_iff)
    moreover have "timeout = interval * (timeout div interval) + timeout mod interval"
      by simp
    then have "timeout \<le> interval * (timeout div interval) + interval"
      using pos_mod_bound [OF i, of timeout] by linarith
    then have "timeout \<le> (timeout div interval + 1) * interval"
      by (simp add: algebra_simps)
    ultimately show ?thesis by (simp add: add.commute)
  next
    case False
    then show ?thesis using i by (simp add: order_trans [of _ 0])
  qed
qed

text \<open>
  What the wait relies on: sleeps take the time asked, or up to \<open>late\<close> longer; fetching and testing take any
  time, but do not turn the clock back.
\<close>

definition steady_wait :: "int \<Rightarrow> ('w, 'e) clock \<Rightarrow> ('w, 'e, 'a) op \<Rightarrow> ('a \<Rightarrow> 'w \<Rightarrow> bool \<times> 'w) \<Rightarrow> bool" where
  "steady_wait late clk fetch predicate \<longleftrightarrow>
     0 \<le> late \<and>
     (\<forall>ms w u w'. SleepMs clk ms w = (Inr u, w') \<longrightarrow>
        NowMs clk w + max 0 ms \<le> NowMs clk w' \<and> NowMs clk w' \<le> NowMs clk w + max 0 ms + late) \<and>
     (\<forall>w r w'. fetch w = (r, w') \<longrightarrow> NowMs clk w \<le> NowMs clk w') \<and>
     (\<forall>v w b w'. predicate v w = (b, w') \<longrightarrow> NowMs clk w \<le> NowMs clk w')"

lemma steady_punctual: "steady_wait late clk fetch predicate \<Longrightarrow> punctual_polling clk fetch predicate late"
  by unfold_locales (auto simp: steady_wait_def)


text \<open>A clock whose sleeps take 1 ms too long, and fetches of 3 ms that read the time.\<close>

definition slow_clock :: "(int, unit) clock" where
  "slow_clock = \<lparr>NowMs = (\<lambda>w. w), SleepMs = (\<lambda>ms w. (Inr (), w + max 0 ms + 1)), CtxErr = (\<lambda>w. None)\<rparr>"

definition slow_fetch :: "(int, unit, int) op" where
  "slow_fetch w = (Inr w, w + 3)"


section \<open>Waiting for a selector\<close>

text \<open>
  \<^verbatim>\<open>Finder.WaitFor\<close> is \<^verbatim>\<open>WaitUntil\<close> with the matches as the value and non-emptiness as the
  predicate: with the same fuel both run out or both return, in the same world, and with the
  same matches or both without.
\<close>

theorem wait_for_loop_wait_until:
  "map_option (\<lambda>(r, w'). (case r of Inr cs \<Rightarrow> Some cs | Inl _ \<Rightarrow> None, w'))
      (wait_for_loop n clk hierarchy f poll startedAt deadline polls w) =
   map_option (\<lambda>(r, w'). (case r of Accepted cs \<Rightarrow> Some cs | _ \<Rightarrow> None, w'))
      (wait_loop n clk deadline poll (finder_find hierarchy f) (stateless (\<lambda>cs. cs \<noteq> [])) lastv w)"
proof (induction n arbitrary: polls lastv w)
  case (Suc n)
  show ?case
    using Suc.IH [where polls = "Suc polls" and lastv = "Some []"]
    by (auto simp: Let_def split: option.splits prod.splits sum.splits bool.splits)
qed simp

end
