(* ===== verification/Ui_Scroll.thy ===== *)
theory Ui_Scroll
  imports Ui_Wait
begin

text \<open>
  Scrolling an element into view (\<^verbatim>\<open>core/internal/orchestra/scroll_controller.go\<close>): the search
  with alternating swipes, the positional loop and the geometry of the swipes. The driver is a
  record of operations on the world.
\<close>

section \<open>Driver and options\<close>

record size =
  Width :: f64
  Height :: f64

record ('w, 'e) scroll_driver =
  Hierarchy :: "('w, 'e, tree_node) op"
  Swipe :: "point \<Rightarrow> point \<Rightarrow> int \<Rightarrow> ('w, 'e, unit) op"
  ScreenSize :: "('w, 'e, size) op"

record viewport_insets =
  InTop :: f64
  InBottom :: f64
  InLeft :: f64
  InRight :: f64

definition default_insets :: viewport_insets where
  "default_insets = \<lparr>InTop = Fin 60, InBottom = Fin 50, InLeft = Fin 0, InRight = Fin 0\<rparr>"

record scroll_options =
  MaxIterations :: nat
  MaxScrollFraction :: f64
  SwipeDurationMs :: int
  SettleWaitMs :: int
  ScrollSearchBudget :: nat
  Insets :: viewport_insets

definition default_scroll_options :: scroll_options where
  "default_scroll_options =
     \<lparr>MaxIterations = 8, MaxScrollFraction = to_float False (6 / 10), SwipeDurationMs = 200, SettleWaitMs = 500,
      ScrollSearchBudget = 6, Insets = default_insets\<rparr>"

definition thin_tree_leaf_threshold :: nat where "thin_tree_leaf_threshold = 5"
definition thin_tree_height_fraction :: f64 where "thin_tree_height_fraction = to_float False (9 / 10)"
definition thin_tree_budget :: nat where "thin_tree_budget = 2"

section \<open>Geometry\<close>

definition clamp_f :: "f64 \<Rightarrow> f64 \<Rightarrow> f64 \<Rightarrow> f64" where
  "clamp_f v lo hi = (if f_lt hi lo then lo else if f_lt v lo then lo else if f_lt hi v then hi else v)"

definition half :: "f64 \<Rightarrow> f64" where
  "half a = f_div a (Fin 2)"

definition compute_scroll_toward_element_endpoints :: "bounds \<Rightarrow> size \<Rightarrow> f64 \<Rightarrow> point \<times> point" where
  "compute_scroll_toward_element_endpoints b screen maxScrollFraction =
     (let elemMidX = midpoint (Left b) (Right b); elemMidY = midpoint (Top b) (Bottom b);
          viewportMidY = half (Height screen);
          swipeX = clamp_f elemMidX (Fin 40) (f_sub (Width screen) (Fin 40));
          deltaY = f_sub elemMidY viewportMidY;
          scrollAmount = f_min (f_abs deltaY) (f_mul (Height screen) maxScrollFraction);
          up = f_sub viewportMidY (half scrollAmount); down = f_add viewportMidY (half scrollAmount)
      in if f_lt (Fin 0) deltaY then (mk_point swipeX down, mk_point swipeX up)
         else (mk_point swipeX up, mk_point swipeX down))"

datatype scroll_direction = ScrollUp | ScrollDown

definition compute_swipe_center_endpoints :: "size \<Rightarrow> scroll_direction \<Rightarrow> f64 \<Rightarrow> point \<times> point" where
  "compute_swipe_center_endpoints screen direction maxScrollFraction =
     (let x = half (Width screen); midY = half (Height screen);
          delta = half (f_mul (Height screen) maxScrollFraction);
          up = f_sub midY delta; down = f_add midY delta
      in if direction = ScrollUp then (mk_point x up, mk_point x down) else (mk_point x down, mk_point x up))"

definition is_inside_inset_viewport :: "viewport_insets \<Rightarrow> bounds \<Rightarrow> size \<Rightarrow> bool" where
  "is_inside_inset_viewport insets b screen \<longleftrightarrow>
     (let center = bounds_center b in
      f_le (InLeft insets) (X center) \<and> f_lt (X center) (f_sub (Width screen) (InRight insets)) \<and>
      f_le (InTop insets) (Y center) \<and> f_lt (Y center) (f_sub (Height screen) (InBottom insets)))"

section \<open>Errors\<close>

datatype unreachable_reason = SearchExhausted | DidNotMove bounds nat | LostAfterScroll nat | RemainedOffScreen nat

datatype 'e scroll_error = DriverError 'e | ScrollUnreachable unreachable_reason "bounds option"

section \<open>Scroll search\<close>

definition swipe_center ::
  "('w, 'e) scroll_driver \<Rightarrow> scroll_options \<Rightarrow> size \<Rightarrow> scroll_direction \<Rightarrow> ('w, 'e, unit) op" where
  "swipe_center d opts screen direction =
     (let (from_pt, to_pt) = compute_swipe_center_endpoints screen direction (MaxScrollFraction opts)
      in Swipe d from_pt to_pt (SwipeDurationMs opts))"

text \<open>
  The swipes in one direction. The result is the match found, or the tree seen last when the
  budget is spent or two consecutive snapshots have the same signature.
\<close>

fun search_direction ::
  "nat \<Rightarrow> (f64 \<Rightarrow> int) \<Rightarrow> ('w, 'e) scroll_driver \<Rightarrow> ('w, 'e) clock \<Rightarrow> scroll_options \<Rightarrow> element_filter_fun \<Rightarrow> size \<Rightarrow>
   scroll_direction \<Rightarrow> string \<Rightarrow> tree_node \<Rightarrow> ('w, 'e, tree_node + cursor) op"
where
  "search_direction 0 wild d clk opts f screen direction prevSig tree = op_return (Inl tree)"
| "search_direction (Suc n) wild d clk opts f screen direction prevSig tree =
     op_bind (swipe_center d opts screen direction) (\<lambda>_.
     op_bind (SleepMs clk (SettleWaitMs opts)) (\<lambda>_.
     op_bind (Hierarchy d) (\<lambda>tree'.
       case f (walk tree') of
         c # _ \<Rightarrow> op_return (Inr c)
       | [] \<Rightarrow>
           (let newSig = hash_visible_leaves wild tree' in
            if newSig = prevSig then op_return (Inl tree')
            else search_direction n wild d clk opts f screen direction newSig tree'))))"

definition effective_budget :: "scroll_options \<Rightarrow> size \<Rightarrow> tree_node \<Rightarrow> nat" where
  "effective_budget opts screen tree =
     (if count_leaves tree < thin_tree_leaf_threshold \<and>
         f_lt (max_leaf_bounds_bottom tree) (f_mul (Height screen) thin_tree_height_fraction)
      then thin_tree_budget else ScrollSearchBudget opts)"

definition scroll_search ::
  "(f64 \<Rightarrow> int) \<Rightarrow> ('w, 'e) scroll_driver \<Rightarrow> ('w, 'e) clock \<Rightarrow> scroll_options \<Rightarrow> element_filter_fun \<Rightarrow> size \<Rightarrow>
   ('w, 'e, cursor option) op"
where
  "scroll_search wild d clk opts f screen =
     op_bind (Hierarchy d) (\<lambda>tree.
       let budget = effective_budget opts screen tree in
       op_bind (search_direction budget wild d clk opts f screen ScrollUp (hash_visible_leaves wild tree) tree)
         (\<lambda>r. case r of
                Inr c \<Rightarrow> op_return (Some c)
              | Inl tree1 \<Rightarrow>
                  op_bind (search_direction budget wild d clk opts f screen ScrollDown (hash_visible_leaves wild tree1) tree1)
                    (\<lambda>r'. op_return (case r' of Inr c \<Rightarrow> Some c | Inl _ \<Rightarrow> None))))"

section \<open>Positional scrolling\<close>

definition scroll_toward_element ::
  "('w, 'e) scroll_driver \<Rightarrow> scroll_options \<Rightarrow> bounds \<Rightarrow> size \<Rightarrow> ('w, 'e, unit) op" where
  "scroll_toward_element d opts b screen =
     (let (from_pt, to_pt) = compute_scroll_toward_element_endpoints b screen (MaxScrollFraction opts)
      in Swipe d from_pt to_pt (SwipeDurationMs opts))"

text \<open>\<open>n\<close> iterations remain; \<open>iteration\<close> counts those done.\<close>

fun position_loop ::
  "nat \<Rightarrow> nat \<Rightarrow> ('w, 'e) scroll_driver \<Rightarrow> ('w, 'e) clock \<Rightarrow> scroll_options \<Rightarrow> element_filter_fun \<Rightarrow> size \<Rightarrow>
   bounds option \<Rightarrow> cursor \<Rightarrow> ('w, 'e scroll_error, cursor) op"
where
  "position_loop 0 iteration d clk opts f screen previous c =
     op_fail (ScrollUnreachable (RemainedOffScreen (MaxIterations opts)) (cursor_bounds c))"
| "position_loop (Suc n) iteration d clk opts f screen previous c =
     (case cursor_bounds c of
        None \<Rightarrow> op_return c
      | Some b \<Rightarrow>
          if is_inside_inset_viewport (Insets opts) b screen then op_return c
          else if (case previous of None \<Rightarrow> False | Some p \<Rightarrow> bounds_eq p b) then
            op_fail (ScrollUnreachable (DidNotMove b iteration) (Some b))
          else
            op_bind (op_lift DriverError (scroll_toward_element d opts b screen)) (\<lambda>_.
            op_bind (op_lift DriverError (SleepMs clk (SettleWaitMs opts))) (\<lambda>_.
            op_bind (op_lift DriverError (finder_find (Hierarchy d) f)) (\<lambda>found.
              case found of
                [] \<Rightarrow> op_fail (ScrollUnreachable (LostAfterScroll (iteration + 1)) (Some b))
              | c' # _ \<Rightarrow> position_loop n (iteration + 1) d clk opts f screen (Some b) c'))))"

definition ensure_visible ::
  "(f64 \<Rightarrow> int) \<Rightarrow> ('w, 'e) scroll_driver \<Rightarrow> ('w, 'e) clock \<Rightarrow> scroll_options \<Rightarrow> element_filter_fun \<Rightarrow>
   ('w, 'e scroll_error, cursor) op"
where
  "ensure_visible wild d clk opts f =
     op_bind (op_lift DriverError (ScreenSize d)) (\<lambda>screen.
     op_bind (op_lift DriverError (finder_find (Hierarchy d) f)) (\<lambda>initial.
     op_bind
       (case initial of
          c # _ \<Rightarrow> op_return c
        | [] \<Rightarrow>
            op_bind (op_lift DriverError (scroll_search wild d clk opts f screen))
              (\<lambda>found. case found of
                         Some c \<Rightarrow> op_return c
                       | None \<Rightarrow> op_fail (ScrollUnreachable SearchExhausted None)))
       (\<lambda>c. position_loop (MaxIterations opts) 0 d clk opts f screen None c)))"

section \<open>Properties\<close>

lemma position_loop_visible:
  "position_loop n it d clk opts f screen prev c w = (Inr c', w') \<Longrightarrow>
     (case cursor_bounds c' of None \<Rightarrow> True | Some b \<Rightarrow> is_inside_inset_viewport (Insets opts) b screen)"
proof (induction n arbitrary: it prev c w)
  case (Suc n)
  show ?case
  proof (cases "cursor_bounds c")
    case None
    with Suc.prems show ?thesis by simp
  next
    case (Some b)
    show ?thesis
    proof (cases "is_inside_inset_viewport (Insets opts) b screen")
      case True
      with Suc.prems Some show ?thesis by simp
    next
      case False
      with Suc.prems Some obtain found w3 where
        "(case found of
            [] \<Rightarrow> op_fail (ScrollUnreachable (LostAfterScroll (Suc it)) (Some b))
          | c1 # _ \<Rightarrow> position_loop n (Suc it) d clk opts f screen (Some b) c1) w3 = (Inr c', w')"
        by (auto simp: op_bind_Inr_iff split: if_splits)
      then obtain c1 where "position_loop n (Suc it) d clk opts f screen (Some b) c1 w3 = (Inr c', w')"
        by (cases found) auto
      then show ?thesis by (rule Suc.IH)
    qed
  qed
qed simp

text \<open>
  C34: \<^verbatim>\<open>EnsureVisible\<close> succeeds only with a cursor that is visible: its rectangle is unreadable
  or has its centre inside the inset viewport of the screen the driver reported first.
\<close>

theorem ensure_visible_result:
  "case ensure_visible wild d clk opts f w of
     (Inl _, _) \<Rightarrow> True
   | (Inr c, _) \<Rightarrow>
       (\<exists>screen w1. ScreenSize d w = (Inr screen, w1) \<and>
         (case cursor_bounds c of None \<Rightarrow> True | Some b \<Rightarrow> is_inside_inset_viewport (Insets opts) b screen))"
proof (cases "ensure_visible wild d clk opts f w")
  case (Pair r w')
  show ?thesis
  proof (cases r)
    case (Inr c)
    with Pair obtain screen w1 c0 w2 where "ScreenSize d w = (Inr screen, w1)"
      "position_loop (MaxIterations opts) 0 d clk opts f screen None c0 w2 = (Inr c, w')"
      by (auto simp: ensure_visible_def op_bind_Inr_iff op_lift_Inr_iff)
    with position_loop_visible [OF this(2)] show ?thesis
      using Pair Inr by auto
  qed (use Pair in simp)
qed

subsection \<open>How many swipes\<close>

text \<open>A driver that counts its swipes, around any driver and clock.\<close>

definition uncounted :: "('w, 'e, 'a) op \<Rightarrow> ('w \<times> nat, 'e, 'a) op" where
  "uncounted m w = (case m (fst w) of (r, w') \<Rightarrow> (r, (w', snd w)))"

definition counting_driver :: "('w, 'e) scroll_driver \<Rightarrow> ('w \<times> nat, 'e) scroll_driver" where
  "counting_driver d =
     \<lparr>Hierarchy = uncounted (Hierarchy d),
      Swipe = (\<lambda>p q ms w. case Swipe d p q ms (fst w) of (r, w') \<Rightarrow> (r, (w', snd w + 1))),
      ScreenSize = uncounted (ScreenSize d)\<rparr>"

definition counting_clock :: "('w, 'e) clock \<Rightarrow> ('w \<times> nat, 'e) clock" where
  "counting_clock clk =
     \<lparr>NowMs = NowMs clk \<circ> fst, SleepMs = (\<lambda>ms. uncounted (SleepMs clk ms)), CtxErr = CtxErr clk \<circ> fst\<rparr>"

text \<open>An operation that costs at most \<open>k\<close> swipes.\<close>

definition costs :: "nat \<Rightarrow> ('w \<times> nat, 'e, 'a) op \<Rightarrow> bool" where
  "costs k m \<longleftrightarrow> (\<forall>w. snd (snd (m w)) \<le> snd w + k)"

lemma costs_simple [intro]: "costs k (op_return a)" "costs k (op_fail e)" "costs k (uncounted m)"
  by (auto simp: costs_def uncounted_def split: prod.splits)

lemma costs_mono: "costs k m \<Longrightarrow> k \<le> k' \<Longrightarrow> costs k' m"
  unfolding costs_def by (meson add_left_mono order_trans)

lemma costs_bind: "costs j m \<Longrightarrow> (\<And>a. costs k (g a)) \<Longrightarrow> j + k \<le> n \<Longrightarrow> costs n (op_bind m g)"
  unfolding costs_def op_bind_def
  by (auto split: prod.splits sum.splits) (metis add.assoc add_left_mono add_le_mono1 le_trans snd_conv le_add1)+

lemma costs_lift: "costs k m \<Longrightarrow> costs k (op_lift g m)"
  unfolding costs_def op_lift_def by (auto split: prod.splits sum.splits) (metis snd_conv)+

lemma costs_swipe: "costs (Suc 0) (Swipe (counting_driver d) p q ms)"
  by (auto simp: costs_def counting_driver_def split: prod.splits)

lemma costs_free:
  "costs 0 (Hierarchy (counting_driver d))" "costs 0 (ScreenSize (counting_driver d))"
  "costs 0 (SleepMs (counting_clock clk) ms)"
  by (auto simp: counting_driver_def counting_clock_def)

lemma costs_find: "costs 0 (finder_find (Hierarchy (counting_driver d)) f)"
  unfolding finder_find_def op_map_def by (rule costs_bind [OF costs_free(1)]) auto

lemma costs_search:
  "costs n (search_direction n wild (counting_driver d) (counting_clock clk) opts f screen dir sig tree)"
proof (induction n arbitrary: sig tree)
  case (Suc n)
  have swipe: "costs (Suc 0) (swipe_center (counting_driver d) opts screen dir)"
    by (simp add: swipe_center_def costs_swipe split: prod.split)
  have rest: "costs n (case f (walk t) of c # _ \<Rightarrow> op_return (Inr c) | [] \<Rightarrow>
      (let newSig = hash_visible_leaves wild t in if newSig = sig then op_return (Inl t)
       else search_direction n wild (counting_driver d) (counting_clock clk) opts f screen dir newSig t))" for t
    by (auto simp: Let_def Suc.IH split: list.split)
  show ?case
    unfolding search_direction.simps
    by (rule costs_bind [OF swipe costs_bind [OF costs_free(3) costs_bind [OF costs_free(1) rest order_refl] order_refl]]) simp
qed (simp add: costs_simple)

lemma costs_position:
  "costs n (position_loop n it (counting_driver d) (counting_clock clk) opts f screen prev c)"
proof (induction n arbitrary: it prev c)
  case (Suc n)
  have swipe: "costs (Suc 0) (op_lift DriverError (scroll_toward_element (counting_driver d) opts b screen))" for b
    by (rule costs_lift) (simp add: scroll_toward_element_def costs_swipe split: prod.split)
  have rest: "costs n (case found of [] \<Rightarrow> op_fail (ScrollUnreachable (LostAfterScroll (Suc it)) (Some b))
      | c1 # _ \<Rightarrow> position_loop n (Suc it) (counting_driver d) (counting_clock clk) opts f screen (Some b) c1)" for b found
    by (auto simp: Suc.IH split: list.split)
  have "costs (Suc n)
      (op_bind (op_lift DriverError (scroll_toward_element (counting_driver d) opts b screen)) (\<lambda>_.
       op_bind (op_lift DriverError (SleepMs (counting_clock clk) (SettleWaitMs opts))) (\<lambda>_.
       op_bind (op_lift DriverError (finder_find (Hierarchy (counting_driver d)) f)) (\<lambda>found.
         case found of [] \<Rightarrow> op_fail (ScrollUnreachable (LostAfterScroll (Suc it)) (Some b))
         | c1 # _ \<Rightarrow> position_loop n (Suc it) (counting_driver d) (counting_clock clk) opts f screen (Some b) c1))))" for b
    by (rule costs_bind [OF swipe costs_bind [OF costs_lift [OF costs_free(3)]
          costs_bind [OF costs_lift [OF costs_find] rest order_refl] order_refl]]) simp
  then show ?case
    by (auto split: option.split)
qed (simp add: costs_simple)

text \<open>
  Against any driver and clock, one call of \<^verbatim>\<open>EnsureVisible\<close> dispatches at most twice the
  search budget plus the iteration limit many swipes, where a search budget below 2 counts as 2
  (the budget of a thin tree).
\<close>

theorem ensure_visible_swipes:
  "snd (snd (ensure_visible wild (counting_driver d) (counting_clock clk) opts f (w, 0))) \<le>
     2 * max (ScrollSearchBudget opts) 2 + MaxIterations opts"
proof -
  let ?d = "counting_driver d" and ?c = "counting_clock clk"
  let ?b = "max (ScrollSearchBudget opts) 2"
  have budget: "effective_budget opts screen tree \<le> ?b" for screen tree
    by (simp add: effective_budget_def thin_tree_budget_def)
  have dir: "costs ?b (search_direction (effective_budget opts screen tree) wild ?d ?c opts f screen dir sig t)"
    for screen tree dir sig t
    by (rule costs_mono [OF costs_search budget])
  have search: "costs (2 * ?b) (scroll_search wild ?d ?c opts f screen)" for screen
    unfolding scroll_search_def Let_def
    by (rule costs_bind [OF costs_free(1) costs_bind [OF dir, where k = ?b]])
      (auto split: sum.split intro!: costs_bind [OF dir, where k = 0])
  have find: "costs (2 * ?b) (case initial of c # _ \<Rightarrow> op_return c
      | [] \<Rightarrow> op_bind (op_lift DriverError (scroll_search wild ?d ?c opts f screen))
          (\<lambda>found. case found of Some c \<Rightarrow> op_return c | None \<Rightarrow> op_fail (ScrollUnreachable SearchExhausted None)))"
    for initial screen
    by (auto split: list.split option.split intro!: costs_bind [OF costs_lift [OF search], where k = 0])
  have "costs (2 * ?b + MaxIterations opts) (ensure_visible wild ?d ?c opts f)"
    unfolding ensure_visible_def
    by (rule costs_bind [OF costs_lift [OF costs_free(2)] costs_bind [OF costs_lift [OF costs_find]
          costs_bind [OF find costs_position order_refl] order_refl]]) simp
  then have "snd (snd (ensure_visible wild ?d ?c opts f (w, 0))) \<le> snd (w, 0 :: nat) + (2 * ?b + MaxIterations opts)"
    unfolding costs_def by blast
  then show ?thesis
    by simp
qed

text \<open>
  A thin tree gets two swipes per direction even when the configured budget is smaller, where
  the comments speak of a cap and of \<^verbatim>\<open>2 * ScrollSearchBudget\<close> swipes in total.
\<close>

theorem thin_tree_raises_budget:
  "effective_budget (default_scroll_options\<lparr>ScrollSearchBudget := 0\<rparr>) \<lparr>Width = Fin 400, Height = Fin 800\<rparr>
     (TreeNode Map.empty [] None None None None None None) = 2"
proof -
  have "round64 (of_int 1 * pow2 (- 1)) = of_int 1 * pow2 (- 1)"
    by (rule round64_dyadic) simp_all
  then have half: "round64 (1 / 2) = 1 / 2"
    by (simp add: pow2_minus)
  have exact: "round64 400 = 400" "round64 800 = 800" "round64 1 = 1"
    using round64_of_int [of 400] round64_of_int [of 800] round64_of_int [of 1] by simp_all
  have big: "800 < pow2 1024"
    using pow2_1024_big by simp
  define q where "q = round64 (9 / 10)"
  have q: "1 / 2 \<le> q" "q \<le> 1"
    using round64_mono [of "1 / 2" "9 / 10"] round64_mono [of "9 / 10" 1] half exact by (simp_all add: q_def)
  then have frac: "is_finite thin_tree_height_fraction" "fval thin_tree_height_fraction = q"
    using to_float_value [of "9 / 10" False] big by (simp_all add: thin_tree_height_fraction_def q_def)
  define r where "r = round64 (800 * q)"
  have r: "400 \<le> r" "r \<le> 800"
    using round64_mono [of 400 "800 * q"] round64_mono [of "800 * q" 800] q exact by (simp_all add: r_def)
  have nan: "thin_tree_height_fraction \<noteq> NaN" "\<not> is_inf thin_tree_height_fraction"
    using frac(1) finite_not_special by (auto simp: is_nan_def)
  then have "is_finite (f_mul (Fin 800) thin_tree_height_fraction) \<and>
      fval (f_mul (Fin 800) thin_tree_height_fraction) = r"
    using to_float_value [of "800 * q"] r big frac by (simp add: f_mul_def r_def is_inf_def Let_def)
  then have "f_lt (Fin 0) (f_mul (Fin 800) thin_tree_height_fraction)"
    using r by (subst f_lt_finite) simp_all
  then show ?thesis
    by (simp add: effective_budget_def thin_tree_leaf_threshold_def thin_tree_budget_def
        max_leaf_bounds_bottom_def leaf_bottom_def attr_def)
qed

end
