(* ===== verification/Ui_Diagnostics.thy ===== *)
theory Ui_Diagnostics
  imports Ui_Wait
begin

text \<open>
  Why a tap did not lead where it should: the signals computed from two samples of the screen and
  the classification derived from them (\<^verbatim>\<open>core/internal/orchestra/transition_diagnostics.go\<close>).
  \<open>uni\<close> is \<^verbatim>\<open>unicode.ToLower\<close> on the runes outside ASCII.
\<close>

section \<open>Text helpers\<close>

definition quote_text :: "string \<Rightarrow> string" where
  "quote_text s = CHR 0x22 # s @ [CHR 0x22]"

text \<open>\<^verbatim>\<open>strings.ToLower\<close>.\<close>

definition to_lower :: "(nat \<Rightarrow> nat) \<Rightarrow> string \<Rightarrow> string" where
  "to_lower uni s =
     (if list_all (\<lambda>c. byte_of c < 128) s then map lower_char s
      else string_of_runes
        (map (\<lambda>r. if 65 \<le> r \<and> r \<le> 90 then r + 32 else if r < 128 then r else uni r) (runes_of s)))"

text \<open>\<^verbatim>\<open>%v\<close> of a number: the shortest digits, with an exponent when it is below -4 or above 5.\<close>

definition two_digits :: "nat \<Rightarrow> string" where
  "two_digits n = (if n < 10 then CHR ''0'' # utoa n else utoa n)"

definition show_positive :: "rat \<Rightarrow> string" where
  "show_positive x =
     (let dk = shortest_digits x; e = sci_exponent dk in
      if e < - 4 \<or> 6 \<le> e then format_mantissa dk @ (if e < 0 then ''e-'' else ''e+'') @ two_digits (nat \<bar>e\<bar>)
      else format_positional dk)"

fun show_float :: "f64 \<Rightarrow> string" where
  "show_float NaN = ''NaN''"
| "show_float PInf = ''+Inf''"
| "show_float NInf = ''-Inf''"
| "show_float NZero = ''-0''"
| "show_float (Fin x) = (if x = 0 then ''0'' else if x < 0 then CHR ''-'' # show_positive (- x) else show_positive x)"

text \<open>\<^verbatim>\<open>%.0f\<close> of a number that is an integer, infinite or NaN.\<close>

fun show_integral :: "f64 \<Rightarrow> string" where
  "show_integral (Fin x) = itoa \<lfloor>x\<rfloor>"
| "show_integral a = show_float a"

definition js_to_fixed0 :: "f64 \<Rightarrow> string" where
  "js_to_fixed0 v =
     (let rounded = f_floor (f_add (f_abs v) (Fin (1 / 2)))
      in show_integral (if f_lt v (Fin 0) then f_neg rounded else rounded))"

section \<open>Loading and motion\<close>

definition is_word_char :: "char \<Rightarrow> bool" where
  "is_word_char c \<longleftrightarrow> (CHR ''0'' \<le> c \<and> c \<le> CHR ''9'') \<or> (CHR ''A'' \<le> c \<and> c \<le> CHR ''Z'') \<or>
     (CHR ''a'' \<le> c \<and> c \<le> CHR ''z'') \<or> c = CHR ''_''"

text \<open>
  The pattern \<^verbatim>\<open>\bword\b\<close>, for a word of word characters: an occurrence with no word character
  before (\<open>prev\<close> tells of the character before the string) or after it.
\<close>

fun contains_word :: "bool \<Rightarrow> string \<Rightarrow> string \<Rightarrow> bool" where
  "contains_word prev [] word = False"
| "contains_word prev (c # cs) word =
     ((\<not> prev \<and> has_prefix (c # cs) word \<and>
        (case drop (length word) (c # cs) of [] \<Rightarrow> True | d # _ \<Rightarrow> \<not> is_word_char d)) \<or>
      contains_word (is_word_char c) cs word)"

definition loading_role_patterns :: "string list" where
  "loading_role_patterns =
     [''progressbar'', ''progressindicator'', ''activityindicator'', ''loadingview'', ''loadingindicator'', ''loader'',
      ''shimmer'', ''skeleton'', ''lottieanimationview'']"

definition dialog_role_keywords :: "string list" where
  "dialog_role_keywords = [''dialog'', ''alert'', ''modal'', ''popup'', ''sheet'', ''snackbar'', ''toast'']"

definition matches_loading_role :: "string \<Rightarrow> bool" where
  "matches_loading_role lowercaseRole \<longleftrightarrow>
     list_ex (contains lowercaseRole) loading_role_patterns \<or> contains_word False lowercaseRole ''spinner''"

record loading_signal =
  LDetected :: bool
  LMatches :: "string list"
  LStructural :: bool
  LMotion :: bool

fun loading_match :: "(nat \<Rightarrow> nat) \<Rightarrow> string list \<Rightarrow> compact_element \<Rightarrow> string option" where
  "loading_match uni extraKeywords el =
     (if matches_loading_role (to_lower uni (CRole el)) then
        Some (''role='' @ CRole el @ (if CLabel el \<noteq> [] then '' label='' @ quote_text (CLabel el) else []))
      else if list_ex (\<lambda>k. contains (to_lower uni (CLabel el)) (to_lower uni k)) extraKeywords then
        Some (''label='' @ quote_text (CLabel el))
      else None)"

definition detect_loading :: "(nat \<Rightarrow> nat) \<Rightarrow> compact_element list \<Rightarrow> string list \<Rightarrow> loading_signal" where
  "detect_loading uni summary extraKeywords =
     (let matches = concat (map (\<lambda>el. case loading_match uni extraKeywords el of None \<Rightarrow> [] | Some m \<Rightarrow> [m]) summary)
      in \<lparr>LDetected = (matches \<noteq> []), LMatches = matches,
          LStructural = list_ex (\<lambda>el. matches_loading_role (to_lower uni (CRole el))) summary, LMotion = False\<rparr>)"

record motion_result =
  MDetected :: bool
  MovedElementCount :: nat

text \<open>Reading the selector of an element, a map that may be nil.\<close>

definition sel_field :: "compact_element \<Rightarrow> string \<Rightarrow> string" where
  "sel_field el key = (case CSelector el of None \<Rightarrow> [] | Some m \<Rightarrow> (case m key of None \<Rightarrow> [] | Some v \<Rightarrow> v))"

definition element_key :: "compact_element \<Rightarrow> string" where
  "element_key el =
     (let resourceID = sel_field el ''resourceId''; contentDesc = sel_field el ''contentDesc''; text = sel_field el ''text''
      in join_with ''|''
        ((if resourceID \<noteq> [] then [''r='' @ resourceID] else []) @
         (if contentDesc \<noteq> [] then [''d='' @ contentDesc] else []) @
         (if text \<noteq> [] then [''t='' @ text] else []) @
         (if resourceID = [] \<and> contentDesc = [] \<and> text = [] then [''l='' @ CLabel el @ ''|role='' @ CRole el] else [])))"

definition bounds_delta :: "bounds \<Rightarrow> bounds \<Rightarrow> f64" where
  "bounds_delta p q =
     f_add (f_add (f_add (f_abs (f_sub (Left p) (Left q))) (f_abs (f_sub (Top p) (Top q))))
       (f_abs (f_sub (Right p) (Right q)))) (f_abs (f_sub (Bottom p) (Bottom q)))"

text \<open>The map built by a loop of assignments: the last element with a key stays.\<close>

definition by_key :: "compact_element list \<Rightarrow> string \<Rightarrow> compact_element option" where
  "by_key els = map_of (rev (map (\<lambda>el. (element_key el, el)) els))"

definition detect_motion :: "compact_element list \<Rightarrow> compact_element list \<Rightarrow> f64 \<Rightarrow> motion_result" where
  "detect_motion before after minDeltaPx =
     (let moved = length (filter (\<lambda>el. case by_key before (element_key el) of
                      None \<Rightarrow> False
                    | Some prev \<Rightarrow> f_le minDeltaPx (bounds_delta (CBounds prev) (CBounds el))) after)
      in \<lparr>MDetected = (0 < moved), MovedElementCount = moved\<rparr>)"

section \<open>What appeared\<close>

record appeared_element =
  AppLabel :: string
  AppRole :: string
  AppSelector :: "string \<rightharpoonup> string"
  LooksLikeDialog :: bool

definition is_new :: "compact_element list \<Rightarrow> compact_element \<Rightarrow> bool" where
  "is_new before el \<longleftrightarrow> element_key el \<notin> set (map element_key before)"

definition diff_appeared ::
  "(nat \<Rightarrow> nat) \<Rightarrow> compact_element list \<Rightarrow> compact_element list \<Rightarrow> appeared_element list" where
  "diff_appeared uni before after =
     map (\<lambda>el. \<lparr>AppLabel = CLabel el, AppRole = CRole el,
                AppSelector = (case CSelector el of None \<Rightarrow> Map.empty | Some m \<Rightarrow> m),
                LooksLikeDialog = list_ex (contains (to_lower uni (CRole el))) dialog_role_keywords\<rparr>)
       (filter (\<lambda>el. is_new before el \<and>
          \<not> (CLabel el = [] \<and> sel_field el ''resourceId'' = [] \<and> sel_field el ''contentDesc'' = [])) after)"

definition snapshot_line :: "compact_element \<Rightarrow> string" where
  "snapshot_line el =
     (let resourceID = sel_field el ''resourceId''; contentDesc = sel_field el ''contentDesc''; text = sel_field el ''text'';
          selStr =
            (if resourceID \<noteq> [] then ''resourceId='' @ quote_text resourceID
             else if contentDesc \<noteq> [] then ''contentDesc='' @ quote_text contentDesc
             else if text \<noteq> [] then ''text='' @ quote_text text
             else ''[no-selector]'')
      in ''['' @ selStr @ ''] '' @ CRole el @
         (if CLabel el \<noteq> [] then '' '' @ quote_text (CLabel el) else []) @
         (if CClickable el then '' (clickable)'' else []))"

definition compact_snapshot :: "compact_element list \<Rightarrow> nat \<Rightarrow> string list" where
  "compact_snapshot summary maxLines = map snapshot_line (take maxLines summary)"

section \<open>The target\<close>

record resolved_element_state =
  REFound :: bool
  RERole :: string
  REEnabled :: "bool option"
  REClickable :: "bool option"
  REBounds :: "bounds option"

record target_state_change =
  TChanged :: bool
  TVanished :: bool
  TDisabled :: bool
  TUnclickable :: bool
  TBoundsDelta :: f64
  TRoleChanged :: bool
  TReason :: string

definition target_state_change_bounds_delta_px :: f64 where
  "target_state_change_bounds_delta_px = Fin 8"

definition no_target_change :: target_state_change where
  "no_target_change =
     \<lparr>TChanged = False, TVanished = False, TDisabled = False, TUnclickable = False, TBoundsDelta = Fin 0,
      TRoleChanged = False, TReason = []\<rparr>"

definition detect_target_state_change ::
  "resolved_element_state \<Rightarrow> resolved_element_state \<Rightarrow> target_state_change" where
  "detect_target_state_change pre post =
     (if \<not> REFound pre then
        no_target_change\<lparr>TReason := ''target not found pre-tap, so comparison is not possible''\<rparr>
      else if \<not> REFound post then
        no_target_change\<lparr>TChanged := True, TVanished := True,
          TReason := ''target vanished after tap (replaced or navigated away)''\<rparr>
      else
        let disabled = (REEnabled pre = Some True \<and> REEnabled post = Some False);
            unclickable = (REClickable pre = Some True \<and> REClickable post = Some False);
            boundsDelta = (case (REBounds pre, REBounds post) of
                             (Some p, Some q) \<Rightarrow> bounds_delta p q | _ \<Rightarrow> Fin 0);
            roleChanged = (RERole pre \<noteq> RERole post);
            moved = f_le target_state_change_bounds_delta_px boundsDelta;
            reason = join_with '', ''
              ((if disabled then [''enabled changed from true to false''] else []) @
               (if unclickable then [''clickable changed from true to false''] else []) @
               (if moved then [''boundsDelta='' @ show_float boundsDelta @ ''px''] else []) @
               (if roleChanged then [''role changed from '' @ RERole pre @ '' to '' @ RERole post] else []))
        in \<lparr>TChanged = (disabled \<or> unclickable \<or> moved \<or> roleChanged), TVanished = False, TDisabled = disabled,
            TUnclickable = unclickable, TBoundsDelta = boundsDelta, TRoleChanged = roleChanged,
            TReason = (if reason = [] then ''no change'' else reason)\<rparr>)"

section \<open>Overlays\<close>

datatype overlay_kind = OverlayDialog | OverlayLoading | OverlayLoadingWithCancel | OverlayUnknown

record overlay_analysis =
  ODetected :: bool
  CoverageRatio :: f64
  OKind :: overlay_kind
  HasClickableAction :: bool
  HasLoadingRole :: bool
  InnerLabels :: "string list"
  OverlayBounds :: bounds

definition overlay_inner_label_max_len :: nat where "overlay_inner_label_max_len = 120"
definition overlay_inner_label_cap :: nat where "overlay_inner_label_cap = 8"

definition overlay_element_area :: "bounds \<Rightarrow> f64" where
  "overlay_element_area b =
     f_mul (f_max (Fin 0) (f_sub (Right b) (Left b))) (f_max (Fin 0) (f_sub (Bottom b) (Top b)))"

definition overlay_contains :: "bounds \<Rightarrow> bounds \<Rightarrow> bool" where
  "overlay_contains outer inner \<longleftrightarrow>
     f_le (Left outer) (Left inner) \<and> f_le (Top outer) (Top inner) \<and>
     f_le (Right inner) (Right outer) \<and> f_le (Bottom inner) (Bottom outer)"

definition screen_area :: "compact_element list \<Rightarrow> f64" where
  "screen_area summary =
     (let maxRight = foldl (\<lambda>m el. if f_lt m (Right (CBounds el)) then Right (CBounds el) else m) (Fin 0) summary;
          maxBottom = foldl (\<lambda>m el. if f_lt m (Bottom (CBounds el)) then Bottom (CBounds el) else m) (Fin 0) summary;
          area = f_mul maxRight maxBottom
      in if f_eq area (Fin 0) then Fin 1 else area)"

text \<open>
  The search for the candidate: the position, element and area of the largest qualifying element
  so far.
\<close>

fun overlay_candidate ::
  "compact_element list \<Rightarrow> f64 \<Rightarrow> f64 \<Rightarrow> (nat \<times> compact_element) option \<Rightarrow> f64 \<Rightarrow> (nat \<times> compact_element) list \<Rightarrow>
   (nat \<times> compact_element) option \<times> f64"
where
  "overlay_candidate before screen minCoverage candidate area [] = (candidate, area)"
| "overlay_candidate before screen minCoverage candidate area ((i, el) # els) =
     (let a = overlay_element_area (CBounds el) in
      if \<not> is_new before el then overlay_candidate before screen minCoverage candidate area els
      else if f_lt (f_div a screen) minCoverage then overlay_candidate before screen minCoverage candidate area els
      else if f_lt area a then overlay_candidate before screen minCoverage (Some (i, el)) a els
      else overlay_candidate before screen minCoverage candidate area els)"

text \<open>The elements inside the candidate, itself excepted.\<close>

definition overlay_inner :: "nat \<Rightarrow> bounds \<Rightarrow> compact_element list \<Rightarrow> compact_element list" where
  "overlay_inner ci b after =
     map snd (filter (\<lambda>(i, el). i \<noteq> ci \<and> overlay_contains b (CBounds el)) (enumerate 0 after))"

definition action_labels :: "compact_element list \<Rightarrow> string list" where
  "action_labels els =
     filter (\<lambda>label. 0 < length label \<and> length (units_of label) \<le> overlay_inner_label_max_len)
       (map (\<lambda>el. trim_space (CLabel el)) els)"

definition analyze_overlay ::
  "(nat \<Rightarrow> nat) \<Rightarrow> compact_element list \<Rightarrow> compact_element list \<Rightarrow> f64 \<Rightarrow> overlay_analysis option" where
  "analyze_overlay uni before after minCoverage =
     (let screen = screen_area after in
      case overlay_candidate before screen minCoverage None (Fin 0) (enumerate 0 after) of
        (None, _) \<Rightarrow> None
      | (Some (ci, candidate), area) \<Rightarrow>
          (let inner = overlay_inner ci (CBounds candidate) after;
               labels = action_labels inner;
               hasLoadingRole = list_ex (\<lambda>el. matches_loading_role (to_lower uni (CRole el))) inner;
               kind = (if labels \<noteq> [] \<and> hasLoadingRole then OverlayLoadingWithCancel
                       else if labels \<noteq> [] then OverlayDialog
                       else if hasLoadingRole then OverlayLoading
                       else OverlayUnknown)
           in Some \<lparr>ODetected = True, CoverageRatio = f_div area screen, OKind = kind,
                    HasClickableAction = (labels \<noteq> []), HasLoadingRole = hasLoadingRole,
                    InnerLabels = take overlay_inner_label_cap labels, OverlayBounds = CBounds candidate\<rparr>))"

section \<open>Classification\<close>

datatype classification =
  StillLoading | DialogOrErrorShown | StillLoadingWithCancel | OverlayUnknownShown | PartialTransition | NoChangeDetected

record transition_diagnostics =
  DLoading :: loading_signal
  DAppeared :: "appeared_element list"
  DDialogAppeared :: "appeared_element list"
  DCurrentSnapshot :: "string list"
  DTargetStateChange :: "target_state_change option"
  DOverlay :: "overlay_analysis option"
  DClassification :: classification
  DHint :: string

record classify_options =
  OptLoadingSignal :: "loading_signal option"
  OptMotion :: "motion_result option"
  OptLoadingKeywords :: "string list"
  OptTargetStateChange :: "target_state_change option"
  OptOverlay :: "overlay_analysis option"

definition default_compact_snapshot_size :: nat where "default_compact_snapshot_size = 25"
definition default_motion_min_delta_px :: f64 where "default_motion_min_delta_px = Fin 4"
definition default_overlay_min_coverage :: f64 where "default_overlay_min_coverage = to_float False (6 / 10)"

text \<open>The loading signal with the motion folded in.\<close>

definition merge_motion :: "loading_signal \<Rightarrow> motion_result option \<Rightarrow> loading_signal" where
  "merge_motion loading motion =
     (case motion of
        None \<Rightarrow> loading
      | Some m \<Rightarrow>
          if MDetected m then
            loading\<lparr>LMotion := True, LDetected := True,
              LMatches := LMatches loading @ [''motion: '' @ utoa (MovedElementCount m) @ '' elements moving'']\<rparr>
          else loading)"

definition overlay_is :: "overlay_analysis option \<Rightarrow> overlay_kind \<Rightarrow> bool" where
  "overlay_is ov kind \<longleftrightarrow> (case ov of None \<Rightarrow> False | Some a \<Rightarrow> ODetected a \<and> OKind a = kind)"

definition ellipsis :: string where
  "ellipsis = [CHR 0xE2, CHR 0x80, CHR 0xA6]"

definition classify ::
  "target_state_change option \<Rightarrow> overlay_analysis option \<Rightarrow> loading_signal \<Rightarrow> appeared_element list \<Rightarrow>
   bool \<Rightarrow> bool \<Rightarrow> classification \<times> string" where
  "classify targetStateChange ov loading dialogAppeared absentOk appearOk =
     (if (case targetStateChange of None \<Rightarrow> False | Some c \<Rightarrow> TChanged c) then
        (StillLoading,
         ''Target element state changed after tap ('' @ (case targetStateChange of None \<Rightarrow> [] | Some c \<Rightarrow> TReason c) @ ''). '' @
         ''The tap was accepted and the app is processing. Wait for the operation to finish.'')
      else if overlay_is ov OverlayDialog then
        (DialogOrErrorShown,
         ''An overlay with clickable action buttons appeared. This is a dialog/alert, NOT a loading '' @
         ''scrim. The flow is blocked until the user acts. Inspect `overlay.innerLabels` for the '' @
         ''actual message and action options. Do NOT guess at backend causes, because the dialog tells you.'')
      else if overlay_is ov OverlayLoadingWithCancel then
        (StillLoadingWithCancel,
         ''A loading overlay with a Cancel option is visible (e.g. 'Please wait'' @ ellipsis @ '' [Cancel]'). The app '' @
         ''is processing a request but is cancelable. Keep waiting unless you intentionally want to abort.'')
      else if overlay_is ov OverlayLoading then
        (StillLoading,
         ''A loading scrim covers the screen. Backend request has not completed. '' @
         ''Auto-extending timeout; if the scrim persists beyond maxTimeoutMs, treat as infrastructure issue.'')
      else if overlay_is ov OverlayUnknown then
        (OverlayUnknownShown,
         ''An overlay covering '' @
         (case ov of None \<Rightarrow> [] | Some a \<Rightarrow> js_to_fixed0 (f_mul (CoverageRatio a) (Fin 100))) @
         ''% of the screen appeared but '' @
         ''contains neither clickable actions nor a structural loading role. Inspect `currentSnapshot` '' @
         ''and `overlay.overlayBounds` to determine its nature. Do NOT guess.'')
      else if LDetected loading then
        (StillLoading,
         ''A loading indicator is visible on screen (no overlay). The request has not completed. '' @
         ''Consider increasing timeoutMs, or investigate whether the backend is hung.'')
      else if dialogAppeared \<noteq> [] then
        (DialogOrErrorShown,
         ''A dialog-roled element appeared after the tap (no full overlay). Inspect `dialogAppeared` '' @
         ''for the actual message, do NOT guess at credential/backend causes.'')
      else if absentOk \<and> \<not> appearOk then
        (PartialTransition,
         ''Old screen is gone but the expected new-screen anchor did not appear. The app may have '' @
         ''navigated to an unexpected screen. Dump UI tree to inspect.'')
      else
        (NoChangeDetected,
         ''Nothing observable changed after the tap. The tap may have missed the target, the handler '' @
         ''may be a no-op, or the target may be disabled. Verify the selector actually matched a '' @
         ''clickable + enabled element.''))"

definition classify_failure ::
  "(nat \<Rightarrow> nat) \<Rightarrow> compact_element list \<Rightarrow> compact_element list \<Rightarrow> bool \<Rightarrow> bool \<Rightarrow> classify_options \<Rightarrow>
   transition_diagnostics" where
  "classify_failure uni beforeTap afterPoll absentOk appearOk opts =
     (let loading = merge_motion
            (case OptLoadingSignal opts of
               Some l \<Rightarrow> l | None \<Rightarrow> detect_loading uni afterPoll (OptLoadingKeywords opts))
            (OptMotion opts);
          appeared = diff_appeared uni beforeTap afterPoll;
          dialogAppeared = filter LooksLikeDialog appeared;
          (cls, hint) = classify (OptTargetStateChange opts) (OptOverlay opts) loading dialogAppeared absentOk appearOk
      in \<lparr>DLoading = loading, DAppeared = appeared, DDialogAppeared = dialogAppeared,
          DCurrentSnapshot = compact_snapshot afterPoll default_compact_snapshot_size,
          DTargetStateChange = OptTargetStateChange opts, DOverlay = OptOverlay opts,
          DClassification = cls, DHint = hint\<rparr>)"

section \<open>Motion\<close>

lemma f_sub_self: "is_finite a \<Longrightarrow> f_sub a a = Fin 0"
  by (cases a) (auto simp: f_sub_def signed_zero_def is_finite_def Let_def)

definition finite_bounds :: "bounds \<Rightarrow> bool" where
  "finite_bounds b \<longleftrightarrow> is_finite (Left b) \<and> is_finite (Top b) \<and> is_finite (Right b) \<and> is_finite (Bottom b)"

lemma bounds_delta_self: "finite_bounds b \<Longrightarrow> bounds_delta b b = Fin 0"
  by (simp add: finite_bounds_def bounds_delta_def f_sub_self f_abs_def signed_zero_def Let_def)

lemma by_key_distinct: "distinct (map element_key els) \<Longrightarrow> el \<in> set els \<Longrightarrow> by_key els (element_key el) = Some el"
  unfolding by_key_def by (intro map_of_is_SomeI) (auto simp: rev_map comp_def distinct_map inj_on_def)

text \<open>
  When the elements of a sample have pairwise different keys and finite bounds, a later
  sample in which they only vanish or change their order shows no motion at any positive threshold.
\<close>

theorem detect_motion_still:
  assumes "distinct (map element_key before)" "list_all (\<lambda>el. finite_bounds (CBounds el)) before"
    and "set after \<subseteq> set before" "f_lt (Fin 0) minDelta"
  shows "detect_motion before after minDelta = \<lparr>MDetected = False, MovedElementCount = 0\<rparr>"
proof -
  have "\<not> f_le minDelta (Fin 0)"
    using f_lt_asym [OF assms(4)] .
  then have "filter (\<lambda>el. case by_key before (element_key el) of None \<Rightarrow> False
      | Some prev \<Rightarrow> f_le minDelta (bounds_delta (CBounds prev) (CBounds el))) after = []"
    using assms by (auto simp: filter_empty_conv list_all_iff by_key_distinct bounds_delta_self subset_iff)
  then show ?thesis
    by (simp add: detect_motion_def)
qed

definition example_row :: "rat \<Rightarrow> compact_element" where
  "example_row y =
     \<lparr>ElementID = [], CRole = ''cell'', CLabel = [], CText = ''Buy'', ResourceID = [],
      CBounds = \<lparr>Left = Fin 0, Top = Fin y, Right = Fin 100, Bottom = Fin y\<rparr>, CClickable = True, CEnabled = True,
      CSelector = Some [''text'' \<mapsto> ''Buy'']\<rparr>"

theorem detect_motion_still_witness:
  "detect_motion [example_row 0] [] (Fin 4) = \<lparr>MDetected = False, MovedElementCount = 0\<rparr>"
  by (rule detect_motion_still) (simp_all add: example_row_def finite_bounds_def is_finite_def)

text \<open>
  Without different keys a still screen is in motion: two rows with the same text, sampled twice
  without a change. The last element with a key stands for all of them in the first sample.
\<close>

theorem still_rows_reported_as_motion:
  "detect_motion [example_row 0, example_row 100] [example_row 0, example_row 100] (Fin 4) =
     \<lparr>MDetected = True, MovedElementCount = 1\<rparr>"
  by (simp add: detect_motion_def by_key_def example_row_def element_key_def sel_field_def bounds_delta_def
      f_sub_def f_abs_def f_le_def signed_zero_def Let_def)

section \<open>The overlay found\<close>

lemma f_lt_trans: "f_lt a b \<Longrightarrow> f_lt b c \<Longrightarrow> f_lt a c"
  by (cases a; cases b; cases c) auto

definition coverage :: "compact_element list \<Rightarrow> compact_element \<Rightarrow> f64" where
  "coverage after el = f_div (overlay_element_area (CBounds el)) (screen_area after)"

definition qualifies :: "compact_element list \<Rightarrow> f64 \<Rightarrow> f64 \<Rightarrow> compact_element \<Rightarrow> bool" where
  "qualifies before screen minCoverage el \<longleftrightarrow>
     is_new before el \<and> \<not> f_lt (f_div (overlay_element_area (CBounds el)) screen) minCoverage"

lemma overlay_candidate_result:
  "overlay_candidate before screen minCoverage candidate area els = (c', a') \<Longrightarrow>
     (\<forall>x. f_lt a' x \<longrightarrow> f_lt area x) \<and>
     (\<forall>(i, el) \<in> set els. qualifies before screen minCoverage el \<longrightarrow> \<not> f_lt a' (overlay_element_area (CBounds el))) \<and>
     ((c' = candidate \<and> a' = area) \<or>
      (\<exists>(i, el) \<in> set els. c' = Some (i, el) \<and> a' = overlay_element_area (CBounds el) \<and> f_lt area a' \<and>
         qualifies before screen minCoverage el))"
proof (induction els arbitrary: candidate area)
  case (Cons p els)
  obtain i el where p: "p = (i, el)" by force
  let ?a = "overlay_element_area (CBounds el)"
  show ?case
  proof (cases "qualifies before screen minCoverage el \<and> f_lt area ?a")
    case True
    then have "overlay_candidate before screen minCoverage (Some (i, el)) ?a els = (c', a')"
      using Cons.prems by (auto simp: p Let_def qualifies_def)
    note IH = Cons.IH [OF this]
    have "f_lt area x" if "f_lt a' x" for x
      using IH that True f_lt_trans [of area ?a x] by blast
    moreover have "\<not> f_lt a' ?a"
      using IH f_lt_asym [of ?a ?a] by (auto simp: f_le_def)
    moreover have "f_lt area a'"
      using IH True f_lt_trans [of area ?a a'] by blast
    ultimately show ?thesis
      using IH True unfolding p by (auto 0 3)
  next
    case False
    then have "overlay_candidate before screen minCoverage candidate area els = (c', a')"
      using Cons.prems by (auto simp: p Let_def qualifies_def split: if_splits)
    from Cons.IH [OF this] False show ?thesis
      by (auto simp: p)
  qed
qed simp

text \<open>
  \<^verbatim>\<open>AnalyzeOverlay\<close> reports an element of the second sample that is new and covers the
  asked share of the screen, and no other such element is larger; it reports nothing exactly when
  no such element has a positive area.
\<close>

theorem analyze_overlay_largest:
  "case analyze_overlay uni before after minCoverage of
     None \<Rightarrow> list_all (\<lambda>el. \<not> f_lt (Fin 0) (overlay_element_area (CBounds el)))
       (filter (qualifies before (screen_area after) minCoverage) after)
   | Some o' \<Rightarrow>
       list_ex (\<lambda>el. OverlayBounds o' = CBounds el \<and> CoverageRatio o' = coverage after el \<and>
           f_lt (Fin 0) (overlay_element_area (CBounds el)) \<and>
           list_all (\<lambda>el'. \<not> f_lt (overlay_element_area (CBounds el)) (overlay_element_area (CBounds el')))
             (filter (qualifies before (screen_area after) minCoverage) after))
         (filter (qualifies before (screen_area after) minCoverage) after)"
proof -
  obtain c a where r: "overlay_candidate before (screen_area after) minCoverage None (Fin 0) (enumerate 0 after) = (c, a)"
    by force
  note res = overlay_candidate_result [OF r]
  have all: "list_all (\<lambda>el. \<not> f_lt a (overlay_element_area (CBounds el)))
      (filter (qualifies before (screen_area after) minCoverage) after)"
    unfolding list_all_iff
  proof
    fix el assume el: "el \<in> set (filter (qualifies before (screen_area after) minCoverage) after)"
    then have "el \<in> snd ` set (enumerate 0 after)"
      by (simp flip: set_map)
    with el res show "\<not> f_lt a (overlay_element_area (CBounds el))"
      by force
  qed
  show ?thesis
  proof (cases c)
    case None
    with res r all show ?thesis
      by (auto simp: analyze_overlay_def Let_def)
  next
    case (Some p)
    with res obtain i el where p: "p = (i, el)" "(i, el) \<in> set (enumerate 0 after)"
      "a = overlay_element_area (CBounds el)" "f_lt (Fin 0) a" "qualifies before (screen_area after) minCoverage el"
      by auto
    have el: "el \<in> set after"
      using p(2) by (auto simp: in_set_enumerate_eq)
    show ?thesis
      using r p el all unfolding list_ex_iff
      by (auto simp: analyze_overlay_def Let_def Some coverage_def intro!: bexI [of _ el])
  qed
qed

end
