(* ===== verification/Ui_Transition.thy ===== *)
theory Ui_Transition
  imports Ui_Diagnostics Ui_Wait_Props
begin

text \<open>
  Waiting for a screen transition after a tap (\<^verbatim>\<open>core/internal/orchestra/transition_wait.go\<close>) and
  \<^verbatim>\<open>ResolveElementState\<close> (\<^verbatim>\<open>compact_element.go\<close>): the poll with its soft and hard deadline, the
  diagnosis on timeout, and the theorems on both.
\<close>

section \<open>State beside the world\<close>

text \<open>A closure variable beside the world, and operations that leave it alone.\<close>

definition on_snd :: "('w, 'e, 'a) op \<Rightarrow> ('s \<times> 'w, 'e, 'a) op" where
  "on_snd m sw = (case m (snd sw) of (r, w) \<Rightarrow> (r, (fst sw, w)))"

definition op_set :: "'s \<Rightarrow> ('s \<times> 'w, 'e, unit) op" where
  "op_set s sw = (Inr (), (s, snd sw))"

definition op_get :: "('s \<times> 'w, 'e, 's) op" where
  "op_get sw = (Inr (fst sw), sw)"

definition snd_clock :: "('w, 'e) clock \<Rightarrow> ('s \<times> 'w, 'e) clock" where
  "snd_clock clk =
     \<lparr>NowMs = NowMs clk \<circ> snd, SleepMs = (\<lambda>ms. on_snd (SleepMs clk ms)), CtxErr = CtxErr clk \<circ> snd\<rparr>"

section \<open>Parameters and results\<close>

definition resolve_element_state :: "('w, 'e, tree_node) op \<Rightarrow> selector \<Rightarrow> ('w, 'e, resolved_element_state) op" where
  "resolve_element_state hierarchy s =
     op_map
       (\<lambda>c. case c of
          None \<Rightarrow> \<lparr>REFound = False, RERole = [], REEnabled = None, REClickable = None, REBounds = None\<rparr>
        | Some cursor \<Rightarrow>
            \<lparr>REFound = True, RERole = attr (Node cursor) ''role'', REEnabled = Enabled (Node cursor),
             REClickable = Clickable (Node cursor), REBounds = parse_bounds (attr (Node cursor) ''bounds'')\<rparr>)
       (finder_find_one hierarchy (compile_selector s))"

record transition_params =
  WaitForAbsent :: "selector option"
  WaitForAppear :: "selector option"
  TimeoutMs :: int
  MaxTimeoutMs :: int
  IntervalMs :: int
  LoadingKeywords :: "string list"
  TargetSelector :: selector
  TargetPre :: resolved_element_state
  ResolvedBy :: string
  BeforeSnapshot :: "compact_element list"

record transition_failure =
  FClassification :: classification
  FHint :: string
  FDialogAppeared :: "appeared_element list"
  FAppeared :: "appeared_element list"
  FCurrentSnapshot :: "string list"
  FTargetStateChangeReason :: string
  FOverlay :: "overlay_analysis option"

text \<open>The result: the waited time with the field that resolved the target, or with the diagnosis.\<close>

datatype transition_result = TransitionOk int string | TransitionFailed int transition_failure

record transition_poll =
  PAbsentOk :: bool
  PAppearOk :: bool
  PLoading :: loading_signal
  PMotion :: motion_result

definition poll_resolved :: "transition_poll \<Rightarrow> bool" where
  "poll_resolved p \<longleftrightarrow> PAbsentOk p \<and> PAppearOk p"

section \<open>Polling\<close>

text \<open>Does the selector match? \<open>dflt\<close> stands for a selector that is not given.\<close>

definition condition :: "('w, 'e, tree_node) op \<Rightarrow> bool \<Rightarrow> (cursor list \<Rightarrow> bool) \<Rightarrow> selector option \<Rightarrow> ('w, 'e, bool) op" where
  "condition hierarchy dflt ok s =
     (case s of
        None \<Rightarrow> op_return dflt
      | Some sel \<Rightarrow> op_map ok (finder_find hierarchy (compile_selector sel)))"

text \<open>\<^verbatim>\<open>fetch\<close>; the sample of the previous poll is the state beside the world.\<close>

definition fetch_poll ::
  "(nat \<Rightarrow> nat) \<Rightarrow> ('w, 'e, tree_node) op \<Rightarrow> transition_params \<Rightarrow>
   (compact_element list \<times> 'w, 'e, transition_poll) op" where
  "fetch_poll uni hierarchy params =
     op_bind (on_snd hierarchy) (\<lambda>tree.
     op_bind op_get (\<lambda>prevCompact.
       let compact = tree_node_to_compact_elements tree;
           loading = detect_loading uni compact (LoadingKeywords params);
           motion = detect_motion prevCompact compact default_motion_min_delta_px in
     op_bind (op_set compact) (\<lambda>_.
     op_bind (on_snd (condition hierarchy True (\<lambda>ms. ms = []) (WaitForAbsent params))) (\<lambda>absentOk.
     op_bind (on_snd (condition hierarchy True (\<lambda>ms. ms \<noteq> []) (WaitForAppear params))) (\<lambda>appearOk.
       op_return \<lparr>PAbsentOk = absentOk, PAppearOk = appearOk, PLoading = loading, PMotion = motion\<rparr>)))))"

text \<open>
  The outcome of the polling loop: resolved, an error, or given up, with the world then.
\<close>

datatype 'e poll_outcome = PollResolved | PollError 'e | PollGaveUp

fun transition_loop ::
  "nat \<Rightarrow> nat \<Rightarrow> (nat \<Rightarrow> nat) \<Rightarrow> ('w, 'e) clock \<Rightarrow> ('w, 'e, tree_node) op \<Rightarrow> transition_params \<Rightarrow> int \<Rightarrow>
   compact_element list \<times> 'w \<Rightarrow> ('e poll_outcome \<times> 'w) option"
where
  "transition_loop 0 fuel uni clk hierarchy params hardDeadlineMs sw = None"
| "transition_loop (Suc n) fuel uni clk hierarchy params hardDeadlineMs sw =
     (let remainingHardMs = hardDeadlineMs - NowMs clk (snd sw) in
      if remainingHardMs \<le> 0 then Some (PollGaveUp, snd sw)
      else
        (case wait_until fuel (snd_clock clk) (min (TimeoutMs params) remainingHardMs) (IntervalMs params)
                (fetch_poll uni hierarchy params) (stateless poll_resolved) sw of
           None \<Rightarrow> None
         | Some (Accepted poll, sw') \<Rightarrow> Some (PollResolved, snd sw')
         | Some (Aborted e l, sw') \<Rightarrow> Some (PollError e, snd sw')
         | Some (Expired poll, sw') \<Rightarrow>
             if hardDeadlineMs \<le> NowMs clk (snd sw') \<or> (\<not> LDetected (PLoading poll) \<and> \<not> MDetected (PMotion poll))
             then Some (PollGaveUp, snd sw')
             else transition_loop n fuel uni clk hierarchy params hardDeadlineMs sw'))"

section \<open>Diagnosis and the whole wait\<close>

definition classify_transition_timeout ::
  "(nat \<Rightarrow> nat) \<Rightarrow> ('w, 'e) clock \<Rightarrow> ('w, 'e, tree_node) op \<Rightarrow> transition_params \<Rightarrow> int \<Rightarrow>
   ('w, 'e, transition_result) op" where
  "classify_transition_timeout uni clk hierarchy params startedAt =
     op_bind hierarchy (\<lambda>afterTree.
       let afterCompact = tree_node_to_compact_elements afterTree in
     op_bind (resolve_element_state hierarchy (TargetSelector params)) (\<lambda>post.
       let targetStateChange = detect_target_state_change (TargetPre params) post;
           ov = analyze_overlay uni (BeforeSnapshot params) afterCompact default_overlay_min_coverage;
           loadingSignal = detect_loading uni afterCompact (LoadingKeywords params);
           motion = detect_motion (BeforeSnapshot params) afterCompact default_motion_min_delta_px in
     op_bind (condition hierarchy True (\<lambda>ms. ms = []) (WaitForAbsent params)) (\<lambda>absentOk.
     op_bind (condition hierarchy False (\<lambda>ms. ms \<noteq> []) (WaitForAppear params)) (\<lambda>appearOk.
       let diag = classify_failure uni (BeforeSnapshot params) afterCompact absentOk appearOk
             \<lparr>OptLoadingSignal = Some loadingSignal, OptMotion = Some motion,
              OptLoadingKeywords = LoadingKeywords params, OptTargetStateChange = Some targetStateChange,
              OptOverlay = ov\<rparr> in
       (\<lambda>w. op_return
          (TransitionFailed (NowMs clk w - startedAt)
             \<lparr>FClassification = DClassification diag, FHint = DHint diag, FDialogAppeared = DDialogAppeared diag,
              FAppeared = DAppeared diag, FCurrentSnapshot = DCurrentSnapshot diag,
              FTargetStateChangeReason = TReason targetStateChange, FOverlay = ov\<rparr>) w)))))"

definition wait_for_transition ::
  "nat \<Rightarrow> nat \<Rightarrow> (nat \<Rightarrow> nat) \<Rightarrow> ('w, 'e) clock \<Rightarrow> ('w, 'e, tree_node) op \<Rightarrow> transition_params \<Rightarrow> 'w \<Rightarrow>
   (('e + transition_result) \<times> 'w) option"
where
  "wait_for_transition n fuel uni clk hierarchy params w =
     (let startedAt = NowMs clk w in
      case transition_loop n fuel uni clk hierarchy params (startedAt + MaxTimeoutMs params) (BeforeSnapshot params, w) of
        None \<Rightarrow> None
      | Some (PollResolved, w') \<Rightarrow>
          Some (Inr (TransitionOk (NowMs clk w' - startedAt) (ResolvedBy params)), w')
      | Some (PollError e, w') \<Rightarrow> Some (Inl e, w')
      | Some (PollGaveUp, w') \<Rightarrow> Some (classify_transition_timeout uni clk hierarchy params startedAt w'))"

section \<open>Both deadlines are kept\<close>

lemma snd_clock_simps [simp]:
  "NowMs (snd_clock clk) sw = NowMs clk (snd sw)"
  "SleepMs (snd_clock clk) ms = on_snd (SleepMs clk ms)"
  "CtxErr (snd_clock clk) sw = CtxErr clk (snd sw)"
  by (simp_all add: snd_clock_def)

text \<open>An operation beside the fake clock that takes no time.\<close>

definition timeless :: "('s \<times> 'd fake_world, 'e, 'a) op \<Rightarrow> bool" where
  "timeless = op_keeps (\<lambda>sw sw'. Current (snd sw') = Current (snd sw))"

lemma timeless_bind: "timeless m \<Longrightarrow> (\<And>a. timeless (k a)) \<Longrightarrow> timeless (op_bind m k)"
  unfolding timeless_def by (rule op_keeps_bind) (auto intro: transpI)

lemma timeless_simple: "timeless (op_return a)" "timeless op_get" "timeless (op_set s)"
  by (auto simp: timeless_def op_keeps_def op_get_def op_set_def)

lemma timeless_device: "timeless (on_snd (on_device f))"
  by (auto simp: timeless_def op_keeps_def on_snd_def on_device_def split: prod.splits)

lemma timeless_condition: "timeless (on_snd (condition (on_device f) dflt ok s))"
  by (cases s) (auto simp: timeless_def op_keeps_def on_snd_def condition_def op_map_def finder_find_def op_bind_def
      on_device_def split: prod.splits sum.splits)

lemma timeless_fetch: "timeless (fetch_poll uni (on_device f) params)"
  unfolding fetch_poll_def Let_def
  by (intro timeless_bind timeless_device timeless_simple timeless_condition)

lemma timelessD: "timeless m \<Longrightarrow> m sw = (r, sw') \<Longrightarrow> Current (snd sw') = Current (snd sw)"
  unfolding timeless_def op_keeps_def by (metis snd_conv)

interpretation transition: exact_polling "snd_clock fake_clock" "fetch_poll uni (on_device f) params" "stateless poll_resolved"
  for uni f params
  by unfold_locales
    (auto simp: on_snd_def split: prod.splits if_splits dest: timelessD [OF timeless_fetch])

text \<open>The poll the loop ended with.\<close>

definition ended_with where
  "ended_with uni f params w' P \<longleftrightarrow>
     (\<exists>sw p sw'. fetch_poll uni (on_device f) params sw = (Inr p, sw') \<and> snd sw' = w' \<and> P p)"

lemma transition_loop_returns:
  assumes pos: "0 < TimeoutMs params" "0 < IntervalMs params"
    and fuel: "fuel = nat (TimeoutMs params div IntervalMs params) + 2"
  shows "hard - Current (snd sw) \<le> int n * TimeoutMs params \<Longrightarrow>
    \<exists>r w'. transition_loop (Suc n) fuel uni fake_clock (on_device f) params hard sw = Some (r, w') \<and>
      Current (snd sw) \<le> Current w' \<and> Current w' \<le> max hard (Current (snd sw)) \<and>
      (case r of
         PollResolved \<Rightarrow> ended_with uni f params w' poll_resolved
       | PollError e \<Rightarrow> True
       | PollGaveUp \<Rightarrow> hard \<le> Current w' \<or>
           ended_with uni f params w' (\<lambda>p. \<not> poll_resolved p \<and> \<not> LDetected (PLoading p) \<and> \<not> MDetected (PMotion p)))"
proof (induction n arbitrary: sw)
  case 0
  then show ?case by simp
next
  case (Suc n)
  show ?case
  proof (cases "hard - Current (snd sw) \<le> 0")
    case True
    then show ?thesis by simp
  next
    case False
    define window where "window = min (TimeoutMs params) (hard - Current (snd sw))"
    let ?d = "Current (snd sw) + window"
    let ?loop = "wait_loop fuel (snd_clock fake_clock) ?d (IntervalMs params)
      (fetch_poll uni (on_device f) params) (stateless poll_resolved) None sw"
    have "?loop \<noteq> None"
      using transition.loop_returns [OF pos(2), of ?d sw "nat (TimeoutMs params div IntervalMs params) + 1"]
        ceiling_polls [OF pos(2), of "TimeoutMs params"] by (simp add: fuel window_def)
    then obtain r sw' where loop: "?loop = Some (r, sw')" by auto
    then have wait: "wait_until fuel (snd_clock fake_clock) window (IntervalMs params)
        (fetch_poll uni (on_device f) params) (stateless poll_resolved) sw = Some (r, sw')"
      by (simp add: wait_until_def)
    have time: "Current (snd sw) \<le> Current (snd sw')" "Current (snd sw') \<le> ?d"
      using transition.not_late [OF loop] False pos by (auto simp: window_def)
    note out = transition.loop_outcome [OF pos(2) loop]
    show ?thesis
    proof (cases r)
      case (Expired p)
      then have late: "?d \<le> Current (snd sw')"
        using out by auto
      from out Expired obtain sw0 where f: "fetch_poll uni (on_device f) params sw0 = (Inr p, sw')" "\<not> poll_resolved p"
        by auto
      show ?thesis
      proof (cases "hard \<le> Current (snd sw') \<or> (\<not> LDetected (PLoading p) \<and> \<not> MDetected (PMotion p))")
        case True
        with f have "hard \<le> Current (snd sw') \<or> ended_with uni f params (snd sw')
            (\<lambda>p. \<not> poll_resolved p \<and> \<not> LDetected (PLoading p) \<and> \<not> MDetected (PMotion p))"
          unfolding ended_with_def by blast
        with True Expired wait False time show ?thesis
          by (subst transition_loop.simps) (auto simp: Let_def window_def)
      next
        case again: False
        with late have "TimeoutMs params \<le> hard - Current (snd sw)"
          by (auto simp: window_def min_def split: if_splits)
        then have "hard - Current (snd sw') \<le> int n * TimeoutMs params"
          using Suc.prems late by (simp add: window_def algebra_simps)
        from Suc.IH [OF this] obtain r' w' where IH:
          "transition_loop (Suc n) fuel uni fake_clock (on_device f) params hard sw' = Some (r', w')"
          "Current (snd sw') \<le> Current w'" "Current w' \<le> max hard (Current (snd sw'))"
          "case r' of PollResolved \<Rightarrow> ended_with uni f params w' poll_resolved | PollError e \<Rightarrow> True
             | PollGaveUp \<Rightarrow> hard \<le> Current w' \<or> ended_with uni f params w'
                 (\<lambda>p. \<not> poll_resolved p \<and> \<not> LDetected (PLoading p) \<and> \<not> MDetected (PMotion p))"
          by auto
        have "transition_loop (Suc (Suc n)) fuel uni fake_clock (on_device f) params hard sw =
            transition_loop (Suc n) fuel uni fake_clock (on_device f) params hard sw'"
          using Expired wait False again by (subst transition_loop.simps) (simp only: Let_def, auto simp: window_def simp del: transition_loop.simps)
        moreover have "Current w' \<le> max hard (Current (snd sw))"
          using IH(3) again by auto
        ultimately show ?thesis
          using IH time by auto
      qed
    next
      case (Accepted p)
      with out obtain sw0 where "fetch_poll uni (on_device f) params sw0 = (Inr p, sw')" "poll_resolved p"
        by auto
      then have "ended_with uni f params (snd sw') poll_resolved"
        unfolding ended_with_def by blast
      with Accepted wait False time show ?thesis
        by (subst transition_loop.simps) (auto simp: Let_def window_def)
    next
      case (Aborted e l)
      with wait False time show ?thesis
        by (subst transition_loop.simps) (auto simp: Let_def window_def)
    qed
  qed
qed

declare transition_loop.simps [simp del]

definition same_time :: "'d fake_world \<Rightarrow> 'd fake_world \<Rightarrow> bool" where
  "same_time w w' \<longleftrightarrow> Current w' = Current w"

lemma same_time_bind:
  "op_keeps same_time m \<Longrightarrow> (\<And>a. op_keeps same_time (k a)) \<Longrightarrow> op_keeps same_time (op_bind m k)"
  by (rule op_keeps_bind) (auto simp: same_time_def intro: transpI)

lemma same_time_simple:
  "op_keeps same_time (op_return a)" "op_keeps same_time (\<lambda>w. op_return (g w) w)" "op_keeps same_time (on_device f)"
  by (auto simp: op_keeps_def same_time_def on_device_def split: prod.splits)

lemma same_time_map: "op_keeps same_time m \<Longrightarrow> op_keeps same_time (op_map g m)"
  unfolding op_map_def by (intro same_time_bind same_time_simple)

lemma same_time_condition: "op_keeps same_time (condition (on_device f) dflt ok s)"
  unfolding condition_def finder_find_def
  by (cases s) (auto intro!: same_time_map same_time_simple)

lemma classify_time: "op_keeps same_time (classify_transition_timeout uni fake_clock (on_device f) params startedAt)"
  unfolding classify_transition_timeout_def Let_def resolve_element_state_def finder_find_one_def finder_find_def
  by (intro same_time_bind same_time_map same_time_condition same_time_simple)

lemma classify_waited:
  assumes "classify_transition_timeout uni fake_clock (on_device f) params startedAt w = (Inr r, w')"
  shows "Current w' = Current w \<and> (\<exists>d. r = TransitionFailed (Current w' - startedAt) d)"
proof
  show "Current w' = Current w"
    using classify_time [of uni f params startedAt] assms
    unfolding op_keeps_def same_time_def by (metis snd_conv)
  show "\<exists>d. r = TransitionFailed (Current w' - startedAt) d"
    using assms by (auto simp: classify_transition_timeout_def op_bind_Inr_iff Let_def)
qed

text \<open>
  With positive timeouts and interval, \<^verbatim>\<open>WaitForTransition\<close> always returns, whatever the
  device does, within its hard deadline. It reports success only after a poll that met both
  conditions, and it gives up before the hard deadline only after a poll that met them not and saw
  neither a loading indicator nor motion. The reported waiting time is the time that passed.
\<close>

theorem wait_for_transition_returns:
  assumes "0 < TimeoutMs params" "0 < IntervalMs params"
  shows "\<exists>r w'. wait_for_transition (nat (MaxTimeoutMs params div TimeoutMs params) + 2)
        (nat (TimeoutMs params div IntervalMs params) + 2) uni fake_clock (on_device f) params w = Some (r, w') \<and>
      Current w \<le> Current w' \<and> Current w' \<le> Current w + max 0 (MaxTimeoutMs params) \<and>
      (case r of
         Inl e \<Rightarrow> True
       | Inr (TransitionOk ms by_field) \<Rightarrow>
           ms = Current w' - Current w \<and> by_field = ResolvedBy params \<and> ended_with uni f params w' poll_resolved
       | Inr (TransitionFailed ms d) \<Rightarrow>
           ms = Current w' - Current w \<and>
           (MaxTimeoutMs params \<le> ms \<or>
            (\<exists>w1. Current w1 = Current w' \<and> ended_with uni f params w1
               (\<lambda>p. \<not> poll_resolved p \<and> \<not> LDetected (PLoading p) \<and> \<not> MDetected (PMotion p)))))"
proof -
  let ?n = "nat (MaxTimeoutMs params div TimeoutMs params) + 1"
  let ?fuel = "nat (TimeoutMs params div IntervalMs params) + 2"
  let ?hard = "Current w + MaxTimeoutMs params"
  have "?hard - Current (snd (BeforeSnapshot params, w)) \<le> int ?n * TimeoutMs params"
    using ceiling_polls [OF assms(1), of "MaxTimeoutMs params"] by simp
  from transition_loop_returns [OF assms refl this, of uni f, unfolded snd_conv] obtain r w' where loop:
    "transition_loop (Suc ?n) ?fuel uni fake_clock (on_device f) params ?hard (BeforeSnapshot params, w) = Some (r, w')"
    "Current w \<le> Current w'" "Current w' \<le> max ?hard (Current w)"
    "case r of PollResolved \<Rightarrow> ended_with uni f params w' poll_resolved | PollError e \<Rightarrow> True
       | PollGaveUp \<Rightarrow> ?hard \<le> Current w' \<or> ended_with uni f params w'
           (\<lambda>p. \<not> poll_resolved p \<and> \<not> LDetected (PLoading p) \<and> \<not> MDetected (PMotion p))"
    by blast
  note loop(1) [simplified Suc_eq_plus1 add.assoc one_add_one, simp]
  show ?thesis
  proof (cases r)
    case PollGaveUp
    obtain r2 w2 where c: "classify_transition_timeout uni fake_clock (on_device f) params (Current w) w' = (r2, w2)"
      by force
    then have "Current w2 = Current w'"
      using classify_time [of uni f params "Current w"] unfolding op_keeps_def same_time_def by (metis snd_conv)
    moreover have "\<exists>d. r2 = Inr (TransitionFailed (Current w2 - Current w) d)" if "r2 = Inr x" for x
      using classify_waited [of uni f params "Current w" w' x w2] c that by auto
    ultimately show ?thesis
      using loop PollGaveUp c by (cases r2) (auto simp: wait_for_transition_def)
  qed (use loop in \<open>auto simp: wait_for_transition_def\<close>)
qed

definition example_params :: transition_params where
  "example_params =
     \<lparr>WaitForAbsent = None,
      WaitForAppear = Some \<lparr>SelID = Some (LiteralPattern ''home''), SelText = None, SelLabel = None, SelHint = None,
        SelValue = None, SelRole = None, SelEnabled = None, SelClickable = None, SelFocused = None, SelNth = None\<rparr>,
      TimeoutMs = 1000, MaxTimeoutMs = 3000, IntervalMs = 100, LoadingKeywords = [],
      TargetSelector = \<lparr>SelID = Some (LiteralPattern ''login''), SelText = None, SelLabel = None, SelHint = None,
        SelValue = None, SelRole = None, SelEnabled = None, SelClickable = None, SelFocused = None, SelNth = None\<rparr>,
      TargetPre = \<lparr>REFound = False, RERole = [], REEnabled = None, REClickable = None, REBounds = None\<rparr>,
      ResolvedBy = ''id'', BeforeSnapshot = []\<rparr>"

definition bare_screen :: tree_node where
  "bare_screen = TreeNode Map.empty [] None None None None None None"

theorem wait_for_transition_returns_witness:
  "\<exists>r w'. wait_for_transition 5 12 id fake_clock (on_device (\<lambda>d :: unit. (Inr bare_screen, d))) example_params
      \<lparr>Current = 0, Cancelled = False, Device = ()\<rparr> = Some (r, w') \<and> 0 \<le> Current w' \<and> Current w' \<le> 3000"
  using wait_for_transition_returns [of example_params id "\<lambda>d :: unit. (Inr bare_screen, d)"
      "\<lparr>Current = 0, Cancelled = False, Device = ()\<rparr>"] by (auto simp: example_params_def)

text \<open>
  Without a \<^verbatim>\<open>WaitForAppear\<close> condition the diagnosis still counts the anchor as missing: a
  transition no anchor was asked for is called partial, with a hint about the expected anchor,
  where the parameters are documented to treat a nil condition as satisfied.
\<close>

theorem partial_transition_without_anchor:
  "\<exists>d. fst (classify_transition_timeout id fake_clock (on_device (\<lambda>d :: unit. (Inr bare_screen, d)))
        (example_params\<lparr>WaitForAppear := None\<rparr>) 0 \<lparr>Current = 0, Cancelled = False, Device = ()\<rparr>) =
      Inr (TransitionFailed 0 d) \<and> FClassification d = PartialTransition"
proof -
  have walk: "walk bare_screen = [Cursor bare_screen None 0 0]"
    by (simp add: walk_def root_cursor_def child_cursors_def bare_screen_def)
  have "tree_node_to_compact_elements bare_screen = []"
    unfolding tree_node_to_compact_elements_def walk by (simp add: attr_def bare_screen_def parse_bounds_def)
  then show ?thesis
    by (simp add: classify_transition_timeout_def op_bind_def on_device_def op_map_def resolve_element_state_def
        finder_find_one_def finder_find_def walk condition_def example_params_def Let_def op_return_def
        detect_target_state_change_def no_target_change_def analyze_overlay_def detect_loading_def detect_motion_def
        diff_appeared_def merge_motion_def overlay_is_def classify_failure_def classify_def)
qed

end
