(* ===== verification/Ui_Orchestra.thy ===== *)
theory Ui_Orchestra
  imports Ui_Scroll Ui_Transition
begin

text \<open>
  The command layer (\<^verbatim>\<open>core/internal/orchestra/orchestra.go\<close>, \<^verbatim>\<open>action_result.go\<close>): one operation
  per method of \<^verbatim>\<open>Orchestra\<close>, over the driver port (\<^verbatim>\<open>core/internal/driver/driver.go\<close>,
  \<^verbatim>\<open>types.go\<close>). The state of an operation is the session of the \<^verbatim>\<open>Orchestra\<close> value beside the
  world of its driver and clock. Logging is left out.
\<close>

section \<open>The driver port\<close>

datatype gesture_phase = PhaseDown | PhaseMove | PhaseUp | PhaseCapture

record gesture_waypoint =
  WPhase :: gesture_phase
  WPoint :: point
  WAtOffsetSeconds :: f64
  WPressure :: "f64 option"

record gesture_pointer =
  PointerID :: string
  Waypoints :: "gesture_waypoint list"

type_synonym gesture = "gesture_pointer list"

record captured_image =
  ImageData :: "nat list"
  MimeType :: string

type_synonym gesture_result = "captured_image list"

text \<open>A key code is a string; the driver may support others than the eleven named ones.\<close>

type_synonym key_code = string

record key_result =
  KeyOk :: bool
  KeyReason :: string

record launch_args =
  LaunchArguments :: "string list"
  LaunchEnvironment :: "string \<rightharpoonup> string"
  NoReset :: "bool option"

record foreground_info =
  ForegroundBundleID :: "string option"
  ForegroundActivity :: string

record installed_app =
  BundleID :: string
  DisplayName :: string

record device_info =
  InfoPlatform :: string
  PlatformVersion :: string
  InfoModel :: string
  UDID :: string
  InfoKind :: string

record capabilities =
  CanScreenshot :: bool
  CanEraseText :: bool
  CanWaitForIdle :: bool
  CanSetLocation :: bool
  CanSetOrientation :: bool
  CanHideKeyboard :: bool
  CanQueryForeground :: bool
  CanMultiPointer :: bool
  CanPressure :: bool
  SupportedKeyCodes :: "key_code list"

record ('w, 'e) driver = "('w, 'e) scroll_driver" +
  DrvCapabilities :: capabilities
  DrvWaitForIdle :: "int \<Rightarrow> ('w, 'e, bool) op"
  DrvTap :: "point \<Rightarrow> ('w, 'e, unit) op"
  DrvLongPress :: "point \<Rightarrow> int \<Rightarrow> ('w, 'e, unit) op"
  DrvDispatchGesture :: "gesture \<Rightarrow> ('w, 'e, gesture_result) op"
  DrvInputText :: "string \<Rightarrow> ('w, 'e, unit) op"
  DrvEraseText :: "int \<Rightarrow> ('w, 'e, unit) op"
  DrvPressKey :: "key_code \<Rightarrow> ('w, 'e, key_result) op"
  DrvHideKeyboard :: "('w, 'e, key_result) op"
  DrvLaunchApp :: "string \<Rightarrow> launch_args \<Rightarrow> ('w, 'e, unit) op"
  DrvStopApp :: "string \<Rightarrow> ('w, 'e, unit) op"
  DrvKillApp :: "string \<Rightarrow> ('w, 'e, unit) op"
  DrvCurrentForeground :: "('w, 'e, foreground_info) op"
  DrvListApps :: "('w, 'e, installed_app list) op"
  DrvInstallApp :: "string \<Rightarrow> ('w, 'e, unit) op"
  DrvUninstallApp :: "string \<Rightarrow> ('w, 'e, unit) op"
  DrvClearAppData :: "string \<Rightarrow> string \<Rightarrow> ('w, 'e, unit) op"
  DrvIsAppInstalled :: "string \<Rightarrow> ('w, 'e, bool) op"
  DrvScreenshot :: "('w, 'e, nat list) op"
  DrvDeviceInfo :: "('w, 'e, device_info) op"

section \<open>Session, results and errors\<close>

record session =
  MaybeKeyboardOpen :: bool
  LaunchedApps :: "string set"

definition new_session :: session where
  "new_session = \<lparr>MaybeKeyboardOpen = False, LaunchedApps = {}\<rparr>"

text \<open>
  Errors: of the driver, the clock or the context; \<^verbatim>\<open>InputFocusError\<close> with its target; a rejected
  application id; an application that is not installed; an unsupported operation; a selector that
  \<^verbatim>\<open>ResolvePoint\<close> could not resolve. \<open>OutOfFuel\<close> stands for a wait that did not return.
\<close>

datatype 'e orch_error =
  Infra 'e | InputFocus string int | InvalidAppID app_id_error | AppNotInstalled string | Unsupported string |
  Unresolved string | OutOfFuel

record action_result =
  AOk :: bool
  AResolvedBy :: string
  ADetail :: string
  AReason :: string
  AObscurer :: "obscurer_info option"

definition action_ok :: "string \<Rightarrow> string \<Rightarrow> action_result" where
  "action_ok resolvedBy detail =
     \<lparr>AOk = True, AResolvedBy = resolvedBy, ADetail = detail, AReason = [], AObscurer = None\<rparr>"

definition action_fail :: "string \<Rightarrow> obscurer_info option \<Rightarrow> action_result" where
  "action_fail reason obscurer =
     \<lparr>AOk = False, AResolvedBy = [], ADetail = [], AReason = reason, AObscurer = obscurer\<rparr>"

type_synonym ('w, 'e, 'a) orch = "(session \<times> 'w, 'e orch_error, 'a) op"

text \<open>A driver call, a wait, and the assignments to the fields of the session.\<close>

definition call :: "('w, 'e, 'a) op \<Rightarrow> ('w, 'e, 'a) orch" where
  "call m = op_lift Infra (on_snd m)"

definition await :: "('w \<Rightarrow> (('a, 'e) wait_result \<times> 'w) option) \<Rightarrow> ('w, 'e, ('a, 'e) wait_result) orch" where
  "await m sw = (case m (snd sw) of None \<Rightarrow> (Inl OutOfFuel, sw) | Some (r, w') \<Rightarrow> (Inr r, (fst sw, w')))"

definition update_session :: "(session \<Rightarrow> session) \<Rightarrow> ('w, 'e, unit) orch" where
  "update_session g sw = (Inr (), (g (fst sw), snd sw))"

definition keyboard_hint :: "bool \<Rightarrow> ('w, 'e, unit) orch" where
  "keyboard_hint b = update_session (\<lambda>s. s\<lparr>MaybeKeyboardOpen := b\<rparr>)"

section \<open>Formatting\<close>

text \<open>\<^verbatim>\<open>math.Round\<close>: halves away from zero.\<close>

fun f_round :: "f64 \<Rightarrow> f64" where
  "f_round (Fin x) =
     (if 0 \<le> x then Fin (of_int \<lfloor>x + 1 / 2\<rfloor>)
      else if \<lfloor>- x + 1 / 2\<rfloor> = 0 then NZero else Fin (- of_int \<lfloor>- x + 1 / 2\<rfloor>))"
| "f_round a = a"

definition point_str :: "(f64 \<Rightarrow> int) \<Rightarrow> point \<Rightarrow> string" where
  "point_str wild p =
     ''('' @ itoa (f_to_int wild (f_round (X p))) @ '','' @ itoa (f_to_int wild (f_round (Y p))) @ '')''"

definition utf16_len :: "string \<Rightarrow> nat" where
  "utf16_len s = length (units_of s)"

definition format_bounds :: "bounds \<Rightarrow> string" where
  "format_bounds b =
     ''['' @ show_float (Left b) @ '','' @ show_float (Top b) @ '','' @ show_float (Right b) @ '','' @
       show_float (Bottom b) @ '']''"

fun scroll_message :: "unreachable_reason \<Rightarrow> string" where
  "scroll_message SearchExhausted = ''element not found after scroll-search (UP + DOWN budgets exhausted)''"
| "scroll_message (DidNotMove b n) =
     ''element at '' @ format_bounds b @ '' did not move after scroll iteration '' @ utoa n @
     ''. Likely at scroll-region edge.''"
| "scroll_message (LostAfterScroll n) =
     ''element lost after scroll attempt '' @ utoa n @
     '' because filter no longer matches after container reload''"
| "scroll_message (RemainedOffScreen n) = ''element remained off-screen after '' @ utoa n @ '' iterations''"

section \<open>Selector preparation\<close>

definition field_resolves :: "pattern option \<Rightarrow> string \<Rightarrow> tree_node \<Rightarrow> bool" where
  "field_resolves p key n \<longleftrightarrow>
     (case (p, Attributes n key) of (Some q, Some v) \<Rightarrow> pattern_matches q v | _ \<Rightarrow> False)"

definition guess_resolved_by :: "selector \<Rightarrow> tree_node \<Rightarrow> string" where
  "guess_resolved_by s n =
     (if field_resolves (SelID s) ''id'' n then ''id''
      else if field_resolves (SelLabel s) ''label'' n then ''label''
      else if field_resolves (SelText s) ''text'' n then ''text''
      else if field_resolves (SelValue s) ''value'' n then ''value''
      else if field_resolves (SelHint s) ''hint'' n then ''hint''
      else [])"

datatype prepared_action =
  Prepared (PPoint: point) (PBounds: bounds) (PCursor: cursor) (PResolvedBy: string) | Rejected action_result

text \<open>The checks on a resolved cursor.\<close>

definition obscured_reason :: "obscurer_info \<Rightarrow> string" where
  "obscured_reason ob =
     ''element is visually obscured by [role='' @ ObsRole ob @ '' id='' @ quote_text (ObsID ob) @
     '' label='' @ quote_text (ObsLabel ob) @ ''].'' @
     '' Dismiss the obscuring element, or call tap on the obscurer directly.''"

definition prepare_cursor :: "selector \<Rightarrow> cursor \<Rightarrow> prepared_action" where
  "prepare_cursor s c =
     (case detect_obscurement (root_of c) c of
        Some ob \<Rightarrow> Rejected (action_fail (obscured_reason ob) (Some ob))
      | None \<Rightarrow>
          (case cursor_bounds c of
             None \<Rightarrow> Rejected (action_fail ''element resolved but has no bounds attribute; cannot compute tap coordinate'' None)
           | Some b \<Rightarrow> Prepared (bounds_center b) b c (guess_resolved_by s (Node c))))"

definition prepare_selector_for_action ::
  "(f64 \<Rightarrow> int) \<Rightarrow> ('w, 'e) driver \<Rightarrow> ('w, 'e) clock \<Rightarrow> scroll_options \<Rightarrow> selector \<Rightarrow> bool \<Rightarrow>
   ('w, 'e, prepared_action) orch"
where
  "prepare_selector_for_action wild d clk opts s scrollToFind =
     (if scrollToFind then
        (\<lambda>sw. case on_snd (ensure_visible wild (scroll_driver.truncate d) clk opts (compile_selector s)) sw of
           (Inl (ScrollUnreachable reason b), sw') \<Rightarrow>
             (Inr (Rejected (action_fail (''could not scroll element into view: '' @ scroll_message reason) None)), sw')
         | (Inl (DriverError e), sw') \<Rightarrow> (Inl (Infra e), sw')
         | (Inr c, sw') \<Rightarrow> (Inr (prepare_cursor s c), sw'))
      else
        op_map
          (\<lambda>found. case found of
             [] \<Rightarrow> Rejected (action_fail ''element not found (scroll disabled via scrollToFind=false)'' None)
           | c # _ \<Rightarrow> prepare_cursor s c)
          (call (finder_find (Hierarchy d) (compile_selector s))))"

section \<open>Selector actions\<close>

definition keyboard_dismiss_timeout_ms :: int where "keyboard_dismiss_timeout_ms = 1000"
definition keyboard_dismiss_poll_ms :: int where "keyboard_dismiss_poll_ms = 50"
definition input_focus_settle_timeout_ms :: int where "input_focus_settle_timeout_ms = 1500"
definition input_focus_settle_poll_ms :: int where "input_focus_settle_poll_ms = 50"

text \<open>The polls of one wait: the longest timeout over the interval, and two.\<close>

definition wait_fuel :: nat where "wait_fuel = 32"

text \<open>Hiding the keyboard that covers the target; a keyboard that stays is not an error.\<close>

definition dismiss_keyboard :: "('w, 'e) driver \<Rightarrow> ('w, 'e) clock \<Rightarrow> ('w, 'e, unit) orch" where
  "dismiss_keyboard d clk =
     op_bind (call (DrvHideKeyboard d)) (\<lambda>_.
     op_bind (await (wait_for_keyboard wait_fuel clk (Hierarchy d) False keyboard_dismiss_timeout_ms keyboard_dismiss_poll_ms))
       (\<lambda>r. case r of
              Aborted e l \<Rightarrow> op_fail (Infra e)
            | _ \<Rightarrow> keyboard_hint False))"

text \<open>The recursive call of \<^verbatim>\<open>Tap\<close> is a further attempt.\<close>

fun tap_attempts ::
  "nat \<Rightarrow> (f64 \<Rightarrow> int) \<Rightarrow> ('w, 'e) driver \<Rightarrow> ('w, 'e) clock \<Rightarrow> scroll_options \<Rightarrow> selector \<Rightarrow> bool option \<Rightarrow>
   ('w, 'e, action_result) orch"
where
  "tap_attempts 0 wild d clk opts s scrollToFind = op_fail OutOfFuel"
| "tap_attempts (Suc n) wild d clk opts s scrollToFind =
     op_bind (prepare_selector_for_action wild d clk opts s (scrollToFind = None \<or> scrollToFind = Some True))
       (\<lambda>prepared. case prepared of
          Rejected r \<Rightarrow>
            (\<lambda>sw. if MaybeKeyboardOpen (fst sw) \<and> (case AObscurer r of None \<Rightarrow> False | Some ob \<Rightarrow> ObsRole ob = ''keyboard'')
                  then op_bind (dismiss_keyboard d clk) (\<lambda>_. tap_attempts n wild d clk opts s scrollToFind) sw
                  else op_return r sw)
        | Prepared p b c resolvedBy \<Rightarrow>
            op_bind (call (DrvTap d p)) (\<lambda>_.
              op_return (action_ok resolvedBy (''tapped at '' @ point_str wild p))))"

definition tap where
  "tap = tap_attempts 2"

definition long_press ::
  "(f64 \<Rightarrow> int) \<Rightarrow> ('w, 'e) driver \<Rightarrow> ('w, 'e) clock \<Rightarrow> scroll_options \<Rightarrow> selector \<Rightarrow> int \<Rightarrow> ('w, 'e, action_result) orch"
where
  "long_press wild d clk opts s durationMs =
     op_bind (prepare_selector_for_action wild d clk opts s True)
       (\<lambda>prepared. case prepared of
          Rejected r \<Rightarrow> op_return r
        | Prepared p b c resolvedBy \<Rightarrow>
            op_bind (call (DrvLongPress d p durationMs)) (\<lambda>_.
              op_return (action_ok resolvedBy
                (''long-pressed at '' @ point_str wild p @ '' for '' @ itoa durationMs @ ''ms''))))"

definition await_target_focus ::
  "('w, 'e) driver \<Rightarrow> ('w, 'e) clock \<Rightarrow> selector \<Rightarrow> string \<Rightarrow> ('w, 'e, unit) orch" where
  "await_target_focus d clk s resolvedBy =
     op_bind (await (wait_for_focus wait_fuel clk (Hierarchy d) s input_focus_settle_timeout_ms input_focus_settle_poll_ms))
       (\<lambda>r. case r of
              Accepted _ \<Rightarrow> op_return ()
            | Expired _ \<Rightarrow> op_fail (InputFocus resolvedBy input_focus_settle_timeout_ms)
            | Aborted e _ \<Rightarrow> op_fail (Infra e))"

definition empty_selector :: selector where
  "empty_selector =
     \<lparr>SelID = None, SelText = None, SelLabel = None, SelHint = None, SelValue = None, SelRole = None,
      SelEnabled = None, SelClickable = None, SelFocused = None, SelNth = None\<rparr>"

definition await_input_ready :: "('w, 'e) driver \<Rightarrow> ('w, 'e) clock \<Rightarrow> ('w, 'e, unit) orch" where
  "await_input_ready d clk =
     op_bind (await (wait_for_input_ready wait_fuel clk (Hierarchy d) empty_selector
         input_focus_settle_timeout_ms input_focus_settle_poll_ms))
       (\<lambda>r. case r of
              Accepted _ \<Rightarrow> op_return ()
            | Expired _ \<Rightarrow> op_fail (InputFocus [] input_focus_settle_timeout_ms)
            | Aborted e _ \<Rightarrow> op_fail (Infra e))"

definition input_text ::
  "(f64 \<Rightarrow> int) \<Rightarrow> ('w, 'e) driver \<Rightarrow> ('w, 'e) clock \<Rightarrow> scroll_options \<Rightarrow> selector \<Rightarrow> string \<Rightarrow> bool option \<Rightarrow>
   ('w, 'e, action_result) orch"
where
  "input_text wild d clk opts s text clearFirst =
     op_bind (prepare_selector_for_action wild d clk opts s True)
       (\<lambda>prepared. case prepared of
          Rejected r \<Rightarrow> op_return r
        | Prepared p b c resolvedBy \<Rightarrow>
            op_bind (call (DrvTap d p)) (\<lambda>_.
            op_bind (await_target_focus d clk s resolvedBy) (\<lambda>_.
            op_bind (if (clearFirst = None \<or> clearFirst = Some True) \<and> CanEraseText (DrvCapabilities d)
                     then call (DrvEraseText d 999) else op_return ()) (\<lambda>_.
            op_bind (call (DrvInputText d text)) (\<lambda>_.
            op_bind (keyboard_hint True) (\<lambda>_.
              op_return (action_ok resolvedBy
                (''typed '' @ utoa (utf16_len text) @ '' char(s) into field at '' @ point_str wild p))))))))"

definition result_reason :: "action_result \<Rightarrow> string" where
  "result_reason r = (if AReason r = [] then ''selector resolution failed without a reason'' else AReason r)"

definition resolve_with ::
  "(prepared_action \<Rightarrow> 'a) \<Rightarrow> (f64 \<Rightarrow> int) \<Rightarrow> ('w, 'e) driver \<Rightarrow> ('w, 'e) clock \<Rightarrow> scroll_options \<Rightarrow> selector \<Rightarrow>
   ('w, 'e, 'a) orch" where
  "resolve_with g wild d clk opts s =
     op_bind (prepare_selector_for_action wild d clk opts s True)
       (\<lambda>prepared. case prepared of
          Rejected r \<Rightarrow> op_fail (Unresolved (result_reason r))
        | Prepared p b c resolvedBy \<Rightarrow> op_return (g prepared))"

definition resolve_point where "resolve_point = resolve_with PPoint"
definition resolve_bounds where "resolve_bounds = resolve_with PBounds"

section \<open>Coordinates, gestures and keys\<close>

definition tap_at where "tap_at d p = call (DrvTap d p)"
definition long_press_at where "long_press_at d p durationMs = call (DrvLongPress d p durationMs)"
definition swipe_at where "swipe_at d p q durationMs = call (Swipe d p q durationMs)"
definition dispatch_gesture where "dispatch_gesture d g = call (DrvDispatchGesture d g)"

text \<open>A direction is a string in the code; any other than the four named ones moves nowhere.\<close>

datatype direction = DirUp | DirDown | DirLeft | DirRight | DirOther string

definition default_swipe_duration_ms :: int where "default_swipe_duration_ms = 200"
definition default_swipe_direction_fraction :: f64 where "default_swipe_direction_fraction = to_float False (6 / 10)"

definition compute_swipe_direction_endpoints :: "size \<Rightarrow> direction \<Rightarrow> f64 \<Rightarrow> point \<times> point" where
  "compute_swipe_direction_endpoints screen dir fraction =
     (let cx = half (Width screen); cy = half (Height screen);
          dx = (case dir of DirLeft \<Rightarrow> Fin (- 1) | DirRight \<Rightarrow> Fin 1 | _ \<Rightarrow> Fin 0);
          dy = (case dir of DirUp \<Rightarrow> Fin (- 1) | DirDown \<Rightarrow> Fin 1 | _ \<Rightarrow> Fin 0);
          amountX = half (f_mul (Width screen) fraction);
          amountY = half (f_mul (Height screen) fraction)
      in (mk_point (f_sub cx (half (f_mul dx amountX))) (f_sub cy (half (f_mul dy amountY))),
          mk_point (f_add cx (half (f_mul dx amountX))) (f_add cy (half (f_mul dy amountY)))))"

definition swipe_direction :: "('w, 'e) driver \<Rightarrow> direction \<Rightarrow> int option \<Rightarrow> f64 option \<Rightarrow> ('w, 'e, unit) orch" where
  "swipe_direction d dir durationMs fraction =
     op_bind (call (ScreenSize d)) (\<lambda>screen.
       let (p, q) = compute_swipe_direction_endpoints screen dir
             (case fraction of None \<Rightarrow> default_swipe_direction_fraction | Some f \<Rightarrow> f)
       in call (Swipe d p q (case durationMs of None \<Rightarrow> default_swipe_duration_ms | Some ms \<Rightarrow> ms)))"

definition press_key :: "('w, 'e) driver \<Rightarrow> key_code \<Rightarrow> ('w, 'e, action_result) orch" where
  "press_key d key =
     op_map
       (\<lambda>result.
          if KeyOk result then action_ok [] (KeyReason result)
          else action_fail (if KeyReason result = [] then ''pressKey('' @ key @ '') returned ok:false'' else KeyReason result) None)
       (call (DrvPressKey d key))"

definition type_text :: "('w, 'e) driver \<Rightarrow> ('w, 'e) clock \<Rightarrow> string \<Rightarrow> ('w, 'e, unit) orch" where
  "type_text d clk text = op_bind (await_input_ready d clk) (\<lambda>_. call (DrvInputText d text))"

definition erase_text :: "('w, 'e) driver \<Rightarrow> int \<Rightarrow> ('w, 'e, unit) orch" where
  "erase_text d n =
     (if \<not> CanEraseText (DrvCapabilities d) then
        op_fail (Unsupported ''driver does not support eraseText, so use pressKey('delete') N times'')
      else call (DrvEraseText d n))"

definition hide_keyboard :: "('w, 'e) driver \<Rightarrow> ('w, 'e, action_result) orch" where
  "hide_keyboard d =
     (if \<not> CanHideKeyboard (DrvCapabilities d) then op_return (action_fail ''driver does not support hideKeyboard'' None)
      else
        op_bind (call (DrvHideKeyboard d)) (\<lambda>result.
        op_bind (keyboard_hint False) (\<lambda>_.
          op_return (action_ok []
            (''hideKeyboard: '' @
             (if KeyReason result \<noteq> [] then KeyReason result else if KeyOk result then ''dispatched'' else ''no-op''))))))"

section \<open>Application lifecycle\<close>

text \<open>\<^verbatim>\<open>claimLaunch\<close> tells whether the application was launched already, and claims it otherwise.\<close>

definition claim_launch :: "string \<Rightarrow> ('w, 'e, bool) orch" where
  "claim_launch appID sw =
     (Inr (appID \<in> LaunchedApps (fst sw)),
      ((fst sw)\<lparr>LaunchedApps := insert appID (LaunchedApps (fst sw))\<rparr>, snd sw))"

definition release_launch_claim :: "string \<Rightarrow> ('w, 'e, unit) orch" where
  "release_launch_claim appID = update_session (\<lambda>s. s\<lparr>LaunchedApps := LaunchedApps s - {appID}\<rparr>)"

definition record_launch :: "string \<Rightarrow> ('w, 'e, unit) orch" where
  "record_launch appID = update_session (\<lambda>s. s\<lparr>LaunchedApps := insert appID (LaunchedApps s)\<rparr>)"

definition is_launched :: "session \<Rightarrow> string \<Rightarrow> bool" where
  "is_launched s appID \<longleftrightarrow> appID \<in> LaunchedApps s"

definition reset_launched_apps :: "('w, 'e, unit) orch" where
  "reset_launched_apps = update_session (\<lambda>s. s\<lparr>LaunchedApps := {}\<rparr>)"

definition with_app_id :: "string \<Rightarrow> ('w, 'e, 'a) orch \<Rightarrow> ('w, 'e, 'a) orch" where
  "with_app_id appID m =
     (case validate_app_id appID of Some err \<Rightarrow> op_fail (InvalidAppID err) | None \<Rightarrow> m)"

text \<open>\<^verbatim>\<open>defer\<close>-free cleanup: what runs when the operation failed, before its error is returned.\<close>

definition on_error :: "('w, 'e, 'a) orch \<Rightarrow> ('w, 'e, unit) orch \<Rightarrow> ('w, 'e, 'a) orch" where
  "on_error m cleanup sw = (case m sw of (Inl e, sw') \<Rightarrow> (Inl e, snd (cleanup sw')) | (Inr a, sw') \<Rightarrow> (Inr a, sw'))"

definition launch_installed :: "('w, 'e) driver \<Rightarrow> string \<Rightarrow> launch_args \<Rightarrow> ('w, 'e, unit) orch" where
  "launch_installed d appID args =
     op_bind (call (DrvListApps d)) (\<lambda>apps.
       if list_ex (\<lambda>app. BundleID app = appID) apps then call (DrvLaunchApp d appID args)
       else op_fail (AppNotInstalled appID))"

definition launch_app :: "('w, 'e) driver \<Rightarrow> string \<Rightarrow> launch_args \<Rightarrow> ('w, 'e, unit) orch" where
  "launch_app d appID args =
     with_app_id appID
       (if NoReset args = None \<or> NoReset args = Some True then
          op_bind (claim_launch appID) (\<lambda>already.
            if already then op_return ()
            else
              op_bind (on_error (launch_installed d appID args) (release_launch_claim appID)) (\<lambda>_.
                keyboard_hint False))
        else
          op_bind (launch_installed d appID args) (\<lambda>_.
          op_bind (keyboard_hint False) (\<lambda>_.
            record_launch appID)))"

definition stop_app :: "('w, 'e) driver \<Rightarrow> string \<Rightarrow> ('w, 'e, unit) orch" where
  "stop_app d appID = with_app_id appID (op_bind (call (DrvStopApp d appID)) (\<lambda>_. keyboard_hint False))"

definition kill_app :: "('w, 'e) driver \<Rightarrow> string \<Rightarrow> ('w, 'e, unit) orch" where
  "kill_app d appID = with_app_id appID (op_bind (call (DrvKillApp d appID)) (\<lambda>_. keyboard_hint False))"

definition list_apps where "list_apps d = call (DrvListApps d)"
definition current_foreground where "current_foreground d = call (DrvCurrentForeground d)"
definition install_app where "install_app d source = call (DrvInstallApp d source)"
definition uninstall_app where "uninstall_app d appID = with_app_id appID (call (DrvUninstallApp d appID))"
definition clear_app_data where "clear_app_data d appID source = with_app_id appID (call (DrvClearAppData d appID source))"
definition is_app_installed where "is_app_installed d appID = with_app_id appID (call (DrvIsAppInstalled d appID))"
definition read_device_info where "read_device_info d = call (DrvDeviceInfo d)"
definition screenshot where "screenshot d = call (DrvScreenshot d)"

section \<open>Idle detection\<close>

text \<open>
  The polling on the host. \<open>key\<close> is the comparison key of a snapshot, its JSON text. \<open>None\<close> is
  running out of fuel.
\<close>

definition idle_poll_ms :: int where "idle_poll_ms = 200"

fun idle_loop ::
  "nat \<Rightarrow> (tree_node \<Rightarrow> string) \<Rightarrow> ('w, 'e) clock \<Rightarrow> ('w, 'e, tree_node) op \<Rightarrow> int \<Rightarrow> string \<Rightarrow> 'w \<Rightarrow> (('e + bool) \<times> 'w) option"
where
  "idle_loop 0 key clk hierarchy deadline previousKey w = None"
| "idle_loop (Suc n) key clk hierarchy deadline previousKey w =
     (if deadline \<le> NowMs clk w then Some (Inr False, w)
      else
        (case CtxErr clk w of
           Some e \<Rightarrow> Some (Inl e, w)
         | None \<Rightarrow>
             (case SleepMs clk idle_poll_ms w of
                (Inl e, w1) \<Rightarrow> Some (Inl e, w1)
              | (Inr _, w1) \<Rightarrow>
                  (case hierarchy w1 of
                     (Inl e, w2) \<Rightarrow> Some (Inl e, w2)
                   | (Inr current, w2) \<Rightarrow>
                       if key current = previousKey then Some (Inr True, w2)
                       else idle_loop n key clk hierarchy deadline (key current) w2))))"

definition wait_for_idle_host_side ::
  "nat \<Rightarrow> (tree_node \<Rightarrow> string) \<Rightarrow> ('w, 'e) clock \<Rightarrow> ('w, 'e, tree_node) op \<Rightarrow> int \<Rightarrow> 'w \<Rightarrow>
   (('e + bool) \<times> 'w) option" where
  "wait_for_idle_host_side fuel key clk hierarchy timeoutMs w =
     (let deadline = NowMs clk w + timeoutMs in
      case hierarchy w of
        (Inl e, w1) \<Rightarrow> Some (Inl e, w1)
      | (Inr previous, w1) \<Rightarrow> idle_loop fuel key clk hierarchy deadline (key previous) w1)"

definition wait_for_idle :: "nat \<Rightarrow> (tree_node \<Rightarrow> string) \<Rightarrow> ('w, 'e) driver \<Rightarrow> ('w, 'e) clock \<Rightarrow> int \<Rightarrow> ('w, 'e, bool) orch" where
  "wait_for_idle fuel key d clk timeoutMs =
     (if CanWaitForIdle (DrvCapabilities d) then call (DrvWaitForIdle d timeoutMs)
      else (\<lambda>sw. case wait_for_idle_host_side fuel key clk (Hierarchy d) timeoutMs (snd sw) of
                   None \<Rightarrow> (Inl OutOfFuel, sw)
                 | Some (Inl e, w) \<Rightarrow> (Inl (Infra e), (fst sw, w))
                 | Some (Inr b, w) \<Rightarrow> (Inr b, (fst sw, w))))"

end
