(* ===== verification/Ui_Device_Log.thy ===== *)
theory Ui_Device_Log
  imports Ui_Orchestra
begin

text \<open>
  Observing a driver. \<open>logged_driver\<close> is any driver with a log of what was asked of the device
  beside its world; \<open>emits\<close> is the contract of an operation that appends to the log only events
  of a kind, with rules for every way the code composes operations.
\<close>

section \<open>Events\<close>

datatype device_event =
  HierarchyRead tree_node | Swiped point point | Tapped point | LongPressed point | Gestured gesture |
  Typed string | Erased int | KeyPressed key_code | KeyboardHidden | Launched string bool |
  Stopped string | Killed string | Installed string | Uninstalled string | Cleared string

definition logging ::
  "('e + 'a \<Rightarrow> device_event list) \<Rightarrow> ('w, 'e, 'a) op \<Rightarrow> ('w \<times> device_event list, 'e, 'a) op" where
  "logging ev m wl = (case m (fst wl) of (r, w') \<Rightarrow> (r, (w', snd wl @ ev r)))"

abbreviation unlogged :: "('w, 'e, 'a) op \<Rightarrow> ('w \<times> device_event list, 'e, 'a) op" where
  "unlogged \<equiv> logging (\<lambda>_. [])"

definition logged_clock :: "('w, 'e) clock \<Rightarrow> ('w \<times> device_event list, 'e) clock" where
  "logged_clock clk =
     \<lparr>NowMs = NowMs clk \<circ> fst, SleepMs = (\<lambda>ms. unlogged (SleepMs clk ms)), CtxErr = CtxErr clk \<circ> fst\<rparr>"

definition logged_driver :: "('w, 'e) driver \<Rightarrow> ('w \<times> device_event list, 'e) driver" where
  "logged_driver d =
     \<lparr>Hierarchy = logging (\<lambda>r. case r of Inl _ \<Rightarrow> [] | Inr tree \<Rightarrow> [HierarchyRead tree]) (Hierarchy d),
      Swipe = (\<lambda>p q ms. logging (\<lambda>_. [Swiped p q]) (Swipe d p q ms)),
      ScreenSize = unlogged (ScreenSize d),
      DrvCapabilities = DrvCapabilities d,
      DrvWaitForIdle = (\<lambda>ms. unlogged (DrvWaitForIdle d ms)),
      DrvTap = (\<lambda>p. logging (\<lambda>_. [Tapped p]) (DrvTap d p)),
      DrvLongPress = (\<lambda>p ms. logging (\<lambda>_. [LongPressed p]) (DrvLongPress d p ms)),
      DrvDispatchGesture = (\<lambda>g. logging (\<lambda>_. [Gestured g]) (DrvDispatchGesture d g)),
      DrvInputText = (\<lambda>t. logging (\<lambda>_. [Typed t]) (DrvInputText d t)),
      DrvEraseText = (\<lambda>n. logging (\<lambda>_. [Erased n]) (DrvEraseText d n)),
      DrvPressKey = (\<lambda>k. logging (\<lambda>_. [KeyPressed k]) (DrvPressKey d k)),
      DrvHideKeyboard = logging (\<lambda>_. [KeyboardHidden]) (DrvHideKeyboard d),
      DrvLaunchApp = (\<lambda>a args. logging (\<lambda>r. [Launched a (\<not> isl r)]) (DrvLaunchApp d a args)),
      DrvStopApp = (\<lambda>a. logging (\<lambda>_. [Stopped a]) (DrvStopApp d a)),
      DrvKillApp = (\<lambda>a. logging (\<lambda>_. [Killed a]) (DrvKillApp d a)),
      DrvCurrentForeground = unlogged (DrvCurrentForeground d),
      DrvListApps = unlogged (DrvListApps d),
      DrvInstallApp = (\<lambda>a. logging (\<lambda>_. [Installed a]) (DrvInstallApp d a)),
      DrvUninstallApp = (\<lambda>a. logging (\<lambda>_. [Uninstalled a]) (DrvUninstallApp d a)),
      DrvClearAppData = (\<lambda>a b. logging (\<lambda>_. [Cleared a]) (DrvClearAppData d a b)),
      DrvIsAppInstalled = (\<lambda>a. unlogged (DrvIsAppInstalled d a)),
      DrvScreenshot = unlogged (DrvScreenshot d),
      DrvDeviceInfo = unlogged (DrvDeviceInfo d)\<rparr>"

section \<open>Emitting only events of a kind\<close>

definition extends :: "('l \<Rightarrow> bool) \<Rightarrow> 'l list \<Rightarrow> 'l list \<Rightarrow> bool" where
  "extends Q old new \<longleftrightarrow> (\<exists>es. new = old @ es \<and> list_all Q es)"

lemma extends_refl [simp, intro]: "extends Q xs xs"
  by (simp add: extends_def)

lemma extends_trans: "extends Q xs ys \<Longrightarrow> extends Q ys zs \<Longrightarrow> extends Q xs zs"
  by (auto simp: extends_def)

lemma extends_append: "list_all Q es \<Longrightarrow> extends Q xs (xs @ es)"
  by (auto simp: extends_def)

definition emits :: "('w \<Rightarrow> 'l list) \<Rightarrow> ('l \<Rightarrow> bool) \<Rightarrow> ('w, 'e, 'a) op \<Rightarrow> bool" where
  "emits lg Q = op_keeps (\<lambda>w w'. extends Q (lg w) (lg w'))"

lemma emits_bind [intro]: "emits lg Q m \<Longrightarrow> (\<And>a. emits lg Q (k a)) \<Longrightarrow> emits lg Q (op_bind m k)"
  unfolding emits_def by (rule op_keeps_bind) (auto intro: transpI extends_trans)

lemma emits_simple [simp, intro]: "emits lg Q (op_return a)" "emits lg Q (op_fail e)"
  by (simp_all add: emits_def op_keeps_def)

lemma emits_lift [intro]: "emits lg Q m \<Longrightarrow> emits lg Q (op_lift g m)"
  unfolding emits_def by (rule op_keeps_lift)

lemma emits_map [intro]: "emits lg Q m \<Longrightarrow> emits lg Q (op_map g m)"
  unfolding op_map_def by auto

lemma emits_on_snd [intro]: "emits lg Q m \<Longrightarrow> emits (lg \<circ> snd) Q (on_snd m)"
  unfolding emits_def op_keeps_def on_snd_def by (auto split: prod.split) (metis snd_conv)

lemma emits_call: "emits lg Q m \<Longrightarrow> emits (lg \<circ> snd) Q (call m)"
  unfolding call_def by auto

lemma emits_update_session [intro]: "emits (lg \<circ> snd) Q (update_session g)"
  by (simp add: emits_def op_keeps_def update_session_def)

lemma emitsD: "emits lg Q m \<Longrightarrow> m w = (r, w') \<Longrightarrow> extends Q (lg w) (lg w')"
  unfolding emits_def op_keeps_def by (metis snd_conv)

lemma emitsI: "(\<And>w r w'. m w = (r, w') \<Longrightarrow> extends Q (lg w) (lg w')) \<Longrightarrow> emits lg Q m"
  unfolding emits_def op_keeps_def by (metis prod.collapse)

lemma emits_logging: "(\<And>r. list_all Q (ev r)) \<Longrightarrow> emits snd Q (logging ev m)"
  by (rule emitsI) (auto simp: logging_def extends_append split: prod.splits)

lemma emits_mono: "emits lg Q m \<Longrightarrow> (\<And>e. Q e \<Longrightarrow> Q' e) \<Longrightarrow> emits lg Q' m"
  unfolding emits_def op_keeps_def extends_def by (metis (full_types) list.pred_mono_strong)

section \<open>Scrolling and waiting\<close>

text \<open>What the scroll controller and the waits may use: reads, swipes and sleeping.\<close>

locale observed =
  fixes lg :: "'w \<Rightarrow> 'l list" and Q :: "'l \<Rightarrow> bool"
    and d :: "('w, 'e) scroll_driver" and clk :: "('w, 'e) clock"
  assumes read_emits: "emits lg Q (Hierarchy d)"
    and swipe_emits: "emits lg Q (Swipe d p q ms)"
    and size_emits: "emits lg Q (ScreenSize d)"
    and sleep_emits: "emits lg Q (SleepMs clk ms)"
begin

lemma find_emits: "emits lg Q (finder_find (Hierarchy d) f)"
  unfolding finder_find_def using read_emits by auto

lemma search_emits: "emits lg Q (search_direction n wild d clk opts f screen dir sig tree)"
proof (induction n arbitrary: sig tree)
  case (Suc n)
  show ?case
    unfolding search_direction.simps swipe_center_def Let_def
    by (auto intro!: emits_bind swipe_emits sleep_emits read_emits Suc.IH split: prod.split list.split)
qed simp

lemma scroll_search_emits: "emits lg Q (scroll_search wild d clk opts f screen)"
  unfolding scroll_search_def Let_def
  by (auto intro!: emits_bind read_emits search_emits split: sum.split)

lemma position_emits: "emits lg Q (position_loop n it d clk opts f screen prev c)"
proof (induction n arbitrary: it prev c)
  case (Suc n)
  show ?case
    unfolding position_loop.simps scroll_toward_element_def Let_def
    by (auto intro!: emits_bind emits_lift swipe_emits sleep_emits find_emits Suc.IH
        split: prod.split list.split option.split)
qed simp

lemma ensure_visible_emits: "emits lg Q (ensure_visible wild d clk opts f)"
  unfolding ensure_visible_def
  by (auto intro!: emits_bind emits_lift size_emits find_emits scroll_search_emits position_emits
      split: list.split option.split)

lemma wait_extends:
  "emits lg Q fetch \<Longrightarrow> wait_loop n clk deadline interval fetch (stateless P) lastv w = Some (r, w') \<Longrightarrow>
     extends Q (lg w) (lg w')"
proof (induction n arbitrary: lastv w)
  case (Suc n)
  obtain r1 w1 where f: "fetch w = (r1, w1)" by force
  have e1: "extends Q (lg w) (lg w1)"
    using Suc.prems(1) f by (rule emitsD)
  obtain r2 w2 where s: "SleepMs clk (min interval (deadline - NowMs clk w1)) w1 = (r2, w2)" by force
  have e2: "extends Q (lg w) (lg w2)"
    using e1 emitsD [OF sleep_emits s] by (rule extends_trans)
  show ?case
    using Suc.prems f s e1 e2 Suc.IH [OF Suc.prems(1), of _ w2] extends_trans [OF e2]
    by (auto simp: Let_def split: option.splits sum.splits bool.splits if_splits)
qed simp

lemma wait_accepted:
  "emits lg Q fetch \<Longrightarrow> wait_loop n clk deadline interval fetch (stateless P) lastv w = Some (Accepted v, w') \<Longrightarrow>
     \<exists>w0. fetch w0 = (Inr v, w') \<and> P v \<and> extends Q (lg w) (lg w0)"
proof (induction n arbitrary: lastv w)
  case (Suc n)
  obtain r1 w1 where f: "fetch w = (r1, w1)" by force
  have e1: "extends Q (lg w) (lg w1)"
    using Suc.prems(1) f by (rule emitsD)
  obtain r2 w2 where s: "SleepMs clk (min interval (deadline - NowMs clk w1)) w1 = (r2, w2)" by force
  have e2: "extends Q (lg w) (lg w2)"
    using e1 emitsD [OF sleep_emits s] by (rule extends_trans)
  show ?case
  proof (cases "\<exists>v1. r1 = Inr v1 \<and> \<not> P v1 \<and> CtxErr clk w = None \<and> 0 < deadline - NowMs clk w1 \<and> (\<exists>u. r2 = Inr u)")
    case True
    then obtain v1 where "wait_loop n clk deadline interval fetch (stateless P) (Some v1) w2 = Some (Accepted v, w')"
      using Suc.prems f s by (auto simp: Let_def)
    from Suc.IH [OF Suc.prems(1) this] obtain w0 where
      "fetch w0 = (Inr v, w')" "P v" "extends Q (lg w2) (lg w0)" by auto
    with extends_trans [OF e2] show ?thesis by blast
  next
    case False
    with Suc.prems f s show ?thesis
      by (auto simp: Let_def split: option.splits sum.splits bool.splits if_splits)
  qed
qed simp

lemma await_emits: "emits lg Q fetch \<Longrightarrow> emits (lg \<circ> snd) Q (await (wait_until n clk timeout interval fetch (stateless P)))"
  by (rule emitsI) (auto simp: await_def wait_until_def dest: wait_extends split: option.splits prod.splits)

lemma await_tree_emits:
  "emits (lg \<circ> snd) Q (await (wait_until n clk timeout interval (fetch_tree (Hierarchy d) g) (stateless P)))"
  unfolding fetch_tree_def using read_emits by (intro await_emits) auto

end

definition is_passive :: "device_event \<Rightarrow> bool" where
  "is_passive e \<longleftrightarrow> (case e of HierarchyRead _ \<Rightarrow> True | Swiped _ _ \<Rightarrow> True | _ \<Rightarrow> False)"

lemma truncate_simps [simp]:
  "Hierarchy (scroll_driver.truncate r) = Hierarchy r" "Swipe (scroll_driver.truncate r) = Swipe r"
  "ScreenSize (scroll_driver.truncate r) = ScreenSize r"
  by (simp_all add: scroll_driver.truncate_def)

interpretation logged: observed snd is_passive "scroll_driver.truncate (logged_driver d)" "logged_clock clk" for d clk
  by unfold_locales
    (auto simp: logged_driver_def logged_clock_def scroll_driver.truncate_def is_passive_def
      intro!: emits_logging split: sum.split)

end
