(* ===== verification/Ui_Orchestra_Props.thy ===== *)
theory Ui_Orchestra_Props
  imports Ui_Device_Log
begin

text \<open>
  What the commands ask of the device: taps go to targets that were found in a tree that was read
  and that nothing covers, text is typed only into a field seen to hold focus, and an application
  is launched at most once per flow.
\<close>

section \<open>The session\<close>

lemma on_snd_iff: "on_snd m sw = (r, sw') \<longleftrightarrow> m (snd sw) = (r, snd sw') \<and> fst sw' = fst sw"
  by (cases sw') (auto simp: on_snd_def split: prod.splits)

lemma call_Inr_iff: "call m sw = (Inr a, sw') \<longleftrightarrow> m (snd sw) = (Inr a, snd sw') \<and> fst sw' = fst sw"
  by (simp add: call_def op_lift_Inr_iff on_snd_iff)

definition session_kept :: "('w, 'e, 'a) orch \<Rightarrow> bool" where
  "session_kept = op_keeps (\<lambda>sw sw'. fst sw' = fst sw)"

lemma session_kept_simple [intro]:
  "session_kept (call m)" "session_kept (await g)" "session_kept (op_return a)" "session_kept (op_fail e)"
  by (auto simp: session_kept_def op_keeps_def call_def await_def on_snd_def op_lift_def split: prod.splits sum.splits option.splits)

lemma session_kept_bind [intro]: "session_kept m \<Longrightarrow> (\<And>a. session_kept (k a)) \<Longrightarrow> session_kept (op_bind m k)"
  unfolding session_kept_def by (rule op_keeps_bind) (auto intro: transpI)

lemma session_kept_map [intro]: "session_kept m \<Longrightarrow> session_kept (op_map g m)"
  unfolding op_map_def by auto

lemma session_keptD: "session_kept m \<Longrightarrow> m sw = (r, sw') \<Longrightarrow> fst sw' = fst sw"
  unfolding session_kept_def op_keeps_def by (metis snd_conv)

lemma prepare_session: "session_kept (prepare_selector_for_action wild d clk opts s b)"
  unfolding prepare_selector_for_action_def session_kept_def op_keeps_def
  by (auto simp: op_map_def op_bind_def call_def on_snd_def op_lift_def
      split: prod.splits sum.splits scroll_error.splits list.splits)

section \<open>One retry is enough\<close>

lemma dismiss_clears: "dismiss_keyboard d clk sw = (Inr u, sw') \<Longrightarrow> \<not> MaybeKeyboardOpen (fst sw')"
  by (clarsimp simp: dismiss_keyboard_def op_bind_Inr_iff)
    (auto simp: keyboard_hint_def update_session_def split: wait_result.splits)

lemma tap_without_keyboard:
  "\<not> MaybeKeyboardOpen (fst sw) \<Longrightarrow>
     tap_attempts (Suc n) wild d clk opts s b sw = tap_attempts (Suc m) wild d clk opts s b sw"
  using session_keptD [OF prepare_session, of wild d clk opts s "b = None \<or> b = Some True" sw]
  by (auto simp: op_bind_def split: prod.splits sum.splits prepared_action.splits)

text \<open>
  The recursion of \<^verbatim>\<open>Tap\<close> ends after one retry: granting it more attempts never changes what
  it does, for any driver, clock and session.
\<close>

theorem tap_retries_once: "tap_attempts (n + 2) wild d clk opts s b = tap wild d clk opts s b"
proof -
  have "op_bind (dismiss_keyboard d clk) (\<lambda>_. tap_attempts (Suc n) wild d clk opts s b) sw =
      op_bind (dismiss_keyboard d clk) (\<lambda>_. tap_attempts (Suc 0) wild d clk opts s b) sw" for sw
  proof -
    obtain r sw' where Pair: "dismiss_keyboard d clk sw = (r, sw')"
      by (metis surj_pair)
    show ?thesis
    proof (cases r)
      case (Inr u)
      with Pair tap_without_keyboard [OF dismiss_clears, of d clk sw u sw' n wild d clk opts s b 0]
      show ?thesis by (simp add: op_bind_def del: tap_attempts.simps)
    qed (use Pair in \<open>simp add: op_bind_def del: tap_attempts.simps\<close>)
  qed
  then have retry: "op_bind (dismiss_keyboard d clk) (\<lambda>_. tap_attempts (Suc n) wild d clk opts s b) =
      op_bind (dismiss_keyboard d clk) (\<lambda>_. tap_attempts (Suc 0) wild d clk opts s b)"
    by blast
  have "tap_attempts (Suc (Suc n)) wild d clk opts s b = tap_attempts (Suc (Suc 0)) wild d clk opts s b"
    unfolding tap_attempts.simps(2) [of "Suc n"] tap_attempts.simps(2) [of "Suc 0"] retry ..
  then show ?thesis
    by (simp add: tap_def numeral_2_eq_2 del: tap_attempts.simps)
qed

section \<open>Where taps go\<close>

definition found_in :: "device_event list \<Rightarrow> element_filter_fun \<Rightarrow> cursor \<Rightarrow> bool" where
  "found_in l f c \<longleftrightarrow> (\<exists>tree. HierarchyRead tree \<in> set l \<and> c \<in> set (f (walk tree)))"

lemma found_in_extends: "found_in l f c \<Longrightarrow> extends Q l l' \<Longrightarrow> found_in l' f c"
  by (auto simp: found_in_def extends_def)

lemma read_logged: "Hierarchy (logged_driver d) w = (Inr tree, w') \<Longrightarrow> snd w' = snd w @ [HierarchyRead tree]"
  by (auto simp: logged_driver_def logging_def split: prod.splits sum.splits)

lemma find_found:
  "finder_find (Hierarchy (logged_driver d)) f w = (Inr cs, w') \<Longrightarrow> c \<in> set cs \<Longrightarrow> found_in (snd w') f c"
  by (auto simp: finder_find_def op_map_Inr_iff found_in_def dest!: read_logged)

abbreviation truncated where
  "truncated d \<equiv> scroll_driver.truncate (logged_driver d)"

lemma search_found:
  "search_direction n wild (truncated d) (logged_clock clk) opts f screen dir sig tree w = (Inr (Inr c), w') \<Longrightarrow>
     found_in (snd w') f c"
proof (induction n arbitrary: sig tree w)
  case (Suc n)
  then show ?case
    by (clarsimp simp: op_bind_Inr_iff Let_def)
      (auto simp: found_in_def Let_def dest!: read_logged split: list.splits if_splits)
qed simp

lemma scroll_search_found:
  assumes "scroll_search wild (truncated d) (logged_clock clk) opts f screen w = (Inr (Some c), w')"
  shows "found_in (snd w') f c"
proof -
  obtain n tree w1 r w2 where up:
    "search_direction n wild (truncated d) (logged_clock clk) opts f screen ScrollUp (hash_visible_leaves wild tree) tree w1 = (Inr r, w2)"
    and rest: "(case r of Inr c \<Rightarrow> op_return (Some c)
       | Inl tree1 \<Rightarrow> op_bind (search_direction n wild (truncated d) (logged_clock clk) opts f screen ScrollDown
            (hash_visible_leaves wild tree1) tree1)
           (\<lambda>r'. op_return (case r' of Inr c \<Rightarrow> Some c | Inl _ \<Rightarrow> None))) w2 = (Inr (Some c), w')"
    using assms unfolding scroll_search_def Let_def op_bind_Inr_iff truncate_simps by blast
  show ?thesis
  proof (cases r)
    case (Inr c1)
    with up rest show ?thesis by (auto intro: search_found)
  next
    case (Inl tree1)
    with rest obtain r' where
      "search_direction n wild (truncated d) (logged_clock clk) opts f screen ScrollDown (hash_visible_leaves wild tree1) tree1 w2 =
        (Inr r', w')" "(case r' of Inr c \<Rightarrow> Some c | Inl _ \<Rightarrow> None) = Some c"
      by (auto simp: op_bind_Inr_iff)
    then show ?thesis
      by (cases r') (auto intro: search_found)
  qed
qed

lemma position_found:
  "position_loop n it (truncated d) (logged_clock clk) opts f screen prev c0 w = (Inr c, w') \<Longrightarrow>
     found_in (snd w) f c0 \<Longrightarrow> found_in (snd w') f c"
proof (induction n arbitrary: it prev c0 w)
  case (Suc n)
  show ?case
  proof (cases "cursor_bounds c0")
    case None
    with Suc.prems show ?thesis by simp
  next
    case (Some b)
    with Suc.prems show ?thesis
      by (clarsimp simp: op_bind_Inr_iff op_lift_Inr_iff split: if_splits)
        (auto split: list.splits intro!: Suc.IH intro: find_found)
  qed
qed simp

lemma ensure_visible_found:
  assumes "ensure_visible wild (truncated d) (logged_clock clk) opts f w = (Inr c, w')"
  shows "found_in (snd w') f c"
  using assms
  by (clarsimp simp: ensure_visible_def op_bind_Inr_iff op_lift_Inr_iff)
    (auto simp: op_bind_Inr_iff op_lift_Inr_iff elim!: position_found split: list.splits option.splits
      intro: find_found scroll_search_found)

text \<open>A point that is the centre of a found element which nothing covers in its tree.\<close>

definition tap_target :: "element_filter_fun \<Rightarrow> device_event list \<Rightarrow> point \<Rightarrow> bool" where
  "tap_target f l p \<longleftrightarrow>
     (\<exists>c b. found_in l f c \<and> detect_obscurement (root_of c) c = None \<and> cursor_bounds c = Some b \<and> p = bounds_center b)"

lemma prepare_emits:
  "emits (snd \<circ> snd) is_passive (prepare_selector_for_action wild (logged_driver d) (logged_clock clk) opts s b)"
proof (cases b)
  case True
  show ?thesis
  proof (rule emitsI)
    fix sw :: "session \<times> 'a \<times> device_event list" and r sw'
    obtain r0 sw0 where e: "on_snd (ensure_visible wild (truncated d) (logged_clock clk) opts (compile_selector s)) sw = (r0, sw0)"
      by (metis surj_pair)
    assume "prepare_selector_for_action wild (logged_driver d) (logged_clock clk) opts s b sw = (r, sw')"
    then have "sw' = sw0"
      using e True by (auto simp: prepare_selector_for_action_def split: sum.splits scroll_error.splits)
    with emitsD [OF emits_on_snd [OF logged.ensure_visible_emits] e]
    show "extends is_passive ((snd \<circ> snd) sw) ((snd \<circ> snd) sw')"
      by simp
  qed
next
  case False
  then show ?thesis
    using logged.find_emits by (auto simp: prepare_selector_for_action_def intro!: emits_map emits_call)
qed

lemma prepare_cursor_target:
  "prepare_cursor s c = Prepared p b c' by_field \<Longrightarrow> found_in l f c \<Longrightarrow> tap_target f l p"
  by (auto simp: prepare_cursor_def tap_target_def split: option.splits)

lemma prepared_target:
  assumes "prepare_selector_for_action wild (logged_driver d) (logged_clock clk) opts s sc sw = (Inr (Prepared p b c by_field), sw')"
  shows "tap_target (compile_selector s) (snd (snd sw')) p"
proof (cases sc)
  case True
  obtain r w' where e: "ensure_visible wild (truncated d) (logged_clock clk) opts (compile_selector s) (snd sw) = (r, w')"
    by (metis surj_pair)
  then have on: "on_snd (ensure_visible wild (truncated d) (logged_clock clk) opts (compile_selector s)) sw = (r, (fst sw, w'))"
    by (simp add: on_snd_iff)
  show ?thesis
  proof (cases r)
    case (Inl e0)
    with on True assms show ?thesis
      by (cases e0) (auto simp: prepare_selector_for_action_def)
  next
    case (Inr c0)
    with on True assms have "prepare_cursor s c0 = Prepared p b c by_field" "sw' = (fst sw, w')"
      by (auto simp: prepare_selector_for_action_def)
    with ensure_visible_found [of wild d clk opts "compile_selector s" "snd sw" c0 w'] e Inr show ?thesis
      by (auto intro: prepare_cursor_target)
  qed
next
  case False
  then obtain cs where "finder_find (Hierarchy (logged_driver d)) (compile_selector s) (snd sw) = (Inr cs, snd sw')"
    "Prepared p b c by_field = (case cs of [] \<Rightarrow> Rejected (action_fail ''element not found (scroll disabled via scrollToFind=false)'' None)
       | c # _ \<Rightarrow> prepare_cursor s c)"
    using assms by (auto simp: prepare_selector_for_action_def op_map_Inr_iff call_Inr_iff)
  then show ?thesis
    by (cases cs) (auto intro!: prepare_cursor_target [OF sym] find_found)
qed

definition before_tap :: "device_event \<Rightarrow> bool" where
  "before_tap e \<longleftrightarrow> is_passive e \<or> e = KeyboardHidden"

lemma passive_before: "is_passive e \<Longrightarrow> before_tap e"
  by (simp add: before_tap_def)

lemma cursor_rejected: "prepare_cursor s c = Rejected a \<Longrightarrow> \<not> AOk a"
  by (auto simp: prepare_cursor_def action_fail_def split: option.splits)

lemma rejected_not_ok:
  assumes "prepare_selector_for_action wild d clk opts s sc sw = (Inr (Rejected a), sw')"
  shows "\<not> AOk a"
proof (cases sc)
  case True
  obtain r sw1 where e: "on_snd (ensure_visible wild (scroll_driver.truncate d) clk opts (compile_selector s)) sw = (r, sw1)"
    by (metis surj_pair)
  show ?thesis
  proof (cases r)
    case (Inl e0)
    with e True assms show ?thesis
      by (cases e0) (auto simp: prepare_selector_for_action_def action_fail_def)
  next
    case Inr
    with e True assms show ?thesis
      by (auto simp: prepare_selector_for_action_def dest: cursor_rejected)
  qed
next
  case False
  then obtain cs where "Rejected a = (case cs of
      [] \<Rightarrow> Rejected (action_fail ''element not found (scroll disabled via scrollToFind=false)'' None)
    | c # _ \<Rightarrow> prepare_cursor s c)"
    using assms by (auto simp: prepare_selector_for_action_def op_map_Inr_iff)
  then show ?thesis
    by (cases cs) (auto simp: action_fail_def dest!: cursor_rejected [OF sym])
qed

lemma dismiss_emits: "emits (snd \<circ> snd) before_tap (dismiss_keyboard (logged_driver d) (logged_clock clk))"
proof -
  have hide: "emits (snd \<circ> snd) before_tap (call (DrvHideKeyboard (logged_driver d)))"
    by (rule emits_call) (simp add: logged_driver_def emits_logging before_tap_def)
  have wait: "emits (snd \<circ> snd) before_tap (await (wait_for_keyboard n (logged_clock clk) (Hierarchy (logged_driver d)) v t i))"
    for n v t i
    unfolding wait_for_keyboard_def
    by (rule emits_mono [OF logged.await_tree_emits [unfolded truncate_simps] passive_before])
  show ?thesis
    unfolding dismiss_keyboard_def keyboard_hint_def
    by (intro emits_bind hide wait) (auto split: wait_result.split)
qed

text \<open>The log of a tap: it ends with the tap, or there is none.\<close>

definition tap_log :: "element_filter_fun \<Rightarrow> 'e orch_error + action_result \<Rightarrow> device_event list \<Rightarrow> bool" where
  "tap_log f r l \<longleftrightarrow>
     (list_all before_tap l \<and> (case r of Inl _ \<Rightarrow> True | Inr a \<Rightarrow> \<not> AOk a)) \<or>
     (\<exists>pre p. l = pre @ [Tapped p] \<and> list_all before_tap pre \<and> tap_target f pre p \<and>
        (case r of Inl _ \<Rightarrow> True | Inr a \<Rightarrow> AOk a))"

lemma extends_all: "extends Q l l' \<Longrightarrow> (\<And>e. Q e \<Longrightarrow> P e) \<Longrightarrow> list_all P l \<Longrightarrow> list_all P l'"
  by (auto simp: extends_def list_all_iff)

lemma tap_attempts_log:
  "list_all before_tap (snd (snd sw)) \<Longrightarrow>
   tap_attempts n wild (logged_driver d) (logged_clock clk) opts s b sw = (r, sw') \<Longrightarrow>
     tap_log (compile_selector s) r (snd (snd sw'))"
proof (induction n arbitrary: sw)
  case 0
  then show ?case by (auto simp: tap_log_def)
next
  case (Suc n)
  let ?prepare = "prepare_selector_for_action wild (logged_driver d) (logged_clock clk) opts s (b = None \<or> b = Some True)"
  obtain rp sw1 where p: "?prepare sw = (rp, sw1)"
    by (metis surj_pair)
  have l1: "list_all before_tap (snd (snd sw1))"
    by (rule extends_all [OF emitsD [OF prepare_emits p, unfolded comp_def] passive_before Suc.prems(1)])
  show ?case
  proof (cases rp)
    case (Inl e)
    with Suc.prems p l1 show ?thesis
      by (auto simp: tap_log_def op_bind_def)
  next
    case (Inr prepared)
    show ?thesis
    proof (cases prepared)
      case (Prepared pt bs c by_field)
      obtain r2 sw2 where t: "call (DrvTap (logged_driver d) pt) sw1 = (r2, sw2)"
        by (metis surj_pair)
      then have l2: "snd (snd sw2) = snd (snd sw1) @ [Tapped pt]"
        by (auto simp: call_def op_lift_def on_snd_def logged_driver_def logging_def split: prod.splits sum.splits)
      have target: "tap_target (compile_selector s) (snd (snd sw1)) pt"
        using prepared_target p Inr Prepared by blast
      have "sw' = sw2 \<and> (case r of Inl _ \<Rightarrow> True | Inr a \<Rightarrow> AOk a)"
        using Suc.prems(2) p Inr Prepared t by (auto simp: op_bind_def action_ok_def split: sum.splits)
      with l1 l2 target show ?thesis
        by (auto simp: tap_log_def)
    next
      case (Rejected a)
      have nok: "\<not> AOk a"
        using rejected_not_ok p Inr Rejected by blast
      show ?thesis
      proof (cases "MaybeKeyboardOpen (fst sw1) \<and> (case AObscurer a of None \<Rightarrow> False | Some ob \<Rightarrow> ObsRole ob = ''keyboard'')")
        case False
        with Suc.prems(2) p Inr Rejected have "sw' = sw1 \<and> r = Inr a"
          by (auto simp: op_bind_def)
        with l1 nok show ?thesis by (simp add: tap_log_def)
      next
        case True
        obtain r2 sw2 where h: "dismiss_keyboard (logged_driver d) (logged_clock clk) sw1 = (r2, sw2)"
          by (metis surj_pair)
        have l2: "list_all before_tap (snd (snd sw2))"
          using extends_all [OF emitsD [OF dismiss_emits h, unfolded comp_def] _ l1] by simp
        show ?thesis
        proof (cases r2)
          case Inl
          with Suc.prems(2) p Inr Rejected True h l2 show ?thesis
            by (auto simp: op_bind_def tap_log_def)
        next
          case (Inr u)
          with Suc.prems(2) p \<open>rp = Inr prepared\<close> Rejected True h
          have "tap_attempts n wild (logged_driver d) (logged_clock clk) opts s b sw2 = (r, sw')"
            by (simp add: op_bind_def)
          with Suc.IH l2 show ?thesis by blast
        qed
      qed
    qed
  qed
qed

text \<open>
  C2: One call of \<^verbatim>\<open>Tap\<close> dispatches at most one tap to the device, as its last action. The tap
  goes to the centre of an element that the selector matches in a hierarchy read before, and that
  nothing covers there; the result is ok exactly when the tap was dispatched and accepted. This
  holds for any driver and clock.
\<close>

theorem tap_only_visible_targets:
  "case tap wild (logged_driver d) (logged_clock clk) opts s scrollToFind (se, (w, [])) of
     (r, (_, (_, events))) \<Rightarrow> tap_log (compile_selector s) r events"
proof -
  obtain r sw' where t: "tap wild (logged_driver d) (logged_clock clk) opts s scrollToFind (se, (w, [])) = (r, sw')"
    by (metis surj_pair)
  then have "tap_log (compile_selector s) r (snd (snd sw'))"
    unfolding tap_def by (rule tap_attempts_log [rotated]) simp
  with t show ?thesis by (auto split: prod.split)
qed

section \<open>Where text goes\<close>

definition no_input :: "device_event \<Rightarrow> bool" where
  "no_input e \<longleftrightarrow> (case e of Typed _ \<Rightarrow> False | Erased _ \<Rightarrow> False | _ \<Rightarrow> True)"

lemma passive_no_input: "is_passive e \<Longrightarrow> no_input e"
  by (cases e) (simp_all add: is_passive_def no_input_def)

lemma focus_emits: "emits (snd \<circ> snd) no_input (await_target_focus (logged_driver d) (logged_clock clk) s by_field)"
  unfolding await_target_focus_def wait_for_focus_def
  by (intro emits_bind emits_mono [OF logged.await_tree_emits [unfolded truncate_simps] passive_no_input])
    (auto split: wait_result.split)

lemma focus_log:
  assumes "await_target_focus (logged_driver d) (logged_clock clk) s by_field sw = (Inr u, sw')"
  obtains es tree where "snd (snd sw') = snd (snd sw) @ es @ [HierarchyRead tree]" "list_all is_passive es"
    "focused_match s tree \<noteq> None"
proof -
  obtain r sw1 where "await (wait_for_focus wait_fuel (logged_clock clk) (Hierarchy (logged_driver d)) s
      input_focus_settle_timeout_ms input_focus_settle_poll_ms) sw = (Inr r, sw1)"
    "(case r of Accepted _ \<Rightarrow> op_return () | Expired _ \<Rightarrow> op_fail (InputFocus by_field input_focus_settle_timeout_ms)
      | Aborted e _ \<Rightarrow> op_fail (Infra e)) sw1 = (Inr u, sw')"
    using assms unfolding await_target_focus_def op_bind_Inr_iff by blast
  then obtain v where "wait_for_focus wait_fuel (logged_clock clk) (Hierarchy (logged_driver d)) s
      input_focus_settle_timeout_ms input_focus_settle_poll_ms (snd sw) = Some (Accepted v, snd sw')"
    by (auto simp: await_def split: option.splits prod.splits wait_result.splits)
  then have loop: "wait_loop wait_fuel (logged_clock clk)
      (NowMs (logged_clock clk) (snd sw) + default_ms 1500 input_focus_settle_timeout_ms) (default_ms 50 input_focus_settle_poll_ms)
      (fetch_tree (Hierarchy (logged_driver d)) (focused_match s)) (stateless (\<lambda>c. c \<noteq> None)) None (snd sw) =
      Some (Accepted v, snd sw')"
    by (simp add: wait_for_focus_def wait_until_def)
  have "emits snd is_passive (fetch_tree (Hierarchy (logged_driver d)) (focused_match s))"
    using logged.read_emits unfolding fetch_tree_def by auto
  from logged.wait_accepted [OF this loop] obtain w0 where
    w0: "fetch_tree (Hierarchy (logged_driver d)) (focused_match s) w0 = (Inr v, snd sw')" "v \<noteq> None"
      "extends is_passive (snd (snd sw)) (snd w0)" by auto
  then obtain tree where "snd (snd sw') = snd w0 @ [HierarchyRead tree]" "focused_match s tree = v"
    by (auto simp: fetch_tree_def op_map_Inr_iff dest: read_logged)
  with w0 that show thesis
    by (auto simp: extends_def)
qed

definition input_log :: "selector \<Rightarrow> string \<Rightarrow> device_event list \<Rightarrow> bool" where
  "input_log s text l \<longleftrightarrow>
     list_all no_input l \<or>
     (\<exists>pre tree post. l = pre @ [HierarchyRead tree] @ post \<and> list_all no_input pre \<and> focused_match s tree \<noteq> None \<and>
        post \<in> {[Erased 999], [Typed text], [Erased 999, Typed text]})"

lemma device_call_logged:
  "call (DrvInputText (logged_driver d) text) sw = (r, sw') \<Longrightarrow> snd (snd sw') = snd (snd sw) @ [Typed text]"
  "call (DrvEraseText (logged_driver d) n) sw = (r, sw') \<Longrightarrow> snd (snd sw') = snd (snd sw) @ [Erased n]"
  "call (DrvTap (logged_driver d) p) sw = (r, sw') \<Longrightarrow> snd (snd sw') = snd (snd sw) @ [Tapped p]"
  by (auto simp: call_def op_lift_def on_snd_def logged_driver_def logging_def split: prod.splits sum.splits)

lemma type_log:
  assumes "op_bind (call (DrvInputText (logged_driver d) text)) (\<lambda>_.
      op_bind (keyboard_hint True) (\<lambda>_. op_return a)) sw = (r, sw')"
  shows "snd (snd sw') = snd (snd sw) @ [Typed text] \<and> (case r of Inl _ \<Rightarrow> True | Inr b \<Rightarrow> b = a)"
proof -
  obtain r1 sw1 where t: "call (DrvInputText (logged_driver d) text) sw = (r1, sw1)"
    by (metis surj_pair)
  with assms device_call_logged(1) [OF t] show ?thesis
    by (auto simp: op_bind_def keyboard_hint_def update_session_def split: sum.splits)
qed

lemma type_steps_log:
  assumes run: "op_bind (if clear then call (DrvEraseText (logged_driver d) 999) else op_return ()) (\<lambda>_.
      op_bind (call (DrvInputText (logged_driver d) text)) (\<lambda>_.
      op_bind (keyboard_hint True) (\<lambda>_. op_return a))) sw = (r, sw')"
  shows "\<exists>post. snd (snd sw') = snd (snd sw) @ post \<and> post \<in> {[Erased 999], [Typed text], [Erased 999, Typed text]} \<and>
    (case r of Inl _ \<Rightarrow> True | Inr b \<Rightarrow> b = a \<and> Typed text \<in> set post)"
proof (cases clear)
  case True
  obtain r1 sw1 where e: "call (DrvEraseText (logged_driver d) 999) sw = (r1, sw1)"
    by (metis surj_pair)
  note l1 = device_call_logged(2) [OF e]
  show ?thesis
  proof (cases r1)
    case Inl
    with run True e l1 show ?thesis by (auto simp: op_bind_def)
  next
    case Inr
    with run True e have "op_bind (call (DrvInputText (logged_driver d) text)) (\<lambda>_.
      op_bind (keyboard_hint True) (\<lambda>_. op_return a)) sw1 = (r, sw')"
      by (simp add: op_bind_def)
    from type_log [OF this] l1 show ?thesis
      by (intro exI [of _ "[Erased 999, Typed text]"]) (auto split: sum.splits)
  qed
next
  case False
  with run have "op_bind (call (DrvInputText (logged_driver d) text)) (\<lambda>_.
      op_bind (keyboard_hint True) (\<lambda>_. op_return a)) sw = (r, sw')"
    by (simp add: op_bind_def)
  from type_log [OF this] show ?thesis
    by (intro exI [of _ "[Typed text]"]) (auto split: sum.splits)
qed

lemma input_text_log:
  assumes run: "input_text wild (logged_driver d) (logged_clock clk) opts s text clearFirst (se, (w, [])) = (r, sw')"
  shows "input_log s text (snd (snd sw')) \<and>
    (case r of Inl _ \<Rightarrow> True | Inr a \<Rightarrow> AOk a \<longleftrightarrow> Typed text \<in> set (snd (snd sw')))"
proof -
  let ?prepare = "prepare_selector_for_action wild (logged_driver d) (logged_clock clk) opts s True"
  obtain rp sw1 where p: "?prepare (se, (w, [])) = (rp, sw1)"
    by (metis surj_pair)
  have l1: "list_all no_input (snd (snd sw1))"
    using extends_all [OF emitsD [OF prepare_emits p, unfolded comp_def] passive_no_input] by simp
  have silent: "Typed text \<notin> set l" if "list_all no_input l" for l
    using that by (auto simp: list_all_iff no_input_def)
  show ?thesis
  proof (cases rp)
    case Inl
    with run p l1 show ?thesis by (auto simp: input_text_def input_log_def op_bind_def)
  next
    case (Inr prepared)
    show ?thesis
    proof (cases prepared)
      case (Rejected a)
      with run p Inr have "sw' = sw1" "r = Inr a"
        by (simp_all add: input_text_def op_bind_def)
      moreover have "\<not> AOk a"
        using rejected_not_ok p Inr Rejected by blast
      ultimately show ?thesis
        using l1 silent by (auto simp: input_log_def)
    next
      case (Prepared pt b c by_field)
      obtain r2 sw2 where t: "call (DrvTap (logged_driver d) pt) sw1 = (r2, sw2)"
        by (metis surj_pair)
      have l2: "list_all no_input (snd (snd sw2))"
        using device_call_logged(3) [OF t] l1 by (simp add: no_input_def)
      obtain r3 sw3 where f: "await_target_focus (logged_driver d) (logged_clock clk) s by_field sw2 = (r3, sw3)"
        by (metis surj_pair)
      have l3: "list_all no_input (snd (snd sw3))"
        by (rule extends_all [OF emitsD [OF focus_emits f, unfolded comp_def] _ l2])
      let ?clear = "(clearFirst = None \<or> clearFirst = Some True) \<and> CanEraseText (DrvCapabilities (logged_driver d))"
      let ?a = "action_ok by_field
        (''typed '' @ utoa (utf16_len text) @ '' char(s) into field at '' @ point_str wild pt)"
      show ?thesis
      proof (cases "isl r2 \<or> isl r3")
        case True
        then have "(sw' = sw2 \<or> sw' = sw3) \<and> isl r"
          using run p Inr Prepared t f
          by (cases r2; cases r3) (auto simp: input_text_def op_bind_def)
        with l2 l3 show ?thesis
          by (cases r) (auto simp: input_log_def)
      next
        case False
        then obtain u2 u3 where u: "r2 = Inr u2" "r3 = Inr u3"
          by (cases r2; cases r3) auto
        with run p Inr Prepared t f have "op_bind (if ?clear then call (DrvEraseText (logged_driver d) 999) else op_return ()) (\<lambda>_.
            op_bind (call (DrvInputText (logged_driver d) text)) (\<lambda>_.
            op_bind (keyboard_hint True) (\<lambda>_. op_return ?a))) sw3 = (r, sw')"
          by (simp add: input_text_def op_bind_def)
        from type_steps_log [OF this] obtain post where
          post: "snd (snd sw') = snd (snd sw3) @ post" "post \<in> {[Erased 999], [Typed text], [Erased 999, Typed text]}"
            "case r of Inl _ \<Rightarrow> True | Inr b \<Rightarrow> b = ?a \<and> Typed text \<in> set post" by blast
        from focus_log [OF f [unfolded u]] obtain es tree where
          es: "snd (snd sw3) = snd (snd sw2) @ es @ [HierarchyRead tree]" "list_all is_passive es" "focused_match s tree \<noteq> None" .
        have "list_all no_input (snd (snd sw2) @ es)"
          using l2 es(2) passive_no_input by (auto simp: list_all_iff)
        then have "input_log s text (snd (snd sw'))"
          unfolding input_log_def using post(1,2) es(1,3)
          by (intro disjI2 exI [of _ "snd (snd sw2) @ es"] exI [of _ tree] exI [of _ post]) auto
        with post show ?thesis
          by (auto simp: action_ok_def split: sum.splits)
      qed
    qed
  qed
qed

text \<open>
  C28: \<^verbatim>\<open>InputText\<close> erases and types only directly after a hierarchy in which the focused node
  coincides with a match of the selector; otherwise the device sees neither. The result is ok
  exactly when the text was dispatched and accepted. This holds for any driver and clock.
\<close>

theorem input_text_only_with_focus:
  "case input_text wild (logged_driver d) (logged_clock clk) opts s text clearFirst (se, (w, [])) of
     (r, (_, (_, events))) \<Rightarrow>
       input_log s text events \<and> (case r of Inl _ \<Rightarrow> True | Inr a \<Rightarrow> AOk a \<longleftrightarrow> Typed text \<in> set events)"
proof -
  obtain r sw' where t: "input_text wild (logged_driver d) (logged_clock clk) opts s text clearFirst (se, (w, [])) = (r, sw')"
    by (metis surj_pair)
  with input_text_log [OF t] show ?thesis by (cases r) (auto split: prod.split)
qed

end
