(* ===== verification/Ui_Launch.thy ===== *)
theory Ui_Launch
  imports Ui_Device_Log
begin

text \<open>
  Launching applications: the record of launched applications that \<^verbatim>\<open>LaunchApp\<close> keeps for a flow
  (\<^verbatim>\<open>orchestra.go\<close>), for one caller and for callers that interleave.
\<close>

section \<open>One call\<close>

definition fresh_launch :: "launch_args \<Rightarrow> bool" where
  "fresh_launch args \<longleftrightarrow> NoReset args = Some False"

lemma not_fresh: "(NoReset args = None \<or> NoReset args = Some True) = (\<not> fresh_launch args)"
  by (cases "NoReset args") (auto simp: fresh_launch_def)

lemma session_steps [simp]:
  "keyboard_hint b sw = (Inr (), ((fst sw)\<lparr>MaybeKeyboardOpen := b\<rparr>, snd sw))"
  "release_launch_claim a sw = (Inr (), ((fst sw)\<lparr>LaunchedApps := LaunchedApps (fst sw) - {a}\<rparr>, snd sw))"
  "record_launch a sw = (Inr (), ((fst sw)\<lparr>LaunchedApps := insert a (LaunchedApps (fst sw))\<rparr>, snd sw))"
  by (simp_all add: keyboard_hint_def release_launch_claim_def record_launch_def update_session_def)

lemma call_session: "fst (snd (call m sw)) = fst sw"
  by (auto simp: call_def on_snd_def op_lift_def split: prod.split sum.split)

lemma launch_installed_session: "launch_installed d a args sw = (r, sw') \<Longrightarrow> fst sw' = fst sw"
  using call_session [of "DrvListApps d" sw] call_session [of "DrvLaunchApp d a args"]
  by (auto simp: launch_installed_def op_bind_def split: prod.splits sum.splits if_splits) (metis fst_conv snd_conv)+

text \<open>The outcome of a call from what its driver part did.\<close>

lemma launch_app_cases:
  assumes "launch_app d a args sw = (r, sw')"
  obtains (invalid) err where "validate_app_id a = Some err" "r = Inl (InvalidAppID err)" "sw' = sw"
  | (deduped) "validate_app_id a = None" "\<not> fresh_launch args" "a \<in> LaunchedApps (fst sw)" "r = Inr ()" "snd sw' = snd sw"
      "fst sw' = fst sw"
  | (launched) r0 sw0 sw1 where "validate_app_id a = None" "fresh_launch args \<or> a \<notin> LaunchedApps (fst sw)"
      "snd sw0 = snd sw" "launch_installed d a args sw0 = (r0, sw1)" "snd sw' = snd sw1" "r = r0"
      "LaunchedApps (fst sw') = (case r0 of Inl _ \<Rightarrow> LaunchedApps (fst sw) | Inr _ \<Rightarrow> insert a (LaunchedApps (fst sw)))"
proof (cases "validate_app_id a")
  case (Some err)
  with assms invalid show ?thesis by (simp add: launch_app_def with_app_id_def)
next
  case valid: None
  show ?thesis
  proof (cases "fresh_launch args")
    case True
    obtain r0 sw1 where l: "launch_installed d a args sw = (r0, sw1)"
      by (metis surj_pair)
    show ?thesis
      using assms valid True l launch_installed_session [OF l]
      by (intro launched [OF valid _ refl l]) (auto simp: launch_app_def with_app_id_def not_fresh op_bind_def split: sum.splits)
  next
    case dedup: False
    show ?thesis
    proof (cases "a \<in> LaunchedApps (fst sw)")
      case True
      with assms valid dedup show ?thesis
        by (intro deduped) (auto simp: launch_app_def with_app_id_def not_fresh op_bind_def claim_launch_def insert_absorb)
    next
      case False
      let ?sw0 = "((fst sw)\<lparr>LaunchedApps := insert a (LaunchedApps (fst sw))\<rparr>, snd sw)"
      obtain r0 sw1 where l: "launch_installed d a args ?sw0 = (r0, sw1)"
        by (metis surj_pair)
      show ?thesis
        using assms valid dedup False l launch_installed_session [OF l]
        by (intro launched [OF valid _ _ l])
          (auto simp: launch_app_def with_app_id_def not_fresh op_bind_def claim_launch_def on_error_def split: sum.splits)
    qed
  qed
qed

text \<open>
  A call of \<^verbatim>\<open>LaunchApp\<close> that fails, for whatever reason, leaves the set of launched
  applications as it was, so that a later call tries again; one that succeeds adds exactly its
  application. This holds for default, attaching and fresh launches on any driver.
\<close>

theorem launch_app_records:
  "case launch_app d a args sw of
     (Inl _, sw') \<Rightarrow> LaunchedApps (fst sw') = LaunchedApps (fst sw)
   | (Inr _, sw') \<Rightarrow> LaunchedApps (fst sw') = insert a (LaunchedApps (fst sw))"
proof -
  obtain r sw' where l: "launch_app d a args sw = (r, sw')"
    by (metis surj_pair)
  show ?thesis
    unfolding l using l by (cases rule: launch_app_cases) (auto split: sum.split)
qed

section \<open>A flow\<close>

text \<open>The application commands of a flow; an error of one does not end the flow here.\<close>

datatype app_command =
  CmdLaunch string launch_args | CmdStop string | CmdKill string | CmdUninstall string | CmdClear string string | CmdReset

fun run_command :: "('w, 'e) driver \<Rightarrow> app_command \<Rightarrow> session \<times> 'w \<Rightarrow> session \<times> 'w" where
  "run_command d (CmdLaunch a args) sw = snd (launch_app d a args sw)"
| "run_command d (CmdStop a) sw = snd (stop_app d a sw)"
| "run_command d (CmdKill a) sw = snd (kill_app d a sw)"
| "run_command d (CmdUninstall a) sw = snd (uninstall_app d a sw)"
| "run_command d (CmdClear a source) sw = snd (clear_app_data d a source sw)"
| "run_command d CmdReset sw = snd ((reset_launched_apps :: ('w, 'e, unit) orch) sw)"

definition run_commands :: "('w, 'e) driver \<Rightarrow> app_command list \<Rightarrow> session \<times> 'w \<Rightarrow> session \<times> 'w" where
  "run_commands d cmds sw = fold (run_command d) cmds sw"

definition launches :: "string \<Rightarrow> device_event list \<Rightarrow> nat" where
  "launches a l = length (filter (\<lambda>e. e = Launched a True) l)"

lemma launches_simps [simp]:
  "launches a [] = 0" "launches a (l @ l') = launches a l + launches a l'"
  "launches a [e] = (if e = Launched a True then 1 else 0)"
  by (simp_all add: launches_def)

lemma launch_installed_log:
  "launch_installed (logged_driver d) a args sw = (r, sw') \<Longrightarrow>
     \<exists>es. snd (snd sw') = snd (snd sw) @ es \<and> launches b es = (if a = b \<and> \<not> isl r then 1 else 0)"
  by (auto simp: launch_installed_def op_bind_def call_def on_snd_def op_lift_def logged_driver_def logging_def
      split: prod.splits sum.splits if_splits)

text \<open>Calls that neither launch nor change the record.\<close>

definition unaffected :: "string \<Rightarrow> (session \<times> 'w \<times> device_event list \<Rightarrow> session \<times> 'w \<times> device_event list) \<Rightarrow> bool" where
  "unaffected a f \<longleftrightarrow>
     (\<forall>sw. launches a (snd (snd (f sw))) = launches a (snd (snd sw)) \<and> LaunchedApps (fst (f sw)) = LaunchedApps (fst sw))"

lemma other_commands:
  "unaffected a (run_command (logged_driver d) (CmdStop b))"
  "unaffected a (run_command (logged_driver d) (CmdKill b))"
  "unaffected a (run_command (logged_driver d) (CmdUninstall b))"
  "unaffected a (run_command (logged_driver d) (CmdClear b source))"
  by (auto simp: unaffected_def stop_app_def kill_app_def uninstall_app_def clear_app_data_def with_app_id_def op_bind_def
      call_def on_snd_def op_lift_def logged_driver_def logging_def split: prod.splits sum.splits option.splits)

text \<open>The application is recorded exactly when the flow launched it, once.\<close>

definition launched_once :: "string \<Rightarrow> session \<times> 'w \<times> device_event list \<Rightarrow> bool" where
  "launched_once a sw \<longleftrightarrow> launches a (snd (snd sw)) = (if is_launched (fst sw) a then 1 else 0)"

fun keeps_flow :: "string \<Rightarrow> app_command \<Rightarrow> bool" where
  "keeps_flow a (CmdLaunch b args) = (a \<noteq> b \<or> \<not> fresh_launch args)"
| "keeps_flow a CmdReset = False"
| "keeps_flow a _ = True"

lemma unaffected_once: "unaffected a f \<Longrightarrow> launched_once a sw \<Longrightarrow> launched_once a (f sw)"
  unfolding unaffected_def launched_once_def is_launched_def by metis

lemmas commands_once = other_commands [THEN unaffected_once]

lemma launched_once_step:
  assumes "keeps_flow a c" "launched_once a sw"
  shows "launched_once a (run_command (logged_driver d) c sw)"
proof (cases c)
  case (CmdLaunch b args)
  obtain r sw' where l: "launch_app (logged_driver d) b args sw = (r, sw')"
    by (metis surj_pair)
  then show ?thesis
  proof (cases rule: launch_app_cases)
    case (launched r0 sw0 sw1)
    from launch_installed_log [OF launched(4), of a] obtain es where
      es: "snd (snd sw1) = snd (snd sw0) @ es" "launches a es = (if b = a \<and> \<not> isl r0 then 1 else 0)" by blast
    then have "launches a (snd (snd sw')) = launches a (snd (snd sw)) + (if b = a \<and> \<not> isl r0 then 1 else 0)"
      using launched by simp
    with assms CmdLaunch l launched(2,7) show ?thesis
      by (cases r0) (auto simp: launched_once_def is_launched_def split: if_splits)
  qed (use assms CmdLaunch l in \<open>auto simp: launched_once_def is_launched_def\<close>)
qed (use assms in \<open>simp_all add: commands_once del: run_command.simps(2-5)\<close>)

lemma launched_once_run:
  "list_all (keeps_flow a) cmds \<Longrightarrow> launched_once a sw \<Longrightarrow> launched_once a (run_commands (logged_driver d) cmds sw)"
  by (induction cmds arbitrary: sw) (simp_all add: run_commands_def launched_once_step)

text \<open>
  C7: In a flow of application commands in any order, with any outcome of each, an application is
  launched successfully at most once, and exactly once if it is recorded as launched in the end,
  as long as the record is not reset and the application is not asked for with a fresh launch.
  This includes a launch after a stop or a kill, which the code skips (\<open>launch_after_stop_is_skipped\<close>).
\<close>

theorem launch_at_most_once:
  assumes "list_all (keeps_flow a) cmds"
  shows "case run_commands (logged_driver d) cmds (new_session, (w, [])) of
    (se, (_, events)) \<Rightarrow> launches a events = (if is_launched se a then 1 else 0)"
  using launched_once_run [OF assms, of "(new_session, (w, []))" d]
  by (auto simp: launched_once_def new_session_def is_launched_def split: prod.splits)

section \<open>Callers that interleave\<close>

text \<open>
  Calls of \<^verbatim>\<open>LaunchApp\<close> from concurrent goroutines: the critical sections under the mutex are
  atomic steps, the driver call lies between them and takes any time. A caller is a number.
\<close>

datatype launch_phase = Waiting | Driving string | DrivingFresh string | Returned

inductive launch_step :: "session \<times> (nat \<Rightarrow> launch_phase) \<Rightarrow> session \<times> (nat \<Rightarrow> launch_phase) \<Rightarrow> bool" where
  claim: "ph i = Waiting \<Longrightarrow> claim_launch a (se, ()) = (Inr already :: unit orch_error + bool, (se', ())) \<Longrightarrow>
    launch_step (se, ph) (se', ph(i := if already then Returned else Driving a))"
| succeed: "ph i = Driving a \<Longrightarrow> launch_step (se, ph) (se\<lparr>MaybeKeyboardOpen := False\<rparr>, ph(i := Returned))"
| release: "ph i = Driving a \<Longrightarrow> release_launch_claim a (se, ()) = (Inr () :: unit orch_error + unit, (se', ())) \<Longrightarrow>
    launch_step (se, ph) (se', ph(i := Returned))"
| start_fresh: "ph i = Waiting \<Longrightarrow> launch_step (se, ph) (se, ph(i := DrivingFresh a))"
| fresh_done: "ph i = DrivingFresh a \<Longrightarrow> record_launch a (se, ()) = (Inr () :: unit orch_error + unit, (se', ())) \<Longrightarrow>
    launch_step (se, ph) (se'\<lparr>MaybeKeyboardOpen := False\<rparr>, ph(i := Returned))"
| fresh_fails: "ph i = DrivingFresh a \<Longrightarrow> launch_step (se, ph) (se, ph(i := Returned))"

inductive launch_steps :: "session \<times> (nat \<Rightarrow> launch_phase) \<Rightarrow> session \<times> (nat \<Rightarrow> launch_phase) \<Rightarrow> bool" where
  none: "launch_steps c c"
| more: "launch_steps c c' \<Longrightarrow> launch_step c' c'' \<Longrightarrow> launch_steps c c''"

inductive_cases launch_stepE: "launch_step (se, ph) c'"

text \<open>A default launch in progress holds the claim on its application, alone.\<close>

definition claims_held :: "session \<times> (nat \<Rightarrow> launch_phase) \<Rightarrow> bool" where
  "claims_held c \<longleftrightarrow>
     (\<forall>i a. snd c i = Driving a \<longrightarrow> is_launched (fst c) a) \<and>
     (\<forall>i j a. snd c i = Driving a \<longrightarrow> snd c j = Driving a \<longrightarrow> i = j)"

lemma claims_held_step: "launch_step c c' \<Longrightarrow> claims_held c \<Longrightarrow> claims_held c'"
proof (induction rule: launch_step.induct)
  case (claim ph i a se already se')
  then show ?case
    by (auto simp: claims_held_def is_launched_def claim_launch_def)
next
  case (release ph i a se se')
  have "\<not> snd (se, ph) j = Driving a" if "j \<noteq> i" for j
    using release that by (auto simp: claims_held_def)
  with release show ?case
    by (auto simp: claims_held_def is_launched_def)
next
  case (fresh_done ph i a se se')
  then show ?case
    by (auto simp: claims_held_def is_launched_def)
qed (auto simp: claims_held_def is_launched_def)

lemma claims_held_steps: "launch_steps c c' \<Longrightarrow> claims_held c \<Longrightarrow> claims_held c'"
  by (induction rule: launch_steps.induct) (auto intro: claims_held_step)

text \<open>
  C31: However the calls interleave and whatever they return, at most one default launch of an
  application is between its claim and its end, so no two of them drive the device at a time.
\<close>

theorem concurrent_launches_exclusive:
  assumes "launch_steps (new_session, \<lambda>_. Waiting) (se, ph)"
  shows "\<exists>j. {i. ph i = Driving a} \<subseteq> {j}"
proof -
  have "claims_held (se, ph)"
    by (rule claims_held_steps [OF assms]) (simp add: claims_held_def)
  then have "i = j" if "ph i = Driving a" "ph j = Driving a" for i j
    using that by (auto simp: claims_held_def)
  then show ?thesis
    by blast
qed

theorem concurrent_launches_exclusive_witness:
  "\<exists>j :: nat. {i. ((\<lambda>_. Waiting)(0 := Driving ''shop'', 1 := Returned)) i = Driving ''shop''} \<subseteq> {j}"
proof (rule concurrent_launches_exclusive)
  have "launch_step (new_session, \<lambda>_. Waiting)
      (new_session\<lparr>LaunchedApps := {''shop''}\<rparr>, (\<lambda>_. Waiting)(0 := if False then Returned else Driving ''shop''))"
    by (rule launch_step.claim) (simp_all add: claim_launch_def new_session_def)
  moreover have "launch_step (new_session\<lparr>LaunchedApps := {''shop''}\<rparr>, (\<lambda>_. Waiting)(0 := Driving ''shop''))
      (new_session\<lparr>LaunchedApps := {''shop''}\<rparr>,
       (\<lambda>_. Waiting)(0 := Driving ''shop'', 1 := if True then Returned else Driving ''shop''))"
    by (rule launch_step.claim) (simp_all add: claim_launch_def new_session_def)
  ultimately show "launch_steps (new_session, \<lambda>_. Waiting)
      (new_session\<lparr>LaunchedApps := {''shop''}\<rparr>, (\<lambda>_. Waiting)(0 := Driving ''shop'', 1 := Returned))"
    by (auto intro: launch_steps.more [OF launch_steps.more [OF launch_steps.none]])
qed

section \<open>A device for examples\<close>

definition plain_driver :: "(unit, ctx_error) driver" where
  "plain_driver =
     \<lparr>Hierarchy = op_return bare_screen, Swipe = (\<lambda>p q ms. op_return ()),
      ScreenSize = op_return \<lparr>Width = Fin 400, Height = Fin 800\<rparr>,
      DrvCapabilities = \<lparr>CanScreenshot = True, CanEraseText = True, CanWaitForIdle = False, CanSetLocation = False,
        CanSetOrientation = False, CanHideKeyboard = True, CanQueryForeground = True, CanMultiPointer = False,
        CanPressure = False, SupportedKeyCodes = []\<rparr>,
      DrvWaitForIdle = (\<lambda>ms. op_return True), DrvTap = (\<lambda>p. op_return ()), DrvLongPress = (\<lambda>p ms. op_return ()),
      DrvDispatchGesture = (\<lambda>g. op_return []), DrvInputText = (\<lambda>t. op_return ()), DrvEraseText = (\<lambda>n. op_return ()),
      DrvPressKey = (\<lambda>k. op_return \<lparr>KeyOk = True, KeyReason = []\<rparr>),
      DrvHideKeyboard = op_return \<lparr>KeyOk = True, KeyReason = []\<rparr>,
      DrvLaunchApp = (\<lambda>a args. op_return ()), DrvStopApp = (\<lambda>a. op_return ()), DrvKillApp = (\<lambda>a. op_return ()),
      DrvCurrentForeground = op_return \<lparr>ForegroundBundleID = None, ForegroundActivity = []\<rparr>,
      DrvListApps = op_return [\<lparr>BundleID = ''shop'', DisplayName = ''Shop''\<rparr>], DrvInstallApp = (\<lambda>a. op_return ()),
      DrvUninstallApp = (\<lambda>a. op_return ()), DrvClearAppData = (\<lambda>a b. op_return ()),
      DrvIsAppInstalled = (\<lambda>a. op_return True), DrvScreenshot = op_return [],
      DrvDeviceInfo = op_return \<lparr>InfoPlatform = [], PlatformVersion = [], InfoModel = [], UDID = [], InfoKind = []\<rparr>\<rparr>"

definition default_args :: launch_args where
  "default_args = \<lparr>LaunchArguments = [], LaunchEnvironment = Map.empty, NoReset = None\<rparr>"

lemma shop_valid [simp]: "validate_app_id ''shop'' = None"
  by code_simp

theorem launch_at_most_once_witness:
  "case run_commands (logged_driver plain_driver) [CmdLaunch ''shop'' default_args, CmdKill ''shop'', CmdLaunch ''shop'' default_args]
      (new_session, ((), [])) of
    (se, (_, events)) \<Rightarrow> launches ''shop'' events = (if is_launched se ''shop'' then 1 else 0)"
  by (rule launch_at_most_once) (simp add: fresh_launch_def default_args_def)

text \<open>
  The record outlives the application: after a launch and a \<^verbatim>\<open>StopApp\<close>, another default launch
  succeeds without asking the device for anything, and the application stays stopped. The
  documentation of the \<^verbatim>\<open>launch_app\<close> tool recommends exactly this sequence for a clean relaunch.
\<close>

theorem launch_after_stop_is_skipped:
  "case run_commands (logged_driver plain_driver) [CmdLaunch ''shop'' default_args, CmdStop ''shop''] (new_session, ((), [])) of
     (se, (w, events)) \<Rightarrow>
       events = [Launched ''shop'' True, Stopped ''shop''] \<and>
       launch_app (logged_driver plain_driver) ''shop'' default_args (se, (w, events)) = (Inr (), (se, (w, events)))"
  by (simp add: run_commands_def launch_app_def with_app_id_def default_args_def claim_launch_def on_error_def
      launch_installed_def call_def on_snd_def op_lift_def op_bind_def logged_driver_def logging_def plain_driver_def
      stop_app_def new_session_def)

end
