(* ===== verification/Ui_Swipe.thy ===== *)
theory Ui_Swipe
  imports Ui_Orchestra
begin

text \<open>
  How far a directional swipe goes (\<^verbatim>\<open>ComputeSwipeDirectionEndpoints\<close> in
  \<^verbatim>\<open>core/internal/orchestra/orchestra.go\<close>), with the float arithmetic of its computation.
\<close>

text \<open>Small integers, as floats with any sign of zero.\<close>

definition small_int :: "f64 \<Rightarrow> int \<Rightarrow> bool" where
  "small_int f i \<longleftrightarrow> is_finite f \<and> fval f = of_int i \<and> \<bar>i\<bar> < 2 ^ 50"

lemma small_add: "small_int a i \<Longrightarrow> small_int b j \<Longrightarrow> \<bar>i + j\<bar> < 2 ^ 50 \<Longrightarrow> small_int (f_add a b) (i + j)"
  using to_float_of_int [of "i + j"]
  by (cases a; cases b) (auto simp: small_int_def is_finite_def Let_def signed_zero_def)

lemma small_neg: "small_int a i \<Longrightarrow> small_int (f_neg a) (- i)"
  by (cases a) (auto simp: small_int_def is_finite_def)

lemma small_sub: "small_int a i \<Longrightarrow> small_int b j \<Longrightarrow> \<bar>i - j\<bar> < 2 ^ 50 \<Longrightarrow> small_int (f_sub a b) (i - j)"
  using small_add [of a i "f_neg b" "- j"] small_neg [of b j] by (simp add: f_sub_def)

lemma small_mul:
  assumes "is_finite a" "is_finite b" "fval a * fval b = of_int k" "\<bar>k\<bar> < 2 ^ 50"
  shows "small_int (f_mul a b) k"
  using assms to_float_of_int [of k]
  by (auto simp: small_int_def is_finite_cases f_mul_def Let_def signed_zero_def is_inf_def)

lemma small_half: "small_int a (2 * i) \<Longrightarrow> small_int (half a) i"
  using to_float_of_int [of i]
  by (cases a) (auto simp: small_int_def is_finite_def f_div_def half_def Let_def signed_zero_def is_inf_def)

text \<open>The axis and the sign of a direction.\<close>

definition axis_x :: "direction \<Rightarrow> int" where
  "axis_x dir = (case dir of DirLeft \<Rightarrow> - 1 | DirRight \<Rightarrow> 1 | _ \<Rightarrow> 0)"

definition axis_y :: "direction \<Rightarrow> int" where
  "axis_y dir = (case dir of DirUp \<Rightarrow> - 1 | DirDown \<Rightarrow> 1 | _ \<Rightarrow> 0)"

text \<open>
  A directional swipe is centred on the screen and goes along its axis only, but travels half
  the distance its fraction names. On a screen of \<open>8w\<close> by \<open>8h\<close> points and with the fraction one
  half, where the documentation promises half of the screen, the swipe covers a quarter of it.
\<close>

theorem swipe_travels_half:
  "case compute_swipe_direction_endpoints
          \<lparr>Width = Fin (of_int (8 * uint (w :: 32 word))), Height = Fin (of_int (8 * uint (h :: 32 word)))\<rparr> dir (Fin (1 / 2)) of
     (p, q) \<Rightarrow>
       fval (X p) = of_int (4 * uint w - axis_x dir * uint w) \<and> fval (X q) = of_int (4 * uint w + axis_x dir * uint w) \<and>
       fval (Y p) = of_int (4 * uint h - axis_y dir * uint h) \<and> fval (Y q) = of_int (4 * uint h + axis_y dir * uint h)"
proof -
  have coordinate: "small_int (f_sub (half (Fin (of_int (8 * u)))) (half (f_mul s (half (f_mul (Fin (of_int (8 * u))) (Fin (1 / 2))))))) (4 * u - k * u)"
    "small_int (f_add (half (Fin (of_int (8 * u)))) (half (f_mul s (half (f_mul (Fin (of_int (8 * u))) (Fin (1 / 2))))))) (4 * u + k * u)"
    if "0 \<le> u" "u < 2 ^ 32" "s = Fin (of_int k)" "k = - 1 \<or> k = 0 \<or> k = 1" for u k s
  proof -
    have center: "small_int (half (Fin (of_int (8 * u)))) (4 * u)"
      using that by (intro small_half) (simp add: small_int_def is_finite_def)
    have "small_int (f_mul (Fin (of_int (8 * u))) (Fin (1 / 2))) (2 * (2 * u))"
      using that by (intro small_mul) (auto simp: is_finite_def)
    then have amount: "small_int (half (f_mul (Fin (of_int (8 * u))) (Fin (1 / 2)))) (2 * u)"
      by (rule small_half)
    have "small_int (f_mul s (half (f_mul (Fin (of_int (8 * u))) (Fin (1 / 2))))) (2 * (k * u))"
      using that amount by (intro small_mul) (auto simp: is_finite_def small_int_def)
    then have shift: "small_int (half (f_mul s (half (f_mul (Fin (of_int (8 * u))) (Fin (1 / 2)))))) (k * u)"
      by (rule small_half)
    show "small_int (f_sub (half (Fin (of_int (8 * u)))) (half (f_mul s (half (f_mul (Fin (of_int (8 * u))) (Fin (1 / 2))))))) (4 * u - k * u)"
      by (rule small_sub [OF center shift]) (use that in auto)
    show "small_int (f_add (half (Fin (of_int (8 * u)))) (half (f_mul s (half (f_mul (Fin (of_int (8 * u))) (Fin (1 / 2))))))) (4 * u + k * u)"
      by (rule small_add [OF center shift]) (use that in auto)
  qed
  have "0 \<le> uint v \<and> uint v < 2 ^ 32" for v :: "32 word"
    using uint_bounded [of v] by simp
  moreover have "axis_x dir = - 1 \<or> axis_x dir = 0 \<or> axis_x dir = 1" "axis_y dir = - 1 \<or> axis_y dir = 0 \<or> axis_y dir = 1"
    by (cases dir; simp add: axis_x_def axis_y_def)+
  moreover have "(case dir of DirLeft \<Rightarrow> Fin (- 1) | DirRight \<Rightarrow> Fin 1 | _ \<Rightarrow> Fin 0) = Fin (of_int (axis_x dir))"
    "(case dir of DirUp \<Rightarrow> Fin (- 1) | DirDown \<Rightarrow> Fin 1 | _ \<Rightarrow> Fin 0) = Fin (of_int (axis_y dir))"
    by (cases dir; simp add: axis_x_def axis_y_def)+
  ultimately show ?thesis
    using coordinate [of "uint w" _ "axis_x dir"] coordinate [of "uint h" _ "axis_y dir"]
    by (simp add: compute_swipe_direction_endpoints_def Let_def  small_int_def)
qed

end
