(* ===== verification/Runner_Values.thy ===== *)
theory Runner_Values
  imports Ui_Diagnostics Expr_Eval "HOL-Library.Finite_Map"
begin

text \<open>
  The dynamically typed values a script compares with captured responses, paths into them, and
  JavaScript's coercions (\<^verbatim>\<open>core/internal/runner/dotpath.go\<close>), the assertions on them
  (\<^verbatim>\<open>assert_api_command.go\<close>, \<^verbatim>\<open>branch_command.go\<close>), and the variables read from them
  (\<^verbatim>\<open>variables.go\<close>, \<^verbatim>\<open>extract_command.go\<close>).
\<close>

section \<open>Values\<close>

text \<open>
  A Go \<^verbatim>\<open>any\<close> of the shapes the JSON and YAML decoders produce: \<^verbatim>\<open>nil\<close>, the sentinel
  \<^verbatim>\<open>jsUndefined\<close>, \<^verbatim>\<open>bool\<close>, \<^verbatim>\<open>float64\<close>, \<^verbatim>\<open>int\<close> or \<^verbatim>\<open>int64\<close>, \<^verbatim>\<open>uint64\<close> (a YAML integer above the range of
  \<^verbatim>\<open>int64\<close>), \<^verbatim>\<open>string\<close>, \<^verbatim>\<open>[]any\<close>, \<^verbatim>\<open>map[string]any\<close> and \<^verbatim>\<open>script.OrderedMap\<close>. Maps are lists of
  entries; the keys of a well-formed one are distinct.
\<close>

datatype any_value =
  NilValue | JsUndefined | AnyBool bool | AnyNumber f64 | AnyInt int | AnyUint nat | AnyString string |
  AnyArray "any_value list" | AnyMap "(string \<times> any_value) list" | AnyOrdered "(string \<times> any_value) list"

fun wf_value :: "any_value \<Rightarrow> bool" where
  "wf_value (AnyArray xs) \<longleftrightarrow> list_all wf_value xs"
| "wf_value (AnyMap m) \<longleftrightarrow> distinct (map fst m) \<and> list_all (\<lambda>e. wf_value (snd e)) m"
| "wf_value (AnyOrdered m) \<longleftrightarrow> distinct (map fst m) \<and> list_all (\<lambda>e. wf_value (snd e)) m"
| "wf_value _ \<longleftrightarrow> True"

section \<open>Paths\<close>

text \<open>
  The wrapper pattern \<^verbatim>\<open>^\$\{(.+)\}$\<close>: a dot matches no line feed.
\<close>

definition newline :: char where "newline = CHR 0x0A"

definition some_line :: "string \<Rightarrow> bool" where
  "some_line s \<longleftrightarrow> s \<noteq> [] \<and> newline \<notin> set s"

definition unwrap_from_key :: "string \<Rightarrow> string" where
  "unwrap_from_key from =
     (let inner = butlast (drop 2 from) in
      if has_prefix from ''${'' \<and> drop 2 from \<noteq> [] \<and> List.last from = CHR ''}'' \<and> some_line inner then inner else from)"

text \<open>
  A segment \<^verbatim>\<open>^(\w+)((?:\[\d+\])+)$\<close>: its name and the numbers in brackets. Any other segment stands
  for itself.
\<close>

fun bracket_indices :: "string \<Rightarrow> string list option" where
  "bracket_indices [] = Some []"
| "bracket_indices (c # cs) =
     (let ds = takeWhile is_dec cs in
      if c = CHR ''['' \<and> ds \<noteq> [] then
        (case dropWhile is_dec cs of
           d # rest \<Rightarrow>
             if d = CHR '']'' then map_option (Cons ds) (bracket_indices (drop (length ds + 1) cs)) else None
         | [] \<Rightarrow> None)
      else None)"

definition split_segment :: "string \<Rightarrow> string list" where
  "split_segment seg =
     (let name = takeWhile is_word_char seg; rest = dropWhile is_word_char seg in
      if name = [] \<or> rest = [] then [seg]
      else (case bracket_indices rest of None \<Rightarrow> [seg] | Some indices \<Rightarrow> name # indices))"

definition strip_root :: "string \<Rightarrow> string" where
  "strip_root dotPath =
     (if has_prefix dotPath ''$.'' then drop 2 dotPath
      else if has_prefix dotPath ''$'' then drop 1 dotPath else dotPath)"

definition path_segments :: "string \<Rightarrow> string list" where
  "path_segments normalized = concat (map split_segment (split_on (CHR ''.'') normalized))"

text \<open>\<^verbatim>\<open>strconv.Atoi\<close>, for a 64-bit \<^verbatim>\<open>int\<close>.\<close>

definition digits_value :: "string \<Rightarrow> nat" where
  "digits_value ds = foldl (\<lambda>v d. v * 10 + dec_value d) 0 ds"

definition atoi :: "string \<Rightarrow> int option" where
  "atoi s =
     (let (neg, ds) = strip_sign s; v = int (digits_value ds); i = (if neg then - v else v) in
      if ds \<noteq> [] \<and> list_all is_dec ds \<and> - (2 ^ 63) \<le> i \<and> i < 2 ^ 63 then Some i else None)"

definition step_into :: "any_value \<Rightarrow> string \<Rightarrow> any_value" where
  "step_into current segment =
     (case current of
        AnyArray xs \<Rightarrow>
          (case atoi segment of
             Some i \<Rightarrow> if 0 \<le> i \<and> i < int (length xs) then xs ! nat i else JsUndefined
           | None \<Rightarrow> JsUndefined)
      | AnyMap m \<Rightarrow> (case map_of m segment of Some v \<Rightarrow> v | None \<Rightarrow> JsUndefined)
      | _ \<Rightarrow> JsUndefined)"

fun resolve_segments :: "any_value \<Rightarrow> string list \<Rightarrow> any_value" where
  "resolve_segments current [] = current"
| "resolve_segments current (segment # rest) =
     (if current = NilValue \<or> current = JsUndefined then JsUndefined
      else resolve_segments (step_into current segment) rest)"

definition resolve_dot_path :: "any_value \<Rightarrow> string \<Rightarrow> any_value" where
  "resolve_dot_path obj dotPath =
     (let normalized = strip_root dotPath in
      if normalized = [] then obj else resolve_segments obj (path_segments normalized))"

section \<open>Deep equality\<close>

definition indexed :: "'a list \<Rightarrow> (string \<times> 'a) list" where
  "indexed xs = zip (map utoa [0..<length xs]) xs"

fun as_comparable :: "any_value \<Rightarrow> (string \<times> any_value) list option" where
  "as_comparable (AnyMap m) = Some m"
| "as_comparable (AnyOrdered m) = Some m"
| "as_comparable (AnyArray xs) = Some (indexed xs)"
| "as_comparable _ = None"

fun js_comparable_number :: "any_value \<Rightarrow> f64 option" where
  "js_comparable_number (AnyInt i) = Some (f_of_int i)"
| "js_comparable_number (AnyNumber f) = Some f"
| "js_comparable_number _ = None"

lemma as_comparable_size:
  "as_comparable v = Some m \<Longrightarrow> e \<in> set m \<Longrightarrow> size (snd e) < size v"
proof (induction v rule: as_comparable.induct)
  case (3 xs)
  then have "snd e \<in> set xs"
    by (cases e) (auto simp: indexed_def dest: set_zip_rightD)
  then show ?case
    by (simp add: size_list_estimation' less_Suc_eq_le)
next
  case (1 m')
  then have "size (snd e) \<le> size_list (size_prod (\<lambda>_. 0) size) m'"
    by (intro size_list_estimation' [of e]) (auto simp: size_prod_simp)
  then show ?case by simp
next
  case (2 m')
  then have "size (snd e) \<le> size_list (size_prod (\<lambda>_. 0) size) m'"
    by (intro size_list_estimation' [of e]) (auto simp: size_prod_simp)
  then show ?case by simp
qed auto

text \<open>Two values without entries are compared as numbers when both are, and by \<^verbatim>\<open>==\<close> otherwise.\<close>

definition primitive_equal :: "any_value \<Rightarrow> any_value \<Rightarrow> bool" where
  "primitive_equal a b =
     (case (js_comparable_number a, js_comparable_number b) of
        (Some x, Some y) \<Rightarrow> f_eq x y
      | _ \<Rightarrow> a = b)"

function js_deep_equal :: "any_value \<Rightarrow> any_value \<Rightarrow> bool" where
  "js_deep_equal a b =
     (if a = NilValue \<or> b = NilValue then a = NilValue \<and> b = NilValue
      else (case (as_comparable a, as_comparable b) of
              (Some ao, Some bo) \<Rightarrow>
                length ao = length bo \<and>
                list_all (\<lambda>e. case map_of bo (fst e) of None \<Rightarrow> False | Some bv \<Rightarrow> js_deep_equal (snd e) bv) ao
            | (None, None) \<Rightarrow> primitive_equal a b
            | _ \<Rightarrow> False))"
  by pat_completeness auto
termination
  by (relation "measure (\<lambda>(a, b). size a)") (auto dest!: as_comparable_size [OF sym])

declare js_deep_equal.simps [simp del]

section \<open>Ordered maps\<close>

text \<open>
  \<^verbatim>\<open>script.OrderedMap\<close> and \<^verbatim>\<open>OrderedStringMap\<close> as the list of their entries: \<^verbatim>\<open>Set\<close> keeps the place of a
  key that is there, \<^verbatim>\<open>Get\<close> is \<open>map_of\<close> and \<^verbatim>\<open>Keys\<close> the list of the first components.
\<close>

definition om_set :: "string \<Rightarrow> 'a \<Rightarrow> (string \<times> 'a) list \<Rightarrow> (string \<times> 'a) list" where
  "om_set key v m =
     (if key \<in> set (map fst m) then map (\<lambda>e. if fst e = key then (key, v) else e) m else m @ [(key, v)])"

section \<open>Rendering\<close>

text \<open>
  A string as \<^verbatim>\<open>json.Marshal\<close> writes it: quotes, backslashes, control characters and the characters
  of HTML are escaped, as are the two Unicode line separators; a byte that is no UTF-8 becomes the
  replacement character.
\<close>

definition hex_digit :: "nat \<Rightarrow> char" where
  "hex_digit n = ''0123456789abcdef'' ! n"

definition backslash :: char where "backslash = CHR 0x5C"

definition json_ascii :: "char \<Rightarrow> string" where
  "json_ascii c =
     (let b = byte_of c in
      if b = 34 \<or> b = 92 then [backslash, c]
      else if b = 8 then [backslash, CHR ''b''] else if b = 12 then [backslash, CHR ''f'']
      else if b = 10 then [backslash, CHR ''n''] else if b = 13 then [backslash, CHR ''r'']
      else if b = 9 then [backslash, CHR ''t'']
      else if b < 32 \<or> c \<in> set ''<>&'' then backslash # ''u00'' @ [hex_digit (b div 16), hex_digit (b mod 16)]
      else [c])"

definition json_rune :: "nat \<times> string \<Rightarrow> string" where
  "json_rune chunk =
     (case chunk of
        (r, bytes) \<Rightarrow>
          if r < 128 then concat (map json_ascii bytes)
          else if r = rune_error \<and> length bytes = 1 then backslash # ''ufffd''
          else if r = 8232 \<or> r = 8233 then backslash # ''u202'' @ [hex_digit (r mod 16)]
          else bytes)"

definition json_string :: "string \<Rightarrow> string" where
  "json_string s = CHR 0x22 # concat (map json_rune (rune_chunks s)) @ [CHR 0x22]"

text \<open>A number: the thresholds of the exponent are those of \<open>format_number\<close>; NaN and the infinities fail.\<close>

fun json_number :: "f64 \<Rightarrow> string option" where
  "json_number (Fin x) = Some (format_number (Fin x))"
| "json_number NZero = Some ''-0''"
| "json_number _ = None"

definition bool_str :: "bool \<Rightarrow> string" where
  "bool_str b = (if b then ''true'' else ''false'')"

lemma entry_size [termination_simp]:
  fixes m :: "(string \<times> any_value) list"
  shows "e \<in> set m \<Longrightarrow> size (snd e) < Suc (size_list (size_prod (\<lambda>_. 0) size) m)"
  using as_comparable_size [of "AnyMap m" m e] by simp

definition entries_text :: "string \<Rightarrow> string \<Rightarrow> (string \<times> string) list \<Rightarrow> string" where
  "entries_text separator colon es = join_with separator (map (\<lambda>e. fst e @ colon @ snd e) es)"

definition braced :: "string \<Rightarrow> string" where
  "braced s = CHR ''{'' # s @ ''}''"

definition bracketed :: "string \<Rightarrow> string" where
  "bracketed s = CHR ''['' # s @ '']''"

text \<open>
  \<^verbatim>\<open>json.Marshal\<close>; a Go map is written in the order of its keys, an \<^verbatim>\<open>OrderedMap\<close> in its own.
\<close>

fun json_marshal :: "any_value \<Rightarrow> string option" where
  "json_marshal NilValue = Some ''null''"
| "json_marshal JsUndefined = Some ''{}''"
| "json_marshal (AnyBool b) = Some (bool_str b)"
| "json_marshal (AnyNumber f) = json_number f"
| "json_marshal (AnyInt i) = Some (itoa i)"
| "json_marshal (AnyUint n) = Some (utoa n)"
| "json_marshal (AnyString s) = Some (json_string s)"
| "json_marshal (AnyArray xs) = map_option (\<lambda>ts. bracketed (join_with '','' ts)) (those (map json_marshal xs))"
| "json_marshal (AnyMap m) =
     map_option (\<lambda>ts. braced (entries_text '','' '':'' (map (\<lambda>e. (json_string (fst e), snd e)) (sort_key fst ts))))
       (those (map (\<lambda>e. map_option (Pair (fst e)) (json_marshal (snd e))) m))"
| "json_marshal (AnyOrdered m) =
     map_option (\<lambda>ts. braced (entries_text '','' '':'' (map (\<lambda>e. (json_string (fst e), snd e)) ts)))
       (those (map (\<lambda>e. map_option (Pair (fst e)) (json_marshal (snd e))) m))"

text \<open>The \<^verbatim>\<open>%v\<close> verb.\<close>

fun sprint_v :: "any_value \<Rightarrow> string" where
  "sprint_v NilValue = ''<nil>''"
| "sprint_v JsUndefined = ''&{}''"
| "sprint_v (AnyBool b) = bool_str b"
| "sprint_v (AnyNumber f) = show_float f"
| "sprint_v (AnyInt i) = itoa i"
| "sprint_v (AnyUint n) = utoa n"
| "sprint_v (AnyString s) = s"
| "sprint_v (AnyArray xs) = bracketed (join_with '' '' (map sprint_v xs))"
| "sprint_v (AnyMap m) =
     ''map'' @ bracketed (entries_text '' '' '':'' (sort_key fst (map (\<lambda>e. (fst e, sprint_v (snd e))) m)))"
| "sprint_v (AnyOrdered m) =
     braced (bracketed (join_with '' '' (map fst m)) @ '' map'' @
       bracketed (entries_text '' '' '':'' (sort_key fst (map (\<lambda>e. (fst e, sprint_v (snd e))) m))))"

fun json_stringify_js :: "any_value \<Rightarrow> string" where
  "json_stringify_js NilValue = ''null''"
| "json_stringify_js JsUndefined = ''undefined''"
| "json_stringify_js (AnyString s) = json_string s"
| "json_stringify_js (AnyBool b) = bool_str b"
| "json_stringify_js (AnyNumber f) = format_number f"
| "json_stringify_js v = (case json_marshal v of Some t \<Rightarrow> t | None \<Rightarrow> sprint_v v)"

fun js_string_of :: "any_value \<Rightarrow> string" where
  "js_string_of NilValue = ''null''"
| "js_string_of (AnyString s) = s"
| "js_string_of (AnyNumber f) = format_number f"
| "js_string_of (AnyBool b) = bool_str b"
| "js_string_of (AnyArray xs) = join_with '','' (map (\<lambda>v. if v = NilValue then [] else js_string_of v) xs)"
| "js_string_of (AnyMap m) = ''[object Object]''"
| "js_string_of v = sprint_v v"

section \<open>Assertions\<close>

definition is_empty_array :: "any_value \<Rightarrow> bool" where
  "is_empty_array v \<longleftrightarrow> v = AnyArray []"

text \<open>\<open>None\<close> is the error of \<^verbatim>\<open>toJSNumber\<close>, whose text is not used.\<close>

fun to_js_number :: "any_value \<Rightarrow> f64 option" where
  "to_js_number (AnyNumber f) = Some f"
| "to_js_number (AnyString t) =
     (let s = trim_space t in
      if s = [] then Some (Fin 0) else (case parse_float s of Inr f \<Rightarrow> Some f | Inl _ \<Rightarrow> None))"
| "to_js_number (AnyBool b) = Some (if b then Fin 1 else Fin 0)"
| "to_js_number _ = None"

text \<open>A bound of an operator: \<^verbatim>\<open>strconv.ParseFloat(strings.TrimSpace(s), 64)\<close>.\<close>

definition parse_bound :: "string \<Rightarrow> f64 option" where
  "parse_bound s = (case parse_float (trim_space s) of Inr f \<Rightarrow> Some f | Inl _ \<Rightarrow> None)"

text \<open>The verdict, and the reason of a failure.\<close>

type_synonym assert_outcome = "bool \<times> string"

definition passed :: assert_outcome where "passed = (True, [])"

definition operand :: "string \<Rightarrow> string \<Rightarrow> string option" where
  "operand name op =
     (if has_prefix op (name @ '':'') \<and> some_line (drop (length name + 1) op)
      then Some (drop (length name + 1) op) else None)"

definition between_operands :: "string \<Rightarrow> (string \<times> string) option" where
  "between_operands op =
     (let rest = drop 8 op; lo = takeWhile (\<lambda>c. c \<noteq> CHR '','') rest; hi = drop (length lo + 1) rest in
      if has_prefix op ''between:'' \<and> lo \<noteq> [] \<and> CHR '','' \<in> set rest \<and> some_line hi then Some (lo, hi) else None)"

definition comparison_operand :: "string \<Rightarrow> (string \<times> string) option" where
  "comparison_operand op =
     (case filter (\<lambda>name. operand name op \<noteq> None) [''gt'', ''gte'', ''lt'', ''lte''] of
        name # _ \<Rightarrow> map_option (Pair name) (operand name op)
      | [] \<Rightarrow> None)"

definition assert_between :: "any_value \<Rightarrow> string \<Rightarrow> string \<Rightarrow> assert_outcome" where
  "assert_between actual lo hi =
     (case (parse_bound lo, parse_bound hi, to_js_number actual) of
        (Some least, Some greatest, Some num) \<Rightarrow>
          if f_lt num least \<or> f_lt greatest num then
            (False, ''expected $between:'' @ format_number least @ '','' @ format_number greatest @ '', got '' @
               format_number num)
          else passed
      | _ \<Rightarrow> (False, ''cannot compare: actual='' @ json_stringify_js actual @ '', range='' @ lo @ '','' @ hi))"

definition assert_comparison :: "any_value \<Rightarrow> string \<Rightarrow> string \<Rightarrow> assert_outcome" where
  "assert_comparison actual cmp bound =
     (case (parse_bound bound, to_js_number actual) of
        (Some threshold, Some num) \<Rightarrow>
          if (if cmp = ''gt'' then f_lt threshold num else if cmp = ''gte'' then f_le threshold num
              else if cmp = ''lt'' then f_lt num threshold else f_le num threshold)
          then passed
          else (False, ''expected $'' @ cmp @ '':'' @ format_number threshold @ '', got '' @ format_number num)
      | _ \<Rightarrow> (False, ''cannot compare: actual='' @ json_stringify_js actual @ '', threshold='' @ bound))"

definition assert_equal :: "any_value \<Rightarrow> any_value \<Rightarrow> assert_outcome" where
  "assert_equal actual expected =
     (if js_deep_equal actual expected then passed
      else (False, ''expected '' @ json_stringify_js expected @ '', got '' @ json_stringify_js actual))"

definition assert_operator :: "any_value \<Rightarrow> string \<Rightarrow> assert_outcome option" where
  "assert_operator actual op =
     (if op = ''not_empty'' then
        Some (if actual = JsUndefined \<or> actual = NilValue \<or> actual = AnyString [] \<or> is_empty_array actual
              then (False, ''expected $not_empty, got '' @ json_stringify_js actual) else passed)
      else if op = ''exists'' then
        Some (if actual = JsUndefined then (False, ''expected $exists, got undefined'') else passed)
      else if op = ''not_exists'' then
        Some (if actual \<noteq> JsUndefined then (False, ''expected $not_exists, got '' @ json_stringify_js actual) else passed)
      else (case operand ''contains'' op of
        Some needle \<Rightarrow>
          Some (case actual of
                  AnyString s \<Rightarrow>
                    if contains s needle then passed
                    else (False, ''expected $contains:'' @ quote_text needle @ '', got '' @ json_stringify_js actual)
                | _ \<Rightarrow> (False, ''expected $contains:'' @ quote_text needle @ '', got '' @ json_stringify_js actual))
      | None \<Rightarrow>
          (case between_operands op of
             Some (lo, hi) \<Rightarrow> Some (assert_between actual lo hi)
           | None \<Rightarrow>
               (case comparison_operand op of
                  Some (cmp, bound) \<Rightarrow> Some (assert_comparison actual cmp bound)
                | None \<Rightarrow> None))))"

definition assert_value :: "any_value \<Rightarrow> any_value \<Rightarrow> assert_outcome" where
  "assert_value actual expected =
     (case expected of
        AnyString (c # op) \<Rightarrow>
          if c = CHR ''$'' then
            (case assert_operator actual op of Some outcome \<Rightarrow> outcome | None \<Rightarrow> assert_equal actual expected)
          else assert_equal actual expected
      | _ \<Rightarrow> assert_equal actual expected)"

end
