(* ===== verification/Runner_Values_Props.thy ===== *)
theory Runner_Values_Props
  imports Runner_Values
begin

text \<open>
  Properties of script values: decimal indices read back, paths compose and reach what they name,
  deep equality is equality of normal forms, and the operators of assertions mean what they say,
  but for NaN.
\<close>

section \<open>Decimal numerals\<close>

lemma is_dec_digit: "d < 10 \<Longrightarrow> is_dec (digit_char d) \<and> dec_value (digit_char d) = d"
  by (simp add: is_dec_def dec_value_def digit_char_def byte_of_def of_char_of)

lemma digits_value_snoc: "digits_value (ds @ [c]) = digits_value ds * 10 + dec_value c"
  by (simp add: digits_value_def)

lemma digits_value_utoa: "digits_value (utoa n) = n"
proof (induction n rule: dec_digits.induct)
  case (1 n)
  have d: "dec_value (digit_char (n mod 10)) = n mod 10"
    by (simp add: is_dec_digit)
  show ?case
  proof (cases "n div 10 = 0")
    case True
    with d show ?thesis
      by (simp add: utoa_def dec_digits.simps [of n] digits_value_def)
  next
    case False
    have "utoa n = utoa (n div 10) @ [digit_char (n mod 10)]"
      using False by (subst utoa_def, subst dec_digits.simps) (simp add: Let_def utoa_def)
    with 1 [OF refl refl False] d show ?thesis
      by (simp add: digits_value_snoc)
  qed
qed

lemma utoa_inject [simp]: "utoa m = utoa n \<longleftrightarrow> m = n"
  by (metis digits_value_utoa)

lemma utoa_digits: "utoa n \<noteq> [] \<and> list_all is_dec (utoa n)"
  by (auto simp: utoa_def list_all_iff is_dec_digit dest!: dec_digits_less_10)

lemma is_dec_not_sign: "is_dec c \<Longrightarrow> c \<noteq> CHR ''+'' \<and> c \<noteq> CHR ''-''"
  by (auto simp: is_dec_def byte_of_def)

lemma atoi_utoa: "n < 2 ^ 63 \<Longrightarrow> atoi (utoa n) = Some (int n)"
proof -
  assume n: "n < 2 ^ 63"
  obtain c cs where u: "utoa n = c # cs" "is_dec c"
    using utoa_digits [of n] by (cases "utoa n") auto
  then have "strip_sign (utoa n) = (False, utoa n)"
    using is_dec_not_sign [of c] by (simp add: strip_sign_def)
  moreover have "int n < 2 ^ 63"
    using n by simp
  ultimately show ?thesis
    using utoa_digits [of n] by (simp add: atoi_def digits_value_utoa)
qed

section \<open>Deep equality is equality of normal forms\<close>

text \<open>
  What a value is up to the differences the comparison ignores: the three kinds of containers are
  finite maps, a number written in a script is the float nearest to it, and the two zeros are one.
\<close>

datatype normal_value =
  NormNil | NormUndefined | NormBool bool | NormNumber f64 | NormUint nat | NormString string |
  NormObject "(string, normal_value) fmap"

definition one_zero :: "f64 \<Rightarrow> f64" where
  "one_zero f = (if f = NZero then Fin 0 else f)"

fun normal :: "any_value \<Rightarrow> normal_value" where
  "normal NilValue = NormNil"
| "normal JsUndefined = NormUndefined"
| "normal (AnyBool b) = NormBool b"
| "normal (AnyNumber f) = NormNumber (one_zero f)"
| "normal (AnyInt i) = NormNumber (one_zero (f_of_int i))"
| "normal (AnyUint n) = NormUint n"
| "normal (AnyString s) = NormString s"
| "normal (AnyArray xs) = NormObject (fmap_of_list (zip (map utoa [0..<length xs]) (map normal xs)))"
| "normal (AnyMap m) = NormObject (fmap_of_list (map (\<lambda>e. (fst e, normal (snd e))) m))"
| "normal (AnyOrdered m) = NormObject (fmap_of_list (map (\<lambda>e. (fst e, normal (snd e))) m))"

fun no_nan :: "any_value \<Rightarrow> bool" where
  "no_nan (AnyNumber f) \<longleftrightarrow> f \<noteq> NaN"
| "no_nan (AnyArray xs) \<longleftrightarrow> list_all no_nan xs"
| "no_nan (AnyMap m) \<longleftrightarrow> list_all (\<lambda>e. no_nan (snd e)) m"
| "no_nan (AnyOrdered m) \<longleftrightarrow> list_all (\<lambda>e. no_nan (snd e)) m"
| "no_nan _ \<longleftrightarrow> True"

lemma f_eq_iff: "f_eq x y \<longleftrightarrow> x \<noteq> NaN \<and> one_zero x = one_zero y"
  by (cases x; cases y) (auto simp: one_zero_def)

lemma map_of_entries: "map_of (map (\<lambda>e. (fst e, f (snd e))) m) = map_option f \<circ> map_of m"
  by (induction m) (auto simp: fun_eq_iff)

lemma map_of_entries_eq_iff:
  assumes "distinct (map fst ao)" "distinct (map fst bo)"
  shows "map_of (map (\<lambda>e. (fst e, f (snd e))) ao) = map_of (map (\<lambda>e. (fst e, g (snd e))) bo) \<longleftrightarrow>
    length ao = length bo \<and> (\<forall>e \<in> set ao. \<exists>bv. map_of bo (fst e) = Some bv \<and> f (snd e) = g bv)"
    (is "?A = ?B \<longleftrightarrow> ?R")
proof -
  have A: "?A = map_option f \<circ> map_of ao" and B: "?B = map_option g \<circ> map_of bo"
    by (simp_all add: map_of_entries)
  show ?thesis
  proof
    assume eq: "?A = ?B"
    then have "dom (map_of ao) = dom (map_of bo)"
      unfolding A B by (metis dom_map_option_comp)
    then have "fst ` set ao = fst ` set bo"
      by (simp add: dom_map_of_conv_image_fst)
    then have "length ao = length bo"
      using assms by (metis distinct_card length_map list.set_map)
    moreover have "\<exists>bv. map_of bo (fst e) = Some bv \<and> f (snd e) = g bv" if "e \<in> set ao" for e
    proof -
      have "map_of ao (fst e) = Some (snd e)"
        using that assms(1) by simp
      with fun_cong [OF eq [unfolded A B], of "fst e"] show ?thesis
        by (cases "map_of bo (fst e)") auto
    qed
    ultimately show ?R by blast
  next
    assume R: ?R
    then have sub: "fst ` set ao \<subseteq> fst ` set bo"
      by (force simp: map_of_eq_None_iff dest: map_of_SomeD)
    moreover have "card (fst ` set ao) = card (fst ` set bo)"
      using R assms by (metis distinct_card length_map list.set_map)
    ultimately have keys: "fst ` set ao = fst ` set bo"
      by (simp add: card_subset_eq)
    have "map_option f (map_of ao k) = map_option g (map_of bo k)" for k
    proof (cases "map_of ao k")
      case None
      then have "map_of bo k = None"
        using keys by (simp add: map_of_eq_None_iff)
      with None show ?thesis by simp
    next
      case (Some av)
      then have "(k, av) \<in> set ao"
        by (rule map_of_SomeD)
      with R have "\<exists>bv. map_of bo k = Some bv \<and> f av = g bv"
        by force
      with Some show ?thesis by auto
    qed
    then show "?A = ?B"
      unfolding A B by (simp add: fun_eq_iff)
  qed
qed


lemma normal_container:
  "as_comparable v = Some m \<Longrightarrow> normal v = NormObject (fmap_of_list (map (\<lambda>e. (fst e, normal (snd e))) m))"
proof (induction v rule: as_comparable.induct)
  case (3 xs)
  have "map (\<lambda>e. (fst e, normal (snd e))) (zip ks xs) = zip ks (map normal xs)" for ks :: "string list"
    by (simp add: zip_map2 case_prod_beta)
  with 3 show ?case
    by (auto simp: indexed_def)
qed auto

lemma keys_indexed [simp]: "distinct (map fst (indexed xs))"
  by (simp add: indexed_def distinct_map inj_on_def)

lemma set_indexed: "e \<in> set (indexed xs) \<Longrightarrow> snd e \<in> set xs"
  by (cases e) (auto simp: indexed_def dest: set_zip_rightD)

lemma as_comparable_wf:
  assumes "as_comparable v = Some m" "wf_value v"
  shows "distinct (map fst m)" "\<And>e. e \<in> set m \<Longrightarrow> wf_value (snd e)"
  using assms
  by (induction v rule: as_comparable.induct)
    (auto simp: list_all_iff dest: set_indexed)

lemma as_comparable_no_nan:
  assumes "as_comparable v = Some m" "no_nan v" "e \<in> set m"
  shows "no_nan (snd e)"
  using assms
  by (induction v rule: as_comparable.induct)
    (auto simp: list_all_iff dest: set_indexed)

lemma primitive_equal_iff:
  "no_nan a \<Longrightarrow> as_comparable a = None \<Longrightarrow> as_comparable b = None \<Longrightarrow> primitive_equal a b \<longleftrightarrow> normal a = normal b"
  by (cases a; cases b) (auto simp: primitive_equal_def f_eq_iff one_zero_def f_of_int_def to_float_def Let_def)

lemma normal_container_ne:
  "as_comparable a = Some m \<Longrightarrow> as_comparable b = None \<Longrightarrow> normal a \<noteq> normal b \<and> normal b \<noteq> normal a"
  by (cases b; simp add: normal_container)

lemma fmap_of_list_eq_iff: "fmap_of_list xs = fmap_of_list ys \<longleftrightarrow> map_of xs = map_of ys"
  by (metis fmlookup_of_list fmap_ext ext)

text \<open>
  Deep equality of well-formed values, the first one without NaN, is equality of their normal
  forms: the same keys with equal values in every container, whether a Go map, an ordered map or
  an array, numbers compared as floats whatever their Go type, everything else by identity.
\<close>

theorem js_deep_equal_normal_form:
  "wf_value a \<Longrightarrow> wf_value b \<Longrightarrow> no_nan a \<Longrightarrow> js_deep_equal a b \<longleftrightarrow> normal a = normal b"
proof (induction a b rule: js_deep_equal.induct)
  case (1 a b)
  consider "a = NilValue \<or> b = NilValue"
    | (both) ao bo where "a \<noteq> NilValue" "b \<noteq> NilValue" "as_comparable a = Some ao" "as_comparable b = Some bo"
    | (mixed) "a \<noteq> NilValue" "b \<noteq> NilValue" "(as_comparable a = None) \<noteq> (as_comparable b = None)"
    | (none) "a \<noteq> NilValue" "b \<noteq> NilValue" "as_comparable a = None" "as_comparable b = None"
    by (cases "as_comparable a"; cases "as_comparable b") auto
  then show ?case
  proof cases
    case 1
    then show ?thesis
      by (cases a; cases b) (auto simp: js_deep_equal.simps [of a b] js_deep_equal.simps)
  next
    case both
    note wf = as_comparable_wf [OF both(3) "1.prems"(1)] as_comparable_wf [OF both(4) "1.prems"(2)]
    have "js_deep_equal (snd e) bv \<longleftrightarrow> normal (snd e) = normal bv"
      if e: "e \<in> set ao" and bv: "map_of bo (fst e) = Some bv" for e bv
    proof (rule "1.IH")
      show "wf_value bv"
        using wf(4) [of "(fst e, bv)"] bv by (auto dest: map_of_SomeD)
    qed (use both e bv wf(2) as_comparable_no_nan [OF both(3) "1.prems"(3)] in auto)
    then have "js_deep_equal a b \<longleftrightarrow>
        length ao = length bo \<and> (\<forall>e \<in> set ao. \<exists>bv. map_of bo (fst e) = Some bv \<and> normal (snd e) = normal bv)"
      using both by (subst js_deep_equal.simps) (auto simp: list_all_iff split: option.splits; metis)
    also have "\<dots> \<longleftrightarrow> normal a = normal b"
      using both wf
      by (simp add: normal_container fmap_of_list_eq_iff map_of_entries_eq_iff)
    finally show ?thesis .
  next
    case mixed
    then show ?thesis
      using normal_container_ne [of a _ b] normal_container_ne [of b _ a]
      by (subst js_deep_equal.simps) (auto split: option.splits)
  next
    case none
    then show ?thesis
      using primitive_equal_iff [OF "1.prems"(3)] by (subst js_deep_equal.simps) simp
  qed
qed

text \<open>An array from a response and an ordered map from a script, and one key more.\<close>

theorem js_deep_equal_normal_form_witness:
  "js_deep_equal (AnyArray [AnyNumber (Fin 1)]) (AnyOrdered [(''0'', AnyInt 1)])"
proof -
  have u: "utoa 0 = ''0''"
    by code_simp
  have "normal (AnyArray [AnyNumber (Fin 1)]) = normal (AnyOrdered [(''0'', AnyInt 1)])"
    by (simp add: u [simplified] one_zero_def f_of_int_exact [of 1, simplified])
  then show ?thesis
    using js_deep_equal_normal_form [of "AnyArray [AnyNumber (Fin 1)]" "AnyOrdered [(''0'', AnyInt 1)]"] by simp
qed

section \<open>Paths\<close>

text \<open>Stopping at the first absent value changes nothing: every step from it leads nowhere.\<close>

lemma resolve_segments_foldl: "resolve_segments v ss = foldl step_into v ss"
proof (induction ss arbitrary: v)
  case (Cons s ss)
  have absent: "step_into NilValue t = JsUndefined" "step_into JsUndefined t = JsUndefined" for t
    by (simp_all add: step_into_def)
  then have "foldl step_into JsUndefined ts = JsUndefined" for ts
    by (induction ts) auto
  with Cons absent show ?case
    by auto
qed simp

lemma split_on_append: "split_on c (xs @ c # ys) = split_on c xs @ split_on c ys"
  by (induction xs) (auto split: list.splits)

lemma path_segments_append: "path_segments (p @ ''.'' @ q) = path_segments p @ path_segments q"
  by (simp add: path_segments_def split_on_append)

text \<open>
  A path through a path: looking up \<open>p.q\<close> is looking up \<open>q\<close> in what \<open>p\<close> leads to, absent and
  null values on the way included.
\<close>

theorem resolve_dot_path_compose:
  assumes "p \<noteq> []" "q \<noteq> []"
  shows "resolve_dot_path v (''$.'' @ p @ ''.'' @ q) = resolve_dot_path (resolve_dot_path v (''$.'' @ p)) (''$.'' @ q)"
  using assms path_segments_append [of p q]
  by (simp add: resolve_dot_path_def strip_root_def resolve_segments_foldl)

theorem resolve_dot_path_compose_witness:
  "resolve_dot_path (AnyMap [(''a'', NilValue)]) ''$.a.b'' = JsUndefined"
proof -
  have "resolve_dot_path (AnyMap [(''a'', NilValue)]) (''$.'' @ ''a'') = NilValue"
    by code_simp
  moreover have "resolve_dot_path NilValue (''$.'' @ ''b'') = JsUndefined"
    by code_simp
  ultimately show ?thesis
    using resolve_dot_path_compose [of "''a''" "''b''" "AnyMap [(''a'', NilValue)]"] by simp
qed

text \<open>
  Paths as an author writes them: names, each with any number of indices. A name is a word that
  does not start with a digit.
\<close>

type_synonym path_group = "string \<times> nat list"

definition is_name :: "string \<Rightarrow> bool" where
  "is_name k \<longleftrightarrow> k \<noteq> [] \<and> list_all is_word_char k \<and> \<not> is_dec (hd k)"

definition render_index :: "nat \<Rightarrow> string" where
  "render_index i = CHR ''['' # utoa i @ '']''"

definition render_group :: "path_group \<Rightarrow> string" where
  "render_group g = fst g @ concat (map render_index (snd g))"

definition render_path :: "path_group list \<Rightarrow> string" where
  "render_path gs = ''$.'' @ join_with ''.'' (map render_group gs)"

definition entry_of :: "(string \<times> any_value) list \<Rightarrow> string \<Rightarrow> any_value" where
  "entry_of m k = (case map_of m k of Some v \<Rightarrow> v | None \<Rightarrow> JsUndefined)"

definition at_name :: "any_value \<Rightarrow> string \<Rightarrow> any_value" where
  "at_name v k = (case v of AnyMap m \<Rightarrow> entry_of m k | _ \<Rightarrow> JsUndefined)"

definition at_index :: "any_value \<Rightarrow> nat \<Rightarrow> any_value" where
  "at_index v i =
     (case v of
        AnyArray xs \<Rightarrow> if i < length xs then xs ! i else JsUndefined
      | AnyMap m \<Rightarrow> entry_of m (utoa i)
      | _ \<Rightarrow> JsUndefined)"

definition at_group :: "any_value \<Rightarrow> path_group \<Rightarrow> any_value" where
  "at_group v g = foldl at_index (at_name v (fst g)) (snd g)"

lemma is_dec_iff: "is_dec c \<longleftrightarrow> CHR ''0'' \<le> c \<and> c \<le> CHR ''9''"
  by (auto simp: is_dec_def byte_of_def less_eq_char_def)

lemma word_char_facts:
  "\<not> is_word_char (CHR ''['')" "\<not> is_word_char (CHR '']'')" "\<not> is_word_char (CHR ''.'')"
  "\<not> is_dec (CHR '']'')" "\<not> is_dec (CHR ''.'')" "\<not> is_word_char (CHR ''+'')" "\<not> is_word_char (CHR ''-'')"
  by code_simp+

lemma step_into_index: "i < 2 ^ 63 \<Longrightarrow> step_into v (utoa i) = at_index v i"
  by (cases v) (auto simp: step_into_def at_index_def entry_of_def atoi_utoa)

lemma step_into_name: "is_name k \<Longrightarrow> step_into v k = at_name v k"
proof -
  assume k: "is_name k"
  then obtain c cs where c: "k = c # cs" "is_word_char c" "\<not> is_dec c"
    by (cases k) (auto simp: is_name_def)
  then have "c \<noteq> CHR ''+''" "c \<noteq> CHR ''-''"
    using word_char_facts by auto
  with c have "atoi k = None"
    by (auto simp: atoi_def strip_sign_def Let_def)
  then show ?thesis
    by (cases v) (auto simp: step_into_def at_name_def entry_of_def)
qed

lemma bracket_indices_render: "bracket_indices (concat (map render_index js)) = Some (map utoa js)"
proof (induction js)
  case (Cons j js)
  have tw: "takeWhile is_dec (utoa j @ CHR '']'' # ts) = utoa j"
    and dw: "dropWhile is_dec (utoa j @ CHR '']'' # ts) = CHR '']'' # ts" for ts
    using utoa_digits [of j] by (simp_all add: list_all_iff word_char_facts)
  have "utoa j \<noteq> []"
    using utoa_digits by blast
  with Cons show ?case
    by (simp add: render_index_def tw dw)
qed simp

lemma split_segment_render: "is_name (fst g) \<Longrightarrow> split_segment (render_group g) = fst g # map utoa (snd g)"
proof -
  assume n: "is_name (fst g)"
  let ?r = "concat (map render_index (snd g))"
  have "takeWhile is_word_char (fst g @ ?r) = fst g \<and> dropWhile is_word_char (fst g @ ?r) = ?r"
    using n by (cases "snd g") (auto simp: is_name_def list_all_iff render_index_def word_char_facts)
  moreover have "?r = [] \<longleftrightarrow> snd g = []"
    by (cases "snd g") (auto simp: render_index_def)
  ultimately show ?thesis
    using n bracket_indices_render [of "snd g"]
    by (auto simp: split_segment_def render_group_def is_name_def Let_def)
qed

lemma split_on_join:
  "ps \<noteq> [] \<Longrightarrow> list_all (\<lambda>p. c \<notin> set p) ps \<Longrightarrow> split_on c (join_with [c] ps) = ps"
proof (induction "[c]" ps rule: join_with.induct)
  case (2 p)
  then show ?case
    by (induction p) auto
next
  case (3 p q ps)
  have "split_on c p = [p]"
    using "3.prems" by (induction p) auto
  with 3 show ?case
    by (simp add: split_on_append)
qed simp

lemma no_dot_in_group: "is_name (fst g) \<Longrightarrow> CHR ''.'' \<notin> set (render_group g)"
  using word_char_facts(3,5) utoa_digits
  by (auto simp: render_group_def render_index_def is_name_def list_all_iff)

text \<open>
  A written path reaches the value it names: names select from objects, indices from arrays,
  one after the other, and a step that is not there gives the undefined value.
\<close>

theorem resolve_rendered_path:
  assumes "gs \<noteq> []" "list_all (\<lambda>g. is_name (fst g) \<and> list_all (\<lambda>i. i < 2 ^ 63) (snd g)) gs"
  shows "resolve_dot_path v (render_path gs) = foldl at_group v gs"
proof -
  have "split_on (CHR ''.'') (join_with ''.'' (map render_group gs)) = map render_group gs"
    using assms by (intro split_on_join) (auto simp: list_all_iff no_dot_in_group)
  moreover have "split_segment (render_group g) = fst g # map utoa (snd g)" if "g \<in> set gs" for g
    using assms(2) that by (simp add: split_segment_render list_all_iff)
  ultimately have "path_segments (join_with ''.'' (map render_group gs)) = concat (map (\<lambda>g. fst g # map utoa (snd g)) gs)"
    by (simp add: path_segments_def comp_def cong: map_cong)
  moreover have "join_with ''.'' (map render_group gs) \<noteq> []"
    using assms by (cases gs rule: remdups_adj.cases) (auto simp: render_group_def is_name_def)
  moreover have "foldl step_into v (concat (map (\<lambda>g. fst g # map utoa (snd g)) gs)) = foldl at_group v gs"
    using assms(2)
  proof (induction gs arbitrary: v)
    case (Cons g gs)
    have "foldl step_into w (map utoa js) = foldl at_index w js" if "list_all (\<lambda>i. i < 2 ^ 63) js" for w js
      using that by (induction js arbitrary: w) (auto simp: step_into_index)
    with Cons show ?case
      by (simp add: step_into_name at_group_def)
  qed simp
  ultimately show ?thesis
    by (simp add: resolve_dot_path_def strip_root_def render_path_def resolve_segments_foldl)
qed

theorem resolve_rendered_path_witness:
  "resolve_dot_path (AnyMap [(''rows'', AnyArray [NilValue, AnyArray [AnyBool True]])])
     (render_path [(''rows'', [1, 0])]) = AnyBool True"
proof -
  have "list_all (\<lambda>g. is_name (fst g) \<and> list_all (\<lambda>i. i < 2 ^ 63) (snd g)) [(''rows'', [1, 0 :: nat])]"
  proof -
    have "is_name ''rows''"
      by code_simp
    then show ?thesis by simp
  qed
  moreover have "foldl at_group (AnyMap [(''rows'', AnyArray [NilValue, AnyArray [AnyBool True]])]) [(''rows'', [1, 0])] =
      AnyBool True"
    by code_simp
  ultimately show ?thesis
    using resolve_rendered_path [of "[(''rows'', [1, 0])]"] by simp
qed

section \<open>Assertion operators\<close>

lemma rune_chunks_ascii: "list_all (\<lambda>c. byte_of c < 128) s \<Longrightarrow> rune_chunks s = map (\<lambda>c. (byte_of c, [c])) s"
  by (induction s) (auto simp: decode_rune_def)

lemma trim_space_ascii:
  assumes "list_all (\<lambda>c. byte_of c < 128) s" "s = [] \<or> \<not> is_space_rune (byte_of (hd s)) \<and> \<not> is_space_rune (byte_of (List.last s))"
  shows "trim_space s = s"
proof (cases s rule: rev_cases)
  case (snoc ys y)
  let ?cs = "map (\<lambda>c. (byte_of c, [c])) s"
  let ?blank = "\<lambda>x :: nat \<times> string. case x of (r, bytes) \<Rightarrow> is_space_rune r"
  have "dropWhile ?blank ?cs = ?cs"
    using assms(2) snoc by (cases ys) auto
  moreover have "dropWhile ?blank (rev ?cs) = rev ?cs"
    using assms(2) snoc by auto
  moreover have "concat (map snd ?cs) = s"
    by (induction s) auto
  ultimately show ?thesis
    using assms(1) by (simp add: trim_space_def rune_chunks_ascii Let_def)
qed (simp add: trim_space_def)

lemma parse_digit: "parse_float ''1'' = Inr (Fin 1)" "parse_float ''2'' = Inr (Fin 2)"
proof -
  have "read_mantissa 10 0 0 False False ''1'' = (1, 0, True, [])" "read_mantissa 10 0 0 False False ''2'' = (2, 0, True, [])"
    by code_simp+
  then show "parse_float ''1'' = Inr (Fin 1)" "parse_float ''2'' = Inr (Fin 2)"
    by (simp_all add: parse_float_def strip_sign_def parse_special_def lower_char_def byte_of_def hex_prefix_def
      read_exponent_def finish_float_def pow10_def is_inf_def base_prefix_def del: read_mantissa.simps)
qed

lemma to_js_number_nan: "to_js_number (AnyString ''NaN'') = Some NaN"
proof -
  have "parse_special False False ''NaN'' = Some NaN"
    by code_simp
  moreover have "trim_space ''NaN'' = ''NaN''"
    by (rule trim_space_ascii) (simp_all add: byte_of_def is_space_rune_def)
  ultimately show ?thesis
    by (simp add: parse_float_def strip_sign_def)
qed

lemma parse_bound_digit: "parse_bound ''1'' = Some (Fin 1)" "parse_bound ''2'' = Some (Fin 2)"
proof -
  have "trim_space ''1'' = ''1''" "trim_space ''2'' = ''2''"
    by (rule trim_space_ascii; simp add: byte_of_def is_space_rune_def)+
  then show "parse_bound ''1'' = Some (Fin 1)" "parse_bound ''2'' = Some (Fin 2)"
    by (simp_all add: parse_bound_def parse_digit)
qed

lemma assert_value_between:
  assumes "lo \<noteq> []" "CHR '','' \<notin> set lo" "some_line hi"
  shows "assert_value actual (AnyString (''$between:'' @ lo @ '','' @ hi)) = assert_between actual lo hi"
proof -
  have "takeWhile (\<lambda>c. c \<noteq> CHR '','') (lo @ CHR '','' # hi) = lo"
    using assms(2) by (auto simp: takeWhile_append)
  then show ?thesis
    using assms
    by (simp add: assert_value_def assert_operator_def operand_def between_operands_def Let_def)
qed

text \<open>
  With numeric bounds, \<^verbatim>\<open>$between\<close> passes exactly when the value converts to a number that is
  neither below the first nor above the second bound. The string \<^verbatim>\<open>NaN\<close> converts to a number that
  is neither, so it passes every range, although a value that is NaN for JavaScript is documented
  not to be comparable.
\<close>

theorem between_passes_nan:
  assumes "lo \<noteq> []" "CHR '','' \<notin> set lo" "some_line hi" "parse_bound lo = Some least" "parse_bound hi = Some greatest"
  shows "fst (assert_value actual (AnyString (''$between:'' @ lo @ '','' @ hi))) =
      (case to_js_number actual of Some num \<Rightarrow> \<not> f_lt num least \<and> \<not> f_lt greatest num | None \<Rightarrow> False) \<and>
    fst (assert_value (AnyString ''NaN'') (AnyString (''$between:'' @ lo @ '','' @ hi)))"
proof -
  note nan = to_js_number_nan
  have "\<not> f_lt NaN b" "\<not> f_lt b NaN" for b
    by (cases b; simp)+
  with assms(4,5) nan show ?thesis
    unfolding assert_value_between [OF assms(1-3)]
    by (auto simp: assert_between_def passed_def simp del: to_js_number.simps split: option.splits)
qed

theorem between_passes_nan_witness:
  "fst (assert_value (AnyString ''NaN'') (AnyString ''$between:1,2''))"
proof -
  have "some_line ''2''"
    by code_simp
  then show ?thesis
    using parse_bound_digit between_passes_nan [of "''1''" "''2''" "Fin 1" "Fin 2" JsUndefined] by simp
qed

text \<open>
  A leading plus sign and leading zeros of a segment select an element of an array, although
  the path is documented to index as it does in JavaScript, where such a key is absent.
\<close>

theorem unusual_index_selects:
  "resolve_dot_path (AnyMap [(''a'', AnyArray [v, w])]) ''$.a.+1'' = w \<and>
   resolve_dot_path (AnyMap [(''a'', AnyArray [v, w])]) ''$.a.01'' = w"
proof -
  have "path_segments ''a.+1'' = [''a'', ''+1'']" "path_segments ''a.01'' = [''a'', ''01'']"
    "atoi ''+1'' = Some 1" "atoi ''01'' = Some 1"
    by code_simp+
  then show ?thesis
    by (simp add: resolve_dot_path_def strip_root_def step_into_def)
qed

end
