(* ===== verification/Runner_Steps.thy ===== *)
theory Runner_Steps
  imports Runner_Values
begin

text \<open>
  The steps of a script as the runner receives them from the parser (\<^verbatim>\<open>core/internal/script/steps.go\<close>,
  \<^verbatim>\<open>types.go\<close>, \<^verbatim>\<open>schema.go\<close>), the selectors in them, their JSON text, and the summary of a step that
  the progress events carry (\<^verbatim>\<open>core/internal/runner/step_summary.go\<close>).
\<close>

section \<open>Selectors and targets\<close>

record script_selector =
  ScText :: "string option"
  ScID :: "string option"
  ScLabel :: "string option"
  ScHint :: "string option"
  ScRole :: "string option"
  ScNth :: "int option"

definition no_selector :: script_selector where
  "no_selector = \<lparr>ScText = None, ScID = None, ScLabel = None, ScHint = None, ScRole = None, ScNth = None\<rparr>"

record string_or_selector =
  SosStr :: "string option"
  SosSelector :: "script_selector option"

record pointer_offset =
  OffDx :: "f64 option"
  OffDy :: "f64 option"

record pointer_target =
  TgSelector :: "script_selector option"
  TgAnchor :: "string option"
  TgOffset :: "pointer_offset option"
  TgPoint :: "point option"

record pointer_action =
  PaType :: string
  PaTarget :: "pointer_target option"
  PaPressure :: "f64 option"
  PaMs :: "f64 option"
  PaLabel :: "string option"

record pointer_touch =
  PtID :: string
  PtActions :: "pointer_action list"

text \<open>\<^verbatim>\<open>toScriptSelector\<close> and \<^verbatim>\<open>compileScriptSelector\<close>.\<close>

definition to_script_selector :: "string_or_selector \<Rightarrow> script_selector" where
  "to_script_selector v =
     (case SosStr v of
        Some s \<Rightarrow> no_selector\<lparr>ScText := Some s, ScLabel := Some s\<rparr>
      | None \<Rightarrow> (case SosSelector v of Some sel \<Rightarrow> sel | None \<Rightarrow> no_selector))"

definition compile_script_selector :: "script_selector \<Rightarrow> selector" where
  "compile_script_selector sel =
     \<lparr>SelID = map_option LiteralPattern (ScID sel), SelText = map_option LiteralPattern (ScText sel),
      SelLabel = map_option LiteralPattern (ScLabel sel), SelHint = map_option LiteralPattern (ScHint sel),
      SelValue = None, SelRole = ScRole sel, SelEnabled = None, SelClickable = None, SelFocused = None,
      SelNth = ScNth sel\<rparr>"

section \<open>Steps\<close>

record condition_pair =
  CondVisible :: "string_or_selector option"
  CondNotVisible :: "string_or_selector option"

record branch_match =
  MatchStatus :: "int option"
  MatchBody :: "(string \<times> any_value) list option"

text \<open>
  One constructor per step struct, with its fields; the \<^verbatim>\<open>Command\<close> field of a struct is fixed by its
  kind. A \<^verbatim>\<open>StepsOrFile\<close> is an inline list of steps or the path of a file.
\<close>

datatype script_step =
  LaunchAppStep
| TapStep script_selector
| TypeStep string "script_selector option"
| WaitForStep script_selector "int option"
| AssertVisibleStep script_selector "int option"
| AssertNotVisibleStep script_selector "int option"
| AssertExistsStep script_selector "int option"
| ScreenshotStep "string option"
| SwipeStep string
| PressKeyStep string
| BackStep
| SleepStep int
| CaptureStep string string
| AssertApiStep string "int option" "(string \<times> any_value) list option"
| ExtractStep string "(string \<times> string) list"
| ReadStep script_selector "string option" string
| AssertExprStep string
| HandleStep "(condition_pair \<times> steps_or_file) list" "string option" "int option"
| BranchStep string "(branch_match \<times> steps_or_file) list" "steps_or_file option"
| RunFlowStep string "(string \<times> string) list"
| PointerStep "pointer_touch list" "f64 option"
| LongPressStep "pointer_target option" "f64 option" "pointer_target option"
| PinchStep "pointer_target option" f64 f64 "f64 option" "string option"
| RotateStep "pointer_target option" f64 "f64 option" "f64 option"
and steps_or_file = InlineSteps "script_step list" | StepsFile string

fun step_command :: "script_step \<Rightarrow> string" where
  "step_command LaunchAppStep = ''launchApp''"
| "step_command (TapStep _) = ''tap''"
| "step_command (TypeStep _ _) = ''type''"
| "step_command (WaitForStep _ _) = ''waitFor''"
| "step_command (AssertVisibleStep _ _) = ''assertVisible''"
| "step_command (AssertNotVisibleStep _ _) = ''assertNotVisible''"
| "step_command (AssertExistsStep _ _) = ''assertExists''"
| "step_command (ScreenshotStep _) = ''screenshot''"
| "step_command (SwipeStep _) = ''swipe''"
| "step_command (PressKeyStep _) = ''pressKey''"
| "step_command BackStep = ''back''"
| "step_command (SleepStep _) = ''sleep''"
| "step_command (CaptureStep _ _) = ''capture''"
| "step_command (AssertApiStep _ _ _) = ''assertApi''"
| "step_command (ExtractStep _ _) = ''extract''"
| "step_command (ReadStep _ _ _) = ''read''"
| "step_command (AssertExprStep _) = ''assertExpr''"
| "step_command (HandleStep _ _ _) = ''handle''"
| "step_command (BranchStep _ _ _) = ''branch''"
| "step_command (RunFlowStep _ _) = ''runFlow''"
| "step_command (PointerStep _ _) = ''pointer''"
| "step_command (LongPressStep _ _ _) = ''longPress''"
| "step_command (PinchStep _ _ _ _ _) = ''pinch''"
| "step_command (RotateStep _ _ _ _) = ''rotate''"

record precondition =
  Check :: condition_pair
  Setup :: steps_or_file
  Policy :: "string option"

record script_definition =
  AppID :: string
  ScriptName :: string
  Env :: "string \<rightharpoonup> string"
  Proxy :: "string option"
  Requires :: "string list"
  Preconditions :: "precondition list"
  StepDelay :: "f64 option"
  Steps :: "script_step list"
  StepLines :: "nat list"

text \<open>\<^verbatim>\<open>lineForStep\<close>: the recorded line, where zero stands for an unknown one.\<close>

definition line_for_step :: "script_definition \<Rightarrow> nat \<Rightarrow> nat option" where
  "line_for_step def i =
     (if length (StepLines def) \<le> i \<or> StepLines def ! i = 0 then None else Some (StepLines def ! i))"

section \<open>Quoting\<close>

text \<open>
  \<^verbatim>\<open>strconv.Quote\<close>, the \<^verbatim>\<open>%q\<close> verb; \<open>printable\<close> is \<^verbatim>\<open>strconv.IsPrint\<close> on the runes outside ASCII.
\<close>

definition hex_digits :: "nat \<Rightarrow> nat \<Rightarrow> string" where
  "hex_digits n r = map (\<lambda>i. hex_digit (r div 16 ^ (n - 1 - i) mod 16)) [0..<n]"

definition quote_ascii :: "char \<Rightarrow> string" where
  "quote_ascii c =
     (let b = byte_of c in
      if b = 34 \<or> b = 92 then [backslash, c]
      else if 32 \<le> b \<and> b < 127 then [c]
      else if 7 \<le> b \<and> b \<le> 13 then [backslash, ''abtnvfr'' ! (b - 7)]
      else backslash # CHR ''x'' # hex_digits 2 b)"

definition quote_rune :: "(nat \<Rightarrow> bool) \<Rightarrow> nat \<times> string \<Rightarrow> string" where
  "quote_rune printable chunk =
     (case chunk of
        (r, bytes) \<Rightarrow>
          if r < 128 then concat (map quote_ascii bytes)
          else if r = rune_error \<and> length bytes = 1 then backslash # CHR ''x'' # hex_digits 2 (byte_of (hd bytes))
          else if printable r then bytes
          else if r < 65536 then backslash # CHR ''u'' # hex_digits 4 r
          else backslash # CHR ''U'' # hex_digits 8 r)"

definition go_quote :: "(nat \<Rightarrow> bool) \<Rightarrow> string \<Rightarrow> string" where
  "go_quote printable s = CHR 0x22 # concat (map (quote_rune printable) (rune_chunks s)) @ [CHR 0x22]"

section \<open>Summaries\<close>

datatype step_token_kind = StepTokenKeyword | StepTokenIdentifier | StepTokenString | StepTokenPunct | StepTokenMask

type_synonym step_token = "step_token_kind \<times> string"

record step_summary =
  SummaryText :: string
  SummaryTokens :: "step_token list"

definition left_arrow :: string where "left_arrow = [CHR 0xE2, CHR 0x86, CHR 0x90]"
definition bullet :: string where "bullet = [CHR 0xE2, CHR 0x80, CHR 0xA2]"
definition ellipsis :: string where "ellipsis = [CHR 0xE2, CHR 0x80, CHR 0xA6]"
definition times_sign :: string where "times_sign = [CHR 0xC3, CHR 0x97]"

definition js_length :: "string \<Rightarrow> nat" where
  "js_length v = length (units_of v)"

definition js_truncate :: "string \<Rightarrow> nat \<Rightarrow> string" where
  "js_truncate v limit =
     (let units = units_of v in
      if length units \<le> limit then v else decode_units (take (limit - 1) units) @ ellipsis)"

definition mask_of :: "nat \<Rightarrow> string" where
  "mask_of n = concat (replicate (min 12 (max 4 n)) bullet)"

definition secret_field_hints :: "string list" where
  "secret_field_hints = [''password'', ''passwd'', ''pwd'', ''secret'', ''token'', ''pin'', ''otp'']"

definition looks_secret :: "(nat \<Rightarrow> nat) \<Rightarrow> string \<Rightarrow> bool" where
  "looks_secret uni fieldValue \<longleftrightarrow> list_ex (contains (to_lower uni fieldValue)) secret_field_hints"

definition selector_looks_secret :: "(nat \<Rightarrow> nat) \<Rightarrow> script_selector \<Rightarrow> bool" where
  "selector_looks_secret uni sel \<longleftrightarrow>
     list_ex (\<lambda>c. case c of None \<Rightarrow> False | Some v \<Rightarrow> looks_secret uni v) [ScID sel, ScLabel sel, ScHint sel, ScText sel]"

definition selector_field_name_and_value :: "script_selector \<Rightarrow> (string \<times> string) option" where
  "selector_field_name_and_value sel =
     (case ScID sel of Some v \<Rightarrow> Some (''id'', v) | None \<Rightarrow>
     (case ScText sel of Some v \<Rightarrow> Some (''text'', v) | None \<Rightarrow>
     (case ScLabel sel of Some v \<Rightarrow> Some (''label'', v) | None \<Rightarrow>
     (case ScHint sel of Some v \<Rightarrow> Some (''hint'', v) | None \<Rightarrow>
     (case ScRole sel of Some v \<Rightarrow> Some (''role'', v) | None \<Rightarrow> None)))))"

definition plural_suffix :: "nat \<Rightarrow> string \<Rightarrow> string" where
  "plural_suffix n ending = (if n = 1 then [] else ending)"

definition raw_str_token :: "string \<Rightarrow> step_token" where
  "raw_str_token text = (StepTokenString, js_truncate text 48)"

definition str_token :: "(nat \<Rightarrow> bool) \<Rightarrow> string \<Rightarrow> step_token" where
  "str_token printable text = (StepTokenString, go_quote printable (js_truncate text 48))"

definition selector_tokens :: "(nat \<Rightarrow> bool) \<Rightarrow> script_selector \<Rightarrow> step_token list" where
  "selector_tokens printable sel =
     (case selector_field_name_and_value sel of
        None \<Rightarrow> [(StepTokenIdentifier, ''element''), (StepTokenPunct, ''.''), (StepTokenIdentifier, ''?'')]
      | Some (field, v) \<Rightarrow>
          [(StepTokenIdentifier, ''element''), (StepTokenPunct, ''.''), (StepTokenIdentifier, field),
           (StepTokenPunct, '' = ''), str_token printable v])"

definition timeout_tokens :: "(nat \<Rightarrow> bool) \<Rightarrow> int option \<Rightarrow> step_token list" where
  "timeout_tokens printable timeoutMs =
     (case timeoutMs of
        None \<Rightarrow> []
      | Some ms \<Rightarrow>
          [(StepTokenPunct, '' (''), (StepTokenIdentifier, ''timeout''), (StepTokenPunct, ''=''),
           str_token printable (itoa ms @ ''ms''), (StepTokenPunct, '')'')])"

definition keyword_colon :: "string \<Rightarrow> step_token list" where
  "keyword_colon name = [(StepTokenKeyword, name), (StepTokenPunct, '': '')]"

fun summary_tokens :: "(nat \<Rightarrow> nat) \<Rightarrow> (nat \<Rightarrow> bool) \<Rightarrow> script_step \<Rightarrow> step_token list" where
  "summary_tokens uni pr (TapStep sel) = keyword_colon ''tap'' @ selector_tokens pr sel"
| "summary_tokens uni pr (TypeStep text into) =
     keyword_colon ''input'' @
     (case into of None \<Rightarrow> [] | Some sel \<Rightarrow> selector_tokens pr sel @ [(StepTokenPunct, '' '' @ left_arrow @ '' '')]) @
     [if (case into of None \<Rightarrow> False | Some sel \<Rightarrow> selector_looks_secret uni sel)
      then (StepTokenMask, mask_of (js_length text)) else str_token pr text]"
| "summary_tokens uni pr (WaitForStep sel timeoutMs) =
     keyword_colon ''waitFor'' @ selector_tokens pr sel @ timeout_tokens pr timeoutMs"
| "summary_tokens uni pr (AssertVisibleStep sel _) = keyword_colon ''assertVisible'' @ selector_tokens pr sel"
| "summary_tokens uni pr (AssertNotVisibleStep sel _) = keyword_colon ''assertNotVisible'' @ selector_tokens pr sel"
| "summary_tokens uni pr (AssertExistsStep sel _) = keyword_colon ''assertExists'' @ selector_tokens pr sel"
| "summary_tokens uni pr (ScreenshotStep label) =
     (StepTokenKeyword, ''screenshot'') #
     (case label of None \<Rightarrow> [] | Some l \<Rightarrow> [(StepTokenPunct, '': ''), str_token pr l])"
| "summary_tokens uni pr (SwipeStep dir) = keyword_colon ''swipe'' @ [str_token pr dir]"
| "summary_tokens uni pr (PressKeyStep key) = keyword_colon ''pressKey'' @ [str_token pr key]"
| "summary_tokens uni pr (SleepStep ms) = keyword_colon ''sleep'' @ [str_token pr (itoa ms @ ''ms'')]"
| "summary_tokens uni pr BackStep = [(StepTokenKeyword, ''back'')]"
| "summary_tokens uni pr LaunchAppStep = [(StepTokenKeyword, ''launchApp'')]"
| "summary_tokens uni pr (CaptureStep pat as) =
     keyword_colon ''capture'' @
     [(StepTokenIdentifier, as), (StepTokenPunct, '' '' @ left_arrow @ '' ''), str_token pr pat]"
| "summary_tokens uni pr (HandleStep branches otherwise timeoutMs) =
     keyword_colon ''handle'' @
     [str_token pr (utoa (length branches) @ '' branch'' @ plural_suffix (length branches) ''es'')] @
     timeout_tokens pr timeoutMs"
| "summary_tokens uni pr (BranchStep from on fallback) =
     [(StepTokenKeyword, ''branch''), (StepTokenPunct, '' on ''), (StepTokenIdentifier, CHR ''$'' # from),
      (StepTokenPunct, '' (''), str_token pr (utoa (length on) @ '' case'' @ plural_suffix (length on) ''s''),
      (StepTokenPunct, '')'')]"
| "summary_tokens uni pr (RunFlowStep file env) = keyword_colon ''runFlow'' @ [str_token pr file]"
| "summary_tokens uni pr (AssertApiStep from status body) =
     keyword_colon ''assertApi'' @ [(StepTokenIdentifier, CHR ''$'' # from)] @
     (let parts = (case status of None \<Rightarrow> [] | Some s \<Rightarrow> [''status='' @ itoa s]) @
        (case body of Some (e # es) \<Rightarrow> [''body'' @ times_sign @ utoa (length (e # es))] | _ \<Rightarrow> [])
      in if parts = [] then [] else [(StepTokenPunct, '' with ''), raw_str_token (join_with '', '' parts)])"
| "summary_tokens uni pr (ExtractStep from vals) =
     keyword_colon ''extract'' @
     [(StepTokenIdentifier, CHR ''$'' # from), (StepTokenPunct, '' into ''),
      raw_str_token (if vals = [] then ''?'' else join_with '', '' (map fst vals))]"
| "summary_tokens uni pr s = [(StepTokenKeyword, step_command s)]"

definition summarize_step :: "(nat \<Rightarrow> nat) \<Rightarrow> (nat \<Rightarrow> bool) \<Rightarrow> script_step \<Rightarrow> step_summary" where
  "summarize_step uni pr s =
     \<lparr>SummaryText = concat (map snd (summary_tokens uni pr s)), SummaryTokens = summary_tokens uni pr s\<rparr>"

end
