(* ===== verification/Runner_Steps_Props.thy ===== *)
theory Runner_Steps_Props
  imports Runner_Steps
begin

text \<open>
  Properties of step summaries: truncation keeps within its limit, and a text typed into a secret
  field shows through no more than its mask does.
\<close>

section \<open>Truncation\<close>

lemma encode_unit_range: "u \<in> set (encode_unit r) \<Longrightarrow> u < 65536"
  by (auto simp: encode_unit_def rune_error_def valid_rune_def split: if_splits)

lemma units_of_range: "u \<in> set (units_of s) \<Longrightarrow> u < 65536"
  by (auto simp: units_of_def encode_utf16_def dest: encode_unit_range)

lemma surrogate_pair_valid:
  "is_surrogate u \<Longrightarrow> u < 56320 \<Longrightarrow> 56320 \<le> v \<Longrightarrow> v < 57344 \<Longrightarrow>
   valid_rune ((u - 55296) * 1024 + (v - 56320) + 65536)"
  by (auto simp: valid_rune_def is_surrogate_def)

lemma decode_utf16_valid:
  "\<forall>u \<in> set us. u < 65536 \<Longrightarrow> \<forall>r \<in> set (decode_utf16 us). valid_rune r"
proof (induction us rule: decode_utf16.induct)
  case (2 u us)
  have err: "valid_rune rune_error"
    by (simp add: valid_rune_def rune_error_def is_surrogate_def)
  have "\<not> is_surrogate u \<Longrightarrow> valid_rune u"
    using "2.prems" by (simp add: valid_rune_def)
  with 2 err surrogate_pair_valid show ?case
    by (cases us) auto
qed simp

lemma length_encode_unit: "length (encode_unit r) \<le> 2" "r < 65536 \<Longrightarrow> length (encode_unit r) = 1"
  by (simp_all add: encode_unit_def)

lemma encode_utf16_Cons: "encode_utf16 (r # rs) = encode_unit r @ encode_utf16 rs"
  by (simp add: encode_utf16_def)

lemma encode_decode_utf16_length:
  "\<forall>u \<in> set us. u < 65536 \<Longrightarrow> length (encode_utf16 (decode_utf16 us)) \<le> length us"
proof (induction us rule: decode_utf16.induct)
  case (2 u us)
  have err: "length (encode_unit rune_error) = 1"
    by (rule length_encode_unit) (simp add: rune_error_def)
  note IH = "2.IH"
  consider "\<not> is_surrogate u" | (last) "is_surrogate u" "us = []"
    | (pair) v vs where "is_surrogate u" "us = v # vs" "u < 56320 \<and> 56320 \<le> v \<and> v < 57344"
    | (lone) v vs where "is_surrogate u" "us = v # vs" "\<not> (u < 56320 \<and> 56320 \<le> v \<and> v < 57344)"
    by (cases us) auto
  then show ?case
  proof cases
    case 1
    then show ?thesis
      using "2.prems" IH(1) length_encode_unit(2) [of u] by (simp add: encode_utf16_Cons)
  next
    case last
    then show ?thesis
      using err by (simp add: encode_utf16_def)
  next
    case pair
    let ?r = "(u - 55296) * 1024 + (v - 56320) + 65536"
    have "length (encode_utf16 (decode_utf16 vs)) \<le> length vs"
      using "2.prems" pair IH(2) [OF _ pair(2)] by simp
    then show ?thesis
      using pair length_encode_unit(1) [of ?r] by (simp only: decode_utf16.simps list.case if_True if_False not_not
          encode_utf16_Cons length_append length_Cons simp_thms split: if_split)
  next
    case lone
    then have "length (encode_utf16 (decode_utf16 us)) \<le> length us"
      using "2.prems" IH(3) [OF _ lone(2)] by simp
    moreover have "decode_utf16 (u # us) = rune_error # decode_utf16 us"
      using lone by (subst decode_utf16.simps) (auto simp del: decode_utf16.simps)
    ultimately show ?thesis
      using err by (simp only: encode_utf16_Cons length_append length_Cons)
  qed
qed (simp add: encode_utf16_def)

lemma ellipsis_runes: "string_of_runes rs @ ellipsis = string_of_runes (rs @ [8230])"
proof -
  have "encode_rune 8230 = [226, 128, 166]"
    by (simp add: encode_rune_def valid_rune_def is_surrogate_def)
  moreover have "ellipsis = map char_of [226, 128, 166 :: nat]"
    by (simp add: ellipsis_def char_of_def bit_iff_odd)
  ultimately have "ellipsis = map char_of (encode_rune 8230)"
    by simp
  then show ?thesis
    by (simp add: string_of_runes_def encode_utf8_def)
qed

text \<open>
  A truncated text takes no more UTF-16 units than its limit, even when the cut falls between
  the two halves of a surrogate pair, and a text that fits is left as it is.
\<close>

theorem js_truncate_fits:
  "js_length (js_truncate v (Suc n)) \<le> Suc n \<and> (if js_length v \<le> Suc n then js_truncate v (Suc n) = v else True)"
proof (cases "js_length v \<le> Suc n")
  case False
  let ?us = "take n (units_of v)"
  have range: "\<forall>u \<in> set ?us. u < 65536"
    by (meson in_set_takeD units_of_range)
  have "js_truncate v (Suc n) = string_of_runes (decode_utf16 ?us @ [8230])"
    using False by (simp add: js_truncate_def js_length_def decode_units_def ellipsis_runes Let_def)
  moreover have "\<forall>r \<in> set (decode_utf16 ?us @ [8230]). valid_rune r"
    using decode_utf16_valid [OF range] by (auto simp: valid_rune_def is_surrogate_def)
  ultimately have "units_of (js_truncate v (Suc n)) = encode_utf16 (decode_utf16 ?us) @ [8230]"
    by (simp add: units_of_def runes_of_string_of_runes encode_utf16_def)
      (simp add: encode_unit_def valid_rune_def is_surrogate_def)
  then show ?thesis
    using False encode_decode_utf16_length [OF range] by (simp add: js_length_def)
qed (simp add: js_truncate_def js_length_def)

lemma decode_utf8_ascii: "list_all (\<lambda>b. b < 128) bs \<Longrightarrow> decode_utf8 bs = bs"
  by (induction bs) (auto simp: decode_rune_def)

lemma js_length_ascii: "list_all (\<lambda>c. byte_of c < 128) s \<Longrightarrow> js_length s = length s"
proof -
  assume ascii: "list_all (\<lambda>c. byte_of c < 128) s"
  then have "runes_of s = map byte_of s"
    by (simp add: runes_of_def decode_utf8_ascii list_all_iff)
  moreover have "length (encode_utf16 (map byte_of s)) = length s"
    using ascii by (induction s) (simp_all add: encode_utf16_def length_encode_unit)
  ultimately show ?thesis
    by (simp add: js_length_def units_of_def)
qed

section \<open>Secrets\<close>

text \<open>
  C36: The summary of a text typed into a field whose selector looks secret depends on the text
  only through its mask: two texts with masks of the same width have the same summary. The mask
  does tell the length of a text of four to twelve units, though it is documented never to.
\<close>

theorem secret_text_masked:
  assumes "selector_looks_secret uni sel"
  shows "(summarize_step uni pr (TypeStep text (Some sel)) = summarize_step uni pr (TypeStep text' (Some sel))) =
    (min 12 (max 4 (js_length text)) = min 12 (max 4 (js_length text')))"
proof -
  have "length (mask_of n) = 3 * min 12 (max 4 n)" for n
    by (simp add: mask_of_def bullet_def length_concat sum_list_replicate)
  then have "mask_of m = mask_of n \<longleftrightarrow> min 12 (max 4 m) = min 12 (max 4 n)" for m n
    by (metis mask_of_def mult_cancel1 zero_neq_numeral)
  with assms show ?thesis
    by (auto simp: summarize_step_def)
qed

theorem secret_text_masked_witness:
  "(summarize_step (\<lambda>r. r) (\<lambda>r. True) (TypeStep ''abcde'' (Some (no_selector\<lparr>ScID := Some ''password''\<rparr>))) =
    summarize_step (\<lambda>r. r) (\<lambda>r. True) (TypeStep ''abcdef'' (Some (no_selector\<lparr>ScID := Some ''password''\<rparr>)))) = False"
proof -
  have "contains ''password'' ''password''"
    by simp
  then have "selector_looks_secret (\<lambda>r. r) (no_selector\<lparr>ScID := Some ''password''\<rparr>)"
    by (simp add: selector_looks_secret_def looks_secret_def secret_field_hints_def to_lower_def lower_char_def byte_of_def)
  moreover have "js_length ''abcde'' = 5" "js_length ''abcdef'' = 6"
    by (simp_all add: js_length_ascii byte_of_def)
  ultimately show ?thesis
    using secret_text_masked [of "\<lambda>r. r" "no_selector\<lparr>ScID := Some ''password''\<rparr>" "\<lambda>r. True" "''abcde''" "''abcdef''"]
    by simp
qed

end
