(* ===== verification/Runner_Step_Json.thy ===== *)
theory Runner_Step_Json
  imports Runner_Steps
begin

text \<open>
  The JSON text of selectors and steps, as \<^verbatim>\<open>json.Marshal\<close> writes the structs of
  \<^verbatim>\<open>core/internal/script/steps.go\<close> and \<^verbatim>\<open>types.go\<close> with their field tags: the runner uses it to tell
  setups apart (\<^verbatim>\<open>setupDedupKey\<close>) and to describe a check that failed. A slice is taken to be
  non-nil, as the parser builds it. \<open>None\<close> is a marshalling error: a number that is NaN or infinite.
\<close>

section \<open>Objects\<close>

text \<open>A field that \<^verbatim>\<open>omitempty\<close> leaves out is \<open>None\<close>.\<close>

type_synonym json_field = "(string \<times> string option) option"

definition required :: "string \<Rightarrow> string option \<Rightarrow> json_field" where
  "required name v = Some (name, v)"

definition optional :: "string \<Rightarrow> ('a \<Rightarrow> string option) \<Rightarrow> 'a option \<Rightarrow> json_field" where
  "optional name enc v = map_option (\<lambda>x. (name, enc x)) v"

definition json_object :: "json_field list \<Rightarrow> string option" where
  "json_object fs =
     (let present = List.map_filter (\<lambda>f. f) fs in
      map_option (\<lambda>ts. braced (join_with '','' ts))
        (those (map (\<lambda>f. map_option (\<lambda>t. json_string (fst f) @ '':'' @ t) (snd f)) present)))"

definition json_array :: "string option list \<Rightarrow> string option" where
  "json_array ts = map_option (\<lambda>ts. bracketed (join_with '','' ts)) (those ts)"

definition json_text :: "string \<Rightarrow> string option" where
  "json_text s = Some (json_string s)"

definition json_int :: "int \<Rightarrow> string option" where
  "json_int i = Some (itoa i)"

section \<open>Selectors and pointers\<close>

definition selector_json :: "script_selector \<Rightarrow> string option" where
  "selector_json s =
     json_object
       [optional ''text'' json_text (ScText s), optional ''id'' json_text (ScID s),
        optional ''label'' json_text (ScLabel s), optional ''hint'' json_text (ScHint s),
        optional ''role'' json_text (ScRole s), optional ''nth'' json_int (ScNth s)]"

definition string_or_selector_json :: "string_or_selector \<Rightarrow> string option" where
  "string_or_selector_json v =
     (case SosStr v of
        Some s \<Rightarrow> json_text s
      | None \<Rightarrow> (case SosSelector v of Some sel \<Rightarrow> selector_json sel | None \<Rightarrow> Some ''null''))"

definition condition_json :: "condition_pair \<Rightarrow> string option" where
  "condition_json c =
     json_object
       [optional ''visible'' string_or_selector_json (CondVisible c),
        optional ''notVisible'' string_or_selector_json (CondNotVisible c)]"

definition point_json :: "point \<Rightarrow> string option" where
  "point_json p = json_object [required ''x'' (json_number (X p)), required ''y'' (json_number (Y p))]"

definition target_json :: "pointer_target \<Rightarrow> string option" where
  "target_json t =
     json_object
       [optional ''selector'' selector_json (TgSelector t), optional ''anchor'' json_text (TgAnchor t),
        optional ''offset''
          (\<lambda>off. json_object [optional ''dx'' json_number (OffDx off), optional ''dy'' json_number (OffDy off)])
          (TgOffset t),
        optional ''point'' point_json (TgPoint t)]"

definition target_or_null :: "pointer_target option \<Rightarrow> string option" where
  "target_or_null t = (case t of None \<Rightarrow> Some ''null'' | Some x \<Rightarrow> target_json x)"

definition action_json :: "pointer_action \<Rightarrow> string option" where
  "action_json a =
     json_object
       [required ''type'' (json_text (PaType a)), optional ''target'' target_json (PaTarget a),
        optional ''pressure'' json_number (PaPressure a), optional ''ms'' json_number (PaMs a),
        optional ''label'' json_text (PaLabel a)]"

definition touch_json :: "pointer_touch \<Rightarrow> string option" where
  "touch_json t =
     json_object
       [if PtID t = [] then None else required ''id'' (json_text (PtID t)),
        required ''actions'' (json_array (map action_json (PtActions t)))]"

definition match_json :: "branch_match \<Rightarrow> string option" where
  "match_json m =
     json_object
       [optional ''status'' json_int (MatchStatus m), optional ''body'' (\<lambda>b. json_marshal (AnyOrdered b)) (MatchBody m)]"

section \<open>Steps\<close>

text \<open>The fields of a step without nested steps, after its \<^verbatim>\<open>command\<close>.\<close>

fun plain_fields :: "script_step \<Rightarrow> json_field list" where
  "plain_fields (TapStep sel) = [required ''selector'' (selector_json sel)]"
| "plain_fields (TypeStep txt into) = [required ''text'' (json_text txt), optional ''into'' selector_json into]"
| "plain_fields (WaitForStep sel ms) = [required ''selector'' (selector_json sel), optional ''timeoutMs'' json_int ms]"
| "plain_fields (AssertVisibleStep sel ms) = [required ''selector'' (selector_json sel), optional ''timeoutMs'' json_int ms]"
| "plain_fields (AssertNotVisibleStep sel ms) = [required ''selector'' (selector_json sel), optional ''timeoutMs'' json_int ms]"
| "plain_fields (AssertExistsStep sel ms) = [required ''selector'' (selector_json sel), optional ''timeoutMs'' json_int ms]"
| "plain_fields (ScreenshotStep label) = [optional ''label'' json_text label]"
| "plain_fields (SwipeStep dir) = [required ''direction'' (json_text dir)]"
| "plain_fields (PressKeyStep key) = [required ''key'' (json_text key)]"
| "plain_fields (SleepStep ms) = [required ''ms'' (json_int ms)]"
| "plain_fields (CaptureStep pat var) = [required ''pattern'' (json_text pat), required ''as'' (json_text var)]"
| "plain_fields (AssertApiStep from status body) =
     [required ''from'' (json_text from), optional ''status'' json_int status,
      optional ''body'' (\<lambda>b. json_marshal (AnyOrdered b)) body]"
| "plain_fields (ExtractStep from vals) =
     [required ''from'' (json_text from),
      required ''values'' (json_marshal (AnyOrdered (map (\<lambda>e. (fst e, AnyString (snd e))) vals)))]"
| "plain_fields (ReadStep sel field var) =
     [required ''selector'' (selector_json sel), optional ''field'' json_text field, required ''as'' (json_text var)]"
| "plain_fields (AssertExprStep e) = [required ''expr'' (json_text e)]"
| "plain_fields (RunFlowStep file env) =
     [required ''file'' (json_text file),
      if env = [] then None else required ''env'' (json_marshal (AnyMap (map (\<lambda>e. (fst e, AnyString (snd e))) env)))]"
| "plain_fields (PointerStep touches ms) =
     [required ''touches'' (json_array (map touch_json touches)), optional ''moveDurationMs'' json_number ms]"
| "plain_fields (LongPressStep spot holdMs drag) =
     [required ''at'' (target_or_null spot), optional ''holdMs'' json_number holdMs, optional ''thenSwipeTo'' target_json drag]"
| "plain_fields (PinchStep center startGap endGap ms axis) =
     [required ''center'' (target_or_null center), required ''startGap'' (json_number startGap),
      required ''endGap'' (json_number endGap), optional ''durationMs'' json_number ms, optional ''axis'' json_text axis]"
| "plain_fields (RotateStep center degrees radius ms) =
     [required ''center'' (target_or_null center), required ''degrees'' (json_number degrees),
      optional ''radius'' json_number radius, optional ''durationMs'' json_number ms]"
| "plain_fields _ = []"

definition step_object :: "script_step \<Rightarrow> json_field list \<Rightarrow> string option" where
  "step_object s fs = json_object (required ''command'' (json_text (step_command s)) # fs)"

fun step_json :: "script_step \<Rightarrow> string option"
  and steps_or_file_json :: "steps_or_file \<Rightarrow> string option" where
  "step_json (HandleStep branches otherwise timeoutMs) =
     step_object (HandleStep branches otherwise timeoutMs)
       [required ''branches'' (json_array (map (\<lambda>b. json_object
          [required ''when'' (condition_json (fst b)), required ''do'' (steps_or_file_json (snd b))]) branches)),
        optional ''otherwise'' json_text otherwise, optional ''timeout'' json_int timeoutMs]"
| "step_json (BranchStep from on fallback) =
     step_object (BranchStep from on fallback)
       [required ''from'' (json_text from),
        required ''on'' (json_array (map (\<lambda>c. json_object
          [required ''match'' (match_json (fst c)), required ''do'' (steps_or_file_json (snd c))]) on)),
        (case fallback of None \<Rightarrow> None | Some sof \<Rightarrow> required ''default'' (steps_or_file_json sof))]"
| "step_json s = step_object s (plain_fields s)"
| "steps_or_file_json (InlineSteps steps) = json_array (map step_json steps)"
| "steps_or_file_json (StepsFile file) = json_text file"

end
