(* ===== verification/Runner_Core.thy ===== *)
theory Runner_Core
  imports Runner_Step_Json Ui_Orchestra
begin

text \<open>
  The script runner (\<^verbatim>\<open>core/internal/runner/runner.go\<close>, \<^verbatim>\<open>command.go\<close>, \<^verbatim>\<open>step_event.go\<close>, \<^verbatim>\<open>flow_files.go\<close>,
  \<^verbatim>\<open>support.go\<close>): the step loop, nested step lists, preconditions and required flows, over a
  registry of commands. A command is a computation on the state of the run; the lists it runs
  itself it gets as callbacks in its context, as in the code.
\<close>

section \<open>Captured requests\<close>

record captured_request =
  CapMethod :: string
  CapURL :: string
  CapStatus :: int
  CapHeaders :: "(string \<times> string) list"
  CapBody :: any_value
  CapTimestampMs :: int

definition captured_request_as_any :: "captured_request \<Rightarrow> any_value" where
  "captured_request_as_any c =
     AnyMap
       [(''method'', AnyString (CapMethod c)), (''url'', AnyString (CapURL c)),
        (''status'', AnyNumber (f_of_int (CapStatus c))),
        (''headers'', AnyMap (map (\<lambda>h. (fst h, AnyString (snd h))) (CapHeaders c))),
        (''body'', CapBody c), (''timestamp'', AnyNumber (f_of_int (CapTimestampMs c)))]"

section \<open>Variables\<close>

text \<open>A script value is a value of the expression language.\<close>

type_synonym script_variables = "string \<rightharpoonup> expr_value"

definition variables_from_env :: "(string \<rightharpoonup> string) \<Rightarrow> script_variables" where
  "variables_from_env env = map_option StringValue \<circ> env"

fun script_value_to_env_string :: "expr_value \<Rightarrow> string" where
  "script_value_to_env_string (NumberValue f) = format_number f"
| "script_value_to_env_string (BoolValue b) = bool_str b"
| "script_value_to_env_string (StringValue s) = s"

definition environment_from_variables :: "script_variables \<Rightarrow> (string \<rightharpoonup> string)" where
  "environment_from_variables vars = map_option script_value_to_env_string \<circ> vars"

section \<open>Results and events\<close>

record command_result =
  ROk :: bool
  RDetail :: "string option"

definition ok_result :: "string \<Rightarrow> command_result" where
  "ok_result detail = \<lparr>ROk = True, RDetail = Some detail\<rparr>"

definition fail_result :: "string \<Rightarrow> command_result" where
  "fail_result detail = \<lparr>ROk = False, RDetail = Some detail\<rparr>"

definition detail_or_empty :: "string option \<Rightarrow> string" where
  "detail_or_empty d = (case d of None \<Rightarrow> [] | Some s \<Rightarrow> s)"

datatype step_event_type = StepStarted | StepCompleted

record step_event =
  EvType :: step_event_type
  EvStepIndex :: nat
  EvCommand :: string
  EvSummary :: step_summary
  EvDepth :: nat
  EvLine :: "nat option"
  EvOk :: bool
  EvDetail :: "string option"
  EvDurationMs :: int

record screenshot_artifact =
  ShotLabel :: string
  ShotData :: "nat list"
  ShotMimeType :: string

section \<open>State\<close>

text \<open>
  What a run changes: the shared state of its steps (\<^verbatim>\<open>runState\<close>), the two sets the runner keeps over
  its lifetime, the evidence collected, the progress events delivered to the hook so far, and the
  session of the \<^verbatim>\<open>Orchestra\<close> beside the world.
\<close>

record 'w run_state =
  RsVariables :: script_variables
  RsCaptures :: "string \<rightharpoonup> captured_request"
  RsSetups :: "string set"
  RsIndex :: nat
  RsDepth :: nat
  RsCompletedRequires :: "string set"
  RsCallStack :: "string set"
  RsShots :: "screenshot_artifact list"
  RsEvents :: "step_event list"
  RsWorld :: "session \<times> 'w"

text \<open>
  A computation of a command ends with a value, panics with the text of its panic value, or does
  not return.
\<close>

type_synonym ('s, 'a) comp = "'s \<Rightarrow> ((string + 'a) \<times> 's) option"

definition comp_return :: "'a \<Rightarrow> ('s, 'a) comp" where
  "comp_return a s = Some (Inr a, s)"

definition comp_panic :: "string \<Rightarrow> ('s, 'a) comp" where
  "comp_panic p s = Some (Inl p, s)"

definition comp_bind :: "('s, 'a) comp \<Rightarrow> ('a \<Rightarrow> ('s, 'b) comp) \<Rightarrow> ('s, 'b) comp" where
  "comp_bind m k s =
     (case m s of
        None \<Rightarrow> None
      | Some (Inl p, s') \<Rightarrow> Some (Inl p, s')
      | Some (Inr a, s') \<Rightarrow> k a s')"

section \<open>Dependencies\<close>

text \<open>
  The errors of a flow loader: a parse error, or an error of the file system.
\<close>

datatype load_error = LoadParseError string | LoadNotExist string | LoadPermission string | LoadOther string

fun load_error_text :: "load_error \<Rightarrow> string" where
  "load_error_text (LoadParseError t) = t"
| "load_error_text (LoadNotExist t) = t"
| "load_error_text (LoadPermission t) = t"
| "load_error_text (LoadOther t) = t"

definition node_style_file_error_message :: "load_error \<Rightarrow> string \<Rightarrow> string" where
  "node_style_file_error_message err file =
     (case err of
        LoadNotExist _ \<Rightarrow> ''ENOENT: no such file or directory, open '' @ CHR 0x27 # file @ [CHR 0x27]
      | LoadPermission _ \<Rightarrow> ''EACCES: permission denied, open '' @ CHR 0x27 # file @ [CHR 0x27]
      | _ \<Rightarrow> load_error_text err)"

datatype preconditions_override = NoOverride | OverrideSkip | OverrideForce

record health_report =
  Healthy :: bool
  HealthCode :: string
  HealthMessage :: string
  HealthRemedy :: string

text \<open>
  The adapters a runner is built from and what it reads of the operating system: the driver, the
  clock, the network capture (with the answer to \<^verbatim>\<open>noCaptureConfigured\<close>), the loader of flow files
  and \<^verbatim>\<open>filepath.Abs\<close>; \<^verbatim>\<open>http.DetectContentType\<close>; the text of an error and of its stable diagnostic;
  and the tables of the Unicode standard and the conversion of floats that the models of text and
  numbers take.
\<close>

record ('w, 'e) runner_deps =
  DepDriver :: "('w, 'e) driver"
  DepClock :: "('w, 'e) clock"
  DepScroll :: scroll_options
  DepPing :: "('w, 'e, unit) op"
  DepDescribe :: "'e \<Rightarrow> string \<times> string \<times> string"
  DepCapture :: "(string \<Rightarrow> int \<Rightarrow> 'w \<Rightarrow> ((string + captured_request) \<times> 'w) option) option"
  DepNoCapture :: bool
  DepLoad :: "(string \<Rightarrow> (string \<rightharpoonup> string) \<Rightarrow> 'w \<Rightarrow> load_error + script_definition) option"
  DepAbs :: "string \<Rightarrow> string"
  DepLaunchNoReset :: "bool option"
  DepClearDataOnFresh :: bool
  DepAppArtifact :: "string option"
  DepInjectedArtifacts :: bool
  DepOverride :: preconditions_override
  DepErrorText :: "'e orch_error \<Rightarrow> string"
  DepCoded :: "'e orch_error \<Rightarrow> string option"
  DepContextText :: "'e \<Rightarrow> string"
  DepContentType :: "nat list \<Rightarrow> string"
  DepLower :: "nat \<Rightarrow> nat"
  DepPrintable :: "nat \<Rightarrow> bool"
  DepWild :: "f64 \<Rightarrow> int"

definition now_ms :: "('w, 'e) runner_deps \<Rightarrow> 'w run_state \<Rightarrow> int" where
  "now_ms d st = NowMs (DepClock d) (snd (RsWorld st))"

definition context_error :: "('w, 'e) runner_deps \<Rightarrow> 'w run_state \<Rightarrow> string option" where
  "context_error d st = map_option (DepContextText d) (CtxErr (DepClock d) (snd (RsWorld st)))"

text \<open>
  An operation of the command layer inside a run. A wait that exhausts its fuel does not return.
\<close>

definition orch_call :: "('w, 'e, 'a) orch \<Rightarrow> 'w run_state \<Rightarrow> (('e orch_error + 'a) \<times> 'w run_state) option" where
  "orch_call m st =
     (case m (RsWorld st) of
        (Inl OutOfFuel, sw) \<Rightarrow> None
      | (r, sw) \<Rightarrow> Some (r, st\<lparr>RsWorld := sw\<rparr>))"

text \<open>\<^verbatim>\<open>must\<close>: an error is raised as a panic.\<close>

definition must :: "('w, 'e) runner_deps \<Rightarrow> ('w, 'e, 'a) orch \<Rightarrow> ('w run_state, 'a) comp" where
  "must d m st =
     (case orch_call m st of
        None \<Rightarrow> None
      | Some (Inl e, st') \<Rightarrow> Some (Inl (DepErrorText d e), st')
      | Some (Inr a, st') \<Rightarrow> Some (Inr a, st'))"

definition find_one_selector :: "('w, 'e) driver \<Rightarrow> selector \<Rightarrow> ('w, 'e, cursor option) orch" where
  "find_one_selector d s = call (finder_find_one (Hierarchy d) (compile_selector s))"

definition clock_sleep :: "('w, 'e) clock \<Rightarrow> int \<Rightarrow> ('w, 'e, unit) orch" where
  "clock_sleep clk ms = call (SleepMs clk ms)"

definition check_health :: "('w, 'e) runner_deps \<Rightarrow> 'w run_state \<Rightarrow> health_report \<times> 'w run_state" where
  "check_health d st =
     (case DepPing d (snd (RsWorld st)) of
        (Inl e, w) \<Rightarrow>
          (case DepDescribe d e of
             (code, message, remedy) \<Rightarrow>
               (\<lparr>Healthy = False, HealthCode = code, HealthMessage = message, HealthRemedy = remedy\<rparr>,
                st\<lparr>RsWorld := (fst (RsWorld st), w)\<rparr>))
      | (Inr _, w) \<Rightarrow>
          (\<lparr>Healthy = True, HealthCode = [], HealthMessage = [], HealthRemedy = []\<rparr>,
           st\<lparr>RsWorld := (fst (RsWorld st), w)\<rparr>))"

section \<open>Commands\<close>

record 's command_context =
  CcStepIndex :: nat
  CcScript :: script_definition
  CcRunSteps :: "script_step list \<Rightarrow> ('s, command_result) comp"
  CcRunPreconditions :: "precondition list \<Rightarrow> ('s, command_result) comp"

record 's command =
  ShouldSkip :: "'s command_context \<Rightarrow> 's \<Rightarrow> bool"
  Execute :: "script_step \<Rightarrow> 's command_context \<Rightarrow> ('s, command_result) comp"

type_synonym 's registry = "string \<rightharpoonup> 's command"

text \<open>\<^verbatim>\<open>execute\<close>: a panic of a handler is recovered into a failed result.\<close>

definition execute ::
  "'s command \<Rightarrow> script_step \<Rightarrow> 's command_context \<Rightarrow> 's \<Rightarrow> (command_result \<times> 's) option" where
  "execute cmd step ctx st =
     (case Execute cmd step ctx st of
        None \<Rightarrow> None
      | Some (Inl p, st') \<Rightarrow> Some (fail_result (''Exception: '' @ p), st')
      | Some (Inr r, st') \<Rightarrow> Some (r, st'))"

text \<open>What never panics, used as a callback.\<close>

definition as_comp :: "('s \<Rightarrow> ('a \<times> 's) option) \<Rightarrow> ('s, 'a) comp" where
  "as_comp m st = map_option (\<lambda>(a, st'). (Inr a, st')) (m st)"

section \<open>One step\<close>

definition emit :: "step_event \<Rightarrow> 'w run_state \<Rightarrow> 'w run_state" where
  "emit ev st = st\<lparr>RsEvents := RsEvents st @ [ev]\<rparr>"

definition started_event ::
  "('w, 'e) runner_deps \<Rightarrow> nat \<Rightarrow> script_step \<Rightarrow> nat \<Rightarrow> nat option \<Rightarrow> step_event" where
  "started_event d i step depth line =
     \<lparr>EvType = StepStarted, EvStepIndex = i, EvCommand = step_command step,
      EvSummary = summarize_step (DepLower d) (DepPrintable d) step, EvDepth = depth, EvLine = line,
      EvOk = False, EvDetail = None, EvDurationMs = 0\<rparr>"

definition completed_event ::
  "('w, 'e) runner_deps \<Rightarrow> nat \<Rightarrow> script_step \<Rightarrow> nat \<Rightarrow> nat option \<Rightarrow> command_result \<Rightarrow> int \<Rightarrow> step_event" where
  "completed_event d i step depth line r durationMs =
     \<lparr>EvType = StepCompleted, EvStepIndex = i, EvCommand = step_command step,
      EvSummary = summarize_step (DepLower d) (DepPrintable d) step, EvDepth = depth, EvLine = line,
      EvOk = ROk r, EvDetail = RDetail r, EvDurationMs = durationMs\<rparr>"

text \<open>
  The part both step loops share: taking the next global index, the event before, the execution,
  its duration, and the event after. \<open>depth\<close> gives the depth reported, read again after the step.
\<close>

definition dispatch_step ::
  "('w, 'e) runner_deps \<Rightarrow> ('w run_state \<Rightarrow> nat) \<Rightarrow> nat option \<Rightarrow> 'w run_state command \<Rightarrow> script_step \<Rightarrow>
   'w run_state command_context \<Rightarrow> 'w run_state \<Rightarrow> ((command_result \<times> int) \<times> 'w run_state) option"
where
  "dispatch_step d depth line cmd step ctx st =
     (let myIndex = RsIndex st;
          st1 = emit (started_event d myIndex step (depth st) line) (st\<lparr>RsIndex := myIndex + 1\<rparr>);
          stepStart = now_ms d st1
      in case execute cmd step ctx st1 of
           None \<Rightarrow> None
         | Some (r, st2) \<Rightarrow>
             let durationMs = now_ms d st2 - stepStart
             in Some ((r, durationMs), emit (completed_event d myIndex step (depth st2) line r durationMs) st2))"

definition unknown_command :: "('w, 'e) runner_deps \<Rightarrow> script_step \<Rightarrow> string" where
  "unknown_command d step = ''Unknown command: '' @ go_quote (DepPrintable d) (step_command step)"

section \<open>Nested step lists\<close>

fun nested_loop ::
  "('w, 'e) runner_deps \<Rightarrow> 'w run_state registry \<Rightarrow> (nat \<Rightarrow> 'w run_state command_context) \<Rightarrow> nat \<Rightarrow> script_step list \<Rightarrow>
   'w run_state \<Rightarrow> (command_result \<times> 'w run_state) option"
where
  "nested_loop d reg mk i [] st = Some (ok_result ''completed'', st)"
| "nested_loop d reg mk i (step # rest) st =
     (case context_error d st of
        Some e \<Rightarrow> Some (fail_result e, st)
      | None \<Rightarrow>
          (case reg (step_command step) of
             None \<Rightarrow> Some (fail_result (unknown_command d step), st)
           | Some cmd \<Rightarrow>
               if ShouldSkip cmd (mk i) st then nested_loop d reg mk (i + 1) rest st
               else (case dispatch_step d RsDepth None cmd step (mk i) st of
                       None \<Rightarrow> None
                     | Some ((r, _), st') \<Rightarrow>
                         if \<not> ROk r then Some (r, st') else nested_loop d reg mk (i + 1) rest st')))"

section \<open>Preconditions\<close>

definition resolve_effective_policy :: "preconditions_override \<Rightarrow> string option \<Rightarrow> string" where
  "resolve_effective_policy override own =
     (case override of
        OverrideSkip \<Rightarrow> ''skip''
      | OverrideForce \<Rightarrow> ''always''
      | NoOverride \<Rightarrow> (case own of Some p \<Rightarrow> p | None \<Rightarrow> ''ensure''))"

text \<open>The outcome of a check: whether it holds, or the text of an error.\<close>

definition evaluate_check ::
  "('w, 'e) runner_deps \<Rightarrow> condition_pair \<Rightarrow> 'w run_state \<Rightarrow> ((string + bool) \<times> 'w run_state) option" where
  "evaluate_check d c st =
     (let probe = (\<lambda>v expected.
            case orch_call (find_one_selector (DepDriver d) (compile_script_selector (to_script_selector v))) st of
              None \<Rightarrow> None
            | Some (Inl e, st') \<Rightarrow> Some (Inl (DepErrorText d e), st')
            | Some (Inr found, st') \<Rightarrow> Some (Inr ((found \<noteq> None) = expected), st'))
      in case CondVisible c of
           Some v \<Rightarrow> probe v True
         | None \<Rightarrow> (case CondNotVisible c of Some v \<Rightarrow> probe v False | None \<Rightarrow> Some (Inr False, st)))"

definition describe_selector_value :: "('w, 'e) runner_deps \<Rightarrow> string_or_selector \<Rightarrow> string" where
  "describe_selector_value d v =
     (case SosStr v of
        Some s \<Rightarrow> go_quote (DepPrintable d) s
      | None \<Rightarrow> (case SosSelector v of None \<Rightarrow> ''null'' | Some sel \<Rightarrow> detail_or_empty (selector_json sel)))"

definition describe_check :: "('w, 'e) runner_deps \<Rightarrow> condition_pair \<Rightarrow> string" where
  "describe_check d c =
     (case CondVisible c of
        Some v \<Rightarrow> ''expected visible '' @ describe_selector_value d v
      | None \<Rightarrow>
          (case CondNotVisible c of
             Some v \<Rightarrow> ''expected not visible '' @ describe_selector_value d v
           | None \<Rightarrow> ''no check configured''))"

definition resolve_steps ::
  "('w, 'e) runner_deps \<Rightarrow> steps_or_file \<Rightarrow> 'w run_state \<Rightarrow> string + script_step list" where
  "resolve_steps d sof st =
     (case sof of
        InlineSteps steps \<Rightarrow> Inr steps
      | StepsFile file \<Rightarrow>
          (case DepLoad d of
             None \<Rightarrow> Inl (''no flow loader configured to resolve setup file: '' @ file)
           | Some load \<Rightarrow>
               (case load file (environment_from_variables (RsVariables st)) (snd (RsWorld st)) of
                  Inl err \<Rightarrow>
                    Inl (''precondition setup file '' @ go_quote (DepPrintable d) file @ '': '' @ load_error_text err)
                | Inr flow \<Rightarrow> Inr (Steps flow))))"

text \<open>
  \<^verbatim>\<open>setupDedupKey\<close>; a setup that cannot be marshalled is keyed by the address of a variable of the
  call, which no later call finds again: \<open>None\<close>.
\<close>

definition setup_dedup_key :: "steps_or_file \<Rightarrow> string option" where
  "setup_dedup_key sof = steps_or_file_json sof"

type_synonym 'w run_list = "script_step list \<Rightarrow> 'w run_state \<Rightarrow> (command_result \<times> 'w run_state) option"

definition run_setup ::
  "('w, 'e) runner_deps \<Rightarrow> 'w run_list \<Rightarrow> precondition \<Rightarrow> 'w run_state \<Rightarrow> (command_result \<times> 'w run_state) option" where
  "run_setup d runSteps p st =
     (case resolve_steps d (Setup p) st of
        Inl detail \<Rightarrow> Some (fail_result detail, st)
      | Inr steps \<Rightarrow> runSteps steps st)"

definition run_setup_deduped ::
  "('w, 'e) runner_deps \<Rightarrow> 'w run_list \<Rightarrow> precondition \<Rightarrow> 'w run_state \<Rightarrow> (command_result \<times> 'w run_state) option" where
  "run_setup_deduped d runSteps p st =
     (let key = setup_dedup_key (Setup p) in
      if (case key of Some k \<Rightarrow> k \<in> RsSetups st | None \<Rightarrow> False)
      then Some (ok_result ''setup already completed this run'', st)
      else (case run_setup d runSteps p st of
              None \<Rightarrow> None
            | Some (r, st') \<Rightarrow>
                Some (r, if ROk r then (case key of Some k \<Rightarrow> st'\<lparr>RsSetups := insert k (RsSetups st')\<rparr> | None \<Rightarrow> st')
                         else st')))"

text \<open>The check that follows a setup.\<close>

definition recheck ::
  "('w, 'e) runner_deps \<Rightarrow> precondition \<Rightarrow> 'w run_state \<Rightarrow> (command_result option \<times> 'w run_state) option" where
  "recheck d p st =
     (case evaluate_check d (Check p) st of
        None \<Rightarrow> None
      | Some (Inl e, st') \<Rightarrow> Some (Some (fail_result e), st')
      | Some (Inr holds, st') \<Rightarrow>
          Some (if holds then None
                else Some (fail_result (''Precondition not met after setup: '' @ describe_check d (Check p))), st'))"

text \<open>One precondition: \<open>None\<close> when it holds, otherwise the failure.\<close>

definition setup_then_recheck ::
  "('w, 'e) runner_deps \<Rightarrow> ('w run_state \<Rightarrow> (command_result \<times> 'w run_state) option) \<Rightarrow> precondition \<Rightarrow> 'w run_state \<Rightarrow>
   (command_result option \<times> 'w run_state) option" where
  "setup_then_recheck d setup p st =
     (case setup st of
        None \<Rightarrow> None
      | Some (r, st') \<Rightarrow> if \<not> ROk r then Some (Some r, st') else recheck d p st')"

definition run_precondition ::
  "('w, 'e) runner_deps \<Rightarrow> 'w run_list \<Rightarrow> precondition \<Rightarrow> 'w run_state \<Rightarrow>
   (command_result option \<times> 'w run_state) option" where
  "run_precondition d runSteps p st =
     (case context_error d st of
        Some e \<Rightarrow> Some (Some (fail_result e), st)
      | None \<Rightarrow>
          (let policy = resolve_effective_policy (DepOverride d) (Policy p) in
           if policy = ''skip'' then Some (None, st)
           else if policy = ''always'' then setup_then_recheck d (run_setup_deduped d runSteps p) p st
           else (case evaluate_check d (Check p) st of
                   None \<Rightarrow> None
                 | Some (Inl e, st') \<Rightarrow> Some (Some (fail_result e), st')
                 | Some (Inr True, st') \<Rightarrow> Some (None, st')
                 | Some (Inr False, st') \<Rightarrow> setup_then_recheck d (run_setup d runSteps p) p st')))"

fun preconditions_loop ::
  "('w, 'e) runner_deps \<Rightarrow> 'w run_list \<Rightarrow> precondition list \<Rightarrow> 'w run_state \<Rightarrow> (command_result \<times> 'w run_state) option"
where
  "preconditions_loop d runSteps [] st = Some (ok_result ''preconditions satisfied'', st)"
| "preconditions_loop d runSteps (p # ps) st =
     (case run_precondition d runSteps p st of
        None \<Rightarrow> None
      | Some (Some failure, st') \<Rightarrow> Some (failure, st')
      | Some (None, st') \<Rightarrow> preconditions_loop d runSteps ps st')"

definition run_preconditions ::
  "('w, 'e) runner_deps \<Rightarrow> 'w run_list \<Rightarrow> precondition list \<Rightarrow> 'w run_state \<Rightarrow> (command_result \<times> 'w run_state) option"
where
  "run_preconditions d runSteps ps st =
     (if ps = [] then Some (ok_result ''no preconditions'', st) else preconditions_loop d runSteps ps st)"

section \<open>Nesting\<close>

text \<open>
  \<^verbatim>\<open>runNestedSteps\<close> and the context of its steps call each other through the callbacks; the first
  argument bounds the depth of the nesting still allowed, \<open>None\<close> is a nesting that exceeds it.
\<close>

definition context_for ::
  "('w, 'e) runner_deps \<Rightarrow> script_definition \<Rightarrow> 'w run_list \<Rightarrow> nat \<Rightarrow> 'w run_state command_context" where
  "context_for d def runSteps i =
     \<lparr>CcStepIndex = i, CcScript = def,
      CcRunSteps = (\<lambda>steps. as_comp (runSteps steps)),
      CcRunPreconditions = (\<lambda>ps. as_comp (run_preconditions d runSteps ps))\<rparr>"

fun run_nested_steps ::
  "nat \<Rightarrow> ('w, 'e) runner_deps \<Rightarrow> 'w run_state registry \<Rightarrow> script_definition \<Rightarrow> 'w run_list"
where
  "run_nested_steps 0 d reg def steps st = None"
| "run_nested_steps (Suc n) d reg def steps st =
     map_option (\<lambda>(r, st'). (r, st'\<lparr>RsDepth := RsDepth st' - 1\<rparr>))
       (nested_loop d reg (context_for d def (run_nested_steps n d reg def)) 0 steps
          (st\<lparr>RsDepth := RsDepth st + 1\<rparr>))"

section \<open>Results of a run\<close>

record step_result =
  SrStepIndex :: int
  SrCommand :: string
  SrOk :: bool
  SrDetail :: "string option"
  SrDurationMs :: int

datatype run_abort_reason = AbortDeviceLost | AbortProxyRequired

record run_abort =
  AbortReason :: run_abort_reason
  AbortCode :: string
  AbortMessage :: string
  AbortRemedy :: string

record script_result =
  ResScriptName :: string
  ResOk :: bool
  ResSteps :: "step_result list"
  ResTotalSteps :: nat
  ResPassedSteps :: nat
  ResFailedAtStep :: "nat option"
  ResDurationMs :: int
  ResAbort :: "run_abort option"

definition proxy_required_message :: string where
  "proxy_required_message = ''This script needs network capture, but no proxy is configured.''"

definition proxy_required_remedy :: string where
  "proxy_required_remedy =
     ''Pass --proxy <type:path> on the CLI, or set the '' @ quote_text ''proxy'' @ '' argument on the run_script tool call.''"

definition classify_step_failure ::
  "('w, 'e) runner_deps \<Rightarrow> 'w run_state \<Rightarrow> run_abort option \<times> 'w run_state" where
  "classify_step_failure d st =
     (if context_error d st \<noteq> None then (None, st)
      else (case check_health d st of
              (report, st') \<Rightarrow>
                (if Healthy report then None
                 else Some \<lparr>AbortReason = AbortDeviceLost, AbortCode = HealthCode report,
                            AbortMessage = HealthMessage report, AbortRemedy = HealthRemedy report\<rparr>, st')))"

definition trim_right_in :: "string \<Rightarrow> string \<Rightarrow> string" where
  "trim_right_in cutset s = rev (dropWhile (\<lambda>c. c \<in> set cutset) (rev s))"

definition device_lost_detail :: "run_abort \<Rightarrow> string" where
  "device_lost_detail a =
     (if AbortRemedy a = [] then AbortMessage a
      else trim_right_in ''.!?'' (trim_space (AbortMessage a)) @ ''. '' @ AbortRemedy a)"

section \<open>Required flows\<close>

text \<open>The result of a run that a required flow ends: built where the failure is known.\<close>

definition requires_fail ::
  "('w, 'e) runner_deps \<Rightarrow> script_definition \<Rightarrow> int \<Rightarrow> string \<Rightarrow> 'w run_state \<Rightarrow> script_result" where
  "requires_fail d def startedAt detail st =
     \<lparr>ResScriptName = ScriptName def, ResOk = False,
      ResSteps = [\<lparr>SrStepIndex = - 1, SrCommand = ''requires'', SrOk = False, SrDetail = Some detail, SrDurationMs = 0\<rparr>],
      ResTotalSteps = length (Steps def), ResPassedSteps = 0, ResFailedAtStep = Some 0,
      ResDurationMs = now_ms d st - startedAt, ResAbort = None\<rparr>"

text \<open>The outcome of required flows: an error of the loader, a failed result, or success.\<close>

datatype requires_outcome = RequiresError string | RequiresFailed script_result | RequiresDone

definition run_one_required_flow ::
  "('w, 'e) runner_deps \<Rightarrow> 'w run_list \<Rightarrow> script_definition \<Rightarrow> int \<Rightarrow> string \<Rightarrow> string \<Rightarrow> 'w run_state \<Rightarrow>
   (requires_outcome \<times> 'w run_state) option"
where
  "run_one_required_flow d runSteps def startedAt reqPath absPath st =
     (let failed = (\<lambda>detail st. Some (RequiresFailed (requires_fail d def startedAt detail st), st));
          quoted = go_quote (DepPrintable d) reqPath
      in case DepLoad d of
           None \<Rightarrow> failed (''no flow loader configured to resolve required flow: '' @ reqPath) st
         | Some load \<Rightarrow>
             (case load absPath (environment_from_variables (RsVariables st)) (snd (RsWorld st)) of
                Inl err \<Rightarrow> Some (RequiresError (''required flow '' @ quoted @ '': '' @ load_error_text err), st)
              | Inr reqDef \<Rightarrow>
                  (case run_preconditions d runSteps (Preconditions reqDef) st of
                     None \<Rightarrow> None
                   | Some (p, st1) \<Rightarrow>
                       if \<not> ROk p then
                         failed (''Required flow '' @ quoted @ '' precondition failed: '' @ detail_or_empty (RDetail p)) st1
                       else
                         (case runSteps (Steps reqDef) st1 of
                            None \<Rightarrow> None
                          | Some (s, st2) \<Rightarrow>
                              if \<not> ROk s then
                                failed (''Required flow '' @ quoted @ '' failed: '' @ detail_or_empty (RDetail s)) st2
                              else Some (RequiresDone, st2)))))"

fun run_required_flows ::
  "('w, 'e) runner_deps \<Rightarrow> 'w run_list \<Rightarrow> script_definition \<Rightarrow> int \<Rightarrow> string list \<Rightarrow> 'w run_state \<Rightarrow>
   (requires_outcome \<times> 'w run_state) option"
where
  "run_required_flows d runSteps def startedAt [] st = Some (RequiresDone, st)"
| "run_required_flows d runSteps def startedAt (reqPath # rest) st =
     (let absPath = DepAbs d reqPath in
      if absPath \<in> RsCompletedRequires st then run_required_flows d runSteps def startedAt rest st
      else if absPath \<in> RsCallStack st then
        Some (RequiresFailed (requires_fail d def startedAt (''Circular dependency detected: '' @ reqPath) st), st)
      else (case run_one_required_flow d runSteps def startedAt reqPath absPath
                   (st\<lparr>RsCallStack := insert absPath (RsCallStack st)\<rparr>) of
              None \<Rightarrow> None
            | Some (outcome, st1) \<Rightarrow>
                (let st2 = st1\<lparr>RsCallStack := RsCallStack st1 - {absPath}\<rparr> in
                 if outcome = RequiresDone then
                   run_required_flows d runSteps def startedAt rest
                     (st2\<lparr>RsCompletedRequires := insert absPath (RsCompletedRequires st2)\<rparr>)
                 else Some (outcome, st2))))"

section \<open>The main loop\<close>

text \<open>
  The results collected, the index of the failed step and the abort; \<open>Inl\<close> is the text of the error
  with which \<^verbatim>\<open>Run\<close> returns.
\<close>

type_synonym main_outcome = "string + (step_result list \<times> nat option \<times> run_abort option)"

definition step_delay_due :: "script_definition \<Rightarrow> nat \<Rightarrow> script_step \<Rightarrow> f64 option" where
  "step_delay_due def i step =
     (case StepDelay def of
        Some delay \<Rightarrow> if 0 < i \<and> f_lt (Fin 0) delay \<and> step_command step \<noteq> ''sleep'' then Some delay else None
      | None \<Rightarrow> None)"

definition pause_before ::
  "('w, 'e) runner_deps \<Rightarrow> script_definition \<Rightarrow> nat \<Rightarrow> script_step \<Rightarrow> 'w run_state \<Rightarrow> (string option \<times> 'w run_state) option"
where
  "pause_before d def i step st =
     (case step_delay_due def i step of
        None \<Rightarrow> Some (None, st)
      | Some delay \<Rightarrow>
          (case orch_call (clock_sleep (DepClock d) (f_to_int (DepWild d) delay)) st of
             None \<Rightarrow> None
           | Some (Inl e, st') \<Rightarrow> Some (Some (DepErrorText d e), st')
           | Some (Inr _, st') \<Rightarrow> Some (None, st')))"

definition mk_step_result :: "nat \<Rightarrow> script_step \<Rightarrow> command_result \<Rightarrow> int \<Rightarrow> step_result" where
  "mk_step_result i step r durationMs =
     \<lparr>SrStepIndex = int i, SrCommand = step_command step, SrOk = ROk r, SrDetail = RDetail r, SrDurationMs = durationMs\<rparr>"

text \<open>What the loop does after a step that failed: the probe, and the neutral detail of a lost device.\<close>

definition after_failure ::
  "('w, 'e) runner_deps \<Rightarrow> nat \<Rightarrow> step_result \<Rightarrow> 'w run_state \<Rightarrow>
   (step_result \<times> run_abort option) \<times> 'w run_state"
where
  "after_failure d i sr st =
     (case classify_step_failure d st of
        (None, st') \<Rightarrow> ((sr, None), st')
      | (Some a, st') \<Rightarrow> ((sr\<lparr>SrDetail := Some (device_lost_detail a)\<rparr>, Some a), st'))"

fun main_loop ::
  "('w, 'e) runner_deps \<Rightarrow> 'w run_state registry \<Rightarrow> (nat \<Rightarrow> 'w run_state command_context) \<Rightarrow> script_definition \<Rightarrow>
   nat \<Rightarrow> script_step list \<Rightarrow> step_result list \<Rightarrow> 'w run_state \<Rightarrow> (main_outcome \<times> 'w run_state) option"
where
  "main_loop d reg mk def i [] done st = Some (Inr (done, None, None), st)"
| "main_loop d reg mk def i (step # rest) done st =
     (case context_error d st of
        Some e \<Rightarrow> Some (Inl e, st)
      | None \<Rightarrow>
          (case reg (step_command step) of
             None \<Rightarrow>
               Some (Inr (done @ [mk_step_result i step (fail_result (unknown_command d step)) 0], Some i, None), st)
           | Some cmd \<Rightarrow>
               if ShouldSkip cmd (mk i) st then main_loop d reg mk def (i + 1) rest done st
               else (case pause_before d def i step st of
                       None \<Rightarrow> None
                     | Some (Some e, st1) \<Rightarrow> Some (Inl e, st1)
                     | Some (None, st1) \<Rightarrow>
                         (case dispatch_step d (\<lambda>_. 0) (line_for_step def i) cmd step (mk i) st1 of
                            None \<Rightarrow> None
                          | Some ((r, durationMs), st2) \<Rightarrow>
                              if ROk r then
                                main_loop d reg mk def (i + 1) rest (done @ [mk_step_result i step r durationMs]) st2
                              else
                                (case after_failure d i (mk_step_result i step r durationMs) st2 of
                                   ((sr, abort), st3) \<Rightarrow> Some (Inr (done @ [sr], Some i, abort), st3))))))"

section \<open>Run\<close>

definition failed_before_steps ::
  "('w, 'e) runner_deps \<Rightarrow> script_definition \<Rightarrow> int \<Rightarrow> string option \<Rightarrow> 'w run_state \<Rightarrow> script_result" where
  "failed_before_steps d def startedAt detail st =
     \<lparr>ResScriptName = ScriptName def, ResOk = False,
      ResSteps = [\<lparr>SrStepIndex = - 1, SrCommand = ''preconditions'', SrOk = False, SrDetail = detail, SrDurationMs = 0\<rparr>],
      ResTotalSteps = length (Steps def), ResPassedSteps = 0, ResFailedAtStep = Some 0,
      ResDurationMs = now_ms d st - startedAt, ResAbort = None\<rparr>"

definition proxy_refused :: "('w, 'e) runner_deps \<Rightarrow> script_definition \<Rightarrow> int \<Rightarrow> 'w run_state \<Rightarrow> script_result" where
  "proxy_refused d def startedAt st =
     \<lparr>ResScriptName = ScriptName def, ResOk = False, ResSteps = [], ResTotalSteps = length (Steps def),
      ResPassedSteps = 0, ResFailedAtStep = None, ResDurationMs = now_ms d st - startedAt,
      ResAbort = Some \<lparr>AbortReason = AbortProxyRequired, AbortCode = ''PROXY_REQUIRED'',
                       AbortMessage = proxy_required_message, AbortRemedy = proxy_required_remedy\<rparr>\<rparr>"

definition finished_result ::
  "('w, 'e) runner_deps \<Rightarrow> script_definition \<Rightarrow> int \<Rightarrow> step_result list \<Rightarrow> nat option \<Rightarrow> run_abort option \<Rightarrow> 'w run_state \<Rightarrow>
   script_result" where
  "finished_result d def startedAt results failedAt abort st =
     \<lparr>ResScriptName = ScriptName def, ResOk = (failedAt = None), ResSteps = results,
      ResTotalSteps = length (Steps def), ResPassedSteps = length (filter SrOk results),
      ResFailedAtStep = failedAt, ResDurationMs = now_ms d st - startedAt, ResAbort = abort\<rparr>"

text \<open>
  The state of a run at its start; what outlives a run is kept, the collected evidence only when its
  collector was injected.
\<close>

definition fresh_run :: "('w, 'e) runner_deps \<Rightarrow> script_definition \<Rightarrow> 'w run_state \<Rightarrow> 'w run_state" where
  "fresh_run d def st =
     st\<lparr>RsVariables := variables_from_env (Env def), RsCaptures := Map.empty, RsSetups := {}, RsIndex := 0, RsDepth := 0,
        RsShots := if DepInjectedArtifacts d then RsShots st else []\<rparr>"

text \<open>\<open>n\<close> bounds the depth of nested step lists; the error is the one \<^verbatim>\<open>Run\<close> returns beside no result.\<close>

definition run ::
  "nat \<Rightarrow> ('w, 'e) runner_deps \<Rightarrow> 'w run_state registry \<Rightarrow> script_definition \<Rightarrow> 'w run_state \<Rightarrow>
   ((string + script_result) \<times> 'w run_state) option"
where
  "run n d reg def st0 =
     (let startedAt = now_ms d st0; runSteps = run_nested_steps n d reg def in
      if Proxy def = Some ''required'' \<and> DepNoCapture d then Some (Inr (proxy_refused d def startedAt st0), st0)
      else (case run_required_flows d runSteps def startedAt (Requires def) (fresh_run d def st0) of
              None \<Rightarrow> None
            | Some (RequiresError e, st) \<Rightarrow> Some (Inl e, st)
            | Some (RequiresFailed res, st) \<Rightarrow> Some (Inr res, st)
            | Some (RequiresDone, st) \<Rightarrow>
                (case run_preconditions d runSteps (Preconditions def) st of
                   None \<Rightarrow> None
                 | Some (p, st1) \<Rightarrow>
                     if \<not> ROk p then Some (Inr (failed_before_steps d def startedAt (RDetail p) st1), st1)
                     else (case main_loop d reg (context_for d def runSteps) def 0 (Steps def) [] st1 of
                             None \<Rightarrow> None
                           | Some (Inl e, st2) \<Rightarrow> Some (Inl e, st2)
                           | Some (Inr (results, failedAt, abort), st2) \<Rightarrow>
                               Some (Inr (finished_result d def startedAt results failedAt abort st2), st2)))))"

end
