(* ===== verification/Runner_Pointer.thy ===== *)
theory Runner_Pointer
  imports Runner_Core
begin

text \<open>
  Pointer gestures (\<^verbatim>\<open>core/internal/runner/pointer_command.go\<close>) and the three steps that compile to
  them (\<^verbatim>\<open>gesture_sugar.go\<close>, \<^verbatim>\<open>long_press_command.go\<close>, \<^verbatim>\<open>pinch_command.go\<close>, \<^verbatim>\<open>rotate_command.go\<close>):
  validation of the action lists, resolution of targets, the choice between the coordinate
  primitives and the waypoint gesture, and its timeline. \<^verbatim>\<open>math.Cos\<close> and \<^verbatim>\<open>math.Sin\<close> are
  parameters of the rotation.
\<close>

section \<open>Errors\<close>

record pointer_error =
  PeCode :: string
  PeDetail :: string

definition pointer_error_text :: "pointer_error \<Rightarrow> string" where
  "pointer_error_text e = PeCode e @ '': '' @ PeDetail e"

definition new_pointer_error :: "string \<Rightarrow> string \<Rightarrow> pointer_error" where
  "new_pointer_error code detail = \<lparr>PeCode = code, PeDetail = detail\<rparr>"

text \<open>A step of the command that may also end with a pointer error.\<close>

type_synonym ('s, 'a) pcomp = "('s, pointer_error + 'a) comp"

definition p_return :: "'a \<Rightarrow> ('s, 'a) pcomp" where
  "p_return a = comp_return (Inr a)"

definition p_fail :: "pointer_error \<Rightarrow> ('s, 'a) pcomp" where
  "p_fail e = comp_return (Inl e)"

definition p_bind :: "('s, 'a) pcomp \<Rightarrow> ('a \<Rightarrow> ('s, 'b) pcomp) \<Rightarrow> ('s, 'b) pcomp" where
  "p_bind m k = comp_bind m (\<lambda>r. case r of Inl e \<Rightarrow> p_fail e | Inr a \<Rightarrow> k a)"

definition p_lift :: "('s, 'a) comp \<Rightarrow> ('s, 'a) pcomp" where
  "p_lift m = comp_bind m (\<lambda>a. p_return a)"

definition p_check :: "pointer_error option \<Rightarrow> ('s, unit) pcomp" where
  "p_check v = (case v of None \<Rightarrow> p_return () | Some e \<Rightarrow> p_fail e)"

definition gesture_sugar_result :: "('s, command_result) pcomp \<Rightarrow> ('s, command_result) comp" where
  "gesture_sugar_result m =
     comp_bind m (\<lambda>r. case r of Inl e \<Rightarrow> comp_return (fail_result (pointer_error_text e)) | Inr res \<Rightarrow> comp_return res)"

section \<open>Traits of an action list\<close>

definition pointer_max_wait_ms :: nat where "pointer_max_wait_ms = 30000"
definition pointer_max_move_duration_ms :: nat where "pointer_max_move_duration_ms = 10000"
definition pointer_default_move_duration_ms :: f64 where "pointer_default_move_duration_ms = Fin 200"
definition pointer_drag_min_press_ms :: f64 where "pointer_drag_min_press_ms = Fin 50"

definition action_ms :: "pointer_action \<Rightarrow> f64" where
  "action_ms a = (case PaMs a of None \<Rightarrow> Fin 0 | Some ms \<Rightarrow> ms)"

definition has_pressure :: "pointer_action list \<Rightarrow> bool" where
  "has_pressure as \<longleftrightarrow> list_ex (\<lambda>a. (PaType a = ''down'' \<or> PaType a = ''move'') \<and> PaPressure a \<noteq> None) as"

definition has_capture :: "pointer_action list \<Rightarrow> bool" where
  "has_capture as \<longleftrightarrow> list_ex (\<lambda>a. PaType a = ''capture'') as"

fun hold_then_drag :: "bool \<Rightarrow> pointer_action list \<Rightarrow> bool" where
  "hold_then_drag seen [] = False"
| "hold_then_drag seen (a # as) =
     (if PaType a = ''wait'' then hold_then_drag (seen \<or> f_lt (Fin 0) (action_ms a)) as
      else if PaType a = ''move'' \<and> seen then True
      else hold_then_drag seen as)"

definition has_hold_then_drag :: "pointer_action list \<Rightarrow> bool" where
  "has_hold_then_drag as = hold_then_drag False as"

section \<open>Validation\<close>

definition backtick :: string where "backtick = [CHR 0x60]"

definition ticked :: "string \<Rightarrow> string" where
  "ticked s = backtick @ s @ backtick"

definition out_of_range :: "f64 \<Rightarrow> nat \<Rightarrow> bool" where
  "out_of_range v limit \<longleftrightarrow> f_lt v (Fin 0) \<or> f_lt (Fin (of_nat limit)) v"

definition validate_pointer_move_duration :: "f64 option \<Rightarrow> pointer_error + f64" where
  "validate_pointer_move_duration raw =
     (case raw of
        None \<Rightarrow> Inr pointer_default_move_duration_ms
      | Some ms \<Rightarrow>
          if out_of_range ms pointer_max_move_duration_ms then
            Inl (new_pointer_error ''POINTER_INVALID_MOVE_DURATION''
              (''moveDurationMs must be between 0 and '' @ utoa pointer_max_move_duration_ms @ '', got '' @ show_float ms))
          else Inr ms)"

definition validate_pressure_capability :: "capabilities \<Rightarrow> pointer_action list \<Rightarrow> pointer_error option" where
  "validate_pressure_capability caps as =
     (if has_pressure as \<and> \<not> CanPressure caps then
        Some (new_pointer_error ''POINTER_PRESSURE_NOT_SUPPORTED''
          (''pressure-sensitive waypoints are not supported by the active driver. Remove the '' @ ticked ''pressure'' @
           '' field from every '' @ ticked ''down'' @ '' or '' @ ticked ''move'' @
           '' action, or run the script against a driver whose capabilities report pressure-sensitive dispatch support.''))
      else None)"

definition at_action :: "nat \<Rightarrow> string \<Rightarrow> string" where
  "at_action i rest = ''action['' @ utoa i @ ''] '' @ rest"

definition needs_down :: "nat \<Rightarrow> string \<Rightarrow> pointer_error" where
  "needs_down i kind =
     new_pointer_error ''POINTER_NO_OPENING_DOWN'' (at_action i (''is '' @ ticked kind @ '' but no pointer is currently down''))"

fun check_sequence :: "nat \<Rightarrow> bool \<Rightarrow> pointer_action list \<Rightarrow> pointer_error option" where
  "check_sequence i openDown [] = None"
| "check_sequence i openDown (a # as) =
     (if PaType a = ''down'' then
        (if openDown then
           Some (new_pointer_error ''POINTER_NESTED_DOWN''
             (at_action i (''is '' @ ticked ''down'' @ '' but the previous '' @ ticked ''down'' @
                '' has not yet been closed by '' @ ticked ''up'')))
         else check_sequence (i + 1) True as)
      else if PaType a = ''up'' then
        (if \<not> openDown then
           Some (new_pointer_error ''POINTER_NO_OPENING_DOWN''
             (at_action i (''is '' @ ticked ''up'' @ '' without a matching preceding '' @ ticked ''down'')))
         else check_sequence (i + 1) False as)
      else if PaType a = ''wait'' then
        (if \<not> openDown then Some (needs_down i ''wait'')
         else if out_of_range (action_ms a) pointer_max_wait_ms then
           Some (new_pointer_error ''POINTER_INVALID_WAIT''
             (at_action i (''wait('' @ show_float (action_ms a) @ '') out of range [0..'' @ utoa pointer_max_wait_ms @ '']'')))
         else check_sequence (i + 1) True as)
      else if PaType a = ''capture'' then
        (if \<not> openDown then Some (needs_down i ''capture'') else check_sequence (i + 1) True as)
      else (if \<not> openDown then Some (needs_down i ''move'') else check_sequence (i + 1) True as))"

definition validate_single_sequence :: "pointer_action list \<Rightarrow> pointer_error option" where
  "validate_single_sequence as =
     (if as = [] then Some (new_pointer_error ''POINTER_EMPTY_SEQUENCE'' ''actions list is empty'')
      else if PaType (hd as) \<noteq> ''down'' then
        Some (new_pointer_error ''POINTER_NO_OPENING_DOWN''
          (''first action must be '' @ ticked ''down'' @ '', got '' @ ticked (PaType (hd as))))
      else if PaType (List.last as) \<noteq> ''up'' then
        Some (new_pointer_error ''POINTER_NO_CLOSING_UP''
          (''last action must be '' @ ticked ''up'' @ '', got '' @ ticked (PaType (List.last as))))
      else check_sequence 0 False as)"

fun duplicate_id :: "string set \<Rightarrow> pointer_touch list \<Rightarrow> string option" where
  "duplicate_id seen [] = None"
| "duplicate_id seen (t # ts) = (if PtID t \<in> seen then Some (PtID t) else duplicate_id (insert (PtID t) seen) ts)"

fun first_bad_touch :: "(nat \<Rightarrow> bool) \<Rightarrow> pointer_touch list \<Rightarrow> pointer_error option" where
  "first_bad_touch pr [] = None"
| "first_bad_touch pr (t # ts) =
     (case validate_single_sequence (PtActions t) of
        Some e \<Rightarrow> Some (new_pointer_error (PeCode e) (''pointer '' @ go_quote pr (PtID t) @ '': '' @ PeDetail e))
      | None \<Rightarrow> first_bad_touch pr ts)"

definition validate_multi_pointer :: "(nat \<Rightarrow> bool) \<Rightarrow> capabilities \<Rightarrow> pointer_touch list \<Rightarrow> pointer_error option" where
  "validate_multi_pointer pr caps touches =
     (if \<not> CanMultiPointer caps then
        Some (new_pointer_error ''POINTER_MULTI_NOT_SUPPORTED''
          (''multi-pointer gestures are not supported by the active driver. Rewrite the gesture to use a single '' @
           ''pointer, or run the script against a driver whose capabilities report multi-pointer support.''))
      else (case duplicate_id {} touches of
              Some dup \<Rightarrow>
                Some (new_pointer_error ''POINTER_FORM_CONFLICT''
                  (''duplicate pointer id '' @ go_quote pr dup @
                   ''. Each pointer in a multi-pointer gesture needs a unique id.''))
            | None \<Rightarrow> first_bad_touch pr touches))"

section \<open>Targets\<close>

text \<open>Any error of the resolution, of the driver too, is an error of the gesture.\<close>

definition p_orch ::
  "('w, 'e) runner_deps \<Rightarrow> string \<Rightarrow> ('w, 'e, 'a) orch \<Rightarrow> ('w run_state, 'a) pcomp" where
  "p_orch d code m st =
     (case orch_call m st of
        None \<Rightarrow> None
      | Some (Inl e, st') \<Rightarrow> Some (Inr (Inl (new_pointer_error code (DepErrorText d e))), st')
      | Some (Inr a, st') \<Rightarrow> Some (Inr (Inr a), st'))"

definition resolution_failed :: string where "resolution_failed = ''POINTER_SELECTOR_RESOLUTION_FAILED''"

definition anchor_error_text :: "(nat \<Rightarrow> bool) \<Rightarrow> string \<Rightarrow> string" where
  "anchor_error_text pr anchor =
     ''unknown anchor '' @ go_quote pr anchor @
     ''. Valid anchors: center, topLeft, topRight, bottomLeft, bottomRight, top, bottom, left, right''"

definition default_zero :: "f64 option \<Rightarrow> f64" where
  "default_zero v = (case v of None \<Rightarrow> Fin 0 | Some f \<Rightarrow> f)"

definition anchored_point :: "('w, 'e) runner_deps \<Rightarrow> pointer_target \<Rightarrow> bounds \<Rightarrow> ('w run_state, point) pcomp" where
  "anchored_point d t b =
     (let anchor = (case TgAnchor t of None \<Rightarrow> ''center'' | Some a \<Rightarrow> a) in
      case bounds_anchor b anchor of
        Inl _ \<Rightarrow> p_fail (new_pointer_error ''POINTER_INVALID_ANCHOR'' (anchor_error_text (DepPrintable d) anchor))
      | Inr p \<Rightarrow>
          (let dx = (case TgOffset t of None \<Rightarrow> Fin 0 | Some off \<Rightarrow> default_zero (OffDx off));
               dy = (case TgOffset t of None \<Rightarrow> Fin 0 | Some off \<Rightarrow> default_zero (OffDy off))
           in p_return (mk_point (f_add (X p) dx) (f_add (Y p) dy))))"

definition resolve_pointer_target ::
  "('w, 'e) runner_deps \<Rightarrow> pointer_target option \<Rightarrow> ('w run_state, point) pcomp" where
  "resolve_pointer_target d target =
     (case target of
        None \<Rightarrow> p_fail (new_pointer_error resolution_failed ''pointer target is missing'')
      | Some t \<Rightarrow>
          (case TgPoint t of
             Some p \<Rightarrow> p_return p
           | None \<Rightarrow>
               (case TgSelector t of
                  None \<Rightarrow> p_fail (new_pointer_error resolution_failed ''pointer target has neither a point nor a selector'')
                | Some sel \<Rightarrow>
                    (let s = compile_script_selector sel
                     in if TgAnchor t = None \<and> TgOffset t = None then
                          p_orch d resolution_failed (resolve_point (DepWild d) (DepDriver d) (DepClock d) (DepScroll d) s)
                        else
                          p_bind (p_orch d resolution_failed
                              (resolve_bounds (DepWild d) (DepDriver d) (DepClock d) (DepScroll d) s))
                            (anchored_point d t)))))"

section \<open>Waypoints\<close>

definition mk_waypoint :: "gesture_phase \<Rightarrow> point \<Rightarrow> f64 \<Rightarrow> f64 option \<Rightarrow> gesture_waypoint" where
  "mk_waypoint phase p seconds pressure =
     \<lparr>WPhase = phase, WPoint = p, WAtOffsetSeconds = seconds, WPressure = pressure\<rparr>"

definition ms_to_seconds :: "f64 \<Rightarrow> f64" where
  "ms_to_seconds ms = f_div ms (Fin 1000)"

definition live_point :: "point option \<Rightarrow> point" where
  "live_point p = (case p of None \<Rightarrow> mk_point (Fin 0) (Fin 0) | Some q \<Rightarrow> q)"

fun compile_waypoints_loop ::
  "('w, 'e) runner_deps \<Rightarrow> f64 \<Rightarrow> f64 \<Rightarrow> point option \<Rightarrow> pointer_action list \<Rightarrow> ('w run_state, gesture_waypoint list) pcomp"
where
  "compile_waypoints_loop d moveMs clockSeconds lastPoint [] = p_return []"
| "compile_waypoints_loop d moveMs clockSeconds lastPoint (a # as) =
     (if PaType a = ''down'' then
        p_bind (resolve_pointer_target d (PaTarget a)) (\<lambda>p.
        p_bind (compile_waypoints_loop d moveMs clockSeconds (Some p) as) (\<lambda>ws.
          p_return (mk_waypoint PhaseDown p clockSeconds (PaPressure a) # ws)))
      else if PaType a = ''move'' then
        p_bind (resolve_pointer_target d (PaTarget a)) (\<lambda>p.
          let t = f_add clockSeconds (ms_to_seconds moveMs) in
          p_bind (compile_waypoints_loop d moveMs t (Some p) as) (\<lambda>ws.
            p_return (mk_waypoint PhaseMove p t (PaPressure a) # ws)))
      else if PaType a = ''wait'' then
        (let t = f_add clockSeconds (ms_to_seconds (action_ms a)) in
         p_bind (compile_waypoints_loop d moveMs t lastPoint as) (\<lambda>ws.
           p_return (case lastPoint of None \<Rightarrow> ws | Some p \<Rightarrow> mk_waypoint PhaseMove p t None # ws)))
      else
        p_bind (compile_waypoints_loop d moveMs clockSeconds lastPoint as) (\<lambda>ws.
          p_return (mk_waypoint (if PaType a = ''capture'' then PhaseCapture else PhaseUp)
            (live_point lastPoint) clockSeconds None # ws)))"

definition compile_pointer_waypoints ::
  "('w, 'e) runner_deps \<Rightarrow> pointer_action list \<Rightarrow> f64 \<Rightarrow> ('w run_state, gesture_waypoint list) pcomp" where
  "compile_pointer_waypoints d as moveMs = compile_waypoints_loop d moveMs (Fin 0) None as"

fun compile_multi_pointer ::
  "('w, 'e) runner_deps \<Rightarrow> f64 \<Rightarrow> pointer_touch list \<Rightarrow> ('w run_state, gesture) pcomp" where
  "compile_multi_pointer d moveMs [] = p_return []"
| "compile_multi_pointer d moveMs (t # ts) =
     p_bind (compile_pointer_waypoints d (PtActions t) moveMs) (\<lambda>ws.
     p_bind (compile_multi_pointer d moveMs ts) (\<lambda>ps.
       p_return (\<lparr>PointerID = PtID t, Waypoints = ws\<rparr> # ps)))"

section \<open>Captures\<close>

fun capture_labels :: "nat \<Rightarrow> nat \<Rightarrow> pointer_action list \<Rightarrow> string list" where
  "capture_labels stepIndex n [] = []"
| "capture_labels stepIndex n (a # as) =
     (if PaType a \<noteq> ''capture'' then capture_labels stepIndex n as
      else (case PaLabel a of
              Some l \<Rightarrow> l
            | None \<Rightarrow> ''step-'' @ utoa (stepIndex + 1) @ ''-capture-'' @ utoa (n + 1)) #
           capture_labels stepIndex (n + 1) as)"

definition pointer_capture_labels :: "pointer_action list \<Rightarrow> nat \<Rightarrow> string list" where
  "pointer_capture_labels as stepIndex = capture_labels stepIndex 0 as"

definition add_screenshot :: "string \<Rightarrow> nat list \<Rightarrow> string \<Rightarrow> 'w run_state \<Rightarrow> 'w run_state" where
  "add_screenshot label data mime st =
     st\<lparr>RsShots := RsShots st @ [\<lparr>ShotLabel = label, ShotData = data, ShotMimeType = mime\<rparr>]\<rparr>"

definition capture_shots :: "captured_image list \<Rightarrow> string list \<Rightarrow> screenshot_artifact list" where
  "capture_shots images labels =
     map (\<lambda>i. \<lparr>ShotLabel = if i < length labels then labels ! i else ''capture-'' @ utoa (i + 1),
               ShotData = ImageData (images ! i), ShotMimeType = MimeType (images ! i)\<rparr>) [0..<length images]"

definition route_pointer_captures :: "captured_image list \<Rightarrow> string list \<Rightarrow> ('w run_state, unit) comp" where
  "route_pointer_captures images labels st =
     Some (Inr (), st\<lparr>RsShots := RsShots st @ capture_shots images labels\<rparr>)"

section \<open>Patterns\<close>

datatype pointer_pattern = PatternTap point | PatternLongPress point f64 | PatternDrag point point f64

fun pattern_kind :: "pointer_pattern \<Rightarrow> string" where
  "pattern_kind (PatternTap _) = ''tap''"
| "pattern_kind (PatternLongPress _ _) = ''longPress''"
| "pattern_kind (PatternDrag _ _ _) = ''drag''"

definition not_expressible :: "string \<Rightarrow> pointer_error" where
  "not_expressible detail = new_pointer_error ''POINTER_PATTERN_NOT_EXPRESSIBLE'' detail"

definition classify_pointer_pattern ::
  "('w, 'e) runner_deps \<Rightarrow> pointer_action list \<Rightarrow> ('w run_state, pointer_pattern) pcomp" where
  "classify_pointer_pattern d as =
     (case butlast as of
        [down] \<Rightarrow> p_bind (resolve_pointer_target d (PaTarget down)) (\<lambda>p. p_return (PatternTap p))
      | [down, second] \<Rightarrow>
          p_bind (resolve_pointer_target d (PaTarget down)) (\<lambda>p.
            if PaType second = ''wait'' then p_return (PatternLongPress p (action_ms second))
            else if PaType second = ''move'' then
              p_bind (resolve_pointer_target d (PaTarget second)) (\<lambda>q.
                p_return (PatternDrag p q pointer_drag_min_press_ms))
            else p_fail (not_expressible (''cannot express sequence: down + '' @ PaType second @ '' + up'')))
      | [down, mid, final] \<Rightarrow>
          if PaType mid = ''wait'' \<and> PaType final = ''move'' then
            p_bind (resolve_pointer_target d (PaTarget down)) (\<lambda>p.
            p_bind (resolve_pointer_target d (PaTarget final)) (\<lambda>q.
              p_return (PatternDrag p q (action_ms mid))))
          else p_fail (not_expressible
            (''cannot express sequence: down + '' @ PaType mid @ '' + '' @ PaType final @ '' + up on the single-pointer path''))
      | _ \<Rightarrow> p_fail (not_expressible
          (''sequences with more than one '' @ ticked ''move'' @
           '' or interleaved waits require the multi-waypoint synthesizer (not yet available)'')))"

text \<open>An error of the dispatch is not a pointer error: the command raises it as a panic.\<close>

definition dispatch_pointer_pattern :: "('w, 'e) runner_deps \<Rightarrow> pointer_pattern \<Rightarrow> ('w run_state, unit) comp" where
  "dispatch_pointer_pattern d p =
     must d (case p of
        PatternTap a \<Rightarrow> tap_at (DepDriver d) a
      | PatternLongPress a ms \<Rightarrow> long_press_at (DepDriver d) a (f_to_int (DepWild d) ms)
      | PatternDrag a b ms \<Rightarrow> swipe_at (DepDriver d) a b (f_to_int (DepWild d) ms))"

definition single_pointer_gesture_reason :: "pointer_action list \<Rightarrow> string" where
  "single_pointer_gesture_reason as =
     join_with ''+''
       ((if has_pressure as then [''pressure''] else []) @ (if has_capture as then [''capture''] else []) @
        (if has_hold_then_drag as then [''hold-then-drag''] else []))"

section \<open>Dispatch\<close>

definition dispatch_and_route ::
  "('w, 'e) runner_deps \<Rightarrow> gesture \<Rightarrow> string list \<Rightarrow> ('w run_state, unit) comp" where
  "dispatch_and_route d g labels =
     comp_bind (must d (dispatch_gesture (DepDriver d) g)) (\<lambda>images. route_pointer_captures images labels)"

definition dispatch_single_touch ::
  "('w, 'e) runner_deps \<Rightarrow> nat \<Rightarrow> pointer_action list \<Rightarrow> f64 \<Rightarrow> ('w run_state, string) pcomp" where
  "dispatch_single_touch d stepIndex as moveMs =
     p_bind (p_check (validate_single_sequence as)) (\<lambda>_.
     p_bind (p_check (validate_pressure_capability (DrvCapabilities (DepDriver d)) as)) (\<lambda>_.
       if has_pressure as \<or> has_capture as \<or> has_hold_then_drag as then
         p_bind (compile_pointer_waypoints d as moveMs) (\<lambda>ws.
         p_bind (p_lift (dispatch_and_route d [\<lparr>PointerID = ''single'', Waypoints = ws\<rparr>]
             (pointer_capture_labels as stepIndex))) (\<lambda>_.
           p_return (''gesture (single pointer, '' @ single_pointer_gesture_reason as @ '')'')))
       else
         p_bind (classify_pointer_pattern d as) (\<lambda>pat.
         p_bind (p_lift (dispatch_pointer_pattern d pat)) (\<lambda>_.
           p_return (pattern_kind pat)))))"

definition dispatch_multi_touch ::
  "('w, 'e) runner_deps \<Rightarrow> nat \<Rightarrow> pointer_touch list \<Rightarrow> f64 \<Rightarrow> ('w run_state, nat) pcomp" where
  "dispatch_multi_touch d stepIndex touches moveMs =
     (let allActions = concat (map PtActions touches) in
      p_bind (p_check (validate_multi_pointer (DepPrintable d) (DrvCapabilities (DepDriver d)) touches)) (\<lambda>_.
      p_bind (p_check (validate_pressure_capability (DrvCapabilities (DepDriver d)) allActions)) (\<lambda>_.
      p_bind (compile_multi_pointer d moveMs touches) (\<lambda>g.
      p_bind (p_lift (dispatch_and_route d g (pointer_capture_labels allActions stepIndex))) (\<lambda>_.
        p_return (length g))))))"

definition execute_pointer ::
  "('w, 'e) runner_deps \<Rightarrow> nat \<Rightarrow> pointer_touch list \<Rightarrow> f64 option \<Rightarrow> ('w run_state, command_result) pcomp" where
  "execute_pointer d stepIndex touches moveDurationMs =
     (case validate_pointer_move_duration moveDurationMs of
        Inl e \<Rightarrow> p_fail e
      | Inr moveMs \<Rightarrow>
          (case touches of
             [] \<Rightarrow> p_fail (new_pointer_error ''POINTER_EMPTY_SEQUENCE''
                     (''pointer: '' @ ticked ''touches'' @ '' must have at least one entry''))
           | [t] \<Rightarrow>
               p_bind (dispatch_single_touch d stepIndex (PtActions t) moveMs) (\<lambda>reason.
                 p_return (ok_result (''pointer '' @ reason)))
           | _ \<Rightarrow>
               p_bind (dispatch_multi_touch d stepIndex touches moveMs) (\<lambda>pointers.
                 p_return (ok_result (''pointer '' @ utoa pointers @ ''-pointer gesture'')))))"

section \<open>Long press, pinch and rotation\<close>

definition bare_action :: "string \<Rightarrow> pointer_action" where
  "bare_action kind = \<lparr>PaType = kind, PaTarget = None, PaPressure = None, PaMs = None, PaLabel = None\<rparr>"

definition point_target_action :: "string \<Rightarrow> point \<Rightarrow> pointer_action" where
  "point_target_action kind p =
     (bare_action kind)\<lparr>PaTarget := Some \<lparr>TgSelector = None, TgAnchor = None, TgOffset = None, TgPoint = Some p\<rparr>\<rparr>"

definition default_long_press_duration_ms :: f64 where "default_long_press_duration_ms = Fin 500"

definition long_press_actions :: "pointer_target option \<Rightarrow> f64 \<Rightarrow> pointer_target option \<Rightarrow> pointer_action list" where
  "long_press_actions spot holdMs drag =
     [(bare_action ''down'')\<lparr>PaTarget := spot\<rparr>, (bare_action ''wait'')\<lparr>PaMs := Some holdMs\<rparr>] @
     (case drag of None \<Rightarrow> [] | Some t \<Rightarrow> [(bare_action ''move'')\<lparr>PaTarget := Some t\<rparr>]) @ [bare_action ''up'']"

definition execute_long_press ::
  "('w, 'e) runner_deps \<Rightarrow> nat \<Rightarrow> pointer_target option \<Rightarrow> f64 option \<Rightarrow> pointer_target option \<Rightarrow>
   ('w run_state, command_result) pcomp" where
  "execute_long_press d stepIndex spot hold drag =
     (let holdMs = (case hold of None \<Rightarrow> default_long_press_duration_ms | Some ms \<Rightarrow> ms);
          detail = ''longPress (hold '' @ show_float holdMs @ (if drag = None then ''ms)'' else ''ms, then drag)'')
      in p_bind (dispatch_single_touch d stepIndex (long_press_actions spot holdMs drag) pointer_default_move_duration_ms)
           (\<lambda>_. p_return (ok_result detail)))"

definition gap_touch :: "string \<Rightarrow> point \<Rightarrow> f64 \<Rightarrow> f64 \<Rightarrow> f64 \<Rightarrow> f64 \<Rightarrow> pointer_touch" where
  "gap_touch name center startDx startDy endDx endDy =
     \<lparr>PtID = name,
      PtActions =
        [point_target_action ''down'' (mk_point (f_add (X center) startDx) (f_add (Y center) startDy)),
         point_target_action ''move'' (mk_point (f_add (X center) endDx) (f_add (Y center) endDy)),
         bare_action ''up'']\<rparr>"

definition pinch_touches :: "point \<Rightarrow> string \<Rightarrow> f64 \<Rightarrow> f64 \<Rightarrow> pointer_touch list" where
  "pinch_touches center axis startGap endGap =
     (let ux = (if axis = ''horizontal'' then Fin 1 else Fin 0); uy = (if axis = ''horizontal'' then Fin 0 else Fin 1);
          startOffset = f_div startGap (Fin 2); endOffset = f_div endGap (Fin 2)
      in [gap_touch ''pinch-1'' center (f_mul ux startOffset) (f_mul uy startOffset) (f_mul ux endOffset) (f_mul uy endOffset),
          gap_touch ''pinch-2'' center (f_mul (f_neg ux) startOffset) (f_mul (f_neg uy) startOffset)
            (f_mul (f_neg ux) endOffset) (f_mul (f_neg uy) endOffset)])"

definition execute_pinch ::
  "('w, 'e) runner_deps \<Rightarrow> nat \<Rightarrow> pointer_target option \<Rightarrow> f64 \<Rightarrow> f64 \<Rightarrow> f64 option \<Rightarrow> string option \<Rightarrow>
   ('w run_state, command_result) pcomp" where
  "execute_pinch d stepIndex target startGap endGap duration axis0 =
     p_bind (resolve_pointer_target d target) (\<lambda>center.
       let axis = (case axis0 of None \<Rightarrow> ''vertical'' | Some a \<Rightarrow> a);
           durationMs = (case duration of None \<Rightarrow> pointer_default_move_duration_ms | Some ms \<Rightarrow> ms)
       in p_bind (dispatch_multi_touch d stepIndex (pinch_touches center axis startGap endGap) durationMs) (\<lambda>_.
            p_return (ok_result
              (''pinch '' @ axis @ '' (gap '' @ show_float startGap @ '' to '' @ show_float endGap @ '')''))))"

definition rotate_arc_segments :: nat where "rotate_arc_segments = 8"

definition math_pi :: f64 where "math_pi = to_float False (884279719003555 / 281474976710656)"

definition arc_point :: "(f64 \<Rightarrow> f64) \<Rightarrow> (f64 \<Rightarrow> f64) \<Rightarrow> point \<Rightarrow> f64 \<Rightarrow> f64 \<Rightarrow> point" where
  "arc_point cosine sine center radius angleDeg =
     (let rad = f_div (f_mul angleDeg math_pi) (Fin 180)
      in mk_point (f_add (X center) (f_mul radius (cosine rad))) (f_add (Y center) (f_mul radius (sine rad))))"

definition arc_angle :: "f64 \<Rightarrow> f64 \<Rightarrow> nat \<Rightarrow> f64" where
  "arc_angle startAngleDeg sweepDeg i =
     f_add startAngleDeg (f_div (f_mul sweepDeg (Fin (of_nat i))) (Fin (of_nat rotate_arc_segments)))"

definition arc_touch :: "(f64 \<Rightarrow> f64) \<Rightarrow> (f64 \<Rightarrow> f64) \<Rightarrow> string \<Rightarrow> point \<Rightarrow> f64 \<Rightarrow> f64 \<Rightarrow> f64 \<Rightarrow> pointer_touch" where
  "arc_touch cosine sine name center radius startAngleDeg sweepDeg =
     \<lparr>PtID = name,
      PtActions =
        [point_target_action ''down'' (arc_point cosine sine center radius startAngleDeg)] @
        map (\<lambda>i. point_target_action ''move'' (arc_point cosine sine center radius (arc_angle startAngleDeg sweepDeg i)))
          [1..<rotate_arc_segments + 1] @
        [bare_action ''up'']\<rparr>"

definition rotate_touches :: "(f64 \<Rightarrow> f64) \<Rightarrow> (f64 \<Rightarrow> f64) \<Rightarrow> point \<Rightarrow> f64 \<Rightarrow> f64 \<Rightarrow> pointer_touch list" where
  "rotate_touches cosine sine center radius degrees =
     [arc_touch cosine sine ''rotate-1'' center radius (Fin 0) degrees,
      arc_touch cosine sine ''rotate-2'' center radius (Fin 180) degrees]"

definition execute_rotate ::
  "(f64 \<Rightarrow> f64) \<Rightarrow> (f64 \<Rightarrow> f64) \<Rightarrow> ('w, 'e) runner_deps \<Rightarrow> nat \<Rightarrow> pointer_target option \<Rightarrow> f64 \<Rightarrow> f64 option \<Rightarrow> f64 option \<Rightarrow>
   ('w run_state, command_result) pcomp" where
  "execute_rotate cosine sine d stepIndex target degrees radius0 duration =
     p_bind (resolve_pointer_target d target) (\<lambda>center.
       let radius = (case radius0 of None \<Rightarrow> Fin 100 | Some r \<Rightarrow> r);
           durationMs = (case duration of None \<Rightarrow> pointer_default_move_duration_ms | Some ms \<Rightarrow> ms);
           moveMs = f_div durationMs (Fin (of_nat rotate_arc_segments))
       in p_bind (dispatch_multi_touch d stepIndex (rotate_touches cosine sine center radius degrees) moveMs) (\<lambda>_.
            p_return (ok_result (''rotate '' @ show_float degrees @ '' degrees''))))"

end
