(* ===== verification/Runner_Commands.thy ===== *)
theory Runner_Commands
  imports Runner_Pointer
begin

text \<open>
  The built-in commands of the runner (\<^verbatim>\<open>core/internal/runner/*_command.go\<close>, \<^verbatim>\<open>commands.go\<close>), one
  definition per handler. A handler that is given the step of another command panics, as its type
  assertion does.
\<close>

section \<open>Common parts\<close>

definition wrong_step :: "('s, command_result) comp" where
  "wrong_step = comp_panic ''interface conversion: script.ScriptStep is of another type''"

definition done_with :: "string \<Rightarrow> ('s, command_result) comp" where
  "done_with detail = comp_return (ok_result detail)"

definition failed_with :: "string \<Rightarrow> ('s, command_result) comp" where
  "failed_with detail = comp_return (fail_result detail)"

text \<open>
  \<^verbatim>\<open>commandFailureFor\<close>: an error with a stable diagnostic code is a failed result carrying the text
  of the coded error; any other one is raised.
\<close>

definition command_failure_or_panic ::
  "('w, 'e) runner_deps \<Rightarrow> ('w, 'e, 'a) orch \<Rightarrow> ('a \<Rightarrow> ('w run_state, command_result) comp) \<Rightarrow>
   ('w run_state, command_result) comp" where
  "command_failure_or_panic d m k st =
     (case orch_call m st of
        None \<Rightarrow> None
      | Some (Inl e, st') \<Rightarrow>
          (case DepCoded d e of
             Some message \<Rightarrow> failed_with message st'
           | None \<Rightarrow> comp_panic (DepErrorText d e) st')
      | Some (Inr a, st') \<Rightarrow> k a st')"

definition action_outcome :: "(action_result \<Rightarrow> string) \<Rightarrow> action_result \<Rightarrow> ('s, command_result) comp" where
  "action_outcome detail r = (if AOk r then done_with (detail r) else failed_with (AReason r))"

text \<open>
  \<^verbatim>\<open>Orchestra.WaitFor\<close> with the default interval: \<open>Inl\<close> is a timeout, any other error is raised. The
  polls of one wait are its timeout over the interval, and two.
\<close>

definition polls_within :: "int \<Rightarrow> int \<Rightarrow> nat" where
  "polls_within timeoutMs interval = nat (timeoutMs div interval) + 2"

definition wait_for_selector ::
  "('w, 'e) runner_deps \<Rightarrow> script_selector \<Rightarrow> int \<Rightarrow> ('w run_state, unit + cursor list) comp" where
  "wait_for_selector d sel timeoutMs st =
     (case finder_wait_for (polls_within timeoutMs 250) (DepClock d) (Hierarchy (DepDriver d))
             (compile_selector (compile_script_selector sel)) timeoutMs 0 (snd (RsWorld st)) of
        None \<Rightarrow> None
      | Some (r, w) \<Rightarrow>
          (let st' = st\<lparr>RsWorld := (fst (RsWorld st), w)\<rparr> in
           case r of
             Inl (FindTimeout elapsed polls) \<Rightarrow> Some (Inr (Inl ()), st')
           | Inl (FindFailed e) \<Rightarrow> Some (Inl (DepContextText d e), st')
           | Inr cs \<Rightarrow> Some (Inr (Inr cs), st')))"

definition find_now :: "('w, 'e) runner_deps \<Rightarrow> script_selector \<Rightarrow> ('w run_state, cursor option) comp" where
  "find_now d sel = must d (find_one_selector (DepDriver d) (compile_script_selector sel))"

definition sleep_for :: "('w, 'e) runner_deps \<Rightarrow> int \<Rightarrow> ('w run_state, unit) comp" where
  "sleep_for d ms = must d (clock_sleep (DepClock d) ms)"

definition ms_text :: "int \<Rightarrow> string" where
  "ms_text ms = itoa ms @ ''ms''"

section \<open>Applications, taps and keys\<close>

definition launch_should_skip ::
  "('w, 'e) runner_deps \<Rightarrow> 'w run_state command_context \<Rightarrow> 'w run_state \<Rightarrow> bool" where
  "launch_should_skip d ctx st \<longleftrightarrow>
     AppID (CcScript ctx) \<noteq> [] \<and> (DepLaunchNoReset d = None \<or> DepLaunchNoReset d = Some True) \<and>
     is_launched (fst (RsWorld st)) (AppID (CcScript ctx))"

definition runner_launch_args :: "('w, 'e) runner_deps \<Rightarrow> launch_args" where
  "runner_launch_args d =
     \<lparr>LaunchArguments = [], LaunchEnvironment = Map.empty, NoReset = DepLaunchNoReset d\<rparr>"

definition execute_launch_app ::
  "('w, 'e) runner_deps \<Rightarrow> script_step \<Rightarrow> 'w run_state command_context \<Rightarrow> ('w run_state, command_result) comp" where
  "execute_launch_app d step ctx =
     (let appID = AppID (CcScript ctx);
          launch = command_failure_or_panic d (launch_app (DepDriver d) appID (runner_launch_args d))
            (\<lambda>_. done_with (''Launched '' @ appID))
      in if appID = [] then failed_with ''No appId specified in script config''
         else if DepLaunchNoReset d = Some False \<and> DepClearDataOnFresh d then
           command_failure_or_panic d
             (clear_app_data (DepDriver d) appID (case DepAppArtifact d of None \<Rightarrow> [] | Some source \<Rightarrow> source))
             (\<lambda>_. launch)
         else launch)"

definition execute_tap :: "('w, 'e) runner_deps \<Rightarrow> script_step \<Rightarrow> ('w run_state, command_result) comp" where
  "execute_tap d step =
     (case step of
        TapStep sel \<Rightarrow>
          comp_bind (must d (tap (DepWild d) (DepDriver d) (DepClock d) (DepScroll d) (compile_script_selector sel) None))
            (action_outcome ADetail)
      | _ \<Rightarrow> wrong_step)"

definition execute_type :: "('w, 'e) runner_deps \<Rightarrow> script_step \<Rightarrow> ('w run_state, command_result) comp" where
  "execute_type d step =
     (case step of
        TypeStep txt (Some into) \<Rightarrow>
          command_failure_or_panic d
            (input_text (DepWild d) (DepDriver d) (DepClock d) (DepScroll d) (compile_script_selector into) txt None)
            (action_outcome (\<lambda>_. ''Typed '' @ quote_text txt))
      | TypeStep txt None \<Rightarrow>
          command_failure_or_panic d (type_text (DepDriver d) (DepClock d) txt)
            (\<lambda>_. done_with (''Typed '' @ quote_text txt @ '' into focused field''))
      | _ \<Rightarrow> wrong_step)"

definition direction_of :: "string \<Rightarrow> direction" where
  "direction_of s =
     (if s = ''up'' then DirUp else if s = ''down'' then DirDown else if s = ''left'' then DirLeft
      else if s = ''right'' then DirRight else DirOther s)"

definition execute_swipe :: "('w, 'e) runner_deps \<Rightarrow> script_step \<Rightarrow> ('w run_state, command_result) comp" where
  "execute_swipe d step =
     (case step of
        SwipeStep dir \<Rightarrow>
          comp_bind (must d (swipe_direction (DepDriver d) (direction_of dir) None None)) (\<lambda>_. done_with (''Swiped '' @ dir))
      | _ \<Rightarrow> wrong_step)"

definition execute_press_key :: "('w, 'e) runner_deps \<Rightarrow> script_step \<Rightarrow> ('w run_state, command_result) comp" where
  "execute_press_key d step =
     (case step of
        PressKeyStep key \<Rightarrow>
          comp_bind (must d (press_key (DepDriver d) key)) (action_outcome (\<lambda>_. ''Pressed '' @ key))
      | _ \<Rightarrow> wrong_step)"

definition execute_back :: "('w, 'e) runner_deps \<Rightarrow> ('w run_state, command_result) comp" where
  "execute_back d = comp_bind (must d (press_key (DepDriver d) ''back'')) (action_outcome (\<lambda>_. ''Pressed back''))"

definition execute_screenshot ::
  "('w, 'e) runner_deps \<Rightarrow> script_step \<Rightarrow> 'w run_state command_context \<Rightarrow> ('w run_state, command_result) comp" where
  "execute_screenshot d step ctx =
     (case step of
        ScreenshotStep label0 \<Rightarrow>
          comp_bind (must d (screenshot (DepDriver d))) (\<lambda>data st.
            let label = (case label0 of Some l \<Rightarrow> l | None \<Rightarrow> ''step-'' @ utoa (CcStepIndex ctx + 1)) in
            done_with (''Screenshot saved as '' @ quote_text label)
              (add_screenshot label data (DepContentType d data) st))
      | _ \<Rightarrow> wrong_step)"

definition execute_sleep :: "('w, 'e) runner_deps \<Rightarrow> script_step \<Rightarrow> ('w run_state, command_result) comp" where
  "execute_sleep d step =
     (case step of
        SleepStep ms \<Rightarrow> comp_bind (sleep_for d ms) (\<lambda>_. done_with (''Slept '' @ ms_text ms))
      | _ \<Rightarrow> wrong_step)"

section \<open>Waiting and asserting on the screen\<close>

definition wait_for_default_timeout_ms :: int where "wait_for_default_timeout_ms = 5000"

definition execute_wait_for :: "('w, 'e) runner_deps \<Rightarrow> script_step \<Rightarrow> ('w run_state, command_result) comp" where
  "execute_wait_for d step =
     (case step of
        WaitForStep sel timeout0 \<Rightarrow>
          (let timeoutMs = (case timeout0 of None \<Rightarrow> wait_for_default_timeout_ms | Some ms \<Rightarrow> ms) in
           comp_bind (wait_for_selector d sel timeoutMs) (\<lambda>r. case r of
               Inl _ \<Rightarrow> failed_with (''Element not found within '' @ ms_text timeoutMs)
             | Inr _ \<Rightarrow> done_with ''Element appeared''))
      | _ \<Rightarrow> wrong_step)"

definition assert_present ::
  "('w, 'e) runner_deps \<Rightarrow> script_selector \<Rightarrow> int option \<Rightarrow> string \<Rightarrow> string \<Rightarrow> string \<Rightarrow> ('w run_state, command_result) comp"
where
  "assert_present d sel timeout0 present timedOut absent =
     (case timeout0 of
        Some timeoutMs \<Rightarrow>
          if timeoutMs \<noteq> 0 then
            comp_bind (wait_for_selector d sel timeoutMs) (\<lambda>r. case r of
                Inl _ \<Rightarrow> failed_with (timedOut @ ms_text timeoutMs)
              | Inr _ \<Rightarrow> done_with present)
          else comp_bind (find_now d sel) (\<lambda>c. if c = None then failed_with absent else done_with present)
      | None \<Rightarrow> comp_bind (find_now d sel) (\<lambda>c. if c = None then failed_with absent else done_with present))"

definition execute_assert_visible :: "('w, 'e) runner_deps \<Rightarrow> script_step \<Rightarrow> ('w run_state, command_result) comp" where
  "execute_assert_visible d step =
     (case step of
        AssertVisibleStep sel timeoutMs \<Rightarrow>
          assert_present d sel timeoutMs ''Element is visible'' ''Element not visible within '' ''Element not visible on screen''
      | _ \<Rightarrow> wrong_step)"

definition execute_assert_exists :: "('w, 'e) runner_deps \<Rightarrow> script_step \<Rightarrow> ('w run_state, command_result) comp" where
  "execute_assert_exists d step =
     (case step of
        AssertExistsStep sel timeoutMs \<Rightarrow>
          assert_present d sel timeoutMs ''Element exists'' ''Element not found within '' ''Element not found''
      | _ \<Rightarrow> wrong_step)"

definition disappear_poll_interval_ms :: int where "disappear_poll_interval_ms = 100"

text \<open>The loop of \<^verbatim>\<open>assertNotVisible\<close>: whether the element was seen to be gone before the deadline.\<close>

fun disappear_loop ::
  "nat \<Rightarrow> ('w, 'e) runner_deps \<Rightarrow> script_selector \<Rightarrow> int \<Rightarrow> ('w run_state, bool) comp"
where
  "disappear_loop 0 d sel deadline st = None"
| "disappear_loop (Suc n) d sel deadline st =
     (if now_ms d st < deadline then
        comp_bind (find_now d sel) (\<lambda>c.
          if c = None then comp_return True
          else comp_bind (sleep_for d disappear_poll_interval_ms) (\<lambda>_. disappear_loop n d sel deadline)) st
      else comp_return False st)"

definition execute_assert_not_visible :: "('w, 'e) runner_deps \<Rightarrow> script_step \<Rightarrow> ('w run_state, command_result) comp" where
  "execute_assert_not_visible d step =
     (case step of
        AssertNotVisibleStep sel timeout0 \<Rightarrow>
          (if timeout0 = None \<or> timeout0 = Some 0 then
             comp_bind (find_now d sel) (\<lambda>c.
               if c \<noteq> None then failed_with ''Element is still visible (expected not visible)''
               else done_with ''Element is not visible'')
           else (\<lambda>st.
             let timeoutMs = the timeout0 in
             comp_bind (disappear_loop (polls_within timeoutMs disappear_poll_interval_ms) d sel (now_ms d st + timeoutMs))
               (\<lambda>gone. if gone then done_with ''Element is not visible''
                       else failed_with (''Element still visible after '' @ ms_text timeoutMs)) st))
      | _ \<Rightarrow> wrong_step)"

section \<open>Variables and captured requests\<close>

definition set_variable :: "string \<Rightarrow> expr_value \<Rightarrow> ('w run_state, unit) comp" where
  "set_variable name v st = Some (Inr (), st\<lparr>RsVariables := (RsVariables st)(name \<mapsto> v)\<rparr>)"

definition read_attribute_fields :: "string list" where
  "read_attribute_fields = [''id'', ''text'', ''label'', ''hint'', ''value'', ''role'', ''class'', ''package'', ''bounds'']"

definition read_state_field :: "tree_node \<Rightarrow> string \<Rightarrow> bool option" where
  "read_state_field n field =
     (if field = ''clickable'' then Clickable n else if field = ''enabled'' then Enabled n
      else if field = ''focused'' then Focused n else if field = ''selected'' then Selected n
      else if field = ''checked'' then Checked n else if field = ''visible'' then Visible n
      else None)"

definition read_timeout_ms :: int where "read_timeout_ms = 5000"

definition read_field :: "tree_node \<Rightarrow> string \<Rightarrow> string \<Rightarrow> ('w run_state, command_result) comp" where
  "read_field n field var =
     (let finish = (\<lambda>v. comp_bind (set_variable var v) (\<lambda>_.
            done_with (''Read '' @ field @ '' into '' @ quote_text var)))
      in if field \<in> set read_attribute_fields then
           (case Attributes n field of
              None \<Rightarrow> failed_with (''Element has no '' @ quote_text field @ '' field'')
            | Some v \<Rightarrow> finish (StringValue v))
         else
           (case read_state_field n field of
              None \<Rightarrow> failed_with (''Element does not report the '' @ quote_text field @ '' field'')
            | Some b \<Rightarrow> finish (BoolValue b)))"

definition execute_read :: "('w, 'e) runner_deps \<Rightarrow> script_step \<Rightarrow> ('w run_state, command_result) comp" where
  "execute_read d step =
     (case step of
        ReadStep sel field0 var \<Rightarrow>
          (let field = (case field0 of None \<Rightarrow> ''value'' | Some f \<Rightarrow> f) in
           comp_bind (wait_for_selector d sel read_timeout_ms) (\<lambda>r. case r of
               Inl _ \<Rightarrow> failed_with
                 (''Cannot read '' @ quote_text field @ '': element not found within '' @ ms_text read_timeout_ms)
             | Inr [] \<Rightarrow> comp_panic ''runtime error: index out of range [0] with length 0''
             | Inr (c # _) \<Rightarrow> read_field (Node c) field var))
      | _ \<Rightarrow> wrong_step)"

definition capture_timeout_ms :: int where "capture_timeout_ms = 10000"

definition execute_capture :: "('w, 'e) runner_deps \<Rightarrow> script_step \<Rightarrow> ('w run_state, command_result) comp" where
  "execute_capture d step =
     (case step of
        CaptureStep pat var \<Rightarrow>
          (case DepCapture d of
             None \<Rightarrow> failed_with
               ''No network capture adapter configured. Pass --proxy to the CLI or set captureConfig in runner options.''
           | Some wait \<Rightarrow> (\<lambda>st.
               case wait pat capture_timeout_ms (snd (RsWorld st)) of
                 None \<Rightarrow> None
               | Some (r, w) \<Rightarrow>
                   (let st' = st\<lparr>RsWorld := (fst (RsWorld st), w)\<rparr> in
                    case r of
                      Inl err \<Rightarrow> failed_with err st'
                    | Inr c \<Rightarrow>
                        done_with (''Captured '' @ CapMethod c @ '' '' @ CapURL c @ '' returning status '' @
                            itoa (CapStatus c) @ '' as '' @ quote_text var)
                          (st'\<lparr>RsCaptures := (RsCaptures st')(var \<mapsto> c)\<rparr>))))
      | _ \<Rightarrow> wrong_step)"

text \<open>The failures of \<^verbatim>\<open>assertApi\<close>, in the order of the assertions.\<close>

definition api_failures ::
  "captured_request \<Rightarrow> int option \<Rightarrow> (string \<times> any_value) list option \<Rightarrow> string list" where
  "api_failures c status body =
     (case status of
        Some s \<Rightarrow>
          if CapStatus c \<noteq> s then [''status: expected '' @ itoa s @ '', got '' @ itoa (CapStatus c)] else []
      | None \<Rightarrow> []) @
     List.map_filter
       (\<lambda>(p, expected).
          let (ok, reason) = assert_value (resolve_dot_path (CapBody c) p) expected in
          if ok then None else Some (''body '' @ p @ '': '' @ reason))
       (case body of None \<Rightarrow> [] | Some m \<Rightarrow> m)"

definition line_break :: string where "line_break = [newline]"

definition execute_assert_api :: "script_step \<Rightarrow> ('w run_state, command_result) comp" where
  "execute_assert_api step st =
     (case step of
        AssertApiStep from status body \<Rightarrow>
          (case RsCaptures st (unwrap_from_key from) of
             None \<Rightarrow>
               failed_with (''No captured request named '' @ quote_text from @ ''. Did you run a '' @ quote_text ''capture'' @
                 '' step with '' @ quote_text (''as: '' @ from) @ '' before this assertion?'') st
           | Some c \<Rightarrow>
               (let failures = api_failures c status body; separator = line_break @ ''  - '' in
                if failures \<noteq> [] then
                  failed_with (''API assertion failed on '' @ quote_text from @ '':'' @ separator @
                    join_with separator failures) st
                else done_with (''API assertion passed for '' @ quote_text from @ '' ('' @ CapMethod c @ '' '' @
                    CapURL c @ '')'') st))
      | _ \<Rightarrow> wrong_step st)"

fun extract_loop ::
  "any_value \<Rightarrow> string \<Rightarrow> (string \<times> string) list \<Rightarrow> string list \<Rightarrow> ('w run_state, command_result) comp"
where
  "extract_loop obj key [] extracted st = done_with (''Extracted: '' @ join_with '', '' extracted) st"
| "extract_loop obj key ((name, p) # rest) extracted st =
     (let v = resolve_dot_path obj p in
      if v = JsUndefined then
        failed_with (''Path '' @ quote_text p @ '' resolved to undefined in captured '' @ quote_text key) st
      else
        extract_loop obj key rest (extracted @ [name @ ''='' @ json_stringify_js v])
          (st\<lparr>RsVariables := (RsVariables st)(name \<mapsto> StringValue (js_string_of v))\<rparr>))"

definition execute_extract :: "script_step \<Rightarrow> ('w run_state, command_result) comp" where
  "execute_extract step st =
     (case step of
        ExtractStep from vals \<Rightarrow>
          (let key = unwrap_from_key from in
           case RsCaptures st key of
             None \<Rightarrow>
               failed_with (''No captured request named '' @ quote_text key @ ''. Run a '' @ quote_text ''capture'' @
                 '' step with '' @ quote_text (''as: '' @ key) @ '' first.'') st
           | Some c \<Rightarrow> extract_loop (captured_request_as_any c) key vals [] st)
      | _ \<Rightarrow> wrong_step st)"

fun js_type_of_value :: "expr_value \<Rightarrow> string" where
  "js_type_of_value (NumberValue _) = ''number''"
| "js_type_of_value (StringValue _) = ''string''"
| "js_type_of_value (BoolValue _) = ''boolean''"

fun json_stringify_expr_value :: "expr_value \<Rightarrow> string" where
  "json_stringify_expr_value (NumberValue f) = format_number f"
| "json_stringify_expr_value (StringValue s) = json_string s"
| "json_stringify_expr_value (BoolValue b) = bool_str b"

fun evaluate_error_text :: "evaluate_error \<Rightarrow> string" where
  "evaluate_error_text (ParseFailure e) = parse_error.Message e @ '' at position '' @ utoa (ErrorPosition e)"
| "evaluate_error_text (EvalFailure e) = EvalMessage e @ '' at position '' @ utoa (EvalPosition e)"
| "evaluate_error_text EvaluatePanic = []"

definition execute_assert_expr :: "script_step \<Rightarrow> ('w run_state, command_result) comp" where
  "execute_assert_expr step st =
     (case step of
        AssertExprStep e \<Rightarrow>
          (case evaluate e (RsVariables st) of
             Inl EvaluatePanic \<Rightarrow> comp_panic ''runtime error: index out of range'' st
           | Inl err \<Rightarrow> failed_with (''Cannot evaluate assertion '' @ quote_text e @ '': '' @ evaluate_error_text err) st
           | Inr (BoolValue b) \<Rightarrow>
               if b then done_with (''Assertion passed: '' @ quote_text e) st
               else failed_with (''Assertion failed: '' @ quote_text e @ '' did not hold'') st
           | Inr v \<Rightarrow>
               failed_with (''Assertion '' @ quote_text e @ '' must evaluate to a boolean, got '' @ js_type_of_value v @
                 '' ('' @ json_stringify_expr_value v @ '')'') st)
      | _ \<Rightarrow> wrong_step st)"

section \<open>Control flow\<close>

text \<open>
  \<^verbatim>\<open>resolveStepsOrFile\<close>: \<open>Inl\<close> is the detail of a failure, a file that does not load is a panic.
\<close>

definition resolve_steps_or_file ::
  "('w, 'e) runner_deps \<Rightarrow> (string \<rightharpoonup> string) \<Rightarrow> steps_or_file \<Rightarrow> ('w run_state, string + script_step list) comp" where
  "resolve_steps_or_file d env sof st =
     (case sof of
        InlineSteps steps \<Rightarrow> comp_return (Inr steps) st
      | StepsFile file0 \<Rightarrow>
          (let file = DepAbs d file0 in
           case DepLoad d of
             None \<Rightarrow> comp_return (Inl (''no flow loader configured to resolve file: '' @ file)) st
           | Some load \<Rightarrow>
               (case load file env (snd (RsWorld st)) of
                  Inl (LoadParseError t) \<Rightarrow> comp_panic t st
                | Inl err \<Rightarrow> comp_panic (node_style_file_error_message err file) st
                | Inr flow \<Rightarrow> comp_return (Inr (Steps flow)) st)))"

definition run_resolved ::
  "('w, 'e) runner_deps \<Rightarrow> 'w run_state command_context \<Rightarrow> (string \<rightharpoonup> string) \<Rightarrow> steps_or_file \<Rightarrow>
   ('w run_state, command_result) comp" where
  "run_resolved d ctx env sof =
     comp_bind (resolve_steps_or_file d env sof) (\<lambda>r.
       case r of Inl detail \<Rightarrow> failed_with detail | Inr steps \<Rightarrow> CcRunSteps ctx steps)"

definition condition_part ::
  "('w, 'e) runner_deps \<Rightarrow> string_or_selector option \<Rightarrow> bool \<Rightarrow> ('w run_state, bool) comp" where
  "condition_part d v expected =
     (case v of
        None \<Rightarrow> comp_return True
      | Some s \<Rightarrow> comp_bind (find_now d (to_script_selector s)) (\<lambda>c. comp_return ((c \<noteq> None) = expected)))"

definition handle_branch_matches :: "('w, 'e) runner_deps \<Rightarrow> condition_pair \<Rightarrow> ('w run_state, bool) comp" where
  "handle_branch_matches d c =
     comp_bind (condition_part d (CondVisible c) True) (\<lambda>ok.
       if \<not> ok then comp_return False else condition_part d (CondNotVisible c) False)"

fun first_matching_branch ::
  "('w, 'e) runner_deps \<Rightarrow> (condition_pair \<times> steps_or_file) list \<Rightarrow> ('w run_state, steps_or_file option) comp"
where
  "first_matching_branch d [] = comp_return None"
| "first_matching_branch d ((c, sof) # rest) =
     comp_bind (handle_branch_matches d c) (\<lambda>ok.
       if ok then comp_return (Some sof) else first_matching_branch d rest)"

definition default_handle_timeout_ms :: int where "default_handle_timeout_ms = 5000"
definition handle_poll_interval_ms :: int where "handle_poll_interval_ms = 100"

fun handle_loop ::
  "nat \<Rightarrow> ('w, 'e) runner_deps \<Rightarrow> (condition_pair \<times> steps_or_file) list \<Rightarrow> int \<Rightarrow> ('w run_state, steps_or_file option) comp"
where
  "handle_loop 0 d branches deadline st = None"
| "handle_loop (Suc n) d branches deadline st =
     comp_bind (first_matching_branch d branches) (\<lambda>found st1.
       case found of
         Some sof \<Rightarrow> comp_return (Some sof) st1
       | None \<Rightarrow>
           if deadline \<le> now_ms d st1 then comp_return None st1
           else comp_bind (sleep_for d handle_poll_interval_ms) (\<lambda>_. handle_loop n d branches deadline) st1) st"

definition execute_handle ::
  "('w, 'e) runner_deps \<Rightarrow> script_step \<Rightarrow> 'w run_state command_context \<Rightarrow> ('w run_state, command_result) comp" where
  "execute_handle d step ctx st =
     (case step of
        HandleStep branches otherwise timeout0 \<Rightarrow>
          (let timeoutMs = (case timeout0 of None \<Rightarrow> default_handle_timeout_ms | Some ms \<Rightarrow> ms);
               env = environment_from_variables (RsVariables st)
           in comp_bind (handle_loop (polls_within timeoutMs handle_poll_interval_ms) d branches (now_ms d st + timeoutMs))
                (\<lambda>found. case found of
                   Some sof \<Rightarrow> run_resolved d ctx env sof
                 | None \<Rightarrow>
                     if otherwise = Some ''skip'' then done_with ''handle: no branch matched, skipped''
                     else failed_with (''handle: no branch matched within '' @ ms_text timeoutMs @ '' (otherwise: fail)'')) st)
      | _ \<Rightarrow> wrong_step st)"

definition branch_case_matches :: "branch_match \<Rightarrow> captured_request \<Rightarrow> bool" where
  "branch_case_matches m c \<longleftrightarrow>
     (case MatchStatus m of None \<Rightarrow> True | Some s \<Rightarrow> CapStatus c = s) \<and>
     (case MatchBody m of
        None \<Rightarrow> True
      | Some body \<Rightarrow> list_all (\<lambda>(p, expected). js_deep_equal (resolve_dot_path (CapBody c) p) expected) body)"

definition execute_branch ::
  "('w, 'e) runner_deps \<Rightarrow> script_step \<Rightarrow> 'w run_state command_context \<Rightarrow> ('w run_state, command_result) comp" where
  "execute_branch d step ctx st =
     (case step of
        BranchStep from on fallback \<Rightarrow>
          (let key = unwrap_from_key from; env = environment_from_variables (RsVariables st) in
           case RsCaptures st key of
             None \<Rightarrow>
               failed_with (''No captured request named '' @ quote_text key @ ''. Run a '' @ quote_text ''capture'' @
                 '' step first.'') st
           | Some c \<Rightarrow>
               (case find (\<lambda>b. branch_case_matches (fst b) c) on of
                  Some b \<Rightarrow> run_resolved d ctx env (snd b) st
                | None \<Rightarrow>
                    (case fallback of
                       Some sof \<Rightarrow> run_resolved d ctx env sof st
                     | None \<Rightarrow> failed_with (''branch: no case matched for '' @ quote_text key @ '' (status='' @
                         itoa (CapStatus c) @ '')'') st)))
      | _ \<Rightarrow> wrong_step st)"

definition flow_env :: "script_variables \<Rightarrow> (string \<times> string) list \<Rightarrow> (string \<rightharpoonup> string)" where
  "flow_env vars env = environment_from_variables vars ++ map_of env"

definition execute_run_flow ::
  "('w, 'e) runner_deps \<Rightarrow> script_step \<Rightarrow> 'w run_state command_context \<Rightarrow> ('w run_state, command_result) comp" where
  "execute_run_flow d step ctx st =
     (case step of
        RunFlowStep file0 env \<Rightarrow>
          (let file = DepAbs d file0; missing = failed_with (''Sub-flow file not found: '' @ file) in
           case DepLoad d of
             None \<Rightarrow> missing st
           | Some load \<Rightarrow>
               (case load file (flow_env (RsVariables st) env) (snd (RsWorld st)) of
                  Inl (LoadParseError t) \<Rightarrow> comp_panic t st
                | Inl _ \<Rightarrow> missing st
                | Inr subDef \<Rightarrow>
                    (let name = ''Sub-flow '' @ quote_text (ScriptName subDef) in
                     comp_bind (CcRunPreconditions ctx (Preconditions subDef)) (\<lambda>p.
                       if \<not> ROk p then failed_with (name @ '' precondition failed: '' @ detail_or_empty (RDetail p))
                       else comp_bind (CcRunSteps ctx (Steps subDef)) (\<lambda>r.
                         if \<not> ROk r then failed_with (name @ '' failed: '' @ detail_or_empty (RDetail r))
                         else done_with (name @ '' completed ('' @ utoa (length (Steps subDef)) @ '' steps)''))) st)))
      | _ \<Rightarrow> wrong_step st)"

section \<open>Gestures\<close>

definition execute_pointer_step ::
  "('w, 'e) runner_deps \<Rightarrow> script_step \<Rightarrow> 'w run_state command_context \<Rightarrow> ('w run_state, command_result) comp" where
  "execute_pointer_step d step ctx =
     (case step of
        PointerStep touches ms \<Rightarrow> gesture_sugar_result (execute_pointer d (CcStepIndex ctx) touches ms)
      | _ \<Rightarrow> wrong_step)"

definition execute_long_press_step ::
  "('w, 'e) runner_deps \<Rightarrow> script_step \<Rightarrow> 'w run_state command_context \<Rightarrow> ('w run_state, command_result) comp" where
  "execute_long_press_step d step ctx =
     (case step of
        LongPressStep spot hold drag \<Rightarrow> gesture_sugar_result (execute_long_press d (CcStepIndex ctx) spot hold drag)
      | _ \<Rightarrow> wrong_step)"

definition execute_pinch_step ::
  "('w, 'e) runner_deps \<Rightarrow> script_step \<Rightarrow> 'w run_state command_context \<Rightarrow> ('w run_state, command_result) comp" where
  "execute_pinch_step d step ctx =
     (case step of
        PinchStep center startGap endGap ms axis \<Rightarrow>
          gesture_sugar_result (execute_pinch d (CcStepIndex ctx) center startGap endGap ms axis)
      | _ \<Rightarrow> wrong_step)"

definition execute_rotate_step ::
  "(f64 \<Rightarrow> f64) \<Rightarrow> (f64 \<Rightarrow> f64) \<Rightarrow> ('w, 'e) runner_deps \<Rightarrow> script_step \<Rightarrow> 'w run_state command_context \<Rightarrow>
   ('w run_state, command_result) comp" where
  "execute_rotate_step cosine sine d step ctx =
     (case step of
        RotateStep center degrees radius ms \<Rightarrow>
          gesture_sugar_result (execute_rotate cosine sine d (CcStepIndex ctx) center degrees radius ms)
      | _ \<Rightarrow> wrong_step)"

section \<open>The registry\<close>

definition always_run :: "(script_step \<Rightarrow> 's command_context \<Rightarrow> ('s, command_result) comp) \<Rightarrow> 's command" where
  "always_run f = \<lparr>ShouldSkip = (\<lambda>_ _. False), Execute = f\<rparr>"

definition default_commands ::
  "(f64 \<Rightarrow> f64) \<Rightarrow> (f64 \<Rightarrow> f64) \<Rightarrow> ('w, 'e) runner_deps \<Rightarrow> (string \<times> 'w run_state command) list" where
  "default_commands cosine sine d =
     [(''launchApp'', \<lparr>ShouldSkip = launch_should_skip d, Execute = execute_launch_app d\<rparr>),
      (''tap'', always_run (\<lambda>step ctx. execute_tap d step)),
      (''type'', always_run (\<lambda>step ctx. execute_type d step)),
      (''waitFor'', always_run (\<lambda>step ctx. execute_wait_for d step)),
      (''assertVisible'', always_run (\<lambda>step ctx. execute_assert_visible d step)),
      (''assertNotVisible'', always_run (\<lambda>step ctx. execute_assert_not_visible d step)),
      (''assertExists'', always_run (\<lambda>step ctx. execute_assert_exists d step)),
      (''screenshot'', always_run (execute_screenshot d)),
      (''swipe'', always_run (\<lambda>step ctx. execute_swipe d step)),
      (''pressKey'', always_run (\<lambda>step ctx. execute_press_key d step)),
      (''back'', always_run (\<lambda>step ctx. execute_back d)),
      (''sleep'', always_run (\<lambda>step ctx. execute_sleep d step)),
      (''capture'', always_run (\<lambda>step ctx. execute_capture d step)),
      (''assertApi'', always_run (\<lambda>step ctx. execute_assert_api step)),
      (''extract'', always_run (\<lambda>step ctx. execute_extract step)),
      (''read'', always_run (\<lambda>step ctx. execute_read d step)),
      (''assertExpr'', always_run (\<lambda>step ctx. execute_assert_expr step)),
      (''handle'', always_run (execute_handle d)),
      (''branch'', always_run (execute_branch d)),
      (''runFlow'', always_run (execute_run_flow d)),
      (''pointer'', always_run (execute_pointer_step d)),
      (''longPress'', always_run (execute_long_press_step d)),
      (''pinch'', always_run (execute_pinch_step d)),
      (''rotate'', always_run (execute_rotate_step cosine sine d))]"

definition default_registry ::
  "(f64 \<Rightarrow> f64) \<Rightarrow> (f64 \<Rightarrow> f64) \<Rightarrow> ('w, 'e) runner_deps \<Rightarrow> 'w run_state registry" where
  "default_registry cosine sine d = map_of (default_commands cosine sine d)"

end
