(* ===== verification/Runner_Trace.thy ===== *)
theory Runner_Trace
  imports Runner_Commands
begin

text \<open>
  The progress events of a run. \<open>step_trace\<close> is their grammar: steps are numbered in the order they
  start, every start has its completion at the same depth, what runs in between runs one level
  deeper, a step that passes contains no failure, and nothing starts after a failure. The locale
  states what a command owes the runner for this: that it changes what belongs to the runner only
  through the callbacks of its context, and passes the failure of a nested list on. The built-in
  commands are its interpretation.
\<close>

section \<open>The grammar of events\<close>

text \<open>Depth, first index, whether all went well, the events, and the next index.\<close>

definition starts :: "step_event \<Rightarrow> nat \<Rightarrow> nat \<Rightarrow> bool" where
  "starts s d i \<longleftrightarrow> EvType s = StepStarted \<and> EvDepth s = d \<and> EvStepIndex s = i"

definition completes :: "step_event \<Rightarrow> step_event \<Rightarrow> bool" where
  "completes c s \<longleftrightarrow>
     EvType c = StepCompleted \<and> EvDepth c = EvDepth s \<and> EvStepIndex c = EvStepIndex s \<and>
     EvCommand c = EvCommand s \<and> EvSummary c = EvSummary s \<and> EvLine c = EvLine s"

inductive step_trace :: "nat \<Rightarrow> nat \<Rightarrow> bool \<Rightarrow> step_event list \<Rightarrow> nat \<Rightarrow> bool" where
  Nothing: "step_trace d i True [] i"
| Passed: "starts s d i \<Longrightarrow> step_trace (Suc d) (Suc i) True inner k \<Longrightarrow> completes c s \<Longrightarrow> EvOk c \<Longrightarrow>
    step_trace d k b rest j \<Longrightarrow> step_trace d i b (s # inner @ c # rest) j"
| Failed: "starts s d i \<Longrightarrow> step_trace (Suc d) (Suc i) b inner k \<Longrightarrow> completes c s \<Longrightarrow> \<not> EvOk c \<Longrightarrow>
    step_trace d i False (s # inner @ [c]) k"

lemma step_trace_append:
  "step_trace d i b xs k \<Longrightarrow> b \<Longrightarrow> step_trace d k b' ys j \<Longrightarrow> step_trace d i b' (xs @ ys) j"
proof (induction rule: step_trace.induct)
  case (Passed s d i inner k c b rest j')
  then show ?case
    using step_trace.Passed [of s d i inner k c b' "rest @ ys" j] by simp
qed (auto intro: step_trace.intros)

text \<open>What the grammar says of the numbers: the started steps are numbered without gaps.\<close>

definition is_start :: "step_event \<Rightarrow> bool" where
  "is_start e \<longleftrightarrow> EvType e = StepStarted"

lemma step_trace_numbers:
  "step_trace d i b evs j \<Longrightarrow> i \<le> j \<and> map EvStepIndex (filter is_start evs) = [i..<j]"
proof (induction rule: step_trace.induct)
  case (Passed s d i inner k c b rest j)
  then have "[i..<j] = i # [Suc i..<k] @ [k..<j]"
    using upt_add_eq_append [of "Suc i" k "j - k"] by (simp add: upt_conv_Cons)
  with Passed show ?case
    by (simp add: starts_def completes_def is_start_def)
next
  case (Failed s d i b inner k c)
  then show ?case
    by (simp add: starts_def completes_def is_start_def upt_conv_Cons)
qed simp

text \<open>After the first failure only the completions of the failed steps around it follow.\<close>

definition failure :: "step_event \<Rightarrow> bool" where
  "failure e \<longleftrightarrow> EvType e = StepCompleted \<and> \<not> EvOk e"

lemma step_trace_fails_fast:
  "step_trace d i b evs j \<Longrightarrow>
     \<exists>good bad. evs = good @ bad \<and> \<not> list_ex failure good \<and> list_all failure bad \<and> b = (bad = [])"
proof (induction rule: step_trace.induct)
  case (Passed s d i inner k c b rest j)
  then obtain good bad where "rest = good @ bad" "\<not> list_ex failure good" "list_all failure bad" "b = (bad = [])"
    by auto
  moreover have "\<not> list_ex failure inner"
    using Passed.IH(1) by auto
  ultimately have "s # inner @ c # rest = (s # inner @ c # good) @ bad \<and> \<not> list_ex failure (s # inner @ c # good) \<and>
      list_all failure bad \<and> b = (bad = [])"
    using Passed.hyps by (simp add: failure_def starts_def)
  then show ?case by blast
next
  case (Failed s d i b inner k c)
  then obtain good bad where "inner = good @ bad" "\<not> list_ex failure good" "list_all failure bad"
    by auto
  then have "s # inner @ [c] = (s # good) @ (bad @ [c]) \<and> \<not> list_ex failure (s # good) \<and> list_all failure (bad @ [c]) \<and>
      False = (bad @ [c] = [])"
    using Failed.hyps by (simp add: failure_def starts_def completes_def)
  then show ?case by blast
qed auto

section \<open>What computations do to the state of the runner\<close>

text \<open>Computations that leave alone what belongs to the runner.\<close>

definition frame :: "'w run_state \<Rightarrow> 'w run_state \<Rightarrow> bool" where
  "frame st st' \<longleftrightarrow>
     RsSetups st' = RsSetups st \<and> RsIndex st' = RsIndex st \<and> RsDepth st' = RsDepth st \<and>
     RsCompletedRequires st' = RsCompletedRequires st \<and> RsCallStack st' = RsCallStack st \<and> RsEvents st' = RsEvents st"

definition quiet :: "('w run_state, 'a) comp \<Rightarrow> bool" where
  "quiet m \<longleftrightarrow> (\<forall>st r st'. m st = Some (r, st') \<longrightarrow> frame st st')"

text \<open>Computations that ran steps at depth \<open>D\<close>, and whether they all passed.\<close>

definition ran_steps :: "nat \<Rightarrow> 'w run_state \<Rightarrow> bool \<Rightarrow> 'w run_state \<Rightarrow> bool" where
  "ran_steps D st b st' \<longleftrightarrow>
     RsDepth st' = RsDepth st \<and> RsCompletedRequires st' = RsCompletedRequires st \<and> RsCallStack st' = RsCallStack st \<and>
     RsSetups st \<subseteq> RsSetups st' \<and>
     (\<exists>evs. RsEvents st' = RsEvents st @ evs \<and> step_trace D (RsIndex st) b evs (RsIndex st'))"

lemma frame_ran: "frame st st' \<Longrightarrow> ran_steps D st True st'"
  by (auto simp: frame_def ran_steps_def intro: step_trace.Nothing)

lemma ran_refl: "ran_steps D st True st"
  by (rule frame_ran) (simp add: frame_def)

lemma ran_trans: "ran_steps D st True st1 \<Longrightarrow> ran_steps D st1 b st2 \<Longrightarrow> ran_steps D st b st2"
  unfolding ran_steps_def by (auto dest: step_trace_append)

lemma frame_ran_trans: "frame st st1 \<Longrightarrow> ran_steps D st1 b st2 \<Longrightarrow> ran_steps D st b st2"
  using frame_ran ran_trans by blast

lemma ran_frame_trans: "ran_steps D st b st1 \<Longrightarrow> frame st1 st2 \<Longrightarrow> ran_steps D st b st2"
  by (auto simp: ran_steps_def frame_def)

lemma ran_depth: "ran_steps D st b st' \<Longrightarrow> RsDepth st' = RsDepth st"
  by (simp add: ran_steps_def)

definition bad_result :: "string + command_result \<Rightarrow> bool" where
  "bad_result r \<longleftrightarrow> (case r of Inl _ \<Rightarrow> True | Inr res \<Rightarrow> \<not> ROk res)"

definition traced :: "('w run_state, command_result) comp \<Rightarrow> bool" where
  "traced m \<longleftrightarrow>
     (\<forall>st r st'. m st = Some (r, st') \<longrightarrow> (\<exists>b. ran_steps (Suc (RsDepth st)) st b st' \<and> (b \<or> bad_result r)))"

definition traced_list :: "(('a \<Rightarrow> 'w run_state \<Rightarrow> (command_result \<times> 'w run_state) option)) \<Rightarrow> bool" where
  "traced_list f \<longleftrightarrow>
     (\<forall>x st r st'. f x st = Some (r, st') \<longrightarrow> (\<exists>b. ran_steps (Suc (RsDepth st)) st b st' \<and> (b \<or> \<not> ROk r)))"

definition traced_context :: "'w run_state command_context \<Rightarrow> bool" where
  "traced_context ctx \<longleftrightarrow> (\<forall>steps. traced (CcRunSteps ctx steps)) \<and> (\<forall>ps. traced (CcRunPreconditions ctx ps))"

section \<open>Rules\<close>

named_theorems quiet_rules \<open>computations that leave the runner's state alone\<close>

lemma quiet_return [quiet_rules]: "quiet (comp_return a)"
  by (simp add: quiet_def comp_return_def frame_def)

lemma quiet_panic [quiet_rules]: "quiet (comp_panic p)"
  by (simp add: quiet_def comp_panic_def frame_def)

lemma frame_trans: "frame a b \<Longrightarrow> frame b c \<Longrightarrow> frame a c"
  by (simp add: frame_def)

lemma quiet_bind [quiet_rules]: "quiet m \<Longrightarrow> (\<And>a. quiet (k a)) \<Longrightarrow> quiet (comp_bind m k)"
  unfolding quiet_def comp_bind_def
  by (auto split: option.splits prod.splits sum.splits) (metis frame_trans)+

lemma orch_call_frame: "orch_call m st = Some (r, st') \<Longrightarrow> frame st st'"
  by (auto simp: orch_call_def frame_def split: prod.splits sum.splits orch_error.splits)

lemma quiet_must [quiet_rules]: "quiet (must d m)"
  by (auto simp: quiet_def must_def dest: orch_call_frame split: option.splits sum.splits)

lemma quiet_done [quiet_rules]: "quiet (done_with t)" "quiet (failed_with t)" "quiet wrong_step"
  by (simp_all add: done_with_def failed_with_def wrong_step_def quiet_rules)

lemma quiet_failure [quiet_rules]: "(\<And>a. quiet (k a)) \<Longrightarrow> quiet (command_failure_or_panic d m k)"
  unfolding quiet_def command_failure_or_panic_def
  by (auto simp: failed_with_def comp_return_def comp_panic_def dest!: orch_call_frame split: option.splits sum.splits)
    (metis frame_trans)

lemma quiet_action [quiet_rules]: "quiet (action_outcome f r)"
  by (simp add: action_outcome_def quiet_rules)

lemma quiet_wait [quiet_rules]: "quiet (wait_for_selector d sel ms)"
  by (auto simp: quiet_def wait_for_selector_def frame_def Let_def
    split: option.splits prod.splits sum.splits find_error.splits)

lemma quiet_find [quiet_rules]: "quiet (find_now d sel)" "quiet (sleep_for d ms)"
  by (simp_all add: find_now_def sleep_for_def quiet_rules)

lemma quiet_at: "(\<And>st. \<exists>m. quiet m \<and> f st = m st) \<Longrightarrow> quiet f"
  unfolding quiet_def by metis

lemma quiet_set [quiet_rules]: "quiet (set_variable x v)"
  by (simp add: quiet_def set_variable_def frame_def)

lemma traced_quiet: "quiet m \<Longrightarrow> traced m"
  unfolding traced_def quiet_def by (blast intro: frame_ran)

lemma traced_bind: "quiet m \<Longrightarrow> (\<And>a. traced (k a)) \<Longrightarrow> traced (comp_bind m k)"
proof -
  assume m: "quiet m" and k: "\<And>a. traced (k a)"
  show ?thesis
    unfolding traced_def
  proof (intro allI impI)
    fix st r st'
    assume run: "comp_bind m k st = Some (r, st')"
    then obtain r1 st1 where m1: "m st = Some (r1, st1)"
      by (auto simp: comp_bind_def split: option.splits)
    then have f: "frame st st1"
      using m by (simp add: quiet_def)
    show "\<exists>b. ran_steps (Suc (RsDepth st)) st b st' \<and> (b \<or> bad_result r)"
    proof (cases r1)
      case (Inl p)
      with run m1 f show ?thesis
        by (auto simp: comp_bind_def intro: frame_ran)
    next
      case (Inr a)
      with run m1 have "k a st1 = Some (r, st')"
        by (simp add: comp_bind_def)
      then obtain b where "ran_steps (Suc (RsDepth st1)) st1 b st'" "b \<or> bad_result r"
        using k unfolding traced_def by blast
      moreover have "RsDepth st1 = RsDepth st"
        using f by (simp add: frame_def)
      ultimately show ?thesis
        using frame_ran_trans [OF f] by metis
    qed
  qed
qed

text \<open>A nested list whose failure the continuation passes on.\<close>

lemma traced_nested:
  assumes m: "traced m" and pass: "\<And>r. ROk r \<Longrightarrow> traced (k r)" and fail: "\<And>r. \<not> ROk r \<Longrightarrow> \<exists>t. k r = failed_with t"
  shows "traced (comp_bind m k)"
  unfolding traced_def
proof (intro allI impI)
  fix st r st'
  assume run: "comp_bind m k st = Some (r, st')"
  then obtain r1 st1 where m1: "m st = Some (r1, st1)"
    by (auto simp: comp_bind_def split: option.splits)
  with m obtain b where b: "ran_steps (Suc (RsDepth st)) st b st1" "b \<or> bad_result r1"
    unfolding traced_def by blast
  show "\<exists>b. ran_steps (Suc (RsDepth st)) st b st' \<and> (b \<or> bad_result r)"
  proof (cases "bad_result r1")
    case True
    then have "bad_result r \<and> st' = st1"
    proof (cases r1)
      case (Inl p)
      with run m1 show ?thesis
        by (auto simp: comp_bind_def bad_result_def)
    next
      case (Inr res)
      then obtain t where "k res = failed_with t"
        using fail [of res] True by (auto simp: bad_result_def)
      with run m1 Inr show ?thesis
        by (auto simp: comp_bind_def bad_result_def failed_with_def comp_return_def fail_result_def)
    qed
    with b show ?thesis by blast
  next
    case False
    with b have b: "ran_steps (Suc (RsDepth st)) st True st1"
      by auto
    obtain res where res: "r1 = Inr res" "ROk res"
      using False by (cases r1) (auto simp: bad_result_def)
    with run m1 have "k res st1 = Some (r, st')"
      by (simp add: comp_bind_def)
    then obtain b' where "ran_steps (Suc (RsDepth st1)) st1 b' st'" "b' \<or> bad_result r"
      using pass [OF res(2)] unfolding traced_def by blast
    with b ran_depth [OF b] show ?thesis
      using ran_trans by metis
  qed
qed


section \<open>The built-in commands\<close>

lemma quiet_pointer [quiet_rules]:
  "quiet (p_return a)" "quiet (p_fail e)" "quiet (p_check v)" "quiet (p_orch d code m)"
  by (auto simp: p_return_def p_fail_def p_check_def quiet_rules quiet_def p_orch_def comp_return_def frame_def
      dest: orch_call_frame split: option.splits sum.splits)

lemma quiet_p_bind [quiet_rules]: "quiet m \<Longrightarrow> (\<And>a. quiet (k a)) \<Longrightarrow> quiet (p_bind m k)"
  unfolding p_bind_def by (rule quiet_bind) (auto split: sum.split simp: quiet_rules)

lemma quiet_p_lift [quiet_rules]: "quiet m \<Longrightarrow> quiet (p_lift m)"
  by (simp add: p_lift_def quiet_rules)

lemma quiet_sugar [quiet_rules]: "quiet m \<Longrightarrow> quiet (gesture_sugar_result m)"
  unfolding gesture_sugar_result_def by (rule quiet_bind) (auto split: sum.split simp: quiet_rules)

lemma quiet_resolve [quiet_rules]: "quiet (resolve_pointer_target d t)"
  by (auto simp: resolve_pointer_target_def anchored_point_def Let_def intro!: quiet_rules split: option.split sum.split)

lemma quiet_waypoints [quiet_rules]: "quiet (compile_waypoints_loop d moveMs t p as)"
proof (induction as arbitrary: t p)
  case (Cons a as)
  then show ?case
    by (auto simp: Let_def intro!: quiet_rules)
qed (simp add: quiet_rules)

lemma quiet_multi [quiet_rules]: "quiet (compile_multi_pointer d moveMs ts)"
  by (induction ts) (auto simp: compile_pointer_waypoints_def intro!: quiet_rules)

lemma quiet_classify [quiet_rules]: "quiet (classify_pointer_pattern d as)"
  by (auto simp: classify_pointer_pattern_def intro!: quiet_rules split: list.split)

lemma quiet_route [quiet_rules]: "quiet (dispatch_and_route d g ls)" "quiet (dispatch_pointer_pattern d p)"
proof -
  have "quiet (route_pointer_captures images ls)" for images
    by (simp add: quiet_def route_pointer_captures_def frame_def)
  then show "quiet (dispatch_and_route d g ls)"
    by (auto simp: dispatch_and_route_def intro!: quiet_rules)
qed (simp add: dispatch_pointer_pattern_def quiet_rules)

lemma quiet_dispatch [quiet_rules]:
  "quiet (dispatch_single_touch d i as ms)" "quiet (dispatch_multi_touch d i ts ms)"
  by (auto simp: dispatch_single_touch_def dispatch_multi_touch_def compile_pointer_waypoints_def Let_def
    intro!: quiet_rules)

lemma quiet_gestures [quiet_rules]:
  "quiet (execute_pointer d i ts ms)" "quiet (execute_long_press d i spot hold drag)"
  "quiet (execute_pinch d i center g0 g1 dur axis)" "quiet (execute_rotate c s d i center deg r dur)"
  by (auto simp: execute_pointer_def execute_long_press_def execute_pinch_def execute_rotate_def Let_def
    intro!: quiet_rules split: sum.split list.split)

lemma quiet_disappear [quiet_rules]: "quiet (disappear_loop n d sel deadline)"
proof (induction n)
  case 0
  then show ?case by (simp add: quiet_def)
next
  case (Suc n)
  have "quiet (comp_bind (find_now d sel) (\<lambda>c. if c = None then comp_return True
      else comp_bind (sleep_for d disappear_poll_interval_ms) (\<lambda>_. disappear_loop n d sel deadline)))"
    using Suc by (auto intro!: quiet_rules)
  then show ?case
    by (auto intro!: quiet_at simp: quiet_rules) (metis disappear_loop.simps(2) quiet_return)+
qed


lemma quiet_api [quiet_rules]: "quiet (execute_assert_api step)" "quiet (execute_assert_expr step)"
  unfolding quiet_def
  by (auto simp: execute_assert_api_def execute_assert_expr_def wrong_step_def failed_with_def done_with_def comp_panic_def
        comp_return_def frame_def Let_def
      split: script_step.splits option.splits if_splits sum.splits evaluate_error.splits expr_value.splits)

lemma quiet_extract_loop [quiet_rules]: "quiet (extract_loop obj key vals done :: ('w run_state, command_result) comp)"
  unfolding quiet_def
proof (induction vals arbitrary: "done")
  case Nil
  then show ?case
    by (simp add: done_with_def comp_return_def frame_def)
next
  case (Cons e vals)
  obtain name p where e: "e = (name, p)"
    by fastforce
  show ?case
  proof (intro allI impI)
    fix st st' :: "'w run_state" and r
    assume run: "extract_loop obj key (e # vals) done st = Some (r, st')"
    let ?v = "resolve_dot_path obj p"
    show "frame st st'"
    proof (cases "?v = JsUndefined")
      case True
      with run show ?thesis
        by (simp add: e failed_with_def comp_return_def frame_def)
    next
      case False
      let ?st1 = "st\<lparr>RsVariables := (RsVariables st)(name \<mapsto> StringValue (js_string_of ?v))\<rparr>"
      from False run have "\<exists>ex. extract_loop obj key vals ex ?st1 = Some (r, st')"
        by (auto simp: e Let_def)
      then have "frame ?st1 st'"
        using Cons by blast
      then show ?thesis
        by (simp add: frame_def)
    qed
  qed
qed

lemma quiet_extract [quiet_rules]: "quiet (execute_extract step)"
proof (rule quiet_at)
  fix st :: "'w run_state"
  show "\<exists>m. quiet m \<and> execute_extract step st = m st"
    by (cases step; cases "RsCaptures st (unwrap_from_key (case step of ExtractStep from vals \<Rightarrow> from | _ \<Rightarrow> []))")
      (auto simp: execute_extract_def Let_def intro: quiet_rules)
qed

lemma quiet_capture [quiet_rules]: "quiet (execute_capture d step)"
  unfolding quiet_def
  by (auto simp: execute_capture_def wrong_step_def failed_with_def done_with_def comp_panic_def comp_return_def frame_def
        Let_def
      split: script_step.splits option.splits prod.splits sum.splits)

lemma quiet_screenshot [quiet_rules]: "quiet (execute_screenshot d step ctx)"
proof -
  have "quiet (\<lambda>st. done_with t (add_screenshot (f st) data (g st) st))" for t data f g
    by (simp add: quiet_def done_with_def comp_return_def add_screenshot_def frame_def)
  then show ?thesis
    by (auto simp: execute_screenshot_def Let_def intro!: quiet_rules split: script_step.split)
qed

lemma quiet_read [quiet_rules]: "quiet (execute_read d step)"
  by (auto simp: execute_read_def read_field_def Let_def intro!: quiet_rules
    split: script_step.split sum.split list.split option.split)

lemma quiet_not_visible [quiet_rules]:
  fixes d :: "('w, 'e) runner_deps"
  shows "quiet (execute_assert_not_visible d step)"
proof -
  have "quiet (\<lambda>st. comp_bind (disappear_loop n d sel (now_ms d st + ms))
      (\<lambda>gone. if gone then done_with t else failed_with t') st)" for n sel ms t t'
  proof (rule quiet_at)
    fix st :: "'w run_state"
    show "\<exists>m. quiet m \<and> comp_bind (disappear_loop n d sel (now_ms d st + ms))
        (\<lambda>gone. if gone then done_with t else failed_with t') st = m st"
      by (rule exI [of _ "comp_bind (disappear_loop n d sel (now_ms d st + ms))
          (\<lambda>gone. if gone then done_with t else failed_with t')"]) (auto intro!: quiet_rules)
  qed
  then show ?thesis
    by (auto simp: execute_assert_not_visible_def Let_def intro!: quiet_rules split: script_step.split)
qed

lemma quiet_simple_commands [quiet_rules]:
  "quiet (execute_launch_app d step ctx)" "quiet (execute_tap d step)" "quiet (execute_type d step)"
  "quiet (execute_wait_for d step)" "quiet (execute_assert_visible d step)" "quiet (execute_assert_exists d step)"
  "quiet (execute_swipe d step)" "quiet (execute_press_key d step)" "quiet (execute_back d)" "quiet (execute_sleep d step)"
  "quiet (execute_pointer_step d step ctx)" "quiet (execute_long_press_step d step ctx)"
  "quiet (execute_pinch_step d step ctx)" "quiet (execute_rotate_step c s d step ctx)"
  by (auto simp: execute_launch_app_def execute_tap_def execute_type_def execute_wait_for_def execute_assert_visible_def
      execute_assert_exists_def assert_present_def execute_swipe_def execute_press_key_def execute_back_def
      execute_sleep_def execute_pointer_step_def execute_long_press_step_def execute_pinch_step_def
      execute_rotate_step_def Let_def
    intro!: quiet_rules split: script_step.split option.split sum.split)


lemma quiet_branches [quiet_rules]: "quiet (first_matching_branch d bs)"
proof (induction bs)
  case (Cons b bs)
  have part: "quiet (condition_part d v expected)" for v expected
    by (auto simp: condition_part_def intro!: quiet_rules split: option.split)
  then have "quiet (handle_branch_matches d c)" for c
    by (auto simp: handle_branch_matches_def intro!: quiet_rules)
  with Cons show ?case
    by (cases b) (auto intro!: quiet_rules)
qed (simp add: quiet_rules)

lemma quiet_handle_loop [quiet_rules]: "quiet (handle_loop n d bs deadline)"
proof (induction n)
  case 0
  then show ?case by (simp add: quiet_def)
next
  case (Suc n)
  have poll: "quiet (\<lambda>st. case found of
      Some sof \<Rightarrow> comp_return (Some sof) st
    | None \<Rightarrow> if deadline \<le> now_ms d st then comp_return None st
        else comp_bind (sleep_for d handle_poll_interval_ms) (\<lambda>_. handle_loop n d bs deadline) st)" for found
  proof (rule quiet_at)
    fix st
    let ?later = "comp_bind (sleep_for d handle_poll_interval_ms) (\<lambda>_. handle_loop n d bs deadline)"
    have "quiet (comp_return found :: ('a run_state, steps_or_file option) comp)" "quiet ?later"
      using Suc by (auto intro!: quiet_rules)
    then show "\<exists>m. quiet m \<and> (case found of Some sof \<Rightarrow> comp_return (Some sof) st
        | None \<Rightarrow> if deadline \<le> now_ms d st then comp_return None st else ?later st) = m st"
      by (cases found) auto
  qed
  have "quiet (comp_bind (first_matching_branch d bs) (\<lambda>found st. case found of
      Some sof \<Rightarrow> comp_return (Some sof) st
    | None \<Rightarrow> if deadline \<le> now_ms d st then comp_return None st
        else comp_bind (sleep_for d handle_poll_interval_ms) (\<lambda>_. handle_loop n d bs deadline) st))"
    by (rule quiet_bind [OF quiet_branches poll])
  then show ?case
    unfolding quiet_def by simp
qed

lemma quiet_resolve_file [quiet_rules]: "quiet (resolve_steps_or_file d env sof)"
  unfolding quiet_def
  by (auto simp: resolve_steps_or_file_def comp_return_def comp_panic_def frame_def Let_def
      split: steps_or_file.splits option.splits sum.splits load_error.splits)

lemma traced_at: "(\<And>st. \<exists>m. traced m \<and> f st = m st) \<Longrightarrow> traced f"
  unfolding traced_def by metis

lemma some_traced: "traced m \<Longrightarrow> \<exists>m'. traced m' \<and> m st = m' st"
  by blast

lemma traced_resolved: "traced_context ctx \<Longrightarrow> traced (run_resolved d ctx env sof)"
  unfolding run_resolved_def
  by (rule traced_bind) (auto simp: traced_context_def quiet_rules intro: traced_quiet split: sum.split)

lemma traced_handle: "traced_context ctx \<Longrightarrow> traced (execute_handle d step ctx)"
proof (rule traced_at)
  fix st
  assume ctx: "traced_context ctx"
  show "\<exists>m. traced m \<and> execute_handle d step ctx st = m st"
  proof (cases "\<exists>branches otherwise ms. step = HandleStep branches otherwise ms")
    case True
    then obtain branches otherwise ms where step: "step = HandleStep branches otherwise ms"
      by blast
    have "traced (comp_bind m (\<lambda>found. case found of
        Some sof \<Rightarrow> run_resolved d ctx env sof
      | None \<Rightarrow> if skip then done_with t else failed_with t'))" if "quiet m" for m env skip t t'
      using that ctx
      by (intro traced_bind) (auto intro: traced_resolved traced_quiet quiet_rules split: option.split)
    note this [OF quiet_handle_loop]
    then show ?thesis
      unfolding step execute_handle_def script_step.case Let_def by (intro exI conjI) (assumption | rule refl)+
  next
    case False
    then show ?thesis
      by (cases step) (auto simp: execute_handle_def intro: traced_quiet quiet_rules)
  qed
qed

lemma traced_branch: "traced_context ctx \<Longrightarrow> traced (execute_branch d step ctx)"
proof (rule traced_at)
  fix st
  assume ctx: "traced_context ctx"
  show "\<exists>m. traced m \<and> execute_branch d step ctx st = m st"
    using ctx
    by (auto simp: execute_branch_def Let_def intro: traced_quiet traced_resolved quiet_rules
        split: script_step.split option.split)
qed

lemma traced_run_flow: "traced_context ctx \<Longrightarrow> traced (execute_run_flow d step ctx)"
proof (rule traced_at)
  fix st
  assume ctx: "traced_context ctx"
  have "traced (comp_bind (CcRunPreconditions ctx ps) (\<lambda>p.
      if \<not> ROk p then failed_with (t1 p)
      else comp_bind (CcRunSteps ctx steps) (\<lambda>r. if \<not> ROk r then failed_with (t2 r) else done_with t3)))"
    for ps steps t1 t2 t3
  proof (rule traced_nested)
    show "traced (CcRunPreconditions ctx ps)"
      using ctx by (simp add: traced_context_def)
    have "traced (comp_bind (CcRunSteps ctx steps) (\<lambda>r. if \<not> ROk r then failed_with (t2 r) else done_with t3))"
      by (rule traced_nested) (use ctx in \<open>auto simp: traced_context_def intro: traced_quiet quiet_rules\<close>)
    then show "traced (if \<not> ROk p then failed_with (t1 p)
        else comp_bind (CcRunSteps ctx steps) (\<lambda>r. if \<not> ROk r then failed_with (t2 r) else done_with t3))" if "ROk p" for p
      using that by simp
  qed auto
  then show "\<exists>m. traced m \<and> execute_run_flow d step ctx st = m st"
    by (auto simp: execute_run_flow_def Let_def intro: some_traced traced_quiet quiet_rules
        split: script_step.split option.split sum.split load_error.split)
qed

section \<open>The runner over any registry of such commands\<close>

locale traced_commands =
  fixes reg :: "'w run_state registry"
  assumes command_traced: "reg name = Some cmd \<Longrightarrow> traced_context ctx \<Longrightarrow> traced (Execute cmd step ctx)"
begin

lemma dispatch_ran:
  assumes "reg name = Some cmd" "traced_context ctx" "dispatch_step d depth line cmd step ctx st = Some ((r, ms), st')"
    and "depth = RsDepth \<or> depth = (\<lambda>_. 0) \<and> RsDepth st = 0"
  shows "ran_steps (RsDepth st) st (ROk r) st'"
proof -
  define s where "s = started_event d (RsIndex st) step (depth st) line"
  define st1 where "st1 = emit s (st\<lparr>RsIndex := RsIndex st + 1\<rparr>)"
  obtain st2 where ex: "execute cmd step ctx st1 = Some (r, st2)"
    and st': "st' = emit (completed_event d (RsIndex st) step (depth st2) line r ms) st2"
    using assms(3) by (auto simp: dispatch_step_def Let_def s_def st1_def split: option.splits)
  obtain r0 where "Execute cmd step ctx st1 = Some (r0, st2)" and r0: "bad_result r0 = (\<not> ROk r)"
    using ex by (auto simp: execute_def bad_result_def fail_result_def split: option.splits sum.splits)
  then obtain b where b: "ran_steps (Suc (RsDepth st1)) st1 b st2" "b \<or> bad_result r0"
    using command_traced [OF assms(1,2)] unfolding traced_def by blast
  have st1: "RsDepth st1 = RsDepth st" "RsIndex st1 = Suc (RsIndex st)" "RsEvents st1 = RsEvents st @ [s]"
    by (simp_all add: st1_def emit_def)
  have depth: "depth st = RsDepth st \<and> depth st2 = RsDepth st"
    using assms(4) ran_depth [OF b(1)] st1 by auto
  obtain evs where evs: "RsEvents st2 = RsEvents st @ s # evs"
    "step_trace (Suc (RsDepth st)) (Suc (RsIndex st)) b evs (RsIndex st2)"
    using b(1) st1 by (auto simp: ran_steps_def)
  define c where "c = completed_event d (RsIndex st) step (depth st2) line r ms"
  have sc: "starts s (RsDepth st) (RsIndex st)" "completes c s" "EvOk c = ROk r"
    using depth by (simp_all add: s_def c_def started_event_def completed_event_def starts_def completes_def)
  have "step_trace (RsDepth st) (RsIndex st) (ROk r) (s # evs @ [c]) (RsIndex st2)"
  proof (cases "ROk r")
    case True
    with b(2) r0 have b by auto
    with True sc evs(2) show ?thesis
      using Passed [OF sc(1) _ sc(2) _ Nothing] by simp
  next
    case False
    with sc evs(2) show ?thesis
      using Failed [OF sc(1) _ sc(2)] by simp
  qed
  moreover have "RsEvents st' = RsEvents st @ (s # evs @ [c])"
    using evs st' by (simp add: emit_def c_def)
  moreover have "RsIndex st' = RsIndex st2"
    by (simp add: st' emit_def)
  ultimately show ?thesis
    using b(1) unfolding ran_steps_def
    by (auto simp: st' st1_def emit_def)
qed

lemma nested_loop_ran:
  assumes mk: "\<And>i. traced_context (mk i)"
  shows "nested_loop d reg mk i steps st = Some (r, st') \<Longrightarrow>
    \<exists>b. ran_steps (RsDepth st) st b st' \<and> (b \<or> \<not> ROk r)"
proof (induction steps arbitrary: i st)
  case Nil
  then show ?case
    using ran_refl by fastforce
next
  case (Cons step rest)
  show ?case
  proof (cases "context_error d st \<noteq> None \<or> reg (step_command step) = None")
    case True
    with Cons.prems have "st' = st" by (auto split: option.splits)
    then show ?thesis
      using ran_refl by blast
  next
    case False
    then obtain cmd where cmd: "context_error d st = None" "reg (step_command step) = Some cmd"
      by auto
    show ?thesis
    proof (cases "ShouldSkip cmd (mk i) st")
      case True
      with cmd Cons show ?thesis by auto
    next
      case False
      with cmd Cons.prems obtain r1 ms st1 where d: "dispatch_step d RsDepth None cmd step (mk i) st = Some ((r1, ms), st1)"
        by (auto split: option.splits)
      then have ran1: "ran_steps (RsDepth st) st (ROk r1) st1"
        using dispatch_ran [OF cmd(2) mk] by blast
      show ?thesis
      proof (cases "ROk r1")
        case True
        with cmd False d Cons.prems have "nested_loop d reg mk (i + 1) rest st1 = Some (r, st')"
          by simp
        then obtain b where b: "ran_steps (RsDepth st1) st1 b st'" "b \<or> \<not> ROk r"
          using Cons.IH by blast
        have ok: "ran_steps (RsDepth st) st True st1"
          using ran1 True by simp
        have "ran_steps (RsDepth st) st1 b st'"
          using b(1) ran_depth [OF ok] by simp
        then show ?thesis
          using ran_trans [OF ok] b(2) by blast
      next
        case not_ok: False
        with cmd False d Cons.prems have "r = r1 \<and> st' = st1"
          by simp
        with ran1 not_ok show ?thesis by blast
      qed
    qed
  qed
qed

end

end
