(* ===== verification/Runner_Run_Trace.thy ===== *)
theory Runner_Run_Trace
  imports Runner_Trace
begin

text \<open>
  The events of preconditions, nested lists, required flows and whole runs: each builds on the
  lists it runs, so that the trace of a run is a trace at depth 1, of what prepares it, followed by
  one at depth 0, of its own steps.
\<close>

section \<open>Lists run one level deeper\<close>

definition ran_nested :: "'w run_state \<Rightarrow> bool \<Rightarrow> 'w run_state \<Rightarrow> bool" where
  "ran_nested st ok st' \<longleftrightarrow> (\<exists>b. ran_steps (Suc (RsDepth st)) st b st' \<and> (b \<or> \<not> ok))"

definition traced_run :: "'w run_list \<Rightarrow> bool" where
  "traced_run f \<longleftrightarrow> (\<forall>steps st r st'. f steps st = Some (r, st') \<longrightarrow> ran_nested st (ROk r) st')"

lemma traced_runD: "traced_run f \<Longrightarrow> f steps st = Some (r, st') \<Longrightarrow> ran_nested st (ROk r) st'"
  by (simp add: traced_run_def)

lemma frame_nested: "frame st st' \<Longrightarrow> ran_nested st ok st'"
  using frame_ran unfolding ran_nested_def by blast

lemma nested_refl: "ran_nested st ok st"
  by (rule frame_nested) (simp add: frame_def)

lemma nested_failed: "ran_nested st ok st' \<Longrightarrow> ran_nested st False st'"
  by (auto simp: ran_nested_def)

lemma nested_trans:
  assumes "ran_nested st True st1" "ran_nested st1 ok st'"
  shows "ran_nested st ok st'"
proof -
  have 1: "ran_steps (Suc (RsDepth st)) st True st1"
    using assms(1) by (auto simp: ran_nested_def)
  moreover obtain b where "ran_steps (Suc (RsDepth st1)) st1 b st'" "b \<or> \<not> ok"
    using assms(2) by (auto simp: ran_nested_def)
  moreover have "RsDepth st1 = RsDepth st"
    by (rule ran_depth [OF 1])
  ultimately show ?thesis
    unfolding ran_nested_def using ran_trans [OF 1] by auto
qed

lemma nested_frame: "ran_nested st ok st1 \<Longrightarrow> frame st1 st2 \<Longrightarrow> ran_nested st ok st2"
  unfolding ran_nested_def by (blast intro: ran_frame_trans)

lemma nested_setups:
  "ran_nested st ok st1 \<Longrightarrow> ran_nested st ok (st1\<lparr>RsSetups := insert k (RsSetups st1)\<rparr>)"
  by (auto simp: ran_nested_def ran_steps_def)

section \<open>Preconditions\<close>

lemma evaluate_check_frame: "evaluate_check d c st = Some (r, st') \<Longrightarrow> frame st st'"
  by (auto simp: evaluate_check_def frame_def dest!: orch_call_frame split: option.splits sum.splits)

lemma run_setup_nested:
  "traced_run f \<Longrightarrow> run_setup d f p st = Some (r, st') \<Longrightarrow> ran_nested st (ROk r) st'"
  by (auto simp: run_setup_def nested_refl dest: traced_runD split: sum.splits)

lemma run_setup_deduped_nested:
  assumes f: "traced_run f" and run: "run_setup_deduped d f p st = Some (r, st')"
  shows "ran_nested st (ROk r) st'"
proof (cases "run_setup d f p st")
  case None
  with run show ?thesis
    by (auto simp: run_setup_deduped_def Let_def nested_refl split: if_splits)
next
  case (Some out)
  then obtain r1 st1 where s: "run_setup d f p st = Some (r1, st1)"
    by (cases out) auto
  note n = run_setup_nested [OF f s]
  from run s n nested_setups [OF n] show ?thesis
    by (auto simp: run_setup_deduped_def Let_def nested_refl split: if_splits option.splits)
qed

lemma recheck_frame: "recheck d p st = Some (r, st') \<Longrightarrow> frame st st'"
  by (auto simp: recheck_def dest: evaluate_check_frame split: option.splits sum.splits)

lemma recheck_failure: "recheck d p st = Some (Some f, st') \<Longrightarrow> \<not> ROk f"
  by (auto simp: recheck_def fail_result_def split: option.splits sum.splits if_splits)

lemma setup_then_recheck_nested:
  assumes ran: "\<And>r st'. setup st = Some (r, st') \<Longrightarrow> ran_nested st (ROk r) st'"
    and run: "setup_then_recheck d setup p st = Some (r, st')"
  shows "ran_nested st (r = None) st' \<and> (case r of None \<Rightarrow> True | Some f \<Rightarrow> \<not> ROk f)"
proof -
  obtain r1 st1 where s: "setup st = Some (r1, st1)"
    using run by (auto simp: setup_then_recheck_def split: option.splits)
  show ?thesis
  proof (cases "ROk r1")
    case True
    with run s have c: "recheck d p st1 = Some (r, st')"
      by (simp add: setup_then_recheck_def)
    have "ran_nested st True st1"
      using ran [OF s] True by simp
    then have "ran_nested st (r = None) st'"
      using nested_trans frame_nested [OF recheck_frame [OF c]] by blast
    with c show ?thesis
      by (auto dest: recheck_failure split: option.split)
  next
    case False
    with run s ran [OF s] show ?thesis
      by (auto simp: setup_then_recheck_def intro: nested_failed)
  qed
qed

lemma run_precondition_nested:
  assumes f: "traced_run f" and run: "run_precondition d f p st = Some (r, st')"
  shows "ran_nested st (r = None) st' \<and> (case r of None \<Rightarrow> True | Some g \<Rightarrow> \<not> ROk g)"
proof -
  let ?policy = "resolve_effective_policy (DepOverride d) (Policy p)"
  consider "context_error d st \<noteq> None \<or> ?policy = ''skip''"
    | "context_error d st = None" "?policy = ''always''"
    | "context_error d st = None" "?policy \<noteq> ''skip''" "?policy \<noteq> ''always''" by blast
  then show ?thesis
  proof cases
    case 1
    with run show ?thesis
      by (auto simp: run_precondition_def Let_def fail_result_def nested_refl split: option.splits if_splits)
  next
    case 2
    with run have "setup_then_recheck d (run_setup_deduped d f p) p st = Some (r, st')"
      by (simp add: run_precondition_def)
    then show ?thesis
      by (rule setup_then_recheck_nested [rotated]) (rule run_setup_deduped_nested [OF f])
  next
    case 3
    with run obtain c st1 where c: "evaluate_check d (Check p) st = Some (c, st1)"
      by (auto simp: run_precondition_def split: option.splits)
    note fr = evaluate_check_frame [OF c]
    show ?thesis
    proof (cases "c = Inr False")
      case True
      with 3 run c have "setup_then_recheck d (run_setup d f p) p st1 = Some (r, st')"
        by (simp add: run_precondition_def)
      then have "ran_nested st1 (r = None) st' \<and> (case r of None \<Rightarrow> True | Some g \<Rightarrow> \<not> ROk g)"
        by (rule setup_then_recheck_nested [rotated]) (rule run_setup_nested [OF f])
      with nested_trans [OF frame_nested [OF fr]] show ?thesis by blast
    next
      case False
      with 3 run c fr show ?thesis
        by (auto simp: run_precondition_def fail_result_def frame_nested split: sum.splits bool.splits)
    qed
  qed
qed

lemma preconditions_loop_nested:
  assumes f: "traced_run f"
  shows "preconditions_loop d f ps st = Some (r, st') \<Longrightarrow> ran_nested st (ROk r) st'"
proof (induction ps arbitrary: st)
  case Nil
  then show ?case by (simp add: nested_refl)
next
  case (Cons p ps)
  then obtain g st1 where g: "run_precondition d f p st = Some (g, st1)"
    by (auto split: option.splits)
  note n = run_precondition_nested [OF f g]
  show ?case
  proof (cases g)
    case None
    with g Cons.prems have "preconditions_loop d f ps st1 = Some (r, st')" by simp
    then have "ran_nested st1 (ROk r) st'" by (rule Cons.IH)
    moreover have "ran_nested st True st1"
      using n None by simp
    ultimately show ?thesis
      by (rule nested_trans [rotated])
  next
    case (Some a)
    with g Cons.prems n show ?thesis by auto
  qed
qed

lemma run_preconditions_nested:
  "traced_run f \<Longrightarrow> run_preconditions d f ps st = Some (r, st') \<Longrightarrow> ran_nested st (ROk r) st'"
  by (auto simp: run_preconditions_def nested_refl dest: preconditions_loop_nested split: if_splits)

lemma traced_as_comp:
  assumes "\<And>st r st'. m st = Some (r, st') \<Longrightarrow> ran_nested st (ROk r) st'"
  shows "traced (as_comp m)"
  unfolding traced_def
proof (intro allI impI)
  fix st r st'
  assume "as_comp m st = Some (r, st')"
  then obtain r1 where r: "r = Inr r1" "m st = Some (r1, st')"
    by (auto simp: as_comp_def)
  with assms obtain b where "ran_steps (Suc (RsDepth st)) st b st'" "b \<or> \<not> ROk r1"
    unfolding ran_nested_def by blast
  with r show "\<exists>b. ran_steps (Suc (RsDepth st)) st b st' \<and> (b \<or> bad_result r)"
    by (auto simp: bad_result_def)
qed

lemma traced_context_for: "traced_run f \<Longrightarrow> traced_context (context_for d def f i)"
  by (auto simp: traced_context_def context_for_def intro: traced_as_comp traced_runD run_preconditions_nested)

section \<open>Required flows\<close>

text \<open>A step list run while required flows complete; what is completed only grows.\<close>

definition ran_required :: "'w run_state \<Rightarrow> bool \<Rightarrow> 'w run_state \<Rightarrow> bool" where
  "ran_required st ok st' \<longleftrightarrow>
     RsDepth st' = RsDepth st \<and> RsCallStack st' = RsCallStack st \<and> RsCompletedRequires st \<subseteq> RsCompletedRequires st' \<and>
     (\<exists>b evs. RsEvents st' = RsEvents st @ evs \<and> step_trace (Suc (RsDepth st)) (RsIndex st) b evs (RsIndex st') \<and> (b \<or> \<not> ok))"

lemma nested_required: "ran_nested st ok st' \<Longrightarrow> ran_required st ok st'"
  by (auto simp: ran_nested_def ran_required_def ran_steps_def)

lemma required_refl: "ran_required st ok st"
  by (rule nested_required [OF nested_refl])

lemma required_trans:
  assumes "ran_required st True st1" "ran_required st1 ok st'"
  shows "ran_required st ok st'"
proof -
  obtain evs where evs: "RsEvents st1 = RsEvents st @ evs"
      "step_trace (Suc (RsDepth st)) (RsIndex st) True evs (RsIndex st1)"
      "RsDepth st1 = RsDepth st" "RsCallStack st1 = RsCallStack st" "RsCompletedRequires st \<subseteq> RsCompletedRequires st1"
    using assms(1) by (auto simp: ran_required_def)
  obtain b evs' where evs': "RsEvents st' = RsEvents st1 @ evs'" "b \<or> \<not> ok"
      "step_trace (Suc (RsDepth st1)) (RsIndex st1) b evs' (RsIndex st')"
      "RsDepth st' = RsDepth st1" "RsCallStack st' = RsCallStack st1" "RsCompletedRequires st1 \<subseteq> RsCompletedRequires st'"
    using assms(2) by (auto simp: ran_required_def)
  have "step_trace (Suc (RsDepth st)) (RsIndex st) b (evs @ evs') (RsIndex st')"
    using step_trace_append [OF evs(2)] evs(3) evs'(3) by simp
  with evs evs' show ?thesis
    unfolding ran_required_def by auto
qed

lemma run_one_required_flow_nested:
  assumes f: "traced_run f" and run: "run_one_required_flow d f def t req file st = Some (outcome, st')"
  shows "ran_nested st (outcome = RequiresDone) st'"
proof (cases "\<exists>load reqDef. DepLoad d = Some load \<and>
    load file (environment_from_variables (RsVariables st)) (snd (RsWorld st)) = Inr reqDef")
  case True
  then obtain load reqDef where l: "DepLoad d = Some load"
    "load file (environment_from_variables (RsVariables st)) (snd (RsWorld st)) = Inr reqDef" by blast
  with run obtain r st1 where p: "run_preconditions d f (Preconditions reqDef) st = Some (r, st1)"
    by (auto simp: run_one_required_flow_def Let_def split: option.splits)
  note n1 = run_preconditions_nested [OF f p]
  show ?thesis
  proof (cases "ROk r")
    case False
    with run l p n1 show ?thesis
      by (auto simp: run_one_required_flow_def Let_def)
  next
    case True
    with run l p obtain r2 st2 where s: "f (Steps reqDef) st1 = Some (r2, st2)"
      by (auto simp: run_one_required_flow_def Let_def split: option.splits)
    with True l p run have "st' = st2 \<and> (outcome = RequiresDone) = ROk r2"
      by (auto simp: run_one_required_flow_def Let_def split: if_splits)
    with traced_runD [OF f s] n1 True show ?thesis
      using nested_trans by auto
  qed
next
  case False
  with run show ?thesis
    by (auto simp: run_one_required_flow_def Let_def nested_refl split: option.splits sum.splits)
qed

lemma run_required_flows_ran:
  assumes f: "traced_run f"
  shows "run_required_flows d f def t reqs st = Some (outcome, st') \<Longrightarrow>
    ran_required st (outcome = RequiresDone) st' \<and>
    (outcome = RequiresDone \<longrightarrow> DepAbs d ` set reqs \<subseteq> RsCompletedRequires st')"
proof (induction reqs arbitrary: st)
  case Nil
  then show ?case by (simp add: required_refl)
next
  case (Cons req reqs)
  let ?path = "DepAbs d req"
  show ?case
  proof (cases "?path \<in> RsCompletedRequires st")
    case True
    with Cons show ?thesis
      by (auto simp: Let_def ran_required_def)
  next
    case new: False
    show ?thesis
    proof (cases "?path \<in> RsCallStack st")
      case True
      with new Cons.prems show ?thesis
        by (auto simp: Let_def required_refl)
    next
      case False
      let ?st0 = "st\<lparr>RsCallStack := insert ?path (RsCallStack st)\<rparr>"
      obtain out st1 where one: "run_one_required_flow d f def t req ?path ?st0 = Some (out, st1)"
        using new False Cons.prems by (auto simp: Let_def split: option.splits)
      let ?st2 = "st1\<lparr>RsCallStack := RsCallStack st1 - {?path}\<rparr>"
      let ?st3 = "?st2\<lparr>RsCompletedRequires := insert ?path (RsCompletedRequires ?st2)\<rparr>"
      note n = run_one_required_flow_nested [OF f one]
      then have r2: "ran_required st (out = RequiresDone) ?st2"
        using False by (auto simp: ran_required_def ran_nested_def ran_steps_def)
      show ?thesis
      proof (cases "out = RequiresDone")
        case True
        with new False one Cons.prems have "run_required_flows d f def t reqs ?st3 = Some (outcome, st')"
          by (simp add: Let_def)
        from Cons.IH [OF this] have rest: "ran_required ?st3 (outcome = RequiresDone) st'"
          "outcome = RequiresDone \<longrightarrow> DepAbs d ` set reqs \<subseteq> RsCompletedRequires st'" by auto
        have "ran_required st True ?st3"
          using r2 True by (auto simp: ran_required_def)
        moreover have "?path \<in> RsCompletedRequires st'"
          using rest(1) by (auto simp: ran_required_def)
        ultimately show ?thesis
          using rest required_trans [of st ?st3] by auto
      next
        case False
        with new \<open>?path \<notin> RsCallStack st\<close> one Cons.prems r2 show ?thesis
          by (auto simp: Let_def)
      qed
    qed
  qed
qed

lemma run_one_required_flow_failed:
  "run_one_required_flow d f def t req file st = Some (RequiresFailed res, st') \<Longrightarrow> \<not> ResOk res"
  by (auto simp: run_one_required_flow_def requires_fail_def Let_def split: option.splits sum.splits if_splits)

lemma run_required_flows_failed:
  "run_required_flows d f def t reqs st = Some (RequiresFailed res, st') \<Longrightarrow> \<not> ResOk res"
proof (induction reqs arbitrary: st)
  case (Cons req reqs)
  then show ?case
    by (auto simp: Let_def requires_fail_def split: if_splits option.splits) (blast dest: run_one_required_flow_failed)+
qed simp

section \<open>The main loop\<close>

lemma check_health_frame: "check_health d st = (r, st') \<Longrightarrow> frame st st'"
  by (auto simp: check_health_def frame_def split: prod.splits sum.splits)

lemma after_failure_frame: "after_failure d i sr st = (r, st') \<Longrightarrow> frame st st'"
  unfolding after_failure_def classify_step_failure_def
  by (cases "check_health d st") (auto simp: frame_def dest!: check_health_frame split: if_splits)

lemma pause_frame: "pause_before d def i step st = Some (r, st') \<Longrightarrow> frame st st'"
  unfolding pause_before_def
  by (auto simp: frame_def dest!: orch_call_frame split: option.splits sum.splits)

context traced_commands
begin

lemma run_nested_steps_traced: "traced_run (run_nested_steps n d reg def)"
proof (induction n)
  case 0
  then show ?case by (simp add: traced_run_def)
next
  case (Suc n)
  let ?mk = "context_for d def (run_nested_steps n d reg def)"
  show ?case
    unfolding traced_run_def
  proof (intro allI impI)
    fix steps st r st'
    assume "run_nested_steps (Suc n) d reg def steps st = Some (r, st')"
    then obtain st1 where l: "nested_loop d reg ?mk 0 steps (st\<lparr>RsDepth := RsDepth st + 1\<rparr>) = Some (r, st1)"
      and st': "st' = st1\<lparr>RsDepth := RsDepth st1 - 1\<rparr>"
      by auto
    obtain b where "ran_steps (Suc (RsDepth st)) (st\<lparr>RsDepth := RsDepth st + 1\<rparr>) b st1" "b \<or> \<not> ROk r"
      using nested_loop_ran [OF traced_context_for [OF Suc] l] by auto
    then show "ran_nested st (ROk r) st'"
      by (auto simp: ran_nested_def ran_steps_def st')
  qed
qed

lemma main_loop_ran:
  assumes mk: "\<And>i. traced_context (mk i)"
  shows "main_loop d reg mk def i steps done st = Some (out, st') \<Longrightarrow> RsDepth st = 0 \<Longrightarrow>
    \<exists>b. ran_steps 0 st b st' \<and> (case out of Inl _ \<Rightarrow> b | Inr (_, failedAt, _) \<Rightarrow> b \<or> failedAt \<noteq> None)"
proof (induction steps arbitrary: i "done" st)
  case Nil
  then show ?case
    using ran_refl by fastforce
next
  case (Cons step rest)
  show ?case
  proof (cases "context_error d st \<noteq> None \<or> reg (step_command step) = None")
    case True
    with Cons.prems have "st' = st \<and> (case out of Inl _ \<Rightarrow> True | Inr (_, failedAt, _) \<Rightarrow> True \<or> failedAt \<noteq> None)"
      by (auto split: option.splits sum.split)
    then show ?thesis
      using ran_refl by (intro exI [of _ True]) (auto split: sum.split)
  next
    case False
    then obtain cmd where cmd: "context_error d st = None" "reg (step_command step) = Some cmd"
      by auto
    show ?thesis
    proof (cases "ShouldSkip cmd (mk i) st")
      case True
      with cmd Cons show ?thesis by auto
    next
      case run: False
      then obtain e st1 where p: "pause_before d def i step st = Some (e, st1)"
        using cmd Cons.prems by (auto split: option.splits)
      note fr = pause_frame [OF p]
      show ?thesis
      proof (cases e)
        case (Some msg)
        with cmd run p Cons.prems have "out = Inl msg \<and> st' = st1" by simp
        with frame_ran [OF fr] show ?thesis by auto
      next
        case None
        with cmd run p Cons.prems obtain r1 ms st2 where
          d: "dispatch_step d (\<lambda>_. 0) (line_for_step def i) cmd step (mk i) st1 = Some ((r1, ms), st2)"
          by (auto split: option.splits)
        have "RsDepth st1 = 0"
          using fr Cons.prems(2) by (simp add: frame_def)
        then have ran2: "ran_steps 0 st1 (ROk r1) st2"
          using dispatch_ran [OF cmd(2) mk d] by simp
        then have ran2: "ran_steps 0 st (ROk r1) st2"
          by (rule frame_ran_trans [OF fr])
        show ?thesis
        proof (cases "ROk r1")
          case True
          have "\<exists>done'. main_loop d reg mk def (i + 1) rest done' st2 = Some (out, st')"
            using cmd run p None d True Cons.prems(1) by auto
          then obtain b where b: "ran_steps 0 st2 b st'"
              "case out of Inl _ \<Rightarrow> b | Inr (_, failedAt, _) \<Rightarrow> b \<or> failedAt \<noteq> None"
            using Cons.IH [of _ _ st2] ran_depth [OF ran2] Cons.prems(2) by auto
          with ran2 True show ?thesis
            using ran_trans [of 0 st st2 b st'] by auto
        next
          case False
          with cmd run p None d Cons.prems(1) obtain sr ab where
            "after_failure d i (mk_step_result i step r1 ms) st2 = ((sr, ab), st')" "out = Inr (done @ [sr], Some i, ab)"
            by (auto split: prod.splits)
          note af = this
          have "ran_steps 0 st (ROk r1) st'"
            by (rule ran_frame_trans [OF ran2 after_failure_frame [OF af(1)]])
          with af(2) show ?thesis by auto
        qed
      qed
    qed
  qed
qed

end

section \<open>Whole runs\<close>

text \<open>
  The trace of a whole run: what prepares it, then its steps, which only start when the preparation
  went well.
\<close>

definition run_traced ::
  "('w, 'e) runner_deps \<Rightarrow> script_definition \<Rightarrow> 'w run_state \<Rightarrow> bool \<Rightarrow> 'w run_state \<Rightarrow> bool"
where
  "run_traced d def st ok st' \<longleftrightarrow>
     (\<exists>prep main k j b b'. RsEvents st' = RsEvents st @ prep @ main \<and> step_trace 1 0 b prep k \<and> step_trace 0 k b' main j \<and>
        (if b then True else main = []) \<and> (if ok then b \<and> b' else True)) \<and>
     RsCallStack st' = RsCallStack st \<and> RsCompletedRequires st \<subseteq> RsCompletedRequires st' \<and>
     (if ok then DepAbs d ` set (Requires def) \<subseteq> RsCompletedRequires st' else True)"

lemma prepared_traced:
  assumes "ran_required (fresh_run d def st) ok st'"
  shows "run_traced d def st False st'"
proof -
  obtain b evs where "RsEvents st' = RsEvents st @ evs" "step_trace 1 0 b evs (RsIndex st')" "b \<or> \<not> ok"
    "RsCallStack st' = RsCallStack st" "RsCompletedRequires st \<subseteq> RsCompletedRequires st'"
    using assms by (auto simp: ran_required_def fresh_run_def)
  with step_trace.Nothing [of 0 "RsIndex st'"] show ?thesis
    unfolding run_traced_def by (intro conjI exI [of _ evs] exI [of _ "[]"] exI [of _ "RsIndex st'"] exI [of _ b] exI [of _ True]) auto
qed

lemma main_traced:
  assumes prep: "ran_required (fresh_run d def st) True st1" and steps: "ran_steps 0 st1 b st2" and ok: "\<not> ok \<or> b"
    and req: "DepAbs d ` set (Requires def) \<subseteq> RsCompletedRequires st1"
  shows "run_traced d def st ok st2"
proof -
  obtain evs where evs: "RsEvents st1 = RsEvents st @ evs" "step_trace 1 0 True evs (RsIndex st1)"
    "RsCallStack st1 = RsCallStack st" "RsCompletedRequires st \<subseteq> RsCompletedRequires st1"
    using prep by (auto simp: ran_required_def fresh_run_def)
  obtain main where main: "RsEvents st2 = RsEvents st1 @ main" "step_trace 0 (RsIndex st1) b main (RsIndex st2)"
    "RsCallStack st2 = RsCallStack st1" "RsCompletedRequires st2 = RsCompletedRequires st1"
    using steps by (auto simp: ran_steps_def)
  show ?thesis
    unfolding run_traced_def using evs main ok req
    by (intro conjI exI [of _ evs] exI [of _ main] exI [of _ "RsIndex st1"] exI [of _ "RsIndex st2"] exI [of _ True] exI [of _ b]) auto
qed

lemma run_traced_refl: "run_traced d def st False st"
  unfolding run_traced_def
  by (intro conjI exI [of _ "[]"] exI [of _ "0 :: nat"] exI [of _ True]) (simp_all add: step_trace.Nothing)

context traced_commands
begin

lemma run_ran:
  assumes "run n d reg def st = Some (out, st')"
  shows "run_traced d def st (case out of Inl _ \<Rightarrow> False | Inr res \<Rightarrow> ResOk res) st'"
proof -
  let ?f = "run_nested_steps n d reg def" and ?t = "now_ms d st"
  note f = run_nested_steps_traced [of n d def]
  show ?thesis
  proof (cases "Proxy def = Some ''required'' \<and> DepNoCapture d")
    case True
    with assms have "out = Inr (proxy_refused d def ?t st) \<and> st' = st"
      by (auto simp: run_def Let_def)
    then show ?thesis
      by (simp add: run_traced_refl proxy_refused_def)
  next
    case False
    with assms obtain o1 st1 where r: "run_required_flows d ?f def ?t (Requires def) (fresh_run d def st) = Some (o1, st1)"
      by (auto simp: run_def Let_def split: option.splits)
    then have r1: "ran_required (fresh_run d def st) (o1 = RequiresDone) st1"
      "o1 = RequiresDone \<longrightarrow> DepAbs d ` set (Requires def) \<subseteq> RsCompletedRequires st1"
      using run_required_flows_ran [OF f] by blast+
    show ?thesis
    proof (cases "o1 = RequiresDone")
      case notdone: False
      then have "(case out of Inl _ \<Rightarrow> False | Inr res \<Rightarrow> ResOk res) = False \<and> st' = st1"
        using assms False r by (auto simp: run_def Let_def dest: run_required_flows_failed split: requires_outcome.splits)
      then show ?thesis
        using prepared_traced [OF r1(1)] by simp
    next
      case req: True
      with assms False r obtain p st2 where p: "run_preconditions d ?f (Preconditions def) st1 = Some (p, st2)"
        by (auto simp: run_def Let_def split: option.splits)
      have n: "ran_nested st1 (ROk p) st2"
        by (rule run_preconditions_nested [OF f p])
      then have prep: "ran_required (fresh_run d def st) (ROk p) st2"
        using required_trans [of "fresh_run d def st" st1] r1(1) req nested_required [OF n] by auto
      have completed: "DepAbs d ` set (Requires def) \<subseteq> RsCompletedRequires st2"
        using r1(2) req n by (auto simp: ran_nested_def ran_steps_def)
      show ?thesis
      proof (cases "ROk p")
        case False
        with assms \<open>\<not> (Proxy def = Some ''required'' \<and> DepNoCapture d)\<close> r req p
        have "out = Inr (failed_before_steps d def ?t (RDetail p) st2) \<and> st' = st2"
          by (auto simp add: run_def Let_def)
        then show ?thesis
          using prepared_traced [OF prep] by (simp add: failed_before_steps_def)
      next
        case True
        with assms False r req p obtain mo st3 where
          m: "main_loop d reg (context_for d def ?f) def 0 (Steps def) [] st2 = Some (mo, st3)"
          by (auto simp: run_def Let_def split: option.splits)
        have "RsDepth st2 = 0"
          using prep by (simp add: ran_required_def fresh_run_def)
        then obtain b where b: "ran_steps 0 st2 b st3"
          "case mo of Inl _ \<Rightarrow> b | Inr (_, failedAt, _) \<Rightarrow> b \<or> failedAt \<noteq> None"
          using main_loop_ran [OF traced_context_for [OF f] m] by blast
        have "st' = st3 \<and> (\<not> (case out of Inl _ \<Rightarrow> False | Inr res \<Rightarrow> ResOk res) \<or> b)"
          using assms False r req p True m b(2)
          by (auto simp: run_def Let_def finished_result_def split: sum.splits prod.splits)
        then show ?thesis
          using main_traced [of d def st st2 b st3] prep True b(1) completed by auto
      qed
    qed
  qed
qed

end

section \<open>The built-in commands\<close>

lemma default_traced:
  assumes "default_registry cosine sine d name = Some cmd" and "traced_context ctx"
  shows "traced (Execute cmd step ctx)"
proof -
  have "(name, cmd) \<in> set (default_commands cosine sine d)"
    using assms(1) unfolding default_registry_def by (rule map_of_SomeD)
  then show ?thesis
    using assms(2) unfolding default_commands_def always_run_def
    by (auto simp: quiet_rules traced_quiet traced_handle traced_branch traced_run_flow)
qed

interpretation builtin: traced_commands "default_registry cosine sine d"
  by unfold_locales (rule default_traced)

text \<open>
  C1: the progress events of a run follow their grammar. First come the events of the required flows
  and preconditions, one level deep, then those of the script's own steps at depth zero: every
  start has its completion, with the same index, command, summary and line, around what ran nested
  in it, indices count the starts from zero, and nothing starts after a failure. A result that is
  reported as passed means that no step failed.
\<close>

theorem run_events:
  "case run n d (default_registry cosine sine d) def st of
     None \<Rightarrow> True
   | Some (out, st') \<Rightarrow>
       \<exists>prep main k j b b'.
         RsEvents st' = RsEvents st @ prep @ main \<and> step_trace 1 0 b prep k \<and> step_trace 0 k b' main j \<and>
         (if b then True else main = []) \<and>
         (case out of Inl _ \<Rightarrow> True | Inr res \<Rightarrow> if ResOk res then b \<and> b' else True)"
proof (cases "run n d (default_registry cosine sine d) def st")
  case (Some r)
  then obtain out st' where r: "run n d (default_registry cosine sine d) def st = Some (out, st')"
    by (cases r) auto
  show ?thesis
    using builtin.run_ran [OF r] unfolding r run_traced_def by (cases out) auto
qed simp

text \<open>
  C8: a run stops at the first failure. Its events number the steps 0, 1, 2, ... in the order they
  start, and from the first failed step on only completions of failed steps follow: those of the
  steps it is nested in. A passed result had no failure.
\<close>

theorem run_fails_fast:
  "case run n d (default_registry cosine sine d) def st of
     None \<Rightarrow> True
   | Some (out, st') \<Rightarrow>
       \<exists>good bad j.
         RsEvents st' = RsEvents st @ good @ bad \<and>
         map EvStepIndex (filter is_start (good @ bad)) = [0..<j] \<and>
         \<not> list_ex failure good \<and> list_all failure bad \<and>
         (case out of Inl _ \<Rightarrow> True | Inr res \<Rightarrow> if ResOk res then bad = [] else True)"
proof (cases "run n d (default_registry cosine sine d) def st")
  case (Some r)
  then obtain out st' where r: "run n d (default_registry cosine sine d) def st = Some (out, st')"
    by (cases r) auto
  obtain prep main k j b b' where t: "RsEvents st' = RsEvents st @ prep @ main" "step_trace 1 0 b prep k"
    "step_trace 0 k b' main j" "if b then True else main = []"
    "if (case out of Inl _ \<Rightarrow> False | Inr res \<Rightarrow> ResOk res) then b \<and> b' else True"
    using builtin.run_ran [OF r] unfolding run_traced_def by blast
  obtain g1 b1 where prep: "prep = g1 @ b1" "\<not> list_ex failure g1" "list_all failure b1" "b = (b1 = [])"
    using step_trace_fails_fast [OF t(2)] by blast
  obtain g2 b2 where main: "main = g2 @ b2" "\<not> list_ex failure g2" "list_all failure b2" "b' = (b2 = [])"
    using step_trace_fails_fast [OF t(3)] by blast
  have "0 \<le> k \<and> map EvStepIndex (filter is_start prep) = [0..<k]" "k \<le> j \<and> map EvStepIndex (filter is_start main) = [k..<j]"
    using step_trace_numbers t(2,3) by blast+
  then have "map EvStepIndex (filter is_start (prep @ main)) = [0..<j]"
    using upt_add_eq_append [of 0 k "j - k"] by simp
  moreover obtain good bad where gb: "prep @ main = good @ bad" "\<not> list_ex failure good" "list_all failure bad"
      "(bad = []) = (b \<and> b')"
  proof (cases b)
    case True
    with prep main that [of "prep @ g2" b2] show ?thesis by simp
  next
    case False
    with prep main t(4) that [of g1 b1] show ?thesis by simp
  qed
  ultimately have "RsEvents st' = RsEvents st @ good @ bad \<and> map EvStepIndex (filter is_start (good @ bad)) = [0..<j] \<and>
      \<not> list_ex failure good \<and> list_all failure bad \<and>
      (case out of Inl _ \<Rightarrow> True | Inr res \<Rightarrow> if ResOk res then bad = [] else True)"
    using t(1,5) by (cases out) auto
  then show ?thesis
    unfolding r option.case prod.case by blast
qed simp

text \<open>
  C32: however a run ends, it leaves no flow on the stack that detects circular requirements and
  forgets no completed flow; when it passes, every flow the script requires has been completed.
\<close>

theorem run_required_flows_bookkeeping:
  "case run n d (default_registry cosine sine d) def st of
     None \<Rightarrow> True
   | Some (out, st') \<Rightarrow>
       RsCallStack st' = RsCallStack st \<and> RsCompletedRequires st \<subseteq> RsCompletedRequires st' \<and>
       (case out of
          Inl _ \<Rightarrow> True
        | Inr res \<Rightarrow> if ResOk res then DepAbs d ` set (Requires def) \<subseteq> RsCompletedRequires st' else True)"
proof (cases "run n d (default_registry cosine sine d) def st")
  case (Some r)
  then obtain out st' where r: "run n d (default_registry cosine sine d) def st = Some (out, st')"
    by (cases r) auto
  show ?thesis
    using builtin.run_ran [OF r] unfolding r run_traced_def by (cases out) auto
qed simp

end
