(* ===== verification/Runner_Props.thy ===== *)
theory Runner_Props
  imports Runner_Run_Trace
begin

text \<open>
  Properties of the results of a run, and of preconditions and their setups.
\<close>

section \<open>Consistent results\<close>

text \<open>
  What a reader of a result relies on: the fields agree with one another.
\<close>

definition consistent_result :: "script_result \<Rightarrow> bool" where
  "consistent_result res \<longleftrightarrow>
     ResOk res = (ResFailedAtStep res = None \<and> ResAbort res = None) \<and>
     ResPassedSteps res = length (filter SrOk (ResSteps res)) \<and>
     ResPassedSteps res \<le> ResTotalSteps res \<and>
     sorted_wrt (<) (map SrStepIndex (ResSteps res)) \<and>
     list_all (\<lambda>s. SrStepIndex s < int (ResTotalSteps res)) (ResSteps res) \<and>
     list_all SrOk (if ResFailedAtStep res = None then ResSteps res else butlast (ResSteps res)) \<and>
     (case ResFailedAtStep res of
        None \<Rightarrow> True
      | Some i \<Rightarrow> ResSteps res \<noteq> [] \<and> \<not> SrOk (last (ResSteps res)) \<and>
          SrStepIndex (last (ResSteps res)) = (if SrStepIndex (last (ResSteps res)) < 0 then - 1 else int i)) \<and>
     (case ResAbort res of
        None \<Rightarrow> True
      | Some a \<Rightarrow>
          (case AbortReason a of
             AbortProxyRequired \<Rightarrow> ResSteps res = []
           | AbortDeviceLost \<Rightarrow> ResFailedAtStep res \<noteq> None \<and>
               SrDetail (last (ResSteps res)) = Some (device_lost_detail a)))"

text \<open>The results collected by the main loop before step \<open>i\<close>.\<close>

definition collected :: "nat \<Rightarrow> step_result list \<Rightarrow> bool" where
  "collected i rs \<longleftrightarrow>
     list_all SrOk rs \<and> sorted_wrt (<) (map SrStepIndex rs) \<and> list_all (\<lambda>s. 0 \<le> SrStepIndex s \<and> SrStepIndex s < int i) rs \<and>
     length rs \<le> i"

lemma collected_snoc:
  assumes "collected i rs" "SrStepIndex s = int i"
  shows "sorted_wrt (<) (map SrStepIndex (rs @ [s]))" "SrOk s \<Longrightarrow> collected (Suc i) (rs @ [s])"
  using assms by (auto simp: collected_def sorted_wrt_append list_all_iff)

lemma collected_later: "collected i rs \<Longrightarrow> collected (Suc i) rs"
  by (auto simp: collected_def list_all_iff)

lemma classify_reason:
  "classify_step_failure d st = (Some a, st') \<Longrightarrow> AbortReason a = AbortDeviceLost"
  by (auto simp: classify_step_failure_def split: if_splits prod.splits)

lemma after_failure_result:
  "after_failure d i sr st = ((sr', ab), st') \<Longrightarrow>
     SrOk sr' = SrOk sr \<and> SrStepIndex sr' = SrStepIndex sr \<and>
     (case ab of None \<Rightarrow> True | Some a \<Rightarrow> AbortReason a = AbortDeviceLost \<and> SrDetail sr' = Some (device_lost_detail a))"
  by (auto simp: after_failure_def dest: classify_reason split: prod.splits option.splits)

text \<open>What the main loop hands to the result of the run.\<close>

definition loop_outcome :: "nat \<Rightarrow> step_result list \<Rightarrow> nat option \<Rightarrow> run_abort option \<Rightarrow> bool" where
  "loop_outcome n rs failedAt ab \<longleftrightarrow>
     (case failedAt of
        None \<Rightarrow> collected n rs \<and> ab = None
      | Some i \<Rightarrow> i < n \<and>
          (\<exists>rs0 s. rs = rs0 @ [s] \<and> collected i rs0 \<and> \<not> SrOk s \<and> SrStepIndex s = int i \<and>
             (case ab of None \<Rightarrow> True
              | Some a \<Rightarrow> AbortReason a = AbortDeviceLost \<and> SrDetail s = Some (device_lost_detail a))))"

lemma main_loop_outcome:
  "main_loop d reg mk def i steps rs0 st = Some (Inr (rs, failedAt, ab), st') \<Longrightarrow> collected i rs0 \<Longrightarrow>
    loop_outcome (i + length steps) rs failedAt ab"
proof (induction steps arbitrary: i rs0 st)
  case Nil
  then show ?case by (simp add: loop_outcome_def)
next
  case (Cons step rest)
  have index: "SrStepIndex (mk_step_result i step r ms) = int i" "SrOk (mk_step_result i step r ms) = ROk r" for r ms
    by (simp_all add: mk_step_result_def)
  show ?case
  proof (cases "reg (step_command step)")
    case None
    with Cons.prems have "rs = rs0 @ [mk_step_result i step (fail_result (unknown_command d step)) 0]" "failedAt = Some i" "ab = None"
      by (auto split: option.splits)
    with Cons.prems(2) show ?thesis
      by (auto simp: loop_outcome_def index fail_result_def)
  next
    case (Some cmd)
    with Cons.prems have ctx: "context_error d st = None"
      by (auto split: option.splits)
    show ?thesis
    proof (cases "ShouldSkip cmd (mk i) st")
      case True
      with Some ctx Cons.prems(1) have "main_loop d reg mk def (i + 1) rest rs0 st = Some (Inr (rs, failedAt, ab), st')"
        by simp
      from Cons.IH [OF this] Cons.prems(2) show ?thesis
        by (simp add: collected_later)
    next
      case noskip: False
      with Some ctx Cons.prems(1) obtain st1 where p: "pause_before d def i step st = Some (None, st1)"
        by (auto split: option.splits)
      with Some ctx noskip Cons.prems(1) obtain r ms st2 where
        d: "dispatch_step d (\<lambda>_. 0) (line_for_step def i) cmd step (mk i) st1 = Some ((r, ms), st2)"
        by (auto split: option.splits)
      show ?thesis
      proof (cases "ROk r")
        case True
        with Some ctx noskip p d Cons.prems(1) have
          "main_loop d reg mk def (i + 1) rest (rs0 @ [mk_step_result i step r ms]) st2 = Some (Inr (rs, failedAt, ab), st')"
          by simp
        from Cons.IH [OF this] collected_snoc(2) [OF Cons.prems(2) index(1)] show ?thesis
          by (simp add: index True)
      next
        case False
        with Some ctx noskip p d Cons.prems(1) obtain sr where
          "after_failure d i (mk_step_result i step r ms) st2 = ((sr, ab), st')" "rs = rs0 @ [sr]" "failedAt = Some i"
          by (auto split: prod.splits)
        with after_failure_result [OF this(1)] Cons.prems(2) False show ?thesis
          by (auto simp: loop_outcome_def index)
      qed
    qed
  qed
qed

lemma outcome_consistent:
  assumes "loop_outcome (length (Steps def)) rs failedAt ab"
  shows "consistent_result (finished_result d def t rs failedAt ab st)"
proof (cases failedAt)
  case None
  with assms show ?thesis
    by (auto simp: consistent_result_def finished_result_def loop_outcome_def collected_def list_all_iff
        intro: le_trans [OF length_filter_le])
next
  case (Some i)
  with assms obtain rs0 s where s: "i < length (Steps def)" "rs = rs0 @ [s]" "collected i rs0" "\<not> SrOk s"
    "SrStepIndex s = int i"
    "case ab of None \<Rightarrow> True | Some a \<Rightarrow> AbortReason a = AbortDeviceLost \<and> SrDetail s = Some (device_lost_detail a)"
    by (auto simp: loop_outcome_def)
  have "length (filter SrOk rs0) \<le> length (Steps def)"
    using s(1,3) le_trans [OF length_filter_le [of SrOk rs0], of i] by (simp add: collected_def)
  moreover have "sorted_wrt (<) (map SrStepIndex (rs0 @ [s]))"
    by (rule collected_snoc(1) [OF s(3,5)])
  moreover have "list_all SrOk rs0" "list_all (\<lambda>s. SrStepIndex s < int (length (Steps def))) rs0"
    using s(1,3) by (auto simp: collected_def list_all_iff)
  ultimately show ?thesis
    using s Some by (auto simp: consistent_result_def finished_result_def split: option.splits)
qed

lemma requires_fail_consistent: "consistent_result (requires_fail d def t detail st)"
  by (simp add: consistent_result_def requires_fail_def)

lemma run_one_required_flow_consistent:
  "run_one_required_flow d f def t req file st = Some (RequiresFailed res, st') \<Longrightarrow> consistent_result res"
  by (auto simp: run_one_required_flow_def requires_fail_consistent Let_def split: option.splits sum.splits if_splits)

lemma run_required_flows_consistent:
  "run_required_flows d f def t reqs st = Some (RequiresFailed res, st') \<Longrightarrow> consistent_result res"
proof (induction reqs arbitrary: st)
  case (Cons req reqs)
  then show ?case
    by (auto simp: Let_def requires_fail_consistent split: if_splits option.splits)
      (blast dest: run_one_required_flow_consistent)+
qed simp

text \<open>
  C3: every result a run reports is consistent. It is passed exactly when no step failed and nothing
  aborted it; steps are reported in order, each at most once; all but the failed step passed, the
  failed step is the last one reported and its index is the one named; the count of passed steps is
  right and within the total; a run refused for want of a proxy reports no step; and when the device
  was lost the failed step carries the neutral detail made from the abort.
\<close>

theorem run_result_consistent:
  "case run n d reg def st of
     Some (Inr res, st') \<Rightarrow> consistent_result res
   | _ \<Rightarrow> True"
proof (cases "\<exists>res st'. run n d reg def st = Some (Inr res, st')")
  case True
  then obtain res st' where r: "run n d reg def st = Some (Inr res, st')" by blast
  have refused: "consistent_result (proxy_refused d def t st)" for t st
    by (simp add: consistent_result_def proxy_refused_def)
  have before: "consistent_result (failed_before_steps d def t detail st)" for t detail st
    by (simp add: consistent_result_def failed_before_steps_def)
  have finished: "consistent_result (finished_result d def t rs failedAt ab st2)"
    if "main_loop d reg mk def 0 (Steps def) [] st1 = Some (Inr (rs, failedAt, ab), st2)" for mk t rs failedAt ab st1 st2
    using outcome_consistent main_loop_outcome [OF that] by (simp add: collected_def)
  have "consistent_result res"
    using r refused before
    by (auto simp: run_def Let_def split: if_splits option.splits requires_outcome.splits sum.splits)
      (blast intro: finished run_required_flows_consistent)+
  with r show ?thesis by simp
next
  case False
  then show ?thesis by (auto split: option.split sum.split)
qed

section \<open>Preconditions\<close>

lemma recheck_held:
  "recheck d p st = Some (None, st') \<Longrightarrow> evaluate_check d (Check p) st = Some (Inr True, st')"
  by (auto simp: recheck_def split: option.splits sum.splits if_splits)

lemma setup_then_recheck_held:
  "setup_then_recheck d f p st = Some (None, st') \<Longrightarrow> \<exists>st1. evaluate_check d (Check p) st1 = Some (Inr True, st')"
  by (auto simp: setup_then_recheck_def split: option.splits if_splits) (blast intro: recheck_held)

text \<open>
  A precondition is met only by evidence. Unless its effective policy is to skip it, a
  precondition that lets the run go on has had its check evaluated to true as the last thing
  before, whether or not its setup had to run.
\<close>

theorem precondition_checked:
  "case run_precondition d f p st of
     Some (None, st') \<Rightarrow>
       if resolve_effective_policy (DepOverride d) (Policy p) = ''skip'' then st' = st
       else \<exists>st1. evaluate_check d (Check p) st1 = Some (Inr True, st')
   | _ \<Rightarrow> True"
proof (cases "\<exists>st'. run_precondition d f p st = Some (None, st')")
  case True
  then obtain st' where r: "run_precondition d f p st = Some (None, st')" by blast
  then show ?thesis
    by (auto simp: run_precondition_def Let_def dest: setup_then_recheck_held
        split: option.splits if_splits sum.splits bool.splits)
next
  case False
  then show ?thesis by (auto split: option.split)
qed

text \<open>The keys of completed setups only grow while steps run.\<close>

lemma nested_steps_setups:
  "run_nested_steps n d (default_registry cosine sine d) def steps st = Some (r, st') \<Longrightarrow> RsSetups st \<subseteq> RsSetups st'"
  using traced_runD [OF builtin.run_nested_steps_traced] by (fastforce simp: ran_nested_def ran_steps_def)

text \<open>
  C33: in a run, a setup with a key (one that can be marshalled) that has completed for a precondition whose
  effective policy is to run it always is not run again for such a precondition: whatever steps run in
  between, asking for a setup of the same steps or file, in the same precondition or another, succeeds at
  once and changes nothing, so that the precondition comes down to its check. A precondition that runs its
  setup only when its check fails (\<^verbatim>\<open>ensure\<close>) is not concerned: it does not ask, and runs it again.
\<close>

theorem setup_runs_once:
  "case run_setup_deduped d f p st of
     None \<Rightarrow> True
   | Some (r, st1) \<Rightarrow>
       if ROk r \<and> setup_dedup_key (Setup p) \<noteq> None then
         case run_nested_steps n d (default_registry cosine sine d) def steps st1 of
           None \<Rightarrow> True
         | Some (_, st2) \<Rightarrow>
             (if setup_dedup_key (Setup q) = setup_dedup_key (Setup p) then
                run_setup_deduped d g q st2 = Some (ok_result ''setup already completed this run'', st2) \<and>
                (if resolve_effective_policy (DepOverride d) (Policy q) = ''always'' \<and> context_error d st2 = None
                 then run_precondition d g q st2 = recheck d q st2 else True)
              else True)
       else True"
proof (cases "\<exists>r st1 k. run_setup_deduped d f p st = Some (r, st1) \<and> ROk r \<and> setup_dedup_key (Setup p) = Some k")
  case True
  then obtain r st1 k where r: "run_setup_deduped d f p st = Some (r, st1)" "ROk r" "setup_dedup_key (Setup p) = Some k"
    by blast
  then have k: "k \<in> RsSetups st1"
    by (auto simp: run_setup_deduped_def Let_def split: if_splits option.splits)
  show ?thesis
  proof (cases "run_nested_steps n d (default_registry cosine sine d) def steps st1")
    case (Some out)
    then obtain r2 st2 where out: "run_nested_steps n d (default_registry cosine sine d) def steps st1 = Some (r2, st2)"
      by (cases out) auto
    then have "k \<in> RsSetups st2"
      using nested_steps_setups k by blast
    then have "run_setup_deduped d g q st2 = Some (ok_result ''setup already completed this run'', st2)"
      if "setup_dedup_key (Setup q) = setup_dedup_key (Setup p)"
      using that r by (simp add: run_setup_deduped_def Let_def)
    moreover from this have "run_precondition d g q st2 = recheck d q st2"
      if "setup_dedup_key (Setup q) = setup_dedup_key (Setup p)" "context_error d st2 = None"
        "resolve_effective_policy (DepOverride d) (Policy q) = ''always''"
      using that by (simp add: run_precondition_def setup_then_recheck_def ok_result_def)
    ultimately show ?thesis
      using r out by simp
  qed (use r in simp)
next
  case False
  then show ?thesis by (auto split: option.split)
qed

end
