(* ===== verification/Runner_Nesting.thy ===== *)
theory Runner_Nesting
  imports Runner_Trace
begin

text \<open>
  The bound on the nesting of step lists only decides whether a run is followed to its end, never
  what it does: what a run with a bound gives, it gives with every larger one. The locale states
  what this asks of a command: that it uses the callbacks of its context monotonically and decides
  about skipping without them.
\<close>

section \<open>Computations that follow a run further\<close>

definition follows :: "('s \<Rightarrow> 'r option) \<Rightarrow> ('s \<Rightarrow> 'r option) \<Rightarrow> bool" where
  "follows m m' \<longleftrightarrow> (\<forall>st x. m st = Some x \<longrightarrow> m' st = Some x)"

definition context_follows :: "'s command_context \<Rightarrow> 's command_context \<Rightarrow> bool" where
  "context_follows c c' \<longleftrightarrow>
     CcStepIndex c' = CcStepIndex c \<and> CcScript c' = CcScript c \<and>
     (\<forall>steps. follows (CcRunSteps c steps) (CcRunSteps c' steps)) \<and>
     (\<forall>ps. follows (CcRunPreconditions c ps) (CcRunPreconditions c' ps))"

lemma followsD: "follows m m' \<Longrightarrow> m st = Some x \<Longrightarrow> m' st = Some x"
  by (simp add: follows_def)

named_theorems follows_rules \<open>computations that follow a run further\<close>

lemma follows_refl [follows_rules]: "follows m m"
  by (simp add: follows_def)

lemma follows_bind [follows_rules]:
  assumes m: "follows m m'" and k: "\<And>a. follows (k a) (k' a)"
  shows "follows (comp_bind m k) (comp_bind m' k')"
  unfolding follows_def
proof (intro allI impI)
  fix st x
  assume run: "comp_bind m k st = Some x"
  then obtain r st1 where "m st = Some (r, st1)"
    by (auto simp: comp_bind_def split: option.splits)
  moreover from this have "m' st = Some (r, st1)"
    using m by (simp add: follows_def)
  ultimately show "comp_bind m' k' st = Some x"
    using run followsD [OF k] by (auto simp: comp_bind_def split: sum.splits)
qed

lemma follows_context [follows_rules]:
  "context_follows c c' \<Longrightarrow> follows (CcRunSteps c steps) (CcRunSteps c' steps)"
  "context_follows c c' \<Longrightarrow> follows (CcRunPreconditions c ps) (CcRunPreconditions c' ps)"
  by (simp_all add: context_follows_def)

lemma follows_at: "(\<And>st. \<exists>m m'. follows m m' \<and> f st = m st \<and> g st = m' st) \<Longrightarrow> follows f g"
  unfolding follows_def by metis

lemma follows_resolved [follows_rules]:
  "context_follows c c' \<Longrightarrow> follows (run_resolved d c env sof) (run_resolved d c' env sof)"
  unfolding run_resolved_def by (intro follows_bind follows_refl) (auto intro: follows_rules split: sum.split)

lemma follows_handle [follows_rules]:
  assumes "context_follows c c'"
  shows "follows (execute_handle d step c) (execute_handle d step c')"
proof (cases "\<exists>branches otherwise ms. step = HandleStep branches otherwise ms")
  case True
  then obtain branches otherwise ms where step: "step = HandleStep branches otherwise ms" by blast
  have "follows (comp_bind m (\<lambda>found. case found of Some sof \<Rightarrow> run_resolved d c env sof | None \<Rightarrow> t))
      (comp_bind m (\<lambda>found. case found of Some sof \<Rightarrow> run_resolved d c' env sof | None \<Rightarrow> t))" for m env t
    using assms by (intro follows_bind follows_refl) (auto intro: follows_rules split: option.split)
  then show ?thesis
    by (simp add: step execute_handle_def follows_def Let_def)
next
  case False
  then show ?thesis
    by (cases step) (auto simp: execute_handle_def follows_def)
qed

lemma follows_branch [follows_rules]:
  "context_follows c c' \<Longrightarrow> follows (execute_branch d step c) (execute_branch d step c')"
  using follows_resolved [of c c' d]
  by (auto simp: execute_branch_def follows_def Let_def split: script_step.split option.split)

lemma follows_run_flow [follows_rules]:
  assumes "context_follows c c'"
  shows "follows (execute_run_flow d step c) (execute_run_flow d step c')"
proof -
  have "follows (comp_bind (CcRunPreconditions c ps) (\<lambda>p. if \<not> ROk p then t1 p
        else comp_bind (CcRunSteps c steps) t2))
      (comp_bind (CcRunPreconditions c' ps) (\<lambda>p. if \<not> ROk p then t1 p
        else comp_bind (CcRunSteps c' steps) t2))" for ps steps t1 t2
    using assms by (intro follows_bind follows_context) (auto intro: follows_rules)
  note flow = followsD [OF this]
  show ?thesis
    unfolding follows_def execute_run_flow_def Let_def
    by (auto intro: flow split: script_step.split option.split sum.split load_error.split)
qed

lemma follows_same [follows_rules]:
  assumes "context_follows c c'"
  shows "follows (execute_launch_app d step c) (execute_launch_app d step c')"
    "follows (execute_screenshot d step c) (execute_screenshot d step c')"
    "follows (execute_pointer_step d step c) (execute_pointer_step d step c')"
    "follows (execute_long_press_step d step c) (execute_long_press_step d step c')"
    "follows (execute_pinch_step d step c) (execute_pinch_step d step c')"
    "follows (execute_rotate_step cosine sine d step c) (execute_rotate_step cosine sine d step c')"
proof -
  have "CcStepIndex c' = CcStepIndex c" "CcScript c' = CcScript c"
    using assms by (simp_all add: context_follows_def)
  note same = this
  have "execute_launch_app d step c' = execute_launch_app d step c"
    unfolding execute_launch_app_def same ..
  then show "follows (execute_launch_app d step c) (execute_launch_app d step c')"
    by (simp add: follows_refl)
  have "execute_screenshot d step c' = execute_screenshot d step c"
    unfolding execute_screenshot_def same ..
  then show "follows (execute_screenshot d step c) (execute_screenshot d step c')"
    by (simp add: follows_refl)
  have "execute_pointer_step d step c' = execute_pointer_step d step c"
    unfolding execute_pointer_step_def same ..
  then show "follows (execute_pointer_step d step c) (execute_pointer_step d step c')"
    by (simp add: follows_refl)
  have "execute_long_press_step d step c' = execute_long_press_step d step c"
    unfolding execute_long_press_step_def same ..
  then show "follows (execute_long_press_step d step c) (execute_long_press_step d step c')"
    by (simp add: follows_refl)
  have "execute_pinch_step d step c' = execute_pinch_step d step c"
    unfolding execute_pinch_step_def same ..
  then show "follows (execute_pinch_step d step c) (execute_pinch_step d step c')"
    by (simp add: follows_refl)
  have "execute_rotate_step cosine sine d step c' = execute_rotate_step cosine sine d step c"
    unfolding execute_rotate_step_def same ..
  then show "follows (execute_rotate_step cosine sine d step c) (execute_rotate_step cosine sine d step c')"
    by (simp add: follows_refl)
qed

section \<open>Lists and preconditions\<close>

definition list_follows :: "'w run_list \<Rightarrow> 'w run_list \<Rightarrow> bool" where
  "list_follows f g \<longleftrightarrow> (\<forall>steps. follows (f steps) (g steps))"

lemma list_followsD: "list_follows f g \<Longrightarrow> f steps st = Some x \<Longrightarrow> g steps st = Some x"
  unfolding list_follows_def by (blast dest: followsD)

lemma run_setup_follows: "list_follows f g \<Longrightarrow> follows (run_setup d f p) (run_setup d g p)"
  by (auto simp: follows_def run_setup_def dest: list_followsD split: sum.splits)

lemma run_setup_deduped_follows: "list_follows f g \<Longrightarrow> follows (run_setup_deduped d f p) (run_setup_deduped d g p)"
  using run_setup_follows [of f g d p]
  by (auto simp: follows_def run_setup_deduped_def Let_def split: option.splits prod.splits if_splits)

lemma setup_then_recheck_follows: "follows m m' \<Longrightarrow> follows (setup_then_recheck d m p) (setup_then_recheck d m' p)"
  by (auto simp: follows_def setup_then_recheck_def split: option.splits)

lemma run_precondition_follows:
  assumes "list_follows f g"
  shows "follows (run_precondition d f p) (run_precondition d g p)"
  unfolding follows_def
proof (intro allI impI)
  fix st x
  assume run: "run_precondition d f p st = Some x"
  have "setup_then_recheck d (run_setup d g p) p st = Some x"
    if "setup_then_recheck d (run_setup d f p) p st = Some x" for st
    using that by (rule followsD [OF setup_then_recheck_follows [OF run_setup_follows [OF assms]]])
  moreover have "setup_then_recheck d (run_setup_deduped d g p) p st = Some x"
    if "setup_then_recheck d (run_setup_deduped d f p) p st = Some x" for st
    using that by (rule followsD [OF setup_then_recheck_follows [OF run_setup_deduped_follows [OF assms]]])
  ultimately show "run_precondition d g p st = Some x"
    using run by (auto simp: run_precondition_def Let_def split: option.splits if_splits sum.splits bool.splits)
qed

lemma preconditions_loop_follows:
  assumes "list_follows f g"
  shows "preconditions_loop d f ps st = Some x \<Longrightarrow> preconditions_loop d g ps st = Some x"
proof (induction ps arbitrary: st)
  case (Cons p ps)
  then obtain r st1 where r: "run_precondition d f p st = Some (r, st1)"
    by (auto split: option.splits)
  then have "run_precondition d g p st = Some (r, st1)"
    by (rule followsD [OF run_precondition_follows [OF assms]])
  with r Cons show ?case
    by (auto split: option.splits)
qed simp

lemma run_preconditions_follows:
  "list_follows f g \<Longrightarrow> follows (run_preconditions d f ps) (run_preconditions d g ps)"
  by (auto simp: follows_def run_preconditions_def dest: preconditions_loop_follows)

lemma context_for_follows:
  assumes "list_follows f g"
  shows "context_follows (context_for d def f i) (context_for d def g i)"
proof -
  have comp: "follows (as_comp m) (as_comp m')" if "follows m m'" for m m' :: "'s \<Rightarrow> ('r \<times> 's) option"
    using that by (auto simp: follows_def as_comp_def)
  have "follows (f steps) (g steps)" for steps
    using assms by (simp add: list_follows_def)
  then show ?thesis
    using run_preconditions_follows [OF assms]
    by (auto simp: context_follows_def context_for_def intro: comp)
qed

section \<open>The runner over any registry of such commands\<close>

locale monotone_commands =
  fixes reg :: "'w run_state registry"
  assumes execute_follows:
      "reg name = Some cmd \<Longrightarrow> context_follows c c' \<Longrightarrow> follows (Execute cmd step c) (Execute cmd step c')"
    and skip_same: "reg name = Some cmd \<Longrightarrow> context_follows c c' \<Longrightarrow> ShouldSkip cmd c' st = ShouldSkip cmd c st"
begin

lemma dispatch_follows:
  assumes "reg name = Some cmd" "context_follows c c'" "dispatch_step d depth line cmd step c st = Some x"
  shows "dispatch_step d depth line cmd step c' st = Some x"
proof -
  have "execute cmd step c' st1 = Some y" if "execute cmd step c st1 = Some y" for st1 y
  proof -
    obtain r st2 where "Execute cmd step c st1 = Some (r, st2)"
      using \<open>execute cmd step c st1 = Some y\<close> by (auto simp: execute_def split: option.splits)
    moreover from this have "Execute cmd step c' st1 = Some (r, st2)"
      using execute_follows [OF assms(1,2)] by (simp add: follows_def)
    ultimately show ?thesis
      using that by (simp add: execute_def)
  qed
  with assms(3) show ?thesis
    by (auto simp: dispatch_step_def Let_def split: option.splits)
qed

lemma nested_loop_follows:
  assumes mk: "\<And>i. context_follows (mk i) (mk' i)"
  shows "nested_loop d reg mk i steps st = Some x \<Longrightarrow> nested_loop d reg mk' i steps st = Some x"
proof (induction steps arbitrary: i st)
  case (Cons step rest)
  show ?case
  proof (cases "context_error d st = None \<and> reg (step_command step) \<noteq> None")
    case True
    then obtain cmd where cmd: "context_error d st = None" "reg (step_command step) = Some cmd" by auto
    show ?thesis
    proof (cases "ShouldSkip cmd (mk i) st")
      case True
      with cmd Cons show ?thesis
        by (simp add: skip_same [OF cmd(2) mk])
    next
      case False
      with cmd Cons.prems obtain r ms st1 where "dispatch_step d RsDepth None cmd step (mk i) st = Some ((r, ms), st1)"
        by (auto split: option.splits)
      moreover note dispatch_follows [OF cmd(2) mk this]
      ultimately show ?thesis
        using cmd False Cons by (auto simp: skip_same [OF cmd(2) mk] split: if_splits)
    qed
  next
    case False
    with Cons.prems show ?thesis by (auto split: option.splits)
  qed
qed simp

lemma run_nested_steps_follows:
  "list_follows (run_nested_steps n d reg def) (run_nested_steps (n + k) d reg def)"
proof (induction n)
  case 0
  then show ?case by (simp add: list_follows_def follows_def)
next
  case (Suc n)
  show ?case
    unfolding list_follows_def follows_def
  proof (intro allI impI)
    fix steps st x
    assume "run_nested_steps (Suc n) d reg def steps st = Some x"
    then obtain y where y: "nested_loop d reg (context_for d def (run_nested_steps n d reg def)) 0 steps
        (st\<lparr>RsDepth := RsDepth st + 1\<rparr>) = Some y" "x = (\<lambda>(r, st'). (r, st'\<lparr>RsDepth := RsDepth st' - 1\<rparr>)) y"
      by auto
    from nested_loop_follows [OF context_for_follows [OF Suc] y(1)] y(2)
    show "run_nested_steps (Suc n + k) d reg def steps st = Some x"
      by simp
  qed
qed

lemma main_loop_follows:
  assumes mk: "\<And>i. context_follows (mk i) (mk' i)"
  shows "main_loop d reg mk def i steps rs st = Some x \<Longrightarrow> main_loop d reg mk' def i steps rs st = Some x"
proof (induction steps arbitrary: i rs st)
  case (Cons step rest)
  show ?case
  proof (cases "context_error d st = None \<and> reg (step_command step) \<noteq> None")
    case True
    then obtain cmd where cmd: "context_error d st = None" "reg (step_command step) = Some cmd" by auto
    show ?thesis
    proof (cases "ShouldSkip cmd (mk i) st")
      case True
      with cmd Cons show ?thesis
        by (simp add: skip_same [OF cmd(2) mk])
    next
      case run: False
      with cmd Cons.prems obtain e st1 where p: "pause_before d def i step st = Some (e, st1)"
        by (auto split: option.splits)
      show ?thesis
      proof (cases e)
        case None
        with run cmd p Cons.prems obtain r ms st2 where
          "dispatch_step d (\<lambda>_. 0) (line_for_step def i) cmd step (mk i) st1 = Some ((r, ms), st2)"
          by (auto split: option.splits)
        moreover note dispatch_follows [OF cmd(2) mk this]
        ultimately show ?thesis
          using cmd run p None Cons by (auto simp: skip_same [OF cmd(2) mk] split: if_splits)
      next
        case (Some msg)
        with cmd run p Cons.prems show ?thesis
          by (simp add: skip_same [OF cmd(2) mk])
      qed
    qed
  next
    case False
    with Cons.prems show ?thesis by (auto split: option.splits)
  qed
qed simp

lemma run_one_required_flow_follows:
  assumes "list_follows f g" "run_one_required_flow d f def t req file st = Some x"
  shows "run_one_required_flow d g def t req file st = Some x"
proof -
  have "run_preconditions d g ps st = Some y" if "run_preconditions d f ps st = Some y" for ps st y
    using that by (rule followsD [OF run_preconditions_follows [OF assms(1)]])
  with assms(2) list_followsD [OF assms(1)] show ?thesis
    by (auto simp: run_one_required_flow_def Let_def split: option.splits sum.splits if_splits)
qed

lemma run_required_flows_follows:
  assumes "list_follows f g"
  shows "run_required_flows d f def t reqs st = Some x \<Longrightarrow> run_required_flows d g def t reqs st = Some x"
proof (induction reqs arbitrary: st)
  case (Cons req reqs)
  show ?case
  proof (cases "DepAbs d req \<in> RsCompletedRequires st \<or> DepAbs d req \<in> RsCallStack st")
    case True
    with Cons show ?thesis by (auto simp: Let_def split: if_splits)
  next
    case False
    with Cons.prems obtain o1 st1 where o1: "run_one_required_flow d f def t req (DepAbs d req)
        (st\<lparr>RsCallStack := insert (DepAbs d req) (RsCallStack st)\<rparr>) = Some (o1, st1)"
      by (auto simp: Let_def split: option.splits)
    note run_one_required_flow_follows [OF assms o1]
    with o1 False Cons show ?thesis by (auto simp: Let_def split: if_splits)
  qed
qed simp

lemma run_follows:
  assumes run: "run n d reg def st = Some x"
  shows "run (n + k) d reg def st = Some x"
proof -
  let ?f = "run_nested_steps n d reg def" and ?g = "run_nested_steps (n + k) d reg def"
  note fg = run_nested_steps_follows [of n d def k]
  have main: "main_loop d reg (context_for d def ?g) def i steps rs st = Some y"
    if "main_loop d reg (context_for d def ?f) def i steps rs st = Some y" for i steps rs st y
    by (rule main_loop_follows [OF context_for_follows [OF fg] that])
  have reqs: "run_required_flows d ?g def t reqs st = Some y" if "run_required_flows d ?f def t reqs st = Some y" for t reqs st y
    by (rule run_required_flows_follows [OF fg that])
  have pre: "run_preconditions d ?g ps st = Some y" if "run_preconditions d ?f ps st = Some y" for ps st y
    using that by (rule followsD [OF run_preconditions_follows [OF fg]])
  show ?thesis
  proof (cases "Proxy def = Some ''required'' \<and> DepNoCapture d")
    case True
    with run show ?thesis by (simp add: run_def Let_def)
  next
    case False
    with run obtain o1 st1 where r: "run_required_flows d ?f def (now_ms d st) (Requires def) (fresh_run d def st) = Some (o1, st1)"
      by (auto simp: run_def Let_def split: option.splits)
    note g = reqs [OF r]
    show ?thesis
    proof (cases "o1 = RequiresDone")
      case notdone: False
      with False run r g show ?thesis
        by (cases o1) (auto simp: run_def Let_def)
    next
      case True
      with False run r obtain p st2 where p: "run_preconditions d ?f (Preconditions def) st1 = Some (p, st2)"
        by (auto simp: run_def Let_def split: option.splits)
      note g = g pre [OF p]
      show ?thesis
      proof (cases "ROk p")
        case True
        with \<open>o1 = RequiresDone\<close> False run r p obtain y where
          y: "main_loop d reg (context_for d def ?f) def 0 (Steps def) [] st2 = Some y"
          by (auto simp: run_def Let_def split: option.splits)
        from main [OF y] y True \<open>o1 = RequiresDone\<close> False run r p g show ?thesis
          by (auto simp: run_def Let_def)
      next
        case not_ok: False
        with \<open>o1 = RequiresDone\<close> False run r p g show ?thesis
          by (auto simp: run_def Let_def)
      qed
    qed
  qed
qed

end

section \<open>The built-in commands\<close>

lemma default_monotone:
  assumes "default_registry cosine sine d name = Some cmd" and "context_follows c c'"
  shows "follows (Execute cmd step c) (Execute cmd step c')" "ShouldSkip cmd c' st = ShouldSkip cmd c st"
proof -
  have cmd: "(name, cmd) \<in> set (default_commands cosine sine d)"
    using assms(1) unfolding default_registry_def by (rule map_of_SomeD)
  then show "follows (Execute cmd step c) (Execute cmd step c')"
    using assms(2) unfolding default_commands_def always_run_def by (auto simp: follows_rules)
  show "ShouldSkip cmd c' st = ShouldSkip cmd c st"
    using cmd assms(2) unfolding default_commands_def always_run_def
    by (auto simp: launch_should_skip_def context_follows_def)
qed

interpretation nesting: monotone_commands "default_registry cosine sine d"
  by unfold_locales (rule default_monotone; assumption)+

text \<open>
  The bound on the nesting of step lists does not change a run. A run that ends within a bound
  ends in the same result and the same state with every larger one.
\<close>

theorem run_nesting_bound:
  "case run n d (default_registry cosine sine d) def st of
     None \<Rightarrow> True
   | Some x \<Rightarrow> run (n + k) d (default_registry cosine sine d) def st = Some x"
  by (auto dest: nesting.run_follows split: option.split)

end
