(* ===== verification/Runner_Pointer_Props.thy ===== *)
theory Runner_Pointer_Props
  imports Runner_Pointer
begin

text \<open>
  The gestures that pointer steps are compiled to: a validated list of actions becomes the path of a
  pointer that is put down, moved and lifted again, never jumps when it is lifted or captured, and
  never goes back in time.
\<close>

section \<open>Paths of a pointer\<close>

text \<open>The argument is where the pointer is pressed, when it is.\<close>

fun trajectory :: "point option \<Rightarrow> gesture_waypoint list \<Rightarrow> bool" where
  "trajectory p [] \<longleftrightarrow> p = None"
| "trajectory None (w # ws) \<longleftrightarrow> WPhase w = PhaseDown \<and> trajectory (Some (WPoint w)) ws"
| "trajectory (Some p) (w # ws) \<longleftrightarrow>
     (case WPhase w of
        PhaseDown \<Rightarrow> False
      | PhaseMove \<Rightarrow> trajectory (Some (WPoint w)) ws
      | PhaseCapture \<Rightarrow> WPoint w = p \<and> trajectory (Some p) ws
      | PhaseUp \<Rightarrow> WPoint w = p \<and> trajectory None ws)"

text \<open>Offsets that never decrease.\<close>

fun in_time :: "f64 \<Rightarrow> gesture_waypoint list \<Rightarrow> bool" where
  "in_time t [] \<longleftrightarrow> True"
| "in_time t (w # ws) \<longleftrightarrow> f_le t (WAtOffsetSeconds w) \<and> in_time (WAtOffsetSeconds w) ws"

section \<open>Time\<close>

text \<open>A time of a waypoint: not negative, and a float the machine can hold.\<close>

definition offset_ok :: "f64 \<Rightarrow> bool" where
  "offset_ok t \<longleftrightarrow> f_le (Fin 0) t \<and> wf_f64 t"

lemma offset_ok_0: "offset_ok (Fin 0)"
  by (simp add: offset_ok_def f_le_def)

lemma offset_refl: "offset_ok t \<Longrightarrow> f_le t t"
  by (cases t) (auto simp: offset_ok_def f_le_def)

lemma to_float_ge:
  assumes "0 \<le> x" "x \<le> s" "round64 x = x"
  shows "f_le (Fin x) (to_float False s)"
proof -
  have "x \<le> round64 s"
    using round64_mono [OF assms(2)] assms(3) by simp
  moreover have "0 < pow2 1024"
    by simp
  ultimately show ?thesis
    using assms(1) by (auto simp: to_float_def Let_def f_le_def)
qed

lemma offset_add:
  assumes t: "offset_ok t" and d: "f_le (Fin 0) d"
  shows "f_le t (f_add t d)" "offset_ok (f_add t d)"
proof -
  have "f_le t (f_add t d) \<and> offset_ok (f_add t d)"
  proof (cases "is_finite t \<and> is_finite d")
    case True
    then have nonneg: "0 \<le> fval t" "0 \<le> fval d"
      using t d by (auto simp: offset_ok_def is_finite_cases f_le_def)
    have wf: "round64 (fval t) = fval t"
      using True t by (simp add: wf_round offset_ok_def)
    have add: "f_add t d = (if t = NZero \<and> d = NZero then NZero else to_float False (fval t + fval d))"
      using True nonneg by (auto simp: is_finite_cases Let_def not_less)
    have "f_le (Fin (fval t)) (to_float False (fval t + fval d))" "f_le (Fin 0) (to_float False (fval t + fval d))"
      using to_float_ge [of "fval t" "fval t + fval d"] to_float_ge [of 0 "fval t + fval d"] nonneg wf by simp_all
    moreover have "f_le t x = f_le (Fin (fval t)) x" for x
      using True by (cases x) (auto simp: is_finite_cases f_le_def)
    ultimately show ?thesis
      using add by (auto simp: offset_ok_def wf_to_float f_le_def)
  next
    case False
    with t d show ?thesis
      by (cases t; cases d) (auto simp: offset_ok_def f_le_def is_finite_def)
  qed
  then show "f_le t (f_add t d)" "offset_ok (f_add t d)" by simp_all
qed

lemma ms_to_seconds_nonneg:
  assumes "f_le (Fin 0) ms"
  shows "f_le (Fin 0) (ms_to_seconds ms)"
proof (cases "\<exists>x. ms = Fin x")
  case True
  then obtain x where x: "ms = Fin x" "0 \<le> x"
    using assms by (auto simp: f_le_def)
  then show ?thesis
    using to_float_ge [of 0 "x / 1000"] by (auto simp: ms_to_seconds_def f_div_def is_inf_def Let_def)
next
  case False
  with assms show ?thesis
    by (cases ms) (auto simp: ms_to_seconds_def f_div_def is_inf_def Let_def f_le_def to_float_def signed_inf_def)
qed

section \<open>Compilation\<close>

lemma p_bind_Inr_iff:
  "p_bind m k st = Some (Inr (Inr b), st') \<longleftrightarrow>
     (\<exists>a st1. m st = Some (Inr (Inr a), st1) \<and> k a st1 = Some (Inr (Inr b), st'))"
  by (auto simp: p_bind_def comp_bind_def p_fail_def comp_return_def split: option.splits sum.splits)

lemma p_return_Inr_iff: "p_return a st = Some (Inr (Inr b), st') \<longleftrightarrow> a = b \<and> st = st'"
  by (auto simp: p_return_def comp_return_def)

lemmas compiled_iff = p_bind_Inr_iff p_return_Inr_iff

definition is_capture :: "gesture_waypoint \<Rightarrow> bool" where
  "is_capture w \<longleftrightarrow> WPhase w = PhaseCapture"

text \<open>
  Actions as the normalizer lets them through, with a known type and waits that are numbers, and an
  end with the pointer lifted.
\<close>

definition action_types :: "string set" where
  "action_types = {''down'', ''move'', ''wait'', ''capture'', ''up''}"

definition plain_actions :: "pointer_action list \<Rightarrow> bool" where
  "plain_actions as \<longleftrightarrow> list_all (\<lambda>a. PaType a \<in> action_types \<and> action_ms a \<noteq> NaN) as"

definition ends_up :: "bool \<Rightarrow> pointer_action list \<Rightarrow> bool" where
  "ends_up isDown as \<longleftrightarrow> (if as = [] then \<not> isDown else PaType (List.last as) = ''up'')"

lemma ends_up_Cons: "ends_up isDown (a # as) \<Longrightarrow> (PaType a = ''up'' \<longrightarrow> \<not> isDown') \<Longrightarrow> (PaType a \<noteq> ''up'' \<longrightarrow> isDown') \<Longrightarrow> ends_up isDown' as"
  by (auto simp: ends_up_def split: if_splits)

lemma in_range_ms: "\<not> out_of_range ms n \<Longrightarrow> ms \<noteq> NaN \<Longrightarrow> f_le (Fin 0) ms"
  by (cases ms) (auto simp: out_of_range_def f_le_def)

lemma compile_waypoints_loop_path:
  assumes "compile_waypoints_loop d moveMs t p as st = Some (Inr (Inr ws), st')"
    and "check_sequence i isDown as = None" "ends_up isDown as" "plain_actions as"
    and "isDown \<Longrightarrow> p \<noteq> None" "f_le (Fin 0) moveMs" "offset_ok t"
  shows "trajectory (if isDown then p else None) ws \<and> in_time t ws \<and>
    length (filter is_capture ws) = length (capture_labels k n as)"
  using assms
proof (induction as arbitrary: t p st ws i isDown n)
  case Nil
  then show ?case by (simp add: compiled_iff ends_up_def)
next
  case (Cons a as)
  note numbers = Cons.prems(4)
  have rest_numbers: "plain_actions as"
    using numbers by (simp add: plain_actions_def)
  note pre = Cons.prems
  show ?case
  proof (cases "PaType a = ''down''")
    case down: True
    with pre(2) have seq: "\<not> isDown" "check_sequence (i + 1) True as = None"
      by (auto split: if_splits)
    from pre(1) down obtain q st1 ws1 where q: "compile_waypoints_loop d moveMs t (Some q) as st1 = Some (Inr (Inr ws1), st')"
      "ws = mk_waypoint PhaseDown q t (PaPressure a) # ws1"
      by (auto simp: compiled_iff)
    have "ends_up True as"
      using ends_up_Cons [OF pre(3)] down by simp
    from Cons.IH [OF q(1) seq(2) this rest_numbers _ pre(6,7), of n]
    show ?thesis
      using q(2) seq(1) down by (simp add: mk_waypoint_def is_capture_def pre(7) offset_refl)
  next
    case notdown: False
    show ?thesis
    proof (cases "PaType a = ''move''")
      case move: True
      with pre(2) have seq: "isDown" "check_sequence (i + 1) True as = None"
        by (auto split: if_splits)
      let ?t = "f_add t (ms_to_seconds moveMs)"
      from pre(1) move obtain q st1 ws1 where q: "compile_waypoints_loop d moveMs ?t (Some q) as st1 = Some (Inr (Inr ws1), st')"
        "ws = mk_waypoint PhaseMove q ?t (PaPressure a) # ws1"
        by (auto simp: compiled_iff Let_def)
      note later = offset_add [OF pre(7) ms_to_seconds_nonneg [OF pre(6)]]
      have "ends_up True as"
        using ends_up_Cons [OF pre(3)] move by simp
      from Cons.IH [OF q(1) seq(2) this rest_numbers _ pre(6) later(2), of n]
      show ?thesis
        using q(2) seq(1) move later(1) pre(5) by (auto simp: mk_waypoint_def is_capture_def)
    next
      case notmove: False
      show ?thesis
      proof (cases "PaType a = ''wait''")
        case wait: True
        with pre(2) have seq: "isDown" "\<not> out_of_range (action_ms a) pointer_max_wait_ms" "check_sequence (i + 1) True as = None"
          by (auto split: if_splits)
        let ?t = "f_add t (ms_to_seconds (action_ms a))"
        obtain q where p: "p = Some q"
          using pre(5) seq(1) by auto
        from pre(1) wait p obtain ws1 where q: "compile_waypoints_loop d moveMs ?t (Some q) as st = Some (Inr (Inr ws1), st')"
          "ws = mk_waypoint PhaseMove q ?t None # ws1"
          by (auto simp: compiled_iff Let_def)
        have ms: "f_le (Fin 0) (action_ms a)"
          by (rule in_range_ms [OF seq(2)]) (use numbers in \<open>simp add: plain_actions_def\<close>)
        note later = offset_add [OF pre(7) ms_to_seconds_nonneg [OF ms]]
        have "ends_up True as"
          using ends_up_Cons [OF pre(3)] wait by simp
        from Cons.IH [OF q(1) seq(3) this rest_numbers _ pre(6) later(2), of n]
        show ?thesis
          using q(2) seq(1) p later(1) wait by (auto simp: mk_waypoint_def is_capture_def)
      next
        case notwait: False
        let ?capture = "PaType a = ''capture''"
        have seq: "isDown" "check_sequence (i + 1) (PaType a \<noteq> ''up'') as = None"
          using pre(2) notdown notwait notmove by (auto split: if_splits)
        have kind: "?capture \<or> PaType a = ''up''"
          using numbers notdown notmove notwait by (simp add: plain_actions_def action_types_def)
        obtain q where p: "p = Some q"
          using pre(5) seq(1) by auto
        from pre(1) notdown notwait notmove obtain ws1 where q: "compile_waypoints_loop d moveMs t p as st = Some (Inr (Inr ws1), st')"
          "ws = mk_waypoint (if ?capture then PhaseCapture else PhaseUp) q t None # ws1"
          by (auto simp: compiled_iff p live_point_def)
        have "ends_up (PaType a \<noteq> ''up'') as"
          using ends_up_Cons [OF pre(3)] by simp
        from Cons.IH [OF q(1) seq(2) this rest_numbers _ pre(6,7)]
        show ?thesis
          using q(2) seq(1) p kind by (auto simp: mk_waypoint_def is_capture_def offset_refl pre(7))
      qed
    qed
  qed
qed

text \<open>
  C29: a validated pointer sequence compiles to a proper gesture. Its waypoints put the pointer down,
  move it and lift it again, once or several times, and end with it lifted; a capture or a lift
  happens where the pointer is; offsets start at zero and never decrease; and there is one capture
  waypoint for each label.
\<close>

theorem compiled_gesture_proper:
  "case compile_pointer_waypoints d as moveMs st of
     Some (Inr (Inr ws), st') \<Rightarrow>
       if validate_single_sequence as = None \<and> plain_actions as \<and> f_le (Fin 0) moveMs then
         trajectory None ws \<and> in_time (Fin 0) ws \<and>
         length (filter is_capture ws) = length (pointer_capture_labels as stepIndex)
       else True
   | _ \<Rightarrow> True"
proof (cases "\<exists>ws st'. compile_pointer_waypoints d as moveMs st = Some (Inr (Inr ws), st') \<and>
    validate_single_sequence as = None \<and> plain_actions as \<and> f_le (Fin 0) moveMs")
  case True
  then obtain ws st' where c: "compile_pointer_waypoints d as moveMs st = Some (Inr (Inr ws), st')"
    "validate_single_sequence as = None" "plain_actions as" "f_le (Fin 0) moveMs" by blast
  then have "check_sequence 0 False as = None" "ends_up False as"
    by (auto simp: validate_single_sequence_def ends_up_def split: if_splits)
  from compile_waypoints_loop_path [OF c(1) [unfolded compile_pointer_waypoints_def] this c(3) _ c(4) offset_ok_0]
  show ?thesis
    by (simp add: c(1) pointer_capture_labels_def)
next
  case False
  then show ?thesis
    by (auto split: option.split sum.split)
qed

end
