(* ===== verification/Script_Values.thy ===== *)
theory Script_Values
  imports Runner_Steps
begin

text \<open>
  The dynamic values a script's YAML decodes to, read as maps, lists, numbers and strings
  (\<^verbatim>\<open>core/internal/script/values.go\<close>), and the resolution of \<^verbatim>\<open>${name}\<close> placeholders in them
  (\<^verbatim>\<open>variables.go\<close>). The YAML decoder is third-party code: the functions here take what it yields.
\<close>

section \<open>Mappings\<close>

text \<open>
  A Go map is the list of its entries, whose order stands for the order in which Go iterates over it;
  \<^verbatim>\<open>m[key]\<close> is \<open>nil\<close> for a key that is not there.
\<close>

type_synonym any_map = "(string \<times> any_value) list"

definition get_field :: "any_map \<Rightarrow> string \<Rightarrow> any_value" where
  "get_field m key = (case map_of m key of Some v \<Rightarrow> v | None \<Rightarrow> NilValue)"

definition as_map :: "any_value \<Rightarrow> any_map option" where
  "as_map v = (case v of AnyMap m \<Rightarrow> Some m | AnyOrdered m \<Rightarrow> Some m | _ \<Rightarrow> None)"

text \<open>\<^verbatim>\<open>m, _ := asMap(value)\<close>: a value of another kind reads as the empty map.\<close>

definition map_or_empty :: "any_value \<Rightarrow> any_map" where
  "map_or_empty v = (case as_map v of Some m \<Rightarrow> m | None \<Rightarrow> [])"

definition as_ordered_map :: "any_value \<Rightarrow> any_map option" where
  "as_ordered_map v = (case v of AnyOrdered m \<Rightarrow> Some m | AnyMap m \<Rightarrow> Some (sort_key fst m) | _ \<Rightarrow> None)"

definition as_slice :: "any_value \<Rightarrow> any_value list option" where
  "as_slice v = (case v of AnyArray xs \<Rightarrow> Some xs | _ \<Rightarrow> None)"

definition as_string :: "any_value \<Rightarrow> string option" where
  "as_string v = (case v of AnyString s \<Rightarrow> Some s | _ \<Rightarrow> None)"

section \<open>Numbers\<close>

text \<open>
  \<^verbatim>\<open>n == math.Trunc(n)\<close> holds of the infinities; the integer they convert to is up to the platform.
\<close>

definition is_integral :: "f64 \<Rightarrow> bool" where
  "is_integral f = (case f of Fin x \<Rightarrow> of_int (trunc_rat x) = x | NaN \<Rightarrow> False | _ \<Rightarrow> True)"

definition as_int :: "(f64 \<Rightarrow> int) \<Rightarrow> any_value \<Rightarrow> int option" where
  "as_int wild v =
     (case v of
        AnyInt i \<Rightarrow> Some i
      | AnyNumber f \<Rightarrow> if is_integral f then Some (f_to_int wild f) else None
      | _ \<Rightarrow> None)"

definition as_float :: "any_value \<Rightarrow> f64 option" where
  "as_float v = (case v of AnyInt i \<Rightarrow> Some (f_of_int i) | AnyNumber f \<Rightarrow> Some f | _ \<Rightarrow> None)"

definition as_finite_float :: "any_value \<Rightarrow> f64 option" where
  "as_finite_float v =
     (case as_float v of None \<Rightarrow> None | Some f \<Rightarrow> if is_nan f \<or> is_inf f then None else Some f)"

definition is_js_number :: "any_value \<Rightarrow> bool" where
  "is_js_number v = (case v of AnyInt _ \<Rightarrow> True | AnyNumber _ \<Rightarrow> True | _ \<Rightarrow> False)"

section \<open>Strings\<close>

definition format_js_number :: "f64 \<Rightarrow> string" where
  "format_js_number f =
     (if is_integral f \<and> f_lt (f_abs f) (Fin (10 ^ 15)) then itoa (trunc_rat (fval f)) else show_float f)"

definition js_string :: "any_value \<Rightarrow> string" where
  "js_string v =
     (case v of
        NilValue \<Rightarrow> ''undefined''
      | AnyString s \<Rightarrow> s
      | AnyBool b \<Rightarrow> bool_str b
      | AnyInt i \<Rightarrow> itoa i
      | AnyNumber f \<Rightarrow> format_js_number f
      | _ \<Rightarrow> sprint_v v)"

definition string_or_default :: "any_value \<Rightarrow> string \<Rightarrow> string" where
  "string_or_default v def = (if v = NilValue then def else js_string v)"

text \<open>\<^verbatim>\<open>%T\<close> of the remaining kinds: \<^verbatim>\<open>uint64\<close>, and the sentinel of the runner, which no YAML yields.\<close>

definition type_name :: "any_value \<Rightarrow> string" where
  "type_name v =
     (case v of
        AnyMap _ \<Rightarrow> ''object'' | AnyOrdered _ \<Rightarrow> ''object'' | AnyArray _ \<Rightarrow> ''array'' | AnyString _ \<Rightarrow> ''string''
      | AnyBool _ \<Rightarrow> ''boolean'' | AnyInt _ \<Rightarrow> ''number'' | AnyNumber _ \<Rightarrow> ''number''
      | AnyUint _ \<Rightarrow> ''uint64'' | _ \<Rightarrow> ''*struct {}'')"

definition go_type :: "any_value \<Rightarrow> string" where
  "go_type v = (if v = NilValue then ''undefined'' else type_name v)"

definition zod_received_type :: "any_value \<Rightarrow> string" where
  "zod_received_type v = (if v = NilValue then ''null'' else type_name v)"

section \<open>Placeholders\<close>

text \<open>The pattern \<^verbatim>\<open>\$\{(\w+)\}\<close> at the start of a text: the name in it.\<close>

definition placeholder :: "string \<Rightarrow> string option" where
  "placeholder s =
     (let name = takeWhile is_word_char (drop 2 s) in
      if has_prefix s ''${'' \<and> name \<noteq> [] \<and> has_prefix (drop (2 + length name) s) ''}'' then Some name else None)"

fun resolve_text :: "(string \<rightharpoonup> string) \<Rightarrow> string \<Rightarrow> string" where
  "resolve_text env [] = []"
| "resolve_text env (c # cs) =
     (case placeholder (c # cs) of
        Some name \<Rightarrow>
          (case env name of Some v \<Rightarrow> v | None \<Rightarrow> ''${'' @ name @ ''}'') @ resolve_text env (drop (length name + 2) cs)
      | None \<Rightarrow> c # resolve_text env cs)"

text \<open>\<^verbatim>\<open>resolveVariables\<close>; a plain Go map is left as it is.\<close>

fun resolve_variables :: "(string \<rightharpoonup> string) \<Rightarrow> any_value \<Rightarrow> any_value" where
  "resolve_variables env (AnyString s) = AnyString (resolve_text env s)"
| "resolve_variables env (AnyArray xs) = AnyArray (map (resolve_variables env) xs)"
| "resolve_variables env (AnyOrdered m) = AnyOrdered (map (\<lambda>e. (fst e, resolve_variables env (snd e))) m)"
| "resolve_variables env v = v"

definition coerce_string_record :: "any_value \<Rightarrow> (string \<rightharpoonup> string)" where
  "coerce_string_record raw =
     (case as_map raw of None \<Rightarrow> Map.empty | Some m \<Rightarrow> (\<lambda>key. map_option js_string (map_of m key)))"

section \<open>Facts\<close>

lemma as_map_Some_iff: "as_map v = Some m \<longleftrightarrow> v = AnyMap m \<or> v = AnyOrdered m"
  by (cases v) (auto simp: as_map_def)

lemma as_string_Some_iff [simp]: "as_string v = Some s \<longleftrightarrow> v = AnyString s"
  by (cases v) (auto simp: as_string_def)

lemma as_slice_Some_iff [simp]: "as_slice v = Some xs \<longleftrightarrow> v = AnyArray xs"
  by (cases v) (auto simp: as_slice_def)

lemma get_field_size [termination_simp]:
  assumes "as_map v = Some m"
  shows "size (get_field m key) < size v"
proof (cases "map_of m key")
  case None
  then show ?thesis
    using assms by (auto simp: get_field_def as_map_Some_iff)
next
  case (Some x)
  from entry_size [OF map_of_SomeD [OF Some]] show ?thesis
    using assms Some by (auto simp: get_field_def as_map_Some_iff)
qed

lemma as_finite_float_finite: "as_finite_float v = Some f \<Longrightarrow> is_finite f"
  by (cases f) (auto simp: as_finite_float_def is_finite_def is_nan_def is_inf_def split: option.splits if_splits)

end
