(* ===== verification/Script_Normalize.thy ===== *)
theory Script_Normalize
  imports Script_Values
begin

text \<open>
  The normalizers of the values of a script's steps that contain no steps
  (\<^verbatim>\<open>core/internal/script/normalize_selector.go\<close>, \<^verbatim>\<open>normalize_pointer.go\<close>,
  \<^verbatim>\<open>normalize_gesture_sugar.go\<close>, \<^verbatim>\<open>normalize_step.go\<close>): shorthands are expanded and every field is
  checked, and the first fault ends the normalization with an error.
\<close>

section \<open>Errors and the platform\<close>

text \<open>
  A \<^verbatim>\<open>*ParseError\<close>, or the \<^verbatim>\<open>*extractValuesError\<close> that waits for the index of its step. The platform
  decides which runes outside ASCII are printable and what a float outside the range of \<^verbatim>\<open>int\<close> converts to.
\<close>

datatype norm_error = NormParse string | NormExtract "(string \<times> string) list"

type_synonym 'a normed = "norm_error + 'a"

record script_platform =
  Printable :: "nat \<Rightarrow> bool"
  WildInt :: "f64 \<Rightarrow> int"

definition norm_fail :: "string \<Rightarrow> 'a normed" where
  "norm_fail msg = Inl (NormParse msg)"

lemma norm_fail_neq [simp]: "norm_fail msg \<noteq> Inr x" "(norm_fail msg = Inl e) = (e = NormParse msg)"
  by (auto simp: norm_fail_def)

text \<open>\<^verbatim>\<open>%q\<close> of a string.\<close>

definition quote_on :: "script_platform \<Rightarrow> string \<Rightarrow> string" where
  "quote_on P s = go_quote (Printable P) s"

definition has_key :: "any_map \<Rightarrow> string \<Rightarrow> bool" where
  "has_key m key \<longleftrightarrow> map_of m key \<noteq> None"

text \<open>An optional part: \<^verbatim>\<open>nil\<close> or absent, or a value to normalize.\<close>

definition optional_field :: "any_map \<Rightarrow> string \<Rightarrow> (any_value \<Rightarrow> 'a normed) \<Rightarrow> 'a option normed" where
  "optional_field m key f =
     (if get_field m key = NilValue then Inr None else res_bind (f (get_field m key)) (\<lambda>x. Inr (Some x)))"

lemma optional_field_cong [fundef_cong]:
  "m = m' \<Longrightarrow> key = key' \<Longrightarrow> (\<And>v. v = get_field m' key' \<Longrightarrow> v \<noteq> NilValue \<Longrightarrow> f v = f' v) \<Longrightarrow>
   optional_field m key f = optional_field m' key' f'"
  by (simp add: optional_field_def)

section \<open>Selectors\<close>

definition string_field :: "string \<Rightarrow> any_value \<Rightarrow> (string \<Rightarrow> 'a) \<Rightarrow> 'a normed" where
  "string_field key v f =
     (case as_string v of Some s \<Rightarrow> Inr (f s) | None \<Rightarrow> norm_fail (''selector.'' @ key @ '': expected a string''))"

definition selector_field :: "script_platform \<Rightarrow> script_selector \<Rightarrow> string \<Rightarrow> any_value \<Rightarrow> script_selector normed" where
  "selector_field P sel key v =
     (if key = ''text'' then string_field key v (\<lambda>s. sel\<lparr>ScText := Some s\<rparr>)
      else if key = ''id'' then string_field key v (\<lambda>s. sel\<lparr>ScID := Some s\<rparr>)
      else if key = ''label'' then string_field key v (\<lambda>s. sel\<lparr>ScLabel := Some s\<rparr>)
      else if key = ''hint'' then string_field key v (\<lambda>s. sel\<lparr>ScHint := Some s\<rparr>)
      else if key = ''role'' then string_field key v (\<lambda>s. sel\<lparr>ScRole := Some s\<rparr>)
      else if key = ''nth'' then
        (case as_int (WildInt P) v of
           Some n \<Rightarrow>
             if n < 0 then norm_fail ''selector.nth: expected a nonnegative integer'' else Inr (sel\<lparr>ScNth := Some n\<rparr>)
         | None \<Rightarrow> norm_fail ''selector.nth: expected a nonnegative integer'')
      else norm_fail (''selector: unknown field '' @ quote_on P key))"

fun selector_fields :: "script_platform \<Rightarrow> script_selector \<Rightarrow> any_map \<Rightarrow> script_selector normed" where
  "selector_fields P sel [] = Inr sel"
| "selector_fields P sel ((key, v) # m) = res_bind (selector_field P sel key v) (\<lambda>sel'. selector_fields P sel' m)"

definition selector_fields_from_map :: "script_platform \<Rightarrow> any_map \<Rightarrow> script_selector normed" where
  "selector_fields_from_map P m = selector_fields P no_selector m"

definition expand_selector_shorthand :: "script_platform \<Rightarrow> any_value \<Rightarrow> script_selector normed" where
  "expand_selector_shorthand P v =
     (case as_string v of
        Some s \<Rightarrow> Inr (no_selector\<lparr>ScText := Some s, ScLabel := Some s\<rparr>)
      | None \<Rightarrow>
          (case as_map v of
             None \<Rightarrow> norm_fail (''Invalid selector: expected string or object, got '' @ go_type v)
           | Some m \<Rightarrow>
               res_bind (selector_fields_from_map P m)
                 (\<lambda>sel. Inr (if ScText sel \<noteq> None \<and> ScLabel sel = None then sel\<lparr>ScLabel := ScText sel\<rparr> else sel))))"

text \<open>An integer found under \<^verbatim>\<open>timeout\<close> counts; another value there is ignored.\<close>

definition timeout_field :: "script_platform \<Rightarrow> any_map \<Rightarrow> int option" where
  "timeout_field P m = (case map_of m ''timeout'' of Some v \<Rightarrow> as_int (WildInt P) v | None \<Rightarrow> None)"

definition split_selector_and_timeout ::
  "script_platform \<Rightarrow> any_value \<Rightarrow> (script_selector \<times> int option) normed" where
  "split_selector_and_timeout P v =
     (case as_string v of
        Some s \<Rightarrow> res_bind (expand_selector_shorthand P (AnyString s)) (\<lambda>sel. Inr (sel, None))
      | None \<Rightarrow>
          (case as_map v of
             None \<Rightarrow> norm_fail (''Invalid step value: expected string or object, got '' @ go_type v)
           | Some m \<Rightarrow>
               res_bind (expand_selector_shorthand P (AnyMap (filter (\<lambda>e. fst e \<noteq> ''timeout'') m)))
                 (\<lambda>sel. Inr (sel, timeout_field P m))))"

definition string_or_selector_from_raw :: "script_platform \<Rightarrow> any_value \<Rightarrow> string_or_selector normed" where
  "string_or_selector_from_raw P v =
     (case as_string v of
        Some s \<Rightarrow> Inr \<lparr>SosStr = Some s, SosSelector = None\<rparr>
      | None \<Rightarrow>
          (case as_map v of
             Some m \<Rightarrow>
               res_bind (selector_fields_from_map P m) (\<lambda>sel. Inr \<lparr>SosStr = None, SosSelector = Some sel\<rparr>)
           | None \<Rightarrow> norm_fail (''expected a string or a selector object, got '' @ go_type v)))"

text \<open>The two conditions that \<^verbatim>\<open>normalizeHandleCondition\<close> and \<^verbatim>\<open>normalizePreconditionCheck\<close> read.\<close>

definition condition_fields :: "script_platform \<Rightarrow> any_map \<Rightarrow> condition_pair normed" where
  "condition_fields P m =
     res_bind (optional_field m ''visible'' (string_or_selector_from_raw P)) (\<lambda>shown.
     res_bind (optional_field m ''notVisible'' (string_or_selector_from_raw P)) (\<lambda>hidden.
     Inr \<lparr>CondVisible = shown, CondNotVisible = hidden\<rparr>))"

definition normalize_handle_condition :: "script_platform \<Rightarrow> any_value \<Rightarrow> condition_pair normed" where
  "normalize_handle_condition P raw =
     (case as_map raw of
        None \<Rightarrow>
          if raw = NilValue then norm_fail ''handle: when must be an object''
          else Inr \<lparr>CondVisible = None, CondNotVisible = None\<rparr>
      | Some m \<Rightarrow> condition_fields P m)"

definition normalize_precondition_check :: "script_platform \<Rightarrow> any_value \<Rightarrow> condition_pair normed" where
  "normalize_precondition_check P raw =
     (case as_map raw of
        None \<Rightarrow> norm_fail ''preconditions.check: expected an object''
      | Some m \<Rightarrow> condition_fields P m)"

section \<open>Pointer gestures\<close>

text \<open>\<^verbatim>\<open>f, _ := asFloat(v)\<close>.\<close>

definition float_or_zero :: "any_value \<Rightarrow> f64" where
  "float_or_zero v = (case as_float v of Some f \<Rightarrow> f | None \<Rightarrow> Fin 0)"

definition pointer_anchor_values :: "string list" where
  "pointer_anchor_values =
     [''center'', ''topLeft'', ''topRight'', ''bottomLeft'', ''bottomRight'', ''top'', ''bottom'', ''left'', ''right'']"

definition is_valid_pointer_anchor :: "string \<Rightarrow> bool" where
  "is_valid_pointer_anchor v \<longleftrightarrow> v \<in> set pointer_anchor_values"

definition normalize_pointer_move_duration :: "any_value \<Rightarrow> f64 option normed" where
  "normalize_pointer_move_duration raw =
     (if raw = NilValue then Inr None
      else (case as_float raw of
              None \<Rightarrow> norm_fail (''pointer.moveDurationMs: expected number, got '' @ go_type raw)
            | Some f \<Rightarrow>
                if is_nan f \<or> is_inf f
                then norm_fail (''pointer.moveDurationMs: expected a finite number, got '' @ go_type raw)
                else Inr (Some f)))"

definition finite_field :: "string \<Rightarrow> any_value \<Rightarrow> f64 normed" where
  "finite_field place v =
     (case as_finite_float v of Some f \<Rightarrow> Inr f | None \<Rightarrow> norm_fail (place @ '': expected a finite number''))"

definition at_place :: "string \<Rightarrow> string \<Rightarrow> string" where
  "at_place loc action = loc @ ''.'' @ action"

definition normalize_pointer_offset :: "any_value \<Rightarrow> string \<Rightarrow> string \<Rightarrow> pointer_offset normed" where
  "normalize_pointer_offset raw loc action =
     (case as_map raw of
        None \<Rightarrow> norm_fail (at_place loc action @ ''.offset: expected an object with dx/dy, got '' @ go_type raw)
      | Some m \<Rightarrow>
          (case find (\<lambda>e. fst e \<noteq> ''dx'' \<and> fst e \<noteq> ''dy'') m of
             Some e \<Rightarrow> norm_fail (at_place loc action @ ''.offset.'' @ fst e @ '': unknown offset field'')
           | None \<Rightarrow>
               res_bind (optional_field m ''dx'' (finite_field (at_place loc action @ ''.offset.dx''))) (\<lambda>dx.
               res_bind (optional_field m ''dy'' (finite_field (at_place loc action @ ''.offset.dy''))) (\<lambda>dy.
               Inr \<lparr>OffDx = dx, OffDy = dy\<rparr>))))"

definition normalize_pointer_anchor ::
  "script_platform \<Rightarrow> string \<Rightarrow> string \<Rightarrow> any_value \<Rightarrow> string normed" where
  "normalize_pointer_anchor P loc action raw =
     (case as_string raw of
        None \<Rightarrow> norm_fail (at_place loc action @ ''.anchor: expected a string, got '' @ go_type raw)
      | Some s \<Rightarrow>
          if is_valid_pointer_anchor s then Inr s
          else norm_fail (at_place loc action @ ''.anchor: unknown anchor '' @ quote_on P s))"

definition selector_target :: "script_selector \<Rightarrow> pointer_target" where
  "selector_target sel = \<lparr>TgSelector = Some sel, TgAnchor = None, TgOffset = None, TgPoint = None\<rparr>"

definition point_target :: "f64 \<Rightarrow> f64 \<Rightarrow> pointer_target" where
  "point_target x y =
     \<lparr>TgSelector = None, TgAnchor = None, TgOffset = None, TgPoint = Some \<lparr>X = x, Y = y\<rparr>\<rparr>"

definition normalize_pointer_selector_target ::
  "script_platform \<Rightarrow> any_map \<Rightarrow> string \<Rightarrow> string \<Rightarrow> pointer_target normed" where
  "normalize_pointer_selector_target P m loc action =
     res_bind (expand_selector_shorthand P (get_field m ''selector'')) (\<lambda>sel.
     res_bind (optional_field m ''anchor'' (normalize_pointer_anchor P loc action)) (\<lambda>anchor.
     res_bind (optional_field m ''offset'' (\<lambda>raw. normalize_pointer_offset raw loc action)) (\<lambda>off.
     Inr ((selector_target sel)\<lparr>TgAnchor := anchor, TgOffset := off\<rparr>))))"

definition normalize_pointer_target ::
  "script_platform \<Rightarrow> any_value \<Rightarrow> string \<Rightarrow> string \<Rightarrow> pointer_target normed" where
  "normalize_pointer_target P raw loc action =
     (case as_string raw of
        Some s \<Rightarrow> res_bind (expand_selector_shorthand P (AnyString s)) (\<lambda>sel. Inr (selector_target sel))
      | None \<Rightarrow>
          (case as_map raw of
             None \<Rightarrow> norm_fail (at_place loc action @ '': expected selector or { x, y }, got '' @ go_type raw)
           | Some m \<Rightarrow>
               if is_js_number (get_field m ''x'') \<and> is_js_number (get_field m ''y'') then
                 (let x = float_or_zero (get_field m ''x''); y = float_or_zero (get_field m ''y'') in
                  if is_inf x \<or> is_nan x \<or> is_inf y \<or> is_nan y
                  then norm_fail (at_place loc action @ '': x and y must be finite numbers'')
                  else Inr (point_target x y))
               else if has_key m ''selector'' then normalize_pointer_selector_target P m loc action
               else if has_key m ''anchor'' \<or> has_key m ''offset'' then
                 norm_fail (at_place loc action @ '': `anchor`/`offset` require an explicit `selector:` key'')
               else res_bind (expand_selector_shorthand P (AnyMap m)) (\<lambda>sel. Inr (selector_target sel))))"

definition extract_pressure :: "any_value \<Rightarrow> string \<Rightarrow> string \<Rightarrow> f64 option normed" where
  "extract_pressure raw loc action =
     (case as_map raw of
        None \<Rightarrow> Inr None
      | Some m \<Rightarrow>
          optional_field m ''pressure''
            (\<lambda>v. case as_finite_float v of
                   None \<Rightarrow> norm_fail (at_place loc action @ '': pressure must be a number in [0.0, 1.0]'')
                 | Some f \<Rightarrow>
                     if f_lt f (Fin 0) \<or> f_lt (Fin 1) f
                     then norm_fail (at_place loc action @ '': pressure must be a number in [0.0, 1.0]'')
                     else Inr f))"

definition plain_action :: "string \<Rightarrow> pointer_action" where
  "plain_action kind = \<lparr>PaType = kind, PaTarget = None, PaPressure = None, PaMs = None, PaLabel = None\<rparr>"

definition normalize_touching ::
  "script_platform \<Rightarrow> any_value \<Rightarrow> string \<Rightarrow> string \<Rightarrow> pointer_action normed" where
  "normalize_touching P v loc kind =
     res_bind (normalize_pointer_target P v loc kind) (\<lambda>tg.
     res_bind (extract_pressure v loc kind) (\<lambda>pressure.
     Inr ((plain_action kind)\<lparr>PaTarget := Some tg, PaPressure := pressure\<rparr>)))"

definition normalize_keyed_action ::
  "script_platform \<Rightarrow> string \<Rightarrow> string \<Rightarrow> any_value \<Rightarrow> pointer_action normed" where
  "normalize_keyed_action P loc key v =
     (if key = ''down'' \<or> key = ''move'' then normalize_touching P v loc key
      else if key = ''wait'' then
        (case as_float v of
           None \<Rightarrow> norm_fail (loc @ '': wait expects a number (ms), got '' @ go_type v)
         | Some f \<Rightarrow>
             if is_nan f \<or> is_inf f then norm_fail (loc @ '': wait expects a finite number (ms), got '' @ go_type v)
             else Inr ((plain_action ''wait'')\<lparr>PaMs := Some f\<rparr>))
      else if key = ''up'' then Inr (plain_action ''up'')
      else if key = ''capture'' then
        (if v = NilValue then Inr (plain_action ''capture'')
         else (case as_string v of
                 None \<Rightarrow> norm_fail (loc @ '': capture expects a string label or no value, got '' @ go_type v)
               | Some label \<Rightarrow>
                   if label = [] then norm_fail (loc @ '': capture label must not be empty'')
                   else Inr ((plain_action ''capture'')\<lparr>PaLabel := Some label\<rparr>)))
      else norm_fail (loc @ '': unknown action '' @ quote_on P key @ '' (expected down / move / wait / up / capture)''))"

definition normalize_pointer_action :: "script_platform \<Rightarrow> any_value \<Rightarrow> string \<Rightarrow> pointer_action normed" where
  "normalize_pointer_action P raw loc =
     (case as_string raw of
        Some s \<Rightarrow>
          if s = ''up'' \<or> s = ''capture'' then Inr (plain_action s)
          else norm_fail (loc @ '': bare string must be \"up\" or \"capture\", got '' @ quote_on P s)
      | None \<Rightarrow>
          (case as_map raw of
             None \<Rightarrow> norm_fail (loc @ '': expected string or object, got '' @ go_type raw)
           | Some m \<Rightarrow>
               (case m of
                  [(key, v)] \<Rightarrow> normalize_keyed_action P loc key v
                | _ \<Rightarrow> norm_fail (loc @ '': expected a single-key object, got keys ['' @
                          join_with '', '' (sort_key id (map fst m)) @ '']''))))"

definition indexed_place :: "string \<Rightarrow> nat \<Rightarrow> string" where
  "indexed_place loc i = loc @ ''['' @ utoa i @ '']''"

fun normalize_pointer_actions ::
  "script_platform \<Rightarrow> string \<Rightarrow> nat \<Rightarrow> any_value list \<Rightarrow> pointer_action list normed" where
  "normalize_pointer_actions P loc i [] = Inr []"
| "normalize_pointer_actions P loc i (raw # rest) =
     res_bind (normalize_pointer_action P raw (indexed_place loc i)) (\<lambda>a.
     res_bind (normalize_pointer_actions P loc (i + 1) rest) (\<lambda>as.
     Inr (a # as)))"

definition touch_id :: "string \<Rightarrow> any_map \<Rightarrow> string normed" where
  "touch_id loc m =
     (let raw = get_field m ''id'' in
      if raw = NilValue then Inr []
      else (case as_string raw of
              Some s \<Rightarrow> Inr s
            | None \<Rightarrow> norm_fail (loc @ ''.id: expected a string, got '' @ go_type raw)))"

definition normalize_pointer_touch :: "script_platform \<Rightarrow> string \<Rightarrow> any_value \<Rightarrow> pointer_touch normed" where
  "normalize_pointer_touch P loc entry =
     (case as_map entry of
        None \<Rightarrow> norm_fail (loc @ '': expected an object with `actions` and an optional `id`'')
      | Some m \<Rightarrow>
          res_bind (touch_id loc m) (\<lambda>name.
          (case as_slice (get_field m ''actions'') of
             None \<Rightarrow> norm_fail (loc @ '': missing `actions` array'')
           | Some raws \<Rightarrow>
               res_bind (normalize_pointer_actions P (loc @ ''.actions'') 0 raws) (\<lambda>as.
               Inr \<lparr>PtID = name, PtActions = as\<rparr>))))"

fun normalize_pointer_touches :: "script_platform \<Rightarrow> nat \<Rightarrow> any_value list \<Rightarrow> pointer_touch list normed" where
  "normalize_pointer_touches P i [] = Inr []"
| "normalize_pointer_touches P i (entry # rest) =
     res_bind (normalize_pointer_touch P (indexed_place ''pointer.touches'' i) entry) (\<lambda>t.
     res_bind (normalize_pointer_touches P (i + 1) rest) (\<lambda>ts.
     Inr (t # ts)))"

definition normalize_pointer :: "script_platform \<Rightarrow> any_value \<Rightarrow> script_step normed" where
  "normalize_pointer P v =
     (case as_map v of
        None \<Rightarrow> norm_fail ''pointer: expected an object with a `touches` list''
      | Some m \<Rightarrow>
          (case as_slice (get_field m ''touches'') of
             None \<Rightarrow> norm_fail ''pointer: expected a `touches` list''
           | Some raws \<Rightarrow>
               if raws = [] then norm_fail ''pointer: `touches` must have at least one entry''
               else
                 res_bind (normalize_pointer_move_duration (get_field m ''moveDurationMs'')) (\<lambda>ms.
                 res_bind (normalize_pointer_touches P 0 raws) (\<lambda>ts.
                 Inr (PointerStep ts ms)))))"

section \<open>Gesture sugar\<close>

definition normalize_gesture_location ::
  "script_platform \<Rightarrow> any_map \<Rightarrow> string \<Rightarrow> string \<Rightarrow> pointer_target normed" where
  "normalize_gesture_location P m key cmd =
     (if get_field m key = NilValue then norm_fail (at_place cmd key @ '': required, expected a selector or { x, y }'')
      else normalize_pointer_target P (get_field m key) cmd key)"

definition finite_number :: "string \<Rightarrow> any_value \<Rightarrow> f64 normed" where
  "finite_number place v =
     (case as_finite_float v of
        Some f \<Rightarrow> Inr f
      | None \<Rightarrow> norm_fail (place @ '': expected a finite number, got '' @ go_type v))"

definition normalize_gesture_number :: "any_map \<Rightarrow> string \<Rightarrow> string \<Rightarrow> f64 option normed" where
  "normalize_gesture_number m key cmd = optional_field m key (finite_number (at_place cmd key))"

definition normalize_long_press :: "script_platform \<Rightarrow> any_value \<Rightarrow> script_step normed" where
  "normalize_long_press P v =
     (case as_map v of
        None \<Rightarrow> norm_fail ''longPress: expected an object with `at`''
      | Some m \<Rightarrow>
          res_bind (normalize_gesture_location P m ''at'' ''longPress'') (\<lambda>pos.
          res_bind (normalize_gesture_number m ''holdMs'' ''longPress'') (\<lambda>hold.
          res_bind (optional_field m ''thenSwipeTo''
                      (\<lambda>raw. normalize_pointer_target P raw ''longPress'' ''thenSwipeTo'')) (\<lambda>to.
          Inr (LongPressStep (Some pos) hold to)))))"

definition normalize_axis :: "any_value \<Rightarrow> string normed" where
  "normalize_axis raw =
     (case as_string raw of Some s \<Rightarrow> Inr s | None \<Rightarrow> norm_fail (''pinch.axis: expected a string, got '' @ go_type raw))"

definition normalize_pinch :: "script_platform \<Rightarrow> any_value \<Rightarrow> script_step normed" where
  "normalize_pinch P v =
     (case as_map v of
        None \<Rightarrow> norm_fail ''pinch: expected an object with `center`, `startGap`, and `endGap`''
      | Some m \<Rightarrow>
          res_bind (normalize_gesture_location P m ''center'' ''pinch'') (\<lambda>center.
          res_bind (finite_number ''pinch.startGap'' (get_field m ''startGap'')) (\<lambda>startGap.
          res_bind (finite_number ''pinch.endGap'' (get_field m ''endGap'')) (\<lambda>endGap.
          res_bind (normalize_gesture_number m ''durationMs'' ''pinch'') (\<lambda>ms.
          res_bind (optional_field m ''axis'' normalize_axis) (\<lambda>axis.
          Inr (PinchStep (Some center) startGap endGap ms axis)))))))"

definition normalize_rotate :: "script_platform \<Rightarrow> any_value \<Rightarrow> script_step normed" where
  "normalize_rotate P v =
     (case as_map v of
        None \<Rightarrow> norm_fail ''rotate: expected an object with `center` and `degrees`''
      | Some m \<Rightarrow>
          res_bind (normalize_gesture_location P m ''center'' ''rotate'') (\<lambda>center.
          res_bind (finite_number ''rotate.degrees'' (get_field m ''degrees'')) (\<lambda>degrees.
          res_bind (normalize_gesture_number m ''radius'' ''rotate'') (\<lambda>radius.
          res_bind (normalize_gesture_number m ''durationMs'' ''rotate'') (\<lambda>ms.
          Inr (RotateStep (Some center) degrees radius ms))))))"

end
