(* ===== verification/Script_Normalize_Steps.thy ===== *)
theory Script_Normalize_Steps
  imports Script_Normalize
begin

text \<open>
  The normalizer of each command (\<^verbatim>\<open>core/internal/script/normalize_step.go\<close>), the dispatch of a raw step
  to its normalizer (\<^verbatim>\<open>normalize.go\<close>), and preconditions (\<^verbatim>\<open>normalize_precondition.go\<close>).
\<close>

section \<open>Commands whose value holds no steps\<close>

definition normalize_type :: "script_platform \<Rightarrow> any_value \<Rightarrow> script_step normed" where
  "normalize_type P v =
     (case as_string v of
        Some s \<Rightarrow> Inr (TypeStep s None)
      | None \<Rightarrow>
          (let m = map_or_empty v in
           res_bind (optional_field m ''into'' (expand_selector_shorthand P)) (\<lambda>into.
           Inr (TypeStep (string_or_default (get_field m ''text'') []) into))))"

definition normalize_screenshot :: "any_value \<Rightarrow> script_step normed" where
  "normalize_screenshot v = Inr (ScreenshotStep (as_string v))"

definition normalize_sleep :: "script_platform \<Rightarrow> any_value \<Rightarrow> script_step normed" where
  "normalize_sleep P v =
     (case as_int (WildInt P) v of
        Some n \<Rightarrow>
          if n < 0 then norm_fail (''sleep: ms must be a nonnegative integer, got '' @ itoa n) else Inr (SleepStep n)
      | None \<Rightarrow>
          if is_js_number v then norm_fail (''sleep: ms must be a nonnegative integer, got '' @ js_string v)
          else
            (case atoi (trim_space (js_string v)) of
               Some n \<Rightarrow>
                 if n < 0 then norm_fail (''sleep: ms must be a nonnegative integer, got '' @ quote_on P (js_string v))
                 else Inr (SleepStep n)
             | None \<Rightarrow> norm_fail (''sleep: ms must be a nonnegative integer, got '' @ quote_on P (js_string v))))"

text \<open>
  The pattern \<^verbatim>\<open>^(.+?)\s+as:\s*(\w+)$\<close>: the shortest start, without a line feed, that leaves a text of
  the form the rest of the pattern asks for; \<open>p\<close> is the start tried so far.
\<close>

definition is_re_space :: "char \<Rightarrow> bool" where
  "is_re_space c \<longleftrightarrow> byte_of c \<in> {9, 10, 12, 13, 32}"

definition capture_tail :: "string \<Rightarrow> string option" where
  "capture_tail s =
     (let r = dropWhile is_re_space s; w = dropWhile is_re_space (drop 3 r) in
      if r \<noteq> s \<and> has_prefix r ''as:'' \<and> w \<noteq> [] \<and> list_all is_word_char w then Some w else None)"

fun match_capture :: "string \<Rightarrow> string \<Rightarrow> (string \<times> string) option" where
  "match_capture p [] = None"
| "match_capture p (c # cs) =
     (case if p = [] then None else capture_tail (c # cs) of
        Some w \<Rightarrow> Some (p, w)
      | None \<Rightarrow> if c = newline then None else match_capture (p @ [c]) cs)"

definition normalize_capture :: "script_platform \<Rightarrow> any_value \<Rightarrow> script_step normed" where
  "normalize_capture P v =
     (case as_string v of
        Some s \<Rightarrow>
          (case match_capture [] s of
             None \<Rightarrow>
               norm_fail (''Invalid capture format: '' @ quote_on P s @ ''. Expected: \"METHOD /path as: varName\"'')
           | Some (p, name) \<Rightarrow> Inr (CaptureStep (trim_space p) name))
      | None \<Rightarrow>
          (let m = map_or_empty v; url = get_field m ''url''; pat = get_field m ''pattern'' in
           Inr (CaptureStep (if url \<noteq> NilValue then js_string url else if pat \<noteq> NilValue then js_string pat else [])
                  (string_or_default (get_field m ''as'') []))))"

text \<open>The status and body that \<^verbatim>\<open>normalizeAssertApi\<close> and \<^verbatim>\<open>normalizeBranchMatch\<close> read; others are ignored.\<close>

definition status_field :: "script_platform \<Rightarrow> any_map \<Rightarrow> int option" where
  "status_field P m = (case map_of m ''status'' of Some v \<Rightarrow> as_int (WildInt P) v | None \<Rightarrow> None)"

definition body_field :: "any_map \<Rightarrow> any_map option" where
  "body_field m = (case map_of m ''body'' of Some v \<Rightarrow> as_ordered_map v | None \<Rightarrow> None)"

definition normalize_assert_api :: "script_platform \<Rightarrow> any_value \<Rightarrow> script_step normed" where
  "normalize_assert_api P v =
     (let m = map_or_empty v in
      Inr (AssertApiStep (string_or_default (get_field m ''from'') []) (status_field P m) (body_field m)))"

fun extract_entries :: "any_map \<Rightarrow> (string \<times> string) list \<times> (string \<times> string) list" where
  "extract_entries [] = ([], [])"
| "extract_entries ((key, v) # m) =
     (let (issues, vals) = extract_entries m in
      case as_string v of
        Some s \<Rightarrow> (issues, (key, s) # vals)
      | None \<Rightarrow> ((key, zod_received_type v) # issues, vals))"

definition extract_values :: "any_value \<Rightarrow> (string \<times> string) list normed" where
  "extract_values v =
     (if v = NilValue then Inr []
      else (case as_ordered_map v of
              None \<Rightarrow> norm_fail ''extract.values: expected an object''
            | Some m \<Rightarrow>
                (let (issues, vals) = extract_entries m in
                 if issues \<noteq> [] then Inl (NormExtract issues) else Inr vals)))"

definition normalize_extract :: "any_value \<Rightarrow> script_step normed" where
  "normalize_extract v =
     (let m = map_or_empty v in
      res_bind (extract_values (get_field m ''values'')) (\<lambda>vals.
      Inr (ExtractStep (string_or_default (get_field m ''from'') []) vals)))"

definition render_extract_values_error :: "nat \<Rightarrow> (string \<times> string) list \<Rightarrow> norm_error" where
  "render_extract_values_error i issues =
     NormParse (''Invalid script:'' @ [newline] @
       join_with [newline]
         (map (\<lambda>(key, received).
                 ''  at steps.'' @ utoa i @ ''.values.'' @ key @ '': Expected string, received '' @ received) issues))"

definition optional_js_string :: "any_map \<Rightarrow> string \<Rightarrow> string option" where
  "optional_js_string m key = (if get_field m key = NilValue then None else Some (js_string (get_field m key)))"

definition normalize_read :: "script_platform \<Rightarrow> any_value \<Rightarrow> script_step normed" where
  "normalize_read P v =
     (case as_map v of
        None \<Rightarrow> norm_fail ''read: expected an object with `selector` and `as`''
      | Some m \<Rightarrow>
          res_bind (expand_selector_shorthand P (get_field m ''selector'')) (\<lambda>sel.
          Inr (ReadStep sel
                 (optional_js_string m ''field'')
                 (string_or_default (get_field m ''as'') []))))"

definition normalize_assert_expr :: "any_value \<Rightarrow> script_step normed" where
  "normalize_assert_expr v =
     (case as_map v of
        None \<Rightarrow> norm_fail ''assertExpr: expected an object with `expr`''
      | Some m \<Rightarrow> Inr (AssertExprStep (string_or_default (get_field m ''expr'') [])))"

fun env_entries :: "any_map \<Rightarrow> (string \<times> string) list normed" where
  "env_entries [] = Inr []"
| "env_entries ((key, v) # m) =
     (case as_string v of
        None \<Rightarrow> norm_fail (''runFlow.env.'' @ key @ '': expected a string'')
      | Some s \<Rightarrow> res_bind (env_entries m) (\<lambda>env. Inr ((key, s) # env)))"

definition flow_env_field :: "any_value \<Rightarrow> (string \<times> string) list normed" where
  "flow_env_field v =
     (if v = NilValue then Inr []
      else (case as_map v of None \<Rightarrow> norm_fail ''runFlow.env: expected an object'' | Some m \<Rightarrow> env_entries m))"

definition normalize_run_flow :: "any_value \<Rightarrow> script_step normed" where
  "normalize_run_flow v =
     (case as_string v of
        Some s \<Rightarrow> Inr (RunFlowStep s [])
      | None \<Rightarrow>
          (let m = map_or_empty v in
           res_bind (flow_env_field (get_field m ''env'')) (\<lambda>env.
           Inr (RunFlowStep (string_or_default (get_field m ''file'') []) env))))"

definition with_selector_and_timeout ::
  "script_platform \<Rightarrow> (script_selector \<Rightarrow> int option \<Rightarrow> script_step) \<Rightarrow> any_value \<Rightarrow> script_step normed" where
  "with_selector_and_timeout P step v = res_bind (split_selector_and_timeout P v) (\<lambda>(sel, ms). Inr (step sel ms))"

definition normalize_tap :: "script_platform \<Rightarrow> any_value \<Rightarrow> script_step normed" where
  "normalize_tap P v = res_bind (expand_selector_shorthand P v) (\<lambda>sel. Inr (TapStep sel))"

section \<open>The table of commands\<close>

definition plain_normalizers :: "(string \<times> (script_platform \<Rightarrow> any_value \<Rightarrow> script_step normed)) list" where
  "plain_normalizers =
     [(''launchApp'', \<lambda>P v. Inr LaunchAppStep),
      (''tap'', normalize_tap),
      (''type'', normalize_type),
      (''waitFor'', \<lambda>P. with_selector_and_timeout P WaitForStep),
      (''assertVisible'', \<lambda>P. with_selector_and_timeout P AssertVisibleStep),
      (''assertNotVisible'', \<lambda>P. with_selector_and_timeout P AssertNotVisibleStep),
      (''assertExists'', \<lambda>P. with_selector_and_timeout P AssertExistsStep),
      (''screenshot'', \<lambda>P. normalize_screenshot),
      (''swipe'', \<lambda>P v. Inr (SwipeStep (js_string v))),
      (''pressKey'', \<lambda>P v. Inr (PressKeyStep (js_string v))),
      (''back'', \<lambda>P v. Inr BackStep),
      (''sleep'', normalize_sleep),
      (''capture'', normalize_capture),
      (''assertApi'', normalize_assert_api),
      (''extract'', \<lambda>P. normalize_extract),
      (''read'', normalize_read),
      (''assertExpr'', \<lambda>P. normalize_assert_expr),
      (''runFlow'', \<lambda>P. normalize_run_flow),
      (''pointer'', normalize_pointer),
      (''longPress'', normalize_long_press),
      (''pinch'', normalize_pinch),
      (''rotate'', normalize_rotate)]"

definition step_commands :: "string list" where
  "step_commands = map fst plain_normalizers @ [''handle'', ''branch'']"

text \<open>The key of a raw step that names its command.\<close>

definition first_step_key :: "any_value \<Rightarrow> any_map \<Rightarrow> string" where
  "first_step_key raw m =
     (case raw of
        AnyOrdered om \<Rightarrow> fst (hd om)
      | _ \<Rightarrow>
          if length m = 1 then fst (hd m)
          else
            (let keys = sort_key id (map fst m) in
             case find (\<lambda>k. k \<in> set step_commands) keys of Some k \<Rightarrow> k | None \<Rightarrow> hd keys))"

definition unknown_step :: "script_platform \<Rightarrow> nat \<Rightarrow> string \<Rightarrow> 'a normed" where
  "unknown_step P i cmd = norm_fail (''Step '' @ utoa (i + 1) @ '': unknown command '' @ quote_on P cmd)"

definition rendered_at :: "nat \<Rightarrow> 'a normed \<Rightarrow> 'a normed" where
  "rendered_at i r = (case r of Inl (NormExtract issues) \<Rightarrow> Inl (render_extract_values_error i issues) | _ \<Rightarrow> r)"

lemma rendered_at_cong [fundef_cong]: "i = j \<Longrightarrow> r = r' \<Longrightarrow> rendered_at i r = rendered_at j r'"
  by simp

definition normalize_branch_match :: "script_platform \<Rightarrow> any_value \<Rightarrow> branch_match" where
  "normalize_branch_match P raw =
     \<lparr>MatchStatus = status_field P (map_or_empty raw), MatchBody = body_field (map_or_empty raw)\<rparr>"

text \<open>A branch of a handle step that gives the answer when no other matches, instead of a condition.\<close>

definition otherwise_policy :: "any_value \<Rightarrow> string" where
  "otherwise_policy v = (if as_string v = Some ''skip'' then ''skip'' else ''fail'')"

lemma get_field_empty_size: "size (get_field (map_or_empty v) key) \<le> size v"
  using get_field_size [of v _ key] by (cases "as_map v") (auto simp: map_or_empty_def get_field_def intro: less_imp_le)

lemma get_field_empty_less: "get_field (map_or_empty v) key \<noteq> NilValue \<Longrightarrow> size (get_field (map_or_empty v) key) < size v"
  using get_field_size [of v _ key] by (cases "as_map v") (auto simp: map_or_empty_def get_field_def)

lemma size_slice: "as_slice v = Some xs \<Longrightarrow> size_list size xs < size v"
  by simp

section \<open>Steps\<close>

text \<open>
  \<^verbatim>\<open>normalizeStep\<close>, \<^verbatim>\<open>normalizeDoValue\<close> with its loop, \<^verbatim>\<open>normalizeHandle\<close> with its loop, whose last two
  arguments are the branches and the policy found so far, and \<^verbatim>\<open>normalizeBranch\<close> with its loop.
\<close>

function normalize_step :: "script_platform \<Rightarrow> any_value \<Rightarrow> nat \<Rightarrow> script_step normed"
  and normalize_command :: "script_platform \<Rightarrow> string \<Rightarrow> any_value \<Rightarrow> script_step normed"
  and normalize_do_value :: "script_platform \<Rightarrow> any_value \<Rightarrow> steps_or_file normed"
  and normalize_do_steps :: "script_platform \<Rightarrow> nat \<Rightarrow> any_value list \<Rightarrow> script_step list normed"
  and normalize_handle ::
    "script_platform \<Rightarrow> any_value list \<Rightarrow> (condition_pair \<times> steps_or_file) list \<Rightarrow> string option \<Rightarrow> script_step normed"
  and normalize_cases :: "script_platform \<Rightarrow> any_value list \<Rightarrow> (branch_match \<times> steps_or_file) list normed"
where
  "normalize_step P raw i =
     (case as_string raw of
        Some s \<Rightarrow> if s \<in> set step_commands then normalize_command P s NilValue else unknown_step P i s
      | None \<Rightarrow>
          (case as_map raw of
             None \<Rightarrow> norm_fail (''Step '' @ utoa (i + 1) @ '': expected string or object, got '' @ go_type raw)
           | Some m \<Rightarrow>
               if m = [] then norm_fail (''Step '' @ utoa (i + 1) @ '': empty step object'')
               else
                 (let cmd = first_step_key raw m in
                  if cmd \<in> set step_commands then rendered_at i (normalize_command P cmd (get_field m cmd))
                  else unknown_step P i cmd)))"
| "normalize_command P cmd v =
     (if cmd = ''handle'' then
        (case as_slice v of
           None \<Rightarrow> norm_fail ''handle: expected an array of branches''
         | Some raws \<Rightarrow> normalize_handle P raws [] None)
      else if cmd = ''branch'' then
        (let m = map_or_empty v; from = string_or_default (get_field m ''from'') [] in
         res_bind
           (if has_key m ''on'' then
              (case as_slice (get_field m ''on'') of
                 None \<Rightarrow> norm_fail ''branch.on: expected an array''
               | Some raws \<Rightarrow> normalize_cases P raws)
            else Inr []) (\<lambda>on.
         res_bind (optional_field m ''default'' (normalize_do_value P)) (\<lambda>fallback.
         Inr (BranchStep from on fallback))))
      else (case map_of plain_normalizers cmd of
              Some f \<Rightarrow> f P v
            | None \<Rightarrow> norm_fail []))"
| "normalize_do_value P raw =
     (case as_string raw of
        Some s \<Rightarrow> Inr (StepsFile s)
      | None \<Rightarrow>
          (case as_slice raw of
             None \<Rightarrow> norm_fail ''expected a step list or a file path string''
           | Some raws \<Rightarrow> res_bind (normalize_do_steps P 0 raws) (\<lambda>steps. Inr (InlineSteps steps))))"
| "normalize_do_steps P i [] = Inr []"
| "normalize_do_steps P i (raw # rest) =
     res_bind (normalize_step P raw i) (\<lambda>step.
     res_bind (normalize_do_steps P (i + 1) rest) (\<lambda>steps.
     Inr (step # steps)))"
| "normalize_handle P [] branches otherwise = Inr (HandleStep branches otherwise None)"
| "normalize_handle P (raw # rest) branches otherwise =
     (case as_map raw of
        None \<Rightarrow> norm_fail ''handle: expected each branch to be an object''
      | Some entry \<Rightarrow>
          if has_key entry ''otherwise'' then
            normalize_handle P rest branches (Some (otherwise_policy (get_field entry ''otherwise'')))
          else if has_key entry ''when'' \<and> has_key entry ''do'' then
            res_bind (normalize_handle_condition P (get_field entry ''when'')) (\<lambda>cond.
            res_bind (normalize_do_value P (get_field entry ''do'')) (\<lambda>body.
            normalize_handle P rest (branches @ [(cond, body)]) otherwise))
          else normalize_handle P rest branches otherwise)"
| "normalize_cases P [] = Inr []"
| "normalize_cases P (raw # rest) =
     (let m = map_or_empty raw in
      res_bind (if has_key m ''do'' then normalize_do_value P (get_field m ''do'') else Inr (InlineSteps [])) (\<lambda>body.
      res_bind (normalize_cases P rest) (\<lambda>on.
      Inr ((normalize_branch_match P (get_field m ''match''), body) # on))))"
  by pat_completeness auto

termination
proof (relation "measure (case_sum
    (case_sum (\<lambda>(P, raw, i). 3 * size raw + 2)
      (case_sum (\<lambda>(P, cmd, v). 3 * size v) (\<lambda>(P, raw). 3 * size raw + 1)))
    (case_sum (\<lambda>(P, i, raws). 3 * size_list size raws)
      (case_sum (\<lambda>(P, raws, branches, otherwise). 3 * size_list size raws) (\<lambda>(P, raws). 3 * size_list size raws))))", goal_cases)
  case (2 P raw i m cmd)
  then show ?case using get_field_size [of raw m cmd] by simp
next
  case (5 P cmd v m source raws)
  then show ?case using get_field_empty_size [of v "''on''"] by simp
next
  case (6 P cmd v m source on w)
  then show ?case using get_field_empty_less [of v "''default''"] by simp
next
  case (11 P raw rest branches otherwise entry cond)
  then show ?case using get_field_size [of raw entry "''do''"] by simp
next
  case (14 P raw rest m)
  then show ?case using get_field_empty_size [of raw "''do''"] by simp
qed simp_all

declare normalize_step.simps [simp del] normalize_command.simps [simp del] normalize_do_value.simps [simp del]

section \<open>Preconditions\<close>

definition normalize_precondition_setup :: "script_platform \<Rightarrow> any_value \<Rightarrow> precondition normed" where
  "normalize_precondition_setup P raw =
     (case as_map raw of
        None \<Rightarrow> norm_fail ''preconditions: expected an object with `check` and `setup`''
      | Some m \<Rightarrow>
          res_bind (normalize_precondition_check P (get_field m ''check'')) (\<lambda>chk.
          res_bind (normalize_do_value P (get_field m ''setup'')) (\<lambda>prep.
          Inr \<lparr>Check = chk, Setup = prep, Policy = optional_js_string m ''policy''\<rparr>)))"

end
