(* ===== verification/Script_Validate.thy ===== *)
theory Script_Validate
  imports Script_Normalize_Steps Runner_Commands
begin

text \<open>
  The validator of a parsed script (\<^verbatim>\<open>core/internal/script/validate.go\<close>): one message per violation of a
  rule, in the order the code reports them. The \<^verbatim>\<open>report\<close> callback becomes the list of its messages.
\<close>

section \<open>Reports\<close>

type_synonym messages = "string list"

definition report_if :: "bool \<Rightarrow> string \<Rightarrow> messages" where
  "report_if bad msg = (if bad then [msg] else [])"

lemma report_if_Nil [simp]: "report_if bad msg = [] \<longleftrightarrow> \<not> bad"
  by (simp add: report_if_def)

text \<open>A rule for a value that may be absent.\<close>

definition report_opt :: "'a option \<Rightarrow> ('a \<Rightarrow> bool) \<Rightarrow> ('a \<Rightarrow> string) \<Rightarrow> messages" where
  "report_opt v bad msg = (case v of None \<Rightarrow> [] | Some x \<Rightarrow> report_if (bad x) (msg x))"

lemma report_opt_Nil [simp]: "report_opt v bad msg = [] \<longleftrightarrow> pred_option (\<lambda>x. \<not> bad x) v"
  by (simp add: report_opt_def split: option.split)

definition report_each :: "('a \<Rightarrow> string \<Rightarrow> messages) \<Rightarrow> string \<Rightarrow> 'a list \<Rightarrow> messages" where
  "report_each f loc xs = concat (map (\<lambda>(i, x). f x (indexed_place loc i)) (enumerate 0 xs))"

lemma report_each_cong [fundef_cong]:
  "loc = loc' \<Longrightarrow> xs = xs' \<Longrightarrow> (\<And>x place. x \<in> set xs' \<Longrightarrow> f x place = f' x place) \<Longrightarrow>
   report_each f loc xs = report_each f' loc' xs'"
  by (auto simp: report_each_def in_set_enumerate_eq intro!: arg_cong [of _ _ concat])

lemma all_enumerate: "(\<forall>e\<in>set (enumerate n xs). Q e) \<longleftrightarrow> (\<forall>i<length xs. Q (n + i, xs ! i))"
  by (induction xs arbitrary: n) (auto simp: less_Suc_eq_0_disj)

lemma report_each_Nil:
  assumes "\<And>x place. x \<in> set xs \<Longrightarrow> f x place = [] \<longleftrightarrow> ok x"
  shows "report_each f loc xs = [] \<longleftrightarrow> list_all ok xs"
proof -
  have "report_each f loc xs = [] \<longleftrightarrow> (\<forall>i<length xs. f (xs ! i) (indexed_place loc i) = [])"
    using all_enumerate [of 0 xs "\<lambda>e. (case e of (i, x) \<Rightarrow> f x (indexed_place loc i)) = []"]
    by (simp only: report_each_def concat_eq_Nil_conv set_map ball_simps) simp
  then show ?thesis
    using assms by (simp add: list_all_length)
qed

section \<open>Selectors and conditions\<close>

definition validate_selector :: "script_selector \<Rightarrow> string \<Rightarrow> messages" where
  "validate_selector sel loc = report_opt (ScNth sel) (\<lambda>n. n < 0) (\<lambda>_. loc @ ''.nth: must be nonnegative'')"

definition validate_optional :: "('a \<Rightarrow> string \<Rightarrow> messages) \<Rightarrow> 'a option \<Rightarrow> string \<Rightarrow> messages" where
  "validate_optional f v loc = (case v of None \<Rightarrow> [] | Some x \<Rightarrow> f x loc)"

lemma validate_optional_cong [fundef_cong]:
  "v = v' \<Longrightarrow> loc = loc' \<Longrightarrow> (\<And>x place. v' = Some x \<Longrightarrow> f x place = f' x place) \<Longrightarrow>
   validate_optional f v loc = validate_optional f' v' loc'"
  by (auto simp: validate_optional_def split: option.split)

lemma validate_optional_Nil: "validate_optional f v loc = [] \<longleftrightarrow> pred_option (\<lambda>x. f x loc = []) v"
  by (simp add: validate_optional_def split: option.split)

definition validate_string_or_selector :: "string_or_selector \<Rightarrow> string \<Rightarrow> messages" where
  "validate_string_or_selector v loc = validate_optional validate_selector (SosSelector v) loc"

definition validate_precondition_check :: "condition_pair \<Rightarrow> string \<Rightarrow> messages" where
  "validate_precondition_check chk loc =
     report_if ((CondVisible chk \<noteq> None) = (CondNotVisible chk \<noteq> None))
       (loc @ '': exactly one of `visible` or `notVisible` must be set, not zero and not both'') @
     validate_optional validate_string_or_selector (CondVisible chk) (loc @ ''.visible'') @
     validate_optional validate_string_or_selector (CondNotVisible chk) (loc @ ''.notVisible'')"

definition is_capture_var :: "string \<Rightarrow> bool" where
  "is_capture_var name \<longleftrightarrow> name \<noteq> [] \<and> list_all is_word_char name \<and> \<not> is_dec (hd name)"

definition validate_capture_var :: "script_platform \<Rightarrow> string \<Rightarrow> string \<Rightarrow> messages" where
  "validate_capture_var P name loc =
     report_if (\<not> is_capture_var name)
       (loc @ '': variable names must match /^[A-Za-z_][A-Za-z0-9_]*$/, got '' @ quote_on P name)"

definition validate_timeout_ms :: "int option \<Rightarrow> string \<Rightarrow> messages" where
  "validate_timeout_ms ms loc = report_opt ms (\<lambda>n. n < 0) (\<lambda>_. loc @ ''.timeoutMs: must be nonnegative'')"

definition validate_status :: "int option \<Rightarrow> string \<Rightarrow> messages" where
  "validate_status status loc =
     report_opt status (\<lambda>n. n < 100 \<or> 599 < n) (\<lambda>_. loc @ ''.status: must be between 100 and 599'')"

section \<open>Pointer gestures\<close>

definition validate_pointer_target :: "script_platform \<Rightarrow> pointer_target \<Rightarrow> string \<Rightarrow> messages" where
  "validate_pointer_target P t loc =
     (if (TgSelector t \<noteq> None) = (TgPoint t \<noteq> None)
      then [loc @ '': exactly one of `selector` or `point` must be set'']
      else (case TgSelector t of
              None \<Rightarrow> []
            | Some sel \<Rightarrow>
                validate_selector sel (loc @ ''.selector'') @
                report_opt (TgAnchor t) (\<lambda>a. \<not> is_valid_pointer_anchor a)
                  (\<lambda>a. loc @ ''.anchor: unknown anchor '' @ quote_on P a)))"

definition validate_pointer_action :: "script_platform \<Rightarrow> pointer_action \<Rightarrow> string \<Rightarrow> messages" where
  "validate_pointer_action P a loc =
     (if PaType a = ''down'' \<or> PaType a = ''move'' then
        (case PaTarget a of
           None \<Rightarrow> [loc @ ''.target: required'']
         | Some t \<Rightarrow>
             validate_pointer_target P t (loc @ ''.target'') @
             report_opt (PaPressure a) (\<lambda>p. f_lt p (Fin 0) \<or> f_lt (Fin 1) p)
               (\<lambda>_. loc @ ''.pressure: must be between 0 and 1''))
      else if PaType a = ''wait'' then
        report_if (case PaMs a of None \<Rightarrow> True | Some ms \<Rightarrow> f_lt ms (Fin 0)) (loc @ ''.ms: must be a nonnegative number'')
      else if PaType a = ''up'' \<or> PaType a = ''capture'' then []
      else [loc @ ''.type: unknown pointer action '' @ quote_on P (PaType a)])"

definition validate_touch :: "script_platform \<Rightarrow> pointer_touch \<Rightarrow> string \<Rightarrow> messages" where
  "validate_touch P t loc =
     report_if (PtActions t = []) (loc @ ''.actions: must have at least one action'') @
     report_each (validate_pointer_action P) (loc @ ''.actions'') (PtActions t)"

definition validate_duration :: "f64 option \<Rightarrow> string \<Rightarrow> messages" where
  "validate_duration ms loc = report_opt ms (\<lambda>f. f_lt f (Fin 0)) (\<lambda>_. loc @ '': must be nonnegative'')"

definition validate_pointer_step ::
  "script_platform \<Rightarrow> pointer_touch list \<Rightarrow> f64 option \<Rightarrow> string \<Rightarrow> messages" where
  "validate_pointer_step P touches ms loc =
     report_if (touches = []) (loc @ ''.touches: must have at least one entry'') @
     report_each (validate_touch P) (loc @ ''.touches'') touches @
     (if 1 < length touches then
        report_each
          (\<lambda>t place. report_if (PtID t = []) (place @ ''.id: must not be empty in a multi-pointer gesture''))
          (loc @ ''.touches'') touches
      else []) @
     validate_duration ms (loc @ ''.moveDurationMs'')"

definition validate_gesture_location :: "script_platform \<Rightarrow> pointer_target option \<Rightarrow> string \<Rightarrow> messages" where
  "validate_gesture_location P t loc =
     (case t of None \<Rightarrow> [loc @ '': required''] | Some tg \<Rightarrow> validate_pointer_target P tg loc)"

definition validate_long_press_step ::
  "script_platform \<Rightarrow> pointer_target option \<Rightarrow> f64 option \<Rightarrow> pointer_target option \<Rightarrow> string \<Rightarrow> messages" where
  "validate_long_press_step P pos hold to loc =
     validate_gesture_location P pos (loc @ ''.at'') @
     validate_duration hold (loc @ ''.holdMs'') @
     validate_optional (validate_pointer_target P) to (loc @ ''.thenSwipeTo'')"

definition is_valid_pinch_axis :: "string \<Rightarrow> bool" where
  "is_valid_pinch_axis v \<longleftrightarrow> v \<in> {''vertical'', ''horizontal''}"

definition validate_pinch_step ::
  "script_platform \<Rightarrow> pointer_target option \<Rightarrow> f64 \<Rightarrow> f64 \<Rightarrow> f64 option \<Rightarrow> string option \<Rightarrow> string \<Rightarrow> messages" where
  "validate_pinch_step P center startGap endGap ms axis loc =
     validate_gesture_location P center (loc @ ''.center'') @
     report_if (f_lt startGap (Fin 0)) (loc @ ''.startGap: must be nonnegative'') @
     report_if (f_lt endGap (Fin 0)) (loc @ ''.endGap: must be nonnegative'') @
     report_if (f_eq startGap endGap) (loc @ '': startGap and endGap must differ'') @
     validate_duration ms (loc @ ''.durationMs'') @
     report_opt axis (\<lambda>a. \<not> is_valid_pinch_axis a)
       (\<lambda>a. loc @ ''.axis: must be one of vertical/horizontal, got '' @ quote_on P a)"

definition validate_rotate_step ::
  "script_platform \<Rightarrow> pointer_target option \<Rightarrow> f64 \<Rightarrow> f64 option \<Rightarrow> f64 option \<Rightarrow> string \<Rightarrow> messages" where
  "validate_rotate_step P center degrees radius ms loc =
     validate_gesture_location P center (loc @ ''.center'') @
     report_if (f_eq degrees (Fin 0)) (loc @ ''.degrees: must be nonzero'') @
     report_opt radius (\<lambda>r. f_le r (Fin 0)) (\<lambda>_. loc @ ''.radius: must be positive'') @
     validate_duration ms (loc @ ''.durationMs'')"

section \<open>Steps\<close>

definition read_state_fields :: "string list" where
  "read_state_fields = [''clickable'', ''enabled'', ''focused'', ''selected'', ''checked'', ''visible'']"

definition is_valid_read_field :: "string \<Rightarrow> bool" where
  "is_valid_read_field v \<longleftrightarrow> v \<in> set read_attribute_fields \<or> v \<in> set read_state_fields"

definition swipe_directions :: "string list" where
  "swipe_directions = [''up'', ''down'', ''left'', ''right'']"

definition report_empty :: "string \<Rightarrow> string \<Rightarrow> messages" where
  "report_empty s loc = report_if (s = []) (loc @ '': must not be empty'')"

lemma size_snd_entry [termination_simp]:
  "e \<in> set es \<Longrightarrow> size (snd e) < Suc (size_list (size_prod (\<lambda>_. 0) size) es)"
  using size_list_estimation' [of e es "size (snd e)" "size_prod (\<lambda>_. 0) size"]
  by (simp add: size_prod_simp less_Suc_eq_le)

fun validate_step :: "script_platform \<Rightarrow> script_step \<Rightarrow> string \<Rightarrow> messages"
  and validate_steps_or_file :: "script_platform \<Rightarrow> steps_or_file \<Rightarrow> string \<Rightarrow> messages"
where
  "validate_step P (TapStep sel) loc = validate_selector sel (loc @ ''.selector'')"
| "validate_step P (TypeStep s into) loc = validate_optional validate_selector into (loc @ ''.into'')"
| "validate_step P (WaitForStep sel ms) loc = validate_selector sel (loc @ ''.selector'') @ validate_timeout_ms ms loc"
| "validate_step P (AssertVisibleStep sel ms) loc =
     validate_selector sel (loc @ ''.selector'') @ validate_timeout_ms ms loc"
| "validate_step P (AssertNotVisibleStep sel ms) loc =
     validate_selector sel (loc @ ''.selector'') @ validate_timeout_ms ms loc"
| "validate_step P (AssertExistsStep sel ms) loc =
     validate_selector sel (loc @ ''.selector'') @ validate_timeout_ms ms loc"
| "validate_step P (SwipeStep dir) loc =
     report_if (dir \<notin> set swipe_directions)
       (loc @ ''.direction: must be one of up/down/left/right, got '' @ quote_on P dir)"
| "validate_step P (PressKeyStep key) loc = report_empty key (loc @ ''.key'')"
| "validate_step P (SleepStep ms) loc = report_if (ms < 0) (loc @ ''.ms: must be nonnegative'')"
| "validate_step P (CaptureStep pat as) loc =
     report_empty pat (loc @ ''.pattern'') @ validate_capture_var P as (loc @ ''.as'')"
| "validate_step P (AssertApiStep from status body) loc =
     validate_capture_var P from (loc @ ''.from'') @ validate_status status loc"
| "validate_step P (ExtractStep from vals) loc = validate_capture_var P from (loc @ ''.from'')"
| "validate_step P (ReadStep sel field as) loc =
     validate_selector sel (loc @ ''.selector'') @ validate_capture_var P as (loc @ ''.as'') @
     report_opt field (\<lambda>f. \<not> is_valid_read_field f) (\<lambda>f. loc @ ''.field: unknown field '' @ quote_on P f)"
| "validate_step P (AssertExprStep e) loc = report_empty e (loc @ ''.expr'')"
| "validate_step P (HandleStep branches otherwise ms) loc =
     report_if (branches = []) (loc @ ''.branches: must have at least one branch'') @
     report_opt otherwise (\<lambda>s. s \<noteq> ''fail'' \<and> s \<noteq> ''skip'')
       (\<lambda>s. loc @ ''.otherwise: must be \"fail\" or \"skip\", got '' @ quote_on P s) @
     report_opt ms (\<lambda>n. n < 0) (\<lambda>_. loc @ ''.timeout: must be nonnegative'') @
     report_each (\<lambda>b place. validate_steps_or_file P (snd b) (place @ ''.do'')) (loc @ ''.branches'') branches"
| "validate_step P (BranchStep from on fallback) loc =
     validate_capture_var P from (loc @ ''.from'') @
     report_if (on = []) (loc @ ''.on: must have at least one case'') @
     report_each (\<lambda>c place. validate_status (MatchStatus (fst c)) (place @ ''.match'') @
                    validate_steps_or_file P (snd c) (place @ ''.do'')) (loc @ ''.on'') on @
     validate_optional (validate_steps_or_file P) fallback (loc @ ''.default'')"
| "validate_step P (RunFlowStep file env) loc = report_empty file (loc @ ''.file'')"
| "validate_step P (PointerStep touches ms) loc = validate_pointer_step P touches ms loc"
| "validate_step P (LongPressStep pos hold to) loc = validate_long_press_step P pos hold to loc"
| "validate_step P (PinchStep center startGap endGap ms axis) loc =
     validate_pinch_step P center startGap endGap ms axis loc"
| "validate_step P (RotateStep center degrees radius ms) loc = validate_rotate_step P center degrees radius ms loc"
| "validate_step P LaunchAppStep loc = []"
| "validate_step P BackStep loc = []"
| "validate_step P (ScreenshotStep label) loc = []"
| "validate_steps_or_file P (InlineSteps steps) loc = report_each (validate_step P) loc steps"
| "validate_steps_or_file P (StepsFile file) loc = []"

end
