(* ===== verification/Script_Parse.thy ===== *)
theory Script_Parse
  imports Script_Validate
begin

text \<open>
  A script from its decoded documents to a validated definition (\<^verbatim>\<open>core/internal/script/parse.go\<close>, and
  \<^verbatim>\<open>Validate\<close> of \<^verbatim>\<open>validate.go\<close>). The split of the YAML text into the configuration and the raw steps
  with their lines (\<^verbatim>\<open>splitScriptDocs\<close>) is the argument.
\<close>

record split_result =
  Config :: any_map
  RawSteps :: "any_value list"
  SourceLines :: "nat list"

text \<open>
  \<^verbatim>\<open>ScriptDefinition\<close>: what the runner reads of it is \<open>script_definition\<close>, and the parser fills four more
  fields. \<^verbatim>\<open>ScriptDefaults\<close> are the fallbacks.
\<close>

record parsed_script = script_definition +
  Format :: "string option"
  Description :: "string option"
  PreconditionText :: "string option"
  Tags :: "string list"

definition default_format :: string where "default_format = ''atomyx/v1''"
definition default_name :: string where "default_name = ''Untitled script''"

section \<open>Configuration\<close>

definition string_config :: "any_map \<Rightarrow> string \<Rightarrow> string option normed" where
  "string_config config key =
     optional_field config key
       (\<lambda>v. case as_string v of Some s \<Rightarrow> Inr s | None \<Rightarrow> norm_fail (key @ '': expected a string''))"

fun string_items :: "string \<Rightarrow> any_value list \<Rightarrow> string list normed" where
  "string_items key [] = Inr []"
| "string_items key (item # rest) =
     (case as_string item of
        None \<Rightarrow> norm_fail (key @ '': expected an array of strings'')
      | Some s \<Rightarrow> res_bind (string_items key rest) (\<lambda>ss. Inr (s # ss)))"

definition decode_string_slice :: "string \<Rightarrow> any_value \<Rightarrow> string list normed" where
  "decode_string_slice key v =
     (case as_slice v of None \<Rightarrow> norm_fail (key @ '': expected an array'') | Some items \<Rightarrow> string_items key items)"

definition list_config :: "any_map \<Rightarrow> string \<Rightarrow> string list normed" where
  "list_config config key =
     res_bind (optional_field config key (decode_string_slice key)) (\<lambda>v. Inr (case v of Some ss \<Rightarrow> ss | None \<Rightarrow> []))"

definition number_config :: "any_map \<Rightarrow> string \<Rightarrow> f64 option normed" where
  "number_config config key =
     optional_field config key
       (\<lambda>v. case as_float v of Some f \<Rightarrow> Inr f | None \<Rightarrow> norm_fail (key @ '': expected a number''))"

fun normalize_preconditions :: "script_platform \<Rightarrow> any_value list \<Rightarrow> precondition list normed" where
  "normalize_preconditions P [] = Inr []"
| "normalize_preconditions P (raw # rest) =
     res_bind (normalize_precondition_setup P raw) (\<lambda>p.
     res_bind (normalize_preconditions P rest) (\<lambda>ps.
     Inr (p # ps)))"

definition preconditions_config :: "script_platform \<Rightarrow> any_map \<Rightarrow> precondition list normed" where
  "preconditions_config P config =
     (let v = get_field config ''preconditions'' in
      if v = NilValue then Inr []
      else (case as_slice v of
              None \<Rightarrow> norm_fail ''preconditions: expected an array''
            | Some raws \<Rightarrow> normalize_preconditions P raws))"

definition with_default :: "'a option \<Rightarrow> 'a \<Rightarrow> 'a" where
  "with_default v d = (case v of Some x \<Rightarrow> x | None \<Rightarrow> d)"

definition apply_config_fields :: "script_platform \<Rightarrow> parsed_script \<Rightarrow> any_map \<Rightarrow> parsed_script normed" where
  "apply_config_fields P def config =
     res_bind (string_config config ''format'') (\<lambda>fmt.
     res_bind (string_config config ''name'') (\<lambda>name.
     res_bind (string_config config ''description'') (\<lambda>description.
     res_bind (string_config config ''precondition'') (\<lambda>pre.
     res_bind (string_config config ''proxy'') (\<lambda>proxy.
     res_bind (list_config config ''tags'') (\<lambda>tags.
     res_bind (list_config config ''requires'') (\<lambda>requires.
     res_bind (number_config config ''stepDelay'') (\<lambda>delay.
     res_bind (preconditions_config P config) (\<lambda>preconditions.
     Inr (def\<lparr>Format := Some (with_default fmt default_format), ScriptName := with_default name default_name,
              Description := description, PreconditionText := pre, Proxy := proxy, Tags := tags,
              Requires := requires, StepDelay := delay, Preconditions := preconditions\<rparr>))))))))))"

text \<open>The lines of the steps, padded with zeros or cut to the number of steps.\<close>

definition pad_step_lines :: "nat list \<Rightarrow> nat \<Rightarrow> nat list" where
  "pad_step_lines lines n = map (\<lambda>i. if i < length lines then lines ! i else 0) [0..<n]"

section \<open>Validation of a definition\<close>

definition is_format :: "string \<Rightarrow> bool" where
  "is_format s \<longleftrightarrow> has_prefix s ''atomyx/v'' \<and> drop 8 s \<noteq> [] \<and> list_all is_dec (drop 8 s)"

definition validate_precondition :: "script_platform \<Rightarrow> precondition \<Rightarrow> string \<Rightarrow> messages" where
  "validate_precondition P p loc =
     validate_precondition_check (Check p) (loc @ ''.check'') @
     validate_steps_or_file P (Setup p) (loc @ ''.setup'') @
     report_opt (Policy p) (\<lambda>s. s \<notin> {''ensure'', ''always'', ''skip''})
       (\<lambda>s. loc @ ''.policy: must be \"ensure\", \"always\", or \"skip\", got '' @ quote_on P s)"

definition validate_script :: "script_platform \<Rightarrow> parsed_script \<Rightarrow> messages" where
  "validate_script P def =
     report_opt (Format def) (\<lambda>s. \<not> is_format s)
       (\<lambda>s. ''format: must match '' @ [CHR 0x27] @ ''atomyx/v<n>'' @ [CHR 0x27] @ '' (e.g. '' @ [CHR 0x27] @
             ''atomyx/v1'' @ [CHR 0x27] @ ''), got '' @ quote_on P s) @
     report_if (ScriptName def = []) ''name: must not be empty'' @
     report_each (\<lambda>tag place. report_if (tag = []) (place @ '': must not be empty'')) ''tags'' (Tags def) @
     report_opt (Proxy def) (\<lambda>s. s \<noteq> ''required'' \<and> s \<noteq> ''optional'')
       (\<lambda>s. ''proxy: must be \"required\" or \"optional\", got '' @ quote_on P s) @
     report_each (\<lambda>r place. report_if (r = []) (place @ '': must not be empty'')) ''requires'' (Requires def) @
     report_opt (StepDelay def) (\<lambda>f. f_lt f (Fin 0)) (\<lambda>_. ''stepDelay: must be nonnegative'') @
     report_each (validate_precondition P) ''preconditions'' (Preconditions def) @
     report_each (validate_step P) ''steps'' (Steps def)"

section \<open>ParseScript\<close>

definition merged_env :: "any_map \<Rightarrow> (string \<rightharpoonup> string) \<Rightarrow> (string \<rightharpoonup> string)" where
  "merged_env config external = coerce_string_record (get_field config ''env'') ++ external"

text \<open>\<^verbatim>\<open>appId\<close>, or \<^verbatim>\<open>app\<close> where it is not set.\<close>

definition app_id_field :: "any_map \<Rightarrow> string normed" where
  "app_id_field config =
     (let raw = (if get_field config ''appId'' = NilValue then get_field config ''app'' else get_field config ''appId'') in
      if raw = NilValue then Inr []
      else (case as_string raw of Some s \<Rightarrow> Inr s | None \<Rightarrow> norm_fail ''appId: expected a string''))"

definition new_script :: "string \<Rightarrow> (string \<rightharpoonup> string) \<Rightarrow> script_step list \<Rightarrow> parsed_script" where
  "new_script app env steps =
     \<lparr>AppID = app, ScriptName = [], Env = env, Proxy = None, Requires = [], Preconditions = [], StepDelay = None,
      Steps = steps, StepLines = [], Format = None, Description = None, PreconditionText = None, Tags = []\<rparr>"

definition parse_script :: "script_platform \<Rightarrow> split_result \<Rightarrow> (string \<rightharpoonup> string) \<Rightarrow> parsed_script normed" where
  "parse_script P docs external =
     (let env = merged_env (Config docs) external; raws = map (resolve_variables env) (RawSteps docs) in
      res_bind (app_id_field (Config docs)) (\<lambda>rawApp.
      let app = resolve_text env rawApp in
      res_bind (normalize_do_steps P 0 raws) (\<lambda>steps.
      if steps = [] \<and> app = [] then norm_fail ''Script has no steps''
      else
        res_bind (apply_config_fields P (new_script app env steps) (Config docs)) (\<lambda>def.
        let def' = def\<lparr>StepLines := pad_step_lines (SourceLines docs) (length steps)\<rparr>;
            errs = validate_script P def' in
        if errs \<noteq> [] then
          norm_fail (''Invalid script:'' @ [newline] @ ''  '' @ join_with (newline # ''  '') errs)
        else Inr def'))))"

end
