(* ===== verification/Script_Canonical.thy ===== *)
theory Script_Canonical
  imports Script_Normalize_Steps
begin

text \<open>
  The canonical form of a step: the object a script author would write with every shorthand expanded.
  Normalizing any raw step gives a step in normal form, and the canonical form of a step in normal form
  normalizes to that step.
\<close>

section \<open>Normal forms\<close>

definition normal_fields :: "script_selector \<Rightarrow> bool" where
  "normal_fields sel \<longleftrightarrow> pred_option (\<lambda>n. 0 \<le> n) (ScNth sel)"

definition normal_selector :: "script_selector \<Rightarrow> bool" where
  "normal_selector sel \<longleftrightarrow> normal_fields sel \<and> (ScText sel = None \<or> ScLabel sel \<noteq> None)"

definition normal_union :: "string_or_selector \<Rightarrow> bool" where
  "normal_union v \<longleftrightarrow> (SosStr v = None) = (SosSelector v \<noteq> None) \<and> pred_option normal_fields (SosSelector v)"

definition normal_condition :: "condition_pair \<Rightarrow> bool" where
  "normal_condition c \<longleftrightarrow> pred_option normal_union (CondVisible c) \<and> pred_option normal_union (CondNotVisible c)"

definition finite_point :: "point \<Rightarrow> bool" where
  "finite_point p \<longleftrightarrow> is_finite (X p) \<and> is_finite (Y p)"

definition finite_offset :: "pointer_offset \<Rightarrow> bool" where
  "finite_offset off \<longleftrightarrow> pred_option is_finite (OffDx off) \<and> pred_option is_finite (OffDy off)"

definition normal_target :: "pointer_target \<Rightarrow> bool" where
  "normal_target t \<longleftrightarrow>
     (case (TgSelector t, TgPoint t) of
        (Some sel, None) \<Rightarrow>
          normal_selector sel \<and> pred_option is_valid_pointer_anchor (TgAnchor t) \<and> pred_option finite_offset (TgOffset t)
      | (None, Some p) \<Rightarrow> finite_point p \<and> TgAnchor t = None \<and> TgOffset t = None
      | _ \<Rightarrow> False)"

definition unit_interval :: "f64 \<Rightarrow> bool" where
  "unit_interval f \<longleftrightarrow> is_finite f \<and> \<not> f_lt f (Fin 0) \<and> \<not> f_lt (Fin 1) f"

definition normal_action :: "pointer_action \<Rightarrow> bool" where
  "normal_action a \<longleftrightarrow>
     (if PaType a = ''down'' \<or> PaType a = ''move'' then
        (case PaTarget a of None \<Rightarrow> False | Some t \<Rightarrow> normal_target t) \<and>
        pred_option unit_interval (PaPressure a) \<and> PaMs a = None \<and> PaLabel a = None
      else
        PaTarget a = None \<and> PaPressure a = None \<and>
        (if PaType a = ''wait'' then (case PaMs a of None \<Rightarrow> False | Some f \<Rightarrow> is_finite f) \<and> PaLabel a = None
         else PaMs a = None \<and>
           (if PaType a = ''capture'' then PaLabel a \<noteq> Some [] else PaType a = ''up'' \<and> PaLabel a = None)))"

definition normal_policy :: "string option \<Rightarrow> bool" where
  "normal_policy policy \<longleftrightarrow> policy \<in> {None, Some ''fail'', Some ''skip''}"

lemma normal_policy_simps [simp]: "normal_policy None" "normal_policy (Some (otherwise_policy v))"
  by (auto simp: normal_policy_def otherwise_policy_def)

fun normal_step :: "script_step \<Rightarrow> bool" and normal_body :: "steps_or_file \<Rightarrow> bool" where
  "normal_step (TapStep sel) \<longleftrightarrow> normal_selector sel"
| "normal_step (TypeStep s into) \<longleftrightarrow> pred_option normal_selector into"
| "normal_step (WaitForStep sel ms) \<longleftrightarrow> normal_selector sel"
| "normal_step (AssertVisibleStep sel ms) \<longleftrightarrow> normal_selector sel"
| "normal_step (AssertNotVisibleStep sel ms) \<longleftrightarrow> normal_selector sel"
| "normal_step (AssertExistsStep sel ms) \<longleftrightarrow> normal_selector sel"
| "normal_step (SleepStep ms) \<longleftrightarrow> 0 \<le> ms"
| "normal_step (ReadStep sel field as) \<longleftrightarrow> normal_selector sel"
| "normal_step (HandleStep branches otherwise ms) \<longleftrightarrow>
     list_all (\<lambda>b. normal_condition (fst b) \<and> normal_body (snd b)) branches \<and>
     normal_policy otherwise \<and> ms = None"
| "normal_step (BranchStep from on fallback) \<longleftrightarrow>
     list_all (\<lambda>c. normal_body (snd c)) on \<and> pred_option normal_body fallback"
| "normal_step (PointerStep touches ms) \<longleftrightarrow>
     touches \<noteq> [] \<and> list_all (\<lambda>t. list_all normal_action (PtActions t)) touches \<and> pred_option is_finite ms"
| "normal_step (LongPressStep pos hold to) \<longleftrightarrow>
     (case pos of None \<Rightarrow> False | Some t \<Rightarrow> normal_target t) \<and> pred_option is_finite hold \<and> pred_option normal_target to"
| "normal_step (PinchStep center startGap endGap ms axis) \<longleftrightarrow>
     (case center of None \<Rightarrow> False | Some t \<Rightarrow> normal_target t) \<and> is_finite startGap \<and> is_finite endGap \<and>
     pred_option is_finite ms"
| "normal_step (RotateStep center degrees radius ms) \<longleftrightarrow>
     (case center of None \<Rightarrow> False | Some t \<Rightarrow> normal_target t) \<and> is_finite degrees \<and>
     pred_option is_finite radius \<and> pred_option is_finite ms"
| "normal_step s \<longleftrightarrow> True"
| "normal_body (InlineSteps steps) \<longleftrightarrow> list_all normal_step steps"
| "normal_body (StepsFile file) \<longleftrightarrow> True"

section \<open>Normalizing gives normal forms\<close>

named_theorems normal_intros \<open>what the normalizers return is in normal form\<close>

lemma optional_field_Inr:
  assumes "optional_field m key f = Inr v" "\<And>raw x. f raw = Inr x \<Longrightarrow> ok x"
  shows "pred_option ok v"
  using assms by (auto simp: optional_field_def res_bind_Inr_iff split: if_splits)

lemma selector_field_normal:
  "selector_field P sel key v = Inr sel' \<Longrightarrow> normal_fields sel \<Longrightarrow> normal_fields sel'"
  by (auto simp: selector_field_def string_field_def normal_fields_def split: if_splits option.splits)

lemma selector_fields_normal:
  "selector_fields P sel m = Inr sel' \<Longrightarrow> normal_fields sel \<Longrightarrow> normal_fields sel'"
  by (induction P sel m rule: selector_fields.induct) (auto simp: res_bind_Inr_iff dest: selector_field_normal)

lemma fields_from_map_normal [normal_intros]: "selector_fields_from_map P m = Inr sel \<Longrightarrow> normal_fields sel"
  by (auto simp: selector_fields_from_map_def normal_fields_def no_selector_def dest!: selector_fields_normal)

lemma expand_selector_normal [normal_intros]:
  assumes "expand_selector_shorthand P v = Inr sel"
  shows "normal_selector sel"
proof (cases "as_string v")
  case None
  with assms obtain m sel' where "selector_fields_from_map P m = Inr sel'"
    "sel = (if ScText sel' \<noteq> None \<and> ScLabel sel' = None then sel'\<lparr>ScLabel := ScText sel'\<rparr> else sel')"
    by (auto simp: expand_selector_shorthand_def res_bind_Inr_iff split: option.splits)
  with fields_from_map_normal [of P m sel'] show ?thesis
    by (auto simp: normal_selector_def normal_fields_def)
next
  case (Some s)
  with assms show ?thesis
    by (auto simp: expand_selector_shorthand_def normal_selector_def normal_fields_def no_selector_def)
qed

lemma split_selector_normal [normal_intros]:
  "split_selector_and_timeout P v = Inr (sel, ms) \<Longrightarrow> normal_selector sel"
  by (auto simp: split_selector_and_timeout_def res_bind_Inr_iff split: option.splits dest!: expand_selector_normal)

lemma union_normal: "string_or_selector_from_raw P v = Inr u \<Longrightarrow> normal_union u"
  by (auto simp: string_or_selector_from_raw_def res_bind_Inr_iff normal_union_def split: option.splits
      dest!: fields_from_map_normal)

lemma optional_union: "optional_field m key (string_or_selector_from_raw P) = Inr x \<Longrightarrow> pred_option normal_union x"
  by (erule optional_field_Inr) (erule union_normal)

lemma condition_fields_normal: "condition_fields P m = Inr c \<Longrightarrow> normal_condition c"
  by (auto simp: condition_fields_def res_bind_Inr_iff normal_condition_def dest!: optional_union)

lemma handle_condition_normal [normal_intros]: "normalize_handle_condition P raw = Inr c \<Longrightarrow> normal_condition c"
  by (auto simp: normalize_handle_condition_def normal_condition_def split: option.splits if_splits
      dest!: condition_fields_normal)

lemma finite_iff: "is_finite f \<longleftrightarrow> \<not> is_nan f \<and> \<not> is_inf f"
  by (cases f) (auto simp: is_finite_def is_nan_def is_inf_def)

lemma finite_field_finite: "finite_field place v = Inr f \<Longrightarrow> is_finite f"
  by (auto simp: finite_field_def split: option.splits dest!: as_finite_float_finite)

lemma finite_number_finite [normal_intros]: "finite_number place v = Inr f \<Longrightarrow> is_finite f"
  by (auto simp: finite_number_def split: option.splits dest!: as_finite_float_finite)

lemma optional_finite_field: "optional_field m key (finite_field place) = Inr x \<Longrightarrow> pred_option is_finite x"
  by (erule optional_field_Inr) (erule finite_field_finite)
lemma optional_finite_number: "optional_field m key (finite_number place) = Inr x \<Longrightarrow> pred_option is_finite x"
  by (erule optional_field_Inr) (erule finite_number_finite)

lemma gesture_number_finite [normal_intros]: "normalize_gesture_number m key cmd = Inr f \<Longrightarrow> pred_option is_finite f"
  by (auto simp: normalize_gesture_number_def dest!: optional_finite_number)

lemma offset_finite: "normalize_pointer_offset raw loc action = Inr off \<Longrightarrow> finite_offset off"
  by (auto simp: normalize_pointer_offset_def finite_offset_def res_bind_Inr_iff split: option.splits
      dest!: optional_finite_field)

lemma anchor_valid: "normalize_pointer_anchor P loc action raw = Inr a \<Longrightarrow> is_valid_pointer_anchor a"
  by (auto simp: normalize_pointer_anchor_def split: option.splits if_splits)

lemma optional_anchor: "optional_field m key (normalize_pointer_anchor P loc action) = Inr x \<Longrightarrow> pred_option is_valid_pointer_anchor x"
  by (erule optional_field_Inr) (erule anchor_valid)
lemma optional_offset: "optional_field m key (\<lambda>raw. normalize_pointer_offset raw loc action) = Inr x \<Longrightarrow> pred_option finite_offset x"
  by (erule optional_field_Inr) (erule offset_finite)

lemma normal_selector_target: "normal_selector sel \<Longrightarrow> normal_target (selector_target sel)"
  by (simp add: normal_target_def selector_target_def)

lemma selector_target_normal: "normalize_pointer_selector_target P m loc action = Inr t \<Longrightarrow> normal_target t"
  by (auto simp: normalize_pointer_selector_target_def res_bind_Inr_iff normal_target_def selector_target_def
      dest!: expand_selector_normal optional_anchor optional_offset)

lemma target_normal [normal_intros]: "normalize_pointer_target P raw loc action = Inr t \<Longrightarrow> normal_target t"
  by (auto simp: normalize_pointer_target_def res_bind_Inr_iff Let_def point_target_def finite_point_def finite_iff
      split: option.splits if_splits dest!: expand_selector_normal selector_target_normal
      intro: normal_selector_target)
    (simp add: normal_target_def finite_point_def finite_iff)

lemma location_normal [normal_intros]: "normalize_gesture_location P m key cmd = Inr t \<Longrightarrow> normal_target t"
  by (auto simp: normalize_gesture_location_def split: if_splits intro: target_normal)

lemma optional_target_normal [normal_intros]: "optional_field m key (\<lambda>raw. normalize_pointer_target P raw cmd place) = Inr x \<Longrightarrow> pred_option normal_target x"
  by (erule optional_field_Inr) (erule target_normal)

lemma pressure_unit:
  assumes "extract_pressure raw loc action = Inr p"
  shows "pred_option unit_interval p"
proof (cases "as_map raw")
  case (Some m)
  with assms show ?thesis
    by (auto simp: extract_pressure_def unit_interval_def split: option.splits if_splits
        elim!: optional_field_Inr dest: as_finite_float_finite)
qed (use assms in \<open>simp add: extract_pressure_def\<close>)

lemma touching_normal:
  "normalize_touching P v loc kind = Inr a \<Longrightarrow> kind = ''down'' \<or> kind = ''move'' \<Longrightarrow> normal_action a"
  by (auto simp: normalize_touching_def res_bind_Inr_iff normal_action_def plain_action_def dest!: target_normal pressure_unit)

lemma keyed_action_normal: "normalize_keyed_action P loc key v = Inr a \<Longrightarrow> normal_action a"
  by (auto simp: normalize_keyed_action_def split: if_splits option.splits dest!: touching_normal)
    (auto simp: normal_action_def plain_action_def finite_iff)

lemma action_normal: "normalize_pointer_action P raw loc = Inr a \<Longrightarrow> normal_action a"
  by (auto simp: normalize_pointer_action_def split: if_splits option.splits list.splits dest!: keyed_action_normal)
    (auto simp: normal_action_def plain_action_def)

lemma actions_normal: "normalize_pointer_actions P loc i raws = Inr as \<Longrightarrow> list_all normal_action as"
  by (induction P loc i raws arbitrary: as rule: normalize_pointer_actions.induct)
    (fastforce simp: res_bind_Inr_iff dest: action_normal)+

lemma touch_normal: "normalize_pointer_touch P loc entry = Inr t \<Longrightarrow> list_all normal_action (PtActions t)"
  by (auto simp: normalize_pointer_touch_def res_bind_Inr_iff split: option.splits dest!: actions_normal)

lemma touches_normal:
  "normalize_pointer_touches P i raws = Inr ts \<Longrightarrow>
   list_all (\<lambda>t. list_all normal_action (PtActions t)) ts \<and> length ts = length raws"
  by (induction P i raws arbitrary: ts rule: normalize_pointer_touches.induct)
    (fastforce simp: res_bind_Inr_iff dest: touch_normal)+

lemma move_duration_finite: "normalize_pointer_move_duration raw = Inr ms \<Longrightarrow> pred_option is_finite ms"
  by (cases ms) (auto simp: normalize_pointer_move_duration_def finite_iff split: if_splits option.splits)

lemma pointer_normal: "normalize_pointer P v = Inr s \<Longrightarrow> normal_step s"
  by (auto simp: normalize_pointer_def res_bind_Inr_iff split: option.splits if_splits
      dest!: touches_normal move_duration_finite)

lemma sleep_normal: "normalize_sleep P v = Inr s \<Longrightarrow> normal_step s"
  by (auto simp: normalize_sleep_def split: option.splits if_splits)

lemma optional_selector_normal [normal_intros]: "optional_field m key (expand_selector_shorthand P) = Inr x \<Longrightarrow> pred_option normal_selector x"
  by (erule optional_field_Inr) (erule expand_selector_normal)

lemma plain_normal:
  assumes "map_of plain_normalizers cmd = Some f" "f P v = Inr s"
  shows "normal_step s"
  using assms
  by (auto simp: plain_normalizers_def with_selector_and_timeout_def normalize_tap_def res_bind_Inr_iff
      normalize_type_def normalize_screenshot_def normalize_capture_def normalize_assert_api_def normalize_extract_def
      normalize_read_def normalize_assert_expr_def normalize_run_flow_def normalize_long_press_def normalize_pinch_def
      normalize_rotate_def Let_def split: if_splits option.splits
      dest!: normal_intros pointer_normal sleep_normal)

theorem normalized_steps_normal:
  "normalize_step P raw i = Inr s \<Longrightarrow> normal_step s"
  "normalize_command P cmd v = Inr s \<Longrightarrow> normal_step s"
  "normalize_do_value P raw = Inr body \<Longrightarrow> normal_body body"
  "normalize_do_steps P i raws = Inr steps \<Longrightarrow> list_all normal_step steps"
  "normalize_handle P raws branches otherwise = Inr s \<Longrightarrow>
   list_all (\<lambda>b. normal_condition (fst b) \<and> normal_body (snd b)) branches \<Longrightarrow>
   normal_policy otherwise \<Longrightarrow> normal_step s"
  "normalize_cases P raws = Inr on \<Longrightarrow> list_all (\<lambda>c. normal_body (snd c)) on"
proof (induction P raw i and P cmd v and P raw and P i raws and P raws branches otherwise and P raws
    arbitrary: s and s and body and steps and s and on
    rule: normalize_step_normalize_command_normalize_do_value_normalize_do_steps_normalize_handle_normalize_cases.induct)
  case (1 P raw i)
  then show ?case
    by (auto simp: normalize_step.simps unknown_step_def rendered_at_def Let_def
        split: option.splits if_splits sum.splits norm_error.splits)
next
  case (2 P cmd v)
  consider "cmd = ''handle''" | "cmd = ''branch''" | "cmd \<noteq> ''handle'' \<and> cmd \<noteq> ''branch''" by blast
  then show ?case
  proof cases
    case 1
    with 2(1,4) show ?thesis
      by (auto simp: normalize_command.simps split: option.splits)
  next
    case 2
    with "2.prems" obtain on fallback where s: "s = BranchStep (string_or_default (get_field (map_or_empty v) ''from'') []) on fallback"
      "(if has_key (map_or_empty v) ''on'' then
          (case as_slice (get_field (map_or_empty v) ''on'') of
             None \<Rightarrow> norm_fail ''branch.on: expected an array'' | Some raws \<Rightarrow> normalize_cases P raws)
        else Inr []) = Inr on"
      "optional_field (map_or_empty v) ''default'' (normalize_do_value P) = Inr fallback"
      by (auto simp: normalize_command.simps Let_def res_bind_Inr_iff)
    have "list_all (\<lambda>c. normal_body (snd c)) on"
      using 2 "2.IH"(2) s(2) by (auto split: if_splits option.splits)
    moreover have "pred_option normal_body fallback"
      using 2 "2.IH"(3) [OF _ _ refl refl s(2)] s(3) by (auto simp: optional_field_def res_bind_Inr_iff split: if_splits)
    ultimately show ?thesis
      by (simp add: s(1))
  next
    case 3
    with "2.prems" show ?thesis
      by (auto simp: normalize_command.simps split: option.splits intro: plain_normal)
  qed
next
  case (3 P raw)
  then show ?case
    by (auto simp: normalize_do_value.simps res_bind_Inr_iff split: option.splits)
next
  case (5 P i raw rest)
  then show ?case
    by (auto simp: res_bind_Inr_iff)
next
  case (7 P raw rest branches otherwise)
  from "7.prems"(1) obtain entry where e: "as_map raw = Some entry"
    by (auto split: option.splits)
  consider "has_key entry ''otherwise''" | "\<not> has_key entry ''otherwise''" "has_key entry ''when'' \<and> has_key entry ''do''"
    | "\<not> has_key entry ''otherwise''" "\<not> (has_key entry ''when'' \<and> has_key entry ''do'')" by blast
  then show ?case
  proof cases
    case 1
    with 7(1) [OF e 1] "7.prems" show ?thesis by (simp add: e)
  next
    case 2
    with "7.prems"(1) obtain cond body where c: "normalize_handle_condition P (get_field entry ''when'') = Inr cond"
      "normalize_do_value P (get_field entry ''do'') = Inr body"
      "normalize_handle P rest (branches @ [(cond, body)]) otherwise = Inr s"
      by (auto simp: e res_bind_Inr_iff)
    with 7(2) [OF e 2 c(1,2)] 7(3) [OF e 2 c] "7.prems" handle_condition_normal [OF c(1)] show ?thesis by simp
  next
    case 3
    with 7(4) [OF e 3] "7.prems" show ?thesis by (simp add: e)
  qed
next
  case (9 P raw rest)
  then show ?case
    by (auto simp: res_bind_Inr_iff Let_def split: if_splits)
qed simp_all

section \<open>The canonical form of a step\<close>

definition field_if :: "string \<Rightarrow> ('a \<Rightarrow> any_value) \<Rightarrow> 'a option \<Rightarrow> any_map" where
  "field_if key f v = (case v of None \<Rightarrow> [] | Some x \<Rightarrow> [(key, f x)])"

lemma field_if_simps [simp]: "field_if key f None = []" "field_if key f (Some x) = [(key, f x)]"
  by (simp_all add: field_if_def)

definition selector_entries :: "script_selector \<Rightarrow> any_map" where
  "selector_entries sel =
     field_if ''text'' AnyString (ScText sel) @ field_if ''id'' AnyString (ScID sel) @
     field_if ''label'' AnyString (ScLabel sel) @ field_if ''hint'' AnyString (ScHint sel) @
     field_if ''role'' AnyString (ScRole sel) @ field_if ''nth'' AnyInt (ScNth sel)"

definition selector_value :: "script_selector \<Rightarrow> any_value" where
  "selector_value sel = AnyOrdered (selector_entries sel)"

definition union_value :: "string_or_selector \<Rightarrow> any_value" where
  "union_value v =
     (case SosStr v of
        Some s \<Rightarrow> AnyString s
      | None \<Rightarrow> (case SosSelector v of Some sel \<Rightarrow> selector_value sel | None \<Rightarrow> NilValue))"

definition condition_value :: "condition_pair \<Rightarrow> any_value" where
  "condition_value c =
     AnyOrdered (field_if ''visible'' union_value (CondVisible c) @ field_if ''notVisible'' union_value (CondNotVisible c))"

definition match_value :: "branch_match \<Rightarrow> any_value" where
  "match_value m = AnyOrdered (field_if ''status'' AnyInt (MatchStatus m) @ field_if ''body'' AnyOrdered (MatchBody m))"

definition offset_value :: "pointer_offset \<Rightarrow> any_value" where
  "offset_value off = AnyOrdered (field_if ''dx'' AnyNumber (OffDx off) @ field_if ''dy'' AnyNumber (OffDy off))"

definition target_entries :: "pointer_target \<Rightarrow> any_map" where
  "target_entries t =
     field_if ''selector'' selector_value (TgSelector t) @ field_if ''anchor'' AnyString (TgAnchor t) @
     field_if ''offset'' offset_value (TgOffset t) @
     (case TgPoint t of None \<Rightarrow> [] | Some p \<Rightarrow> [(''x'', AnyNumber (X p)), (''y'', AnyNumber (Y p))])"

definition target_value :: "pointer_target \<Rightarrow> any_value" where
  "target_value t = AnyOrdered (target_entries t)"

definition action_value :: "pointer_action \<Rightarrow> any_value" where
  "action_value a =
     AnyOrdered
       [(PaType a,
         if PaType a = ''wait'' then (case PaMs a of None \<Rightarrow> NilValue | Some f \<Rightarrow> AnyNumber f)
         else if PaType a = ''capture'' then (case PaLabel a of None \<Rightarrow> NilValue | Some s \<Rightarrow> AnyString s)
         else (case PaTarget a of
                 None \<Rightarrow> NilValue
               | Some t \<Rightarrow> AnyOrdered (target_entries t @ field_if ''pressure'' AnyNumber (PaPressure a))))]"

definition touch_value :: "pointer_touch \<Rightarrow> any_value" where
  "touch_value t = AnyOrdered [(''id'', AnyString (PtID t)), (''actions'', AnyArray (map action_value (PtActions t)))]"

fun command_value :: "script_step \<Rightarrow> any_value" and body_value :: "steps_or_file \<Rightarrow> any_value" where
  "command_value (TapStep sel) = selector_value sel"
| "command_value (TypeStep s into) = AnyOrdered ((''text'', AnyString s) # field_if ''into'' selector_value into)"
| "command_value (WaitForStep sel ms) = AnyOrdered (selector_entries sel @ field_if ''timeout'' AnyInt ms)"
| "command_value (AssertVisibleStep sel ms) = AnyOrdered (selector_entries sel @ field_if ''timeout'' AnyInt ms)"
| "command_value (AssertNotVisibleStep sel ms) = AnyOrdered (selector_entries sel @ field_if ''timeout'' AnyInt ms)"
| "command_value (AssertExistsStep sel ms) = AnyOrdered (selector_entries sel @ field_if ''timeout'' AnyInt ms)"
| "command_value (ScreenshotStep label) = (case label of None \<Rightarrow> NilValue | Some s \<Rightarrow> AnyString s)"
| "command_value (SwipeStep dir) = AnyString dir"
| "command_value (PressKeyStep key) = AnyString key"
| "command_value (SleepStep ms) = AnyInt ms"
| "command_value (CaptureStep pat as) = AnyOrdered [(''url'', AnyString pat), (''as'', AnyString as)]"
| "command_value (AssertApiStep from status body) =
     AnyOrdered ((''from'', AnyString from) # field_if ''status'' AnyInt status @ field_if ''body'' AnyOrdered body)"
| "command_value (ExtractStep from vals) =
     AnyOrdered [(''from'', AnyString from), (''values'', AnyOrdered (map (\<lambda>(k, s). (k, AnyString s)) vals))]"
| "command_value (ReadStep sel field as) =
     AnyOrdered ((''selector'', selector_value sel) # (''as'', AnyString as) # field_if ''field'' AnyString field)"
| "command_value (AssertExprStep e) = AnyOrdered [(''expr'', AnyString e)]"
| "command_value (HandleStep branches otherwise ms) =
     AnyArray
       (map (\<lambda>b. AnyOrdered [(''when'', condition_value (fst b)), (''do'', body_value (snd b))]) branches @
        (case otherwise of None \<Rightarrow> [] | Some s \<Rightarrow> [AnyOrdered [(''otherwise'', AnyString s)]]))"
| "command_value (BranchStep from on fallback) =
     AnyOrdered
       ((''from'', AnyString from) #
        (''on'', AnyArray (map (\<lambda>c. AnyOrdered [(''match'', match_value (fst c)), (''do'', body_value (snd c))]) on)) #
        (case fallback of None \<Rightarrow> [] | Some body \<Rightarrow> [(''default'', body_value body)]))"
| "command_value (RunFlowStep file env) =
     AnyOrdered [(''file'', AnyString file), (''env'', AnyOrdered (map (\<lambda>(k, s). (k, AnyString s)) env))]"
| "command_value (PointerStep touches ms) =
     AnyOrdered ((''touches'', AnyArray (map touch_value touches)) # field_if ''moveDurationMs'' AnyNumber ms)"
| "command_value (LongPressStep pos hold to) =
     AnyOrdered (field_if ''at'' target_value pos @ field_if ''holdMs'' AnyNumber hold @
       field_if ''thenSwipeTo'' target_value to)"
| "command_value (PinchStep center startGap endGap ms axis) =
     AnyOrdered (field_if ''center'' target_value center @ [(''startGap'', AnyNumber startGap), (''endGap'', AnyNumber endGap)] @
       field_if ''durationMs'' AnyNumber ms @ field_if ''axis'' AnyString axis)"
| "command_value (RotateStep center degrees radius ms) =
     AnyOrdered (field_if ''center'' target_value center @ [(''degrees'', AnyNumber degrees)] @
       field_if ''radius'' AnyNumber radius @ field_if ''durationMs'' AnyNumber ms)"
| "command_value LaunchAppStep = NilValue"
| "command_value BackStep = NilValue"
| "body_value (InlineSteps steps) = AnyArray (map (\<lambda>s. AnyOrdered [(step_command s, command_value s)]) steps)"
| "body_value (StepsFile file) = AnyString file"

definition step_value :: "script_step \<Rightarrow> any_value" where
  "step_value s = AnyOrdered [(step_command s, command_value s)]"

end
