(* ===== verification/Script_Roundtrip.thy ===== *)
theory Script_Roundtrip
  imports Script_Canonical
begin

text \<open>
  The canonical form of a step in normal form normalizes to that step, so every raw step the normalizer
  accepts means the same as its canonical form.
\<close>

section \<open>Reading entries\<close>

named_theorems reads \<open>what a lookup in rendered entries gives\<close>

lemma get_field_simps [reads]:
  "get_field [] key = NilValue"
  "get_field ((k, v) # m) key = (if k = key then v else get_field m key)"
  "get_field (field_if k f x @ m) key = (if k = key \<and> x \<noteq> None then f (the x) else get_field m key)"
  "get_field (field_if k f x) key = (if k = key \<and> x \<noteq> None then f (the x) else NilValue)"
  by (auto simp: get_field_def field_if_def split: option.split)

lemma has_key_simps [reads]:
  "has_key [] key = False"
  "has_key ((k, v) # m) key = (k = key \<or> has_key m key)"
  "has_key (field_if k f x @ m) key = (k = key \<and> x \<noteq> None \<or> has_key m key)"
  "has_key (field_if k f x) key = (k = key \<and> x \<noteq> None)"
  by (auto simp: has_key_def field_if_def split: option.split)

lemma as_simps [reads]:
  "as_map (AnyOrdered m) = Some m" "as_map (AnyMap m) = Some m" "as_map (AnyString s) = None" "as_map (AnyNumber f) = None"
  "as_map NilValue = None" "as_map (AnyArray xs) = None"
  "map_or_empty (AnyOrdered m) = m"
  "as_string (AnyOrdered m) = None" "as_string (AnyMap m) = None" "as_string (AnyString s) = Some s"
  "as_string NilValue = None" "as_string (AnyInt i) = None" "as_string (AnyArray xs) = None" "as_string (AnyNumber f) = None"
  "as_slice (AnyArray xs) = Some xs"
  "as_int w (AnyInt i) = Some i" "as_int w (AnyOrdered m) = None"
  "as_float (AnyNumber f) = Some f"
  "as_ordered_map (AnyOrdered m) = Some m"
  "string_or_default (AnyString s) d = s"
  "is_js_number (AnyNumber f)" "\<not> is_js_number NilValue"
  by (simp_all add: as_map_def map_or_empty_def as_string_def as_slice_def as_int_def as_float_def as_ordered_map_def
      string_or_default_def js_string_def is_js_number_def)

lemma map_no_string: "as_map v = Some m \<Longrightarrow> as_string v = None"
  by (auto simp: as_map_Some_iff reads)

lemma as_finite_number [reads]: "is_finite f \<Longrightarrow> as_finite_float (AnyNumber f) = Some f"
  by (simp add: as_finite_float_def finite_iff reads)

lemma js_string_string [reads]: "js_string (AnyString s) = s"
  by (simp add: js_string_def)

lemma optional_field_if:
  assumes "\<And>x. v = Some x \<Longrightarrow> get_field m key = f x \<and> f x \<noteq> NilValue \<and> g (f x) = Inr x"
    and "v = None \<Longrightarrow> get_field m key = NilValue"
  shows "optional_field m key g = Inr v"
  using assms by (cases v) (auto simp: optional_field_def)

section \<open>Selectors and conditions\<close>

lemma selector_entries_read: "normal_fields sel \<Longrightarrow> selector_fields P no_selector (selector_entries sel) = Inr sel"
  by (cases sel)
    (auto simp: selector_entries_def normal_fields_def selector_field_def string_field_def no_selector_def field_if_def reads
      split: option.splits)

lemma selector_value_map [reads]: "as_string (selector_value sel) = None" "as_map (selector_value sel) = Some (selector_entries sel)"
  "selector_value sel \<noteq> NilValue" "selector_value sel \<noteq> AnyString s"
  by (simp_all add: selector_value_def reads)

lemma expand_entries:
  "normal_selector sel \<Longrightarrow> m = selector_entries sel \<Longrightarrow> as_map v = Some m \<Longrightarrow> expand_selector_shorthand P v = Inr sel"
  using selector_entries_read [of sel P]
  by (auto simp: normal_selector_def expand_selector_shorthand_def selector_fields_from_map_def map_no_string)

lemma expand_selector_value [reads]: "normal_selector sel \<Longrightarrow> expand_selector_shorthand P (selector_value sel) = Inr sel"
  by (simp add: expand_entries reads)

lemma split_entries [reads]:
  assumes "normal_selector sel"
  shows "split_selector_and_timeout P (AnyOrdered (selector_entries sel @ field_if ''timeout'' AnyInt ms)) = Inr (sel, ms)"
proof -
  have f: "filter (\<lambda>e. fst e \<noteq> ''timeout'') (selector_entries sel @ field_if ''timeout'' AnyInt ms) = selector_entries sel"
    by (simp add: selector_entries_def field_if_def split: option.split)
  have t: "map_of (selector_entries sel @ field_if ''timeout'' AnyInt ms) ''timeout'' = map_option AnyInt ms"
    by (simp add: selector_entries_def field_if_def split: option.split)
  show ?thesis
    unfolding split_selector_and_timeout_def as_simps option.case f timeout_field_def t
    using assms by (cases ms) (simp_all add: expand_entries reads)
qed

lemma union_read: "normal_union v \<Longrightarrow> string_or_selector_from_raw P (union_value v) = Inr v \<and> union_value v \<noteq> NilValue"
  using selector_entries_read [of "the (SosSelector v)" P]
  by (cases v) (auto simp: normal_union_def union_value_def string_or_selector_from_raw_def selector_fields_from_map_def reads
      split: option.splits)

lemma condition_read:
  assumes "normal_condition c"
  shows "normalize_handle_condition P (condition_value c) = Inr c"
proof -
  let ?m = "field_if ''visible'' union_value (CondVisible c) @ field_if ''notVisible'' union_value (CondNotVisible c)"
  have "optional_field ?m ''visible'' (string_or_selector_from_raw P) = Inr (CondVisible c)"
    "optional_field ?m ''notVisible'' (string_or_selector_from_raw P) = Inr (CondNotVisible c)"
    using assms by (auto intro!: optional_field_if [where f = union_value] simp: normal_condition_def reads union_read)
  then show ?thesis
    by (simp add: normalize_handle_condition_def condition_value_def condition_fields_def reads)
qed

lemma status_read: "status_field P (field_if ''status'' AnyInt s @ field_if ''body'' AnyOrdered b) = s"
  by (simp add: status_field_def field_if_def reads split: option.split)

lemma body_read: "body_field (field_if ''status'' AnyInt s @ field_if ''body'' AnyOrdered b) = b"
  by (simp add: body_field_def field_if_def reads split: option.split)

lemma match_read: "normalize_branch_match P (match_value m) = m"
  by (simp add: normalize_branch_match_def match_value_def reads status_read body_read)

section \<open>Pointer gestures\<close>

lemma finite_field_read: "is_finite f \<Longrightarrow> finite_field place (AnyNumber f) = Inr f"
  by (simp add: finite_field_def reads)

lemma finite_number_read [reads]: "is_finite f \<Longrightarrow> finite_number place (AnyNumber f) = Inr f"
  by (simp add: finite_number_def reads)

lemma offset_read:
  assumes "finite_offset off"
  shows "normalize_pointer_offset (offset_value off) loc action = Inr off"
proof -
  let ?m = "field_if ''dx'' AnyNumber (OffDx off) @ field_if ''dy'' AnyNumber (OffDy off)"
  have "find (\<lambda>e. fst e \<noteq> ''dx'' \<and> fst e \<noteq> ''dy'') ?m = None"
    by (auto simp: find_None_iff field_if_def split: option.splits)
  moreover have "optional_field ?m ''dx'' (finite_field p) = Inr (OffDx off)"
    "optional_field ?m ''dy'' (finite_field p) = Inr (OffDy off)" for p
    using assms by (auto intro!: optional_field_if [where f = AnyNumber] simp: finite_offset_def reads finite_field_read)
  ultimately show ?thesis
    by (simp add: normalize_pointer_offset_def offset_value_def reads)
qed

lemma target_read:
  assumes "normal_target t" "as_map v = Some (target_entries t @ m)" "\<And>k. k \<noteq> ''pressure'' \<Longrightarrow> get_field m k = NilValue"
    "\<And>k. k \<noteq> ''pressure'' \<Longrightarrow> \<not> has_key m k"
  shows "normalize_pointer_target P v loc action = Inr t"
proof (cases "TgSelector t")
  case None
  with assms(1) obtain x y where t: "t = point_target x y" "is_finite x" "is_finite y"
    by (cases t; cases "TgPoint t"; cases "the (TgPoint t)")
      (auto simp: normal_target_def point_target_def finite_point_def)
  then show ?thesis
    using assms(2) by (simp add: normalize_pointer_target_def map_no_string target_entries_def finite_iff
        float_or_zero_def reads) (simp add: point_target_def reads)
next
  case (Some sel)
  note sel = Some
  then obtain anchor off where t: "t = (selector_target sel)\<lparr>TgAnchor := anchor, TgOffset := off\<rparr>" "normal_selector sel"
    "pred_option is_valid_pointer_anchor anchor" "pred_option finite_offset off"
    using assms(1) by (cases t) (auto simp: normal_target_def selector_target_def split: option.splits)
  let ?m = "target_entries t @ m"
  have g: "get_field ?m ''x'' = NilValue" "get_field ?m ''selector'' = selector_value sel" "has_key ?m ''selector''"
    "get_field ?m ''anchor'' = (case anchor of None \<Rightarrow> NilValue | Some a \<Rightarrow> AnyString a)"
    "get_field ?m ''offset'' = (case off of None \<Rightarrow> NilValue | Some a \<Rightarrow> offset_value a)"
    using assms(3) by (auto simp: t(1) target_entries_def selector_target_def reads split: option.split)
  have "optional_field ?m ''anchor'' (normalize_pointer_anchor P loc action) = Inr anchor"
    using t(3) by (intro optional_field_if [where f = AnyString]) (auto simp: g normalize_pointer_anchor_def reads)
  moreover have "optional_field ?m ''offset'' (\<lambda>raw. normalize_pointer_offset raw loc action) = Inr off"
    using t(4) by (intro optional_field_if [where f = offset_value]) (auto simp: g offset_read, simp add: offset_value_def)
  ultimately have "normalize_pointer_selector_target P ?m loc action = Inr t"
    using t(2) by (simp add: normalize_pointer_selector_target_def g(2) reads) (simp add: t(1))
  then show ?thesis
    using assms(2) g by (simp add: normalize_pointer_target_def map_no_string reads)
qed

lemma target_value_read [reads]: "normal_target t \<Longrightarrow> normalize_pointer_target P (target_value t) loc action = Inr t"
  by (rule target_read [where m = "[]"]) (simp_all add: target_value_def reads)

lemma target_value_neq [reads]: "target_value t \<noteq> NilValue"
  by (simp add: target_value_def)


lemma pressure_read:
  assumes "as_map v = Some (m @ field_if ''pressure'' AnyNumber p)" "\<And>k. k = ''pressure'' \<Longrightarrow> map_of m k = None"
    "pred_option unit_interval p"
  shows "extract_pressure v loc action = Inr p"
  using assms(2) [OF refl] assms(1,3)
  by (cases p) (auto simp: extract_pressure_def optional_field_def get_field_def map_add_def reads unit_interval_def)

lemma no_pressure_in_target: "map_of (target_entries t) ''pressure'' = None"
  by (simp add: target_entries_def field_if_def split: option.split)

lemma touching_read:
  assumes "normal_target t" "pred_option unit_interval p"
  shows "normalize_touching P (AnyOrdered (target_entries t @ field_if ''pressure'' AnyNumber p)) loc kind =
    Inr ((plain_action kind)\<lparr>PaTarget := Some t, PaPressure := p\<rparr>)"
proof -
  have "normalize_pointer_target P (AnyOrdered (target_entries t @ field_if ''pressure'' AnyNumber p)) loc kind = Inr t"
    by (rule target_read [OF assms(1)]) (auto simp: reads)
  moreover have "extract_pressure (AnyOrdered (target_entries t @ field_if ''pressure'' AnyNumber p)) loc kind = Inr p"
    by (rule pressure_read [where m = "target_entries t"]) (use assms no_pressure_in_target in \<open>simp_all add: reads\<close>)
  ultimately show ?thesis
    by (simp add: normalize_touching_def)
qed

lemma normal_action_cases:
  assumes "normal_action a"
  obtains (touch) kind t p where "a = (plain_action kind)\<lparr>PaTarget := Some t, PaPressure := p\<rparr>"
      "kind = ''down'' \<or> kind = ''move''" "normal_target t" "pred_option unit_interval p"
  | (wait) f where "a = (plain_action ''wait'')\<lparr>PaMs := Some f\<rparr>" "is_finite f"
  | (capture) l where "a = (plain_action ''capture'')\<lparr>PaLabel := l\<rparr>" "l \<noteq> Some []"
  | (up) "a = plain_action ''up''"
proof -
  obtain kind t p ms l where a: "a = \<lparr>PaType = kind, PaTarget = t, PaPressure = p, PaMs = ms, PaLabel = l\<rparr>"
    by (cases a)
  note n = assms [unfolded a normal_action_def, simplified]
  show ?thesis
  proof (cases "kind = ''down'' \<or> kind = ''move''")
    case True
    with n show ?thesis
      by (cases t) (use touch [of p "the t" kind] in \<open>auto simp: a plain_action_def\<close>)
  next
    case False
    note other = this
    show ?thesis
    proof (cases "kind = ''wait''")
      case True
      with n show ?thesis
        by (cases ms) (use wait [of "the ms"] in \<open>simp_all add: a plain_action_def\<close>)
    next
      case False
      with other n show ?thesis
        by (cases "kind = ''capture''") (use capture [of l] up in \<open>simp_all add: a plain_action_def\<close>)
    qed
  qed
qed

lemma keyed_action_read: "normalize_pointer_action P (AnyOrdered [(key, v)]) loc = normalize_keyed_action P loc key v"
  by (simp add: normalize_pointer_action_def reads)

lemma action_read:
  assumes "normal_action a"
  shows "normalize_pointer_action P (action_value a) loc = Inr a"
  using assms
proof (cases rule: normal_action_cases)
  case (touch kind t p)
  then show ?thesis
    by (auto simp: action_value_def keyed_action_read normalize_keyed_action_def touching_read plain_action_def)
next
  case (wait f)
  then show ?thesis
    by (simp add: action_value_def keyed_action_read normalize_keyed_action_def plain_action_def finite_iff reads)
next
  case (capture l)
  then show ?thesis
    by (cases l) (simp_all add: action_value_def keyed_action_read normalize_keyed_action_def plain_action_def reads)
next
  case up
  then show ?thesis
    by (simp add: action_value_def keyed_action_read normalize_keyed_action_def plain_action_def)
qed

lemma actions_read: "list_all normal_action as \<Longrightarrow> normalize_pointer_actions P loc i (map action_value as) = Inr as"
  by (induction as arbitrary: i) (simp_all add: action_read)

lemma touches_read:
  "list_all (\<lambda>t. list_all normal_action (PtActions t)) ts \<Longrightarrow> normalize_pointer_touches P i (map touch_value ts) = Inr ts"
  by (induction ts arbitrary: i)
    (simp_all add: normalize_pointer_touch_def touch_value_def touch_id_def actions_read reads)

section \<open>Steps\<close>

lemma gesture_number_read:
  assumes "get_field m key = (case v of None \<Rightarrow> NilValue | Some f \<Rightarrow> AnyNumber f)" "pred_option is_finite v"
  shows "normalize_gesture_number m key cmd = Inr v"
  using assms unfolding normalize_gesture_number_def
  by (intro optional_field_if [where f = AnyNumber]) (auto simp: reads)

lemma extract_entries_read: "extract_entries (map (\<lambda>(k, s). (k, AnyString s)) vals) = ([], vals)"
  by (induction vals) (auto simp: reads)

lemma env_entries_read: "env_entries (map (\<lambda>(k, s). (k, AnyString s)) env) = Inr env"
  by (induction env) (auto simp: reads)

lemma plain_command:
  "map_of plain_normalizers cmd = Some f \<Longrightarrow> cmd \<noteq> ''handle'' \<Longrightarrow> cmd \<noteq> ''branch'' \<Longrightarrow> normalize_command P cmd v = f P v"
  by (simp add: normalize_command.simps)

lemma step_command_known: "step_command s \<in> set step_commands"
  by (cases s) (simp_all add: step_commands_def plain_normalizers_def)

lemma step_read:
  assumes "normalize_command P (step_command s) (command_value s) = Inr s"
  shows "normalize_step P (AnyOrdered [(step_command s, command_value s)]) i = Inr s"
  using assms step_command_known [of s]
  by (simp add: normalize_step.simps first_step_key_def rendered_at_def reads)


lemma steps_read:
  "\<forall>s\<in>set steps. normalize_command P (step_command s) (command_value s) = Inr s \<Longrightarrow>
   normalize_do_steps P i (map (\<lambda>s. AnyOrdered [(step_command s, command_value s)]) steps) = Inr steps"
  by (induction steps arbitrary: i) (simp_all add: step_read)

lemma branches_read:
  assumes "\<forall>b\<in>set branches. normal_condition (fst b) \<and> normalize_do_value P (body_value (snd b)) = Inr (snd b)"
  shows "normalize_handle P (map (\<lambda>b. AnyOrdered [(''when'', condition_value (fst b)), (''do'', body_value (snd b))]) branches @ rest)
      acc policy = normalize_handle P rest (acc @ branches) policy"
  using assms by (induction branches arbitrary: acc) (simp_all add: condition_read reads)

lemma cases_read:
  assumes "\<forall>c\<in>set on. normalize_do_value P (body_value (snd c)) = Inr (snd c)"
  shows "normalize_cases P (map (\<lambda>c. AnyOrdered [(''match'', match_value (fst c)), (''do'', body_value (snd c))]) on) = Inr on"
  using assms by (induction on) (simp_all add: match_read reads)

lemma body_value_neq: "body_value b \<noteq> NilValue"
  by (cases b) simp_all

lemmas plain_reads = plain_command plain_normalizers_def with_selector_and_timeout_def normalize_tap_def
  normalize_type_def normalize_screenshot_def normalize_sleep_def normalize_capture_def normalize_assert_api_def
  normalize_extract_def extract_values_def normalize_read_def normalize_assert_expr_def normalize_run_flow_def
  flow_env_field_def normalize_pointer_def normalize_long_press_def normalize_pinch_def normalize_rotate_def
  normalize_gesture_location_def

lemma plain_step_read:
  assumes "normal_step s" "step_command s \<noteq> ''handle''" "step_command s \<noteq> ''branch''"
  shows "normalize_command P (step_command s) (command_value s) = Inr s"
proof (cases s)
  case (TypeStep t into)
  have "optional_field ((''text'', AnyString t) # field_if ''into'' selector_value into) ''into'' (expand_selector_shorthand P) = Inr into"
    using assms TypeStep by (intro optional_field_if [where f = selector_value]) (auto simp: reads)
  then show ?thesis
    by (simp add: TypeStep plain_reads reads)
next
  case (ScreenshotStep label)
  then show ?thesis
    by (cases label) (simp_all add: plain_reads reads)
next
  case (AssertApiStep src status body)
  have "status_field P ((''from'', AnyString src) # field_if ''status'' AnyInt status @ field_if ''body'' AnyOrdered body) = status"
    "body_field ((''from'', AnyString src) # field_if ''status'' AnyInt status @ field_if ''body'' AnyOrdered body) = body"
    using status_read [of P status body] body_read [of status body] by (simp_all add: status_field_def body_field_def)
  then show ?thesis
    by (simp add: AssertApiStep plain_reads reads)
next
  case (ReadStep sel field as)
  then show ?thesis
    using assms by (cases field) (simp_all add: plain_reads optional_js_string_def reads)
next
  case (PointerStep touches ms)
  then have "normalize_pointer_move_duration (get_field ((''touches'', AnyArray (map touch_value touches)) #
      field_if ''moveDurationMs'' AnyNumber ms) ''moveDurationMs'') = Inr ms"
    using assms by (cases ms) (simp_all add: normalize_pointer_move_duration_def finite_iff reads)
  then show ?thesis
    using assms PointerStep by (simp add: plain_reads touches_read reads)
next
  case (LongPressStep pos hold to)
  then obtain p where p: "pos = Some p" "normal_target p"
    using assms by (auto split: option.splits)
  let ?m = "field_if ''at'' target_value pos @ field_if ''holdMs'' AnyNumber hold @ field_if ''thenSwipeTo'' target_value to"
  have "optional_field ?m ''thenSwipeTo'' (\<lambda>raw. normalize_pointer_target P raw ''longPress'' ''thenSwipeTo'') = Inr to"
    using assms LongPressStep by (intro optional_field_if [where f = target_value]) (auto simp: reads)
  moreover have "normalize_gesture_number ?m ''holdMs'' ''longPress'' = Inr hold"
    using assms LongPressStep by (intro gesture_number_read) (simp_all add: p reads split: option.split)
  ultimately show ?thesis
    using p by (simp add: LongPressStep plain_reads reads)
next
  case (PinchStep center startGap endGap ms axis)
  then obtain p where p: "center = Some p" "normal_target p"
    using assms by (auto split: option.splits)
  let ?m = "field_if ''center'' target_value center @ [(''startGap'', AnyNumber startGap), (''endGap'', AnyNumber endGap)] @
       field_if ''durationMs'' AnyNumber ms @ field_if ''axis'' AnyString axis"
  have "optional_field ?m ''axis'' normalize_axis = Inr axis"
    by (intro optional_field_if [where f = AnyString]) (auto simp: p normalize_axis_def reads)
  moreover have "normalize_gesture_number ?m ''durationMs'' ''pinch'' = Inr ms"
    using assms PinchStep by (intro gesture_number_read) (simp_all add: p reads split: option.split)
  ultimately show ?thesis
    using p assms PinchStep by (simp add: plain_reads reads)
next
  case (RotateStep center degrees radius ms)
  then obtain p where p: "center = Some p" "normal_target p"
    using assms by (auto split: option.splits)
  let ?m = "field_if ''center'' target_value center @ [(''degrees'', AnyNumber degrees)] @
       field_if ''radius'' AnyNumber radius @ field_if ''durationMs'' AnyNumber ms"
  have "normalize_gesture_number ?m ''radius'' ''rotate'' = Inr radius"
    "normalize_gesture_number ?m ''durationMs'' ''rotate'' = Inr ms"
    using assms RotateStep by (auto intro!: gesture_number_read simp: p reads split: option.split)
  then show ?thesis
    using p assms RotateStep by (simp add: plain_reads reads)
qed (use assms in \<open>simp_all add: plain_reads reads extract_entries_read env_entries_read\<close>)

lemma command_read:
  "normal_step s \<Longrightarrow> normalize_command P (step_command s) (command_value s) = Inr s"
  "normal_body b \<Longrightarrow> normalize_do_value P (body_value b) = Inr b"
proof (induction s and b rule: normal_step_normal_body.induct)
  case (9 branches otherwise ms)
  then have b: "\<forall>b\<in>set branches. normal_condition (fst b) \<and> normalize_do_value P (body_value (snd b)) = Inr (snd b)"
    by (auto simp: list_all_iff)
  have "ms = None" "normal_policy otherwise"
    using 9 by simp_all
  then show ?case
    using branches_read [OF b, of "case otherwise of None \<Rightarrow> [] | Some s \<Rightarrow> [AnyOrdered [(''otherwise'', AnyString s)]]" "[]" None]
    by (auto simp: normalize_command.simps normal_policy_def otherwise_policy_def reads)
next
  case (10 src on fallback)
  then have c: "\<forall>c\<in>set on. normalize_do_value P (body_value (snd c)) = Inr (snd c)"
    by (auto simp: list_all_iff)
  have "fallback = Some d \<Longrightarrow> normalize_do_value P (body_value d) = Inr d" for d
    using 10 by auto
  then show ?case
    using cases_read [OF c]
    by (auto simp: normalize_command.simps Let_def optional_field_def body_value_neq reads split: option.split)
next
  case (16 steps)
  then show ?case
    using steps_read [of steps P 0] by (simp add: normalize_do_value.simps list_all_iff reads)
next
  case (17 name)
  then show ?case
    by (simp add: normalize_do_value.simps reads)
qed (erule plain_step_read; simp)+

text \<open>
  C6: whatever raw step the normalizer accepts, with whatever shorthands, the canonical form of the
  resulting step (every field written out, in one object) is accepted too and gives the same step,
  whatever the position of the step.
\<close>

theorem normalize_canonical:
  "case normalize_step P raw i of Inr s \<Rightarrow> normalize_step P (step_value s) j = Inr s | Inl e \<Rightarrow> True"
proof (cases "normalize_step P raw i")
  case (Inr s)
  then show ?thesis
    using step_read [OF command_read(1) [OF normalized_steps_normal(1) [OF Inr]], of P j] by (simp add: step_value_def)
qed simp

end
