(* ===== verification/Script_Props.thy ===== *)
theory Script_Props
  imports Script_Parse Script_Roundtrip Runner_Pointer_Props Runner_Commands
begin

text \<open>
  What a parsed script guarantees to the runner: the ranges, names and shapes that parsing and validation
  check. The runner has checks of its own on top of these (see C5).
\<close>

section \<open>Well-formed steps\<close>

definition selector_ok :: "script_selector \<Rightarrow> bool" where
  "selector_ok sel \<longleftrightarrow> pred_option (\<lambda>n. 0 \<le> n) (ScNth sel)"

definition anchor_known :: "string \<Rightarrow> bool" where
  "anchor_known a \<longleftrightarrow> (\<forall>b. \<not> isl (bounds_anchor b a))"

definition target_ok :: "pointer_target \<Rightarrow> bool" where
  "target_ok t \<longleftrightarrow>
     (case (TgSelector t, TgPoint t) of
        (Some sel, None) \<Rightarrow> selector_ok sel \<and> pred_option anchor_known (TgAnchor t) \<and> pred_option finite_offset (TgOffset t)
      | (None, Some p) \<Rightarrow> finite_point p
      | _ \<Rightarrow> False)"

definition duration_ok :: "f64 option \<Rightarrow> bool" where
  "duration_ok ms \<longleftrightarrow> pred_option (\<lambda>f. is_finite f \<and> f_le (Fin 0) f) ms"

definition touch_ok :: "pointer_touch \<Rightarrow> bool" where
  "touch_ok t \<longleftrightarrow>
     PtActions t \<noteq> [] \<and> plain_actions (PtActions t) \<and>
     list_all (\<lambda>a. pred_option target_ok (PaTarget a) \<and> (PaType a \<in> {''down'', ''move''} \<longrightarrow> PaTarget a \<noteq> None) \<and>
       duration_ok (PaMs a) \<and> pred_option unit_interval (PaPressure a)) (PtActions t)"

definition status_ok :: "int option \<Rightarrow> bool" where
  "status_ok s \<longleftrightarrow> pred_option (\<lambda>n. 100 \<le> n \<and> n \<le> 599) s"

definition location_ok :: "pointer_target option \<Rightarrow> bool" where
  "location_ok t \<longleftrightarrow> t \<noteq> None \<and> pred_option target_ok t"

definition time_ok :: "int option \<Rightarrow> bool" where
  "time_ok ms \<longleftrightarrow> pred_option (\<lambda>n. 0 \<le> n) ms"

definition readable :: "string \<Rightarrow> bool" where
  "readable field \<longleftrightarrow>
     field \<in> set read_attribute_fields \<or> (\<exists>n. read_state_field n field \<noteq> None)"

fun well_formed_step :: "script_step \<Rightarrow> bool" and well_formed_body :: "steps_or_file \<Rightarrow> bool" where
  "well_formed_step (TapStep sel) \<longleftrightarrow> selector_ok sel"
| "well_formed_step (TypeStep s into) \<longleftrightarrow> pred_option selector_ok into"
| "well_formed_step (WaitForStep sel ms) \<longleftrightarrow> selector_ok sel \<and> time_ok ms"
| "well_formed_step (AssertVisibleStep sel ms) \<longleftrightarrow> selector_ok sel \<and> time_ok ms"
| "well_formed_step (AssertNotVisibleStep sel ms) \<longleftrightarrow> selector_ok sel \<and> time_ok ms"
| "well_formed_step (AssertExistsStep sel ms) \<longleftrightarrow> selector_ok sel \<and> time_ok ms"
| "well_formed_step (SwipeStep dir) \<longleftrightarrow> direction_of dir \<in> {DirUp, DirDown, DirLeft, DirRight}"
| "well_formed_step (PressKeyStep key) \<longleftrightarrow> key \<noteq> []"
| "well_formed_step (SleepStep ms) \<longleftrightarrow> 0 \<le> ms"
| "well_formed_step (CaptureStep pat as) \<longleftrightarrow> pat \<noteq> [] \<and> is_capture_var as"
| "well_formed_step (AssertApiStep from status body) \<longleftrightarrow> is_capture_var from \<and> status_ok status"
| "well_formed_step (ExtractStep from vals) \<longleftrightarrow> is_capture_var from"
| "well_formed_step (ReadStep sel field as) \<longleftrightarrow> selector_ok sel \<and> is_capture_var as \<and> pred_option readable field"
| "well_formed_step (AssertExprStep e) \<longleftrightarrow> e \<noteq> []"
| "well_formed_step (HandleStep branches otherwise ms) \<longleftrightarrow>
     branches \<noteq> [] \<and> otherwise \<in> {None, Some ''fail'', Some ''skip''} \<and> ms = None \<and>
     list_all (\<lambda>b. well_formed_body (snd b)) branches"
| "well_formed_step (BranchStep from on fallback) \<longleftrightarrow>
     is_capture_var from \<and> on \<noteq> [] \<and> list_all (\<lambda>c. status_ok (MatchStatus (fst c)) \<and> well_formed_body (snd c)) on \<and>
     pred_option well_formed_body fallback"
| "well_formed_step (RunFlowStep file env) \<longleftrightarrow> file \<noteq> []"
| "well_formed_step (PointerStep touches ms) \<longleftrightarrow>
     touches \<noteq> [] \<and> list_all touch_ok touches \<and> (1 < length touches \<longrightarrow> list_all (\<lambda>t. PtID t \<noteq> []) touches) \<and>
     duration_ok ms"
| "well_formed_step (LongPressStep pos hold to) \<longleftrightarrow> location_ok pos \<and> duration_ok hold \<and> pred_option target_ok to"
| "well_formed_step (PinchStep center startGap endGap ms axis) \<longleftrightarrow>
     location_ok center \<and> duration_ok (Some startGap) \<and> duration_ok (Some endGap) \<and> startGap \<noteq> endGap \<and>
     duration_ok ms \<and> pred_option is_valid_pinch_axis axis"
| "well_formed_step (RotateStep center degrees radius ms) \<longleftrightarrow>
     location_ok center \<and> is_finite degrees \<and> degrees \<noteq> Fin 0 \<and> degrees \<noteq> NZero \<and>
     pred_option (\<lambda>r. f_lt (Fin 0) r) radius \<and> duration_ok ms"
| "well_formed_step s \<longleftrightarrow> True"
| "well_formed_body (InlineSteps steps) \<longleftrightarrow> list_all well_formed_step steps"
| "well_formed_body (StepsFile file) \<longleftrightarrow> True"

section \<open>Valid normal steps are well formed\<close>

lemma nonneg_finite: "is_finite f \<Longrightarrow> \<not> f_lt f (Fin 0) \<Longrightarrow> f_le (Fin 0) f"
  by (cases f) (auto simp: is_finite_def f_le_def)

lemma positive_finite: "is_finite f \<Longrightarrow> \<not> f_le f (Fin 0) \<Longrightarrow> f_lt (Fin 0) f"
  by (cases f) (auto simp: is_finite_def f_le_def)

lemma f_eq_finite: "is_finite f \<Longrightarrow> f_eq f f"
  by (cases f) (auto simp: is_finite_def)

lemma duration_valid: "pred_option is_finite ms \<Longrightarrow> validate_duration ms loc = [] \<Longrightarrow> duration_ok ms"
  by (cases ms) (auto simp: validate_duration_def duration_ok_def nonneg_finite)

lemma anchor_valid_known: "is_valid_pointer_anchor a \<Longrightarrow> anchor_known a"
  by (auto simp: is_valid_pointer_anchor_def pointer_anchor_values_def anchor_known_def bounds_anchor_def)

lemma normal_selector_ok: "normal_selector sel \<Longrightarrow> selector_ok sel"
  by (simp add: normal_selector_def normal_fields_def selector_ok_def)

lemma normal_target_ok: "normal_target t \<Longrightarrow> target_ok t"
  by (cases "TgAnchor t") (auto simp: normal_target_def target_ok_def normal_selector_ok anchor_valid_known split: option.splits)

lemma capture_var_valid: "validate_capture_var P name loc = [] \<longleftrightarrow> is_capture_var name"
  by (simp add: validate_capture_var_def)

lemma status_valid: "validate_status s loc = [] \<longleftrightarrow> status_ok s"
  by (cases s) (auto simp: validate_status_def status_ok_def)

lemma timeout_valid: "validate_timeout_ms ms loc = [] \<longleftrightarrow> time_ok ms"
  by (cases ms) (auto simp: validate_timeout_ms_def time_ok_def)

lemma location_valid:
  "(case t of None \<Rightarrow> False | Some x \<Rightarrow> normal_target x) \<Longrightarrow> location_ok t"
  by (cases t) (auto simp: location_ok_def normal_target_ok)

lemma action_valid:
  assumes "normal_action a" "validate_pointer_action P a loc = []"
  shows "PaType a \<in> action_types \<and> action_ms a \<noteq> NaN \<and> pred_option target_ok (PaTarget a) \<and>
    (PaType a \<in> {''down'', ''move''} \<longrightarrow> PaTarget a \<noteq> None) \<and> duration_ok (PaMs a) \<and> pred_option unit_interval (PaPressure a)"
  using assms(1)
proof (cases rule: normal_action_cases)
  case (touch kind t p)
  then show ?thesis
    by (auto simp: plain_action_def action_types_def action_ms_def normal_target_ok duration_ok_def)
next
  case (wait f)
  with assms(2) have "duration_ok (Some f)" "f \<noteq> NaN"
    by (auto simp: validate_pointer_action_def plain_action_def duration_ok_def nonneg_finite finite_iff is_nan_def)
  with wait show ?thesis
    by (simp add: plain_action_def action_types_def action_ms_def)
next
  case (capture l)
  then show ?thesis
    by (auto simp: plain_action_def action_types_def action_ms_def duration_ok_def)
next
  case up
  then show ?thesis
    by (auto simp: plain_action_def action_types_def action_ms_def duration_ok_def)
qed

lemma report_each_all:
  assumes "report_each f loc xs = []"
  shows "\<forall>x\<in>set xs. \<exists>place. f x place = []"
proof
  fix x assume "x \<in> set xs"
  then obtain i where "i < length xs" "x = xs ! i"
    by (auto simp: in_set_conv_nth)
  then have "(i, x) \<in> set (enumerate 0 xs)"
    by (simp add: in_set_enumerate_eq)
  with assms show "\<exists>place. f x place = []"
    by (auto simp: report_each_def)
qed

lemma touch_valid:
  assumes "list_all normal_action (PtActions t)" "validate_touch P t loc = []"
  shows "touch_ok t"
proof -
  have "\<forall>a\<in>set (PtActions t). normal_action a \<and> (\<exists>place. validate_pointer_action P a place = [])"
    using assms by (auto simp: validate_touch_def list_all_iff dest: report_each_all)
  then show ?thesis
    using assms action_valid [of _ P] by (fastforce simp: touch_ok_def plain_actions_def list_all_iff validate_touch_def)
qed

lemma pointer_valid:
  assumes "normal_step (PointerStep touches ms)" "validate_pointer_step P touches ms loc = []"
  shows "well_formed_step (PointerStep touches ms)"
proof -
  have "\<forall>t\<in>set touches. touch_ok t"
    using assms touch_valid [of _ P]
    by (auto simp: validate_pointer_step_def list_all_iff dest!: report_each_all)
  moreover have "1 < length touches \<longrightarrow> list_all (\<lambda>t. PtID t \<noteq> []) touches"
    using assms(2) by (auto simp: validate_pointer_step_def report_each_Nil [where ok = "\<lambda>t. PtID t \<noteq> []"])
  ultimately show ?thesis
    using assms by (auto simp: validate_pointer_step_def list_all_iff intro: duration_valid)
qed

lemma report_empty_Nil [simp]: "report_empty s loc = [] \<longleftrightarrow> s \<noteq> []"
  by (simp add: report_empty_def)

lemma swipe_direction_known: "dir \<in> set swipe_directions \<Longrightarrow> direction_of dir \<in> {DirUp, DirDown, DirLeft, DirRight}"
  by (auto simp: swipe_directions_def direction_of_def)

lemma readable_valid: "is_valid_read_field field \<Longrightarrow> readable field"
proof -
  obtain n where n: "Clickable n = Some True" "Enabled n = Some True" "Focused n = Some True" "Selected n = Some True"
    "Checked n = Some True" "Visible n = Some True"
    by (rule that [of "TreeNode Map.empty [] (Some True) (Some True) (Some True) (Some True) (Some True) (Some True)"]) simp_all
  have "\<forall>f\<in>set read_state_fields. read_state_field n f \<noteq> None"
    by (simp add: read_state_fields_def read_state_field_def n ex_bool_eq)
  moreover assume "is_valid_read_field field"
  ultimately show ?thesis
    unfolding is_valid_read_field_def readable_def by blast
qed

lemma valid_well_formed:
  "normal_step s \<Longrightarrow> validate_step P s loc = [] \<Longrightarrow> well_formed_step s"
  "normal_body b \<Longrightarrow> validate_steps_or_file P b loc = [] \<Longrightarrow> well_formed_body b"
proof (induction s and b arbitrary: loc and loc rule: well_formed_step_well_formed_body.induct)
  case (2 t into)
  then show ?case
    by (cases into) (simp_all add: normal_selector_ok)
next
  case (7 dir)
  then show ?case
    using swipe_direction_known [of dir] by simp
next
  case (13 sel field var)
  then show ?case
    by (cases field) (simp_all add: normal_selector_ok capture_var_valid readable_valid)
next
  case (19 pos hold to)
  then show ?case
    by (cases to) (auto simp: validate_long_press_step_def location_valid normal_target_ok intro: duration_valid)
next
  case (15 branches otherwise ms)
  then show ?case
    by (auto simp: list_all_iff normal_policy_def dest!: report_each_all)
next
  case (16 src on fallback)
  then show ?case
    by (cases fallback) (auto simp: list_all_iff capture_var_valid status_valid validate_optional_Nil dest!: report_each_all)
next
  case (18 touches ms)
  then show ?case
    using pointer_valid by simp
next
  case (20 center startGap endGap ms axis)
  then have "is_finite startGap" "is_finite endGap" "duration_ok ms" "\<not> f_eq startGap endGap"
    by (auto simp: validate_pinch_step_def intro: duration_valid)
  moreover from this have "startGap \<noteq> endGap"
    using f_eq_finite by auto
  ultimately show ?case
    using 20 by (auto simp: validate_pinch_step_def location_valid nonneg_finite) (auto simp: duration_ok_def nonneg_finite)
next
  case (21 center degrees radius ms)
  then have "duration_ok ms" "location_ok center" "\<not> f_eq degrees (Fin 0)" "is_finite degrees"
      "pred_option (\<lambda>r. \<not> f_le r (Fin 0) \<and> is_finite r) radius"
    by (cases radius; auto simp: validate_rotate_step_def location_valid intro: duration_valid)+
  then show ?case
    by (cases radius) (auto simp: positive_finite)
next
  case (23 steps)
  then show ?case
    by (auto simp: list_all_iff dest!: report_each_all)
qed (auto simp: normal_selector_ok timeout_valid capture_var_valid status_valid)

section \<open>Parsed scripts\<close>

definition precondition_ok :: "precondition \<Rightarrow> bool" where
  "precondition_ok p \<longleftrightarrow>
     (CondVisible (Check p) \<noteq> None) \<noteq> (CondNotVisible (Check p) \<noteq> None) \<and> well_formed_body (Setup p) \<and>
     Policy p \<in> {None, Some ''ensure'', Some ''always'', Some ''skip''}"

definition script_ok :: "parsed_script \<Rightarrow> bool" where
  "script_ok def \<longleftrightarrow>
     list_all well_formed_step (Steps def) \<and> list_all precondition_ok (Preconditions def) \<and>
     length (StepLines def) = length (Steps def) \<and> (Steps def \<noteq> [] \<or> AppID def \<noteq> []) \<and> ScriptName def \<noteq> [] \<and>
     [] \<notin> set (Requires def) \<and> [] \<notin> set (Tags def) \<and> Proxy def \<in> {None, Some ''required'', Some ''optional''} \<and>
     (case Format def of None \<Rightarrow> False | Some s \<Rightarrow> is_format s)"

lemma precondition_normal: "normalize_precondition_setup P raw = Inr p \<Longrightarrow> normal_body (Setup p)"
  by (auto simp: normalize_precondition_setup_def res_bind_Inr_iff split: option.splits dest!: normalized_steps_normal(3))

lemma preconditions_normal: "normalize_preconditions P raws = Inr ps \<Longrightarrow> list_all (\<lambda>p. normal_body (Setup p)) ps"
  by (induction P raws arbitrary: ps rule: normalize_preconditions.induct)
    (fastforce simp: res_bind_Inr_iff dest: precondition_normal)+

lemma precondition_valid:
  assumes "normal_body (Setup p)" "validate_precondition P p loc = []"
  shows "precondition_ok p"
proof -
  have "Policy p \<in> {None, Some ''ensure'', Some ''always'', Some ''skip''}"
    using assms(2) by (cases "Policy p") (auto simp: validate_precondition_def)
  then show ?thesis
    using assms valid_well_formed(2)
    by (auto simp: validate_precondition_def precondition_ok_def validate_precondition_check_def)
qed

lemma apply_config_result:
  assumes "apply_config_fields P def config = Inr def'"
  shows "Steps def' = Steps def \<and> AppID def' = AppID def \<and> Env def' = Env def \<and> Format def' \<noteq> None \<and>
    list_all (\<lambda>p. normal_body (Setup p)) (Preconditions def')"
  using assms preconditions_normal
  by (auto simp: apply_config_fields_def res_bind_Inr_iff preconditions_config_def Let_def split: if_splits option.splits)

lemma pad_step_lines_length [simp]: "length (pad_step_lines lines n) = n"
  by (simp add: pad_step_lines_def)

lemma steps_valid:
  "list_all normal_step steps \<Longrightarrow> report_each (validate_step P) loc steps = [] \<Longrightarrow> list_all well_formed_step steps"
  using valid_well_formed(1) by (fastforce simp: list_all_iff dest: report_each_all)

lemma preconditions_valid:
  "list_all (\<lambda>p. normal_body (Setup p)) ps \<Longrightarrow> report_each (validate_precondition P) loc ps = [] \<Longrightarrow>
   list_all precondition_ok ps"
  using precondition_valid by (fastforce simp: list_all_iff dest: report_each_all)

lemma nonempty_valid:
  "report_each (\<lambda>r place. report_if (r = []) (msg place)) loc rs = [] \<Longrightarrow> [] \<notin> set rs"
  by (auto dest!: report_each_all)

lemma validated_script_ok:
  assumes "validate_script P def = []" "list_all normal_step (Steps def)" "Format def \<noteq> None"
    "list_all (\<lambda>p. normal_body (Setup p)) (Preconditions def)" "length (StepLines def) = length (Steps def)"
    "Steps def \<noteq> [] \<or> AppID def \<noteq> []"
  shows "script_ok def"
proof -
  have v: "pred_option is_format (Format def)" "ScriptName def \<noteq> []" "pred_option (\<lambda>s. s = ''required'' \<or> s = ''optional'') (Proxy def)"
    "report_each (\<lambda>tag place. report_if (tag = []) (place @ '': must not be empty'')) ''tags'' (Tags def) = []"
    "report_each (\<lambda>r place. report_if (r = []) (place @ '': must not be empty'')) ''requires'' (Requires def) = []"
    "report_each (validate_precondition P) ''preconditions'' (Preconditions def) = []"
    "report_each (validate_step P) ''steps'' (Steps def) = []"
    using assms(1) by (auto simp: validate_script_def)
  have "Proxy def \<in> {None, Some ''required'', Some ''optional''}"
    using v(3) by (cases "Proxy def") auto
  then show ?thesis
    using assms v(1,2) steps_valid [OF assms(2) v(7)] preconditions_valid [OF assms(4) v(6)]
      nonempty_valid [OF v(4)] nonempty_valid [OF v(5)]
    by (auto simp: script_ok_def)
qed


section \<open>Placeholders\<close>

datatype template_part = Literal string | Variable string

fun part_text :: "template_part \<Rightarrow> string" where
  "part_text (Literal s) = s"
| "part_text (Variable name) = ''${'' @ name @ ''}''"

fun part_value :: "(string \<rightharpoonup> string) \<Rightarrow> template_part \<Rightarrow> string" where
  "part_value env (Literal s) = s"
| "part_value env (Variable name) = (case env name of Some v \<Rightarrow> v | None \<Rightarrow> part_text (Variable name))"

fun proper_part :: "template_part \<Rightarrow> bool" where
  "proper_part (Literal s) \<longleftrightarrow> CHR ''$'' \<notin> set s"
| "proper_part (Variable name) \<longleftrightarrow> name \<noteq> [] \<and> list_all is_word_char name"

lemma resolve_literal: "CHR ''$'' \<notin> set s \<Longrightarrow> resolve_text env (s @ rest) = s @ resolve_text env rest"
  by (induction s) (auto simp: placeholder_def)

lemma takeWhile_word: "list_all is_word_char name \<Longrightarrow> takeWhile is_word_char (name @ CHR ''}'' # rest) = name"
  by (induction name) (auto simp: is_word_char_def)

lemma placeholder_variable:
  "name \<noteq> [] \<Longrightarrow> list_all is_word_char name \<Longrightarrow> placeholder (part_text (Variable name) @ rest) = Some name"
  by (simp add: placeholder_def takeWhile_word)

lemma resolve_variable:
  assumes "name \<noteq> []" "list_all is_word_char name"
  shows "resolve_text env (part_text (Variable name) @ rest) = part_value env (Variable name) @ resolve_text env rest"
  using placeholder_variable [OF assms, of rest] by (simp split: option.split)

text \<open>
  A text made of literal parts without a dollar sign and of placeholders resolves part by part: a
  placeholder becomes the value of its variable, or stays as it is when the variable has none, and a value
  is not searched for placeholders again.
\<close>

theorem resolve_template:
  assumes "list_all proper_part ts"
  shows "resolve_text env (concat (map part_text ts)) = concat (map (part_value env) ts)"
  using assms
proof (induction ts)
  case (Cons t ts)
  then show ?case
    by (cases t) (use resolve_variable in \<open>simp_all add: resolve_literal del: part_text.simps(2)\<close>)
qed simp

lemma resolve_template_witness:
  "resolve_text [''user'' \<mapsto> ''${x}''] ''hi ${user}, ${other}!'' = ''hi ${x}, ${other}!''"
  using resolve_template [of "[Literal ''hi '', Variable ''user'', Literal '', '', Variable ''other'', Literal ''!'']" "[''user'' \<mapsto> ''${x}'']"]
  by (simp add: is_word_char_def)

text \<open>A number that is no duration passes as the delay between steps.\<close>

lemma step_delay_nan_accepted:
  "case parse_script P \<lparr>Config = [(''stepDelay'', AnyNumber NaN)], RawSteps = [AnyString ''back''], SourceLines = [1]\<rparr>
     Map.empty of Inr def \<Rightarrow> StepDelay def = Some NaN | Inl e \<Rightarrow> False"
proof -
  have r: "resolve_variables env (AnyString ''back'') = AnyString ''back''" for env
    using resolve_literal [of "''back''" env "[]"] by simp
  have s: "normalize_do_steps P 0 [AnyString ''back''] = Inr [BackStep]"
    by (simp add: normalize_step.simps plain_command plain_normalizers_def step_commands_def reads)
  have c: "string_config [(''stepDelay'', AnyNumber NaN)] key = Inr None" "list_config [(''stepDelay'', AnyNumber NaN)] key = Inr []"
    if "key \<noteq> ''stepDelay''" for key
    using that by (simp_all add: string_config_def list_config_def optional_field_def reads)
  have "number_config [(''stepDelay'', AnyNumber NaN)] ''stepDelay'' = Inr (Some NaN)"
    by (simp add: number_config_def optional_field_def reads)
  then show ?thesis
    by (simp add: parse_script_def Let_def r [simplified] app_id_field_def s [simplified] c apply_config_fields_def preconditions_config_def new_script_def
        validate_script_def with_default_def default_format_def default_name_def report_each_def report_opt_def report_if_def
        is_format_def is_dec_def byte_of_def reads)
qed

end
