(* ===== verification/Scenario_Parse.thy ===== *)
theory Scenario_Parse
  imports Script_Parse
begin

text \<open>
  A scenario from its decoded YAML root to a validated definition
  (\<^verbatim>\<open>core/internal/script/scenario_schema.go\<close>, \<^verbatim>\<open>scenario_parse.go\<close>): every field is checked, the issues
  are collected in the order of the fields, and one text lists them. Decoding the YAML text is a
  parameter.
\<close>

section \<open>Definitions and issues\<close>

record scenario_definition =
  SnFormat :: "string option"
  SnName :: string
  SnDescription :: "string option"
  SnScripts :: "string list"
  SnOnFailure :: "string option"
  SnPreconditions :: "string option"
  SnEnv :: "(string \<times> string) list"
  SnTags :: "string list"

type_synonym zod_issue = "string list \<times> string"

definition scenario_known_keys :: "string list" where
  "scenario_known_keys =
     [''format'', ''name'', ''description'', ''scripts'', ''onFailure'', ''preconditions'', ''env'', ''tags'']"

definition path_string :: "zod_issue \<Rightarrow> string" where
  "path_string issue = (if fst issue = [] then ''<root>'' else join_with ''.'' (fst issue))"

definition format_zod_issues :: "zod_issue list \<Rightarrow> string" where
  "format_zod_issues issues =
     join_with [newline] (map (\<lambda>issue. ''  - '' @ path_string issue @ '': '' @ snd issue) issues)"

definition invalid_type_message :: "string \<Rightarrow> any_value \<Rightarrow> string" where
  "invalid_type_message expected v = ''Expected '' @ expected @ '', received '' @ zod_received_type v"

definition too_small_string_message :: "nat \<Rightarrow> string" where
  "too_small_string_message n = ''String must contain at least '' @ utoa n @ '' character(s)''"

definition too_small_array_message :: "nat \<Rightarrow> string" where
  "too_small_array_message n = ''Array must contain at least '' @ utoa n @ '' element(s)''"

definition single_quote :: char where "single_quote = CHR 0x27"

definition join_quoted :: "string list \<Rightarrow> string \<Rightarrow> string" where
  "join_quoted vs sep = join_with sep (map (\<lambda>v. single_quote # v @ [single_quote]) vs)"

definition invalid_enum_type_message :: "string list \<Rightarrow> any_value \<Rightarrow> string" where
  "invalid_enum_type_message options v = ''Expected '' @ join_quoted options '' | '' @ '', received '' @ zod_received_type v"

definition invalid_enum_value_message :: "string list \<Rightarrow> string \<Rightarrow> string" where
  "invalid_enum_value_message options received =
     ''Invalid enum value. Expected '' @ join_quoted options '' | '' @ '', received '' @
     single_quote # received @ [single_quote]"

section \<open>Fields\<close>

text \<open>Each check gives what it stores and the issues it reports; a key that is absent reports none.\<close>

definition is_scenario_format :: "string \<Rightarrow> bool" where
  "is_scenario_format s \<longleftrightarrow> has_prefix s ''atomyx-scenario/v'' \<and> drop 17 s \<noteq> [] \<and> list_all is_dec (drop 17 s)"

definition check_format :: "any_map \<Rightarrow> string option \<times> zod_issue list" where
  "check_format raw =
     (case map_of raw ''format'' of
        None \<Rightarrow> (None, [])
      | Some v \<Rightarrow>
          (case as_string v of
             None \<Rightarrow> (None, [([''format''], invalid_type_message ''string'' v)])
           | Some s \<Rightarrow>
               if is_scenario_format s then (Some s, [])
               else (None, [([''format''], ''format must match '' @ single_quote # ''atomyx-scenario/v<n>'' @ single_quote #
                      '' (e.g. '' @ single_quote # ''atomyx-scenario/v1'' @ single_quote # '')'')])))"

definition check_name :: "any_map \<Rightarrow> string \<times> zod_issue list" where
  "check_name raw =
     (case map_of raw ''name'' of
        None \<Rightarrow> ([], [([''name''], ''Required'')])
      | Some v \<Rightarrow>
          (case as_string v of
             None \<Rightarrow> ([], [([''name''], invalid_type_message ''string'' v)])
           | Some s \<Rightarrow> if s = [] then ([], [([''name''], too_small_string_message 1)]) else (s, [])))"

definition check_description :: "any_map \<Rightarrow> string option \<times> zod_issue list" where
  "check_description raw =
     (case map_of raw ''description'' of
        None \<Rightarrow> (None, [])
      | Some v \<Rightarrow>
          (case as_string v of
             None \<Rightarrow> (None, [([''description''], invalid_type_message ''string'' v)])
           | Some s \<Rightarrow> (Some s, [])))"

fun check_items :: "string \<Rightarrow> nat \<Rightarrow> any_value list \<Rightarrow> string list \<times> zod_issue list" where
  "check_items key i [] = ([], [])"
| "check_items key i (item # rest) =
     (let (items, issues) = check_items key (i + 1) rest in
      case as_string item of
        None \<Rightarrow> (items, ([key, utoa i], invalid_type_message ''string'' item) # issues)
      | Some s \<Rightarrow>
          if s = [] then (items, ([key, utoa i], too_small_string_message 1) # issues) else (s # items, issues))"

definition check_scripts :: "any_map \<Rightarrow> string list \<times> zod_issue list" where
  "check_scripts raw =
     (case map_of raw ''scripts'' of
        None \<Rightarrow> ([], [([''scripts''], ''Required'')])
      | Some v \<Rightarrow>
          (case as_slice v of
             None \<Rightarrow> ([], [([''scripts''], invalid_type_message ''array'' v)])
           | Some items \<Rightarrow>
               (let (scripts, issues) = check_items ''scripts'' 0 items in
                (scripts, (if items = [] then [([''scripts''], too_small_array_message 1)] else []) @ issues))))"

definition check_enum :: "string \<Rightarrow> string list \<Rightarrow> any_map \<Rightarrow> string option \<times> zod_issue list" where
  "check_enum key options raw =
     (case map_of raw key of
        None \<Rightarrow> (None, [])
      | Some v \<Rightarrow>
          (case as_string v of
             None \<Rightarrow> (None, [([key], invalid_enum_type_message options v)])
           | Some s \<Rightarrow>
               if s \<notin> set options then (None, [([key], invalid_enum_value_message options s)]) else (Some s, [])))"

fun check_env_entries :: "any_map \<Rightarrow> (string \<times> string) list \<times> zod_issue list" where
  "check_env_entries [] = ([], [])"
| "check_env_entries ((key, v) # rest) =
     (let (env, issues) = check_env_entries rest in
      case as_string v of
        None \<Rightarrow> (env, ([''env'', key], invalid_type_message ''string'' v) # issues)
      | Some s \<Rightarrow> ((key, s) # env, issues))"

definition check_env :: "any_map \<Rightarrow> (string \<times> string) list \<times> zod_issue list" where
  "check_env raw =
     (case map_of raw ''env'' of
        None \<Rightarrow> ([], [])
      | Some v \<Rightarrow>
          (case as_map v of
             None \<Rightarrow> ([], [([''env''], invalid_type_message ''object'' v)])
           | Some m \<Rightarrow> check_env_entries m))"

definition check_tags :: "any_map \<Rightarrow> string list \<times> zod_issue list" where
  "check_tags raw =
     (case map_of raw ''tags'' of
        None \<Rightarrow> ([], [])
      | Some v \<Rightarrow>
          (case as_slice v of
             None \<Rightarrow> ([], [([''tags''], invalid_type_message ''array'' v)])
           | Some items \<Rightarrow> check_items ''tags'' 0 items))"

definition check_extra_keys :: "any_map \<Rightarrow> zod_issue list" where
  "check_extra_keys raw =
     (let extra = filter (\<lambda>k. k \<notin> set scenario_known_keys) (map fst raw) in
      if extra = [] then []
      else [([], ''Unrecognized key(s) in object: '' @ join_quoted (sort_key id extra) '', '')])"

definition validate_scenario :: "any_map \<Rightarrow> scenario_definition \<times> zod_issue list" where
  "validate_scenario raw =
     (let (fmt, i1) = check_format raw;
          (name, i2) = check_name raw;
          (description, i3) = check_description raw;
          (scripts, i4) = check_scripts raw;
          (onFailure, i5) = check_enum ''onFailure'' [''stop'', ''continue''] raw;
          (preconditions, i6) = check_enum ''preconditions'' [''skip'', ''force''] raw;
          (env, i7) = check_env raw;
          (tags, i8) = check_tags raw
      in (\<lparr>SnFormat = fmt, SnName = name, SnDescription = description, SnScripts = scripts, SnOnFailure = onFailure,
           SnPreconditions = preconditions, SnEnv = env, SnTags = tags\<rparr>,
          i1 @ i2 @ i3 @ i4 @ i5 @ i6 @ i7 @ i8 @ check_extra_keys raw))"

section \<open>ParseScenario\<close>

text \<open>\<open>yaml\<close> is \<^verbatim>\<open>yaml.Unmarshal\<close>: the text of its error, or the value.\<close>

definition parse_scenario :: "(string \<Rightarrow> string + any_value) \<Rightarrow> string \<Rightarrow> scenario_definition normed" where
  "parse_scenario yaml content =
     (case yaml content of
        Inl e \<Rightarrow> norm_fail (''Invalid YAML in scenario: '' @ e)
      | Inr v \<Rightarrow>
          (case v of
             AnyMap raw \<Rightarrow>
               (case validate_scenario raw of
                  (def, issues) \<Rightarrow>
                    if issues \<noteq> [] then
                      norm_fail (''Scenario validation failed:'' @ newline # format_zod_issues issues)
                    else Inr def)
           | _ \<Rightarrow> norm_fail ''Scenario root must be a YAML mapping with `name` and `scripts` keys''))"

definition is_scenario_yaml :: "(string \<Rightarrow> string + any_value) \<Rightarrow> string \<Rightarrow> bool" where
  "is_scenario_yaml yaml content =
     (case yaml content of
        Inr (AnyMap doc) \<Rightarrow> as_slice (get_field doc ''scripts'') \<noteq> None
      | _ \<Rightarrow> False)"

section \<open>Accepted scenarios\<close>

definition scenario_ok :: "scenario_definition \<Rightarrow> bool" where
  "scenario_ok def \<longleftrightarrow>
     SnName def \<noteq> [] \<and> SnScripts def \<noteq> [] \<and> [] \<notin> set (SnScripts def) \<and> [] \<notin> set (SnTags def) \<and>
     SnOnFailure def \<in> {None, Some ''stop'', Some ''continue''} \<and>
     SnPreconditions def \<in> {None, Some ''skip'', Some ''force''} \<and> pred_option is_scenario_format (SnFormat def)"

definition scenario_entries :: "scenario_definition \<Rightarrow> any_map" where
  "scenario_entries def =
     (let opt = \<lambda>key v. (case v of None \<Rightarrow> [] | Some s \<Rightarrow> [(key, AnyString s)]) in
      opt ''format'' (SnFormat def) @ [(''name'', AnyString (SnName def))] @ opt ''description'' (SnDescription def) @
      [(''scripts'', AnyArray (map AnyString (SnScripts def)))] @ opt ''onFailure'' (SnOnFailure def) @
      opt ''preconditions'' (SnPreconditions def) @
      [(''env'', AnyMap (map (\<lambda>(k, s). (k, AnyString s)) (SnEnv def))), (''tags'', AnyArray (map AnyString (SnTags def)))])"

lemma as_string_AnyString [simp]: "as_string (AnyString s) = Some s"
  by simp

lemma check_items_clean:
  "snd (check_items key i items) = [] \<Longrightarrow> [] \<notin> set (fst (check_items key i items)) \<and> length (fst (check_items key i items)) = length items"
  by (induction key i items rule: check_items.induct) (auto split: option.splits if_splits prod.splits)

lemma check_items_strings: "[] \<notin> set ss \<Longrightarrow> check_items key i (map AnyString ss) = (ss, [])"
  by (induction ss arbitrary: i) auto

lemma check_env_strings: "check_env_entries (map (\<lambda>(k, s). (k, AnyString s)) env) = (env, [])"
  by (induction env) auto

lemma validated_scenario_ok:
  assumes "snd (validate_scenario raw) = []"
  shows "scenario_ok (fst (validate_scenario raw))"
proof -
  have i: "snd (check_format raw) = []" "snd (check_name raw) = []" "snd (check_scripts raw) = []"
    "snd (check_enum ''onFailure'' [''stop'', ''continue''] raw) = []"
    "snd (check_enum ''preconditions'' [''skip'', ''force''] raw) = []" "snd (check_tags raw) = []"
    using assms by (auto simp: validate_scenario_def split: prod.splits)
  have f: "fst (check_name raw) \<noteq> []" "pred_option is_scenario_format (fst (check_format raw))"
    using i by (auto simp: check_name_def check_format_def split: option.splits if_splits)
  have s: "fst (check_scripts raw) \<noteq> [] \<and> [] \<notin> set (fst (check_scripts raw))"
    using i(3) check_items_clean [of "''scripts''" 0]
    by (fastforce simp: check_scripts_def split: option.splits if_splits prod.splits)
  have t: "[] \<notin> set (fst (check_tags raw))"
    using i(6) check_items_clean [of "''tags''" 0] by (auto simp: check_tags_def split: option.splits)
  have e: "fst (check_enum key options raw) \<in> {None} \<union> Some ` set options" for key options
    by (auto simp: check_enum_def split: option.splits)
  show ?thesis
    using f s t e [of "''onFailure''" "[''stop'', ''continue'']"] e [of "''preconditions''" "[''skip'', ''force'']"]
    by (simp add: validate_scenario_def scenario_ok_def split: prod.splits) (metis fst_conv)
qed

lemma entries_lookup:
  "map_of (scenario_entries def) ''format'' = map_option AnyString (SnFormat def)"
  "map_of (scenario_entries def) ''name'' = Some (AnyString (SnName def))"
  "map_of (scenario_entries def) ''description'' = map_option AnyString (SnDescription def)"
  "map_of (scenario_entries def) ''scripts'' = Some (AnyArray (map AnyString (SnScripts def)))"
  "map_of (scenario_entries def) ''onFailure'' = map_option AnyString (SnOnFailure def)"
  "map_of (scenario_entries def) ''preconditions'' = map_option AnyString (SnPreconditions def)"
  "map_of (scenario_entries def) ''env'' = Some (AnyMap (map (\<lambda>(k, s). (k, AnyString s)) (SnEnv def)))"
  "map_of (scenario_entries def) ''tags'' = Some (AnyArray (map AnyString (SnTags def)))"
  by (simp_all add: scenario_entries_def split: option.split)

lemma entries_known: "check_extra_keys (scenario_entries def) = []"
proof -
  have "set (map fst (scenario_entries def)) \<subseteq> set scenario_known_keys"
    by (cases "SnFormat def"; cases "SnDescription def"; cases "SnOnFailure def"; cases "SnPreconditions def")
      (simp_all add: scenario_entries_def scenario_known_keys_def)
  then have "filter (\<lambda>k. k \<notin> set scenario_known_keys) (map fst (scenario_entries def)) = []"
    by (auto simp: filter_empty_conv)
  then show ?thesis
    by (simp only: check_extra_keys_def Let_def refl if_True)
qed

lemma check_enum_known:
  "map_of raw key = map_option AnyString x \<Longrightarrow> x \<in> {None} \<union> Some ` set options \<Longrightarrow> check_enum key options raw = (x, [])"
  by (cases x) (auto simp: check_enum_def)

text \<open>Every well-formed scenario is the result of parsing the document that spells it out.\<close>

lemma scenario_roundtrip:
  assumes "scenario_ok def"
  shows "validate_scenario (scenario_entries def) = (def, [])"
proof -
  let ?e = "scenario_entries def"
  have "check_format ?e = (SnFormat def, [])"
    using assms by (cases "SnFormat def") (simp_all add: check_format_def entries_lookup scenario_ok_def)
  moreover have "check_name ?e = (SnName def, [])" "check_description ?e = (SnDescription def, [])"
    "check_scripts ?e = (SnScripts def, [])" "check_env ?e = (SnEnv def, [])" "check_tags ?e = (SnTags def, [])"
    using assms by (auto simp: check_name_def check_description_def check_scripts_def check_env_def check_tags_def
        entries_lookup scenario_ok_def check_items_strings check_env_strings as_map_def split: option.split)
  moreover have "check_enum ''onFailure'' [''stop'', ''continue''] ?e = (SnOnFailure def, [])"
    "check_enum ''preconditions'' [''skip'', ''force''] ?e = (SnPreconditions def, [])"
    using assms by (auto simp: scenario_ok_def entries_lookup intro!: check_enum_known)
  ultimately show ?thesis
    by (simp add: validate_scenario_def entries_known)
qed

end
