(* ===== verification/Scenario_Run.thy ===== *)
theory Scenario_Run
  imports Scenario_Parse Runner_Commands
begin

text \<open>
  Ordered groups of scripts (\<^verbatim>\<open>core/internal/scenario/scenario.go\<close>) and of script or scenario entries
  (\<^verbatim>\<open>suite.go\<close>), each run by a fresh script runner over one shared \<^verbatim>\<open>Orchestra\<close>. The runner of a child is
  the model of \<^verbatim>\<open>runner.ScriptRunner\<close>, with the bound on nested lists as a parameter.
\<close>

section \<open>Child runners\<close>

text \<open>
  What the children of a group share: the dependencies of their runner, the registry of its commands (the
  \<^verbatim>\<open>Commands\<close> the group forwards, which act through the dependencies of the child), the parser's platform, the YAML decoder (split of a script's documents, and decoding
  of a scenario) and the bound on nesting. A group has no loader of flow files to give to a child and
  injects no artifacts. A suite sets no hook for step events, so those its children emit are not observed.
\<close>

record ('w, 'e) group_deps =
  GdRunner :: "('w, 'e) runner_deps"
  GdCommands :: "('w, 'e) runner_deps \<Rightarrow> 'w run_state registry"
  GdPlatform :: script_platform
  GdSplit :: "string \<Rightarrow> string + split_result"
  GdYaml :: "string \<Rightarrow> string + any_value"
  GdExternalEnv :: "string \<rightharpoonup> string"
  GdBound :: nat

record 'w group_state =
  GsWorld :: "session \<times> 'w"
  GsStepEvents :: "step_event list"

definition child_deps :: "('w, 'e) group_deps \<Rightarrow> preconditions_override \<Rightarrow> ('w, 'e) runner_deps" where
  "child_deps g override = (GdRunner g)\<lparr>DepLoad := None, DepInjectedArtifacts := False, DepOverride := override\<rparr>"

text \<open>\<^verbatim>\<open>NewScriptRunner\<close>: nothing carried over but the world and the events sent to the hook.\<close>

definition new_runner :: "'w group_state \<Rightarrow> 'w run_state" where
  "new_runner gs =
     \<lparr>RsVariables = Map.empty, RsCaptures = Map.empty, RsSetups = {}, RsIndex = 0, RsDepth = 0,
      RsCompletedRequires = {}, RsCallStack = {}, RsShots = [], RsEvents = GsStepEvents gs, RsWorld = GsWorld gs\<rparr>"

definition after_child :: "'w run_state \<Rightarrow> 'w group_state" where
  "after_child st = \<lparr>GsWorld = RsWorld st, GsStepEvents = RsEvents st\<rparr>"

definition error_text :: "norm_error \<Rightarrow> string" where
  "error_text e =
     (case e of NormParse msg \<Rightarrow> msg | NormExtract _ \<Rightarrow> ''extract.values: one or more values are not strings'')"

definition parse_script_text :: "('w, 'e) group_deps \<Rightarrow> string \<Rightarrow> (string \<rightharpoonup> string) \<Rightarrow> string + parsed_script" where
  "parse_script_text g content env =
     (case GdSplit g content of
        Inl e \<Rightarrow> Inl e
      | Inr docs \<Rightarrow> (case parse_script (GdPlatform g) docs env of Inl e \<Rightarrow> Inl (error_text e) | Inr def \<Rightarrow> Inr def))"

definition run_child ::
  "('w, 'e) group_deps \<Rightarrow> preconditions_override \<Rightarrow> parsed_script \<Rightarrow> 'w group_state \<Rightarrow>
   ((string + script_result) \<times> 'w group_state) option"
where
  "run_child g override def gs =
     (let d = child_deps g override in
      case run (GdBound g) d (GdCommands g d) (script_definition.truncate def) (new_runner gs) of
        None \<Rightarrow> None
      | Some (r, st) \<Rightarrow> Some (r, after_child st))"

section \<open>Scenarios\<close>

datatype script_run_status = StatusPassed | StatusFailed | StatusSkipped | StatusErrored

record scenario_script_result =
  ScScriptIndex :: nat
  ScScriptPath :: string
  ScStatus :: script_run_status
  ScResult :: "script_result option"
  ScError :: "string option"
  ScDurationMs :: int

record scenario_result =
  ScenarioName :: string
  ScenarioOk :: bool
  ScenarioScripts :: "scenario_script_result list"
  ScenarioTotal :: nat
  ScenarioPassed :: nat
  ScenarioDurationMs :: int

datatype scenario_event =
  ScenarioStarted string nat
| ScriptStarted nat string
| ScriptCompleted nat string script_run_status int "nat option"
| ScenarioCompleted bool nat nat int

text \<open>\<^verbatim>\<open>runOne\<close>; \<open>load\<close> reads the text of a script, as the files are at that time.\<close>

type_synonym 'w load_script = "string \<Rightarrow> 'w \<Rightarrow> string + string"

definition run_one ::
  "('w, 'e) group_deps \<Rightarrow> preconditions_override \<Rightarrow> 'w load_script \<Rightarrow> (string \<rightharpoonup> string) \<Rightarrow> string \<Rightarrow> 'w group_state \<Rightarrow>
   ((script_run_status \<times> script_result option \<times> string option) \<times> 'w group_state) option"
where
  "run_one g override load env file gs =
     (case load file (snd (GsWorld gs)) of
        Inl msg \<Rightarrow> Some ((StatusErrored, None, Some msg), gs)
      | Inr content \<Rightarrow>
          (case parse_script_text g content env of
             Inl msg \<Rightarrow> Some ((StatusErrored, None, Some msg), gs)
           | Inr def \<Rightarrow>
               (case run_child g override def gs of
                  None \<Rightarrow> None
                | Some (Inl msg, gs') \<Rightarrow> Some ((StatusErrored, None, Some msg), gs')
                | Some (Inr res, gs') \<Rightarrow>
                    Some ((if ResOk res then StatusPassed else StatusFailed, Some res, None), gs'))))"

definition group_now :: "('w, 'e) group_deps \<Rightarrow> 'w group_state \<Rightarrow> int" where
  "group_now g gs = NowMs (DepClock (GdRunner g)) (snd (GsWorld gs))"

definition group_context_error :: "('w, 'e) group_deps \<Rightarrow> 'w group_state \<Rightarrow> string option" where
  "group_context_error g gs =
     map_option (DepContextText (GdRunner g)) (CtxErr (DepClock (GdRunner g)) (snd (GsWorld gs)))"

definition skipped_result :: "nat \<Rightarrow> string \<Rightarrow> scenario_script_result" where
  "skipped_result i file =
     \<lparr>ScScriptIndex = i, ScScriptPath = file, ScStatus = StatusSkipped, ScResult = None, ScError = None, ScDurationMs = 0\<rparr>"

text \<open>
  The loop over the scripts, with whether a stop was requested, the results and the scenario events so
  far; the error is that of the canceled context.
\<close>

fun scenario_loop ::
  "('w, 'e) group_deps \<Rightarrow> preconditions_override \<Rightarrow> 'w load_script \<Rightarrow> (string \<rightharpoonup> string) \<Rightarrow> string \<Rightarrow> nat \<Rightarrow> string list \<Rightarrow> bool \<Rightarrow>
   scenario_script_result list \<Rightarrow> scenario_event list \<Rightarrow> 'w group_state \<Rightarrow>
   ((string + scenario_script_result list) \<times> scenario_event list \<times> 'w group_state) option"
where
  "scenario_loop g override load env onFailure i [] stop results events gs = Some (Inr results, events, gs)"
| "scenario_loop g override load env onFailure i (file # rest) stop results events gs =
     (case group_context_error g gs of
        Some e \<Rightarrow> Some (Inl e, events, gs)
      | None \<Rightarrow>
          if stop then
            scenario_loop g override load env onFailure (i + 1) rest stop (results @ [skipped_result i file]) events gs
          else
            (case run_one g override load env file gs of
               None \<Rightarrow> None
             | Some ((status, result, msg), gs') \<Rightarrow>
                 (let ms = group_now g gs' - group_now g gs;
                      failedAt = (case result of None \<Rightarrow> None | Some r \<Rightarrow> ResFailedAtStep r);
                      entry = \<lparr>ScScriptIndex = i, ScScriptPath = file, ScStatus = status, ScResult = result,
                               ScError = msg, ScDurationMs = ms\<rparr>
                  in scenario_loop g override load env onFailure (i + 1) rest
                       (status \<noteq> StatusPassed \<and> onFailure = ''stop'') (results @ [entry])
                       (events @ [ScriptStarted i file, ScriptCompleted i file status ms failedAt]) gs')))"

definition on_failure_of :: "scenario_definition \<Rightarrow> string" where
  "on_failure_of def = (case SnOnFailure def of None \<Rightarrow> ''stop'' | Some s \<Rightarrow> s)"

definition child_env :: "('w, 'e) group_deps \<Rightarrow> scenario_definition \<Rightarrow> (string \<rightharpoonup> string)" where
  "child_env g def = map_of (SnEnv def) ++ GdExternalEnv g"

definition run_scenario ::
  "('w, 'e) group_deps \<Rightarrow> preconditions_override \<Rightarrow> 'w load_script \<Rightarrow> scenario_definition \<Rightarrow> 'w group_state \<Rightarrow>
   ((string + scenario_result) \<times> scenario_event list \<times> 'w group_state) option"
where
  "run_scenario g override load def gs =
     (let total = length (SnScripts def); env = child_env g def in
      case scenario_loop g override load env (on_failure_of def) 0 (SnScripts def) False []
             [ScenarioStarted (SnName def) total] gs of
        None \<Rightarrow> None
      | Some (Inl e, events, gs') \<Rightarrow> Some (Inl e, events, gs')
      | Some (Inr results, events, gs') \<Rightarrow>
          (let passed = length (filter (\<lambda>r. ScStatus r = StatusPassed) results);
               ok = list_all (\<lambda>r. ScStatus r = StatusPassed) results;
               ms = group_now g gs' - group_now g gs
           in Some (Inr \<lparr>ScenarioName = SnName def, ScenarioOk = ok, ScenarioScripts = results, ScenarioTotal = total,
                         ScenarioPassed = passed, ScenarioDurationMs = ms\<rparr>,
                    events @ [ScenarioCompleted ok total passed ms], gs')))"

section \<open>Suites\<close>

datatype suite_entry_kind = KindScript | KindScenario
datatype suite_entry_status = EntryPassed | EntryFailed

record suite_entry =
  SePath :: string
  SeContent :: string

datatype suite_outcome = ScriptOutcome script_result | ScenarioOutcome scenario_result

record suite_entry_result =
  SrPath :: string
  SrKind :: suite_entry_kind
  SrStatus :: suite_entry_status
  SrOutcome :: "suite_outcome option"
  SrError :: "string option"
  SrEntryMs :: int

record suite_result =
  SuiteName :: "string option"
  SuiteOk :: bool
  SuiteEntries :: "suite_entry_result list"
  SuiteTotal :: nat
  SuitePassed :: nat
  SuiteFailed :: nat
  SuiteDurationMs :: int

text \<open>
  What a suite adds: the reset of the network capture, the loader for the scenario files of a directory
  and \<^verbatim>\<open>filepath.Dir\<close>; its options, with the name and the precondition override of an entry.
\<close>

record ('w, 'e) suite_deps =
  SdGroup :: "('w, 'e) group_deps"
  SdResetCapture :: "('w \<Rightarrow> 'w) option"
  SdLoader :: "(string \<Rightarrow> 'w load_script) option"
  SdDir :: "string \<Rightarrow> string"

record suite_options =
  SoName :: "string option"
  SoResolve :: "(string option \<Rightarrow> preconditions_override) option"

definition override_for :: "suite_options option \<Rightarrow> string option \<Rightarrow> preconditions_override" where
  "override_for options level =
     (case options of
        None \<Rightarrow> NoOverride
      | Some opts \<Rightarrow> (case SoResolve opts of None \<Rightarrow> NoOverride | Some f \<Rightarrow> f level))"

definition status_for :: "bool \<Rightarrow> suite_entry_status" where
  "status_for ok = (if ok then EntryPassed else EntryFailed)"

definition run_script_entry ::
  "('w, 'e) suite_deps \<Rightarrow> suite_entry \<Rightarrow> suite_options option \<Rightarrow> 'w group_state \<Rightarrow>
   ((string + script_result) \<times> 'w group_state) option"
where
  "run_script_entry s entry options gs =
     (case parse_script_text (SdGroup s) (SeContent entry) (GdExternalEnv (SdGroup s)) of
        Inl msg \<Rightarrow> Some (Inl msg, gs)
      | Inr def \<Rightarrow> run_child (SdGroup s) (override_for options None) def gs)"

definition no_loader_text :: "('w, 'e) suite_deps \<Rightarrow> suite_entry \<Rightarrow> string" where
  "no_loader_text s entry =
     ''entry '' @ quote_on (GdPlatform (SdGroup s)) (SePath entry) @
     '' is a scenario, but no createLoadScript was configured to resolve its child scripts''"

definition run_scenario_entry ::
  "('w, 'e) suite_deps \<Rightarrow> suite_entry \<Rightarrow> suite_options option \<Rightarrow> 'w group_state \<Rightarrow>
   ((string + scenario_result) \<times> 'w group_state) option"
where
  "run_scenario_entry s entry options gs =
     (case SdLoader s of
        None \<Rightarrow> Some (Inl (no_loader_text s entry), gs)
      | Some create \<Rightarrow>
          (case parse_scenario (GdYaml (SdGroup s)) (SeContent entry) of
             Inl e \<Rightarrow> Some (Inl (error_text e), gs)
           | Inr def \<Rightarrow>
               (case run_scenario (SdGroup s) (override_for options (SnPreconditions def)) (create (SdDir s (SePath entry))) def gs of
                  None \<Rightarrow> None
                | Some (r, events, gs') \<Rightarrow> Some (r, gs'))))"

definition reset_capture :: "('w, 'e) suite_deps \<Rightarrow> 'w group_state \<Rightarrow> 'w group_state" where
  "reset_capture s gs =
     (case SdResetCapture s of None \<Rightarrow> gs | Some f \<Rightarrow> gs\<lparr>GsWorld := (fst (GsWorld gs), f (snd (GsWorld gs)))\<rparr>)"

definition entry_result ::
  "('w, 'e) suite_deps \<Rightarrow> suite_entry \<Rightarrow> suite_entry_kind \<Rightarrow> int \<Rightarrow> string + bool \<times> suite_outcome \<Rightarrow> suite_entry_result" where
  "entry_result s entry kind ms r =
     (case r of
        Inl msg \<Rightarrow> \<lparr>SrPath = SePath entry, SrKind = kind, SrStatus = EntryFailed, SrOutcome = None, SrError = Some msg,
                    SrEntryMs = ms\<rparr>
      | Inr (ok, out) \<Rightarrow> \<lparr>SrPath = SePath entry, SrKind = kind, SrStatus = status_for ok, SrOutcome = Some out,
                         SrError = None, SrEntryMs = ms\<rparr>)"

definition run_entry ::
  "('w, 'e) suite_deps \<Rightarrow> suite_entry \<Rightarrow> suite_options option \<Rightarrow> 'w group_state \<Rightarrow>
   (suite_entry_result \<times> 'w group_state) option"
where
  "run_entry s entry options gs =
     (let g = SdGroup s; gs1 = reset_capture s gs in
      if is_scenario_yaml (GdYaml g) (SeContent entry) then
        (case run_scenario_entry s entry options gs1 of
           None \<Rightarrow> None
         | Some (r, gs2) \<Rightarrow>
             Some (entry_result s entry KindScenario (group_now g gs2 - group_now g gs)
                     (map_sum id (\<lambda>res. (ScenarioOk res, ScenarioOutcome res)) r), gs2))
      else
        (case run_script_entry s entry options gs1 of
           None \<Rightarrow> None
         | Some (r, gs2) \<Rightarrow>
             Some (entry_result s entry KindScript (group_now g gs2 - group_now g gs)
                     (map_sum id (\<lambda>res. (ResOk res, ScriptOutcome res)) r), gs2)))"

text \<open>\<^verbatim>\<open>ResetLaunchedApps\<close>, before every entry.\<close>

definition forget_launches :: "'w group_state \<Rightarrow> 'w group_state" where
  "forget_launches gs = gs\<lparr>GsWorld := ((fst (GsWorld gs))\<lparr>LaunchedApps := {}\<rparr>, snd (GsWorld gs))\<rparr>"

fun suite_loop ::
  "('w, 'e) suite_deps \<Rightarrow> suite_options option \<Rightarrow> suite_entry list \<Rightarrow> suite_entry_result list \<Rightarrow> 'w group_state \<Rightarrow>
   ((string + suite_entry_result list) \<times> 'w group_state) option"
where
  "suite_loop s options [] results gs = Some (Inr results, gs)"
| "suite_loop s options (entry # rest) results gs =
     (case group_context_error (SdGroup s) gs of
        Some e \<Rightarrow> Some (Inl e, gs)
      | None \<Rightarrow>
          (case run_entry s entry options (forget_launches gs) of
             None \<Rightarrow> None
           | Some (r, gs') \<Rightarrow> suite_loop s options rest (results @ [r]) gs'))"

definition run_suite ::
  "('w, 'e) suite_deps \<Rightarrow> suite_entry list \<Rightarrow> suite_options option \<Rightarrow> 'w group_state \<Rightarrow>
   ((string + suite_result) \<times> 'w group_state) option"
where
  "run_suite s entries options gs =
     (case suite_loop s options entries [] gs of
        None \<Rightarrow> None
      | Some (Inl e, gs') \<Rightarrow> Some (Inl e, gs')
      | Some (Inr results, gs') \<Rightarrow>
          (let passed = length (filter (\<lambda>r. SrStatus r = EntryPassed) results) in
           Some (Inr \<lparr>SuiteName = (case options of None \<Rightarrow> None | Some opts \<Rightarrow> SoName opts), SuiteOk = (passed = length results),
                      SuiteEntries = results, SuiteTotal = length results, SuitePassed = passed,
                      SuiteFailed = length results - passed,
                      SuiteDurationMs = group_now (SdGroup s) gs' - group_now (SdGroup s) gs\<rparr>, gs')))"

end
