(* ===== verification/Scenario_Props.thy ===== *)
theory Scenario_Props
  imports Scenario_Run
begin

text \<open>
  The results and events of scenarios and suites: what is recorded for every script and entry, when a
  scenario stops, and that a child of a group never passes when it needs a file of steps.
\<close>

section \<open>Scenarios\<close>

text \<open>What the fields of a script's entry say together.\<close>

definition entry_ok :: "scenario_script_result \<Rightarrow> bool" where
  "entry_ok r \<longleftrightarrow>
     (case ScStatus r of
        StatusPassed \<Rightarrow> ScError r = None \<and> pred_option ResOk (ScResult r) \<and> ScResult r \<noteq> None
      | StatusFailed \<Rightarrow> ScError r = None \<and> pred_option (\<lambda>res. \<not> ResOk res) (ScResult r) \<and> ScResult r \<noteq> None
      | StatusErrored \<Rightarrow> ScError r \<noteq> None \<and> ScResult r = None
      | StatusSkipped \<Rightarrow> ScError r = None \<and> ScResult r = None \<and> ScDurationMs r = 0)"

text \<open>The events of one entry; a skipped script has none.\<close>

definition entry_events :: "scenario_script_result \<Rightarrow> scenario_event list" where
  "entry_events r =
     (if ScStatus r = StatusSkipped then []
      else [ScriptStarted (ScScriptIndex r) (ScScriptPath r),
            ScriptCompleted (ScScriptIndex r) (ScScriptPath r) (ScStatus r) (ScDurationMs r)
              (case ScResult r of None \<Rightarrow> None | Some res \<Rightarrow> ResFailedAtStep res)])"

text \<open>With \<open>stop\<close> all that comes after the first script that did not pass is skipped; otherwise nothing is.\<close>

definition stops_properly :: "bool \<Rightarrow> script_run_status list \<Rightarrow> bool" where
  "stops_properly stop statuses \<longleftrightarrow>
     (if stop then
        (case dropWhile (\<lambda>s. s = StatusPassed) statuses of
           [] \<Rightarrow> True
         | s # rest \<Rightarrow> s \<noteq> StatusSkipped \<and> list_all (\<lambda>t. t = StatusSkipped) rest)
      else StatusSkipped \<notin> set statuses)"

lemma run_one_entry:
  "run_one g override load env file gs = Some ((status, result, msg), gs') \<Longrightarrow>
   entry_ok \<lparr>ScScriptIndex = i, ScScriptPath = file, ScStatus = status, ScResult = result, ScError = msg, ScDurationMs = ms\<rparr> \<and>
   status \<noteq> StatusSkipped"
  by (auto simp: run_one_def entry_ok_def split: sum.splits option.splits if_splits)

lemma skipped_entry:
  "entry_ok (skipped_result i f)" "entry_events (skipped_result i f) = []" "ScStatus (skipped_result i f) = StatusSkipped"
  "ScScriptIndex (skipped_result i f) = i" "ScScriptPath (skipped_result i f) = f"
  by (simp_all add: skipped_result_def entry_ok_def entry_events_def)

lemma scenario_loop_result:
  assumes "scenario_loop g override load env onFailure i files stop acc events gs = Some (Inr results, events', gs')"
  shows "\<exists>new. results = acc @ new \<and> map ScScriptIndex new = [i..<i + length files] \<and> map ScScriptPath new = files \<and>
      list_all entry_ok new \<and> events' = events @ concat (map entry_events new) \<and>
      (if stop then list_all (\<lambda>t. t = StatusSkipped) (map ScStatus new)
       else stops_properly (onFailure = ''stop'') (map ScStatus new))"
  using assms
proof (induction files arbitrary: i stop acc events gs)
  case Nil
  then show ?case by (simp add: stops_properly_def)
next
  case (Cons f rest)
  from Cons.prems have nocancel: "group_context_error g gs = None"
    by (auto split: option.splits)
  have upt: "[i..<i + length (f # rest)] = i # [Suc i..<Suc i + length rest]"
    by (subst upt_conv_Cons) simp_all
  show ?case
  proof (cases stop)
    case True
    let ?e = "skipped_result i f"
    from Cons.prems nocancel True
    have "scenario_loop g override load env onFailure (i + 1) rest True (acc @ [?e]) events gs = Some (Inr results, events', gs')"
      by simp
    from Cons.IH [OF this] obtain new where n: "results = (acc @ [?e]) @ new" "map ScScriptIndex new = [i + 1..<i + 1 + length rest]"
      "map ScScriptPath new = rest" "list_all entry_ok new" "events' = events @ concat (map entry_events new)"
      "list_all (\<lambda>t. t = StatusSkipped) (map ScStatus new)"
      by auto
    show ?thesis
      by (rule exI [of _ "?e # new"])
        (use n True upt in \<open>simp add: skipped_entry\<close>)
  next
    case False
    from Cons.prems nocancel False obtain status result msg gs1
      where one: "run_one g override load env f gs = Some ((status, result, msg), gs1)"
      by (auto split: option.splits)
    define ms where "ms = group_now g gs1 - group_now g gs"
    define e where "e = \<lparr>ScScriptIndex = i, ScScriptPath = f, ScStatus = status, ScResult = result, ScError = msg, ScDurationMs = ms\<rparr>"
    let ?stop = "status \<noteq> StatusPassed \<and> onFailure = ''stop''"
    have e_ok: "entry_ok e \<and> status \<noteq> StatusSkipped"
      unfolding e_def by (rule run_one_entry [OF one])
    have ev: "entry_events e = [ScriptStarted i f, ScriptCompleted i f status ms
        (case result of None \<Rightarrow> None | Some r \<Rightarrow> ResFailedAtStep r)]"
      using e_ok by (simp add: entry_events_def e_def)
    from Cons.prems nocancel False one
    have "scenario_loop g override load env onFailure (i + 1) rest ?stop (acc @ [e]) (events @ entry_events e) gs1 =
        Some (Inr results, events', gs')"
      by (simp add: Let_def e_def ms_def ev [unfolded e_def ms_def])
    from Cons.IH [OF this] obtain new where n: "results = (acc @ [e]) @ new" "map ScScriptIndex new = [i + 1..<i + 1 + length rest]"
      "map ScScriptPath new = rest" "list_all entry_ok new" "events' = (events @ entry_events e) @ concat (map entry_events new)"
      "if ?stop then list_all (\<lambda>t. t = StatusSkipped) (map ScStatus new)
       else stops_properly (onFailure = ''stop'') (map ScStatus new)"
      by auto
    have "stops_properly (onFailure = ''stop'') (map ScStatus (e # new))"
      using n(6) e_ok by (auto simp: stops_properly_def e_def split: if_splits)
    then show ?thesis
      by (intro exI [of _ "e # new"]) (use n e_ok upt False in \<open>simp add: e_def\<close>)
  qed
qed

definition scenario_complete :: "scenario_definition \<Rightarrow> scenario_result \<Rightarrow> bool" where
  "scenario_complete def res \<longleftrightarrow>
     map ScScriptIndex (ScenarioScripts res) = [0..<length (SnScripts def)] \<and>
     map ScScriptPath (ScenarioScripts res) = SnScripts def \<and> list_all entry_ok (ScenarioScripts res) \<and>
     stops_properly (on_failure_of def = ''stop'') (map ScStatus (ScenarioScripts res)) \<and>
     ScenarioTotal res = length (SnScripts def) \<and>
     ScenarioPassed res = length (filter (\<lambda>r. ScStatus r = StatusPassed) (ScenarioScripts res)) \<and>
     ScenarioOk res = (ScenarioPassed res = ScenarioTotal res)"

text \<open>
  C26: a finished scenario accounts for every script in order, each with a status its fields agree with.
  With the policy stop the scripts after the first one that did not pass are all skipped and no other is;
  with another policy none is. It is passed exactly when all passed, and its events are determined by its
  result: the start, a start and a completion of each script that was not skipped, and the end.
\<close>

theorem scenario_accounts_for_scripts:
  "case run_scenario g override load def gs of
     Some (Inr res, events, gs') \<Rightarrow>
       scenario_complete def res \<and>
       events = ScenarioStarted (SnName def) (length (SnScripts def)) # concat (map entry_events (ScenarioScripts res)) @
         [ScenarioCompleted (ScenarioOk res) (ScenarioTotal res) (ScenarioPassed res) (ScenarioDurationMs res)]
   | _ \<Rightarrow> True"
proof (cases "scenario_loop g override load (child_env g def) (on_failure_of def) 0 (SnScripts def) False []
    [ScenarioStarted (SnName def) (length (SnScripts def))] gs")
  case None
  then show ?thesis by (simp add: run_scenario_def)
next
  case (Some r)
  show ?thesis
  proof (cases "fst r")
    case (Inl e)
    with Some show ?thesis by (cases r) (simp add: run_scenario_def)
  next
    case (Inr results)
    with Some obtain events gs' where l: "scenario_loop g override load (child_env g def) (on_failure_of def) 0 (SnScripts def) False []
      [ScenarioStarted (SnName def) (length (SnScripts def))] gs = Some (Inr results, events, gs')"
      by (cases r) simp
    from scenario_loop_result [OF l]
    have n: "map ScScriptIndex results = [0..<length (SnScripts def)]" "map ScScriptPath results = SnScripts def"
      "list_all entry_ok results" "stops_properly (on_failure_of def = ''stop'') (map ScStatus results)"
      "events = ScenarioStarted (SnName def) (length (SnScripts def)) # concat (map entry_events results)"
      by auto
    have len: "length results = length (SnScripts def)"
      using arg_cong [OF n(2), of length] by simp
    have ok: "list_all P results \<longleftrightarrow> length (filter P results) = length (SnScripts def)" for P
      using filter_id_conv [of P results] length_filter_less [of _ results P] by (fastforce simp: len list_all_iff)
    show ?thesis
      using n ok [of "\<lambda>r. ScStatus r = StatusPassed"] by (simp add: run_scenario_def l Let_def scenario_complete_def)
  qed
qed

section \<open>Suites\<close>

definition suite_entry_ok :: "suite_entry_result \<Rightarrow> bool" where
  "suite_entry_ok r \<longleftrightarrow>
     (case SrOutcome r of
        None \<Rightarrow> SrError r \<noteq> None \<and> SrStatus r = EntryFailed
      | Some (ScriptOutcome res) \<Rightarrow> SrError r = None \<and> SrKind r = KindScript \<and> (SrStatus r = EntryPassed) = ResOk res
      | Some (ScenarioOutcome res) \<Rightarrow> SrError r = None \<and> SrKind r = KindScenario \<and> (SrStatus r = EntryPassed) = ScenarioOk res)"

lemma map_sum_id_iff:
  "map_sum id f a = Inr y \<longleftrightarrow> (\<exists>x. a = Inr x \<and> y = f x)" "map_sum id f a = Inl e \<longleftrightarrow> a = Inl e"
  by (cases a; auto)+

lemma run_entry_ok:
  "run_entry s entry options gs = Some (r, gs') \<Longrightarrow> suite_entry_ok r \<and> SrPath r = SePath entry"
  by (auto simp: run_entry_def Let_def entry_result_def suite_entry_ok_def status_for_def map_sum_id_iff split: if_splits option.splits sum.splits)

lemma suite_loop_result:
  "suite_loop s options entries acc gs = Some (Inr results, gs') \<Longrightarrow>
   \<exists>new. results = acc @ new \<and> map SrPath new = map SePath entries \<and> list_all suite_entry_ok new"
proof (induction entries arbitrary: acc gs)
  case (Cons entry rest)
  then obtain r gs1 where r: "run_entry s entry options (forget_launches gs) = Some (r, gs1)"
    "suite_loop s options rest (acc @ [r]) gs1 = Some (Inr results, gs')"
    by (auto split: option.splits)
  from Cons.IH [OF r(2)] obtain new where "results = (acc @ [r]) @ new" "map SrPath new = map SePath rest" "list_all suite_entry_ok new"
    by blast
  with run_entry_ok [OF r(1)] show ?case
    by (intro exI [of _ "r # new"]) simp
qed simp

text \<open>
  A finished suite has run every entry in order, whatever failed before; each entry has either an error
  or an outcome of its kind that decides its status; the counts add up, and the suite is passed exactly when
  every entry is.
\<close>

theorem suite_runs_every_entry:
  "case run_suite s entries options gs of
     Some (Inr res, gs') \<Rightarrow>
       map SrPath (SuiteEntries res) = map SePath entries \<and> list_all suite_entry_ok (SuiteEntries res) \<and>
       SuiteTotal res = length entries \<and> SuitePassed res + SuiteFailed res = SuiteTotal res \<and>
       SuiteOk res = list_all (\<lambda>r. SrStatus r = EntryPassed) (SuiteEntries res)
   | _ \<Rightarrow> True"
proof (cases "\<exists>results gs'. suite_loop s options entries [] gs = Some (Inr results, gs')")
  case True
  then obtain results gs' where l: "suite_loop s options entries [] gs = Some (Inr results, gs')" by blast
  from suite_loop_result [OF l] have n: "map SrPath results = map SePath entries" "list_all suite_entry_ok results"
    by auto
  have len: "length results = length entries"
    using arg_cong [OF n(1), of length] by simp
  have ok: "(length (filter P results) = length results) = list_all P results" for P
    using filter_id_conv [of P results] length_filter_less [of _ results P] by (fastforce simp: list_all_iff)
  show ?thesis
    using n len ok [of "\<lambda>r. SrStatus r = EntryPassed"] length_filter_le [of "\<lambda>r. SrStatus r = EntryPassed" results]
    by (simp add: run_suite_def l Let_def)
next
  case False
  then show ?thesis
    by (auto simp: run_suite_def split: option.splits sum.splits)
qed

section \<open>Files of steps\<close>

fun is_run_flow :: "script_step \<Rightarrow> bool" where
  "is_run_flow (RunFlowStep _ _) \<longleftrightarrow> True"
| "is_run_flow _ \<longleftrightarrow> False"

lemma run_flow_without_loader:
  assumes "DepLoad d = None" "execute (always_run (execute_run_flow d)) (RunFlowStep file env) ctx st = Some (r, st')"
  shows "\<not> ROk r"
  using assms by (auto simp: execute_def always_run_def execute_run_flow_def failed_with_def comp_return_def fail_result_def Let_def)

lemma main_loop_run_flow:
  assumes "DepLoad d = None" "reg ''runFlow'' = Some (always_run (execute_run_flow d))"
    "main_loop d reg mk def i steps acc st = Some (Inr (rs, None, ab), st')"
  shows "list_all (\<lambda>s. \<not> is_run_flow s) steps"
  using assms(3)
proof (induction steps arbitrary: i acc st)
  case (Cons step rest)
  show ?case
  proof (cases "is_run_flow step")
    case False
    with Cons show ?thesis
      by (auto split: option.splits if_splits prod.splits sum.splits simp: Let_def)
  next
    case True
    then obtain fl env where s: "step = RunFlowStep fl env"
      by (cases step) auto
    have "\<not> ROk r" if "dispatch_step d f line (always_run (execute_run_flow d)) step ctx st1 = Some ((r, ms), st2)"
      for f line ctx st1 r ms st2
      using that run_flow_without_loader [OF assms(1)]
      by (auto simp: dispatch_step_def Let_def s split: option.splits)
    with Cons.prems show ?thesis
      by (auto simp: s assms(2) always_run_def split: option.splits if_splits prod.splits)
  qed
qed simp

lemma requires_without_loader:
  assumes "DepLoad d = None" "run_required_flows d runSteps def startedAt files st = Some (RequiresDone, st')"
    "RsCompletedRequires st = {}"
  shows "files = []"
  using assms by (cases files) (auto simp: run_one_required_flow_def Let_def split: option.splits if_splits)

lemma required_flow_failed:
  "run_one_required_flow d runSteps def startedAt reqPath absPath st = Some (RequiresFailed res, st') \<Longrightarrow> \<not> ResOk res"
  by (auto simp: run_one_required_flow_def requires_fail_def Let_def split: option.splits sum.splits prod.splits if_splits)

lemma requires_failed:
  "run_required_flows d runSteps def startedAt files st = Some (RequiresFailed res, st') \<Longrightarrow> \<not> ResOk res"
proof (induction files arbitrary: st)
  case (Cons f rest)
  then show ?case
    by (auto simp: Let_def requires_fail_def split: if_splits option.splits prod.splits dest: required_flow_failed)
qed simp

text \<open>
  C27: with the built-in commands, a script that a scenario or a suite runs never passes when it requires a
  flow file or has a runFlow step among its own steps, since the runner of a child is given no loader; the
  same script run alone, with a loader, may pass.
\<close>

theorem group_child_needs_no_flow_file:
  "case run_child (g\<lparr>GdCommands := default_registry cosine sine\<rparr>) override def gs of
     Some (Inr res, gs') \<Rightarrow> if ResOk res then Requires def = [] \<and> list_all (\<lambda>s. \<not> is_run_flow s) (Steps def) else True
   | _ \<Rightarrow> True"
proof (cases "\<exists>res gs'. run_child (g\<lparr>GdCommands := default_registry cosine sine\<rparr>) override def gs = Some (Inr res, gs') \<and> ResOk res")
  case True
  let ?g = "g\<lparr>GdCommands := default_registry cosine sine\<rparr>"
  define d where "d = child_deps ?g override"
  define reg where "reg = default_registry cosine sine d"
  from True obtain res gs' where r: "run_child ?g override def gs = Some (Inr res, gs')" "ResOk res" by blast
  then obtain st where run: "run (GdBound g) d reg (script_definition.truncate def) (new_runner gs) = Some (Inr res, st)"
    by (auto simp: run_child_def d_def reg_def Let_def split: option.splits)
  have load: "DepLoad d = None"
    by (simp add: d_def child_deps_def)
  have flow: "reg ''runFlow'' = Some (always_run (execute_run_flow d))"
    by (simp add: reg_def default_registry_def default_commands_def)
  have empty: "RsCompletedRequires (fresh_run d def' (new_runner gs)) = {}" for def'
    by (simp add: fresh_run_def new_runner_def)
  let ?def = "script_definition.truncate def"
  let ?req = "run_required_flows d (run_nested_steps (GdBound g) d reg ?def) ?def (now_ms d (new_runner gs)) (Requires ?def)
      (fresh_run d ?def (new_runner gs))"
  have "\<not> (Proxy ?def = Some ''required'' \<and> DepNoCapture d)"
    using run r(2) by (auto simp: run_def Let_def proxy_refused_def)
  with run r(2) obtain st1 where req: "?req = Some (RequiresDone, st1)"
    by (auto simp: run_def Let_def split: option.splits prod.splits requires_outcome.splits dest: requires_failed)
  with run r(2) obtain st2 rs ab st3 mk where "main_loop d reg mk ?def 0 (Steps ?def) [] st2 = Some (Inr (rs, None, ab), st3)"
    by (auto simp: run_def Let_def proxy_refused_def failed_before_steps_def finished_result_def
        split: if_splits option.splits prod.splits sum.splits)
  from main_loop_run_flow [OF load flow this] requires_without_loader [OF load req empty]
  have "Requires ?def = [] \<and> list_all (\<lambda>s. \<not> is_run_flow s) (Steps ?def)"
    by simp
  then show ?thesis
    using r by (simp add: script_definition.truncate_def)
next
  case False
  then show ?thesis by (auto split: option.split sum.split)
qed

end
