(* ===== verification/Driver_Trees.thy ===== *)
theory Driver_Trees
  imports Ui_Bounds Ui_Diagnostics
begin

text \<open>
  The trees the device agents report and their translation into the common tree
  (\<^verbatim>\<open>core/internal/androiddriver/normalize.go\<close>, \<^verbatim>\<open>screen.go\<close>, \<^verbatim>\<open>core/internal/iosdriver/normalize.go\<close>;
  the agents' shapes are in \<^verbatim>\<open>core/internal/transport/android_types.go\<close>). An absent string is the
  empty one, except for the element type of iOS, where an absent field differs from an empty one.
  \<open>uni\<close> is \<^verbatim>\<open>unicode.ToLower\<close> on the runes outside ASCII.
\<close>

section \<open>Android\<close>

record android_bounds =
  AbLeft :: int
  AbTop :: int
  AbRight :: int
  AbBottom :: int

datatype android_node =
  AndroidNode
    (AnElementID: string) (AnClassName: string) (AnResourceID: string) (AnText: string) (AnContentDesc: string)
    (AnHintText: string) (AnBounds: "android_bounds option") (AnClickable: "bool option") (AnEnabled: "bool option")
    (AnFocused: "bool option") (AnSelected: "bool option") (AnCheckable: "bool option") (AnChecked: "bool option")
    (AnVisible: "bool option") (AnIsIme: bool) (AnChildren: "android_node list")

text \<open>The cases of the switch in their order: the parts of a class name and the role they stand for.\<close>

definition class_roles :: "(string list \<times> string) list" where
  "class_roles =
     [([''radiobutton''], ''radio-button''), ([''checkbox''], ''checkbox''), ([''edittext'', ''textinput''], ''text-field''),
      ([''searchview''], ''search-field''), ([''imagebutton''], ''button''), ([''button''], ''button''),
      ([''imageview''], ''image''), ([''textview''], ''text''), ([''switch''], ''switch''),
      ([''seekbar'', ''slider''], ''slider''), ([''recyclerview'', ''listview''], ''list''), ([''webview''], ''other''),
      ([''framelayout'', ''linearlayout'', ''relativelayout'', ''constraintlayout'', ''viewgroup'', ''box'', ''column'', ''row''],
       ''container'')]"

definition class_name_to_role :: "(nat \<Rightarrow> nat) \<Rightarrow> string \<Rightarrow> string" where
  "class_name_to_role uni className =
     (if className = [] then ''other''
      else let cls = to_lower uni className in
        case find (\<lambda>(parts, role). list_ex (contains cls) parts) class_roles of
          None \<Rightarrow> ''other''
        | Some (parts, role) \<Rightarrow> role)"

definition derive_role_from_signals :: "android_node \<Rightarrow> string" where
  "derive_role_from_signals raw =
     (let hasText = AnText raw \<noteq> []; hasLabel = AnContentDesc raw \<noteq> []; clickable = (AnClickable raw = Some True) in
      if clickable \<and> (hasText \<or> hasLabel) then ''button''
      else if hasText \<and> \<not> clickable then ''text''
      else [])"

definition android_role :: "(nat \<Rightarrow> nat) \<Rightarrow> android_node \<Rightarrow> string" where
  "android_role uni raw =
     (let role = class_name_to_role uni (AnClassName raw); derived = derive_role_from_signals raw in
      if role = ''other'' \<and> derived \<noteq> [] then derived else role)"

definition format_android_bounds :: "android_bounds \<Rightarrow> string" where
  "format_android_bounds b = join_with '','' (map itoa [AbLeft b, AbTop b, AbRight b, AbBottom b])"

text \<open>The entry of a map for a string that is not empty, and for a value that is present.\<close>

definition text_entry :: "string \<Rightarrow> string \<Rightarrow> (string \<times> string) list" where
  "text_entry key v = (if v \<noteq> [] then [(key, v)] else [])"

definition value_entry :: "string \<Rightarrow> ('a \<Rightarrow> string) \<Rightarrow> 'a option \<Rightarrow> (string \<times> string) list" where
  "value_entry key f v = (case v of None \<Rightarrow> [] | Some x \<Rightarrow> [(key, f x)])"

definition android_attributes :: "(nat \<Rightarrow> nat) \<Rightarrow> android_node \<Rightarrow> (string \<times> string) list" where
  "android_attributes uni raw =
     text_entry ''id'' (AnResourceID raw) @ text_entry ''label'' (AnContentDesc raw) @ text_entry ''text'' (AnText raw) @
     text_entry ''hint'' (AnHintText raw) @ text_entry ''class'' (AnClassName raw) @ [(''role'', android_role uni raw)] @
     value_entry ''bounds'' format_android_bounds (AnBounds raw) @ (if AnIsIme raw then [(''ext:isIme'', ''true'')] else [])"

fun normalize_android_tree :: "(nat \<Rightarrow> nat) \<Rightarrow> android_node \<Rightarrow> tree_node" where
  "normalize_android_tree uni (AndroidNode eid cn rid txt desc hint bnd clickable enabled focused selected checkable checked visible ime kids) =
     TreeNode
       (map_of (android_attributes uni
          (AndroidNode eid cn rid txt desc hint bnd clickable enabled focused selected checkable checked visible ime kids)))
       (map (normalize_android_tree uni) kids) clickable enabled focused selected
       (if checkable = Some True then checked else None) visible"

text \<open>\<^verbatim>\<open>findScreenBounds\<close>: the bounds of a child, and the largest of them.\<close>

definition strict_bounds :: "string \<Rightarrow> bounds option" where
  "strict_bounds raw =
     (case split_on CHR '','' raw of
        [a, b, c, d] \<Rightarrow>
          (case (parse_float a, parse_float b) of
             (Inr l, Inr t) \<Rightarrow>
               (case (parse_float c, parse_float d) of (Inr r, Inr b') \<Rightarrow> Some (mk_bounds l t r b') | _ \<Rightarrow> None)
           | _ \<Rightarrow> None)
      | _ \<Rightarrow> None)"

definition raw_area :: "bounds \<Rightarrow> f64" where
  "raw_area b = f_mul (f_sub (Right b) (Left b)) (f_sub (Bottom b) (Top b))"

fun largest_bounds :: "tree_node list \<Rightarrow> bounds option \<Rightarrow> f64 \<Rightarrow> bounds option" where
  "largest_bounds [] best bestArea = best"
| "largest_bounds (child # rest) best bestArea =
     (case Attributes child ''bounds'' of
        None \<Rightarrow> largest_bounds rest best bestArea
      | Some raw \<Rightarrow>
          (case strict_bounds raw of
             None \<Rightarrow> largest_bounds rest best bestArea
           | Some b \<Rightarrow>
               if f_lt bestArea (raw_area b) then largest_bounds rest (Some b) (raw_area b)
               else largest_bounds rest best bestArea))"

definition find_screen_bounds :: "tree_node \<Rightarrow> bounds option" where
  "find_screen_bounds tree = largest_bounds (Children tree) None (Fin 0)"

section \<open>iOS\<close>

datatype ios_element =
  IosElement
    (IoElementType: "string option") (IoIdentifier: string) (IoLabel: string) (IoValue: string) (IoPlaceholder: string)
    (IoEnabled: "bool option") (IoFocused: "bool option") (IoVisible: "bool option") (IoAccessible: "bool option")
    (IoSelected: "bool option") (IoTitle: string) (IoTraits: "string list") (IoBounds: "bounds option")
    (IoAccessibilityFrame: "bounds option") (IoChildren: "ios_element list")

definition interactive_ios_roles :: "string list" where
  "interactive_ios_roles =
     [''button'', ''cell'', ''link'', ''textField'', ''secureTextField'', ''searchField'', ''switch'', ''slider'', ''picker'',
      ''tab'', ''key'']"

definition image_label_max_chars :: nat where "image_label_max_chars = 40"
definition min_merged_lines :: nat where "min_merged_lines = 3"
definition short_field_avg_chars :: rat where "short_field_avg_chars = 30"
definition merged_leaf_min_height :: rat where "merged_leaf_min_height = 70"

definition utf16_len :: "string \<Rightarrow> nat" where
  "utf16_len s = length (units_of s)"

definition tall_leaf :: "string \<Rightarrow> bounds option \<Rightarrow> bool" where
  "tall_leaf elementType bnd \<longleftrightarrow>
     (elementType = ''staticText'' \<or> elementType = ''image'') \<and>
     (case bnd of None \<Rightarrow> False | Some b \<Rightarrow> f_le (Fin merged_leaf_min_height) (f_sub (Bottom b) (Top b)))"

definition is_merged_semantic_leaf :: "string \<Rightarrow> string \<Rightarrow> nat \<Rightarrow> bounds option \<Rightarrow> bool" where
  "is_merged_semantic_leaf elementType label childCount bnd =
     (if childCount > 0 then False
      else if tall_leaf elementType bnd then True
      else if label = [] then False
      else let newlines = count_list label (char_of (10 :: nat)) in
        if elementType = ''image'' then image_label_max_chars < utf16_len label \<or> 1 \<le> newlines
        else if elementType = ''staticText'' then
          (if newlines < min_merged_lines then False
           else f_lt (f_div (f_of_int (int (utf16_len label))) (f_of_int (int (newlines + 1)))) (Fin short_field_avg_chars))
        else False)"

definition ios_roles :: "(string list \<times> string) list" where
  "ios_roles =
     [([''button'', ''popupButton''], ''button''), ([''link''], ''link''), ([''textField''], ''text-field''),
      ([''secureTextField''], ''secure-text-field''), ([''searchField''], ''search-field''), ([''staticText''], ''text''),
      ([''cell''], ''cell''), ([''image'', ''icon''], ''image''), ([''switch'', ''toggle''], ''switch''), ([''slider''], ''slider''),
      ([''checkBox''], ''checkbox''), ([''radioButton''], ''radio-button''),
      ([''navigationBar'', ''tabBar'', ''tabGroup'', ''toolbar'', ''menuBar'', ''menu''], ''menu''), ([''alert''], ''alert''),
      ([''dialog'', ''sheet''], ''dialog''), ([''keyboard''], ''keyboard''), ([''key''], ''key''),
      ([''table'', ''collectionView'', ''scrollView'', ''group'', ''window'', ''splitGroup'', ''stackView'', ''layoutArea''], ''container''),
      ([''heading''], ''heading''), ([''pickerWheel'', ''picker''], ''slider''), ([''activityIndicator''], ''activityindicator''),
      ([''progressIndicator''], ''progressindicator''), ([''other''], ''other'')]"

definition ios_element_type_to_role :: "string \<Rightarrow> string" where
  "ios_element_type_to_role elementType =
     (case find (\<lambda>(types, role). elementType \<in> set types) ios_roles of None \<Rightarrow> ''other'' | Some (types, role) \<Rightarrow> role)"

definition has_trait :: "string list \<Rightarrow> string \<Rightarrow> bool" where
  "has_trait traits want \<longleftrightarrow> want \<in> set traits"

definition traits_to_role :: "string list \<Rightarrow> string option" where
  "traits_to_role traits =
     (if traits = [] then None
      else if has_trait traits ''searchField'' then Some ''search-field''
      else if has_trait traits ''keyboardKey'' then Some ''key''
      else if has_trait traits ''header'' then Some ''heading''
      else if has_trait traits ''link'' then Some ''link''
      else if has_trait traits ''button'' \<and> has_trait traits ''image'' then Some ''container''
      else if has_trait traits ''button'' then Some ''button''
      else if has_trait traits ''image'' \<and> has_trait traits ''staticText'' then Some ''container''
      else if has_trait traits ''image'' then Some ''image''
      else if has_trait traits ''staticText'' then Some ''text''
      else None)"

text \<open>\<^verbatim>\<open>strconv.FormatFloat(v, 'f', -1, 64)\<close>, the closure of \<^verbatim>\<open>formatBounds\<close> that removes a signed zero, and the rectangle.\<close>

definition format_f :: "f64 \<Rightarrow> string" where
  "format_f f =
     (case f of
        NaN \<Rightarrow> ''NaN'' | PInf \<Rightarrow> ''+Inf'' | NInf \<Rightarrow> ''-Inf'' | NZero \<Rightarrow> ''-0''
      | Fin x \<Rightarrow>
          if x = 0 then ''0''
          else if x < 0 then CHR ''-'' # format_positional (shortest_digits (- x))
          else format_positional (shortest_digits x))"

definition unsigned_zero :: "f64 \<Rightarrow> f64" where
  "unsigned_zero f = (if f = NZero then Fin 0 else f)"

definition format_ios_bounds :: "bounds \<Rightarrow> string" where
  "format_ios_bounds b = join_with '','' (map (\<lambda>v. format_f (unsigned_zero v)) [Left b, Top b, Right b, Bottom b])"

definition element_type_of :: "ios_element \<Rightarrow> string" where
  "element_type_of raw = (case IoElementType raw of None \<Rightarrow> ''other'' | Some t \<Rightarrow> t)"

definition merged_leaf :: "ios_element \<Rightarrow> bool" where
  "merged_leaf raw = is_merged_semantic_leaf (element_type_of raw) (IoLabel raw) (length (IoChildren raw)) (IoBounds raw)"

definition ios_role :: "ios_element \<Rightarrow> string" where
  "ios_role raw =
     (let elementType = element_type_of raw in
      if elementType = ''keyboard'' then ''keyboard''
      else let role = (case traits_to_role (IoTraits raw) of
                         Some r \<Rightarrow> r
                       | None \<Rightarrow> if merged_leaf raw then ''container'' else ios_element_type_to_role elementType)
        in if (role = ''text'' \<or> role = ''image'') \<and> merged_leaf raw then ''container'' else role)"

text \<open>A later write to a key of the map wins, so the writes are listed from the last to the first.\<close>

definition ios_attributes :: "ios_element \<Rightarrow> (string \<times> string) list" where
  "ios_attributes raw =
     (let role = ios_role raw in
      value_entry ''ext:ios-accessible'' (\<lambda>b. if b then ''true'' else ''false'') (IoAccessible raw) @
      value_entry ''ext:ios-a11y-bounds'' format_ios_bounds (IoAccessibilityFrame raw) @
      (if IoTraits raw \<noteq> [] then [(''ext:ios-traits'', join_with '','' (IoTraits raw))] else []) @
      text_entry ''ext:ios-title'' (IoTitle raw) @ value_entry ''bounds'' format_ios_bounds (IoBounds raw) @
      text_entry ''hint'' (IoPlaceholder raw) @ text_entry ''text'' (IoValue raw) @ text_entry ''value'' (IoValue raw) @
      text_entry (if role = ''text'' \<or> role = ''heading'' then ''text'' else ''label'') (IoLabel raw) @
      text_entry ''id'' (IoIdentifier raw) @ [(''role'', role), (''class'', element_type_of raw)])"

definition ios_clickable :: "ios_element \<Rightarrow> bool" where
  "ios_clickable raw \<longleftrightarrow>
     has_trait (IoTraits raw) ''button'' \<or> has_trait (IoTraits raw) ''link'' \<or> element_type_of raw \<in> set interactive_ios_roles"

fun normalize_ios_tree :: "ios_element \<Rightarrow> tree_node" where
  "normalize_ios_tree (IosElement et idn lab val ph enabled focused visible accessible selected title traits bnd frame kids) =
     (let raw = IosElement et idn lab val ph enabled focused visible accessible selected title traits bnd frame kids in
      TreeNode (map_of (ios_attributes raw)) (map normalize_ios_tree kids) (Some (ios_clickable raw)) enabled focused
        selected None visible)"

end
