(* ===== verification/Go_Shortest.thy ===== *)
theory Go_Shortest
  imports Go_Number
begin

text \<open>
  The shortest decimal rendering of a float reads back as that float: seventeen significant digits
  determine a binary64 number, and the \<^verbatim>\<open>'f'\<close> format of \<^verbatim>\<open>strconv.FormatFloat\<close> is parsed digit by digit.
\<close>

section \<open>Numbers close to a float\<close>

lemma round_even_near: "\<bar>z - of_int k\<bar> < 1 / 2 \<Longrightarrow> round_even z = k"
proof -
  assume a: "\<bar>z - of_int k\<bar> < 1 / 2"
  show ?thesis
  proof (cases "of_int k \<le> z")
    case True
    with a have "\<lfloor>z\<rfloor> = k"
      by (simp add: floor_unique)
    with a True show ?thesis
      by (simp add: round_even_def Let_def)
  next
    case False
    with a have "\<lfloor>z\<rfloor> = k - 1"
      by (simp add: floor_unique)
    with a False show ?thesis
      by (simp add: round_even_def Let_def)
  qed
qed

lemma round64_of_place:
  assumes "0 < y" "last_place y = q" "\<bar>y - of_int k * pow2 q\<bar> < pow2 q / 2"
  shows "round64 y = of_int k * pow2 q"
proof -
  have "y / pow2 q - of_int k = (y - of_int k * pow2 q) / pow2 q"
    by (simp add: diff_divide_distrib)
  then have "\<bar>y / pow2 q - of_int k\<bar> = \<bar>y - of_int k * pow2 q\<bar> / pow2 q"
    by (simp only: abs_divide abs_of_pos [OF pow2_pos])
  also have "\<dots> < 1 / 2"
    using assms(3) pow2_pos [of q] by (simp add: divide_simps)
  finally have "round_even (y / pow2 q) = k"
    by (rule round_even_near)
  with assms(1,2) show ?thesis
    by (simp add: round64_def Let_def abs_of_pos)
qed

lemma ilog2_eqI: "0 < x \<Longrightarrow> pow2 e \<le> x \<Longrightarrow> x < pow2 (e + 1) \<Longrightarrow> ilog2 x = e"
proof -
  assume a: "0 < x" "pow2 e \<le> x" "x < pow2 (e + 1)"
  then have "pow2 (ilog2 x) < pow2 (e + 1)" "pow2 e < pow2 (ilog2 x + 1)"
    using ilog2_bounds [OF a(1)] by linarith+
  then show ?thesis
    by (simp add: pow2_less_iff)
qed

lemma pow2_suc: "pow2 (e + 1) = 2 * pow2 e"
  by (simp add: pow2_add)

lemma pow2_add_nat: "pow2 (e + int n) = pow2 e * 2 ^ n"
  by (simp add: pow2_add pow2_nat)

lemma half_place:
  fixes P :: rat
  assumes "a \<le> x / (2 * 10 ^ 16)" "x * (1 - 1 / (2 * 10 ^ 16)) \<le> P * 2 ^ 53" "0 < P"
  shows "a < P / 2"
  using assms by simp

lemma round64_near:
  assumes float: "round64 x = x" and pos: "0 < x" and near: "\<bar>y - x\<bar> \<le> x / (2 * 10 ^ 16)"
  shows "round64 y = x"
proof -
  define e where "e = ilog2 x"
  define p where "p = last_place x"
  define k where "k = round_even (x / pow2 p)"
  define q where "q = last_place y"
  have e: "pow2 e \<le> x" "x < pow2 (e + 1)"
    using ilog2_bounds [OF pos] by (auto simp: e_def)
  have xk: "x = of_int k * pow2 p"
    using float pos by (simp add: round64_def Let_def abs_of_pos k_def p_def mult.commute split: if_splits)
  have pe: "p = max (- 1074) (e - 52)"
    by (simp add: p_def last_place_def e_def)
  have "pow2 (e + 1) = pow2 ((e - 52) + int 53)"
    by (rule arg_cong [of _ _ pow2]) simp
  also have "\<dots> \<le> pow2 p * 2 ^ 53"
    unfolding pow2_add_nat using pe by (simp add: pow2_mono)
  finally have small: "x < pow2 p * 2 ^ 53"
    using e by linarith
  have close: "\<bar>y - x\<bar> < pow2 p / 2"
    using small pos by (intro half_place [OF near _ pow2_pos]) simp
  have below: "x - y \<le> x / (2 * 10 ^ 16)"
    using near unfolding abs_le_iff by simp
  have ypos: "0 < y"
    using below pos by simp
  have y: "pow2 (ilog2 y) \<le> y" "y < pow2 (ilog2 y + 1)"
    using ilog2_bounds [OF ypos] by auto
  have ke: "p \<le> e"
  proof -
    have "0 < of_int k * pow2 p"
      using pos xk by simp
    then have "1 \<le> k"
      using pow2_pos [of p] by (auto simp: zero_less_mult_iff)
    then have "1 * pow2 p \<le> of_int k * pow2 p"
      by (intro mult_right_mono less_imp_le [OF pow2_pos]) simp
    then have "pow2 p < pow2 (e + 1)"
      using xk e by linarith
    then show ?thesis
      by (simp add: pow2_less_iff)
  qed
  consider "q = p" | "q < p" | "p < q" by linarith
  then show ?thesis
  proof cases
    case 1
    then show ?thesis
      using round64_of_place [OF ypos, of p k] close xk by (simp add: q_def)
  next
    case 2
    then have lt: "ilog2 y < e" and p52: "p = e - 52"
      using pe by (auto simp: q_def last_place_def)
    then have "pow2 (ilog2 y + 1) \<le> pow2 e"
      by (simp add: pow2_mono)
    then have ylt: "y < pow2 e"
      using y by linarith
    have xup: "x * (1 - 1 / (2 * 10 ^ 16)) \<le> pow2 e"
      using below ylt by simp
    have "pow2 (e - 1 + 1) = 2 * pow2 (e - 1)"
      by (rule pow2_suc)
    then have half: "pow2 e = 2 * pow2 (e - 1)"
      by simp
    have "pow2 (e - 1) \<le> y"
      using below e(1) half pow2_pos [of "e - 1"] by (simp del: pow2_pos)
    then have "ilog2 y = e - 1"
      using ilog2_eqI [OF ypos, of "e - 1"] ylt by simp
    then have qp: "q = p - 1"
      using 2 p52 pe by (simp add: q_def last_place_def)
    have pq: "pow2 p = 2 * pow2 q"
      using pow2_suc [of q] qp by simp
    have "pow2 e = pow2 (q + int 53)"
      using qp p52 by simp
    then have pe53: "pow2 e = pow2 q * 2 ^ 53"
      by (simp only: pow2_add_nat)
    have xq: "of_int (2 * k) * pow2 q = x"
      by (simp add: xk pq)
    have "\<bar>y - x\<bar> < pow2 q / 2"
      using xup pe53 by (intro half_place [OF near _ pow2_pos]) simp
    then show ?thesis
      using round64_of_place [OF ypos, of q "2 * k"] unfolding xq by (simp add: q_def)
  next
    case 3
    then have "e < ilog2 y"
      using pe by (auto simp: q_def last_place_def)
    then have "pow2 (e + 1) \<le> pow2 (ilog2 y)"
      by (simp add: pow2_mono)
    then have "pow2 (e + 1) \<le> y"
      using y by linarith
    moreover have "pow2 p \<le> pow2 (e + 1) - x"
    proof -
      define n :: int where "n = 2 ^ nat (e + 1 - p)"
      have n: "pow2 (e + 1) = of_int n * pow2 p"
        using pow2_add_nat [of p "nat (e + 1 - p)"] ke by (simp add: n_def)
      have "of_int k * pow2 p < of_int n * pow2 p"
        using e(2) xk n by simp
      then have "of_int k < (of_int n :: rat)"
        by (rule mult_right_less_imp_less) (rule less_imp_le [OF pow2_pos])
      then have "k + 1 \<le> n"
        by simp
      then have "of_int (k + 1) * pow2 p \<le> of_int n * pow2 p"
        by (intro mult_right_mono less_imp_le [OF pow2_pos]) (simp only: of_int_le_iff)
      then show ?thesis
        using xk n by (simp add: algebra_simps)
    qed
    ultimately have False
      using close pow2_pos [of p] abs_ge_self [of "y - x"] by linarith
    then show ?thesis ..
  qed
qed

section \<open>Digits\<close>

definition horner :: "nat \<Rightarrow> nat list \<Rightarrow> nat" where
  "horner = foldl (\<lambda>v d. v * 10 + d)"

lemma horner_simps [simp]: "horner v [] = v" "horner v (d # ds) = horner (v * 10 + d) ds"
  "horner v (ds @ es) = horner (horner v ds) es"
  by (simp_all add: horner_def)

lemma horner_zeros: "horner v (replicate n 0) = v * 10 ^ n"
  by (induction n arbitrary: v) simp_all

lemma horner_dec_digits: "horner 0 (dec_digits n) = n"
proof (induction n rule: dec_digits.induct)
  case (1 n)
  then show ?case
    by (subst dec_digits.simps) (auto simp: Let_def)
qed

lemma dec_digits_length: "0 < n \<Longrightarrow> 10 ^ (length (dec_digits n) - 1) \<le> n \<and> n < 10 ^ length (dec_digits n)"
proof (induction n rule: dec_digits.induct)
  case (1 n)
  show ?case
  proof (cases "n div 10 = 0")
    case True
    with "1.prems" show ?thesis
      by (simp add: dec_digits.simps [of n])
  next
    case False
    let ?l = "length (dec_digits (n div 10))"
    have ih: "10 ^ (?l - 1) \<le> n div 10" "n div 10 < 10 ^ ?l"
      using "1.IH" False by auto
    have "10 * 10 ^ (?l - 1) \<le> n" "n < 10 * 10 ^ ?l"
      using ih by linarith+
    moreover have "(10 :: nat) * 10 ^ (?l - 1) = 10 ^ ?l"
      by (cases ?l) simp_all
    ultimately show ?thesis
      using False by (simp add: dec_digits.simps [of n] Let_def)
  qed
qed

lemma pow10_pos [simp]: "0 < pow10 e"
  by (simp add: pow10_def)

lemma pow10_nonzero [simp]: "pow10 e \<noteq> 0"
  by (simp add: pow10_def)

lemma pow10_add: "pow10 (a + b) = pow10 a * pow10 b"
  by (simp add: pow10_def power_int_add)

lemma pow10_0 [simp]: "pow10 0 = 1"
  by (simp add: pow10_def)

lemma pow10_nat: "pow10 (int n) = of_nat (10 ^ n)"
  by (simp add: pow10_def)

lemma pow10_minus: "pow10 (- a) = 1 / pow10 a"
  by (simp add: pow10_def power_int_minus divide_inverse)

lemma floor_dec_bounds:
  fixes x :: rat
  assumes "1 \<le> x"
  defines "e \<equiv> int (length (dec_digits (nat \<lfloor>x\<rfloor>))) - 1"
  shows "pow10 e \<le> x \<and> x < pow10 (e + 1)"
proof -
  let ?n = "nat \<lfloor>x\<rfloor>"
  have n: "0 < ?n"
    using assms(1) by simp
  from dec_digits_length [OF n]
  have l: "10 ^ (length (dec_digits ?n) - 1) \<le> ?n" "?n + 1 \<le> 10 ^ length (dec_digits ?n)"
    by linarith+
  have "0 < length (dec_digits ?n)"
    by simp
  then have "e = int (length (dec_digits ?n) - 1)" and "e + 1 = int (length (dec_digits ?n))"
    unfolding e_def by linarith+
  then have p: "pow10 e = of_nat (10 ^ (length (dec_digits ?n) - 1))" "pow10 (e + 1) = of_nat (10 ^ length (dec_digits ?n))"
    by (simp_all only: pow10_nat)
  have f: "of_nat ?n = (of_int \<lfloor>x\<rfloor> :: rat)"
    using assms(1) by simp
  have "pow10 e \<le> of_nat ?n" "of_nat (?n + 1) \<le> pow10 (e + 1)"
    unfolding p using l by (simp_all only: of_nat_le_iff)
  then show ?thesis
    using f of_int_floor_le [of x] floor_correct [of x] unfolding of_nat_add of_nat_1 by linarith
qed

lemma dec_exponent_bounds:
  assumes "0 < x"
  shows "pow10 (dec_exponent x) \<le> x \<and> x < pow10 (dec_exponent x + 1)"
proof (cases "1 \<le> x")
  case True
  then show ?thesis
    using floor_dec_bounds [of x] by (simp add: dec_exponent_def)
next
  case False
  define e where "e = int (length (dec_digits (nat \<lfloor>1 / x\<rfloor>))) - 1"
  have "1 \<le> 1 / x"
    using assms False by (simp add: divide_simps)
  from floor_dec_bounds [OF this]
  have b: "pow10 e \<le> 1 / x" "1 / x < pow10 (e + 1)"
    by (auto simp: e_def)
  have lo: "x * pow10 e \<le> 1" and hi: "1 < x * pow10 (e + 1)"
    using b assms by (auto simp: field_simps)
  show ?thesis
  proof (cases "x * pow10 e = 1")
    case True
    then have "x = pow10 (- e)"
      by (simp add: pow10_minus divide_simps)
    moreover have "dec_exponent x = - e"
      using True \<open>\<not> 1 \<le> x\<close> by (simp add: dec_exponent_def e_def Let_def)
    moreover have "pow10 (- e) < pow10 (- e + 1)"
      unfolding pow10_add [of "- e"] using pow10_pos [of "- e"] by (simp add: pow10_def)
    ultimately show ?thesis
      by simp
  next
    case ne: False
    have "dec_exponent x = - (e + 1)"
      using ne \<open>\<not> 1 \<le> x\<close> by (simp add: dec_exponent_def e_def Let_def)
    moreover have "pow10 (- (e + 1)) < x"
      unfolding pow10_minus using hi by (simp add: divide_simps)
    moreover have "x < pow10 (- e)"
      unfolding pow10_minus using lo ne by (simp add: divide_simps)
    ultimately show ?thesis
      by simp
  qed
qed

section \<open>The shortest digits\<close>

lemma shortest_length_cases:
  "(1 \<le> shortest_length x \<and> decimal_candidates x (shortest_length x) \<noteq> []) \<or>
   (shortest_length x = 17 \<and> decimal_candidates x 17 = [])"
proof (cases "find (\<lambda>n. decimal_candidates x n \<noteq> []) [1..<18]")
  case None
  then have "\<not> decimal_candidates x 17 \<noteq> []"
    unfolding find_None_iff by (rule contrapos_nn) (rule exI [of _ 17], simp)
  with None show ?thesis
    by (simp add: shortest_length_def)
next
  case (Some n)
  then have "decimal_candidates x n \<noteq> []" "n \<in> set [1..<18]"
    unfolding find_Some_iff by (metis nth_mem)+
  with Some show ?thesis
    by (simp add: shortest_length_def)
qed

lemma round_even_half: "\<bar>of_int (round_even z) - z\<bar> \<le> 1 / 2"
proof -
  define f where "f = z - of_int \<lfloor>z\<rfloor>"
  have f: "0 \<le> f" "f < 1" "z = of_int \<lfloor>z\<rfloor> + f"
    using floor_correct [of z] by (auto simp: f_def)
  have "round_even z = \<lfloor>z\<rfloor> \<and> f \<le> 1 / 2 \<or> round_even z = \<lfloor>z\<rfloor> + 1 \<and> 1 / 2 \<le> f"
    unfolding round_even_def Let_def f_def by (simp only: split: if_split) auto
  then show ?thesis
    using f by (elim disjE conjE) (simp_all only: abs_le_iff, simp_all)
qed

lemma seventeen_digits:
  assumes "round64 x = x" "0 < x"
  shows "round64 (of_int (round_even (x / pow10 (last_digit x 17))) * pow10 (last_digit x 17)) = x"
proof -
  define u where "u = pow10 (last_digit x 17)"
  define d where "d = round_even (x / u)"
  have u: "0 < u" "u = pow10 (dec_exponent x) / 10 ^ 16"
  proof -
    have "pow10 (dec_exponent x) = pow10 (last_digit x 17 + int 16)"
      by (simp add: last_digit_def)
    then have "pow10 (dec_exponent x) = u * 10 ^ 16"
      by (simp only: pow10_add pow10_nat u_def) simp
    then show "u = pow10 (dec_exponent x) / 10 ^ 16"
      by simp
  qed (simp add: u_def)
  have ux: "u * 10 ^ 16 \<le> x"
    using dec_exponent_bounds [OF assms(2)] u(2) by simp
  have "\<bar>of_int d - x / u\<bar> \<le> 1 / 2"
    unfolding d_def by (rule round_even_half)
  then have "\<bar>of_int d - x / u\<bar> * u \<le> 1 / 2 * u"
    using u(1) by (intro mult_right_mono) simp_all
  moreover have "\<bar>of_int d - x / u\<bar> * u = \<bar>of_int d * u - x\<bar>"
  proof -
    have "of_int d * u - x = (of_int d - x / u) * u"
      using u(1) by (simp add: left_diff_distrib)
    then show ?thesis
      using u(1) by (simp only: abs_mult abs_of_pos)
  qed
  ultimately have "\<bar>of_int d * u - x\<bar> \<le> x / (2 * 10 ^ 16)"
    using ux by simp
  from round64_near [OF assms this] show ?thesis
    by (simp add: d_def u_def)
qed

lemma strip_zeros_spec: "\<exists>n. ds = strip_zeros ds @ replicate n 0"
proof -
  let ?t = "takeWhile (\<lambda>d. d = 0) (rev ds)"
  have split: "ds = strip_zeros ds @ rev ?t"
    unfolding strip_zeros.simps rev_append [symmetric] takeWhile_dropWhile_id rev_rev_ident ..
  have zeros: "rev ?t = replicate (length ?t) 0"
    by (rule replicate_eqI) (auto dest: set_takeWhileD)
  from zeros split have "ds = strip_zeros ds @ replicate (length ?t) 0"
    by simp
  then show ?thesis ..
qed

definition digits_ok :: "nat list \<times> int \<Rightarrow> bool" where
  "digits_ok dk \<longleftrightarrow> fst dk \<noteq> [] \<and> list_all (\<lambda>d. d < 10) (fst dk)"

definition digits_rat :: "nat list \<times> int \<Rightarrow> rat" where
  "digits_rat dk = of_nat (horner 0 (fst dk)) * pow10 (snd dk)"

lemma shortest_digits_correct:
  assumes "round64 x = x" "0 < x"
  shows "digits_ok (shortest_digits x) \<and> round64 (digits_rat (shortest_digits x)) = x"
proof -
  define n where "n = shortest_length x"
  define u where "u = pow10 (last_digit x n)"
  define d where "d = (case decimal_candidates x n of d # _ \<Rightarrow> d | [] \<Rightarrow> round_even (x / u))"
  have r: "round64 (of_int d * u) = x"
  proof (cases "decimal_candidates x n")
    case Nil
    then have "n = 17"
      using shortest_length_cases [of x] by (auto simp: n_def)
    with Nil seventeen_digits [OF assms] show ?thesis
      by (simp add: d_def u_def)
  next
    case (Cons a as)
    then have "a \<in> set (decimal_candidates x n)"
      by simp
    then have "round64 (of_int a * u) = x"
      by (auto simp: decimal_candidates_def Let_def u_def)
    with Cons show ?thesis
      by (simp add: d_def)
  qed
  have "0 < d"
  proof (rule ccontr)
    assume "\<not> 0 < d"
    then have "of_int d * u \<le> 0"
      by (simp add: mult_le_0_iff u_def less_imp_le [OF pow10_pos])
    then show False
      using round64_mono [of "of_int d * u" 0] r assms(2) by simp
  qed
  define ds where "ds = dec_digits (nat d)"
  obtain z where z: "ds = strip_zeros ds @ replicate z 0"
    using strip_zeros_spec by blast
  have len: "length ds - length (strip_zeros ds) = z"
    using arg_cong [OF z, of length] by simp
  have sd: "shortest_digits x = (strip_zeros ds, last_digit x n + int z)"
    unfolding shortest_digits_def Let_def n_def [symmetric] u_def [symmetric] d_def [symmetric] ds_def [symmetric] len ..
  have "horner 0 ds = horner 0 (strip_zeros ds) * 10 ^ z"
    by (subst z) (simp only: horner_simps horner_zeros)
  then have h: "nat d = horner 0 (strip_zeros ds) * 10 ^ z"
    unfolding ds_def horner_dec_digits .
  have "of_int d = (of_nat (nat d) :: rat)"
    using \<open>0 < d\<close> by simp
  also have "\<dots> = of_nat (horner 0 (strip_zeros ds)) * of_nat (10 ^ z)"
    unfolding h by (simp only: of_nat_mult)
  finally have "digits_rat (shortest_digits x) = of_int d * u"
    unfolding sd digits_rat_def fst_conv snd_conv pow10_add pow10_nat u_def by (simp del: strip_zeros.simps)
  moreover have "strip_zeros ds \<noteq> []"
  proof
    assume "strip_zeros ds = []"
    then have "nat d = 0"
      using h by (simp only: horner_simps mult_0)
    with \<open>0 < d\<close> show False by simp
  qed
  moreover have "set (strip_zeros ds) \<subseteq> set ds"
    using arg_cong [OF z, of set] by (simp only: set_append Un_upper1)
  then have "list_all (\<lambda>d. d < 10) (strip_zeros ds)"
    using dec_digits_less_10 [of _ "nat d"] unfolding list_all_iff ds_def by blast
  ultimately show ?thesis
    using r unfolding sd digits_ok_def by simp
qed

section \<open>Reading digits\<close>

lemma digit_char_props:
  assumes "d < 10"
  shows "hex_value (digit_char d) = Some d" "digit_char d \<noteq> CHR ''_''" "digit_char d \<noteq> CHR ''.''"
    "digit_char d \<noteq> CHR ''+''" "digit_char d \<noteq> CHR ''-''" "is_dec (digit_char d)" "byte_of (digit_char d) = 48 + d"
proof -
  have b: "byte_of (digit_char d) = 48 + d"
    using assms by (simp add: digit_char_def byte_of_def of_char_of)
  have ne: "digit_char d \<noteq> c" if "byte_of c < 48 \<or> 57 < byte_of c" for c
    using b assms that by auto
  show "byte_of (digit_char d) = 48 + d" "is_dec (digit_char d)" "hex_value (digit_char d) = Some d"
    using assms b by (simp_all add: is_dec_def hex_value_def dec_value_def)
  show "digit_char d \<noteq> CHR ''_''" "digit_char d \<noteq> CHR ''.''" "digit_char d \<noteq> CHR ''+''" "digit_char d \<noteq> CHR ''-''"
    by (rule ne, simp add: byte_of_def)+
qed

lemma read_digits:
  "list_all (\<lambda>d. d < 10) ds \<Longrightarrow>
   read_mantissa 10 v places digits dot (digits_string ds @ r) =
     read_mantissa 10 (horner v ds) (if dot then places + length ds else places) (digits \<or> ds \<noteq> []) dot r"
  by (induction ds arbitrary: v places digits) (auto simp: digits_string_def digit_char_props)

lemma read_all_digits:
  "list_all (\<lambda>d. d < 10) ds \<Longrightarrow>
   read_mantissa 10 v places digits dot (digits_string ds) =
     (horner v ds, if dot then places + length ds else places, digits \<or> ds \<noteq> [], [])"
  using read_digits [of ds v places digits dot "[]"] by simp

text \<open>A numeral in positional notation: digits, and a point with digits on both sides.\<close>

definition numeral_char :: "char \<Rightarrow> bool" where
  "numeral_char c \<longleftrightarrow> is_dec c \<or> c = CHR ''.''"

definition plain_numeral :: "string \<Rightarrow> bool" where
  "plain_numeral s \<longleftrightarrow> s \<noteq> [] \<and> is_dec (hd s) \<and> is_dec (List.last s) \<and> list_all numeral_char s"

lemma numeral_char_lower: "numeral_char c \<Longrightarrow> lower_char c = c"
  by (auto simp: numeral_char_def lower_char_def is_dec_def byte_of_def)

lemma numeral_char_not: "numeral_char c \<Longrightarrow> c \<notin> set ''_boxinf+-,''"
  by (auto simp: numeral_char_def is_dec_def byte_of_def)

lemma parse_plain_numeral:
  assumes "plain_numeral s" "read_mantissa 10 0 0 False False s = (v, places, True, [])"
  shows "parse_float s = finish_float False (of_nat v * pow10 (- int places))"
    and "parse_float (CHR ''-'' # s) = finish_float True (of_nat v * pow10 (- int places))"
proof -
  obtain c cs where s: "s = c # cs"
    using assms(1) by (cases s) (auto simp: plain_numeral_def)
  have all: "numeral_char x" if "x \<in> set s" for x
    using assms(1) that by (auto simp: plain_numeral_def list_all_iff)
  have lower: "map lower_char s = s"
    using all by (simp add: numeral_char_lower map_idI)
  have dec: "is_dec c"
    using assms(1) s by (simp add: plain_numeral_def)
  have sign: "strip_sign s = (False, s)"
    using numeral_char_not [of c] all [of c] by (simp add: s strip_sign_def)
  have special: "parse_special signed neg s = None" for signed neg
  proof -
    have "s \<noteq> ''inf''" "s \<noteq> ''infinity''" "s \<noteq> ''nan''"
      using dec s by (auto simp: is_dec_def byte_of_def)
    then show ?thesis
      by (simp add: parse_special_def lower)
  qed
  have hex: "\<not> hex_prefix s"
  proof (cases cs)
    case (Cons c1 rest)
    then have "lower_char c1 \<noteq> CHR ''x''"
      using all [of c1] numeral_char_lower [of c1] numeral_char_not [of c1] s by auto
    with Cons s show ?thesis
      by (auto simp: hex_prefix_def split: list.split)
  qed (simp add: s hex_prefix_def)
  have under: "CHR ''_'' \<notin> set s"
    using all numeral_char_not [of "CHR ''_''"] by auto
  show "parse_float s = finish_float False (of_nat v * pow10 (- int places))"
    using assms(2) hex under by (simp add: parse_float_def sign special read_exponent_def)
  have sign': "strip_sign (CHR ''-'' # s) = (True, s)"
    by (simp add: strip_sign_def)
  show "parse_float (CHR ''-'' # s) = finish_float True (of_nat v * pow10 (- int places))"
    using assms(2) hex under by (simp add: parse_float_def sign' special read_exponent_def)
qed

lemma digits_string_numeral: "list_all (\<lambda>d. d < 10) ds \<Longrightarrow> list_all is_dec (digits_string ds)"
  by (simp add: digits_string_def list_all_iff digit_char_props)

lemma plain_numeralI:
  "list_all is_dec a \<Longrightarrow> a \<noteq> [] \<Longrightarrow> plain_numeral a"
  "list_all is_dec a \<Longrightarrow> a \<noteq> [] \<Longrightarrow> list_all is_dec b \<Longrightarrow> b \<noteq> [] \<Longrightarrow> plain_numeral (a @ CHR ''.'' # b)"
  by (auto simp: plain_numeral_def numeral_char_def list_all_iff)

lemma digit_char_0: "digit_char 0 = CHR ''0''"
  by code_simp

lemma zeros_digits: "replicate n CHR ''0'' = digits_string (replicate n 0)"
  by (simp add: digits_string_def digit_char_0)

lemma digits_string_simps:
  "digits_string (a @ b) = digits_string a @ digits_string b" "digits_string [0] = ''0''"
  "take n (digits_string a) = digits_string (take n a)" "drop n (digits_string a) = digits_string (drop n a)"
  "length (digits_string a) = length a" "(digits_string a = []) = (a = [])"
  by (simp_all add: digits_string_def digit_char_0 take_map drop_map)

text \<open>The positional format of digits is a numeral that spells their value.\<close>

lemma read_fraction:
  assumes "list_all (\<lambda>d. d < 10) a" "list_all (\<lambda>d. d < 10) b" "a \<noteq> []"
  shows "read_mantissa 10 0 0 False False (digits_string a @ CHR ''.'' # digits_string b) =
    (horner (horner 0 a) b, length b, True, [])"
  using assms by (simp add: read_digits read_all_digits)

lemma format_positional_reads:
  assumes "digits_ok dk"
  shows "\<exists>v places. plain_numeral (format_positional dk) \<and>
    read_mantissa 10 0 0 False False (format_positional dk) = (v, places, True, []) \<and>
    of_nat v * pow10 (- int places) = digits_rat dk"
proof -
  obtain ds k where dk: "dk = (ds, k)" by (cases dk)
  have ok: "ds \<noteq> []" "list_all (\<lambda>d. d < 10) ds"
    using assms by (auto simp: digits_ok_def dk)
  have zok: "list_all (\<lambda>d. d < (10 :: nat)) (replicate n 0)" for n
    by (simp add: list_all_iff)
  have sub: "list_all (\<lambda>d. d < 10) (take n ds)" "list_all (\<lambda>d. d < 10) (drop n ds)" for n
    using ok(2) by (auto simp: list_all_iff dest: in_set_takeD in_set_dropD)
  let ?point = "int (length ds) + k"
  consider "?point \<le> 0" | "0 < ?point" "0 \<le> k" | "0 < ?point" "k < 0" by linarith
  then show ?thesis
  proof cases
    case 1
    let ?b = "replicate (nat (- ?point)) 0 @ ds"
    have f: "format_positional dk = digits_string [0] @ CHR ''.'' # digits_string ?b"
      using 1 by (simp add: format_positional_def dk Let_def digits_string_simps zeros_digits)
    have bok: "list_all (\<lambda>d. d < 10) ?b" "?b \<noteq> []"
      using ok zok by simp_all
    have "horner (horner 0 [0]) ?b = horner 0 ds" "- int (length ?b) = k"
      using 1 by (simp_all add: horner_zeros)
    moreover have "plain_numeral (format_positional dk)"
      unfolding f by (rule plain_numeralI) (use bok in \<open>simp_all add: digits_string_numeral digits_string_simps(6)\<close>)
    moreover have "read_mantissa 10 0 0 False False (format_positional dk) = (horner (horner 0 [0]) ?b, length ?b, True, [])"
      unfolding f by (rule read_fraction) (use bok in simp_all)
    ultimately show ?thesis
      by (auto simp: digits_rat_def dk)
  next
    case 2
    let ?a = "ds @ replicate (nat k) 0"
    have f: "format_positional dk = digits_string ?a"
      using 2 by (simp add: format_positional_def dk Let_def digits_string_simps zeros_digits)
    have aok: "list_all (\<lambda>d. d < 10) ?a" "?a \<noteq> []"
      using ok zok by simp_all
    have "horner 0 ?a = horner 0 ds * 10 ^ nat k"
      by (simp add: horner_zeros)
    moreover have "pow10 k = of_nat (10 ^ nat k)"
      using pow10_nat [of "nat k"] 2 by simp
    ultimately have "of_nat (horner 0 ?a) * pow10 (- int 0) = digits_rat dk"
      by (simp add: digits_rat_def dk)
    moreover have "plain_numeral (format_positional dk)"
      unfolding f by (rule plain_numeralI) (use aok in \<open>simp_all add: digits_string_numeral digits_string_simps(6)\<close>)
    moreover have "read_mantissa 10 0 0 False False (format_positional dk) = (horner 0 ?a, 0, True, [])"
      unfolding f by (subst read_all_digits) (use aok in simp_all)
    ultimately show ?thesis
      by blast
  next
    case 3
    let ?a = "take (nat ?point) ds" and ?b = "drop (nat ?point) ds"
    have f: "format_positional dk = digits_string ?a @ CHR ''.'' # digits_string ?b"
      using 3 by (simp add: format_positional_def dk Let_def digits_string_simps)
    have nonempty: "?a \<noteq> []" "?b \<noteq> []"
      using 3 ok by auto
    have "horner (horner 0 ?a) ?b = horner 0 ds" "- int (length ?b) = k"
      using 3 by (simp_all flip: horner_simps(3))
    moreover have "plain_numeral (format_positional dk)"
      unfolding f by (rule plain_numeralI) (use nonempty sub in \<open>simp_all add: digits_string_numeral digits_string_simps(6)\<close>)
    moreover have "read_mantissa 10 0 0 False False (format_positional dk) = (horner (horner 0 ?a) ?b, length ?b, True, [])"
      unfolding f by (rule read_fraction) (use nonempty sub in simp_all)
    ultimately show ?thesis
      by (auto simp: digits_rat_def dk)
  qed
qed

lemma finish_float_round:
  assumes "round64 q = x" "0 < x" "x < pow2 1024"
  shows "finish_float False q = Inr (Fin x)" "finish_float True q = Inr (Fin (- x))"
  using assms pow2_pos [of 1024] by (auto simp: finish_float_def to_float_def round64_minus is_inf_def Let_def)

lemma parse_positional:
  assumes "wf_f64 (Fin x)" "0 < x"
  shows "plain_numeral (format_positional (shortest_digits x))"
    and "parse_float (format_positional (shortest_digits x)) = Inr (Fin x)"
    and "parse_float (CHR ''-'' # format_positional (shortest_digits x)) = Inr (Fin (- x))"
proof -
  have w: "round64 x = x" "x < pow2 1024"
    using assms by auto
  from shortest_digits_correct [OF w(1) assms(2)]
  have c: "digits_ok (shortest_digits x)" "round64 (digits_rat (shortest_digits x)) = x"
    by auto
  from format_positional_reads [OF c(1)] obtain v places
    where f: "plain_numeral (format_positional (shortest_digits x))"
      "read_mantissa 10 0 0 False False (format_positional (shortest_digits x)) = (v, places, True, [])"
      "of_nat v * pow10 (- int places) = digits_rat (shortest_digits x)"
    by blast
  show "plain_numeral (format_positional (shortest_digits x))"
    by (rule f(1))
  show "parse_float (format_positional (shortest_digits x)) = Inr (Fin x)"
    "parse_float (CHR ''-'' # format_positional (shortest_digits x)) = Inr (Fin (- x))"
    unfolding parse_plain_numeral [OF f(1,2)] f(3) using finish_float_round [OF c(2) assms(2) w(2)] by simp_all
qed

lemma parse_utoa:
  "plain_numeral (utoa n)" "parse_float (utoa n) = finish_float False (of_nat n)"
  "parse_float (CHR ''-'' # utoa n) = finish_float True (of_nat n)"
proof -
  have ok: "list_all (\<lambda>d. d < 10) (dec_digits n)"
    by (simp add: list_all_iff dec_digits_less_10)
  have u: "utoa n = digits_string (dec_digits n)"
    by (simp add: utoa_def digits_string_def)
  show p: "plain_numeral (utoa n)"
    unfolding u by (rule plain_numeralI) (simp_all add: digits_string_numeral [OF ok] digits_string_simps(6))
  have r: "read_mantissa 10 0 0 False False (utoa n) = (n, 0, True, [])"
    unfolding u by (simp add: read_all_digits [OF ok] horner_dec_digits)
  show "parse_float (utoa n) = finish_float False (of_nat n)" "parse_float (CHR ''-'' # utoa n) = finish_float True (of_nat n)"
    by (simp_all add: parse_plain_numeral [OF p r])
qed

end
