(* ===== verification/Driver_Trees_Props.thy ===== *)
theory Driver_Trees_Props
  imports Driver_Trees Go_Shortest Runner_Values_Props
begin

text \<open>
  What the command layer reads back from the trees of the drivers: the rectangles the agents reported, the
  shape of the tree, and the role it tells the keyboard by.
\<close>

section \<open>Rectangles\<close>

lemma split_join:
  "ps \<noteq> [] \<Longrightarrow> list_all (\<lambda>p. c \<notin> set p) ps \<Longrightarrow> split_on c (join_with [c] ps) = ps"
proof (induction "[c]" ps rule: join_with.induct)
  have single: "c \<notin> set p \<Longrightarrow> split_on c p = [p]" for p
    by (induction p) auto
  have app: "c \<notin> set p \<Longrightarrow> split_on c (p @ c # r) = p # split_on c r" for p r
    by (induction p) auto
  case (2 p)
  then show ?case by (simp add: single)
next
  have app: "c \<notin> set p \<Longrightarrow> split_on c (p @ c # r) = p # split_on c r" for p r
    by (induction p) auto
  case (3 p q ps)
  then show ?case by (simp add: app)
qed simp

lemma numeral_ascii: "numeral_char c \<Longrightarrow> byte_of c < 128 \<and> \<not> is_space_rune (byte_of c)"
  by (auto simp: numeral_char_def is_dec_def is_space_rune_def byte_of_def)

lemma parse_js_plain:
  assumes "plain_numeral s"
  shows "parse_js_number s = (case parse_float s of Inl _ \<Rightarrow> None | Inr v \<Rightarrow> if is_nan v \<or> is_inf v then None else Some v)"
    and "parse_js_number (CHR ''-'' # s) =
      (case parse_float (CHR ''-'' # s) of Inl _ \<Rightarrow> None | Inr v \<Rightarrow> if is_nan v \<or> is_inf v then None else Some v)"
    and "CHR '','' \<notin> set s" "CHR '','' \<notin> set (CHR ''-'' # s)"
proof -
  have s: "s \<noteq> []" "list_all numeral_char s"
    using assms by (auto simp: plain_numeral_def)
  then have ends: "numeral_char (hd s)" "numeral_char (List.last s)"
    by (simp_all add: list_all_iff)
  have "list_all (\<lambda>c. byte_of c < 128) s"
    using s(2) numeral_ascii by (auto simp: list_all_iff)
  then have "trim_space s = s" "trim_space (CHR ''-'' # s) = CHR ''-'' # s"
    using s(1) numeral_ascii [OF ends(1)] numeral_ascii [OF ends(2)]
    by (intro trim_space_ascii; simp add: byte_of_def is_space_rune_def)+
  then show "parse_js_number s = (case parse_float s of Inl _ \<Rightarrow> None | Inr v \<Rightarrow> if is_nan v \<or> is_inf v then None else Some v)"
    "parse_js_number (CHR ''-'' # s) =
      (case parse_float (CHR ''-'' # s) of Inl _ \<Rightarrow> None | Inr v \<Rightarrow> if is_nan v \<or> is_inf v then None else Some v)"
    using s(1) by (simp_all add: parse_js_number_def)
  show "CHR '','' \<notin> set s" "CHR '','' \<notin> set (CHR ''-'' # s)"
    using s(2) numeral_char_not [of "CHR '',''"] by (auto simp: list_all_iff)
qed

text \<open>A number that is written so that it is read back as \<open>v\<close>.\<close>

definition spells :: "string \<Rightarrow> f64 \<Rightarrow> bool" where
  "spells s v \<longleftrightarrow> parse_float s = Inr v \<and> parse_js_number s = Some v \<and> CHR '','' \<notin> set s \<and> s \<noteq> []"

lemma spells_bounds:
  assumes "spells a l" "spells b t" "spells c r" "spells d m"
  shows "parse_bounds (join_with '','' [a, b, c, d]) = Some (mk_bounds l t r m)"
    and "strict_bounds (join_with '','' [a, b, c, d]) = Some (mk_bounds l t r m)"
proof -
  have "split_on CHR '','' (join_with '','' [a, b, c, d]) = [a, b, c, d]"
    by (rule split_join) (use assms in \<open>simp_all add: spells_def\<close>)
  moreover have "join_with '','' [a, b, c, d] \<noteq> []"
    using assms by (simp add: spells_def)
  ultimately show "parse_bounds (join_with '','' [a, b, c, d]) = Some (mk_bounds l t r m)"
    "strict_bounds (join_with '','' [a, b, c, d]) = Some (mk_bounds l t r m)"
    using assms by (simp_all add: parse_bounds_def strict_bounds_def spells_def)
qed

lemma round64_int_range:
  assumes "1 \<le> n" "n \<le> 2 ^ 63"
  shows "1 \<le> round64 (of_int n)" "round64 (of_int n) < pow2 1024"
proof -
  have one: "round64 1 = 1" and big: "round64 (pow2 63) = pow2 63"
    using round64_dyadic [of 1 0] round64_dyadic [of 1 63] by simp_all
  have "(of_int n :: rat) \<le> of_int (2 ^ 63)"
    using assms(2) by (simp only: of_int_le_iff)
  then have "of_int n \<le> pow2 63"
    by (simp add: pow2_nat)
  then show "round64 (of_int n) < pow2 1024"
    using round64_mono [of "of_int n" "pow2 63"] pow2_strict_mono [of 63 1024] big by simp
  show "1 \<le> round64 (of_int n)"
    using round64_mono [of 1 "of_int n"] one assms(1) by simp
qed

lemma spells_itoa:
  assumes "\<bar>i\<bar> \<le> 2 ^ 63"
  shows "spells (itoa i) (f_of_int i)"
proof (cases "i = 0")
  case True
  then show ?thesis
    using parse_utoa [of 0] parse_js_plain [OF parse_utoa(1) [of 0]]
    by (simp add: spells_def itoa_def f_of_int_def finish_float_def is_inf_def is_nan_def signed_zero_def Let_def plain_numeral_def)
next
  case False
  define n where "n = \<bar>i\<bar>"
  have n: "1 \<le> n" "n \<le> 2 ^ 63"
    using assms False by (auto simp: n_def)
  define r where "r = round64 (of_int n)"
  have r: "1 \<le> r" "r < pow2 1024"
    using round64_int_range [OF n] by (auto simp: r_def)
  have nn: "of_nat (nat \<bar>i\<bar>) = (of_int n :: rat)"
    by (simp add: n_def)
  have f: "finish_float False (of_int n) = Inr (Fin r)" "finish_float True (of_int n) = Inr (Fin (- r))"
    using finish_float_round [OF r_def [symmetric]] r by auto
  have u: "plain_numeral (utoa (nat \<bar>i\<bar>))" "parse_float (utoa (nat \<bar>i\<bar>)) = Inr (Fin r)"
    "parse_float (CHR ''-'' # utoa (nat \<bar>i\<bar>)) = Inr (Fin (- r))"
    using parse_utoa [of "nat \<bar>i\<bar>"] unfolding nn f by auto
  show ?thesis
  proof (cases "0 < i")
    case True
    then have "f_of_int i = Fin r"
      using r by (simp add: f_of_int_def to_float_def Let_def r_def n_def)
    with True u parse_js_plain [OF u(1)] show ?thesis
      by (simp add: spells_def itoa_def is_nan_def is_inf_def plain_numeral_def)
  next
    case neg: False
    then have i: "of_int i = (- of_int n :: rat)"
      by (simp add: n_def)
    have "f_of_int i = Fin (- r)"
      using r pow2_pos [of 1024] by (auto simp: f_of_int_def to_float_def Let_def i round64_minus simp flip: r_def)
    with neg False u parse_js_plain [OF u(1)] show ?thesis
      by (simp add: spells_def itoa_def is_nan_def is_inf_def plain_numeral_def)
  qed
qed

lemma spells_zero: "spells ''0'' (Fin 0)"
  using spells_itoa [of 0] by (simp add: itoa_def utoa_def dec_digits.simps [of 0] digit_char_0 f_of_int_def signed_zero_def)

lemma spells_format_f:
  assumes "wf_f64 v" "is_finite v"
  shows "spells (format_f (unsigned_zero v)) (unsigned_zero v)"
proof (cases v)
  case (Fin x)
  consider "x = 0" | "0 < x" | "x < 0" by linarith
  then show ?thesis
  proof cases
    case 1
    then show ?thesis
      by (simp add: Fin format_f_def unsigned_zero_def spells_zero)
  next
    case 2
    have w: "wf_f64 (Fin x)"
      using assms(1) Fin by simp
    note p = parse_positional [OF w 2]
    show ?thesis
      using p parse_js_plain [OF p(1)] 2
      by (simp add: Fin format_f_def unsigned_zero_def spells_def is_nan_def is_inf_def plain_numeral_def)
  next
    case 3
    have w: "wf_f64 (Fin (- x))" "0 < - x"
      using assms(1) Fin 3 by (simp_all add: round64_minus)
    note p = parse_positional [OF w]
    show ?thesis
      using p parse_js_plain [OF p(1)] 3
      by (simp add: Fin format_f_def unsigned_zero_def spells_def is_nan_def is_inf_def plain_numeral_def)
  qed
next
  case NZero
  then show ?thesis
    by (simp add: format_f_def unsigned_zero_def spells_zero)
qed (use assms in \<open>simp_all add: is_finite_def\<close>)

text \<open>
  C15: what the drivers write as the bounds of an element is what the command layer reads back: for a
  rectangle of 64-bit integers from Android, their floats; for a finite rectangle from iOS, the same floats,
  where a negative zero becomes zero.
\<close>

theorem driver_bounds_roundtrip:
  assumes "\<forall>i\<in>{AbLeft b, AbTop b, AbRight b, AbBottom b}. \<bar>i\<bar> \<le> 2 ^ 63"
    and "\<forall>v\<in>{Left c, Top c, Right c, Bottom c}. wf_f64 v \<and> is_finite v"
  shows "parse_bounds (format_android_bounds b) =
      Some (mk_bounds (f_of_int (AbLeft b)) (f_of_int (AbTop b)) (f_of_int (AbRight b)) (f_of_int (AbBottom b))) \<and>
    parse_bounds (format_ios_bounds c) =
      Some (mk_bounds (unsigned_zero (Left c)) (unsigned_zero (Top c)) (unsigned_zero (Right c)) (unsigned_zero (Bottom c)))"
  using assms by (simp_all add: format_android_bounds_def format_ios_bounds_def spells_bounds spells_itoa spells_format_f
      del: join_with.simps)

section \<open>Shape\<close>

lemma normalize_children:
  "Children (normalize_android_tree uni n) = map (normalize_android_tree uni) (AnChildren n)"
  "Children (normalize_ios_tree e) = map normalize_ios_tree (IoChildren e)"
  by (cases n, simp) (cases e, simp add: Let_def)

text \<open>The raw nodes at a path, as in the common tree.\<close>

fun android_at :: "android_node \<Rightarrow> nat list \<Rightarrow> android_node option" where
  "android_at n [] = Some n"
| "android_at n (i # is) = (if i < length (AnChildren n) then android_at (AnChildren n ! i) is else None)"

fun ios_at :: "ios_element \<Rightarrow> nat list \<Rightarrow> ios_element option" where
  "ios_at e [] = Some e"
| "ios_at e (i # is) = (if i < length (IoChildren e) then ios_at (IoChildren e ! i) is else None)"

text \<open>
  The translated tree has the shape of the agent's: the node at a path is the translation of the agent's
  node at that path, and there is none where the agent has none.
\<close>

theorem normalized_shape:
  "node_at (normalize_android_tree uni n) p = map_option (normalize_android_tree uni) (android_at n p) \<and>
   node_at (normalize_ios_tree e) p = map_option normalize_ios_tree (ios_at e p)"
proof
  show "node_at (normalize_android_tree uni n) p = map_option (normalize_android_tree uni) (android_at n p)"
    by (induction p arbitrary: n) (simp_all add: normalize_children)
  show "node_at (normalize_ios_tree e) p = map_option normalize_ios_tree (ios_at e p)"
    by (induction p arbitrary: e) (simp_all add: normalize_children)
qed

section \<open>Roles\<close>

lemma table_role_keyboard: "ios_element_type_to_role t = ''keyboard'' \<Longrightarrow> t = ''keyboard''"
  by (rule ccontr) (simp add: ios_element_type_to_role_def ios_roles_def split: if_splits)

lemma trait_role_not_keyboard: "traits_to_role ts \<noteq> Some ''keyboard''"
  by (simp add: traits_to_role_def)

text \<open>The keyboard is told by its role, which only the element type gives.\<close>

lemma ios_keyboard_role: "ios_role raw = ''keyboard'' \<longleftrightarrow> element_type_of raw = ''keyboard''"
  using table_role_keyboard [of "element_type_of raw"] trait_role_not_keyboard [of "IoTraits raw"]
  by (auto simp: ios_role_def Let_def split: option.splits if_splits)

lemma entry_lookup:
  "map_of (text_entry k v @ m) key = (if k = key \<and> v \<noteq> [] then Some v else map_of m key)"
  "map_of (value_entry k f x @ m) key = (if k = key \<and> x \<noteq> None then Some (f (the x)) else map_of m key)"
  "map_of ((if c then [(k, w)] else []) @ m) key = (if k = key \<and> c then Some w else map_of m key)"
  by (auto simp: text_entry_def value_entry_def split: option.split)

lemma ios_role_attribute: "map_of (ios_attributes raw) ''role'' = Some (ios_role raw)"
  by (simp add: ios_attributes_def Let_def entry_lookup del: map_of_append)

lemma android_role_attribute: "map_of (android_attributes uni raw) ''role'' = Some (android_role uni raw)"
  by (simp add: android_attributes_def entry_lookup del: map_of_append)

lemma driver_bounds_roundtrip_witness:
  "parse_bounds ''-8,0,1080,2400'' = Some (mk_bounds (Fin (- 8)) (Fin 0) (Fin 1080) (Fin 2400))"
proof -
  let ?b = "\<lparr>AbLeft = - 8, AbTop = 0, AbRight = 1080, AbBottom = 2400\<rparr>"
  let ?c = "mk_bounds NZero (Fin 0) (Fin 0) (Fin 0)"
  have "format_android_bounds ?b = ''-8,0,1080,2400''"
    by code_simp
  moreover have "wf_f64 (Fin 0)"
    by (simp add: pow2_pos)
  ultimately show ?thesis
    using driver_bounds_roundtrip [of ?b ?c] by (simp add: f_of_int_exact is_finite_def)
qed

end
