(* ===== verification/Wire_Errors.thy ===== *)
theory Wire_Errors
  imports Runner_Steps Go_Effects
begin

text \<open>
  The errors between a driver and the agent on the device, as a value and its chain of causes, with their
  classification: \<^verbatim>\<open>core/internal/diag\<close> (\<^verbatim>\<open>diag.go\<close>, \<^verbatim>\<open>boundary.go\<close>, \<^verbatim>\<open>sanitize.go\<close>) and
  \<^verbatim>\<open>core/internal/transport\<close> (\<^verbatim>\<open>classify.go\<close>, \<^verbatim>\<open>timeout.go\<close>, the error types of \<^verbatim>\<open>http_client.go\<close> and
  \<^verbatim>\<open>tcp_client.go\<close>). \<^verbatim>\<open>errors.As\<close> and \<^verbatim>\<open>errors.Is\<close> search the chain from its head.
\<close>

section \<open>Errors\<close>

datatype tcp_error_code = TcpNotConnected | TcpDriverError | TcpDisconnected | TcpWriteTimeout | TcpResponseTimeout

definition tcp_code_text :: "tcp_error_code \<Rightarrow> string" where
  "tcp_code_text c =
     (case c of TcpNotConnected \<Rightarrow> ''not-connected'' | TcpDriverError \<Rightarrow> ''driver-error'' | TcpDisconnected \<Rightarrow> ''disconnected''
      | TcpWriteTimeout \<Rightarrow> ''write-timeout'' | TcpResponseTimeout \<Rightarrow> ''response-timeout'')"

record clear_text_diagnostic =
  StrategiesTried :: "string list"
  LastValue :: string
  FocusedNodeDesc :: string
  CtScreenWidth :: int
  CtScreenHeight :: int

text \<open>
  A canceled or expired context; an error made from a text; one that puts a text before the error it wraps;
  an executable that is not found; then the error types of the packages: of a request, with what it wraps
  and whether it is of the transport; of the connection; an agent that is not reached; an agent that
  reported a failure; \<^verbatim>\<open>taggedError\<close>; and those of the Android and iOS drivers, of the HID client and of
  the launcher of its helper.
\<close>

datatype go_error =
  Canceled
| DeadlineExceeded
| PlainError string
| WrapError string go_error
| ExecNotFound string
| HttpError string string int string "go_error option" bool
| TcpError tcp_error_code string string "go_error option"
| UnreachableError string go_error
| AgentError string int string go_error
| TaggedError string string string "go_error option"
| ForceStopError string string
| ClearTextError clear_text_diagnostic
| LauncherError string string
| IproxyError string string
| HidError string string
| SimHidError string string

definition unwrap :: "go_error \<Rightarrow> go_error option" where
  "unwrap e =
     (case e of
        WrapError _ c \<Rightarrow> Some c | HttpError _ _ _ _ c _ \<Rightarrow> c | TcpError _ _ _ c \<Rightarrow> c | UnreachableError _ c \<Rightarrow> Some c
      | AgentError _ _ _ c \<Rightarrow> Some c | TaggedError _ _ _ c \<Rightarrow> c | _ \<Rightarrow> None)"

lemma unwrap_size: "unwrap e = Some c \<Longrightarrow> size c < size e"
  by (cases e) (auto simp: unwrap_def)

function error_chain :: "go_error \<Rightarrow> go_error list" where
  "error_chain e = e # (case unwrap e of None \<Rightarrow> [] | Some c \<Rightarrow> error_chain c)"
  by pat_completeness auto
termination
  by (relation "measure size") (auto dest: unwrap_size)

declare error_chain.simps [simp del]

definition errors_as :: "(go_error \<Rightarrow> 'a option) \<Rightarrow> go_error \<Rightarrow> 'a option" where
  "errors_as f e = (case List.map_filter f (error_chain e) of [] \<Rightarrow> None | a # _ \<Rightarrow> Some a)"

definition errors_is :: "go_error \<Rightarrow> go_error \<Rightarrow> bool" where
  "errors_is target e \<longleftrightarrow> target \<in> set (error_chain e)"

text \<open>\<^verbatim>\<open>Error()\<close>; \<open>pr\<close> is the printable runes of the \<^verbatim>\<open>%q\<close> verb.\<close>

fun error_text :: "(nat \<Rightarrow> bool) \<Rightarrow> go_error \<Rightarrow> string" where
  "error_text pr Canceled = ''context canceled''"
| "error_text pr DeadlineExceeded = ''context deadline exceeded''"
| "error_text pr (PlainError msg) = msg"
| "error_text pr (WrapError pre e) = pre @ error_text pr e"
| "error_text pr (ExecNotFound msg) = msg"
| "error_text pr (HttpError verb route status body cause level) =
     ''transport: '' @ verb @ '' '' @ route @ '': '' @
     (case cause of Some e \<Rightarrow> error_text pr e | None \<Rightarrow> ''unexpected status '' @ itoa status @ '': '' @ body)"
| "error_text pr (TcpError code request msg cause) =
     ''transport: tcp'' @ (if request \<noteq> [] then '' call('' @ request @ '')'' else []) @ '': '' @ tcp_code_text code @
     (case cause of Some e \<Rightarrow> '': '' @ error_text pr e | None \<Rightarrow> if msg \<noteq> [] then '': '' @ msg else [])"
| "error_text pr (UnreachableError route e) =
     ''transport: agent unreachable'' @ (if route = [] then [] else '' calling '' @ route) @ '': '' @ error_text pr e"
| "error_text pr (AgentError route status msg e) =
     ''transport: agent rejected '' @ route @ (if status \<noteq> 0 then '' with status '' @ itoa status else []) @ '': '' @ msg"
| "error_text pr (TaggedError code msg remedy cause) = msg"
| "error_text pr (ForceStopError package reason) = ''androiddriver: could not stop '' @ package @ '': '' @ reason"
| "error_text pr (ClearTextError d) =
     ''androiddriver: clear text failed after all strategies: tried=['' @ join_with '' '' (StrategiesTried d) @
     ''] lastValue='' @ go_quote pr (LastValue d)"
| "error_text pr (LauncherError code msg) = msg"
| "error_text pr (IproxyError code msg) = msg"
| "error_text pr (HidError code msg) = msg"
| "error_text pr (SimHidError code msg) = msg"

section \<open>Codes\<close>

definition CodeUnknown :: string where "CodeUnknown = ''UNKNOWN''"
definition CodeAgentUnreachable :: string where "CodeAgentUnreachable = ''AGENT_UNREACHABLE''"
definition CodeAppInstallFailed :: string where "CodeAppInstallFailed = ''APP_INSTALL_FAILED''"
definition CodeAppUninstallFailed :: string where "CodeAppUninstallFailed = ''APP_UNINSTALL_FAILED''"
definition CodeAppDataClearFailed :: string where "CodeAppDataClearFailed = ''APP_DATA_CLEAR_FAILED''"
definition CodeToolTimeout :: string where "CodeToolTimeout = ''TOOL_TIMEOUT''"
definition CodeForegroundUnsupported :: string where "CodeForegroundUnsupported = ''FOREGROUND_UNSUPPORTED''"
definition CodeDeviceBusy :: string where "CodeDeviceBusy = ''DEVICE_BUSY''"
definition CodeAgentRejected :: string where "CodeAgentRejected = ''AGENT_REJECTED''"
definition CodeInvalidArgument :: string where "CodeInvalidArgument = ''INVALID_ARGUMENT''"
definition CodeAgentCommunicationFailed :: string where "CodeAgentCommunicationFailed = ''AGENT_COMMUNICATION_FAILED''"
definition CodeAgentNotReady :: string where "CodeAgentNotReady = ''AGENT_NOT_READY''"

lemmas code_defs = CodeUnknown_def CodeAgentUnreachable_def CodeAppInstallFailed_def CodeAppUninstallFailed_def
  CodeAppDataClearFailed_def CodeToolTimeout_def CodeForegroundUnsupported_def CodeDeviceBusy_def CodeAgentRejected_def
  CodeInvalidArgument_def CodeAgentCommunicationFailed_def CodeAgentNotReady_def

fun as_coded :: "go_error \<Rightarrow> (string \<times> string \<times> string) option" where
  "as_coded (TaggedError code msg remedy cause) = Some (code, msg, remedy)"
| "as_coded _ = None"

fun describe :: "(nat \<Rightarrow> bool) \<Rightarrow> go_error option \<Rightarrow> string \<times> string \<times> string" where
  "describe pr None = ([], [], [])"
| "describe pr (Some e) = (case errors_as as_coded e of Some d \<Rightarrow> d | None \<Rightarrow> (CodeUnknown, error_text pr e, []))"

section \<open>Messages of an agent\<close>

definition neutral_agent_rejected_message :: string where
  "neutral_agent_rejected_message = ''the agent rejected the request''"

definition max_agent_message_length :: nat where "max_agent_message_length = 200"

text \<open>The patterns in their order, and the regular expression engine at each of them.\<close>

datatype leak_pattern =
  LeakScheme | LeakAddress | LeakPort | LeakRoute | LeakPath | LeakProtocol | LeakQualifiedException |
  LeakExceptionUse | LeakPrivateSymbol | LeakStackFrame

definition agent_message_leak_patterns :: "leak_pattern list" where
  "agent_message_leak_patterns =
     [LeakScheme, LeakAddress, LeakPort, LeakRoute, LeakPath, LeakProtocol, LeakQualifiedException, LeakExceptionUse,
      LeakPrivateSymbol, LeakStackFrame]"

definition sanitize_agent_message :: "(leak_pattern \<Rightarrow> string \<Rightarrow> bool) \<Rightarrow> string \<Rightarrow> string" where
  "sanitize_agent_message rx msg =
     (let trimmed = trim_space msg in
      if trimmed = [] then neutral_agent_rejected_message
      else if list_ex (\<lambda>p. rx p trimmed) agent_message_leak_patterns then neutral_agent_rejected_message
      else if max_agent_message_length < length trimmed then take max_agent_message_length trimmed
      else trimmed)"

section \<open>The boundary of a driver\<close>

definition AgentUnreachableRemedy :: string where
  "AgentUnreachableRemedy = ''Confirm the agent is running on the device, then try again.''"
definition InvalidArgumentRemedy :: string where
  "InvalidArgumentRemedy = ''Check the arguments against the tool's description, then call it again.''"
definition AgentRejectedRemedy :: string where
  "AgentRejectedRemedy = ''Try the action again. If it keeps failing, check the app's state on the device.''"
definition AgentCommunicationFailedRemedy :: string where
  "AgentCommunicationFailedRemedy = ''Try the action again. If the problem persists, reconnect to the device.''"

definition classify_agent_boundary ::
  "(leak_pattern \<Rightarrow> string \<Rightarrow> bool) \<Rightarrow> string \<Rightarrow> (go_error \<Rightarrow> bool) \<Rightarrow> (go_error \<Rightarrow> string option) \<Rightarrow>
   (go_error \<Rightarrow> string option) \<Rightarrow> go_error \<Rightarrow> go_error"
where
  "classify_agent_boundary rx deviceID isUnreachable invalidArgument rejected e =
     (if errors_is Canceled e \<or> errors_is DeadlineExceeded e then e
      else if errors_as as_coded e \<noteq> None then e
      else if isUnreachable e then
        TaggedError CodeAgentUnreachable (''could not reach the agent on device '' @ deviceID) AgentUnreachableRemedy (Some e)
      else case invalidArgument e of
        Some msg \<Rightarrow> TaggedError CodeInvalidArgument (sanitize_agent_message rx msg) InvalidArgumentRemedy (Some e)
      | None \<Rightarrow>
          (case rejected e of
             Some msg \<Rightarrow> TaggedError CodeAgentRejected (sanitize_agent_message rx msg) AgentRejectedRemedy (Some e)
           | None \<Rightarrow>
               TaggedError CodeAgentCommunicationFailed
                 (''could not complete the request to the agent on device '' @ deviceID)
                 AgentCommunicationFailedRemedy (Some e)))"

fun as_unreachable :: "go_error \<Rightarrow> unit option" where
  "as_unreachable (UnreachableError route e) = Some ()"
| "as_unreachable _ = None"

definition is_unreachable :: "go_error \<Rightarrow> bool" where
  "is_unreachable e \<longleftrightarrow> errors_as as_unreachable e \<noteq> None"

fun as_agent_error :: "go_error \<Rightarrow> (int \<times> string) option" where
  "as_agent_error (AgentError route status msg e) = Some (status, msg)"
| "as_agent_error _ = None"

section \<open>Classification of a call\<close>

definition wire_call_timeout_remedy :: string where
  "wire_call_timeout_remedy = ''Confirm the device and its agent are still reachable, then retry.''"

definition as_tool_timeout :: "string \<Rightarrow> go_error \<Rightarrow> go_error" where
  "as_tool_timeout msg e = TaggedError CodeToolTimeout msg wire_call_timeout_remedy (Some e)"

fun as_tcp_error :: "go_error \<Rightarrow> (tcp_error_code \<times> string \<times> string \<times> go_error option) option" where
  "as_tcp_error (TcpError code request msg cause) = Some (code, request, msg, cause)"
| "as_tcp_error _ = None"

fun as_http_error :: "go_error \<Rightarrow> (string \<times> string \<times> int \<times> string \<times> go_error option \<times> bool) option" where
  "as_http_error (HttpError verb route status body cause level) = Some (verb, route, status, body, cause, level)"
| "as_http_error _ = None"

definition is_tcp_fallback_timeout :: "go_error \<Rightarrow> bool" where
  "is_tcp_fallback_timeout e \<longleftrightarrow>
     (case errors_as as_tcp_error e of None \<Rightarrow> False | Some (code, _) \<Rightarrow> code \<in> {TcpWriteTimeout, TcpResponseTimeout})"

definition is_http_fallback_timeout :: "go_error \<Rightarrow> bool" where
  "is_http_fallback_timeout e \<longleftrightarrow>
     (case errors_as as_http_error e of
        Some (verb, route, status, body, Some cause, level) \<Rightarrow> errors_is DeadlineExceeded cause
      | _ \<Rightarrow> False)"

text \<open>\<open>fields\<close> decodes a body into its three fields, if it is a JSON object that fits them.\<close>

definition agent_error_message :: "(string \<Rightarrow> (string \<times> string \<times> string) option) \<Rightarrow> string \<Rightarrow> int \<Rightarrow> string" where
  "agent_error_message bodyFields body status =
     (let neutral = ''the agent reported status '' @ itoa status @ '' with no further detail'' in
      case bodyFields body of
        None \<Rightarrow> neutral
      | Some (err, msg, reason) \<Rightarrow>
          if err \<noteq> [] then err else if msg \<noteq> [] then msg else if reason \<noteq> [] then reason else neutral)"

definition classify_http_error ::
  "(string \<Rightarrow> (string \<times> string \<times> string) option) \<Rightarrow> string \<Rightarrow> string \<Rightarrow> go_error \<Rightarrow> go_error" where
  "classify_http_error bodyFields verb route e =
     (if is_http_fallback_timeout e then
        as_tool_timeout (''the agent did not answer '' @ verb @ '' '' @ route @ '' within its wire-call time budget'') e
      else case errors_as as_http_error e of
        None \<Rightarrow> e
      | Some (verb', route', status, body, cause, level) \<Rightarrow>
          let httpErr = HttpError verb' route' status body cause level in
          if cause \<noteq> None then (if \<not> level then httpErr else UnreachableError (verb @ '' '' @ route) httpErr)
          else AgentError (verb @ '' '' @ route) status (agent_error_message bodyFields body status) httpErr)"

definition classify_tcp_error :: "(nat \<Rightarrow> bool) \<Rightarrow> string \<Rightarrow> go_error \<Rightarrow> go_error" where
  "classify_tcp_error pr cmdType e =
     (if is_tcp_fallback_timeout e then
        as_tool_timeout (''the agent did not answer '' @ go_quote pr cmdType @ '' within its wire-call time budget'') e
      else case errors_as as_tcp_error e of
        None \<Rightarrow> e
      | Some (code, request, msg, cause) \<Rightarrow>
          let tcpErr = TcpError code request msg cause in
          (case code of
             TcpDriverError \<Rightarrow> AgentError cmdType 0 msg tcpErr
           | TcpNotConnected \<Rightarrow> UnreachableError cmdType tcpErr
           | TcpDisconnected \<Rightarrow> UnreachableError cmdType tcpErr
           | _ \<Rightarrow> tcpErr))"

section \<open>What is reported\<close>

lemma errors_as_cons:
  "errors_as f e = (case f e of Some a \<Rightarrow> Some a | None \<Rightarrow> (case unwrap e of None \<Rightarrow> None | Some c \<Rightarrow> errors_as f c))"
  unfolding errors_as_def by (subst error_chain.simps) (auto simp: map_filter_def split: option.splits list.splits)

lemma errors_is_cons: "errors_is t e \<longleftrightarrow> e = t \<or> (case unwrap e of None \<Rightarrow> False | Some c \<Rightarrow> errors_is t c)"
  unfolding errors_is_def by (subst error_chain.simps) (auto split: option.splits)

lemma chain_self [simp]: "e \<in> set (error_chain e)"
  by (subst error_chain.simps) simp

text \<open>An error the boundary lets out is of the context or carries a code, and has what it was made of in its chain.\<close>

lemma boundary_result:
  "let e' = classify_agent_boundary rx dev u i r e in
   (errors_is Canceled e' \<or> errors_is DeadlineExceeded e' \<or> errors_as as_coded e' \<noteq> None) \<and> e \<in> set (error_chain e')"
proof -
  have "e \<in> set (error_chain (TaggedError c m rm (Some e)))" for c m rm
    by (subst error_chain.simps) (simp add: unwrap_def)
  then show ?thesis
    by (auto simp: classify_agent_boundary_def Let_def errors_as_cons [of _ "TaggedError _ _ _ _"] split: option.splits)
qed

text \<open>Passing the boundary again changes nothing.\<close>

lemma boundary_idem:
  "classify_agent_boundary rx dev u i r (classify_agent_boundary rx dev u i r e) = classify_agent_boundary rx dev u i r e"
proof -
  have "errors_is Canceled e' \<or> errors_is DeadlineExceeded e' \<or> errors_as as_coded e' \<noteq> None \<Longrightarrow>
      classify_agent_boundary rx dev u i r e' = e'" for e'
    by (auto simp: classify_agent_boundary_def)
  with boundary_result [of rx dev u i r e] show ?thesis
    by (auto simp: Let_def)
qed

end
