(* ===== verification/Agent_Http.thy ===== *)
theory Agent_Http
  imports Wire_Errors Driver_Trees
begin

text \<open>
  The HTTP client of the Android agent (\<^verbatim>\<open>core/internal/transport/http_client.go\<close>) and the requests and
  responses of its routes (\<^verbatim>\<open>android_types.go\<close>). The exchange of a request for a response over the
  network and the JSON codec are parameters; so is whether \<^verbatim>\<open>http.NewRequest\<close> accepts a URL.
\<close>

section \<open>Responses\<close>

record health_response =
  HealthOk :: bool
  AccessibilityConnected :: bool

record ping_response =
  PingOk :: bool
  PingAgent :: string
  PingSdkInt :: int
  PingMechanism :: string
  PingMultiPointer :: bool
  PingPressure :: bool

record keyboard_key =
  KeyLabel :: string
  KeyBounds :: android_bounds

record keyboard_response =
  KbVisible :: bool
  KbPackageName :: "string option"
  KbLayout :: string
  KbBounds :: "android_bounds option"
  KbKeys :: "keyboard_key list"

record screenshot_response =
  ShotBase64 :: string
  ShotFormat :: string

record current_activity_response =
  CaPackageName :: string
  CaActivity :: string
  CaSource :: string

record android_app =
  AaPackageName :: string
  AaLabel :: string

record agent_gesture_result =
  GrOk :: bool
  GrReason :: "string option"
  GrCode :: "string option"

record captured_gesture_image =
  CgBase64 :: string
  CgMimeType :: string

record dispatch_gesture_result =
  DgOk :: bool
  DgPointers :: "int option"
  DgReason :: "string option"
  DgCode :: "string option"
  DgImages :: "captured_gesture_image list"

record ack_result =
  AckOk :: bool
  AckReason :: string

record clear_focused_result =
  CfOk :: bool
  CfReason :: string
  CfStrategies :: "string list"
  CfLastValue :: string
  CfNodeDesc :: string
  CfScreenWidth :: int
  CfScreenHeight :: int

record type_keyboard_result =
  TkSuccess :: bool
  TkTyped :: int
  TkTotal :: int
  TkReason :: string

record ok_response =
  OrOk :: bool

section \<open>Requests\<close>

record agent_waypoint =
  AwPhase :: string
  AwX :: f64
  AwY :: f64
  AwAtOffsetSeconds :: f64
  AwPressure :: "f64 option"

record agent_pointer =
  ApID :: string
  ApWaypoints :: "agent_waypoint list"

datatype agent_request =
  TapCoordsRequest f64 f64
| LongPressRequest f64 f64 int
| SwipeRequest f64 f64 f64 f64 int
| DispatchGestureRequest "agent_pointer list"
| TypeKeyboardRequest string int "bool option"
| KeyRequest string
| LaunchRequest string
| ForceStopRequest string
| EmptyRequest

section \<open>The client\<close>

text \<open>The caller's context, one of its own, or the caller's with a bound in milliseconds.\<close>

datatype agent_context = CallerContext | BackgroundContext | ContextWithTimeout int

text \<open>
  An exchange fails, or gives a status and the body, which may fail to be read. A decoder reads the text
  of a response; it is used on a body that is not empty.
\<close>

record 'w http_client =
  HcBaseUrl :: string
  HcBadRequest :: "string \<Rightarrow> string \<Rightarrow> go_error option"
  HcEncode :: "agent_request \<Rightarrow> go_error + string"
  HcExchange :: "agent_context \<Rightarrow> string \<Rightarrow> string \<Rightarrow> string option \<Rightarrow> ('w, go_error, int \<times> (go_error + string)) op"
  HcContextErr :: "agent_context \<Rightarrow> 'w \<Rightarrow> go_error option"
  HcBodyFields :: "string \<Rightarrow> (string \<times> string \<times> string) option"
  DecodeHealth :: "string \<Rightarrow> go_error + health_response"
  DecodePing :: "string \<Rightarrow> go_error + ping_response"
  DecodeTree :: "string \<Rightarrow> go_error + android_node"
  DecodeKeyboard :: "string \<Rightarrow> go_error + keyboard_response"
  DecodeScreenshot :: "string \<Rightarrow> go_error + screenshot_response"
  DecodeActivity :: "string \<Rightarrow> go_error + current_activity_response"
  DecodeApps :: "string \<Rightarrow> go_error + android_app list"
  DecodeGesture :: "string \<Rightarrow> go_error + agent_gesture_result"
  DecodeDispatch :: "string \<Rightarrow> go_error + dispatch_gesture_result"
  DecodeAck :: "string \<Rightarrow> go_error + ack_result"
  DecodeClear :: "string \<Rightarrow> go_error + clear_focused_result"
  DecodeTyped :: "string \<Rightarrow> go_error + type_keyboard_result"
  DecodeOk :: "string \<Rightarrow> go_error + ok_response"

definition http_base_url :: "string \<Rightarrow> int \<Rightarrow> string" where
  "http_base_url host port = ''http://'' @ host @ '':'' @ itoa port"

text \<open>The error of a failed exchange: that of the context when it is done, else one of the transport.\<close>

definition transport_failure :: "'w http_client \<Rightarrow> agent_context \<Rightarrow> string \<Rightarrow> string \<Rightarrow> go_error \<Rightarrow> ('w, go_error, 'a) op" where
  "transport_failure c ctx verb route e w =
     op_fail (case HcContextErr c ctx w of Some ce \<Rightarrow> ce | None \<Rightarrow> HttpError verb route 0 [] (Some e) True) w"

definition encode_body :: "'w http_client \<Rightarrow> string \<Rightarrow> string \<Rightarrow> agent_request option \<Rightarrow> go_error + string option" where
  "encode_body c verb route request =
     (case request of
        None \<Rightarrow> Inr None
      | Some req \<Rightarrow>
          (case HcEncode c req of
             Inl e \<Rightarrow> Inl (HttpError verb route 0 [] (Some (WrapError ''encode request: '' e)) False)
           | Inr text \<Rightarrow> Inr (Some text)))"

definition decode_body ::
  "string \<Rightarrow> string \<Rightarrow> (string \<Rightarrow> go_error + 'a) \<Rightarrow> 'a \<Rightarrow> int \<Rightarrow> string \<Rightarrow> go_error + 'a" where
  "decode_body verb route decode zero status data =
     (if status < 200 \<or> 300 \<le> status then Inl (HttpError verb route status data None False)
      else if data = [] then Inr zero
      else (case decode data of
              Inl e \<Rightarrow> Inl (HttpError verb route 0 [] (Some (WrapError ''decode response: '' e)) False)
            | Inr a \<Rightarrow> Inr a))"

definition do_request ::
  "'w http_client \<Rightarrow> agent_context \<Rightarrow> string \<Rightarrow> string \<Rightarrow> agent_request option \<Rightarrow> (string \<Rightarrow> go_error + 'a) \<Rightarrow> 'a \<Rightarrow>
   ('w, go_error, 'a) op"
where
  "do_request c ctx verb route request decode zero w =
     (case encode_body c verb route request of
        Inl e \<Rightarrow> (Inl e, w)
      | Inr body \<Rightarrow>
          (case HcBadRequest c verb (HcBaseUrl c @ route) of
             Some e \<Rightarrow> (Inl (HttpError verb route 0 [] (Some e) False), w)
           | None \<Rightarrow>
               (case HcExchange c ctx verb (HcBaseUrl c @ route) body w of
                  (Inl e, w') \<Rightarrow> transport_failure c ctx verb route e w'
                | (Inr (status, Inl e), w') \<Rightarrow> transport_failure c ctx verb route (WrapError ''read response: '' e) w'
                | (Inr (status, Inr data), w') \<Rightarrow> (decode_body verb route decode zero status data, w'))))"

text \<open>\<^verbatim>\<open>do\<close>: the request with its error classified.\<close>

definition http_do ::
  "'w http_client \<Rightarrow> agent_context \<Rightarrow> string \<Rightarrow> string \<Rightarrow> agent_request option \<Rightarrow> (string \<Rightarrow> go_error + 'a) \<Rightarrow> 'a \<Rightarrow>
   ('w, go_error, 'a) op"
where
  "http_do c ctx verb route request decode zero =
     op_lift (classify_http_error (HcBodyFields c) verb route) (do_request c ctx verb route request decode zero)"

section \<open>Routes\<close>

definition zero_gesture :: agent_gesture_result where
  "zero_gesture = \<lparr>GrOk = False, GrReason = None, GrCode = None\<rparr>"

definition zero_node :: android_node where
  "zero_node = AndroidNode [] [] [] [] [] [] None None None None None None None None False []"

definition http_health :: "'w http_client \<Rightarrow> agent_context \<Rightarrow> ('w, go_error, health_response) op" where
  "http_health c ctx =
     http_do c ctx ''GET'' ''/health'' None (DecodeHealth c) \<lparr>HealthOk = False, AccessibilityConnected = False\<rparr>"

definition http_ping :: "'w http_client \<Rightarrow> agent_context \<Rightarrow> ('w, go_error, ping_response) op" where
  "http_ping c ctx =
     http_do c ctx ''GET'' ''/ping'' None (DecodePing c)
       \<lparr>PingOk = False, PingAgent = [], PingSdkInt = 0, PingMechanism = [], PingMultiPointer = False, PingPressure = False\<rparr>"

definition http_tree :: "'w http_client \<Rightarrow> agent_context \<Rightarrow> ('w, go_error, android_node) op" where
  "http_tree c ctx = http_do c ctx ''GET'' ''/tree'' None (DecodeTree c) zero_node"

definition http_keyboard :: "'w http_client \<Rightarrow> agent_context \<Rightarrow> ('w, go_error, keyboard_response) op" where
  "http_keyboard c ctx =
     http_do c ctx ''GET'' ''/keyboard'' None (DecodeKeyboard c)
       \<lparr>KbVisible = False, KbPackageName = None, KbLayout = [], KbBounds = None, KbKeys = []\<rparr>"

definition http_screenshot :: "'w http_client \<Rightarrow> agent_context \<Rightarrow> ('w, go_error, screenshot_response) op" where
  "http_screenshot c ctx =
     http_do c ctx ''GET'' ''/screenshot'' None (DecodeScreenshot c) \<lparr>ShotBase64 = [], ShotFormat = []\<rparr>"

definition http_current_activity :: "'w http_client \<Rightarrow> agent_context \<Rightarrow> ('w, go_error, current_activity_response) op" where
  "http_current_activity c ctx =
     http_do c ctx ''GET'' ''/current-activity'' None (DecodeActivity c) \<lparr>CaPackageName = [], CaActivity = [], CaSource = []\<rparr>"

definition http_apps :: "'w http_client \<Rightarrow> agent_context \<Rightarrow> ('w, go_error, android_app list) op" where
  "http_apps c ctx = http_do c ctx ''GET'' ''/apps'' None (DecodeApps c) []"

definition http_tap_coords :: "'w http_client \<Rightarrow> agent_context \<Rightarrow> f64 \<Rightarrow> f64 \<Rightarrow> ('w, go_error, agent_gesture_result) op" where
  "http_tap_coords c ctx x y =
     http_do c ctx ''POST'' ''/actions/tap_coords'' (Some (TapCoordsRequest x y)) (DecodeGesture c) zero_gesture"

definition http_long_press ::
  "'w http_client \<Rightarrow> agent_context \<Rightarrow> f64 \<Rightarrow> f64 \<Rightarrow> int \<Rightarrow> ('w, go_error, agent_gesture_result) op" where
  "http_long_press c ctx x y ms =
     http_do c ctx ''POST'' ''/actions/long_press'' (Some (LongPressRequest x y ms)) (DecodeGesture c) zero_gesture"

definition http_clear_focused_input :: "'w http_client \<Rightarrow> agent_context \<Rightarrow> ('w, go_error, clear_focused_result) op" where
  "http_clear_focused_input c ctx =
     http_do c ctx ''POST'' ''/actions/clear_focused_input'' (Some EmptyRequest) (DecodeClear c)
       \<lparr>CfOk = False, CfReason = [], CfStrategies = [], CfLastValue = [], CfNodeDesc = [], CfScreenWidth = 0, CfScreenHeight = 0\<rparr>"

definition http_hide_keyboard :: "'w http_client \<Rightarrow> agent_context \<Rightarrow> ('w, go_error, ack_result) op" where
  "http_hide_keyboard c ctx =
     http_do c ctx ''POST'' ''/actions/hide_keyboard'' (Some EmptyRequest) (DecodeAck c) \<lparr>AckOk = False, AckReason = []\<rparr>"

definition http_dispatch_gesture ::
  "'w http_client \<Rightarrow> agent_context \<Rightarrow> agent_pointer list \<Rightarrow> ('w, go_error, dispatch_gesture_result) op" where
  "http_dispatch_gesture c ctx pointers =
     http_do c ctx ''POST'' ''/actions/dispatch_gesture'' (Some (DispatchGestureRequest pointers)) (DecodeDispatch c)
       \<lparr>DgOk = False, DgPointers = None, DgReason = None, DgCode = None, DgImages = []\<rparr>"

definition http_swipe ::
  "'w http_client \<Rightarrow> agent_context \<Rightarrow> f64 \<Rightarrow> f64 \<Rightarrow> f64 \<Rightarrow> f64 \<Rightarrow> int \<Rightarrow> ('w, go_error, agent_gesture_result) op" where
  "http_swipe c ctx x y x' y' ms =
     http_do c ctx ''POST'' ''/actions/swipe'' (Some (SwipeRequest x y x' y' ms)) (DecodeGesture c) zero_gesture"

definition http_type_keyboard ::
  "'w http_client \<Rightarrow> agent_context \<Rightarrow> string \<Rightarrow> int \<Rightarrow> bool option \<Rightarrow> ('w, go_error, type_keyboard_result) op" where
  "http_type_keyboard c ctx typed delay clearFirst =
     http_do c ctx ''POST'' ''/actions/type_keyboard'' (Some (TypeKeyboardRequest typed delay clearFirst)) (DecodeTyped c)
       \<lparr>TkSuccess = False, TkTyped = 0, TkTotal = 0, TkReason = []\<rparr>"

definition http_press_key :: "'w http_client \<Rightarrow> agent_context \<Rightarrow> string \<Rightarrow> ('w, go_error, ok_response) op" where
  "http_press_key c ctx key =
     http_do c ctx ''POST'' ''/actions/key'' (Some (KeyRequest key)) (DecodeOk c) \<lparr>OrOk = False\<rparr>"

definition http_launch_app :: "'w http_client \<Rightarrow> agent_context \<Rightarrow> string \<Rightarrow> ('w, go_error, ok_response) op" where
  "http_launch_app c ctx package =
     http_do c ctx ''POST'' ''/actions/launch'' (Some (LaunchRequest package)) (DecodeOk c) \<lparr>OrOk = False\<rparr>"

definition http_force_stop_app :: "'w http_client \<Rightarrow> agent_context \<Rightarrow> string \<Rightarrow> ('w, go_error, ack_result) op" where
  "http_force_stop_app c ctx package =
     http_do c ctx ''POST'' ''/actions/force_stop'' (Some (ForceStopRequest package)) (DecodeAck c)
       \<lparr>AckOk = False, AckReason = []\<rparr>"

end
