(* ===== verification/Android_Driver.thy ===== *)
theory Android_Driver
  imports Agent_Http Ui_Orchestra
begin

text \<open>
  The Android driver (\<^verbatim>\<open>core/internal/androiddriver\<close>: \<^verbatim>\<open>driver.go\<close>, \<^verbatim>\<open>forward.go\<close>, \<^verbatim>\<open>boundary.go\<close>,
  \<^verbatim>\<open>foreign_automation_guard.go\<close>, \<^verbatim>\<open>transport.go\<close>): the driver port of the command layer over the agent's
  routes and the \<^verbatim>\<open>adb\<close> command line. What \<^verbatim>\<open>Connect\<close> and \<^verbatim>\<open>Disconnect\<close> change is the state of the driver,
  beside the world.
\<close>

section \<open>Standard library\<close>

text \<open>\<^verbatim>\<open>strings.Fields\<close>: the runs of runes that are not white space.\<close>

fun field_chunks :: "(nat \<times> string) list \<Rightarrow> string \<Rightarrow> string list" where
  "field_chunks [] cur = (if cur = [] then [] else [cur])"
| "field_chunks ((r, bytes) # rest) cur =
     (if is_space_rune r then (if cur = [] then [] else [cur]) @ field_chunks rest []
      else field_chunks rest (cur @ bytes))"

definition string_fields :: "string \<Rightarrow> string list" where
  "string_fields s = field_chunks (rune_chunks s) []"

text \<open>
  \<^verbatim>\<open>base64.StdEncoding.DecodeString\<close>: quanta of four digits, line ends skipped, padding at the end; the
  error is the position of the byte at fault. \<open>q\<close> are the digits of the quantum so far.
\<close>

definition base64_value :: "char \<Rightarrow> nat option" where
  "base64_value c =
     (let b = byte_of c in
      if 65 \<le> b \<and> b \<le> 90 then Some (b - 65) else if 97 \<le> b \<and> b \<le> 122 then Some (b - 71)
      else if 48 \<le> b \<and> b \<le> 57 then Some (b + 4) else if b = 43 then Some 62 else if b = 47 then Some 63 else None)"

definition line_end :: "char \<Rightarrow> bool" where
  "line_end c \<longleftrightarrow> byte_of c = 10 \<or> byte_of c = 13"

definition quantum_bytes :: "nat list \<Rightarrow> nat list" where
  "quantum_bytes q =
     (let n = foldl (\<lambda>v d. v * 64 + d) 0 (take 4 (q @ [0, 0, 0, 0])) in
      take (length q - 1) [n div 65536, n div 256 mod 256, n mod 256])"

definition base64_padding :: "nat \<Rightarrow> nat list \<Rightarrow> string \<Rightarrow> nat + nat list" where
  "base64_padding i q rest =
     (let skip = \<lambda>s. dropWhile line_end s;
          tail = \<lambda>s. (let s' = skip s in if s' = [] then Inr (quantum_bytes q) else Inl (i + 1 + length rest - length s'))
      in if length q < 2 then Inl i
         else if length q = 3 then tail rest
         else (case skip rest of
                 [] \<Rightarrow> Inl (i + 1 + length rest)
               | c # cs \<Rightarrow> if c \<noteq> CHR ''='' then Inl (i + length rest - length cs - 1) else tail cs))"

fun base64_decode :: "nat \<Rightarrow> nat list \<Rightarrow> string \<Rightarrow> nat + nat list" where
  "base64_decode i q [] = (if q = [] then Inr [] else Inl (i - length q))"
| "base64_decode i q (c # cs) =
     (case base64_value c of
        Some v \<Rightarrow>
          if length q < 3 then base64_decode (i + 1) (q @ [v]) cs
          else map_sum id (\<lambda>bs. quantum_bytes (q @ [v]) @ bs) (base64_decode (i + 1) [] cs)
      | None \<Rightarrow>
          if line_end c then base64_decode (i + 1) q cs
          else if c \<noteq> CHR ''='' then Inl i
          else base64_padding i q cs)"

definition decode_base64 :: "string \<Rightarrow> go_error + nat list" where
  "decode_base64 s =
     (case base64_decode 0 [] s of
        Inl i \<Rightarrow> Inl (PlainError (''illegal base64 data at input byte '' @ utoa i))
      | Inr bs \<Rightarrow> Inr bs)"

section \<open>Ports\<close>

record process_result =
  Stdout :: string
  Stderr :: string
  ExitCode :: int

text \<open>The routes the driver calls, and what else it reaches: processes, its context, the engine and tables.\<close>

record 'w android_transport =
  TrHealth :: "agent_context \<Rightarrow> ('w, go_error, health_response) op"
  TrPing :: "agent_context \<Rightarrow> ('w, go_error, ping_response) op"
  TrTree :: "agent_context \<Rightarrow> ('w, go_error, android_node) op"
  TrTapCoords :: "agent_context \<Rightarrow> f64 \<Rightarrow> f64 \<Rightarrow> ('w, go_error, agent_gesture_result) op"
  TrLongPress :: "agent_context \<Rightarrow> f64 \<Rightarrow> f64 \<Rightarrow> int \<Rightarrow> ('w, go_error, agent_gesture_result) op"
  TrSwipe :: "agent_context \<Rightarrow> f64 \<Rightarrow> f64 \<Rightarrow> f64 \<Rightarrow> f64 \<Rightarrow> int \<Rightarrow> ('w, go_error, agent_gesture_result) op"
  TrDispatchGesture :: "agent_context \<Rightarrow> agent_pointer list \<Rightarrow> ('w, go_error, dispatch_gesture_result) op"
  TrTypeKeyboard :: "agent_context \<Rightarrow> string \<Rightarrow> int \<Rightarrow> bool option \<Rightarrow> ('w, go_error, type_keyboard_result) op"
  TrClearFocused :: "agent_context \<Rightarrow> ('w, go_error, clear_focused_result) op"
  TrHideKeyboard :: "agent_context \<Rightarrow> ('w, go_error, ack_result) op"
  TrPressKey :: "agent_context \<Rightarrow> string \<Rightarrow> ('w, go_error, ok_response) op"
  TrLaunchApp :: "agent_context \<Rightarrow> string \<Rightarrow> ('w, go_error, ok_response) op"
  TrForceStop :: "agent_context \<Rightarrow> string \<Rightarrow> ('w, go_error, ack_result) op"
  TrCurrentActivity :: "agent_context \<Rightarrow> ('w, go_error, current_activity_response) op"
  TrApps :: "agent_context \<Rightarrow> ('w, go_error, android_app list) op"
  TrScreenshot :: "agent_context \<Rightarrow> ('w, go_error, screenshot_response) op"

definition http_transport :: "'w http_client \<Rightarrow> 'w android_transport" where
  "http_transport c =
     \<lparr>TrHealth = http_health c, TrPing = http_ping c, TrTree = http_tree c, TrTapCoords = http_tap_coords c,
      TrLongPress = http_long_press c, TrSwipe = http_swipe c, TrDispatchGesture = http_dispatch_gesture c,
      TrTypeKeyboard = http_type_keyboard c, TrClearFocused = http_clear_focused_input c,
      TrHideKeyboard = http_hide_keyboard c, TrPressKey = http_press_key c, TrLaunchApp = http_launch_app c,
      TrForceStop = http_force_stop_app c, TrCurrentActivity = http_current_activity c, TrApps = http_apps c,
      TrScreenshot = http_screenshot c\<rparr>"

record 'w process_env =
  PeRun :: "agent_context \<Rightarrow> string \<Rightarrow> string list \<Rightarrow> 'w \<Rightarrow> (process_result \<times> go_error option) \<times> 'w"
  PeContextErr :: "'w \<Rightarrow> go_error option"
  PeLeaks :: "leak_pattern \<Rightarrow> string \<Rightarrow> bool"
  PePrintable :: "nat \<Rightarrow> bool"
  PeLower :: "nat \<Rightarrow> nat"

record 'w android_env = "'w process_env" +
  AeTransport :: "'w android_transport"

text \<open>A command whose failure is returned, and \<^verbatim>\<open>ctx.Err()\<close> at the start of a method.\<close>

definition run_process :: "('w, 'x) process_env_scheme \<Rightarrow> agent_context \<Rightarrow> string \<Rightarrow> string list \<Rightarrow> ('w, go_error, process_result) op" where
  "run_process env ctx name args w =
     (case PeRun env ctx name args w of ((res, None), w') \<Rightarrow> (Inr res, w') | ((res, Some e), w') \<Rightarrow> (Inl e, w'))"

definition guarded :: "('w, 'x) process_env_scheme \<Rightarrow> ('w, go_error, 'a) op \<Rightarrow> ('w, go_error, 'a) op" where
  "guarded env m w = (case PeContextErr env w of Some e \<Rightarrow> op_fail e w | None \<Rightarrow> m w)"

section \<open>State\<close>

record android_driver =
  AdSerial :: string
  AdHostPort :: int
  AdDevicePort :: int
  AdConnected :: bool
  AdCapabilities :: capabilities
  AdForwardOwned :: bool

definition default_android_port :: int where "default_android_port = 8765"
definition gesture_request_timeout_ms :: int where "gesture_request_timeout_ms = 35000"
definition health_probe_timeout_ms :: int where "health_probe_timeout_ms = 1000"

definition port_or_default :: "int \<Rightarrow> int" where
  "port_or_default p = (if p = 0 then default_android_port else p)"

definition initial_capabilities :: "bool \<Rightarrow> capabilities" where
  "initial_capabilities queryForeground =
     \<lparr>CanScreenshot = True, CanEraseText = True, CanWaitForIdle = False, CanSetLocation = False, CanSetOrientation = False,
      CanHideKeyboard = True, CanQueryForeground = queryForeground, CanMultiPointer = False, CanPressure = False,
      SupportedKeyCodes = [''back'', ''home'', ''enter'']\<rparr>"

definition new_android_driver :: "string \<Rightarrow> int \<Rightarrow> int \<Rightarrow> android_driver" where
  "new_android_driver serial hostPort devicePort =
     \<lparr>AdSerial = serial, AdHostPort = port_or_default hostPort, AdDevicePort = port_or_default devicePort,
      AdConnected = False, AdCapabilities = initial_capabilities True, AdForwardOwned = False\<rparr>"

text \<open>\<^verbatim>\<open>fail\<close>: the boundary every call of the agent passes.\<close>

definition bad_request :: "go_error \<Rightarrow> string option" where
  "bad_request e = (case errors_as as_agent_error e of Some (status, msg) \<Rightarrow> if status = 400 then Some msg else None | None \<Rightarrow> None)"

definition rejected_by_agent :: "go_error \<Rightarrow> string option" where
  "rejected_by_agent e = map_option snd (errors_as as_agent_error e)"

definition android_fail :: "('w, 'x) process_env_scheme \<Rightarrow> android_driver \<Rightarrow> go_error \<Rightarrow> go_error" where
  "android_fail env d = classify_agent_boundary (PeLeaks env) (AdSerial d) is_unreachable bad_request rejected_by_agent"

abbreviation android_call :: "'w android_env \<Rightarrow> android_driver \<Rightarrow> ('w, go_error, 'a) op \<Rightarrow> ('w, go_error, 'a) op" where
  "android_call env d m \<equiv> op_lift (android_fail env d) m"

section \<open>Connecting\<close>

record adb_forward =
  FwSerial :: string
  FwLocal :: string
  FwRemote :: string

definition parse_forward :: "string \<Rightarrow> adb_forward option" where
  "parse_forward line =
     (case string_fields line of
        [a, b, c] \<Rightarrow> Some \<lparr>FwSerial = a, FwLocal = b, FwRemote = c\<rparr>
      | _ \<Rightarrow> None)"

definition newline_char :: char where "newline_char = CHR 0x0A"

definition list_adb_forwards :: "('w, 'x) process_env_scheme \<Rightarrow> ('w, go_error, adb_forward list) op" where
  "list_adb_forwards env =
     op_map (\<lambda>res. List.map_filter parse_forward (split_on newline_char (Stdout res)))
       (run_process env CallerContext ''adb'' [''forward'', ''--list''])"

definition find_adb_forward :: "adb_forward list \<Rightarrow> string \<Rightarrow> adb_forward option" where
  "find_adb_forward forwards localPort = find (\<lambda>f. FwLocal f = localPort) forwards"

definition has_active_foreign_instrumentation :: "string \<Rightarrow> bool" where
  "has_active_foreign_instrumentation dump = contains dump ''InstrumentationRecord{''"

definition check_for_foreign_automation :: "('w, 'x) process_env_scheme \<Rightarrow> string \<Rightarrow> ('w, go_error, unit) op" where
  "check_for_foreign_automation env serial w =
     (case PeRun env CallerContext ''adb'' [''-s'', serial, ''shell'', ''dumpsys'', ''activity''] w of
        ((res, None), w') \<Rightarrow>
          if has_active_foreign_instrumentation (Stdout res) then
            op_fail (TaggedError CodeDeviceBusy ''another automation session appears to be driving this device already''
              ''Stop the other automation session driving this device, then try again.'' None) w'
          else op_return () w'
      | ((res, Some e), w') \<Rightarrow> op_return () w')"

definition tcp_port :: "int \<Rightarrow> string" where
  "tcp_port p = ''tcp:'' @ itoa p"

definition unreachable_text :: "android_driver \<Rightarrow> string" where
  "unreachable_text d = ''could not reach the agent on device '' @ AdSerial d"

definition device_unreachable :: "android_driver \<Rightarrow> go_error \<Rightarrow> go_error" where
  "device_unreachable d e =
     TaggedError CodeAgentUnreachable (unreachable_text d) ''Confirm the device is connected and unlocked, then try again.'' (Some e)"

definition classify_health_failure :: "('w, 'x) process_env_scheme \<Rightarrow> android_driver \<Rightarrow> go_error \<Rightarrow> go_error" where
  "classify_health_failure env d e =
     (case errors_as as_agent_error e of
        Some (status, msg) \<Rightarrow>
          TaggedError CodeAgentNotReady (sanitize_agent_message (PeLeaks env) msg)
            ''Re-enable the accessibility service on the device, then try again.'' (Some e)
      | None \<Rightarrow>
          TaggedError CodeAgentUnreachable (unreachable_text d)
            ''Confirm the agent is running on the device, then try again.'' (Some e))"

text \<open>The tunnel: whether this driver created it, once it is in place.\<close>

definition ensure_forward :: "('w, 'x) process_env_scheme \<Rightarrow> android_driver \<Rightarrow> ('w, go_error, bool) op" where
  "ensure_forward env d =
     (let localPort = tcp_port (AdHostPort d); remotePort = tcp_port (AdDevicePort d) in
      op_bind (op_lift (\<lambda>e. device_unreachable d (WrapError ''androiddriver: adb forward --list: '' e)) (list_adb_forwards env))
        (\<lambda>forwards.
          case find_adb_forward forwards localPort of
            Some existing \<Rightarrow>
              if FwSerial existing \<noteq> AdSerial d \<or> FwRemote existing \<noteq> remotePort then
                op_fail (TaggedError CodeDeviceBusy
                  (unreachable_text d @ '': its forwarded port is already claimed by a different device'')
                  ''Remove the conflicting adb forward for the other device, then try again.'' None)
              else op_return False
          | None \<Rightarrow>
              op_map (\<lambda>res. True)
                (op_lift (\<lambda>e. device_unreachable d (WrapError ''androiddriver: adb forward: '' e))
                  (run_process env CallerContext ''adb'' [''-s'', AdSerial d, ''forward'', localPort, remotePort]))))"

definition android_connect :: "'w android_env \<Rightarrow> (android_driver \<times> 'w, go_error, unit) op" where
  "android_connect env s =
     (case s of (d, w) \<Rightarrow>
       (case guarded env (check_for_foreign_automation env (AdSerial d)) w of
          (Inl e, w1) \<Rightarrow> (Inl e, d, w1)
        | (Inr _, w1) \<Rightarrow>
            (case ensure_forward env d w1 of
               (Inl e, w2) \<Rightarrow> (Inl e, d, w2)
             | (Inr owned, w2) \<Rightarrow>
                 (let d2 = d\<lparr>AdForwardOwned := owned\<rparr> in
                  case TrHealth (AeTransport env) CallerContext w2 of
                    (Inl e, w3) \<Rightarrow> (Inl (classify_health_failure env d2 (WrapError ''androiddriver: health check: '' e)), d2, w3)
                  | (Inr _, w3) \<Rightarrow>
                      (case TrPing (AeTransport env) CallerContext w3 of
                         (Inl e, w4) \<Rightarrow> (Inr (), d2\<lparr>AdConnected := True\<rparr>, w4)
                       | (Inr pong, w4) \<Rightarrow>
                           (Inr (), d2\<lparr>AdConnected := True,
                              AdCapabilities := (AdCapabilities d2)\<lparr>CanMultiPointer := PingMultiPointer pong,
                                CanPressure := PingPressure pong\<rparr>\<rparr>, w4))))))"

definition android_disconnect :: "'w android_env \<Rightarrow> android_driver \<times> 'w \<Rightarrow> android_driver \<times> 'w" where
  "android_disconnect env s =
     (case s of (d, w) \<Rightarrow>
       if \<not> AdConnected d then (d, w)
       else
         (d\<lparr>AdConnected := False, AdForwardOwned := False\<rparr>,
          if AdForwardOwned d then
            snd (PeRun env BackgroundContext ''adb'' [''-s'', AdSerial d, ''forward'', ''--remove'', tcp_port (AdHostPort d)] w)
          else w))"

definition android_ping :: "'w android_env \<Rightarrow> android_driver \<Rightarrow> ('w, go_error, unit) op" where
  "android_ping env d =
     guarded env (op_map (\<lambda>res. ())
       (op_lift (\<lambda>e. classify_health_failure env d (WrapError ''androiddriver: ping: '' e))
         (TrHealth (AeTransport env) (ContextWithTimeout health_probe_timeout_ms))))"

section \<open>Reading the screen\<close>

definition android_hierarchy :: "'w android_env \<Rightarrow> android_driver \<Rightarrow> ('w, go_error, tree_node) op" where
  "android_hierarchy env d =
     guarded env (op_map (normalize_android_tree (PeLower env)) (android_call env d (TrTree (AeTransport env) CallerContext)))"

definition android_wait_for_idle :: "'w android_env \<Rightarrow> int \<Rightarrow> ('w, go_error, bool) op" where
  "android_wait_for_idle env timeoutMs = guarded env (op_return True)"

definition android_screen_size :: "'w android_env \<Rightarrow> android_driver \<Rightarrow> ('w, go_error, size) op" where
  "android_screen_size env d =
     guarded env (android_call env d
       (op_bind (android_hierarchy env d) (\<lambda>tree.
          case find_screen_bounds tree of
            None \<Rightarrow> op_fail (PlainError ''androiddriver: no child of the root has bounds, cannot derive screen dimensions'')
          | Some b \<Rightarrow> op_return \<lparr>Width = f_sub (Right b) (Left b), Height = f_sub (Bottom b) (Top b)\<rparr>)))"

definition android_screenshot :: "'w android_env \<Rightarrow> android_driver \<Rightarrow> ('w, go_error, nat list) op" where
  "android_screenshot env d =
     guarded env (android_call env d
       (op_bind (TrScreenshot (AeTransport env) CallerContext) (\<lambda>raw.
          case decode_base64 (ShotBase64 raw) of
            Inl e \<Rightarrow> op_fail (WrapError ''androiddriver: decode screenshot: '' e)
          | Inr bytes \<Rightarrow> op_return bytes)))"

definition android_device_info :: "'w android_env \<Rightarrow> android_driver \<Rightarrow> ('w, go_error, device_info) op" where
  "android_device_info env d =
     guarded env (op_return
       \<lparr>InfoPlatform = ''android'', PlatformVersion = ''unknown'', InfoModel = ''unknown'', UDID = AdSerial d,
        InfoKind = (if has_prefix (AdSerial d) ''emulator-'' then ''emulator'' else ''device'')\<rparr>)"

section \<open>Touch\<close>

text \<open>The agent's answer is discarded, whatever it says.\<close>

definition ignored :: "('w, 'e, 'a) op \<Rightarrow> ('w, 'e, unit) op" where
  "ignored m = op_map (\<lambda>a. ()) m"

definition android_tap :: "'w android_env \<Rightarrow> android_driver \<Rightarrow> point \<Rightarrow> ('w, go_error, unit) op" where
  "android_tap env d p =
     guarded env (android_call env d (ignored (TrTapCoords (AeTransport env) CallerContext (X p) (Y p))))"

definition android_long_press :: "'w android_env \<Rightarrow> android_driver \<Rightarrow> point \<Rightarrow> int \<Rightarrow> ('w, go_error, unit) op" where
  "android_long_press env d p ms =
     guarded env (android_call env d (ignored (TrLongPress (AeTransport env) CallerContext (X p) (Y p) ms)))"

definition android_swipe :: "'w android_env \<Rightarrow> android_driver \<Rightarrow> point \<Rightarrow> point \<Rightarrow> int \<Rightarrow> ('w, go_error, unit) op" where
  "android_swipe env d p q ms =
     guarded env (android_call env d (ignored (TrSwipe (AeTransport env) CallerContext (X p) (Y p) (X q) (Y q) ms)))"

definition phase_text :: "gesture_phase \<Rightarrow> string" where
  "phase_text p = (case p of PhaseDown \<Rightarrow> ''down'' | PhaseMove \<Rightarrow> ''move'' | PhaseUp \<Rightarrow> ''up'' | PhaseCapture \<Rightarrow> ''capture'')"

definition agent_waypoint_of :: "gesture_waypoint \<Rightarrow> agent_waypoint" where
  "agent_waypoint_of w =
     \<lparr>AwPhase = phase_text (WPhase w), AwX = X (WPoint w), AwY = Y (WPoint w), AwAtOffsetSeconds = WAtOffsetSeconds w,
      AwPressure = WPressure w\<rparr>"

definition agent_pointer_of :: "gesture_pointer \<Rightarrow> agent_pointer" where
  "agent_pointer_of p = \<lparr>ApID = PointerID p, ApWaypoints = map agent_waypoint_of (Waypoints p)\<rparr>"

definition has_pressure_waypoint :: "gesture \<Rightarrow> bool" where
  "has_pressure_waypoint g \<longleftrightarrow> list_ex (\<lambda>p. list_ex (\<lambda>w. WPressure w \<noteq> None) (Waypoints p)) g"

fun decode_images :: "string \<Rightarrow> nat \<Rightarrow> (string \<times> string) list \<Rightarrow> go_error + captured_image list" where
  "decode_images who i [] = Inr []"
| "decode_images who i ((data, mime) # rest) =
     (case decode_base64 data of
        Inl e \<Rightarrow> Inl (WrapError (who @ '': decode captured image '' @ utoa i @ '': '') e)
      | Inr bytes \<Rightarrow> map_sum id (\<lambda>imgs. \<lparr>ImageData = bytes, MimeType = mime\<rparr> # imgs) (decode_images who (i + 1) rest))"

definition android_gesture_refusal :: "android_driver \<Rightarrow> gesture \<Rightarrow> go_error option" where
  "android_gesture_refusal d g =
     (if g = [] then Some (PlainError ''dispatchGesture: empty pointers array'')
      else if 1 < length g \<and> \<not> CanMultiPointer (AdCapabilities d) then
        Some (PlainError (''android driver cannot dispatch a '' @ utoa (length g) @
          ''-pointer gesture: multi-pointer dispatch is unavailable on this agent build''))
      else if has_pressure_waypoint g \<and> \<not> CanPressure (AdCapabilities d) then
        Some (PlainError ''android driver cannot dispatch pressure waypoints: this agent build does not support per-touch pressure'')
      else None)"

definition android_dispatch_gesture :: "'w android_env \<Rightarrow> android_driver \<Rightarrow> gesture \<Rightarrow> ('w, go_error, gesture_result) op" where
  "android_dispatch_gesture env d g =
     guarded env (case android_gesture_refusal d g of
       Some e \<Rightarrow> op_fail e
     | None \<Rightarrow>
         android_call env d
           (op_bind (TrDispatchGesture (AeTransport env) (ContextWithTimeout gesture_request_timeout_ms) (map agent_pointer_of g))
             (\<lambda>resp. case decode_images ''androiddriver'' 0 (map (\<lambda>i. (CgBase64 i, CgMimeType i)) (DgImages resp)) of
                Inl e \<Rightarrow> op_fail e
              | Inr images \<Rightarrow> op_return images)))"

section \<open>Text and keys\<close>

definition android_input_text :: "'w android_env \<Rightarrow> android_driver \<Rightarrow> string \<Rightarrow> ('w, go_error, unit) op" where
  "android_input_text env d typed =
     guarded env (android_call env d (ignored (TrTypeKeyboard (AeTransport env) CallerContext typed 0 (Some False))))"

definition clear_diagnostic :: "clear_focused_result \<Rightarrow> clear_text_diagnostic" where
  "clear_diagnostic res =
     \<lparr>StrategiesTried = CfStrategies res, LastValue = CfLastValue res,
      FocusedNodeDesc = (if CfNodeDesc res = [] then ''unknown'' else CfNodeDesc res),
      CtScreenWidth = CfScreenWidth res, CtScreenHeight = CfScreenHeight res\<rparr>"

definition android_erase_text :: "'w android_env \<Rightarrow> android_driver \<Rightarrow> int \<Rightarrow> ('w, go_error, unit) op" where
  "android_erase_text env d n =
     guarded env (android_call env d
       (op_bind (TrClearFocused (AeTransport env) CallerContext) (\<lambda>res.
          if CfOk res then op_return () else op_fail (ClearTextError (clear_diagnostic res)))))"

definition android_press_key :: "'w android_env \<Rightarrow> android_driver \<Rightarrow> key_code \<Rightarrow> ('w, go_error, key_result) op" where
  "android_press_key env d key =
     guarded env (op_map (\<lambda>res. \<lparr>KeyOk = True, KeyReason = []\<rparr>)
       (android_call env d (TrPressKey (AeTransport env) CallerContext key)))"

definition android_hide_keyboard :: "'w android_env \<Rightarrow> android_driver \<Rightarrow> ('w, go_error, key_result) op" where
  "android_hide_keyboard env d =
     guarded env (op_map (\<lambda>res. \<lparr>KeyOk = AckOk res, KeyReason = AckReason res\<rparr>)
       (android_call env d (TrHideKeyboard (AeTransport env) CallerContext)))"

section \<open>Applications\<close>

definition android_current_foreground :: "'w android_env \<Rightarrow> android_driver \<Rightarrow> ('w, go_error, foreground_info) op" where
  "android_current_foreground env d =
     guarded env (op_map
       (\<lambda>raw. \<lparr>ForegroundBundleID = (if CaPackageName raw \<noteq> [] then Some (CaPackageName raw) else None),
               ForegroundActivity = CaActivity raw\<rparr>)
       (android_call env d (TrCurrentActivity (AeTransport env) CallerContext)))"

definition android_stop_app :: "'w android_env \<Rightarrow> android_driver \<Rightarrow> string \<Rightarrow> ('w, go_error, unit) op" where
  "android_stop_app env d bundleID =
     guarded env (android_call env d
       (op_bind (TrForceStop (AeTransport env) CallerContext bundleID) (\<lambda>res.
          if AckOk res then op_return () else op_fail (ForceStopError bundleID (AckReason res)))))"

definition android_kill_app :: "'w android_env \<Rightarrow> android_driver \<Rightarrow> string \<Rightarrow> ('w, go_error, unit) op" where
  "android_kill_app = android_stop_app"

text \<open>What comes before a launch: whether the launch is left out since the application is in front.\<close>

definition android_before_launch ::
  "'w android_env \<Rightarrow> android_driver \<Rightarrow> string \<Rightarrow> bool option \<Rightarrow> ('w, go_error, bool) op" where
  "android_before_launch env d bundleID noReset =
     (case noReset of
        None \<Rightarrow> op_return False
      | Some True \<Rightarrow>
          op_map (\<lambda>fg. ForegroundBundleID fg = Some bundleID) (android_call env d (android_current_foreground env d))
      | Some False \<Rightarrow> op_map (\<lambda>u. False) (android_call env d (android_stop_app env d bundleID)))"

definition android_launch_app :: "'w android_env \<Rightarrow> android_driver \<Rightarrow> string \<Rightarrow> launch_args \<Rightarrow> ('w, go_error, unit) op" where
  "android_launch_app env d bundleID args =
     guarded env (op_bind (android_before_launch env d bundleID (NoReset args)) (\<lambda>skip.
       if skip then op_return ()
       else android_call env d (ignored (TrLaunchApp (AeTransport env) CallerContext bundleID))))"

definition android_list_apps :: "'w android_env \<Rightarrow> android_driver \<Rightarrow> ('w, go_error, installed_app list) op" where
  "android_list_apps env d =
     guarded env (op_map
       (map (\<lambda>a. \<lparr>BundleID = AaPackageName a, DisplayName = (if AaLabel a = [] then AaPackageName a else AaLabel a)\<rparr>))
       (android_call env d (TrApps (AeTransport env) CallerContext)))"

definition wrap_app_lifecycle_error :: "('w, 'x) process_env_scheme \<Rightarrow> string \<Rightarrow> string \<Rightarrow> string \<Rightarrow> go_error \<Rightarrow> go_error" where
  "wrap_app_lifecycle_error env code msg remedy e =
     (case describe (PePrintable env) (Some e) of
        (errCode, _) \<Rightarrow> if errCode = CodeToolTimeout then e else TaggedError code msg remedy (Some e))"

definition adb_lifecycle ::
  "'w android_env \<Rightarrow> android_driver \<Rightarrow> string list \<Rightarrow> string \<Rightarrow> string \<Rightarrow> string \<Rightarrow> ('w, go_error, unit) op" where
  "adb_lifecycle env d args code msg remedy =
     guarded env (ignored (op_lift (wrap_app_lifecycle_error env code msg remedy)
       (run_process env CallerContext ''adb'' ([''-s'', AdSerial d] @ args))))"

definition android_install_app :: "'w android_env \<Rightarrow> android_driver \<Rightarrow> string \<Rightarrow> ('w, go_error, unit) op" where
  "android_install_app env d source =
     adb_lifecycle env d [''install'', ''-r'', source] CodeAppInstallFailed (''could not install '' @ source)
       ''Confirm the app package is valid for this device, then try installing it again.''"

definition android_uninstall_app :: "'w android_env \<Rightarrow> android_driver \<Rightarrow> string \<Rightarrow> ('w, go_error, unit) op" where
  "android_uninstall_app env d appID =
     adb_lifecycle env d [''uninstall'', appID] CodeAppUninstallFailed (''could not uninstall '' @ appID)
       ''Confirm the app is present on the device, then try again.''"

definition android_clear_app_data :: "'w android_env \<Rightarrow> android_driver \<Rightarrow> string \<Rightarrow> string \<Rightarrow> ('w, go_error, unit) op" where
  "android_clear_app_data env d appID source =
     adb_lifecycle env d [''shell'', ''pm'', ''clear'', appID] CodeAppDataClearFailed (''could not clear data for '' @ appID)
       ''Confirm the app is installed on the device, then try clearing its data again.''"

definition parse_package_list_output :: "string \<Rightarrow> string \<Rightarrow> bool" where
  "parse_package_list_output out appID \<longleftrightarrow>
     list_ex (\<lambda>line. trim_space line = ''package:'' @ appID) (split_on newline_char out)"

definition android_is_app_installed :: "'w android_env \<Rightarrow> android_driver \<Rightarrow> string \<Rightarrow> ('w, go_error, bool) op" where
  "android_is_app_installed env d appID =
     guarded env (op_map (\<lambda>res. parse_package_list_output (Stdout res) appID)
       (run_process env CallerContext ''adb'' [''-s'', AdSerial d, ''shell'', ''pm'', ''list'', ''packages'', appID]))"

section \<open>The port\<close>

definition android_port :: "'w android_env \<Rightarrow> android_driver \<Rightarrow> ('w, go_error) driver" where
  "android_port env d =
     \<lparr>Hierarchy = android_hierarchy env d, Swipe = android_swipe env d, ScreenSize = android_screen_size env d,
      DrvCapabilities = AdCapabilities d, DrvWaitForIdle = android_wait_for_idle env, DrvTap = android_tap env d,
      DrvLongPress = android_long_press env d, DrvDispatchGesture = android_dispatch_gesture env d,
      DrvInputText = android_input_text env d, DrvEraseText = android_erase_text env d,
      DrvPressKey = android_press_key env d, DrvHideKeyboard = android_hide_keyboard env d,
      DrvLaunchApp = android_launch_app env d, DrvStopApp = android_stop_app env d, DrvKillApp = android_kill_app env d,
      DrvCurrentForeground = android_current_foreground env d, DrvListApps = android_list_apps env d,
      DrvInstallApp = android_install_app env d, DrvUninstallApp = android_uninstall_app env d,
      DrvClearAppData = android_clear_app_data env d, DrvIsAppInstalled = android_is_app_installed env d,
      DrvScreenshot = android_screenshot env d, DrvDeviceInfo = android_device_info env d\<rparr>"

end
