(* ===== verification/Android_Props.thy ===== *)
theory Android_Props
  imports Android_Driver
begin

text \<open>
  What the Android driver reports and what it leaves behind: the code of every failure of a route, answers of
  the agent that never reach the caller, and the tunnels the driver removes.
\<close>

section \<open>Failures of a route\<close>

text \<open>The outcome of an exchange, and the code it is reported under.\<close>

datatype 'a route_outcome = ExchangeFailed go_error | StatusRefused int string | BodyUndecodable int string go_error | Answered 'a

definition route_outcome ::
  "'w http_client \<Rightarrow> agent_context \<Rightarrow> string \<Rightarrow> string \<Rightarrow> string option \<Rightarrow> (string \<Rightarrow> go_error + 'a) \<Rightarrow> 'a \<Rightarrow> 'w \<Rightarrow>
   'a route_outcome" where
  "route_outcome c ctx verb route body decode zero w =
     (case fst (HcExchange c ctx verb (HcBaseUrl c @ route) body w) of
        Inl e \<Rightarrow> ExchangeFailed e
      | Inr (status, Inl e) \<Rightarrow> ExchangeFailed e
      | Inr (status, Inr data) \<Rightarrow>
          if status < 200 \<or> 300 \<le> status then StatusRefused status data
          else if data = [] then Answered zero
          else (case decode data of Inl e \<Rightarrow> BodyUndecodable status data e | Inr a \<Rightarrow> Answered a))"

definition outcome_code :: "'a route_outcome \<Rightarrow> string option" where
  "outcome_code r =
     (case r of
        ExchangeFailed e \<Rightarrow> Some (if errors_is DeadlineExceeded e then CodeToolTimeout else CodeAgentUnreachable)
      | StatusRefused status data \<Rightarrow> Some (if status = 400 then CodeInvalidArgument else CodeAgentRejected)
      | BodyUndecodable status data e \<Rightarrow> Some CodeAgentCommunicationFailed
      | Answered a \<Rightarrow> None)"

text \<open>Errors of the network and of the decoder: not of the context, and without a type of this program.\<close>

definition foreign_error :: "go_error \<Rightarrow> bool" where
  "foreign_error e \<longleftrightarrow>
     \<not> errors_is Canceled e \<and> errors_as as_coded e = None \<and> errors_as as_http_error e = None \<and>
     errors_as as_unreachable e = None \<and> errors_as as_agent_error e = None"

lemmas chain_simps = errors_as_cons [of _ "WrapError _ _"] errors_as_cons [of _ "HttpError _ _ _ _ _ _"]
  errors_as_cons [of _ "UnreachableError _ _"] errors_as_cons [of _ "AgentError _ _ _ _"]
  errors_as_cons [of _ "TaggedError _ _ _ _"] errors_is_cons [of _ "WrapError _ _"] errors_is_cons [of _ "HttpError _ _ _ _ _ _"]
  errors_is_cons [of _ "UnreachableError _ _"] errors_is_cons [of _ "AgentError _ _ _ _"] errors_is_cons [of _ "TaggedError _ _ _ _"]
  unwrap_def

lemmas classify_defs = classify_http_error_def is_http_fallback_timeout_def as_tool_timeout_def android_fail_def
  classify_agent_boundary_def is_unreachable_def bad_request_def rejected_by_agent_def Let_def

definition reported_code :: "(nat \<Rightarrow> bool) \<Rightarrow> ('x, 'y) process_env_scheme \<Rightarrow> android_driver \<Rightarrow> go_error \<Rightarrow> string" where
  "reported_code pr env d e = fst (describe pr (Some (android_fail env d e)))"

lemma exchange_failure_code:
  assumes "foreign_error e"
  shows "reported_code pr env d (classify_http_error f verb route (HttpError verb route 0 [] (Some e) True)) =
    (if errors_is DeadlineExceeded e then CodeToolTimeout else CodeAgentUnreachable)"
  using assms by (auto simp: reported_code_def foreign_error_def classify_defs chain_simps)

lemma wrapped_foreign: "foreign_error (WrapError t e) = foreign_error e" "errors_is DeadlineExceeded (WrapError t e) = errors_is DeadlineExceeded e"
  by (auto simp: foreign_error_def chain_simps)

lemma status_refused_code:
  "reported_code pr env d (classify_http_error f verb route (HttpError verb route status data None False)) =
    (if status = 400 then CodeInvalidArgument else CodeAgentRejected)"
  by (auto simp: reported_code_def classify_defs chain_simps)

lemma undecodable_code:
  assumes "foreign_error e" "\<not> errors_is DeadlineExceeded e"
  shows "reported_code pr env d (classify_http_error f verb route (HttpError verb route 0 [] (Some e) False)) =
    CodeAgentCommunicationFailed"
  using assms by (auto simp: reported_code_def foreign_error_def classify_defs chain_simps)

text \<open>An agent that answers every request with a status and a body, and says that nothing was done.\<close>

definition refusing_client :: "int \<Rightarrow> unit http_client" where
  "refusing_client status =
     \<lparr>HcBaseUrl = http_base_url ''127.0.0.1'' 8765, HcBadRequest = (\<lambda>verb url. None), HcEncode = (\<lambda>req. Inr ''{}''),
      HcExchange = (\<lambda>ctx verb url body w. (Inr (status, Inr ''{}''), w)), HcContextErr = (\<lambda>ctx w. None),
      HcBodyFields = (\<lambda>body. Some ([], [], [])), DecodeHealth = (\<lambda>s. Inl (PlainError [])),
      DecodePing = (\<lambda>s. Inl (PlainError [])), DecodeTree = (\<lambda>s. Inr zero_node), DecodeKeyboard = (\<lambda>s. Inl (PlainError [])),
      DecodeScreenshot = (\<lambda>s. Inl (PlainError [])), DecodeActivity = (\<lambda>s. Inl (PlainError [])),
      DecodeApps = (\<lambda>s. Inr []),
      DecodeGesture = (\<lambda>s. Inr \<lparr>GrOk = False, GrReason = Some ''cancelled'', GrCode = Some ''gesture_cancelled''\<rparr>),
      DecodeDispatch = (\<lambda>s. Inl (PlainError [])), DecodeAck = (\<lambda>s. Inr \<lparr>AckOk = False, AckReason = ''refused''\<rparr>),
      DecodeClear = (\<lambda>s. Inl (PlainError [])),
      DecodeTyped = (\<lambda>s. Inr \<lparr>TkSuccess = False, TkTyped = 0, TkTotal = 4, TkReason = ''no focus''\<rparr>),
      DecodeOk = (\<lambda>s. Inr \<lparr>OrOk = False\<rparr>)\<rparr>"

definition refusing_env :: "unit android_env" where
  "refusing_env =
     \<lparr>PeRun = (\<lambda>ctx name args w. ((\<lparr>Stdout = [], Stderr = [], ExitCode = 0\<rparr>, None), w)), PeContextErr = (\<lambda>w. None),
      PeLeaks = (\<lambda>p s. False), PePrintable = (\<lambda>r. True), PeLower = id,
      AeTransport = http_transport (refusing_client 200)\<rparr>"

text \<open>
  C16: a request of the agent that could be built, under a context that is not done, is reported to the caller
  by its outcome: a failed exchange as an unreachable agent, or as a timeout when the client's own bound ended
  it; a refusal with status 400 as an invalid argument and with any other status that is not of success as a
  rejection; a body that cannot be decoded as failed communication; otherwise the answer itself.
\<close>

theorem http_failure_codes:
  assumes body: "encode_body c verb route request = Inr body" "HcBadRequest c verb (HcBaseUrl c @ route) = None"
    and live: "\<forall>w. HcContextErr c ctx w = None"
    and network: "\<forall>e w'. HcExchange c ctx verb (HcBaseUrl c @ route) body w = (Inl e, w') \<longrightarrow> foreign_error e"
      "\<forall>status e w'. HcExchange c ctx verb (HcBaseUrl c @ route) body w = (Inr (status, Inl e), w') \<longrightarrow> foreign_error e"
    and decoder: "\<forall>data e. decode data = Inl e \<longrightarrow> foreign_error e \<and> \<not> errors_is DeadlineExceeded e"
  shows "case http_do c ctx verb route request decode zero w of
      (Inl e, w') \<Rightarrow> outcome_code (route_outcome c ctx verb route body decode zero w) = Some (reported_code pr env d e)
    | (Inr a, w') \<Rightarrow> route_outcome c ctx verb route body decode zero w = Answered a"
proof (cases "HcExchange c ctx verb (HcBaseUrl c @ route) body w")
  case (Pair r w')
  note run = http_do_def do_request_def op_lift_def route_outcome_def outcome_code_def transport_failure_def body Pair
  show ?thesis
  proof (cases r)
    case (Inl e)
    then have "foreign_error e"
      using network(1) Pair by blast
    then show ?thesis
      using live by (simp add: run Inl exchange_failure_code)
  next
    case (Inr sb)
    then obtain status read where sb: "r = Inr (status, read)"
      by (cases sb) simp
    show ?thesis
    proof (cases read)
      case (Inl e)
      then have "foreign_error e"
        using network(2) Pair sb by blast
      then have f: "foreign_error (WrapError ''read response: '' e)"
        by (simp add: wrapped_foreign)
      show ?thesis
        using live by (simp add: run sb Inl exchange_failure_code [OF f] wrapped_foreign)
    next
      case (Inr data)
      have "reported_code pr env d (classify_http_error (HcBodyFields c) verb route
          (HttpError verb route 0 [] (Some (WrapError ''decode response: '' e)) False)) = CodeAgentCommunicationFailed"
        if "decode data = Inl e" for e
        using decoder that by (intro undecodable_code) (auto simp: wrapped_foreign)
      then show ?thesis
        by (auto simp: run sb Inr decode_body_def status_refused_code split: sum.splits)
    qed
  qed
qed

lemma plain_foreign: "foreign_error (PlainError s)" "\<not> errors_is DeadlineExceeded (PlainError s)"
  by (simp_all add: foreign_error_def errors_as_cons [of _ "PlainError _"] errors_is_cons [of _ "PlainError _"] unwrap_def)

lemma http_failure_codes_witness:
  "case http_do (refusing_client 400) CallerContext ''POST'' ''/actions/key'' (Some (KeyRequest ''fly''))
      (DecodeOk (refusing_client 400)) \<lparr>OrOk = False\<rparr> () of
    (Inl e, w') \<Rightarrow>
      reported_code (\<lambda>r. True) refusing_env (new_android_driver ''S1'' 0 0) e = CodeInvalidArgument
  | (Inr a, w') \<Rightarrow> False"
proof -
  let ?c = "refusing_client 400"
  have out: "route_outcome ?c CallerContext ''POST'' ''/actions/key'' (Some ''{}'') (DecodeOk ?c) \<lparr>OrOk = False\<rparr> () =
      StatusRefused 400 ''{}''"
    by (simp add: route_outcome_def refusing_client_def)
  have "case http_do ?c CallerContext ''POST'' ''/actions/key'' (Some (KeyRequest ''fly'')) (DecodeOk ?c) \<lparr>OrOk = False\<rparr> () of
      (Inl e, w') \<Rightarrow> outcome_code (route_outcome ?c CallerContext ''POST'' ''/actions/key'' (Some ''{}'') (DecodeOk ?c)
          \<lparr>OrOk = False\<rparr> ()) = Some (reported_code (\<lambda>r. True) refusing_env (new_android_driver ''S1'' 0 0) e)
    | (Inr a, w') \<Rightarrow> route_outcome ?c CallerContext ''POST'' ''/actions/key'' (Some ''{}'') (DecodeOk ?c)
          \<lparr>OrOk = False\<rparr> () = Answered a"
    by (rule http_failure_codes) (simp_all add: refusing_client_def encode_body_def plain_foreign)
  then show ?thesis
    unfolding out by (simp add: outcome_code_def split: prod.splits sum.splits)
qed

section \<open>Answers that are lost\<close>

text \<open>
  C37: the driver reports success for every tap, press, swipe and typed text the agent answers, whatever the
  answer says; the result of the call is the same for an agent that rejected or cancelled the gesture.
\<close>

theorem rejected_actions_reported_done:
  assumes "PeContextErr env w = None"
    and "TrTapCoords (AeTransport env) CallerContext (X p) (Y p) w = (Inr tapped, w1)"
    and "TrLongPress (AeTransport env) CallerContext (X p) (Y p) ms w = (Inr pressed, w2)"
    and "TrSwipe (AeTransport env) CallerContext (X p) (Y p) (X q) (Y q) ms w = (Inr swiped, w3)"
    and "TrTypeKeyboard (AeTransport env) CallerContext txt 0 (Some False) w = (Inr typed, w4)"
  shows "DrvTap (android_port env d) p w = (Inr (), w1) \<and> DrvLongPress (android_port env d) p ms w = (Inr (), w2) \<and>
    Swipe (android_port env d) p q ms w = (Inr (), w3) \<and> DrvInputText (android_port env d) txt w = (Inr (), w4)"
  using assms
  by (simp add: android_port_def android_tap_def android_long_press_def android_swipe_def android_input_text_def guarded_def
      ignored_def op_lift_def op_map_def op_bind_def)

lemma rejected_actions_reported_done_witness:
  "DrvTap (android_port refusing_env (new_android_driver ''S1'' 0 0)) (mk_point (Fin 1) (Fin 2)) () = (Inr (), ()) \<and>
   TrTapCoords (AeTransport refusing_env) CallerContext (Fin 1) (Fin 2) () =
     (Inr \<lparr>GrOk = False, GrReason = Some ''cancelled'', GrCode = Some ''gesture_cancelled''\<rparr>, ())"
proof -
  note run = http_do_def do_request_def op_lift_def encode_body_def decode_body_def
  have "TrTapCoords (AeTransport refusing_env) CallerContext (Fin 1) (Fin 2) () =
      (Inr \<lparr>GrOk = False, GrReason = Some ''cancelled'', GrCode = Some ''gesture_cancelled''\<rparr>, ())"
    "TrLongPress (AeTransport refusing_env) CallerContext (Fin 1) (Fin 2) 500 () =
      (Inr \<lparr>GrOk = False, GrReason = Some ''cancelled'', GrCode = Some ''gesture_cancelled''\<rparr>, ())"
    "TrSwipe (AeTransport refusing_env) CallerContext (Fin 1) (Fin 2) (Fin 1) (Fin 2) 500 () =
      (Inr \<lparr>GrOk = False, GrReason = Some ''cancelled'', GrCode = Some ''gesture_cancelled''\<rparr>, ())"
    "TrTypeKeyboard (AeTransport refusing_env) CallerContext ''text'' 0 (Some False) () =
      (Inr \<lparr>TkSuccess = False, TkTyped = 0, TkTotal = 4, TkReason = ''no focus''\<rparr>, ())"
    by (simp_all add: refusing_env_def http_transport_def http_tap_coords_def http_long_press_def http_swipe_def
        http_type_keyboard_def run refusing_client_def)
  then show ?thesis
    using rejected_actions_reported_done [of refusing_env "()" "mk_point (Fin 1) (Fin 2)" _ "()" 500 _ "()" "mk_point (Fin 1) (Fin 2)"
        _ "()" "''text''" _ "()" "new_android_driver ''S1'' 0 0"]
    by (simp add: refusing_env_def)
qed

section \<open>Tunnels\<close>

text \<open>The environment with a log of the commands of \<^verbatim>\<open>adb\<close>, whether each succeeded, and what it wrote.\<close>

type_synonym command_log = "(string list \<times> bool \<times> string) list"

definition beside :: "('w, 'e, 'a) op \<Rightarrow> ('w \<times> 'l, 'e, 'a) op" where
  "beside m wl = (case m (fst wl) of (r, w') \<Rightarrow> (r, w', snd wl))"

definition logged_env :: "'w android_env \<Rightarrow> ('w \<times> command_log) android_env" where
  "logged_env env =
     \<lparr>PeRun = (\<lambda>ctx name args wl. case PeRun env ctx name args (fst wl) of
          ((res, e), w') \<Rightarrow> ((res, e), w', snd wl @ [(args, e = None, Stdout res)])),
      PeContextErr = PeContextErr env \<circ> fst, PeLeaks = PeLeaks env, PePrintable = PePrintable env, PeLower = PeLower env,
      AeTransport =
        \<lparr>TrHealth = (\<lambda>ctx. beside (TrHealth (AeTransport env) ctx)), TrPing = (\<lambda>ctx. beside (TrPing (AeTransport env) ctx)),
         TrTree = (\<lambda>ctx. beside (TrTree (AeTransport env) ctx)),
         TrTapCoords = (\<lambda>ctx x y. beside (TrTapCoords (AeTransport env) ctx x y)),
         TrLongPress = (\<lambda>ctx x y ms. beside (TrLongPress (AeTransport env) ctx x y ms)),
         TrSwipe = (\<lambda>ctx x y x' y' ms. beside (TrSwipe (AeTransport env) ctx x y x' y' ms)),
         TrDispatchGesture = (\<lambda>ctx ps. beside (TrDispatchGesture (AeTransport env) ctx ps)),
         TrTypeKeyboard = (\<lambda>ctx t n b. beside (TrTypeKeyboard (AeTransport env) ctx t n b)),
         TrClearFocused = (\<lambda>ctx. beside (TrClearFocused (AeTransport env) ctx)),
         TrHideKeyboard = (\<lambda>ctx. beside (TrHideKeyboard (AeTransport env) ctx)),
         TrPressKey = (\<lambda>ctx k. beside (TrPressKey (AeTransport env) ctx k)),
         TrLaunchApp = (\<lambda>ctx b. beside (TrLaunchApp (AeTransport env) ctx b)),
         TrForceStop = (\<lambda>ctx b. beside (TrForceStop (AeTransport env) ctx b)),
         TrCurrentActivity = (\<lambda>ctx. beside (TrCurrentActivity (AeTransport env) ctx)),
         TrApps = (\<lambda>ctx. beside (TrApps (AeTransport env) ctx)),
         TrScreenshot = (\<lambda>ctx. beside (TrScreenshot (AeTransport env) ctx))\<rparr>\<rparr>"

text \<open>Sequences of connects and disconnects of one driver.\<close>

datatype connection_op = OpConnect | OpDisconnect

fun connection_step :: "'w android_env \<Rightarrow> connection_op \<Rightarrow> android_driver \<times> 'w \<Rightarrow> android_driver \<times> 'w" where
  "connection_step env OpConnect s = snd (android_connect env s)"
| "connection_step env OpDisconnect s = android_disconnect env s"

definition run_connection :: "'w android_env \<Rightarrow> connection_op list \<Rightarrow> android_driver \<times> 'w \<Rightarrow> android_driver \<times> 'w" where
  "run_connection env ops s = fold (connection_step env) ops s"

text \<open>
  Reading the log: the forward that counts as the driver's own, as serial, local and remote end, and whether
  every removal named the serial and the local end of that one. A forward becomes the driver's own by a
  command that created it; it is no longer when it was removed, or when a list of \<^verbatim>\<open>adb\<close> shows it in place
  before a connect, since another party may have put it there.
\<close>

definition shown_in_place :: "string \<Rightarrow> string \<times> string \<times> string \<Rightarrow> bool" where
  "shown_in_place out own =
     (case own of (serial, localEnd, remoteEnd) \<Rightarrow>
        (case find_adb_forward (List.map_filter parse_forward (split_on newline_char out)) localEnd of
           Some f \<Rightarrow> FwSerial f = serial \<and> FwRemote f = remoteEnd
         | None \<Rightarrow> False))"

definition scan_command ::
  "(string \<times> string \<times> string) option \<times> bool \<Rightarrow> string list \<times> bool \<times> string \<Rightarrow> (string \<times> string \<times> string) option \<times> bool" where
  "scan_command s entry =
     (case (s, entry) of
        ((own, good), (args, ok, out)) \<Rightarrow>
          (case args of
             [a, b] \<Rightarrow>
               (if a = ''forward'' \<and> b = ''--list'' \<and> ok \<and> own \<noteq> None \<and> shown_in_place out (the own) then None else own, good)
           | [a, serial, c, l, r] \<Rightarrow>
               if a \<noteq> ''-s'' \<or> c \<noteq> ''forward'' then (own, good)
               else if l = ''--remove'' then (None, good \<and> map_option (\<lambda>(s, l, r). (s, l)) own = Some (serial, r))
               else (if ok then Some (serial, l, r) else own, good)
           | _ \<Rightarrow> (own, good)))"

definition scan_forwards :: "command_log \<Rightarrow> (string \<times> string \<times> string) option \<times> bool" where
  "scan_forwards = foldl scan_command (None, True)"

lemma scan_append [simp]: "scan_forwards (lg @ [entry]) = scan_command (scan_forwards lg) entry"
  "scan_forwards (lg @ [entry, entry2]) = scan_command (scan_command (scan_forwards lg) entry) entry2"
  by (simp_all add: scan_forwards_def)

definition own_forward :: "android_driver \<Rightarrow> string \<times> string \<times> string" where
  "own_forward d = (AdSerial d, tcp_port (AdHostPort d), tcp_port (AdDevicePort d))"

lemma own_forward_frame [simp]:
  "own_forward (d\<lparr>AdForwardOwned := b\<rparr>) = own_forward d" "own_forward (d\<lparr>AdConnected := b\<rparr>) = own_forward d"
  "own_forward (d\<lparr>AdCapabilities := c\<rparr>) = own_forward d"
  by (simp_all add: own_forward_def)

definition owns_what_it_marks :: "android_driver \<Rightarrow> command_log \<Rightarrow> bool" where
  "owns_what_it_marks d lg \<longleftrightarrow>
     snd (scan_forwards lg) \<and> (AdForwardOwned d \<longrightarrow> fst (scan_forwards lg) = Some (own_forward d))"

lemma tcp_port_not_remove [simp]: "tcp_port p \<noteq> ''--remove''"
  by (simp add: tcp_port_def)

lemma scan_commands:
  "scan_command s ([''-s'', serial, ''shell'', ''dumpsys'', ''activity''], ok, out) = s"
  "scan_command s ([''forward'', ''--list''], ok, out) =
     (if ok \<and> fst s \<noteq> None \<and> shown_in_place out (the (fst s)) then None else fst s, snd s)"
  "scan_command s ([''-s'', serial, ''forward'', tcp_port l, r], ok, out) = (if ok then Some (serial, tcp_port l, r) else fst s, snd s)"
  "scan_command s ([''-s'', serial, ''forward'', ''--remove'', port], ok, out) =
     (None, snd s \<and> map_option (\<lambda>(s, l, r). (s, l)) (fst s) = Some (serial, port))"
  by (auto simp: scan_command_def split: prod.split)

lemma logged_run:
  "PeRun (logged_env env) ctx name args wl =
    (case PeRun env ctx name args (fst wl) of ((res, e), w') \<Rightarrow> ((res, e), w', snd wl @ [(args, e = None, Stdout res)]))"
  by (simp add: logged_env_def)

lemma foreign_check_log:
  "scan_forwards (snd (snd (guarded (logged_env env) (check_for_foreign_automation (logged_env env) serial) wl))) = scan_forwards (snd wl)"
  by (auto simp: guarded_def check_for_foreign_automation_def logged_run scan_commands split: option.split prod.split)

text \<open>Unless the forward is found in place, what counts as the driver's own still does.\<close>

lemma ensure_forward_log:
  assumes "ensure_forward (logged_env env) d wl = (r, wl')"
  shows "snd (scan_forwards (snd wl')) = snd (scan_forwards (snd wl)) \<and>
    (r = Inr True \<longrightarrow> fst (scan_forwards (snd wl')) = Some (own_forward d)) \<and>
    (isl r \<longrightarrow> fst (scan_forwards (snd wl)) = Some (own_forward d) \<longrightarrow> fst (scan_forwards (snd wl')) = Some (own_forward d))"
  using assms
  by (auto simp: ensure_forward_def Let_def op_bind_def op_lift_def op_map_def list_adb_forwards_def run_process_def logged_run
      scan_commands own_forward_def shown_in_place_def split: prod.splits option.splits sum.splits if_splits)

lemma connect_log:
  assumes "owns_what_it_marks d (snd wl)" "android_connect (logged_env env) (d, wl) = (r, d', wl')"
  shows "owns_what_it_marks d' (snd wl')"
proof -
  obtain r1 wl1 where g: "guarded (logged_env env) (check_for_foreign_automation (logged_env env) (AdSerial d)) wl = (r1, wl1)"
    by (cases "guarded (logged_env env) (check_for_foreign_automation (logged_env env) (AdSerial d)) wl") simp
  then have l1: "scan_forwards (snd wl1) = scan_forwards (snd wl)"
    using foreign_check_log [of env "AdSerial d" wl] by simp
  obtain r2 wl2 where f: "ensure_forward (logged_env env) d wl1 = (r2, wl2)"
    by (cases "ensure_forward (logged_env env) d wl1") simp
  note l2 = ensure_forward_log [OF f]
  have same: "snd (snd (TrHealth (AeTransport (logged_env env)) CallerContext w)) = snd w"
    "snd (snd (TrPing (AeTransport (logged_env env)) CallerContext w)) = snd w" for w
    by (simp_all add: logged_env_def beside_def split: prod.split)
  show ?thesis
  proof (cases r1)
    case (Inl e)
    then show ?thesis
      using assms g l1 by (simp add: android_connect_def owns_what_it_marks_def)
  next
    case r1: (Inr u)
    show ?thesis
    proof (cases r2)
      case (Inl e)
      then show ?thesis
        using assms g r1 f l1 l2 by (simp add: android_connect_def owns_what_it_marks_def)
    next
      case r2: (Inr owned)
      obtain h wl3 where h: "TrHealth (AeTransport (logged_env env)) CallerContext wl2 = (h, wl3)"
        by (cases "TrHealth (AeTransport (logged_env env)) CallerContext wl2")
      obtain p wl4 where p: "TrPing (AeTransport (logged_env env)) CallerContext wl3 = (p, wl4)"
        by (cases "TrPing (AeTransport (logged_env env)) CallerContext wl3")
      have "snd wl3 = snd wl2" "snd wl4 = snd wl3"
        using same(1) [of wl2] same(2) [of wl3] h p by simp_all
      moreover have "AdForwardOwned d' = owned \<and> own_forward d' = own_forward d \<and> (wl' = wl3 \<or> wl' = wl4)"
        using assms(2) unfolding android_connect_def Let_def prod.case g r1 sum.case f r2 h p
        by (auto split: sum.splits)
      ultimately have "AdForwardOwned d' = owned" "own_forward d' = own_forward d" "snd wl' = snd wl2"
        by auto
      then show ?thesis
        using assms(1) l1 l2 r2 by (simp add: owns_what_it_marks_def)
    qed
  qed
qed

lemma disconnect_log:
  "owns_what_it_marks d (snd wl) \<Longrightarrow> android_disconnect (logged_env env) (d, wl) = (d', wl') \<Longrightarrow> owns_what_it_marks d' (snd wl')"
  by (auto simp: android_disconnect_def owns_what_it_marks_def logged_run scan_commands own_forward_def split: if_splits prod.splits)

lemma connection_log:
  "owns_what_it_marks (fst s) (snd (snd s)) \<Longrightarrow>
   owns_what_it_marks (fst (run_connection (logged_env env) ops s)) (snd (snd (run_connection (logged_env env) ops s)))"
proof (induction ops arbitrary: s)
  case (Cons c ops)
  obtain d w where s: "s = (d, w)" by (cases s)
  have "owns_what_it_marks (fst (connection_step (logged_env env) c s)) (snd (snd (connection_step (logged_env env) c s)))"
  proof (cases c)
    case OpConnect
    then show ?thesis
      using Cons.prems connect_log [of d w env] by (cases "android_connect (logged_env env) s") (auto simp: s)
  next
    case OpDisconnect
    then show ?thesis
      using Cons.prems disconnect_log [of d w env] by (cases "android_disconnect (logged_env env) s") (auto simp: s)
  qed
  from Cons.IH [OF this] show ?case
    by (simp add: run_connection_def)
qed (simp add: run_connection_def)

text \<open>
  C14: whatever the agent and adb answer, and in whatever order a driver is connected and disconnected, each
  forward it removes is one that counts as its own: it names the serial and the host port of a forward that
  the driver itself created, has not removed since, and has not since found in place in the list of adb
  when it connected. The driver of the theorem is any driver; what others do is in the answers of adb.
\<close>

theorem only_own_forwards_removed:
  "snd (scan_forwards (snd (snd (run_connection (logged_env env) ops (new_android_driver serial hostPort devicePort, (w, []))))))"
  using connection_log [of "(new_android_driver serial hostPort devicePort, (w, []))" env ops]
  by (simp add: owns_what_it_marks_def new_android_driver_def scan_forwards_def)

text \<open>
  A connect that fails before the tunnel is settled keeps the mark of an earlier one: a connected driver that
  connects again and finds its port taken by another device still removes the forward of that port when it
  is disconnected.
\<close>

lemma busy_connect_keeps_mark:
  assumes "guarded env (check_for_foreign_automation env (AdSerial d)) w = (Inr u, w1)" "ensure_forward env d w1 = (Inl e, w2)"
    and "AdConnected d" "AdForwardOwned d"
  shows "android_connect env (d, w) = (Inl e, d, w2)"
    and "snd (android_disconnect env (d, w2)) =
      snd (PeRun env BackgroundContext ''adb'' [''-s'', AdSerial d, ''forward'', ''--remove'', tcp_port (AdHostPort d)] w2)"
  using assms by (simp_all add: android_connect_def android_disconnect_def)

text \<open>
  A tunnel created by a connect that then finds the agent unreachable stays: the driver is not connected, so a
  disconnect does nothing, and the next connect finds the tunnel in place and does not count it as its own.
\<close>

lemma failed_connect_leaves_forward:
  assumes "android_connect env (d, w) = (Inl e, d', w')" "\<not> AdConnected d"
  shows "android_disconnect env (d', w') = (d', w')"
  using assms by (auto simp: android_connect_def android_disconnect_def Let_def split: prod.splits sum.splits)

end
