(* ===== verification/Android_Launcher.thy ===== *)
theory Android_Launcher
  imports Android_Driver
begin

text \<open>
  Bringing the Android agent up (\<^verbatim>\<open>core/internal/androiddriver/agent_launcher.go\<close>): the tunnel, a probe,
  installing the package, binding its accessibility service again, starting it and waiting for it. The
  file system, the environment variable and the paths of \<^verbatim>\<open>path/filepath\<close> are parameters.
\<close>

section \<open>State and ports\<close>

record launcher_options =
  LoSerial :: string
  LoHostPort :: int
  LoDevicePort :: int
  LoApkPath :: string
  LoTimeoutMs :: int

record 'w launcher_env = "'w process_env" +
  LeClock :: "('w, go_error) clock"
  LeHealth :: "agent_context \<Rightarrow> ('w, go_error, health_response) op"
  LeExists :: "string \<Rightarrow> 'w \<Rightarrow> bool"
  LeEnvVar :: "string \<Rightarrow> string"
  LeExecutable :: "string option"
  LeGetwd :: "string option"
  LeDir :: "string \<Rightarrow> string"
  LeJoin :: "string \<Rightarrow> string \<Rightarrow> string"

definition agent_package :: string where "agent_package = ''dev.atomyx.agent''"
definition accessibility_service :: string where
  "accessibility_service = agent_package @ ''/'' @ agent_package @ ''.service.AtomyxAccessibilityService''"
definition foreground_service :: string where
  "foreground_service = agent_package @ ''/.control.AtomyxForegroundService''"

definition rebind_settle_ms :: int where "rebind_settle_ms = 1000"
definition health_poll_interval_ms :: int where "health_poll_interval_ms = 500"
definition default_launch_timeout_ms :: int where "default_launch_timeout_ms = 30000"
definition apk_path_env_var :: string where "apk_path_env_var = ''ATOMYX_ANDROID_APK''"
definition apk_ascent_max_levels :: nat where "apk_ascent_max_levels = 8"
definition apk_rel_path :: string where
  "apk_rel_path = ''platforms/android-agent/app/build/outputs/apk/debug/app-debug.apk''"

definition new_agent_launcher :: "launcher_options \<Rightarrow> launcher_options" where
  "new_agent_launcher opts = opts\<lparr>LoHostPort := port_or_default (LoHostPort opts), LoDevicePort := port_or_default (LoDevicePort opts)\<rparr>"

section \<open>The package\<close>

fun ascend_for_apk :: "'w launcher_env \<Rightarrow> nat \<Rightarrow> string \<Rightarrow> 'w \<Rightarrow> string option" where
  "ascend_for_apk env 0 dir w = None"
| "ascend_for_apk env (Suc n) dir w =
     (let candidate = LeJoin env dir apk_rel_path; parent = LeDir env dir in
      if LeExists env candidate w then Some candidate
      else if parent = dir then None
      else ascend_for_apk env n parent w)"

definition apk_anchors :: "'w launcher_env \<Rightarrow> string list" where
  "apk_anchors env =
     (case LeExecutable env of None \<Rightarrow> [] | Some exe \<Rightarrow> [LeDir env exe]) @ (case LeGetwd env of None \<Rightarrow> [] | Some cwd \<Rightarrow> [cwd])"

definition resolve_apk_path :: "'w launcher_env \<Rightarrow> launcher_options \<Rightarrow> 'w \<Rightarrow> string" where
  "resolve_apk_path env opts w =
     (if LoApkPath opts \<noteq> [] then LoApkPath opts
      else if LeEnvVar env apk_path_env_var \<noteq> [] then LeEnvVar env apk_path_env_var
      else case List.map_filter (\<lambda>start. ascend_for_apk env apk_ascent_max_levels start w) (apk_anchors env) of
        found # _ \<Rightarrow> found
      | [] \<Rightarrow> LeJoin env (case LeGetwd env of None \<Rightarrow> [] | Some cwd \<Rightarrow> cwd) apk_rel_path)"

fun as_exec_not_found :: "go_error \<Rightarrow> unit option" where
  "as_exec_not_found (ExecNotFound msg) = Some ()"
| "as_exec_not_found _ = None"

definition adb_install :: "'w launcher_env \<Rightarrow> launcher_options \<Rightarrow> string \<Rightarrow> ('w, go_error, unit) op" where
  "adb_install env opts apk w =
     (case PeRun env CallerContext ''adb'' [''-s'', LoSerial opts, ''install'', ''-r'', apk] w of
        ((res, None), w') \<Rightarrow> op_return () w'
      | ((res, Some e), w') \<Rightarrow>
          if errors_as as_exec_not_found e \<noteq> None then
            op_fail (LauncherError ''no-adb'' ''adb not found on PATH. Install Android platform-tools.'') w'
          else
            (let msg = trim_space (Stderr res) in
             op_fail (LauncherError ''install-failed''
               (''adb install failed: '' @ (if msg = [] then error_text (PePrintable env) e else msg))) w'))"

section \<open>Accessibility and service\<close>

definition adb_shell :: "'w launcher_env \<Rightarrow> launcher_options \<Rightarrow> string list \<Rightarrow> ('w, go_error, process_result) op" where
  "adb_shell env opts argv = run_process env CallerContext ''adb'' ([''-s'', LoSerial opts, ''shell''] @ argv)"

definition rebind_accessibility_steps :: "'w launcher_env \<Rightarrow> launcher_options \<Rightarrow> ('w, go_error, unit) op" where
  "rebind_accessibility_steps env opts =
     op_bind (adb_shell env opts [''settings'', ''delete'', ''secure'', ''enabled_accessibility_services'']) (\<lambda>_.
     op_bind (SleepMs (LeClock env) rebind_settle_ms) (\<lambda>_.
     op_bind (adb_shell env opts [''settings'', ''put'', ''secure'', ''enabled_accessibility_services'', accessibility_service]) (\<lambda>_.
     SleepMs (LeClock env) rebind_settle_ms)))"

definition rebind_accessibility :: "'w launcher_env \<Rightarrow> launcher_options \<Rightarrow> ('w, go_error, unit) op" where
  "rebind_accessibility env opts =
     op_lift (\<lambda>e. LauncherError ''rebind-failed'' (''accessibility rebind failed: '' @ error_text (PePrintable env) e))
       (rebind_accessibility_steps env opts)"

definition start_foreground_service :: "'w launcher_env \<Rightarrow> launcher_options \<Rightarrow> ('w, go_error, unit) op" where
  "start_foreground_service env opts =
     op_map (\<lambda>res. ()) (adb_shell env opts [''am'', ''start-foreground-service'', ''-n'', foreground_service])"

section \<open>Readiness\<close>

definition health_ready :: "health_response \<Rightarrow> bool" where
  "health_ready resp \<longleftrightarrow> HealthOk resp \<and> AccessibilityConnected resp"

definition probe_health :: "'w launcher_env \<Rightarrow> 'w \<Rightarrow> bool \<times> 'w" where
  "probe_health env w =
     (case LeHealth env (ContextWithTimeout health_probe_timeout_ms) w of
        (Inl e, w') \<Rightarrow> (False, w')
      | (Inr resp, w') \<Rightarrow> (health_ready resp, w'))"

definition launch_timeout_of :: "launcher_options \<Rightarrow> int" where
  "launch_timeout_of opts = (if LoTimeoutMs opts = 0 then default_launch_timeout_ms else LoTimeoutMs opts)"

text \<open>Division of an integer by 1000 cuts towards zero.\<close>

definition seconds_of :: "int \<Rightarrow> int" where
  "seconds_of ms = (if 0 \<le> ms then ms div 1000 else - (- ms div 1000))"

definition launch_timeout_error :: "launcher_options \<Rightarrow> go_error" where
  "launch_timeout_error opts =
     LauncherError ''launch-timeout''
       (''Android agent did not answer /health on port '' @ itoa (LoHostPort opts) @ '' within '' @
        itoa (seconds_of (launch_timeout_of opts)) @ ''s.'')"

text \<open>The loop, with a bound on the number of probes.\<close>

fun health_loop ::
  "'w launcher_env \<Rightarrow> launcher_options \<Rightarrow> nat \<Rightarrow> int \<Rightarrow> 'w \<Rightarrow> ((go_error + unit) \<times> 'w) option" where
  "health_loop env opts 0 deadline w = None"
| "health_loop env opts (Suc n) deadline w =
     (if NowMs (LeClock env) w < deadline then
        (case probe_health env w of
           (True, w1) \<Rightarrow> Some (Inr (), w1)
         | (False, w1) \<Rightarrow>
             (case SleepMs (LeClock env) health_poll_interval_ms w1 of
                (Inl e, w2) \<Rightarrow> Some (Inl e, w2)
              | (Inr u, w2) \<Rightarrow> health_loop env opts n deadline w2))
      else Some (Inl (launch_timeout_error opts), w))"

definition wait_for_health :: "'w launcher_env \<Rightarrow> launcher_options \<Rightarrow> nat \<Rightarrow> 'w \<Rightarrow> ((go_error + unit) \<times> 'w) option" where
  "wait_for_health env opts fuel w =
     health_loop env opts fuel (NowMs (LeClock env) w + launch_timeout_of opts) w"

definition bring_up_agent :: "'w launcher_env \<Rightarrow> launcher_options \<Rightarrow> string \<Rightarrow> ('w, go_error, unit) op" where
  "bring_up_agent env opts apk =
     op_bind (adb_install env opts apk) (\<lambda>_.
     op_bind (rebind_accessibility env opts) (\<lambda>_.
     op_lift (WrapError ''agentlauncher: start foreground service: '') (start_foreground_service env opts)))"

definition missing_apk :: "string \<Rightarrow> go_error" where
  "missing_apk apk =
     LauncherError ''no-apk''
       (''APK not found at '' @ apk @ ''. Build it with `cd platforms/android-agent && ./gradlew :app:assembleDebug` or set '' @
        apk_path_env_var @ '' env var.'')"

definition ensure_running :: "'w launcher_env \<Rightarrow> launcher_options \<Rightarrow> nat \<Rightarrow> 'w \<Rightarrow> ((go_error + unit) \<times> 'w) option" where
  "ensure_running env opts fuel w =
     (case guarded env (op_lift (WrapError ''agentlauncher: adb forward: '')
        (run_process env CallerContext ''adb''
          [''-s'', LoSerial opts, ''forward'', tcp_port (LoHostPort opts), tcp_port (LoDevicePort opts)])) w of
        (Inl e, w1) \<Rightarrow> Some (Inl e, w1)
      | (Inr _, w1) \<Rightarrow>
          (case probe_health env w1 of
             (True, w2) \<Rightarrow> Some (Inr (), w2)
           | (False, w2) \<Rightarrow>
               (let apk = resolve_apk_path env opts w2 in
                if \<not> LeExists env apk w2 then Some (Inl (missing_apk apk), w2)
                else case bring_up_agent env opts apk w2 of
                  (Inl e, w3) \<Rightarrow> Some (Inl e, w3)
                | (Inr _, w3) \<Rightarrow> wait_for_health env opts fuel w3)))"

section \<open>What success and time mean\<close>

lemma health_loop_ready:
  "health_loop env opts n deadline w = Some (Inr (), w') \<Longrightarrow> \<exists>w1. probe_health env w1 = (True, w')"
  by (induction env opts n deadline w rule: health_loop.induct) (auto split: if_splits prod.splits bool.splits sum.splits)

text \<open>
  The launcher returns without an error only right after the agent has answered a probe that it is up and
  that its accessibility service is bound.
\<close>

lemma ensure_running_ready:
  assumes "ensure_running env opts fuel w = Some (Inr (), w')"
  shows "\<exists>w1 resp. LeHealth env (ContextWithTimeout health_probe_timeout_ms) w1 = (Inr resp, w') \<and>
    HealthOk resp \<and> AccessibilityConnected resp"
proof -
  have "\<exists>w1. probe_health env w1 = (True, w')"
    using assms
    by (auto simp: ensure_running_def wait_for_health_def Let_def dest!: health_loop_ready
        split: prod.splits sum.splits bool.splits if_splits option.splits)
  then obtain w1 where "probe_health env w1 = (True, w')" ..
  then show ?thesis
    by (cases "LeHealth env (ContextWithTimeout health_probe_timeout_ms) w1")
      (auto simp: probe_health_def health_ready_def split: sum.splits)
qed

text \<open>Over a clock whose sleeps take their time and with probes that do not turn it back, the loop ends.\<close>

lemma health_loop_returns:
  assumes sleep: "\<And>w w'. SleepMs (LeClock env) health_poll_interval_ms w = (Inr (), w') \<Longrightarrow>
      NowMs (LeClock env) w + health_poll_interval_ms \<le> NowMs (LeClock env) w'"
    and probe: "\<And>w r w'. probe_health env w = (r, w') \<Longrightarrow> NowMs (LeClock env) w \<le> NowMs (LeClock env) w'"
    and fuel: "deadline - NowMs (LeClock env) w \<le> int n * health_poll_interval_ms"
  shows "health_loop env opts (Suc n) deadline w \<noteq> None"
  using fuel
proof (induction n arbitrary: w)
  case 0
  then show ?case by simp
next
  case (Suc n)
  show ?case
  proof (cases "NowMs (LeClock env) w < deadline")
    case True
    obtain r w1 where p: "probe_health env w = (r, w1)"
      by (cases "probe_health env w")
    show ?thesis
    proof (cases r)
      case False
      obtain s w2 where sl: "SleepMs (LeClock env) health_poll_interval_ms w1 = (s, w2)"
        by (cases "SleepMs (LeClock env) health_poll_interval_ms w1")
      show ?thesis
      proof (cases s)
        case (Inr u)
        with sl have "NowMs (LeClock env) w1 + health_poll_interval_ms \<le> NowMs (LeClock env) w2"
          using sleep by simp
        with probe [OF p] Suc.prems have "deadline - NowMs (LeClock env) w2 \<le> int n * health_poll_interval_ms"
          by (simp add: algebra_simps)
        from Suc.IH [OF this] show ?thesis
          using True p False sl Inr by simp
      qed (use True p False sl in simp)
    qed (use True p in simp)
  qed simp
qed

text \<open>
  Waiting for the agent returns: over a clock whose sleeps take at least their time and that does not run
  backwards while probing, one probe more than half-seconds in the launch timeout is enough.
\<close>

lemma wait_for_health_returns:
  assumes "\<forall>w w'. SleepMs (LeClock env) health_poll_interval_ms w = (Inr (), w') \<longrightarrow>
      NowMs (LeClock env) w + health_poll_interval_ms \<le> NowMs (LeClock env) w'"
    and "\<forall>w r w'. probe_health env w = (r, w') \<longrightarrow> NowMs (LeClock env) w \<le> NowMs (LeClock env) w'"
    and "launch_timeout_of opts \<le> int n * health_poll_interval_ms"
  shows "wait_for_health env opts (Suc n) w \<noteq> None"
  unfolding wait_for_health_def using assms by (intro health_loop_returns) auto

end
