(* ===== verification/Tcp_Client.thy ===== *)
theory Tcp_Client
  imports Wire_Errors Go_Effects
begin

text \<open>
  \<^verbatim>\<open>transport/tcp_client.go\<close>: the connection to the iOS agent with its table of calls that wait for a
  response. What the code does under its mutex is a definition on the fields of \<^verbatim>\<open>TCPClient\<close>; calls,
  read loops, reconnects and closes are goroutines, so that their steps interleave. A socket is the number
  of its dial, a call the number of its channel. The counters count up by one and are not wrapped at 64 bits.
  Parameters: dialing, the decoder of a line, the printable runes of \<^verbatim>\<open>%q\<close>, and which errors of the network
  are timeouts. The log line of a call is left out.
\<close>

section \<open>The client\<close>

type_synonym tcp_result = "go_error + string"

record tcp_client =
  TcAddr :: string
  TcResponseTimeout :: int
  TcConn :: "nat option"
  TcGeneration :: int
  TcNextID :: int
  TcPending :: "(int \<times> nat) list"
  TcDead :: bool

record tcp_response =
  FrID :: "int option"
  FrOk :: "bool option"
  FrData :: string
  FrError :: "string option"

definition tcp_connect_retry_budget_ms :: int where "tcp_connect_retry_budget_ms = 30000"
definition tcp_connect_retry_interval_ms :: int where "tcp_connect_retry_interval_ms = 500"
definition tcp_write_timeout_ms :: int where "tcp_write_timeout_ms = 10000"
definition tcp_response_timeout_ms :: int where "tcp_response_timeout_ms = 10000"

text \<open>\<^verbatim>\<open>net.JoinHostPort\<close>, with the brackets of an IPv6 address.\<close>

definition join_host_port :: "string \<Rightarrow> int \<Rightarrow> string" where
  "join_host_port host port = (if CHR '':'' \<in> set host then ''['' @ host @ '']:'' else host @ '':'') @ itoa port"

definition new_tcp_client :: "string \<Rightarrow> int \<Rightarrow> tcp_client" where
  "new_tcp_client host port =
     \<lparr>TcAddr = join_host_port host port, TcResponseTimeout = tcp_response_timeout_ms, TcConn = None, TcGeneration = 0,
      TcNextID = 0, TcPending = [], TcDead = True\<rparr>"

definition tcp_is_connected :: "tcp_client \<Rightarrow> bool" where
  "tcp_is_connected c \<longleftrightarrow> TcConn c \<noteq> None \<and> \<not> TcDead c"

section \<open>Under the mutex\<close>

text \<open>The sends of \<^verbatim>\<open>rejectAll\<close>, made after the mutex is released.\<close>

definition reject_all :: "(int \<times> nat) list \<Rightarrow> go_error \<Rightarrow> (nat \<times> tcp_result) list" where
  "reject_all pending e = map (\<lambda>(rid, ch). (ch, Inl e)) pending"

text \<open>The swap of \<^verbatim>\<open>Connect\<close> and of \<^verbatim>\<open>Close\<close>: the client, the socket to close and the calls to reject.\<close>

definition connect_swap :: "nat \<Rightarrow> tcp_client \<Rightarrow> tcp_client \<times> nat option \<times> (nat \<times> tcp_result) list" where
  "connect_swap conn c =
     (c\<lparr>TcGeneration := TcGeneration c + 1, TcConn := Some conn, TcDead := False, TcPending := []\<rparr>, TcConn c,
      if \<not> TcDead c then reject_all (TcPending c) (TcpError TcpDisconnected [] ''client reconnected'' None) else [])"

definition close_swap :: "tcp_client \<Rightarrow> tcp_client \<times> nat option \<times> (nat \<times> tcp_result) list" where
  "close_swap c =
     (c\<lparr>TcConn := None, TcDead := True, TcGeneration := TcGeneration c + 1, TcPending := []\<rparr>, TcConn c,
      if \<not> TcDead c then reject_all (TcPending c) (TcpError TcpDisconnected [] ''client closed by caller'' None) else [])"

definition remove_pending :: "int \<Rightarrow> tcp_client \<Rightarrow> tcp_client" where
  "remove_pending rid c = c\<lparr>TcPending := filter (\<lambda>(x, ch). x \<noteq> rid) (TcPending c)\<rparr>"

text \<open>What a frame means for the call it answers, and \<^verbatim>\<open>handleLine\<close>.\<close>

definition frame_result :: "tcp_response \<Rightarrow> tcp_result" where
  "frame_result f =
     (if FrOk f = Some True then Inr (FrData f)
      else Inl (TcpError TcpDriverError []
        (case FrError f of Some msg \<Rightarrow> msg | None \<Rightarrow> ''agent returned ok:false'') None))"

definition handle_frame :: "tcp_response \<Rightarrow> tcp_client \<Rightarrow> tcp_client \<times> (nat \<times> tcp_result) list" where
  "handle_frame f c =
     (case FrID f of
        None \<Rightarrow> (c, [])
      | Some rid \<Rightarrow>
          (case map_of (TcPending c) rid of
             None \<Rightarrow> (c, [])
           | Some ch \<Rightarrow> (remove_pending rid c, [(ch, frame_result f)])))"

definition handle_line :: "(string \<Rightarrow> tcp_response option) \<Rightarrow> string \<Rightarrow> tcp_client \<Rightarrow> tcp_client \<times> (nat \<times> tcp_result) list" where
  "handle_line decode line c = (case decode line of None \<Rightarrow> (c, []) | Some f \<Rightarrow> handle_frame f c)"

definition handle_disconnect :: "int \<Rightarrow> go_error \<Rightarrow> tcp_client \<Rightarrow> tcp_client \<times> (nat \<times> tcp_result) list" where
  "handle_disconnect gen reason c =
     (if TcDead c \<or> gen \<noteq> TcGeneration c then (c, [])
      else (c\<lparr>TcDead := True, TcConn := None, TcPending := []\<rparr>,
            reject_all (TcPending c) (TcpError TcpDisconnected [] [] (Some reason))))"

text \<open>The registration of a call, with its number and the generation it belongs to.\<close>

definition register_call :: "string \<Rightarrow> nat \<Rightarrow> tcp_client \<Rightarrow> (go_error + int \<times> int) \<times> tcp_client" where
  "register_call cmdType ch c =
     (if TcDead c \<or> TcConn c = None then (Inl (TcpError TcpNotConnected cmdType [] None), c)
      else let rid = TcNextID c + 1 in
        (Inr (rid, TcGeneration c), c\<lparr>TcNextID := rid, TcPending := TcPending c @ [(rid, ch)]\<rparr>))"

section \<open>Errors of a call\<close>

definition classify_write_error :: "(go_error \<Rightarrow> bool) \<Rightarrow> go_error \<Rightarrow> string \<Rightarrow> bool \<Rightarrow> go_error option \<Rightarrow> go_error" where
  "classify_write_error isTimeout writeErr cmdType hadCtxDeadline ctxErr =
     (if \<not> isTimeout writeErr then TcpError TcpDisconnected cmdType [] (Some writeErr)
      else if hadCtxDeadline then (case ctxErr of Some e \<Rightarrow> e | None \<Rightarrow> DeadlineExceeded)
      else TcpError TcpWriteTimeout cmdType [] (Some writeErr))"

text \<open>The deadline of the write, and whether it is of the caller's context.\<close>

definition write_deadline :: "int option \<Rightarrow> int \<Rightarrow> int \<times> bool" where
  "write_deadline ctxDeadline now =
     (case ctxDeadline of Some d \<Rightarrow> (d, True) | None \<Rightarrow> (now + tcp_write_timeout_ms, False))"

definition response_timeout :: "string \<Rightarrow> go_error" where
  "response_timeout cmdType = TcpError TcpResponseTimeout cmdType [] None"

definition encode_failure :: "(nat \<Rightarrow> bool) \<Rightarrow> string \<Rightarrow> go_error \<Rightarrow> go_error" where
  "encode_failure pr cmdType e = WrapError (''transport: encode request '' @ go_quote pr cmdType @ '': '') e"

text \<open>\<^verbatim>\<open>Call\<close> of what \<^verbatim>\<open>callInner\<close> returned, and \<^verbatim>\<open>CallInto\<close> of that.\<close>

definition tcp_call_result :: "(nat \<Rightarrow> bool) \<Rightarrow> string \<Rightarrow> tcp_result \<Rightarrow> tcp_result" where
  "tcp_call_result pr cmdType r = map_sum (classify_tcp_error pr cmdType) id r"

definition tcp_call_into :: "(string \<Rightarrow> go_error + 'a) \<Rightarrow> 'a \<Rightarrow> tcp_result \<Rightarrow> go_error + 'a" where
  "tcp_call_into decode out r =
     (case r of Inl e \<Rightarrow> Inl e | Inr data \<Rightarrow> if data = [] then Inr out else decode data)"

section \<open>Dialing\<close>

text \<open>
  \<^verbatim>\<open>TdDial\<close> tries once, \<^verbatim>\<open>TdRetryErr\<close> is the error of the context with the budget, \<^verbatim>\<open>TdPause\<close> waits for the
  interval, or returns that error when the context ends first. \<^verbatim>\<open>TdContextErr\<close> is of the caller's context.
\<close>

record 'w tcp_dialer =
  TdDial :: "string \<Rightarrow> ('w, go_error, nat) op"
  TdRetryErr :: "'w \<Rightarrow> go_error option"
  TdPause :: "int \<Rightarrow> 'w \<Rightarrow> go_error option \<times> 'w"
  TdContextErr :: "'w \<Rightarrow> go_error option"

fun dial_with_retry :: "'w tcp_dialer \<Rightarrow> string \<Rightarrow> nat \<Rightarrow> go_error option \<Rightarrow> 'w \<Rightarrow> ((go_error + nat) \<times> 'w) option" where
  "dial_with_retry t addr 0 lastErr w = None"
| "dial_with_retry t addr (Suc n) lastErr w =
     (case TdDial t addr w of
        (Inr conn, w1) \<Rightarrow> Some (Inr conn, w1)
      | (Inl e, w1) \<Rightarrow>
          (let lastErr' = (if TdRetryErr t w1 = None then Some e else lastErr) in
           case TdPause t tcp_connect_retry_interval_ms w1 of
             (Some ctxErr, w2) \<Rightarrow> Some (Inl (case lastErr' of Some e' \<Rightarrow> e' | None \<Rightarrow> ctxErr), w2)
           | (None, w2) \<Rightarrow> dial_with_retry t addr n lastErr' w2))"

definition tcp_connect ::
  "'w tcp_dialer \<Rightarrow> nat \<Rightarrow> tcp_client \<times> 'w \<Rightarrow> ((go_error + nat option \<times> (nat \<times> tcp_result) list) \<times> tcp_client \<times> 'w) option" where
  "tcp_connect t fuel s =
     (case s of (c, w) \<Rightarrow>
        (case dial_with_retry t (TcAddr c) fuel None w of
           None \<Rightarrow> None
         | Some (Inl e, w') \<Rightarrow>
             Some (Inl (case TdContextErr t w' of Some ctxErr \<Rightarrow> ctxErr | None \<Rightarrow> TcpError TcpNotConnected [] [] (Some e)), c, w')
         | Some (Inr conn, w') \<Rightarrow> (case connect_swap conn c of (c', oldConn, sends) \<Rightarrow> Some (Inr (oldConn, sends), c', w'))))"

text \<open>Dialing ends when the pauses use up the budget, measured by \<open>left\<close>.\<close>

lemma dial_returns:
  assumes dial: "\<And>w r w'. TdDial t addr w = (r, w') \<Longrightarrow> left w' \<le> (left w :: nat)"
    and pause: "\<And>w w'. TdPause t tcp_connect_retry_interval_ms w = (None, w') \<Longrightarrow> left w' < left w"
  shows "left w < n \<Longrightarrow> dial_with_retry t addr n lastErr w \<noteq> None"
proof (induction n arbitrary: w lastErr)
  case (Suc n)
  obtain r w1 where d: "TdDial t addr w = (r, w1)"
    by (cases "TdDial t addr w")
  show ?case
  proof (cases r)
    case (Inl e)
    obtain p w2 where "TdPause t tcp_connect_retry_interval_ms w1 = (p, w2)"
      by (cases "TdPause t tcp_connect_retry_interval_ms w1")
    then show ?thesis
      using d Inl dial [OF d] pause [of w1 w2] Suc by (cases p) (auto simp: Let_def)
  qed (simp add: d)
qed simp

end
