(* ===== verification/Tcp_Calls.thy ===== *)
theory Tcp_Calls
  imports Tcp_Client
begin

text \<open>
  The goroutines around the client of \<^verbatim>\<open>transport/tcp_client.go\<close>, as steps that interleave: each holds the
  mutex for one of the definitions of \<open>Tcp_Client\<close>, and sends on channels outside of it. A channel has room
  for one result. Lemmas: every call waits for exactly one answer, and no send ever blocks.
\<close>

section \<open>Calls and steps\<close>

text \<open>
  A call of \<^verbatim>\<open>callInner\<close>: not begun; registered and writing its request; waiting in \<^verbatim>\<open>select\<close>; having taken
  itself off the table after a failed write, before it takes down the connection; returned. It knows its
  command, its number, its generation and whether its context has a deadline.
\<close>

datatype call_phase =
  CallIdle
| CallSending string int int bool
| CallWaiting string int bool
| CallTornDown string int int bool go_error
| CallReturned "int option" tcp_result

record tcp_system =
  SyClient :: tcp_client
  SySending :: "(nat \<times> tcp_result) list"
  SyInbox :: "nat \<Rightarrow> tcp_result list"
  SyCalls :: "nat \<Rightarrow> call_phase"
  SyReaders :: "(nat \<times> int) list"
  SyOpen :: "nat list"
  SySockets :: nat
  SyFrames :: "tcp_response list"

definition new_system :: "string \<Rightarrow> int \<Rightarrow> tcp_system" where
  "new_system host port =
     \<lparr>SyClient = new_tcp_client host port, SySending = [], SyInbox = (\<lambda>i. []), SyCalls = (\<lambda>i. CallIdle), SyReaders = [],
      SyOpen = [], SySockets = 0, SyFrames = []\<rparr>"

text \<open>A change of phase, a change under the mutex with the sends it leaves to do, and a socket closed.\<close>

definition set_phase :: "nat \<Rightarrow> call_phase \<Rightarrow> tcp_system \<Rightarrow> tcp_system" where
  "set_phase i ph y = y\<lparr>SyCalls := (SyCalls y)(i := ph)\<rparr>"

definition locked :: "tcp_client \<times> (nat \<times> tcp_result) list \<Rightarrow> tcp_system \<Rightarrow> tcp_system" where
  "locked cs y = y\<lparr>SyClient := fst cs, SySending := SySending y @ snd cs\<rparr>"

definition close_socket :: "nat option \<Rightarrow> tcp_system \<Rightarrow> tcp_system" where
  "close_socket conn y = (case conn of None \<Rightarrow> y | Some s \<Rightarrow> y\<lparr>SyOpen := filter (\<lambda>x. x \<noteq> s) (SyOpen y)\<rparr>)"

text \<open>\<^verbatim>\<open>Connect\<close> after a successful dial, and \<^verbatim>\<open>Close\<close>.\<close>

definition connect_step :: "tcp_system \<Rightarrow> tcp_system" where
  "connect_step y =
     (case connect_swap (SySockets y) (SyClient y) of (c, oldConn, sends) \<Rightarrow>
        (close_socket oldConn (locked (c, sends) y))
          \<lparr>SyReaders := (SySockets y, TcGeneration c) # SyReaders y,
           SyOpen := SySockets y # SyOpen (close_socket oldConn y), SySockets := SySockets y + 1\<rparr>)"

definition close_step :: "tcp_system \<Rightarrow> tcp_system" where
  "close_step y =
     (case close_swap (SyClient y) of (c, oldConn, sends) \<Rightarrow> close_socket oldConn (locked (c, sends) y))"

text \<open>A line that a read loop has read, and the end of the loop.\<close>

definition line_step :: "(string \<Rightarrow> tcp_response option) \<Rightarrow> string \<Rightarrow> tcp_system \<Rightarrow> tcp_system" where
  "line_step decode line y =
     (locked (handle_line decode line (SyClient y)) y)\<lparr>SyFrames := SyFrames y @ (case decode line of None \<Rightarrow> [] | Some f \<Rightarrow> [f])\<rparr>"

definition lost_step :: "nat \<times> int \<Rightarrow> go_error \<Rightarrow> tcp_system \<Rightarrow> tcp_system" where
  "lost_step reader reason y =
     (locked (handle_disconnect (snd reader) reason (SyClient y)) y)\<lparr>SyReaders := removeAll reader (SyReaders y)\<rparr>"

text \<open>The sections of \<^verbatim>\<open>callInner\<close>; \<open>pr\<close> is the printable runes.\<close>

definition start_step :: "(nat \<Rightarrow> bool) \<Rightarrow> nat \<Rightarrow> string \<Rightarrow> bool \<Rightarrow> tcp_system \<Rightarrow> tcp_system" where
  "start_step pr i cmdType hadDeadline y =
     (case register_call cmdType i (SyClient y) of
        (Inl e, c) \<Rightarrow> set_phase i (CallReturned None (tcp_call_result pr cmdType (Inl e))) y
      | (Inr (rid, gen), c) \<Rightarrow> set_phase i (CallSending cmdType rid gen hadDeadline) (locked (c, []) y))"

definition leave_step :: "int \<Rightarrow> nat \<Rightarrow> call_phase \<Rightarrow> tcp_system \<Rightarrow> tcp_system" where
  "leave_step rid i ph y = set_phase i ph (locked (remove_pending rid (SyClient y), []) y)"

definition torn_step ::
  "(nat \<Rightarrow> bool) \<Rightarrow> (go_error \<Rightarrow> bool) \<Rightarrow> nat \<Rightarrow> string \<Rightarrow> int \<Rightarrow> int \<Rightarrow> bool \<Rightarrow> go_error \<Rightarrow> go_error option \<Rightarrow> tcp_system \<Rightarrow> tcp_system" where
  "torn_step pr isTimeout i cmdType rid gen hadDeadline writeErr ctxErr y =
     set_phase i (CallReturned (Some rid)
         (tcp_call_result pr cmdType (Inl (classify_write_error isTimeout writeErr cmdType hadDeadline ctxErr))))
       (locked (handle_disconnect gen writeErr (SyClient y)) y)"

text \<open>A send on a channel that has room, and a receive.\<close>

definition send_step :: "nat \<times> tcp_result \<Rightarrow> tcp_system \<Rightarrow> tcp_system" where
  "send_step s y =
     y\<lparr>SySending := remove1 s (SySending y), SyInbox := (SyInbox y)(fst s := SyInbox y (fst s) @ [snd s])\<rparr>"

definition receive_step :: "(nat \<Rightarrow> bool) \<Rightarrow> nat \<Rightarrow> string \<Rightarrow> int \<Rightarrow> tcp_result \<Rightarrow> tcp_system \<Rightarrow> tcp_system" where
  "receive_step pr i cmdType rid r y =
     set_phase i (CallReturned (Some rid) (tcp_call_result pr cmdType r)) (y\<lparr>SyInbox := (SyInbox y)(i := [])\<rparr>)"

definition returned :: "(nat \<Rightarrow> bool) \<Rightarrow> string \<Rightarrow> int \<Rightarrow> go_error \<Rightarrow> call_phase" where
  "returned pr cmdType rid e = CallReturned (Some rid) (tcp_call_result pr cmdType (Inl e))"

inductive tcp_step ::
  "(nat \<Rightarrow> bool) \<Rightarrow> (go_error \<Rightarrow> bool) \<Rightarrow> (string \<Rightarrow> tcp_response option) \<Rightarrow> tcp_system \<Rightarrow> tcp_system \<Rightarrow> bool"
  for pr isTimeout decode
where
  connect: "tcp_step pr isTimeout decode y (connect_step y)"
| close: "tcp_step pr isTimeout decode y (close_step y)"
| line: "reader \<in> set (SyReaders y) \<Longrightarrow> tcp_step pr isTimeout decode y (line_step decode line y)"
| lost: "reader \<in> set (SyReaders y) \<Longrightarrow> tcp_step pr isTimeout decode y (lost_step reader reason y)"
| refused: "SyCalls y i = CallIdle \<Longrightarrow> e \<in> {Canceled, DeadlineExceeded} \<Longrightarrow>
    tcp_step pr isTimeout decode y (set_phase i (CallReturned None (tcp_call_result pr cmdType (Inl e))) y)"
| start: "SyCalls y i = CallIdle \<Longrightarrow> tcp_step pr isTimeout decode y (start_step pr i cmdType hadDeadline y)"
| not_encoded: "SyCalls y i = CallSending cmdType rid gen hadDeadline \<Longrightarrow>
    tcp_step pr isTimeout decode y (leave_step rid i (returned pr cmdType rid (encode_failure pr cmdType e)) y)"
| written: "SyCalls y i = CallSending cmdType rid gen hadDeadline \<Longrightarrow>
    tcp_step pr isTimeout decode y (set_phase i (CallWaiting cmdType rid hadDeadline) y)"
| not_written: "SyCalls y i = CallSending cmdType rid gen hadDeadline \<Longrightarrow>
    tcp_step pr isTimeout decode y (leave_step rid i (CallTornDown cmdType rid gen hadDeadline writeErr) y)"
| torn: "SyCalls y i = CallTornDown cmdType rid gen hadDeadline writeErr \<Longrightarrow>
    ctxErr \<in> {None, Some Canceled, Some DeadlineExceeded} \<Longrightarrow>
    tcp_step pr isTimeout decode y (torn_step pr isTimeout i cmdType rid gen hadDeadline writeErr ctxErr y)"
| send: "s \<in> set (SySending y) \<Longrightarrow> SyInbox y (fst s) = [] \<Longrightarrow> tcp_step pr isTimeout decode y (send_step s y)"
| receive: "SyCalls y i = CallWaiting cmdType rid hadDeadline \<Longrightarrow> SyInbox y i = [r] \<Longrightarrow>
    tcp_step pr isTimeout decode y (receive_step pr i cmdType rid r y)"
| canceled: "SyCalls y i = CallWaiting cmdType rid hadDeadline \<Longrightarrow> e \<in> {Canceled, DeadlineExceeded} \<Longrightarrow>
    tcp_step pr isTimeout decode y (leave_step rid i (returned pr cmdType rid e) y)"
| timeout: "SyCalls y i = CallWaiting cmdType rid False \<Longrightarrow>
    tcp_step pr isTimeout decode y (leave_step rid i (returned pr cmdType rid (response_timeout cmdType)) y)"

inductive tcp_steps ::
  "(nat \<Rightarrow> bool) \<Rightarrow> (go_error \<Rightarrow> bool) \<Rightarrow> (string \<Rightarrow> tcp_response option) \<Rightarrow> tcp_system \<Rightarrow> tcp_system \<Rightarrow> bool"
  for pr isTimeout decode
where
  tcp_none: "tcp_steps pr isTimeout decode y y"
| tcp_more: "tcp_steps pr isTimeout decode y y' \<Longrightarrow> tcp_step pr isTimeout decode y' y'' \<Longrightarrow> tcp_steps pr isTimeout decode y y''"

section \<open>The invariant\<close>

text \<open>The number a call has, and the number under which it is still to be answered.\<close>

fun call_ident :: "call_phase \<Rightarrow> int option" where
  "call_ident CallIdle = None"
| "call_ident (CallSending cmdType rid gen hadDeadline) = Some rid"
| "call_ident (CallWaiting cmdType rid hadDeadline) = Some rid"
| "call_ident (CallTornDown cmdType rid gen hadDeadline writeErr) = Some rid"
| "call_ident (CallReturned rid r) = rid"

fun call_open :: "call_phase \<Rightarrow> bool" where
  "call_open (CallSending cmdType rid gen hadDeadline) = True"
| "call_open (CallWaiting cmdType rid hadDeadline) = True"
| "call_open ph = False"

text \<open>How many results are on the way to a channel: entries of the table, sends to do, results in it.\<close>

definition held :: "tcp_system \<Rightarrow> nat \<Rightarrow> nat" where
  "held y i =
     count_list (map snd (TcPending (SyClient y))) i + count_list (map fst (SySending y)) i + length (SyInbox y i)"

definition rejection :: "tcp_result \<Rightarrow> bool" where
  "rejection r \<longleftrightarrow> (\<exists>msg cause. r = Inl (TcpError TcpDisconnected [] msg cause))"

definition explained :: "tcp_response list \<Rightarrow> int \<Rightarrow> tcp_result \<Rightarrow> bool" where
  "explained fs rid r \<longleftrightarrow> rejection r \<or> (\<exists>f \<in> set fs. FrID f = Some rid \<and> frame_result f = r)"

definition on_its_way :: "tcp_system \<Rightarrow> nat \<Rightarrow> tcp_result \<Rightarrow> bool" where
  "on_its_way y i r \<longleftrightarrow> (i, r) \<in> set (SySending y) \<or> r \<in> set (SyInbox y i)"

definition table_ok :: "tcp_system \<Rightarrow> bool" where
  "table_ok y \<longleftrightarrow>
     (let c = SyClient y in
      (TcConn c = None \<longleftrightarrow> TcDead c) \<and> (TcDead c \<longrightarrow> TcPending c = []) \<and> distinct (map fst (TcPending c)) \<and>
      (\<forall>rid i. (rid, i) \<in> set (TcPending c) \<longrightarrow> call_ident (SyCalls y i) = Some rid \<and> call_open (SyCalls y i)))"

definition idents_ok :: "tcp_system \<Rightarrow> bool" where
  "idents_ok y \<longleftrightarrow>
     (\<forall>i rid. call_ident (SyCalls y i) = Some rid \<longrightarrow> rid \<le> TcNextID (SyClient y)) \<and>
     (\<forall>i j rid. call_ident (SyCalls y i) = Some rid \<longrightarrow> call_ident (SyCalls y j) = Some rid \<longrightarrow> i = j)"

definition held_ok :: "tcp_system \<Rightarrow> bool" where
  "held_ok y \<longleftrightarrow>
     (\<forall>i. held y i \<le> 1 \<and> (call_open (SyCalls y i) \<longrightarrow> held y i = 1) \<and> (call_ident (SyCalls y i) = None \<longrightarrow> held y i = 0))"

definition answers_ok :: "tcp_system \<Rightarrow> bool" where
  "answers_ok y \<longleftrightarrow>
     (\<forall>i r rid. on_its_way y i r \<longrightarrow> call_ident (SyCalls y i) = Some rid \<longrightarrow> explained (SyFrames y) rid r) \<and>
     (\<forall>i rid data. SyCalls y i = CallReturned rid (Inr data) \<longrightarrow>
        (\<exists>f \<in> set (SyFrames y). FrID f = rid \<and> frame_result f = Inr data))"

definition tcp_inv :: "tcp_system \<Rightarrow> bool" where
  "tcp_inv y \<longleftrightarrow> table_ok y \<and> idents_ok y \<and> held_ok y \<and> answers_ok y"

lemmas tcp_inv_defs = tcp_inv_def table_ok_def idents_ok_def held_ok_def answers_ok_def held_def on_its_way_def Let_def

lemma tcp_inv_frame [simp]:
  "tcp_inv (y\<lparr>SyReaders := rs\<rparr>) = tcp_inv y" "tcp_inv (y\<lparr>SyOpen := os\<rparr>) = tcp_inv y" "tcp_inv (y\<lparr>SySockets := n\<rparr>) = tcp_inv y"
  by (simp_all add: tcp_inv_defs)

lemma tcp_inv_close_socket [simp]: "tcp_inv (close_socket conn y) = tcp_inv y"
  by (simp add: close_socket_def split: option.split)

lemma explained_append: "explained fs rid r \<Longrightarrow> explained (fs @ gs) rid r"
  by (auto simp: explained_def)

lemma answers_frames: "answers_ok y \<Longrightarrow> answers_ok (y\<lparr>SyFrames := SyFrames y @ fs\<rparr>)"
  unfolding answers_ok_def on_its_way_def by (simp add: explained_append) blast

lemma tcp_inv_frames: "tcp_inv y \<Longrightarrow> tcp_inv (y\<lparr>SyFrames := SyFrames y @ fs\<rparr>)"
  using answers_frames by (simp add: tcp_inv_def table_ok_def idents_ok_def held_ok_def held_def)

text \<open>Moving entries of the table to the sends.\<close>

lemma count_reject_all: "count_list (map fst (reject_all ps e)) i = count_list (map snd ps) i"
  by (induction ps) (auto simp: reject_all_def)

lemma set_reject_all: "(i, r) \<in> set (reject_all ps e) \<longleftrightarrow> r = Inl e \<and> i \<in> snd ` set ps"
  by (force simp: reject_all_def)

lemma remove_not_there: "rid \<notin> fst ` set ps \<Longrightarrow> filter (\<lambda>(x, ch). x \<noteq> rid) ps = ps"
  by (induction ps) auto

lemma count_remove:
  "distinct (map fst ps) \<Longrightarrow> (rid, i) \<in> set ps \<Longrightarrow>
   count_list (map snd (filter (\<lambda>(x, ch). x \<noteq> rid) ps)) j + (if j = i then 1 else 0) = count_list (map snd ps) j"
proof (induction ps)
  case (Cons p ps)
  then show ?case
    by (cases p) (force simp: remove_not_there image_iff)
qed simp

lemma count_channel_absent: "i \<notin> snd ` set ps \<Longrightarrow> count_list (map snd ps) i = 0"
  by (simp add: count_list_0_iff)

lemma reject_keeps:
  assumes "tcp_inv y" "TcPending c' = []" "TcNextID c' = TcNextID (SyClient y)" "TcConn c' = None \<longleftrightarrow> TcDead c'"
    and sends: "sends = reject_all (TcPending (SyClient y)) (TcpError TcpDisconnected [] msg cause)"
  shows "tcp_inv (locked (c', sends) y)"
proof -
  have "explained fs rid (Inl (TcpError TcpDisconnected [] msg cause))" for fs rid
    by (auto simp: explained_def rejection_def)
  with assms show ?thesis
    by (auto simp: tcp_inv_defs locked_def count_reject_all set_reject_all add_ac)
qed

lemma inv_dead_empty: "tcp_inv y \<Longrightarrow> TcDead (SyClient y) \<Longrightarrow> TcPending (SyClient y) = []"
  by (simp add: tcp_inv_defs)

lemma inv_connect: "tcp_inv y \<Longrightarrow> tcp_inv (connect_step y)"
  using reject_keeps [of y "fst (connect_swap (SySockets y) (SyClient y))"]
  by (auto simp: connect_step_def connect_swap_def reject_all_def dest: inv_dead_empty split: if_splits)

lemma inv_close: "tcp_inv y \<Longrightarrow> tcp_inv (close_step y)"
  using reject_keeps [of y "fst (close_swap (SyClient y))"]
  by (auto simp: close_step_def close_swap_def reject_all_def dest: inv_dead_empty split: if_splits)

lemma inv_disconnect: "tcp_inv y \<Longrightarrow> tcp_inv (locked (handle_disconnect gen reason (SyClient y)) y)"
  using reject_keeps [of y "fst (handle_disconnect gen reason (SyClient y))"]
  by (auto simp: handle_disconnect_def locked_def)

lemma inv_lost: "tcp_inv y \<Longrightarrow> tcp_inv (lost_step reader reason y)"
  by (simp add: lost_step_def inv_disconnect)

text \<open>A frame that is read.\<close>

lemma inv_frame:
  assumes inv: "tcp_inv y"
  shows "tcp_inv ((locked (handle_frame f (SyClient y)) y)\<lparr>SyFrames := SyFrames y @ [f]\<rparr>)"
proof (cases "\<exists>rid ch. FrID f = Some rid \<and> map_of (TcPending (SyClient y)) rid = Some ch")
  case False
  then have "handle_frame f (SyClient y) = (SyClient y, [])"
    by (auto simp: handle_frame_def split: option.split)
  with inv show ?thesis
    by (simp add: locked_def tcp_inv_frames)
next
  case True
  then obtain rid ch where f: "FrID f = Some rid" and ch: "map_of (TcPending (SyClient y)) rid = Some ch"
    by blast
  let ?c = "SyClient y" and ?y = "(locked (handle_frame f (SyClient y)) y)\<lparr>SyFrames := SyFrames y @ [f]\<rparr>"
  have h: "handle_frame f ?c = (remove_pending rid ?c, [(ch, frame_result f)])"
    by (simp add: handle_frame_def f ch)
  have mem: "(rid, ch) \<in> set (TcPending ?c)"
    using ch by (rule map_of_SomeD)
  have tab: "table_ok y" "idents_ok y" "held_ok y" "answers_ok y"
    using inv by (simp_all add: tcp_inv_def)
  have "table_ok ?y"
    using tab(1) by (auto simp: table_ok_def Let_def locked_def h remove_pending_def distinct_map intro: inj_on_subset)
  moreover have "idents_ok ?y"
    using tab(2) by (auto simp: idents_ok_def locked_def h remove_pending_def)
  moreover have "held ?y i = held y i" for i
    using count_remove [OF _ mem, of i] tab(1)
    by (auto simp: held_def locked_def h remove_pending_def table_ok_def Let_def)
  then have "held_ok ?y"
    using tab(3) by (simp add: held_ok_def locked_def)
  moreover have "call_ident (SyCalls y ch) = Some rid"
    using tab(1) mem by (auto simp: table_ok_def Let_def)
  then have "explained (SyFrames y @ [f]) k r" if "(ch, r) = (ch, frame_result f)" "call_ident (SyCalls y ch) = Some k" for k r
    using that f by (auto simp: explained_def)
  then have "answers_ok ?y"
    using answers_frames [OF tab(4), of "[f]"] by (auto simp: answers_ok_def on_its_way_def locked_def h)
  ultimately show ?thesis
    by (simp add: tcp_inv_def)
qed

lemma inv_line: "tcp_inv y \<Longrightarrow> tcp_inv (line_step decode line y)"
  using inv_frame by (auto simp: line_step_def handle_line_def locked_def split: option.split)

text \<open>A call that takes itself off the table.\<close>

lemma count_filter_le: "count_list (map snd (filter (\<lambda>(x, ch). x \<noteq> rid) ps)) i \<le> count_list (map snd ps) i"
  by (induction ps) auto

lemma inv_leave:
  assumes inv: "tcp_inv y" and i: "call_ident (SyCalls y i) = Some rid"
    and ph: "call_ident ph = Some rid" "\<not> call_open ph" "\<forall>data. ph \<noteq> CallReturned (Some rid) (Inr data)"
  shows "tcp_inv (leave_step rid i ph y)"
proof -
  let ?y = "leave_step rid i ph y"
  note step = leave_step_def set_phase_def locked_def remove_pending_def
  have tab: "table_ok y" "idents_ok y" "held_ok y" "answers_ok y"
    using inv by (simp_all add: tcp_inv_def)
  have own: "x = rid" if "(x, i) \<in> set (TcPending (SyClient y))" for x
    using that tab(1) i by (force simp: table_ok_def Let_def)
  have other: "j = i" if "(rid, j) \<in> set (TcPending (SyClient y))" for j
    using that tab(1,2) i by (force simp: table_ok_def idents_ok_def Let_def)
  have "table_ok ?y"
    using tab(1) own by (auto simp: table_ok_def Let_def step distinct_map intro: inj_on_subset)
  moreover have "idents_ok ?y"
    using tab(2) i ph(1) by (auto simp: idents_ok_def step)
  moreover have "held ?y j \<le> held y j" for j
    using count_filter_le [of rid "TcPending (SyClient y)" j] by (simp add: held_def step)
  moreover have "held ?y j = held y j" if "j \<noteq> i" for j
  proof (cases "rid \<in> fst ` set (TcPending (SyClient y))")
    case True
    then obtain k where "(rid, k) \<in> set (TcPending (SyClient y))"
      by force
    with other have "(rid, i) \<in> set (TcPending (SyClient y))"
      by blast
    then show ?thesis
      using count_remove [of "TcPending (SyClient y)" rid i j] tab(1) that by (simp add: held_def step table_ok_def Let_def)
  qed (simp add: held_def step remove_not_there)
  ultimately have "held_ok ?y" "table_ok ?y" "idents_ok ?y"
    using tab(3) ph i by (auto simp: held_ok_def step intro: order_trans)
  moreover have "answers_ok ?y"
    using tab(4) i ph by (auto simp: answers_ok_def on_its_way_def step)
  ultimately show ?thesis
    by (simp add: tcp_inv_def)
qed

text \<open>A call that only changes its phase, one that is registered, a send and a receive.\<close>

lemma inv_set_phase:
  assumes "tcp_inv y" "call_ident ph = call_ident (SyCalls y i)" "call_open ph = call_open (SyCalls y i)"
    and "\<forall>rid data. ph \<noteq> CallReturned rid (Inr data)"
  shows "tcp_inv (set_phase i ph y)"
proof -
  have "table_ok (set_phase i ph y)" "idents_ok (set_phase i ph y)" "held_ok (set_phase i ph y)"
    using assms by (auto simp: tcp_inv_def table_ok_def idents_ok_def held_ok_def held_def set_phase_def Let_def)
  moreover have "answers_ok (set_phase i ph y)"
    using assms by (simp add: tcp_inv_def answers_ok_def on_its_way_def set_phase_def)
  ultimately show ?thesis
    by (simp add: tcp_inv_def)
qed

lemma inv_torn:
  assumes "tcp_inv y" "SyCalls y i = CallTornDown cmdType rid gen hadDeadline writeErr"
  shows "tcp_inv (torn_step pr isTimeout i cmdType rid gen hadDeadline writeErr ctxErr y)"
  unfolding torn_step_def
  by (rule inv_set_phase) (use assms in \<open>simp_all add: inv_disconnect, simp_all add: locked_def tcp_call_result_def\<close>)

lemma inv_start:
  assumes inv: "tcp_inv y" and i: "SyCalls y i = CallIdle"
  shows "tcp_inv (start_step pr i cmdType hadDeadline y)"
proof (cases "TcDead (SyClient y) \<or> TcConn (SyClient y) = None")
  case True
  then show ?thesis
    using inv i by (auto simp: start_step_def register_call_def tcp_call_result_def intro!: inv_set_phase)
next
  case False
  let ?y = "start_step pr i cmdType hadDeadline y"
  note step = start_step_def register_call_def set_phase_def locked_def Let_def
  have tab: "table_ok y" "idents_ok y" "held_ok y" "answers_ok y"
    using inv by (simp_all add: tcp_inv_def)
  have below: "x \<le> TcNextID (SyClient y)" if "(x, j) \<in> set (TcPending (SyClient y))" for x j
  proof -
    have "call_ident (SyCalls y j) = Some x"
      using that tab(1) by (simp add: table_ok_def Let_def)
    then show ?thesis
      using tab(2) unfolding idents_ok_def by blast
  qed
  have none: "held y i = 0"
    using tab(3) i by (simp add: held_ok_def)
  then have absent: "(x, i) \<notin> set (TcPending (SyClient y))" for x
    by (force simp: held_def count_list_0_iff)
  have unsent: "(i, r) \<notin> set (SySending y)" "r \<notin> set (SyInbox y i)" for r
    using none by (force simp: held_def count_list_0_iff)+
  have "TcNextID (SyClient y) + 1 \<notin> fst ` set (TcPending (SyClient y))"
    using below by force
  then have "table_ok ?y"
    using tab(1) False absent by (auto simp: table_ok_def step)
  moreover have "idents_ok ?y"
    using tab(2) False unfolding idents_ok_def step by (auto, force, force, force)
  moreover have "held ?y j = (if j = i then 1 else held y j)" for j
    using False none by (auto simp: held_def step)
  then have "held_ok ?y"
    using tab(3) False by (auto simp: held_ok_def step)
  moreover have "answers_ok ?y"
    using tab(4) False unsent by (auto simp: answers_ok_def on_its_way_def step)
  ultimately show ?thesis
    by (simp add: tcp_inv_def)
qed

lemma count_remove1: "s \<in> set xs \<Longrightarrow> count_list (map fst (remove1 s xs)) i + (if i = fst s then 1 else 0) = count_list (map fst xs) i"
proof (induction xs)
  case (Cons a xs)
  then show ?case
    by (cases "a = s") simp_all
qed simp

lemma inv_send:
  assumes inv: "tcp_inv y" and s: "s \<in> set (SySending y)"
  shows "tcp_inv (send_step s y)"
proof -
  let ?y = "send_step s y"
  have held: "held ?y j = held y j" for j
    using count_remove1 [OF s, of j] by (auto simp: held_def send_step_def)
  moreover have "on_its_way y j r" if "on_its_way ?y j r" for j r
    using that s set_remove1_subset [of s "SySending y"]
    by (auto simp: on_its_way_def send_step_def split: if_splits)
  moreover have same: "SyCalls ?y = SyCalls y" "SyFrames ?y = SyFrames y"
    by (simp_all add: send_step_def)
  ultimately have "answers_ok ?y"
    using inv unfolding tcp_inv_def answers_ok_def same by blast
  with held show ?thesis
    using inv by (simp add: tcp_inv_def table_ok_def idents_ok_def held_ok_def) (simp add: send_step_def)
qed

lemma inv_receive:
  assumes inv: "tcp_inv y" and i: "SyCalls y i = CallWaiting cmdType rid hadDeadline" and r: "SyInbox y i = [r]"
  shows "tcp_inv (receive_step pr i cmdType rid r y)"
proof -
  let ?y = "receive_step pr i cmdType rid r y"
  note step = receive_step_def set_phase_def
  have tab: "table_ok y" "idents_ok y" "held_ok y" "answers_ok y"
    using inv by (simp_all add: tcp_inv_def)
  have "held y i = 1"
    using tab(3) i by (simp add: held_ok_def)
  with r have gone: "i \<notin> snd ` set (TcPending (SyClient y))"
    by (simp add: held_def count_list_0_iff)
  have "table_ok ?y"
    using tab(1) gone by (force simp: table_ok_def Let_def step)
  moreover have same: "call_ident (SyCalls ?y j) = call_ident (SyCalls y j)" for j
    using i by (simp add: step)
  have "idents_ok ?y"
    using tab(2) unfolding idents_ok_def same by (simp add: step)
  moreover have "held ?y j = (if j = i then 0 else held y j)" for j
    using \<open>held y i = 1\<close> r by (auto simp: held_def step)
  then have "held_ok ?y"
    using tab(3) i by (auto simp: held_ok_def step)
  moreover have "on_its_way y i r" "call_ident (SyCalls y i) = Some rid"
    using i r by (simp_all add: on_its_way_def)
  then have "explained (SyFrames y) rid r"
    using tab(4) unfolding answers_ok_def by blast
  then have "\<exists>f \<in> set (SyFrames y). FrID f = Some rid \<and> frame_result f = Inr data"
    if "tcp_call_result pr cmdType r = Inr data" for data
    using that by (cases r) (auto simp: tcp_call_result_def explained_def rejection_def)
  then have "answers_ok ?y"
    using tab(4) i by (auto simp: answers_ok_def on_its_way_def step)
  ultimately show ?thesis
    by (simp add: tcp_inv_def)
qed

lemma inv_step: "tcp_step pr isTimeout decode y y' \<Longrightarrow> tcp_inv y \<Longrightarrow> tcp_inv y'"
proof (induction rule: tcp_step.induct)
  case (refused y i e cmdType)
  then show ?case
    by (auto simp: tcp_call_result_def intro!: inv_set_phase)
next
  case (written y i cmdType rid gen hadDeadline)
  then show ?case
    by (auto intro!: inv_set_phase)
next
  case (not_encoded y i cmdType rid gen hadDeadline e)
  then show ?case
    by (auto simp: returned_def tcp_call_result_def intro!: inv_leave)
next
  case (not_written y i cmdType rid gen hadDeadline writeErr)
  then show ?case
    by (auto intro!: inv_leave)
next
  case (canceled y i cmdType rid hadDeadline e)
  then show ?case
    by (auto simp: returned_def tcp_call_result_def intro!: inv_leave)
next
  case (timeout y i cmdType rid)
  then show ?case
    by (auto simp: returned_def tcp_call_result_def intro!: inv_leave)
qed (auto intro: inv_connect inv_close inv_line inv_lost inv_start inv_torn inv_send inv_receive)

lemma inv_steps: "tcp_steps pr isTimeout decode y y' \<Longrightarrow> tcp_inv y \<Longrightarrow> tcp_inv y'"
  by (induction rule: tcp_steps.induct) (auto intro: inv_step)

lemma inv_new: "tcp_inv (new_system host port)"
  by (simp add: tcp_inv_defs new_system_def new_tcp_client_def)

section \<open>One answer for each call\<close>

lemma frame_result_Inr: "frame_result f = Inr data \<longleftrightarrow> FrOk f = Some True \<and> FrData f = data"
  by (simp add: frame_result_def)

lemma on_its_way_count: "(\<exists>r. on_its_way y i r) \<longleftrightarrow> 0 < count_list (map fst (SySending y)) i + length (SyInbox y i)"
proof -
  have "(\<exists>r. r \<in> set (SyInbox y i)) \<longleftrightarrow> SyInbox y i \<noteq> []"
    by (metis list.set_intros(1) empty_iff list.exhaust set_empty2)
  moreover have "(\<exists>r. (i, r) \<in> set (SySending y)) \<longleftrightarrow> count_list (map fst (SySending y)) i \<noteq> 0"
    by (force simp: count_list_0_iff)
  ultimately show ?thesis
    by (auto simp: on_its_way_def)
qed

lemma sends_have_room:
  assumes inv: "tcp_inv y" and s: "s \<in> set (SySending y)"
  shows "SyInbox y (fst s) = []"
proof -
  have "count_list (map fst (SySending y)) (fst s) \<noteq> 0"
    using s by (simp add: count_list_0_iff)
  moreover have "held y (fst s) \<le> 1"
    using inv by (simp add: tcp_inv_def held_ok_def)
  ultimately have "length (SyInbox y (fst s)) = 0"
    unfolding held_def by linarith
  then show ?thesis
    by simp
qed

lemma waiting_one_answer:
  assumes "tcp_inv y" "SyCalls y i = CallWaiting cmdType rid hadDeadline"
  shows "((rid, i) \<in> set (TcPending (SyClient y)) \<and> tcp_is_connected (SyClient y)) \<noteq> (\<exists>r. on_its_way y i r)"
proof -
  have "held y i = 1"
    using assms by (simp add: tcp_inv_def held_ok_def)
  moreover have "(rid, i) \<in> set (TcPending (SyClient y)) \<longleftrightarrow> count_list (map snd (TcPending (SyClient y))) i \<noteq> 0"
    using assms by (force simp: tcp_inv_def table_ok_def Let_def count_list_0_iff)
  moreover have "tcp_is_connected (SyClient y)" if "(rid, i) \<in> set (TcPending (SyClient y))"
    using assms that by (auto simp: tcp_inv_def table_ok_def Let_def tcp_is_connected_def)
  ultimately show ?thesis
    unfolding on_its_way_count held_def by linarith
qed

text \<open>
  C9: However calls, responses, reconnects, lost connections and closes interleave: no send on the channel of
  a call blocks; a waiting call is either in the table of a live connection or has an answer on its way, and
  not both; and the data a call returns is that of a frame with its number and ok true.
\<close>

theorem tcp_calls_answered_once:
  assumes "tcp_steps pr isTimeout decode (new_system host port) y"
  shows "(\<forall>s \<in> set (SySending y). SyInbox y (fst s) = []) \<and>
    (\<forall>i cmdType rid hadDeadline. SyCalls y i = CallWaiting cmdType rid hadDeadline \<longrightarrow>
       ((rid, i) \<in> set (TcPending (SyClient y)) \<and> tcp_is_connected (SyClient y)) \<noteq> (\<exists>r. on_its_way y i r)) \<and>
    (\<forall>i rid data. SyCalls y i = CallReturned rid (Inr data) \<longrightarrow>
       (\<exists>f \<in> set (SyFrames y). FrID f = rid \<and> FrOk f = Some True \<and> FrData f = data))"
proof -
  have inv: "tcp_inv y"
    using inv_steps [OF assms inv_new] .
  have "\<exists>f \<in> set (SyFrames y). FrID f = rid \<and> FrOk f = Some True \<and> FrData f = data"
    if "SyCalls y i = CallReturned rid (Inr data)" for i rid data
    using inv that by (simp add: tcp_inv_def answers_ok_def frame_result_Inr)
  then show ?thesis
    using waiting_one_answer [OF inv] sends_have_room [OF inv] by blast
qed

text \<open>A run with one call that is answered: connect, register, write, read the response, send, receive.\<close>

definition pong_frame :: tcp_response where
  "pong_frame = \<lparr>FrID = Some 1, FrOk = Some True, FrData = ''{}'', FrError = None\<rparr>"

definition pong_run :: tcp_system where
  "pong_run =
     (let pr = (\<lambda>n. True);
          y1 = connect_step (new_system ''127.0.0.1'' 22087);
          y2 = start_step pr 0 ''ping'' False y1;
          y3 = set_phase 0 (CallWaiting ''ping'' 1 False) y2;
          y4 = line_step (\<lambda>s. Some pong_frame) ''pong'' y3;
          y5 = send_step (0, Inr ''{}'') y4
      in receive_step pr 0 ''ping'' 1 (Inr ''{}'') y5)"

lemmas run_defs = connect_step_def start_step_def set_phase_def line_step_def send_step_def receive_step_def new_system_def
  new_tcp_client_def connect_swap_def close_socket_def locked_def register_call_def handle_line_def handle_frame_def
  remove_pending_def pong_frame_def frame_result_def tcp_call_result_def Let_def

lemma pong_steps: "tcp_steps (\<lambda>n. True) (\<lambda>e. False) (\<lambda>s. Some pong_frame) (new_system ''127.0.0.1'' 22087) pong_run"
proof -
  let ?step = "tcp_step (\<lambda>n. True) (\<lambda>e. False) (\<lambda>s. Some pong_frame)"
  define y1 where "y1 = connect_step (new_system ''127.0.0.1'' 22087)"
  define y2 where "y2 = start_step (\<lambda>n. True) 0 ''ping'' False y1"
  define y3 where "y3 = set_phase 0 (CallWaiting ''ping'' 1 False) y2"
  define y4 where "y4 = line_step (\<lambda>s. Some pong_frame) ''pong'' y3"
  define y5 where "y5 = send_step (0, Inr ''{}'') y4"
  note ys = y5_def y4_def y3_def y2_def y1_def
  have "?step (new_system ''127.0.0.1'' 22087) y1"
    unfolding y1_def by (rule tcp_step.connect)
  moreover have "?step y1 y2"
    unfolding y2_def by (rule tcp_step.start) (simp add: ys run_defs)
  moreover have "?step y2 y3"
    unfolding y3_def by (rule tcp_step.written) (simp add: ys run_defs)
  moreover have "?step y3 y4"
    unfolding y4_def by (rule tcp_step.line [where reader = "(0, 1)"]) (simp add: ys run_defs)
  moreover have "?step y4 y5"
    unfolding y5_def by (rule tcp_step.send) (simp_all add: ys run_defs)
  moreover have "?step y5 pong_run"
  proof -
    have "pong_run = receive_step (\<lambda>n. True) 0 ''ping'' 1 (Inr ''{}'') y5"
      by (simp add: pong_run_def ys Let_def)
    then show ?thesis
      using tcp_step.receive [of y5 0 "''ping''" 1 False "Inr ''{}''"] by (simp add: ys run_defs)
  qed
  ultimately show ?thesis
    by (meson tcp_none tcp_more)
qed

theorem tcp_calls_answered_once_witness:
  "SyCalls pong_run 0 = CallReturned (Some 1) (Inr ''{}'') \<and>
   (\<exists>f \<in> set (SyFrames pong_run). FrID f = Some 1 \<and> FrOk f = Some True \<and> FrData f = ''{}'')"
proof -
  have ret: "SyCalls pong_run 0 = CallReturned (Some 1) (Inr ''{}'')"
    by (simp add: pong_run_def run_defs)
  then show ?thesis
    using tcp_calls_answered_once [OF pong_steps] by blast
qed

section \<open>A lost connection\<close>

text \<open>
  C18: After the connection is lost or closed, whatever happened before, the result of every call that still
  waits is there: in its channel, or the next thing a goroutine sends to it, and the channel has room. It is
  the rejection of a lost connection or the meaning of a response with its number, and the call returns
  exactly this result by that send and its own receive: nobody has to cancel it, no time has to pass, and
  nothing more has to be read.
\<close>

theorem waiting_calls_released:
  assumes reach: "tcp_steps pr isTimeout decode (new_system host port) y" and lost: "\<not> tcp_is_connected (SyClient y)"
    and i: "SyCalls y i = CallWaiting cmdType rid hadDeadline"
  shows "\<exists>r. explained (SyFrames y) rid r \<and>
    (let y1 = (if SyInbox y i = [] then send_step (i, r) y else y); y2 = receive_step pr i cmdType rid r y1 in
     (SyInbox y i = [] \<longrightarrow> (i, r) \<in> set (SySending y) \<and> tcp_step pr isTimeout decode y y1) \<and>
     SyInbox y1 i = [r] \<and> tcp_step pr isTimeout decode y1 y2 \<and>
     SyClient y2 = SyClient y \<and> SyCalls y2 i = CallReturned (Some rid) (tcp_call_result pr cmdType r))"
proof -
  have inv: "tcp_inv y"
    using inv_steps [OF reach inv_new] .
  have one: "held y i = 1"
    using inv i by (simp add: tcp_inv_def held_ok_def)
  obtain r where way: "on_its_way y i r"
    using waiting_one_answer [OF inv i] lost by blast
  then have why: "explained (SyFrames y) rid r"
    using inv i by (simp add: tcp_inv_def answers_ok_def)
  have receive: "tcp_step pr isTimeout decode z (receive_step pr i cmdType rid r z)"
    if "SyCalls z i = CallWaiting cmdType rid hadDeadline" "SyInbox z i = [r]" for z
    using that by (rule tcp_step.receive)
  have result: "SyClient (receive_step pr i cmdType rid r z) = SyClient z"
    "SyCalls (receive_step pr i cmdType rid r z) i = CallReturned (Some rid) (tcp_call_result pr cmdType r)" for z
    by (simp_all add: receive_step_def set_phase_def)
  show ?thesis
  proof (cases "SyInbox y i = []")
    case True
    then have sent: "(i, r) \<in> set (SySending y)"
      using way by (simp add: on_its_way_def)
    have "SyCalls (send_step (i, r) y) i = CallWaiting cmdType rid hadDeadline" "SyInbox (send_step (i, r) y) i = [r]"
      "SyClient (send_step (i, r) y) = SyClient y"
      using i True by (simp_all add: send_step_def)
    moreover have "tcp_step pr isTimeout decode y (send_step (i, r) y)"
      using sent True by (intro tcp_step.send) simp_all
    ultimately show ?thesis
      using True sent why receive [of "send_step (i, r) y"] by (intro exI [of _ r]) (simp add: Let_def result)
  next
    case False
    then have "SyInbox y i = [r]"
      using one way by (cases "SyInbox y i") (auto simp: held_def on_its_way_def count_list_0_iff image_iff)
    then show ?thesis
      using why receive [OF i] by (intro exI [of _ r]) (simp add: Let_def result)
  qed
qed

text \<open>A call that waits when the connection is closed.\<close>

definition closed_run :: tcp_system where
  "closed_run =
     close_step (set_phase 0 (CallWaiting ''ping'' 1 False)
       (start_step (\<lambda>n. True) 0 ''ping'' False (connect_step (new_system ''127.0.0.1'' 22087))))"

theorem waiting_calls_released_witness:
  "\<exists>r. explained (SyFrames closed_run) 1 r \<and> (0, r) \<in> set (SySending closed_run) \<and>
     SyCalls (receive_step (\<lambda>n. True) 0 ''ping'' 1 r (send_step (0, r) closed_run)) 0 =
       CallReturned (Some 1) (tcp_call_result (\<lambda>n. True) ''ping'' r)"
proof -
  let ?step = "tcp_step (\<lambda>n. True) (\<lambda>e. False) (\<lambda>s. None)"
  define y1 where "y1 = connect_step (new_system ''127.0.0.1'' 22087)"
  define y2 where "y2 = start_step (\<lambda>n. True) 0 ''ping'' False y1"
  define y3 where "y3 = set_phase 0 (CallWaiting ''ping'' 1 False) y2"
  note ys = y3_def y2_def y1_def
  have "?step (new_system ''127.0.0.1'' 22087) y1"
    unfolding y1_def by (rule tcp_step.connect)
  moreover have "?step y1 y2"
    unfolding y2_def by (rule tcp_step.start) (simp add: ys run_defs)
  moreover have "?step y2 y3"
    unfolding y3_def by (rule tcp_step.written) (simp add: ys run_defs)
  moreover have "?step y3 closed_run"
    unfolding closed_run_def ys by (rule tcp_step.close)
  ultimately have reach: "tcp_steps (\<lambda>n. True) (\<lambda>e. False) (\<lambda>s. None) (new_system ''127.0.0.1'' 22087) closed_run"
    by (meson tcp_none tcp_more)
  have lost: "\<not> tcp_is_connected (SyClient closed_run)"
    by (simp add: closed_run_def run_defs close_step_def close_swap_def tcp_is_connected_def)
  have wait: "SyCalls closed_run 0 = CallWaiting ''ping'' 1 False"
    by (simp add: closed_run_def run_defs close_step_def close_swap_def)
  have "SyInbox closed_run 0 = []"
    by (simp add: closed_run_def run_defs close_step_def close_swap_def)
  then show ?thesis
    using waiting_calls_released [OF reach lost wait] by (auto simp: Let_def)
qed

text \<open>
  A connection taken down by a failed write or read is forgotten, not closed: no later step closes its socket.
\<close>

lemma forgotten_socket_stays_open:
  assumes "tcp_steps pr isTimeout decode y y'" "s \<in> set (SyOpen y)" "TcConn (SyClient y) \<noteq> Some s" "s < SySockets y"
  shows "s \<in> set (SyOpen y') \<and> TcConn (SyClient y') \<noteq> Some s \<and> s < SySockets y'"
  using assms
proof (induction rule: tcp_steps.induct)
  case (tcp_more y y' y'')
  from tcp_more.hyps(2) tcp_more.IH [OF tcp_more.prems] show ?case
    by (induction rule: tcp_step.induct)
      (auto simp: connect_step_def connect_swap_def close_step_def close_swap_def close_socket_def locked_def line_step_def
        handle_line_def handle_frame_def remove_pending_def lost_step_def handle_disconnect_def start_step_def register_call_def
        leave_step_def torn_step_def send_step_def receive_step_def set_phase_def Let_def
        split: option.splits prod.splits sum.splits if_splits)
qed simp

lemma disconnect_forgets_socket:
  assumes "reader \<in> set (SyReaders y)"
  shows "SyOpen (lost_step reader reason y) = SyOpen y"
  by (simp add: lost_step_def locked_def)

end
