(* ===== verification/Await_Ready.thy ===== *)
theory Await_Ready
  imports Wire_Errors Go_Effects
begin

text \<open>
  \<^verbatim>\<open>process/readiness.go\<close>: \<^verbatim>\<open>AwaitReady\<close>, the race of a probe against the exit of a spawned process, a deadline
  and the context. The probe and the clock are parameters; \<^verbatim>\<open>RcPoll\<close> is the \<^verbatim>\<open>select\<close> with a default, which
  takes either signal when both are there. The loop takes its number of probes as fuel.
\<close>

datatype readiness_outcome = ReadinessReady | ReadinessExited | ReadinessTimeout | ReadinessCtxDone

datatype race_signal = NoSignal | ExitSignal go_error | DoneSignal go_error

record 'w race =
  RcClock :: "('w, go_error) clock"
  RcProbe :: "('w, go_error, bool) op"
  RcPoll :: "'w \<Rightarrow> race_signal \<times> 'w"

type_synonym 'w race_result = "((readiness_outcome \<times> go_error option) \<times> 'w) option"

text \<open>What ends an iteration before the pause, if anything does.\<close>

definition race_round :: "'w race \<Rightarrow> int \<Rightarrow> int \<Rightarrow> 'w \<Rightarrow> (readiness_outcome \<times> go_error option) option \<times> 'w" where
  "race_round r timeoutMs deadlineMs w =
     (case RcProbe r w of
        (Inl e, w1) \<Rightarrow> (Some (ReadinessReady, Some e), w1)
      | (Inr ready, w1) \<Rightarrow>
          if ready then (Some (ReadinessReady, None), w1)
          else case RcPoll r w1 of
            (ExitSignal e, w2) \<Rightarrow> (Some (ReadinessExited, Some e), w2)
          | (DoneSignal e, w2) \<Rightarrow> (Some (ReadinessCtxDone, Some e), w2)
          | (NoSignal, w2) \<Rightarrow>
              (if 0 < timeoutMs \<and> deadlineMs \<le> NowMs (RcClock r) w2 then Some (ReadinessTimeout, None) else None, w2))"

fun await_loop :: "'w race \<Rightarrow> int \<Rightarrow> int \<Rightarrow> int \<Rightarrow> nat \<Rightarrow> 'w \<Rightarrow> 'w race_result" where
  "await_loop r pollMs timeoutMs deadlineMs 0 w = None"
| "await_loop r pollMs timeoutMs deadlineMs (Suc n) w =
     (case race_round r timeoutMs deadlineMs w of
        (Some out, w') \<Rightarrow> Some (out, w')
      | (None, w1) \<Rightarrow>
          if 0 < pollMs then
            (case SleepMs (RcClock r) pollMs w1 of
               (Inl e, w2) \<Rightarrow> Some ((ReadinessCtxDone, Some e), w2)
             | (Inr u, w2) \<Rightarrow> await_loop r pollMs timeoutMs deadlineMs n w2)
          else await_loop r pollMs timeoutMs deadlineMs n w1)"

definition await_ready :: "'w race \<Rightarrow> int \<Rightarrow> int \<Rightarrow> nat \<Rightarrow> 'w \<Rightarrow> 'w race_result" where
  "await_ready r pollMs timeoutMs fuel w =
     await_loop r pollMs timeoutMs (if 0 < timeoutMs then NowMs (RcClock r) w + timeoutMs else 0) fuel w"

section \<open>The race returns\<close>

text \<open>A clock whose sleeps take their time, which neither the probe nor the select turns back.\<close>

definition steady_race :: "'w race \<Rightarrow> bool" where
  "steady_race r \<longleftrightarrow>
     (\<forall>ms w w'. SleepMs (RcClock r) ms w = (Inr (), w') \<longrightarrow> NowMs (RcClock r) w + max 0 ms \<le> NowMs (RcClock r) w') \<and>
     (\<forall>w. NowMs (RcClock r) w \<le> NowMs (RcClock r) (snd (RcProbe r w))) \<and>
     (\<forall>w. NowMs (RcClock r) w \<le> NowMs (RcClock r) (snd (RcPoll r w)))"

lemma round_forward:
  assumes "steady_race r" "race_round r timeoutMs deadlineMs w = (out, w')"
  shows "NowMs (RcClock r) w \<le> NowMs (RcClock r) w'"
proof -
  obtain p w1 where p: "RcProbe r w = (p, w1)"
    by (cases "RcProbe r w")
  obtain q w2 where q: "RcPoll r w1 = (q, w2)"
    by (cases "RcPoll r w1")
  have "NowMs (RcClock r) w \<le> NowMs (RcClock r) w1" "NowMs (RcClock r) w1 \<le> NowMs (RcClock r) w2"
    using assms(1) p q unfolding steady_race_def by (metis snd_conv)+
  with assms(2) p q show ?thesis
    by (auto simp: race_round_def split: sum.splits if_splits race_signal.splits)
qed

lemma round_timed_out:
  "race_round r timeoutMs deadlineMs w = (Some (ReadinessTimeout, e), w') \<Longrightarrow> 0 < timeoutMs \<and> deadlineMs \<le> NowMs (RcClock r) w'"
  "race_round r timeoutMs deadlineMs w = (None, w') \<Longrightarrow> 0 < timeoutMs \<Longrightarrow> NowMs (RcClock r) w' < deadlineMs"
  by (auto simp: race_round_def split: prod.splits sum.splits if_splits race_signal.splits)

lemma round_ready:
  "race_round r timeoutMs deadlineMs w = (Some (ReadinessReady, None), w') \<Longrightarrow> RcProbe r w = (Inr True, w')"
  by (auto simp: race_round_def split: prod.splits sum.splits if_splits race_signal.splits)

lemma round_failed: "race_round r timeoutMs deadlineMs w = (Some (out, None), w') \<Longrightarrow> out \<in> {ReadinessReady, ReadinessTimeout}"
  by (auto simp: race_round_def split: prod.splits sum.splits if_splits race_signal.splits)

lemma await_loop_failed:
  "await_loop r pollMs timeoutMs deadlineMs n w = Some ((out, None), w') \<Longrightarrow> out \<in> {ReadinessReady, ReadinessTimeout}"
proof (induction n arbitrary: w)
  case (Suc n)
  then show ?case
    using round_failed [of r timeoutMs deadlineMs w out w'] by (auto split: prod.splits option.splits sum.splits if_splits)
qed simp

lemma await_loop_outcome:
  "await_loop r pollMs timeoutMs deadlineMs n w = Some ((out, e), w') \<Longrightarrow>
     (out = ReadinessTimeout \<longrightarrow> deadlineMs \<le> NowMs (RcClock r) w') \<and>
     (out = ReadinessReady \<and> e = None \<longrightarrow> (\<exists>w1. RcProbe r w1 = (Inr True, w')))"
proof (induction n arbitrary: w)
  case (Suc n)
  then show ?case
    by (auto split: prod.splits option.splits sum.splits if_splits dest: round_timed_out round_ready)
qed simp

lemma await_loop_returns:
  assumes r: "steady_race r" and poll: "0 < pollMs" and timeout: "0 < timeoutMs"
  shows "deadlineMs - NowMs (RcClock r) w \<le> int n * pollMs \<Longrightarrow> await_loop r pollMs timeoutMs deadlineMs (Suc n) w \<noteq> None"
proof (induction n arbitrary: w)
  case 0
  obtain out w1 where rd: "race_round r timeoutMs deadlineMs w = (out, w1)"
    by (cases "race_round r timeoutMs deadlineMs w")
  have "out \<noteq> None"
    using round_timed_out(2) [of r timeoutMs deadlineMs w w1] round_forward [OF r rd] rd 0 timeout by (cases out) auto
  then show ?case
    by (auto simp: rd)
next
  case (Suc n)
  obtain out w1 where rd: "race_round r timeoutMs deadlineMs w = (out, w1)"
    by (cases "race_round r timeoutMs deadlineMs w")
  obtain s w2 where sl: "SleepMs (RcClock r) pollMs w1 = (s, w2)"
    by (cases "SleepMs (RcClock r) pollMs w1")
  show ?case
  proof (cases out)
    case None
    show ?thesis
    proof (cases s)
      case (Inr u)
      then have "NowMs (RcClock r) w1 + max 0 pollMs \<le> NowMs (RcClock r) w2"
        using r sl unfolding steady_race_def by simp
      with round_forward [OF r rd] Suc.prems poll have "deadlineMs - NowMs (RcClock r) w2 \<le> int n * pollMs"
        by (simp add: algebra_simps)
      from Suc.IH [OF this] show ?thesis
        using None rd sl Inr poll by simp
    qed (use None rd sl poll in simp)
  qed (use rd in simp)
qed

text \<open>
  What each outcome means in the world \<open>w'\<close> it comes in: ready without an error, a probe has just answered
  that it is; ready with an error, a probe has just failed with it; exited, the select has just found the
  exit with its error; timed out, there is a timeout and its deadline has come; ended by the context, the
  select has just found it ended, or a pause was broken off.
\<close>

definition race_ends :: "'w race \<Rightarrow> int \<Rightarrow> int \<Rightarrow> int \<Rightarrow> readiness_outcome \<Rightarrow> go_error option \<Rightarrow> 'w \<Rightarrow> bool" where
  "race_ends r pollMs timeoutMs deadlineMs out e w' \<longleftrightarrow>
     (case out of
        ReadinessReady \<Rightarrow>
          (case e of None \<Rightarrow> (\<exists>w1. RcProbe r w1 = (Inr True, w')) | Some err \<Rightarrow> (\<exists>w1. RcProbe r w1 = (Inl err, w')))
      | ReadinessExited \<Rightarrow> (\<exists>err w1. e = Some err \<and> RcPoll r w1 = (ExitSignal err, w'))
      | ReadinessTimeout \<Rightarrow> e = None \<and> 0 < timeoutMs \<and> deadlineMs \<le> NowMs (RcClock r) w'
      | ReadinessCtxDone \<Rightarrow>
          (\<exists>err w1. e = Some err \<and> (RcPoll r w1 = (DoneSignal err, w') \<or> 0 < pollMs \<and> SleepMs (RcClock r) pollMs w1 = (Inl err, w'))))"

lemma round_ends:
  "race_round r timeoutMs deadlineMs w = (Some (out, e), w') \<Longrightarrow> race_ends r pollMs timeoutMs deadlineMs out e w'"
  by (auto simp: race_round_def race_ends_def split: prod.splits sum.splits if_splits race_signal.splits)

lemma await_loop_ends:
  "await_loop r pollMs timeoutMs deadlineMs n w = Some ((out, e), w') \<Longrightarrow> race_ends r pollMs timeoutMs deadlineMs out e w'"
proof (induction n arbitrary: w)
  case (Suc n)
  obtain res w1 where rd: "race_round r timeoutMs deadlineMs w = (res, w1)"
    by (cases "race_round r timeoutMs deadlineMs w")
  show ?case
  proof (cases res)
    case None
    obtain s w2 where sl: "SleepMs (RcClock r) pollMs w1 = (s, w2)"
      by (cases "SleepMs (RcClock r) pollMs w1")
    show ?thesis
      using Suc rd None sl by (cases s) (auto simp: race_ends_def split: if_splits)
  next
    case (Some x)
    then show ?thesis
      using Suc.prems rd by (auto dest: round_ends)
  qed
qed simp

text \<open>
  C38: Every result of the race is one that \<open>race_ends\<close> allows, with or without a pause and a timeout: ready
  without an error only right after a probe that was ready, ready with an error right after a probe that
  failed with it, timed out only when there is a timeout and no earlier than it. The race returns: over a
  steady clock with a pause and a timeout, after at most one probe more than pauses in the timeout;
  and with or without them after the first probe, when that is ready or fails, as a probe that blocks is.
\<close>

theorem await_ready_outcome:
  "(case await_ready r pollMs timeoutMs fuel w of
      None \<Rightarrow> True
    | Some ((out, e), w') \<Rightarrow> race_ends r pollMs timeoutMs (NowMs (RcClock r) w + timeoutMs) out e w') \<and>
   (steady_race r \<and> 0 < pollMs \<and> 0 < timeoutMs \<and> timeoutMs \<le> int n * pollMs \<or> fst (RcProbe r w) \<noteq> Inr False \<longrightarrow>
      await_ready r pollMs timeoutMs (Suc n) w \<noteq> None)"
proof (intro conjI impI)
  show "case await_ready r pollMs timeoutMs fuel w of
      None \<Rightarrow> True
    | Some ((out, e), w') \<Rightarrow> race_ends r pollMs timeoutMs (NowMs (RcClock r) w + timeoutMs) out e w'"
  proof (cases "await_ready r pollMs timeoutMs fuel w")
    case (Some x)
    then obtain out e w' where run: "await_ready r pollMs timeoutMs fuel w = Some ((out, e), w')"
      by (metis surj_pair)
    then have "race_ends r pollMs timeoutMs (if 0 < timeoutMs then NowMs (RcClock r) w + timeoutMs else 0) out e w'"
      unfolding await_ready_def by (rule await_loop_ends)
    then show ?thesis
      by (auto simp: run race_ends_def split: readiness_outcome.splits)
  qed simp
next
  assume "steady_race r \<and> 0 < pollMs \<and> 0 < timeoutMs \<and> timeoutMs \<le> int n * pollMs \<or> fst (RcProbe r w) \<noteq> Inr False"
  then show "await_ready r pollMs timeoutMs (Suc n) w \<noteq> None"
  proof
    assume "fst (RcProbe r w) \<noteq> Inr False"
    then show ?thesis
      by (auto simp: await_ready_def race_round_def split: prod.split sum.split)
  next
    assume "steady_race r \<and> 0 < pollMs \<and> 0 < timeoutMs \<and> timeoutMs \<le> int n * pollMs"
    then show ?thesis
      unfolding await_ready_def by (intro await_loop_returns) auto
  qed
qed

text \<open>A port that never opens, over a clock that only the sleeps move.\<close>

definition closed_port :: "int race" where
  "closed_port = \<lparr>RcClock = \<lparr>NowMs = (\<lambda>w. w), SleepMs = (\<lambda>ms w. (Inr (), w + max 0 ms)), CtxErr = (\<lambda>w. None)\<rparr>,
     RcProbe = (\<lambda>w. (Inr False, w)), RcPoll = (\<lambda>w. (NoSignal, w))\<rparr>"

theorem await_ready_outcome_witness:
  "await_ready closed_port 200 600 4 0 = Some ((ReadinessTimeout, None), 600) \<and>
   race_ends closed_port 200 600 600 ReadinessTimeout None 600"
proof -
  have run: "await_ready closed_port 200 600 4 0 = Some ((ReadinessTimeout, None), 600)"
    by (simp add: await_ready_def closed_port_def race_round_def numeral_eq_Suc)
  have now: "NowMs (RcClock closed_port) 0 = 0"
    by (simp add: closed_port_def)
  have "steady_race closed_port"
    by (simp add: steady_race_def closed_port_def)
  then show ?thesis
    using await_ready_outcome [where r = closed_port and pollMs = 200 and timeoutMs = 600 and fuel = 4 and w = 0 and n = 3]
    by (simp add: run now)
qed

end
