(* ===== verification/Go_Fold.thy ===== *)
theory Go_Fold
  imports Go_Number
begin

text \<open>
  Case folding of Go's \<^verbatim>\<open>(?i)\<close> and \<^verbatim>\<open>strings.EqualFold\<close> against ASCII words without a k: besides ASCII case,
  the long s (two bytes) folds to s. And \<^verbatim>\<open>strings.HasSuffix\<close>.
\<close>

fun fold_text :: "string \<Rightarrow> string" where
  "fold_text [] = []"
| "fold_text [c] = [lower_char c]"
| "fold_text (c # d # cs) =
     (if c = CHR 0xC5 \<and> d = CHR 0xBF then CHR ''s'' # fold_text cs else lower_char c # fold_text (d # cs))"

text \<open>A lower case word at the start of a text: what follows it.\<close>

fun match_folded :: "string \<Rightarrow> string \<Rightarrow> string option" where
  "match_folded [] s = Some s"
| "match_folded (c # cs) [] = None"
| "match_folded (c # cs) (d # ds) =
     (if lower_char d = c then match_folded cs ds
      else if c = CHR ''s'' \<and> d = CHR 0xC5 then
        (case ds of [] \<Rightarrow> None | d2 # ds' \<Rightarrow> if d2 = CHR 0xBF then match_folded cs ds' else None)
      else None)"

definition has_suffix :: "'a list \<Rightarrow> 'a list \<Rightarrow> bool" where
  "has_suffix s t = has_prefix (rev s) (rev t)"

end
