(* ===== verification/Ios_Driver.thy ===== *)
theory Ios_Driver
  imports Tcp_Client Await_Ready Android_Launcher Driver_Trees Go_Fold
begin

text \<open>
  The iOS driver (\<^verbatim>\<open>iosdriver/driver.go\<close>, \<^verbatim>\<open>apps.go\<close>, \<^verbatim>\<open>iproxy.go\<close>, \<^verbatim>\<open>boundary.go\<close>): the driver port over the
  connection to the agent and the processes of the host. Operations are on the driver's state and the world.
  Parameters: the connection, the decoders of the agent's JSON replies, of \<^verbatim>\<open>plutil\<close> and of \<^verbatim>\<open>devicectl\<close>,
  processes, and what answers on a port of the host. A \<^verbatim>\<open>map\<close> of arguments is the list of its entries.
\<close>

section \<open>State and ports\<close>

datatype ios_kind = KindSimulator | KindDevice

datatype ios_arg =
  ArgText string
| ArgInt int
| ArgNumber f64
| ArgBool bool
| ArgList "ios_arg list"
| ArgMap "(string \<times> ios_arg) list"

record 'w ios_conn =
  CnConnect :: "agent_context \<Rightarrow> ('w, go_error, unit) op"
  CnClose :: "'w \<Rightarrow> 'w"
  CnIsConnected :: "'w \<Rightarrow> bool"
  CnCall :: "agent_context \<Rightarrow> string \<Rightarrow> (string \<times> ios_arg) list \<Rightarrow> ('w, go_error, string) op"

text \<open>The decoders: capabilities; bundle and root; images; a flag with a strategy; a text; a size; lists of applications.\<close>

record ios_codec =
  IcPing :: "string \<Rightarrow> go_error + bool \<times> bool"
  IcTree :: "string \<Rightarrow> go_error + string \<times> ios_element option"
  IcImages :: "string \<Rightarrow> go_error + (string \<times> string) list"
  IcPressed :: "string \<Rightarrow> go_error + bool \<times> string"
  IcHidden :: "string \<Rightarrow> go_error + bool \<times> string"
  IcShot :: "string \<Rightarrow> go_error + string"
  IcSize :: "string \<Rightarrow> go_error + f64 \<times> f64"
  IcSimApps :: "string \<Rightarrow> go_error + (string \<times> string \<times> string) list"
  IcDeviceApps :: "string \<Rightarrow> go_error + (string \<times> string) list"
  IcPongFrame :: "string \<Rightarrow> go_error + bool option \<times> bool"

text \<open>What the \<^verbatim>\<open>select\<close> on a spawned process and the context finds.\<close>

datatype spawn_signal = SpawnQuiet | SpawnExited process_result "go_error option" | SpawnDone go_error

record 'w ios_env = "'w process_env" +
  IeConn :: "'w ios_conn"
  IeCodec :: ios_codec
  IeClock :: "('w, go_error) clock"
  IeCanConnect :: "int \<Rightarrow> int \<Rightarrow> 'w \<Rightarrow> bool \<times> 'w"
  IePingLine :: "int \<Rightarrow> int \<Rightarrow> 'w \<Rightarrow> string option \<times> 'w"
  IeSpawn :: "string \<Rightarrow> string list \<Rightarrow> 'w \<Rightarrow> 'w"
  IePoll :: "'w \<Rightarrow> spawn_signal \<times> 'w"
  IeCancel :: "'w \<Rightarrow> 'w"
  IeAwaitExit :: "'w \<Rightarrow> 'w"

record ios_driver =
  IdUdid :: string
  IdKind :: ios_kind
  IdPort :: int
  IdCapabilities :: capabilities
  IdLastLaunched :: string
  IdTunnel :: bool

definition default_ios_port :: int where "default_ios_port = 22087"
definition ping_probe_timeout_ms :: int where "ping_probe_timeout_ms = 3000"

definition ios_initial_capabilities :: capabilities where
  "ios_initial_capabilities = initial_capabilities False"

definition new_ios_driver :: "string \<Rightarrow> ios_kind \<Rightarrow> int \<Rightarrow> ios_driver" where
  "new_ios_driver udid kind port =
     \<lparr>IdUdid = udid, IdKind = kind, IdPort = (if port = 0 then default_ios_port else port),
      IdCapabilities = ios_initial_capabilities, IdLastLaunched = [], IdTunnel = False\<rparr>"

section \<open>Calls\<close>

type_synonym ('w, 'a) ios_op = "(ios_driver \<times> 'w, go_error, 'a) op"

definition ios_fail :: "('w, 'x) process_env_scheme \<Rightarrow> ios_driver \<Rightarrow> go_error \<Rightarrow> go_error" where
  "ios_fail env d e = classify_agent_boundary (PeLeaks env) (IdUdid d) is_unreachable (\<lambda>e. None) rejected_by_agent e"

definition on_host :: "('w, go_error, 'a) op \<Rightarrow> ('w, 'a) ios_op" where
  "on_host m s = (case m (snd s) of (r, w') \<Rightarrow> (r, (fst s, w')))"

definition ios_guarded :: "('w, 'x) process_env_scheme \<Rightarrow> ('w, 'a) ios_op \<Rightarrow> ('w, 'a) ios_op" where
  "ios_guarded env m s = (case PeContextErr env (snd s) of Some e \<Rightarrow> op_fail e s | None \<Rightarrow> m s)"

definition call_into ::
  "'w ios_env \<Rightarrow> agent_context \<Rightarrow> string \<Rightarrow> (string \<times> ios_arg) list \<Rightarrow> (string \<Rightarrow> go_error + 'a) \<Rightarrow> 'a \<Rightarrow> ('w, go_error, 'a) op" where
  "call_into env ctx cmd args decode out w =
     (case CnCall (IeConn env) ctx cmd args w of (r, w') \<Rightarrow> (tcp_call_into decode out r, w'))"

text \<open>A call whose failure passes the boundary; one whose reply is not decoded.\<close>

definition agent_call ::
  "'w ios_env \<Rightarrow> string \<Rightarrow> (string \<times> ios_arg) list \<Rightarrow> (string \<Rightarrow> go_error + 'a) \<Rightarrow> 'a \<Rightarrow> ('w, 'a) ios_op" where
  "agent_call env cmd args decode out s =
     on_host (op_lift (ios_fail env (fst s)) (call_into env CallerContext cmd args decode out)) s"

definition agent_command :: "'w ios_env \<Rightarrow> string \<Rightarrow> (string \<times> ios_arg) list \<Rightarrow> ('w, unit) ios_op" where
  "agent_command env cmd args = agent_call env cmd args (\<lambda>data. Inr ()) ()"

section \<open>The USB tunnel\<close>

definition iproxy_port_probe_timeout_ms :: int where "iproxy_port_probe_timeout_ms = 300"
definition iproxy_ping_probe_timeout_ms :: int where "iproxy_ping_probe_timeout_ms = 1000"
definition iproxy_tunnel_poll_interval_ms :: int where "iproxy_tunnel_poll_interval_ms = 200"
definition iproxy_tunnel_up_timeout_ms :: int where "iproxy_tunnel_up_timeout_ms = 5000"

text \<open>\<^verbatim>\<open>IePingLine\<close> dials the port, writes the ping and reads a line, if all of it succeeds.\<close>

definition probe_iproxy_ping :: "'w ios_env \<Rightarrow> int \<Rightarrow> int \<Rightarrow> 'w \<Rightarrow> bool \<times> 'w" where
  "probe_iproxy_ping env port timeoutMs w =
     (case IePingLine env port timeoutMs w of
        (None, w') \<Rightarrow> (False, w')
      | (Some line, w') \<Rightarrow>
          (case IcPongFrame (IeCodec env) line of Inl e \<Rightarrow> False | Inr (ok, pong) \<Rightarrow> ok = Some True \<and> pong, w'))"

definition exec_not_found :: "go_error option \<Rightarrow> bool" where
  "exec_not_found e = (case e of None \<Rightarrow> False | Some e' \<Rightarrow> errors_as as_exec_not_found e' \<noteq> None)"

definition classify_iproxy_exit :: "(nat \<Rightarrow> bool) \<Rightarrow> go_error option \<Rightarrow> go_error" where
  "classify_iproxy_exit pr e =
     (if exec_not_found e then
        IproxyError ''not-installed'' ''iproxy not found on PATH; install libimobiledevice (brew install libimobiledevice) and retry''
      else IproxyError ''spawn-exit''
        (''iproxy exited before the tunnel became reachable: '' @ (case e of None \<Rightarrow> ''<nil>'' | Some e' \<Rightarrow> error_text pr e')))"

definition bind_conflict :: "ios_driver \<Rightarrow> go_error" where
  "bind_conflict d =
     IproxyError ''bind-conflict''
       (''port '' @ itoa (IdPort d) @ '' on 127.0.0.1 already has a listener that is not an Atomyx driver tunnel; '' @
        ''stop whatever is bound there before connecting to device '' @ IdUdid d)"

definition tunnel_timeout :: "ios_driver \<Rightarrow> go_error" where
  "tunnel_timeout d =
     IproxyError ''tunnel-timeout''
       (''iproxy tunnel did not become reachable on 127.0.0.1:'' @ itoa (IdPort d) @ '' within 5s; '' @
        ''is the Swift driver actually running on device '' @ IdUdid d @ ''?'')"

definition spawn_race :: "'w ios_env \<Rightarrow> ('w \<Rightarrow> bool \<times> 'w) \<Rightarrow> (process_result \<Rightarrow> go_error option \<Rightarrow> go_error) \<Rightarrow> 'w race" where
  "spawn_race env probe toError =
     \<lparr>RcClock = IeClock env, RcProbe = (\<lambda>w. case probe w of (b, w') \<Rightarrow> (Inr b, w')),
      RcPoll = (\<lambda>w. case IePoll env w of
          (SpawnQuiet, w') \<Rightarrow> (NoSignal, w')
        | (SpawnExited res e, w') \<Rightarrow> (ExitSignal (toError res e), w')
        | (SpawnDone e, w') \<Rightarrow> (DoneSignal e, w'))\<rparr>"

definition returned_error :: "go_error option \<Rightarrow> go_error + unit" where
  "returned_error e = (case e of None \<Rightarrow> Inr () | Some e' \<Rightarrow> Inl e')"

definition launch_iproxy :: "'w ios_env \<Rightarrow> nat \<Rightarrow> ios_driver \<times> 'w \<Rightarrow> ((go_error + unit) \<times> ios_driver \<times> 'w) option" where
  "launch_iproxy env fuel s =
     (case s of (d, w) \<Rightarrow>
        (case IeCanConnect env (IdPort d) iproxy_port_probe_timeout_ms w of
           (True, w1) \<Rightarrow>
             (case probe_iproxy_ping env (IdPort d) iproxy_ping_probe_timeout_ms w1 of
                (up, w2) \<Rightarrow> Some (if up then Inr () else Inl (bind_conflict d), d, w2))
         | (False, w1) \<Rightarrow>
             (let w2 = IeSpawn env ''iproxy'' [itoa (IdPort d) @ '':'' @ itoa (IdPort d), ''-u'', IdUdid d] w1;
                  race = spawn_race env (IeCanConnect env (IdPort d) iproxy_port_probe_timeout_ms)
                    (\<lambda>res. classify_iproxy_exit (PePrintable env))
              in case await_ready race iproxy_tunnel_poll_interval_ms iproxy_tunnel_up_timeout_ms fuel w2 of
                None \<Rightarrow> None
              | Some ((out, e), w3) \<Rightarrow>
                  Some (case out of
                    ReadinessReady \<Rightarrow> (Inr (), d\<lparr>IdTunnel := True\<rparr>, w3)
                  | ReadinessExited \<Rightarrow> (returned_error e, d, IeCancel env w3)
                  | ReadinessTimeout \<Rightarrow> (Inl (tunnel_timeout d), d, IeAwaitExit env (IeCancel env w3))
                  | ReadinessCtxDone \<Rightarrow> (returned_error e, d, IeAwaitExit env (IeCancel env w3))))))"

definition stop_iproxy :: "'w ios_env \<Rightarrow> ios_driver \<times> 'w \<Rightarrow> ios_driver \<times> 'w" where
  "stop_iproxy env s =
     (case s of (d, w) \<Rightarrow> if IdTunnel d then (d\<lparr>IdTunnel := False\<rparr>, IeCancel env w) else (d, w))"

section \<open>Connecting\<close>

definition ios_unreachable :: "ios_driver \<Rightarrow> string \<Rightarrow> go_error \<Rightarrow> go_error" where
  "ios_unreachable d remedy e =
     TaggedError CodeAgentUnreachable (''could not reach the agent on device '' @ IdUdid d) remedy (Some e)"

definition ios_handshake :: "'w ios_env \<Rightarrow> ('w, unit) ios_op" where
  "ios_handshake env s =
     (case agent_call env ''ping'' [] (IcPing (IeCodec env)) (False, False) s of
        (Inl e, s') \<Rightarrow> (Inl e, s')
      | (Inr (multi, pressure), (d, w)) \<Rightarrow>
          (Inr (), (d\<lparr>IdCapabilities := (IdCapabilities d)\<lparr>CanMultiPointer := multi, CanPressure := pressure\<rparr>\<rparr>, w)))"

definition ios_dial :: "'w ios_env \<Rightarrow> ('w, unit) ios_op" where
  "ios_dial env s =
     op_bind (on_host (op_lift (\<lambda>e. ios_unreachable (fst s) ''Confirm the agent is running on the device, then try again.''
         (WrapError ''iosdriver: connect: '' e)) (CnConnect (IeConn env) CallerContext)))
       (\<lambda>u. ios_handshake env) s"

definition ios_connect :: "'w ios_env \<Rightarrow> nat \<Rightarrow> ios_driver \<times> 'w \<Rightarrow> ((go_error + unit) \<times> ios_driver \<times> 'w) option" where
  "ios_connect env fuel s =
     (case PeContextErr env (snd s) of
        Some e \<Rightarrow> Some (Inl e, s)
      | None \<Rightarrow>
          (let s0 = ((fst s)\<lparr>IdLastLaunched := []\<rparr>, snd s) in
           if IdKind (fst s) = KindDevice then
             (case launch_iproxy env fuel s0 of
                None \<Rightarrow> None
              | Some (Inl e, s1) \<Rightarrow>
                  Some (Inl (ios_unreachable (fst s) ''Confirm the device is connected and unlocked, then try again.'' e), s1)
              | Some (Inr u, s1) \<Rightarrow> Some (ios_dial env s1))
           else Some (ios_dial env s0)))"

definition ios_disconnect :: "'w ios_env \<Rightarrow> ios_driver \<times> 'w \<Rightarrow> ios_driver \<times> 'w" where
  "ios_disconnect env s =
     (case stop_iproxy env (fst s, CnClose (IeConn env) (snd s)) of (d, w) \<Rightarrow> (d\<lparr>IdLastLaunched := []\<rparr>, w))"

definition ios_is_connected :: "'w ios_env \<Rightarrow> ios_driver \<times> 'w \<Rightarrow> bool" where
  "ios_is_connected env s = CnIsConnected (IeConn env) (snd s)"

definition ios_ping :: "'w ios_env \<Rightarrow> ('w, unit) ios_op" where
  "ios_ping env = ios_guarded env (\<lambda>s. on_host (op_map (\<lambda>pong. ())
     (op_lift (\<lambda>e. ios_unreachable (fst s) ''Confirm the agent is running on the device, then try again.''
         (WrapError ''iosdriver: ping: '' e))
       (call_into env (ContextWithTimeout ping_probe_timeout_ms) ''ping'' [] (IcPing (IeCodec env)) (False, False)))) s)"

section \<open>Reading the screen\<close>

text \<open>
  \<^verbatim>\<open>UIKitApplication:([^\s\[]+)\<close>: the group of the leftmost match of a line. White space of the pattern
  is five characters.
\<close>

definition bundle_char :: "char \<Rightarrow> bool" where
  "bundle_char c \<longleftrightarrow> c \<notin> {CHR '' '', CHR 0x09, CHR 0x0A, CHR 0x0C, CHR 0x0D, CHR ''[''}"

fun uikit_bundle :: "string \<Rightarrow> string option" where
  "uikit_bundle [] = None"
| "uikit_bundle (c # cs) =
     (let label = ''UIKitApplication:''; found = takeWhile bundle_char (drop (length label) (c # cs)) in
      if has_prefix (c # cs) label \<and> found \<noteq> [] then Some found else uikit_bundle cs)"

definition running_bundles :: "string \<Rightarrow> string list" where
  "running_bundles out = sort (remdups (List.map_filter uikit_bundle (split_on newline_char out)))"

definition list_running_uikit_bundle_ids :: "'w ios_env \<Rightarrow> ios_driver \<times> 'w \<Rightarrow> string list \<times> ios_driver \<times> 'w" where
  "list_running_uikit_bundle_ids env s =
     (case PeRun env CallerContext ''xcrun'' [''simctl'', ''spawn'', IdUdid (fst s), ''launchctl'', ''list''] (snd s) of
        ((res, e), w') \<Rightarrow> (if e = None then running_bundles (Stdout res) else [], (fst s, w')))"

definition other_element :: ios_element where
  "other_element = IosElement (Some ''other'') [] [] [] [] None None None None None [] [] None None []"

text \<open>The candidates passed with the call, when no application is known; then the call and what it tells.\<close>

definition hierarchy_args :: "'w ios_env \<Rightarrow> ios_driver \<times> 'w \<Rightarrow> (string \<times> ios_arg) list \<times> ios_driver \<times> 'w" where
  "hierarchy_args env s =
     (if IdLastLaunched (fst s) = [] \<and> IdKind (fst s) = KindSimulator then
        (case list_running_uikit_bundle_ids env s of
           (candidates, s') \<Rightarrow> (if candidates \<noteq> [] then [(''bundleIdCandidates'', ArgList (map ArgText candidates))] else [], s'))
      else ([], s))"

definition ios_hierarchy :: "'w ios_env \<Rightarrow> ('w, tree_node) ios_op" where
  "ios_hierarchy env = ios_guarded env (\<lambda>s.
     case hierarchy_args env s of (args, s1) \<Rightarrow>
       (case agent_call env ''dumpRawTree'' args (IcTree (IeCodec env)) ([], None) s1 of
          (Inl e, s2) \<Rightarrow> (Inl e, s2)
        | (Inr (bundle, root_el), (d, w)) \<Rightarrow>
            (Inr (normalize_ios_tree (case root_el of Some el \<Rightarrow> el | None \<Rightarrow> other_element)),
             (if bundle \<noteq> [] then d\<lparr>IdLastLaunched := bundle\<rparr> else d, w))))"

definition ios_wait_for_idle :: "'w ios_env \<Rightarrow> int \<Rightarrow> ('w, bool) ios_op" where
  "ios_wait_for_idle env timeoutMs = ios_guarded env (op_return True)"

definition ios_screenshot :: "'w ios_env \<Rightarrow> ('w, nat list) ios_op" where
  "ios_screenshot env = ios_guarded env (op_bind (agent_call env ''screenshot'' [] (IcShot (IeCodec env)) [])
     (\<lambda>text64 s. case decode_base64 text64 of
        Inl e \<Rightarrow> op_fail (ios_fail env (fst s) (WrapError ''iosdriver: decode screenshot: '' e)) s
      | Inr bytes \<Rightarrow> op_return bytes s))"

definition ios_device_info :: "'w ios_env \<Rightarrow> ('w, device_info) ios_op" where
  "ios_device_info env = ios_guarded env (\<lambda>s. op_return
     \<lparr>InfoPlatform = ''ios'', PlatformVersion = ''unknown'', InfoModel = ''unknown'', UDID = IdUdid (fst s),
      InfoKind = (if IdKind (fst s) = KindSimulator then ''simulator'' else ''device'')\<rparr> s)"

definition ios_screen_size :: "'w ios_env \<Rightarrow> ('w, size) ios_op" where
  "ios_screen_size env = ios_guarded env
     (op_map (\<lambda>(width, height). \<lparr>Width = width, Height = height\<rparr>)
       (agent_call env ''getScreenSize'' [] (IcSize (IeCodec env)) (Fin 0, Fin 0)))"

section \<open>Touch, text and keys\<close>

definition ios_tap :: "'w ios_env \<Rightarrow> point \<Rightarrow> ('w, unit) ios_op" where
  "ios_tap env p = ios_guarded env (agent_command env ''tapAt'' [(''x'', ArgNumber (X p)), (''y'', ArgNumber (Y p))])"

definition ios_long_press :: "'w ios_env \<Rightarrow> point \<Rightarrow> int \<Rightarrow> ('w, unit) ios_op" where
  "ios_long_press env p durationMs = ios_guarded env
     (agent_command env ''longPressAt'' [(''x'', ArgNumber (X p)), (''y'', ArgNumber (Y p)), (''durationMs'', ArgInt durationMs)])"

definition ios_swipe :: "'w ios_env \<Rightarrow> point \<Rightarrow> point \<Rightarrow> int \<Rightarrow> ('w, unit) ios_op" where
  "ios_swipe env p q durationMs = ios_guarded env
     (agent_command env ''swipe'' [(''fromX'', ArgNumber (X p)), (''fromY'', ArgNumber (Y p)), (''toX'', ArgNumber (X q)),
       (''toY'', ArgNumber (Y q)), (''durationMs'', ArgInt durationMs)])"

definition waypoint_arg :: "gesture_waypoint \<Rightarrow> ios_arg" where
  "waypoint_arg w =
     ArgMap ([(''phase'', ArgText (phase_text (WPhase w))), (''x'', ArgNumber (X (WPoint w))), (''y'', ArgNumber (Y (WPoint w))),
       (''atOffsetSeconds'', ArgNumber (WAtOffsetSeconds w))] @
       (case WPressure w of None \<Rightarrow> [] | Some pressure \<Rightarrow> [(''pressure'', ArgNumber pressure)]))"

definition pointer_arg :: "gesture_pointer \<Rightarrow> ios_arg" where
  "pointer_arg p = ArgMap [(''id'', ArgText (PointerID p)), (''waypoints'', ArgList (map waypoint_arg (Waypoints p)))]"

definition ios_gesture_refusal :: "ios_driver \<Rightarrow> gesture \<Rightarrow> go_error option" where
  "ios_gesture_refusal d g =
     (if 1 < length g \<and> \<not> CanMultiPointer (IdCapabilities d) then
        Some (PlainError (''iOS driver cannot dispatch a '' @ utoa (length g) @
          ''-pointer gesture: multi-pointer capability is unavailable on this Xcode or iOS combination''))
      else if has_pressure_waypoint g \<and> \<not> CanPressure (IdCapabilities d) then
        Some (PlainError ''iOS driver cannot dispatch pressure waypoints: this runner build does not support per-touch pressure'')
      else None)"

definition ios_dispatch_gesture :: "'w ios_env \<Rightarrow> gesture \<Rightarrow> ('w, gesture_result) ios_op" where
  "ios_dispatch_gesture env g = ios_guarded env (\<lambda>s.
     case ios_gesture_refusal (fst s) g of
       Some e \<Rightarrow> op_fail e s
     | None \<Rightarrow>
         op_bind (agent_call env ''dispatchPointer'' [(''pointers'', ArgList (map pointer_arg g))] (IcImages (IeCodec env)) [])
           (\<lambda>raw s'. case decode_images ''iosdriver'' 0 raw of
              Inl e \<Rightarrow> op_fail (ios_fail env (fst s') e) s'
            | Inr images \<Rightarrow> op_return images s') s)"

definition ios_input_text :: "'w ios_env \<Rightarrow> string \<Rightarrow> ('w, unit) ios_op" where
  "ios_input_text env typed = ios_guarded env (agent_command env ''typeText'' [(''text'', ArgText typed)])"

definition ios_erase_text :: "'w ios_env \<Rightarrow> int \<Rightarrow> ('w, unit) ios_op" where
  "ios_erase_text env n = ios_guarded env (agent_command env ''clearFocusedInput'' [(''maxDeletes'', ArgInt n)])"

definition ios_press_key :: "'w ios_env \<Rightarrow> key_code \<Rightarrow> ('w, key_result) ios_op" where
  "ios_press_key env key = ios_guarded env
     (op_map (\<lambda>(found, strategy). \<lparr>KeyOk = found, KeyReason = strategy\<rparr>)
       (agent_call env ''pressKey'' [(''key'', ArgText key)] (IcPressed (IeCodec env)) (False, [])))"

definition ios_hide_keyboard :: "'w ios_env \<Rightarrow> ('w, key_result) ios_op" where
  "ios_hide_keyboard env = ios_guarded env
     (op_map (\<lambda>(ok, strategy). \<lparr>KeyOk = ok, KeyReason = strategy\<rparr>)
       (agent_call env ''hideKeyboard'' [] (IcHidden (IeCodec env)) (False, [])))"

section \<open>Applications\<close>

definition ios_stop_app :: "'w ios_env \<Rightarrow> string \<Rightarrow> ('w, unit) ios_op" where
  "ios_stop_app env bundleID = ios_guarded env (op_bind (agent_command env ''forceStopApp'' [(''bundleId'', ArgText bundleID)])
     (\<lambda>u s. op_return () (if IdLastLaunched (fst s) = bundleID then ((fst s)\<lparr>IdLastLaunched := []\<rparr>, snd s) else s)))"

definition ios_kill_app :: "'w ios_env \<Rightarrow> string \<Rightarrow> ('w, unit) ios_op" where
  "ios_kill_app = ios_stop_app"

definition ios_dispatch_launch :: "'w ios_env \<Rightarrow> string \<Rightarrow> bool \<Rightarrow> ('w, unit) ios_op" where
  "ios_dispatch_launch env bundleID noReset =
     op_bind (agent_command env ''launchApp'' [(''bundleId'', ArgText bundleID), (''noReset'', ArgBool noReset)])
       (\<lambda>u s. op_return () ((fst s)\<lparr>IdLastLaunched := bundleID\<rparr>, snd s))"

definition ios_launch_app :: "'w ios_env \<Rightarrow> string \<Rightarrow> launch_args \<Rightarrow> ('w, unit) ios_op" where
  "ios_launch_app env bundleID args = ios_guarded env (\<lambda>s.
     case NoReset args of
       None \<Rightarrow> ios_dispatch_launch env bundleID False s
     | Some noReset \<Rightarrow>
         if noReset then
           if IdLastLaunched (fst s) = bundleID then op_return () s else ios_dispatch_launch env bundleID True s
         else op_bind (\<lambda>s. op_lift (ios_fail env (fst s)) (ios_stop_app env bundleID) s)
                (\<lambda>u. ios_dispatch_launch env bundleID False) s)"

definition ios_current_foreground :: "'w ios_env \<Rightarrow> ('w, foreground_info) ios_op" where
  "ios_current_foreground env = ios_guarded env (op_fail (TaggedError CodeForegroundUnsupported
     ''the current foreground app cannot be determined on this device''
     ''Avoid relying on the current foreground app on this device.'' None))"

text \<open>The patterns are matched without case.\<close>

definition app_not_installed_patterns :: "string list" where
  "app_not_installed_patterns =
     [''failed to find'', ''no such file or directory'', ''does not contain'', ''is not installed'', ''no matching application'']"

definition is_app_not_installed_error :: "(nat \<Rightarrow> bool) \<Rightarrow> go_error option \<Rightarrow> process_result \<Rightarrow> bool" where
  "is_app_not_installed_error pr e res \<longleftrightarrow>
     (let out = (case e of None \<Rightarrow> [] | Some e' \<Rightarrow> error_text pr e' @ '' '') @ Stdout res @ '' '' @ Stderr res in
      list_ex (contains (fold_text out)) app_not_installed_patterns)"

definition first_name :: "string list \<Rightarrow> string" where
  "first_name names = (case dropWhile (\<lambda>n. n = []) names of [] \<Rightarrow> [] | n # ns \<Rightarrow> n)"

definition sim_app :: "string \<times> string \<times> string \<Rightarrow> installed_app" where
  "sim_app entry = (case entry of (bundle, display, nm) \<Rightarrow> \<lparr>BundleID = bundle, DisplayName = first_name [display, nm, bundle]\<rparr>)"

definition list_apps_simulator :: "'w ios_env \<Rightarrow> ios_driver \<times> 'w \<Rightarrow> installed_app list \<times> ios_driver \<times> 'w" where
  "list_apps_simulator env s =
     (let script = ''xcrun simctl listapps '' @ [CHR 0x27] @ IdUdid (fst s) @ [CHR 0x27] @ '' | plutil -convert json -o - -- -'' in
      case PeRun env CallerContext ''sh'' [''-c'', script] (snd s) of
        ((res, Some e), w') \<Rightarrow> ([], (fst s, w'))
      | ((res, None), w') \<Rightarrow>
          (case IcSimApps (IeCodec env) (Stdout res) of
             Inl e \<Rightarrow> []
           | Inr entries \<Rightarrow> sort_key BundleID (map sim_app entries), (fst s, w')))"

definition fetch_device_apps :: "'w ios_env \<Rightarrow> ('w, installed_app list) ios_op" where
  "fetch_device_apps env s =
     op_bind (on_host (run_process env CallerContext ''xcrun''
         [''devicectl'', ''device'', ''info'', ''apps'', ''--device'', IdUdid (fst s), ''--json-output'', ''-'']))
       (\<lambda>res. case IcDeviceApps (IeCodec env) (Stdout res) of
          Inl e \<Rightarrow> op_fail (WrapError ''iosdriver: decode devicectl apps: '' e)
        | Inr apps \<Rightarrow> op_return (map (\<lambda>(bundle, nm). \<lparr>BundleID = bundle, DisplayName = first_name [nm, bundle]\<rparr>)
            (filter (\<lambda>(bundle, nm). bundle \<noteq> []) apps))) s"

definition ios_list_apps :: "'w ios_env \<Rightarrow> ('w, installed_app list) ios_op" where
  "ios_list_apps env = ios_guarded env (\<lambda>s.
     if IdKind (fst s) = KindSimulator then (case list_apps_simulator env s of (apps, s') \<Rightarrow> op_return apps s')
     else fetch_device_apps env s)"

definition ios_install_app :: "'w ios_env \<Rightarrow> string \<Rightarrow> ('w, unit) ios_op" where
  "ios_install_app env source = ios_guarded env (\<lambda>s. on_host (ignored (run_process env CallerContext ''xcrun''
     (if IdKind (fst s) = KindSimulator then [''simctl'', ''install'', IdUdid (fst s), source]
      else [''devicectl'', ''device'', ''install'', ''app'', ''--device'', IdUdid (fst s), source]))) s)"

definition run_uninstall :: "'w ios_env \<Rightarrow> string \<Rightarrow> ios_driver \<times> 'w \<Rightarrow> (process_result \<times> go_error option) \<times> ios_driver \<times> 'w" where
  "run_uninstall env appID s =
     (case PeRun env CallerContext ''xcrun''
        (if IdKind (fst s) = KindSimulator then [''simctl'', ''uninstall'', IdUdid (fst s), appID]
         else [''devicectl'', ''device'', ''uninstall'', ''app'', ''--device'', IdUdid (fst s), appID]) (snd s) of
        (r, w') \<Rightarrow> (r, (fst s, w')))"

definition ios_uninstall_app :: "'w ios_env \<Rightarrow> string \<Rightarrow> ('w, unit) ios_op" where
  "ios_uninstall_app env appID = ios_guarded env (\<lambda>s.
     case run_uninstall env appID s of ((res, e), s') \<Rightarrow> (returned_error e, s'))"

definition ios_clear_app_data :: "'w ios_env \<Rightarrow> string \<Rightarrow> string \<Rightarrow> ('w, unit) ios_op" where
  "ios_clear_app_data env appID source = ios_guarded env (\<lambda>s.
     if source = [] then
       op_fail (PlainError (''iosdriver: clearAppData('' @ appID @
         ''): iOS has no direct data-clear primitive, pass opts.Source with the installable artifact path'')) s
     else case run_uninstall env appID s of
       ((res, Some e), s') \<Rightarrow>
         if PeContextErr env (snd s') \<noteq> None \<or> \<not> is_app_not_installed_error (PePrintable env) (Some e) res then op_fail e s'
         else ios_install_app env source s'
     | ((res, None), s') \<Rightarrow> ios_install_app env source s')"

definition is_app_installed_simulator :: "'w ios_env \<Rightarrow> string \<Rightarrow> ('w, bool) ios_op" where
  "is_app_installed_simulator env appID s =
     (case PeRun env CallerContext ''xcrun'' [''simctl'', ''get_app_container'', IdUdid (fst s), appID, ''app''] (snd s) of
        ((res, None), w') \<Rightarrow> (Inr True, (fst s, w'))
      | ((res, Some e), w') \<Rightarrow>
          (if PeContextErr env w' \<noteq> None then Inl e
           else if is_app_not_installed_error (PePrintable env) (Some e) res then Inr False else Inl e, (fst s, w')))"

definition ios_is_app_installed :: "'w ios_env \<Rightarrow> string \<Rightarrow> ('w, bool) ios_op" where
  "ios_is_app_installed env appID = ios_guarded env (\<lambda>s.
     if IdKind (fst s) = KindSimulator then is_app_installed_simulator env appID s
     else op_map (list_ex (\<lambda>a. BundleID a = appID)) (fetch_device_apps env) s)"

section \<open>The port\<close>

text \<open>The capabilities are those of the last successful handshake, \<open>caps\<close>.\<close>

definition ios_port :: "'w ios_env \<Rightarrow> capabilities \<Rightarrow> (ios_driver \<times> 'w, go_error) driver" where
  "ios_port env caps =
     \<lparr>Hierarchy = ios_hierarchy env, Swipe = ios_swipe env, ScreenSize = ios_screen_size env,
      DrvCapabilities = caps, DrvWaitForIdle = ios_wait_for_idle env, DrvTap = ios_tap env,
      DrvLongPress = ios_long_press env, DrvDispatchGesture = ios_dispatch_gesture env,
      DrvInputText = ios_input_text env, DrvEraseText = ios_erase_text env,
      DrvPressKey = ios_press_key env, DrvHideKeyboard = ios_hide_keyboard env,
      DrvLaunchApp = ios_launch_app env, DrvStopApp = ios_stop_app env, DrvKillApp = ios_kill_app env,
      DrvCurrentForeground = ios_current_foreground env, DrvListApps = ios_list_apps env,
      DrvInstallApp = ios_install_app env, DrvUninstallApp = ios_uninstall_app env,
      DrvClearAppData = ios_clear_app_data env, DrvIsAppInstalled = ios_is_app_installed env,
      DrvScreenshot = ios_screenshot env, DrvDeviceInfo = ios_device_info env\<rparr>"

end
