(* ===== verification/Ios_Props.thy ===== *)
theory Ios_Props
  imports Ios_Driver Android_Props
begin

text \<open>
  What the iOS driver remembers and reports: the application it takes for the one last launched is the one the
  agent's answers name, and the code of every way a call to the agent fails.
\<close>

section \<open>The application last launched\<close>

text \<open>The calls to the agent with their outcomes, kept alongside the world.\<close>

datatype agent_event = AgentEvent string "(string \<times> ios_arg) list" tcp_result

definition alongside :: "('w \<Rightarrow> 'a \<times> 'w) \<Rightarrow> 'w \<times> 'l \<Rightarrow> 'a \<times> 'w \<times> 'l" where
  "alongside m wl = (case m (fst wl) of (r, w') \<Rightarrow> (r, w', snd wl))"

definition logged_conn :: "'w ios_conn \<Rightarrow> ('w \<times> agent_event list) ios_conn" where
  "logged_conn c =
     \<lparr>CnConnect = (\<lambda>ctx. alongside (CnConnect c ctx)), CnClose = (\<lambda>wl. (CnClose c (fst wl), snd wl)),
      CnIsConnected = CnIsConnected c \<circ> fst,
      CnCall = (\<lambda>ctx cmd args wl. case CnCall c ctx cmd args (fst wl) of
        (r, w') \<Rightarrow> (r, (w', snd wl @ [AgentEvent cmd args r])))\<rparr>"

definition logged_ios :: "'w ios_env \<Rightarrow> ('w \<times> agent_event list) ios_env" where
  "logged_ios env =
     \<lparr>PeRun = (\<lambda>ctx name args. alongside (PeRun env ctx name args)), PeContextErr = PeContextErr env \<circ> fst, PeLeaks = PeLeaks env,
      PePrintable = PePrintable env, PeLower = PeLower env, IeConn = logged_conn (IeConn env), IeCodec = IeCodec env,
      IeClock = \<lparr>NowMs = NowMs (IeClock env) \<circ> fst, SleepMs = (\<lambda>ms. alongside (SleepMs (IeClock env) ms)),
        CtxErr = CtxErr (IeClock env) \<circ> fst\<rparr>,
      IeCanConnect = (\<lambda>port ms. alongside (IeCanConnect env port ms)), IePingLine = (\<lambda>port ms. alongside (IePingLine env port ms)),
      IeSpawn = (\<lambda>name args wl. (IeSpawn env name args (fst wl), snd wl)), IePoll = alongside (IePoll env),
      IeCancel = (\<lambda>wl. (IeCancel env (fst wl), snd wl)), IeAwaitExit = (\<lambda>wl. (IeAwaitExit env (fst wl), snd wl))\<rparr>"

text \<open>The application a log speaks of: launched, or named by a snapshot, and not stopped since.\<close>

definition bundle_arg :: "(string \<times> ios_arg) list \<Rightarrow> string" where
  "bundle_arg args = (case map_of args ''bundleId'' of Some (ArgText b) \<Rightarrow> b | _ \<Rightarrow> [])"

fun app_after :: "ios_codec \<Rightarrow> string \<Rightarrow> agent_event \<Rightarrow> string" where
  "app_after k app (AgentEvent cmd args (Inl e)) = app"
| "app_after k app (AgentEvent cmd args (Inr data)) =
     (if cmd = ''launchApp'' then bundle_arg args
      else if cmd = ''forceStopApp'' then (if app = bundle_arg args then [] else app)
      else if cmd = ''dumpRawTree'' then
        (case tcp_call_into (IcTree k) ([], None) (Inr data) of
           Inl e \<Rightarrow> app
         | Inr (bundle, el) \<Rightarrow> if bundle \<noteq> [] then bundle else app)
      else app)"

definition known_app :: "ios_codec \<Rightarrow> agent_event list \<Rightarrow> string" where
  "known_app k events = foldl (app_after k) [] events"

datatype ios_command =
  RunHierarchy | RunWaitForIdle int | RunTap point | RunLongPress point int | RunSwipe point point int
| RunDispatchGesture gesture | RunInputText string | RunEraseText int | RunPressKey key_code | RunHideKeyboard
| RunLaunchApp string launch_args | RunStopApp string | RunKillApp string | RunCurrentForeground | RunListApps
| RunInstallApp string | RunUninstallApp string | RunClearAppData string string | RunIsAppInstalled string
| RunScreenshot | RunDeviceInfo | RunScreenSize | RunPing

fun run_ios_command :: "'w ios_env \<Rightarrow> ios_command \<Rightarrow> ios_driver \<times> 'w \<Rightarrow> ios_driver \<times> 'w" where
  "run_ios_command env RunHierarchy s = snd (ios_hierarchy env s)"
| "run_ios_command env (RunWaitForIdle ms) s = snd (ios_wait_for_idle env ms s)"
| "run_ios_command env (RunTap p) s = snd (ios_tap env p s)"
| "run_ios_command env (RunLongPress p ms) s = snd (ios_long_press env p ms s)"
| "run_ios_command env (RunSwipe p q ms) s = snd (ios_swipe env p q ms s)"
| "run_ios_command env (RunDispatchGesture g) s = snd (ios_dispatch_gesture env g s)"
| "run_ios_command env (RunInputText t) s = snd (ios_input_text env t s)"
| "run_ios_command env (RunEraseText n) s = snd (ios_erase_text env n s)"
| "run_ios_command env (RunPressKey k) s = snd (ios_press_key env k s)"
| "run_ios_command env RunHideKeyboard s = snd (ios_hide_keyboard env s)"
| "run_ios_command env (RunLaunchApp b args) s = snd (ios_launch_app env b args s)"
| "run_ios_command env (RunStopApp b) s = snd (ios_stop_app env b s)"
| "run_ios_command env (RunKillApp b) s = snd (ios_kill_app env b s)"
| "run_ios_command env RunCurrentForeground s = snd (ios_current_foreground env s)"
| "run_ios_command env RunListApps s = snd (ios_list_apps env s)"
| "run_ios_command env (RunInstallApp src) s = snd (ios_install_app env src s)"
| "run_ios_command env (RunUninstallApp b) s = snd (ios_uninstall_app env b s)"
| "run_ios_command env (RunClearAppData b src) s = snd (ios_clear_app_data env b src s)"
| "run_ios_command env (RunIsAppInstalled b) s = snd (ios_is_app_installed env b s)"
| "run_ios_command env RunScreenshot s = snd (ios_screenshot env s)"
| "run_ios_command env RunDeviceInfo s = snd (ios_device_info env s)"
| "run_ios_command env RunScreenSize s = snd (ios_screen_size env s)"
| "run_ios_command env RunPing s = snd (ios_ping env s)"

text \<open>The driver and the log agree, and an operation keeps them so.\<close>

definition tracked :: "ios_codec \<Rightarrow> ios_driver \<times> 'w \<times> agent_event list \<Rightarrow> bool" where
  "tracked k s \<longleftrightarrow> IdLastLaunched (fst s) = known_app k (snd (snd s))"

definition tracks :: "ios_codec \<Rightarrow> ('w \<times> agent_event list, 'a) ios_op \<Rightarrow> bool" where
  "tracks k m \<longleftrightarrow> (\<forall>s. tracked k s \<longrightarrow> tracked k (snd (m s)))"

lemma tracks_bind: "tracks k m \<Longrightarrow> (\<And>a. tracks k (f a)) \<Longrightarrow> tracks k (op_bind m f)"
  by (auto simp: tracks_def op_bind_def split: prod.splits sum.splits) (metis snd_conv)+

lemma tracks_return: "tracks k (op_return a)" "tracks k (op_fail e)"
  by (simp_all add: tracks_def)

lemma tracks_map: "tracks k m \<Longrightarrow> tracks k (op_map g m)"
  unfolding op_map_def by (intro tracks_bind tracks_return)

lemma tracks_lift: "tracks k m \<Longrightarrow> tracks k (\<lambda>s. op_lift (g s) m s)"
  by (auto simp: tracks_def op_lift_def split: prod.splits sum.splits) (metis snd_conv)+

lemma tracks_guarded: "tracks k m \<Longrightarrow> tracks k (ios_guarded env m)"
  by (auto simp: tracks_def ios_guarded_def split: option.split)

lemma known_app_snoc: "known_app k (events @ [ev]) = app_after k (known_app k events) ev"
  by (simp add: known_app_def)

lemma agent_call_logged:
  "agent_call (logged_ios env) cmd args decode out s =
     (case CnCall (IeConn env) CallerContext cmd args (fst (snd s)) of
        (r, w') \<Rightarrow> (map_sum (ios_fail (logged_ios env) (fst s)) id (tcp_call_into decode out r),
                    (fst s, w', snd (snd s) @ [AgentEvent cmd args r])))"
  by (auto simp: agent_call_def on_host_def op_lift_def call_into_def logged_ios_def logged_conn_def split: prod.splits sum.splits)

lemma app_after_other:
  "cmd \<notin> {''launchApp'', ''forceStopApp'', ''dumpRawTree''} \<Longrightarrow> app_after k app (AgentEvent cmd args r) = app"
  by (cases r) simp_all

lemma tracks_agent_call:
  "cmd \<notin> {''launchApp'', ''forceStopApp'', ''dumpRawTree''} \<Longrightarrow> tracks k (agent_call (logged_ios env) cmd args decode out)"
  by (auto simp: tracks_def tracked_def agent_call_logged known_app_snoc app_after_other split: prod.splits simp del: insert_iff)

lemma tracks_run: "tracks k (on_host (run_process (logged_ios env) ctx name args))"
  by (auto simp: tracks_def tracked_def on_host_def run_process_def logged_ios_def alongside_def split: prod.splits option.splits)

text \<open>Commands of the host change neither the driver nor the log.\<close>

lemma logged_run_host:
  "PeRun (logged_ios env) ctx name args wl = (case PeRun env ctx name args (fst wl) of (r, w') \<Rightarrow> (r, w', snd wl))"
  by (simp add: logged_ios_def alongside_def)

lemma hierarchy_args_kept:
  "hierarchy_args (logged_ios env) s = (args, s') \<Longrightarrow> fst s' = fst s \<and> snd (snd s') = snd (snd s)"
  by (auto simp: hierarchy_args_def list_running_uikit_bundle_ids_def logged_run_host split: if_splits prod.splits)

lemma tracks_hierarchy: "tracks (IeCodec env) (ios_hierarchy (logged_ios env))"
  unfolding ios_hierarchy_def
proof (rule tracks_guarded, unfold tracks_def, intro allI impI)
  fix s :: "ios_driver \<times> 'a \<times> agent_event list"
  assume t: "tracked (IeCodec env) s"
  obtain args s1 where h: "hierarchy_args (logged_ios env) s = (args, s1)"
    by (cases "hierarchy_args (logged_ios env) s")
  then have t1: "tracked (IeCodec env) s1"
    using t hierarchy_args_kept [OF h] by (simp add: tracked_def)
  obtain r w' where c: "CnCall (IeConn env) CallerContext ''dumpRawTree'' args (fst (snd s1)) = (r, w')"
    by (cases "CnCall (IeConn env) CallerContext ''dumpRawTree'' args (fst (snd s1))")
  have codec: "IeCodec (logged_ios env) = IeCodec env"
    by (simp add: logged_ios_def)
  show "tracked (IeCodec env) (snd (case hierarchy_args (logged_ios env) s of (args, s1) \<Rightarrow>
       (case agent_call (logged_ios env) ''dumpRawTree'' args (IcTree (IeCodec (logged_ios env))) ([], None) s1 of
          (Inl e, s2) \<Rightarrow> (Inl e, s2)
        | (Inr (bundle, root_el), (d, w)) \<Rightarrow>
            (Inr (normalize_ios_tree (case root_el of Some el \<Rightarrow> el | None \<Rightarrow> other_element)),
             (if bundle \<noteq> [] then d\<lparr>IdLastLaunched := bundle\<rparr> else d, w)))))"
    using t1 c
    by (cases r) (auto simp: h agent_call_logged codec tracked_def known_app_snoc tcp_call_into_def split: sum.splits if_splits)
qed

lemma bundle_arg_launch [simp]: "bundle_arg [(''bundleId'', ArgText b), (''noReset'', n)] = b" "bundle_arg [(''bundleId'', ArgText b)] = b"
  by (simp_all add: bundle_arg_def)

lemma tracks_stop: "tracks k (ios_stop_app (logged_ios env) b)"
  unfolding ios_stop_app_def
  by (rule tracks_guarded, unfold tracks_def)
    (auto simp: agent_command_def op_bind_def agent_call_logged tracked_def known_app_snoc tcp_call_into_def
      split: prod.splits sum.splits if_splits)

lemma tracks_dispatch: "tracks k (ios_dispatch_launch (logged_ios env) b n)"
  unfolding ios_dispatch_launch_def tracks_def
  by (auto simp: agent_command_def op_bind_def agent_call_logged tracked_def known_app_snoc tcp_call_into_def
      split: prod.splits sum.splits if_splits)

lemma tracks_launch: "tracks k (ios_launch_app (logged_ios env) b args)"
proof -
  have stop: "tracks k (\<lambda>s. op_lift (ios_fail (logged_ios env) (fst s)) (ios_stop_app (logged_ios env) b) s)"
    by (rule tracks_lift) (rule tracks_stop)
  have "tracks k (op_bind (\<lambda>s. op_lift (ios_fail (logged_ios env) (fst s)) (ios_stop_app (logged_ios env) b) s)
      (\<lambda>u. ios_dispatch_launch (logged_ios env) b False))"
    by (intro tracks_bind stop tracks_dispatch)
  then show ?thesis
    using tracks_dispatch [of k env b]
    by (auto simp: ios_launch_app_def intro!: tracks_guarded) (auto simp: tracks_def split: option.split)
qed

text \<open>The other operations make other calls or none.\<close>

lemma tracks_command: "cmd \<notin> {''launchApp'', ''forceStopApp'', ''dumpRawTree''} \<Longrightarrow> tracks k (agent_command (logged_ios env) cmd args)"
  unfolding agent_command_def by (rule tracks_agent_call)

lemma tracks_same: "(\<And>s. fst (snd (m s)) = fst s \<and> snd (snd (snd (m s))) = snd (snd s)) \<Longrightarrow> tracks k m"
  by (simp add: tracks_def tracked_def)

lemma tracks_state: "(\<And>d w. tracks k (m d)) \<Longrightarrow> tracks k (\<lambda>s. m (fst s) s)"
  by (simp add: tracks_def)

lemma tracks_screenshot: "tracks k (ios_screenshot (logged_ios env))"
  unfolding ios_screenshot_def
  by (intro tracks_guarded tracks_bind tracks_agent_call) (simp_all add: tracks_def split: sum.split)

lemma tracks_gesture: "tracks k (ios_dispatch_gesture (logged_ios env) g)"
proof -
  have "tracks k (op_bind (agent_call (logged_ios env) ''dispatchPointer'' [(''pointers'', ArgList (map pointer_arg g))] dec [])
      (\<lambda>raw s'. case decode_images ''iosdriver'' 0 raw of
         Inl e \<Rightarrow> op_fail (ios_fail (logged_ios env) (fst s') e) s' | Inr images \<Rightarrow> op_return images s'))" for dec
    by (intro tracks_bind tracks_agent_call) (simp_all add: tracks_def split: sum.split)
  then show ?thesis
    unfolding ios_dispatch_gesture_def by (intro tracks_guarded) (simp add: tracks_def split: option.split)
qed

lemmas host_ops = on_host_def run_process_def logged_run_host ignored_def op_map_def op_bind_def ios_guarded_def
  list_apps_simulator_def fetch_device_apps_def run_uninstall_def is_app_installed_simulator_def

lemma tracks_ping: "tracks k (ios_ping (logged_ios env))"
  unfolding ios_ping_def
  by (intro tracks_guarded, unfold tracks_def)
    (auto simp: tracked_def on_host_def op_map_def op_bind_def op_lift_def call_into_def logged_ios_def logged_conn_def known_app_snoc
      app_after_other split: prod.splits sum.splits)

lemma tracks_install: "tracks k (ios_install_app (logged_ios env) src)"
  by (rule tracks_same) (auto simp: ios_install_app_def host_ops split: prod.splits option.splits)

lemma tracks_host:
  "tracks k (ios_list_apps (logged_ios env))" "tracks k (ios_uninstall_app (logged_ios env) b)"
  "tracks k (ios_is_app_installed (logged_ios env) b)" "tracks k (ios_current_foreground (logged_ios env))"
  "tracks k (ios_device_info (logged_ios env))" "tracks k (ios_wait_for_idle (logged_ios env) ms)"
  by (rule tracks_same, auto simp: ios_list_apps_def ios_uninstall_app_def ios_is_app_installed_def ios_current_foreground_def
      ios_device_info_def ios_wait_for_idle_def host_ops split: prod.splits option.splits sum.splits)+

lemma tracks_clear: "tracks k (ios_clear_app_data (logged_ios env) b src)"
  using tracks_install [of k env src]
  unfolding ios_clear_app_data_def
  by (intro tracks_guarded) (auto simp: tracks_def tracked_def run_uninstall_def logged_run_host split: prod.splits option.splits)

lemma tracks_guarded_command:
  "cmd \<notin> {''launchApp'', ''forceStopApp'', ''dumpRawTree''} \<Longrightarrow> tracks k (ios_guarded env' (agent_command (logged_ios env) cmd args))"
  by (intro tracks_guarded tracks_command)

lemma tracks_guarded_call:
  "cmd \<notin> {''launchApp'', ''forceStopApp'', ''dumpRawTree''} \<Longrightarrow>
   tracks k (ios_guarded env' (op_map g (agent_call (logged_ios env) cmd args decode out)))"
  by (intro tracks_guarded tracks_map tracks_agent_call)

lemma tracks_simple:
  "tracks k (ios_tap (logged_ios env) p)" "tracks k (ios_long_press (logged_ios env) p ms)"
  "tracks k (ios_swipe (logged_ios env) p q ms)" "tracks k (ios_input_text (logged_ios env) t)"
  "tracks k (ios_erase_text (logged_ios env) n)" "tracks k (ios_press_key (logged_ios env) key)"
  "tracks k (ios_hide_keyboard (logged_ios env))" "tracks k (ios_screen_size (logged_ios env))"
  unfolding ios_tap_def ios_long_press_def ios_swipe_def ios_input_text_def ios_erase_text_def ios_press_key_def
    ios_hide_keyboard_def ios_screen_size_def
  by (intro tracks_guarded_command tracks_guarded_call, simp)+

lemmas all_tracks = tracks_hierarchy tracks_launch tracks_stop tracks_screenshot tracks_gesture tracks_ping tracks_install
  tracks_host tracks_clear tracks_simple

lemma tracksD: "tracks k m \<Longrightarrow> tracked k s \<Longrightarrow> tracked k (snd (m s))"
  unfolding tracks_def by blast

lemma run_tracks: "tracked (IeCodec env) s \<Longrightarrow> tracked (IeCodec env) (run_ios_command (logged_ios env) c s)"
  by (cases c) (simp_all add: ios_kill_app_def tracksD all_tracks)

lemma runs_track:
  "tracked (IeCodec env) s \<Longrightarrow> tracked (IeCodec env) (foldl (\<lambda>s c. run_ios_command (logged_ios env) c s) s cmds)"
  by (induction cmds arbitrary: s) (simp_all add: run_tracks)

text \<open>
  C12: After a disconnect, whatever operations follow and however the agent and the host answer, the application
  the driver takes for the one last launched is the one that the agent's answers name: launched or found in
  front by a snapshot, and not stopped since.
\<close>

theorem last_launched_follows_agent:
  "case foldl (\<lambda>s c. run_ios_command (logged_ios env) c s) (fst (ios_disconnect env (d, w)), (w0, [])) cmds of
     (d', w', events) \<Rightarrow> IdLastLaunched d' = known_app (IeCodec env) events"
proof -
  let ?final = "foldl (\<lambda>s c. run_ios_command (logged_ios env) c s) (fst (ios_disconnect env (d, w)), (w0, [])) cmds"
  have "tracked (IeCodec env) (fst (ios_disconnect env (d, w)), (w0, []))"
    by (simp add: tracked_def known_app_def ios_disconnect_def split: prod.split)
  then have "tracked (IeCodec env) ?final"
    by (rule runs_track)
  then show ?thesis
    by (cases ?final) (simp add: tracked_def)
qed

lemma ios_connect_forgets:
  assumes "ios_connect env fuel s = Some (r, s')" "PeContextErr env (snd s) = None"
  shows "IdLastLaunched (fst s') = []"
proof -
  have dial: "IdLastLaunched (fst (snd (ios_dial env s0))) = IdLastLaunched (fst s0)" for s0
    by (auto simp: ios_dial_def op_bind_def on_host_def op_lift_def ios_handshake_def agent_call_def split: prod.splits sum.splits)
  have tunnel: "IdLastLaunched (fst s1) = IdLastLaunched (fst s0)" if "launch_iproxy env fuel s0 = Some (r1, s1)" for s0 s1 r1
    using that by (auto simp: launch_iproxy_def Let_def split: prod.splits bool.splits option.splits readiness_outcome.splits if_splits)
  show ?thesis
  proof (cases "IdKind (fst s) = KindDevice")
    case True
    let ?s0 = "((fst s)\<lparr>IdLastLaunched := []\<rparr>, snd s)"
    obtain r1 s1 where t: "launch_iproxy env fuel ?s0 = Some (r1, s1)"
      using assms True by (cases "launch_iproxy env fuel ?s0") (auto simp: ios_connect_def)
    then show ?thesis
      using assms True tunnel [OF t] dial [of s1] by (cases r1) (auto simp: ios_connect_def)
  next
    case False
    then show ?thesis
      using assms dial [of "((fst s)\<lparr>IdLastLaunched := []\<rparr>, snd s)"] by (auto simp: ios_connect_def)
  qed
qed

section \<open>Failures of a call\<close>

text \<open>What the caller of the driver is told when \<^verbatim>\<open>callInner\<close> ends with an error.\<close>

definition ios_report :: "('w, 'x) process_env_scheme \<Rightarrow> ios_driver \<Rightarrow> string \<Rightarrow> go_error \<Rightarrow> string \<times> string \<times> string" where
  "ios_report env d cmdType e =
     describe (PePrintable env) (Some (ios_fail env d (classify_tcp_error (PePrintable env) cmdType e)))"

lemmas tcp_chain_simps = errors_as_cons [of _ "TcpError _ _ _ _"] errors_is_cons [of _ "TcpError _ _ _ _"]
  errors_as_cons [of _ Canceled] errors_as_cons [of _ DeadlineExceeded] errors_is_cons [of _ Canceled] errors_is_cons [of _ DeadlineExceeded]

lemmas ios_report_defs = ios_report_def classify_tcp_error_def is_tcp_fallback_timeout_def ios_fail_def tcp_chain_simps chain_simps
  classify_defs

definition network_error :: "go_error \<Rightarrow> bool" where
  "network_error e \<longleftrightarrow> foreign_error e \<and> \<not> errors_is DeadlineExceeded e \<and> errors_as as_tcp_error e = None"

text \<open>The three reports that do not depend on what the agent said: code, message and remedy.\<close>

definition told_timeout :: "(nat \<Rightarrow> bool) \<Rightarrow> string \<Rightarrow> string \<times> string \<times> string" where
  "told_timeout pr cmd =
     (CodeToolTimeout, ''the agent did not answer '' @ go_quote pr cmd @ '' within its wire-call time budget'', wire_call_timeout_remedy)"

definition told_unreachable :: "ios_driver \<Rightarrow> string \<times> string \<times> string" where
  "told_unreachable d = (CodeAgentUnreachable, ''could not reach the agent on device '' @ IdUdid d, AgentUnreachableRemedy)"

definition told_failed :: "ios_driver \<Rightarrow> string \<times> string \<times> string" where
  "told_failed d =
     (CodeAgentCommunicationFailed, ''could not complete the request to the agent on device '' @ IdUdid d, AgentCommunicationFailedRemedy)"

lemmas told_defs = told_timeout_def told_unreachable_def told_failed_def

text \<open>
  C17: How each error of a call to the agent is reported, with code, message and remedy. Under a context
  without a deadline, a response that does not come and a write that blocks are timeouts of the command. A
  client that is not connected, a write that fails, a client that reconnects or is closed while the call
  waits, and a connection lost while it waits are an agent that cannot be reached. An answer with ok false
  is a rejection with its sanitized message. A request that cannot be encoded and a reply that cannot be
  decoded are a communication that failed. The end of the caller's context is returned as it is. A \<^verbatim>\<open>Ping\<close>
  that fails, for whatever reason, reports that the agent cannot be reached, unless its context had ended.
\<close>

theorem ios_failure_codes:
  assumes "network_error e"
  shows "ios_report env d cmd (response_timeout cmd) = told_timeout (PePrintable env) cmd \<and>
    ios_report env d cmd (TcpError TcpWriteTimeout cmd [] (Some e)) = told_timeout (PePrintable env) cmd \<and>
    ios_report env d cmd (TcpError TcpNotConnected cmd [] None) = told_unreachable d \<and>
    ios_report env d cmd (TcpError TcpDisconnected cmd [] (Some e)) = told_unreachable d \<and>
    ios_report env d cmd (TcpError TcpDisconnected [] ''client reconnected'' None) = told_unreachable d \<and>
    ios_report env d cmd (TcpError TcpDisconnected [] ''client closed by caller'' None) = told_unreachable d \<and>
    ios_report env d cmd (TcpError TcpDisconnected [] [] (Some e)) = told_unreachable d \<and>
    ios_report env d cmd (TcpError TcpDriverError [] msg None) =
      (CodeAgentRejected, sanitize_agent_message (PeLeaks env) msg, AgentRejectedRemedy) \<and>
    ios_report env d cmd (encode_failure (PePrintable env) cmd e) = told_failed d \<and>
    describe (PePrintable env) (Some (ios_fail env d e)) = told_failed d \<and>
    (c \<in> {Canceled, DeadlineExceeded} \<longrightarrow> ios_fail env d (classify_tcp_error (PePrintable env) cmd c) = c) \<and>
    (case ios_ping ios (d, w) of
       (Inl f, _) \<Rightarrow> PeContextErr ios w = Some f \<or> describe (PePrintable ios) (Some f) = told_unreachable d
     | (Inr _, _) \<Rightarrow> True)"
proof (intro conjI impI)
  show "ios_report env d cmd (TcpError TcpWriteTimeout cmd [] (Some e)) = told_timeout (PePrintable env) cmd"
    "ios_report env d cmd (TcpError TcpDisconnected cmd [] (Some e)) = told_unreachable d"
    "ios_report env d cmd (TcpError TcpDisconnected [] [] (Some e)) = told_unreachable d"
    "ios_report env d cmd (encode_failure (PePrintable env) cmd e) = told_failed d"
    "describe (PePrintable env) (Some (ios_fail env d e)) = told_failed d"
    using assms by (auto simp: network_error_def foreign_error_def ios_report_defs encode_failure_def told_defs)
  show "ios_report env d cmd (response_timeout cmd) = told_timeout (PePrintable env) cmd"
    "ios_report env d cmd (TcpError TcpNotConnected cmd [] None) = told_unreachable d"
    "ios_report env d cmd (TcpError TcpDisconnected [] ''client reconnected'' None) = told_unreachable d"
    "ios_report env d cmd (TcpError TcpDisconnected [] ''client closed by caller'' None) = told_unreachable d"
    "ios_report env d cmd (TcpError TcpDriverError [] msg None) =
      (CodeAgentRejected, sanitize_agent_message (PeLeaks env) msg, AgentRejectedRemedy)"
    by (simp_all add: ios_report_defs response_timeout_def told_defs)
  show "ios_fail env d (classify_tcp_error (PePrintable env) cmd c) = c" if "c \<in> {Canceled, DeadlineExceeded}"
    using that by (auto simp: ios_report_defs)
  show "case ios_ping ios (d, w) of
      (Inl f, _) \<Rightarrow> PeContextErr ios w = Some f \<or> describe (PePrintable ios) (Some f) = told_unreachable d
    | (Inr _, _) \<Rightarrow> True"
    by (auto simp: ios_ping_def ios_guarded_def on_host_def op_map_def op_bind_def op_lift_def ios_unreachable_def told_defs
        AgentUnreachableRemedy_def errors_as_cons [of _ "TaggedError _ _ _ _"] split: prod.splits sum.splits option.splits)
qed

theorem ios_failure_codes_witness:
  "ios_report refusing_env (new_ios_driver ''U1'' KindDevice 0) ''tapAt''
     (TcpError TcpDisconnected ''tapAt'' [] (Some (PlainError ''broken pipe''))) =
   told_unreachable (new_ios_driver ''U1'' KindDevice 0)"
proof -
  have "network_error (PlainError ''broken pipe'')"
    by (simp add: network_error_def foreign_error_def errors_as_cons [of _ "PlainError _"] errors_is_cons [of _ "PlainError _"] unwrap_def)
  then show ?thesis
    by (rule ios_failure_codes [THEN conjunct2, THEN conjunct2, THEN conjunct2, THEN conjunct1])
qed

end
