(* ===== verification/Xctest_Launcher.thy ===== *)
theory Xctest_Launcher
  imports Ios_Driver
begin

text \<open>
  \<^verbatim>\<open>iosdriver/xctest_launcher.go\<close>: building and starting the XCUITest runner until it answers a ping. Files
  with their modification times and processes are parameters of the world.
\<close>

section \<open>Configuration\<close>

record launch_config =
  LcProjectDir :: string
  LcScheme :: string
  LcProjectFileName :: string
  LcPort :: int
  LcKind :: ios_kind
  LcUdid :: string
  LcDevTeam :: string
  LcRunnerAppName :: string
  LcOnlyTestingTarget :: string
  LcBuildTimeoutMs :: int
  LcLaunchTimeoutMs :: int

text \<open>A file that is not there, one that cannot be read, and one with its time; the entries of a walk in order.\<close>

datatype file_stat = StatMissing | StatError | StatTime int

datatype walk_entry = WalkFault | WalkDirectory string | WalkFile string "int option"

record 'w xctest_env = "'w ios_env" +
  XeStat :: "string \<Rightarrow> 'w \<Rightarrow> file_stat"
  XeWalk :: "string \<Rightarrow> 'w \<Rightarrow> walk_entry list"
  XeJoin :: "string list \<Rightarrow> string"

definition xctest_project_file_name :: string where "xctest_project_file_name = ''AtomyxDriver.xcodeproj''"
definition xctest_default_scheme :: string where "xctest_default_scheme = ''AtomyxDriver''"
definition xctest_runner_app_name :: string where "xctest_runner_app_name = ''AtomyxDriverAgent-Runner.app''"
definition xctest_only_testing_target :: string where
  "xctest_only_testing_target = ''AtomyxDriverAgent/AtomyxDriverAgent/testServeCommands''"
definition xctest_config_simulator :: string where "xctest_config_simulator = ''Debug-iphonesimulator''"
definition xctest_config_device :: string where "xctest_config_device = ''Debug-iphoneos''"
definition xctest_default_build_timeout_ms :: int where "xctest_default_build_timeout_ms = 120000"
definition xctest_default_launch_timeout_ms :: int where "xctest_default_launch_timeout_ms = 90000"
definition xctest_poll_interval_ms :: int where "xctest_poll_interval_ms = 500"
definition xctest_signing_tail :: nat where "xctest_signing_tail = 500"
definition xctest_build_failed_tail :: nat where "xctest_build_failed_tail = 800"
definition xctest_spawn_exit_tail :: nat where "xctest_spawn_exit_tail = 500"
definition xctest_source_dir_names :: "string list" where "xctest_source_dir_names = [''Tests'', ''Sources'', ''App'']"

definition or_default :: "string \<Rightarrow> string \<Rightarrow> string" where
  "or_default s d = (if s \<noteq> [] then s else d)"

definition lc_scheme :: "launch_config \<Rightarrow> string" where
  "lc_scheme c = or_default (LcScheme c) xctest_default_scheme"

definition lc_project_file_name :: "launch_config \<Rightarrow> string" where
  "lc_project_file_name c = or_default (LcProjectFileName c) xctest_project_file_name"

definition lc_runner_app_name :: "launch_config \<Rightarrow> string" where
  "lc_runner_app_name c = or_default (LcRunnerAppName c) xctest_runner_app_name"

definition lc_only_testing_target :: "launch_config \<Rightarrow> string" where
  "lc_only_testing_target c = or_default (LcOnlyTestingTarget c) xctest_only_testing_target"

definition new_xctest_launcher :: "launch_config \<Rightarrow> launch_config" where
  "new_xctest_launcher c =
     c\<lparr>LcPort := if LcPort c = 0 then default_ios_port else LcPort c,
       LcBuildTimeoutMs := if LcBuildTimeoutMs c = 0 then xctest_default_build_timeout_ms else LcBuildTimeoutMs c,
       LcLaunchTimeoutMs := if LcLaunchTimeoutMs c = 0 then xctest_default_launch_timeout_ms else LcLaunchTimeoutMs c\<rparr>"

section \<open>Whether to build\<close>

text \<open>The walk: whether a file is newer, and whether it failed.\<close>

fun walk_swift :: "int \<Rightarrow> walk_entry list \<Rightarrow> bool \<Rightarrow> bool \<times> bool" where
  "walk_swift cutoff [] found = (found, False)"
| "walk_swift cutoff (WalkFault # es) found = (found, True)"
| "walk_swift cutoff (WalkDirectory p # es) found = walk_swift cutoff es found"
| "walk_swift cutoff (WalkFile p t # es) found =
     (if \<not> has_suffix p ''.swift'' then walk_swift cutoff es found
      else case t of None \<Rightarrow> (found, True) | Some m \<Rightarrow> walk_swift cutoff es (found \<or> cutoff < m))"

definition dir_has_swift_file_newer_than :: "'w xctest_env \<Rightarrow> string \<Rightarrow> int \<Rightarrow> 'w \<Rightarrow> bool \<times> bool" where
  "dir_has_swift_file_newer_than env dir cutoff w =
     (case XeStat env dir w of
        StatMissing \<Rightarrow> (False, False)
      | StatError \<Rightarrow> (False, True)
      | StatTime m \<Rightarrow> walk_swift cutoff (XeWalk env dir w) False)"

definition is_source_newer :: "'w xctest_env \<Rightarrow> launch_config \<Rightarrow> int \<Rightarrow> 'w \<Rightarrow> bool" where
  "is_source_newer env c productMtime w \<longleftrightarrow>
     (case XeStat env (XeJoin env [LcProjectDir c, lc_project_file_name c, ''project.pbxproj'']) w of
        StatTime m \<Rightarrow> productMtime < m | _ \<Rightarrow> False) \<or>
     list_ex (\<lambda>nm. case dir_has_swift_file_newer_than env (XeJoin env [LcProjectDir c, nm]) productMtime w of
         (newer, failed) \<Rightarrow> failed \<or> newer) xctest_source_dir_names"

definition needs_build :: "'w xctest_env \<Rightarrow> launch_config \<Rightarrow> string \<Rightarrow> 'w \<Rightarrow> bool" where
  "needs_build env c runnerApp w =
     (case XeStat env runnerApp w of StatTime m \<Rightarrow> is_source_newer env c m w | _ \<Rightarrow> True)"

section \<open>Building\<close>

definition xctest_destination :: "launch_config \<Rightarrow> string" where
  "xctest_destination c =
     (if LcKind c = KindDevice then ''platform=iOS,id='' else ''platform=iOS Simulator,id='') @ LcUdid c"

definition sign_overrides :: "launch_config \<Rightarrow> go_error + string list" where
  "sign_overrides c =
     (if LcKind c \<noteq> KindDevice then
        Inr [''CODE_SIGN_STYLE=Automatic'', ''CODE_SIGNING_REQUIRED=NO'', ''CODE_SIGNING_ALLOWED=NO'', ''CODE_SIGN_IDENTITY='',
          ''PROVISIONING_PROFILE_SPECIFIER='', ''DEVELOPMENT_TEAM='']
      else if LcDevTeam c = [] then
        Inl (LauncherError ''signing''
          ''devTeam is required for physical device builds. Set ATOMYX_DEV_TEAM env var or pass devTeam option.'')
      else Inr [''CODE_SIGN_STYLE=Automatic'', ''CODE_SIGNING_REQUIRED=YES'', ''CODE_SIGNING_ALLOWED=YES'',
        ''DEVELOPMENT_TEAM='' @ LcDevTeam c])"

definition xcode_args :: "string \<Rightarrow> string \<Rightarrow> string \<Rightarrow> launch_config \<Rightarrow> string list" where
  "xcode_args action project derived c =
     [action, ''-project'', project, ''-scheme'', lc_scheme c, ''-destination'', xctest_destination c,
      ''-derivedDataPath'', derived]"

definition build_args :: "launch_config \<Rightarrow> string \<Rightarrow> string \<Rightarrow> go_error + string list" where
  "build_args c project derived = map_sum id (\<lambda>signs. xcode_args ''build-for-testing'' project derived c @ signs) (sign_overrides c)"

definition spawn_args :: "launch_config \<Rightarrow> string \<Rightarrow> string \<Rightarrow> go_error + string list" where
  "spawn_args c project derived =
     map_sum id (\<lambda>signs. xcode_args ''test-without-building'' project derived c @
       [''-only-testing:'' @ lc_only_testing_target c] @ signs) (sign_overrides c)"

definition is_signing_failure :: "string \<Rightarrow> bool" where
  "is_signing_failure err \<longleftrightarrow>
     contains err ''requires a development team'' \<or> contains err ''No profiles were found'' \<or> contains err ''Signing for''"

definition tail_string :: "string \<Rightarrow> nat \<Rightarrow> string" where
  "tail_string s n = (if length s \<le> n then s else drop (length s - n) s)"

definition no_xcode :: go_error where
  "no_xcode = LauncherError ''no-xcode'' ''xcodebuild not found. Install Xcode from the App Store.''"

definition build_failure :: "launch_config \<Rightarrow> process_result \<Rightarrow> go_error \<Rightarrow> go_error" where
  "build_failure c res e =
     (let nl = [newline_char] in
      if exec_not_found (Some e) then no_xcode
      else if is_signing_failure (Stderr res) then
        LauncherError ''signing''
          (''Xcode code signing not configured. Set ATOMYX_DEV_TEAM env var or pass devTeam to IosDriverOptions.'' @ nl @ nl @
           ''xcodebuild stderr (last '' @ utoa xctest_signing_tail @ '' chars):'' @ nl @ tail_string (Stderr res) xctest_signing_tail)
      else LauncherError ''build-failed''
        (''xcodebuild build-for-testing failed (exit code '' @ itoa (ExitCode res) @ '').'' @ nl @ ''Run `cd '' @ LcProjectDir c @
         '' && make setup` to diagnose.'' @ nl @ nl @ ''stderr (last '' @ utoa xctest_build_failed_tail @ '' chars):'' @ nl @
         or_default (tail_string (Stderr res) xctest_build_failed_tail) ''(no stderr)''))"

definition xctest_build :: "'w xctest_env \<Rightarrow> launch_config \<Rightarrow> string \<Rightarrow> string \<Rightarrow> ('w, go_error, unit) op" where
  "xctest_build env c project derived w =
     (case build_args c project derived of
        Inl e \<Rightarrow> (Inl e, w)
      | Inr args \<Rightarrow>
          (case PeRun env (ContextWithTimeout (LcBuildTimeoutMs c)) ''xcodebuild'' args w of
             ((res, None), w') \<Rightarrow> (Inr (), w')
           | ((res, Some e), w') \<Rightarrow> (Inl (build_failure c res e), w')))"

section \<open>Starting\<close>

definition classify_spawn_exit :: "process_result \<Rightarrow> go_error option \<Rightarrow> go_error" where
  "classify_spawn_exit res e =
     (if exec_not_found e then no_xcode
      else let err = trim_space (Stderr res) in
        LauncherError ''spawn-exit''
          (''xcodebuild test-without-building exited early (code '' @ itoa (ExitCode res) @ ''). stderr: '' @
           (if err = [] then ''(empty)'' else tail_string err xctest_spawn_exit_tail)))"

definition xctest_timeout :: "launch_config \<Rightarrow> go_error" where
  "xctest_timeout c =
     LauncherError ''launch-timeout''
       (''XCUITest driver did not start listening on port '' @ itoa (LcPort c) @ '' within '' @
        itoa (seconds_of (LcLaunchTimeoutMs c)) @ ''s. Check Xcode console for errors.'')"

definition runner_race :: "'w xctest_env \<Rightarrow> launch_config \<Rightarrow> 'w race" where
  "runner_race env c =
     spawn_race (ios_env.truncate env) (probe_iproxy_ping (ios_env.truncate env) (LcPort c) iproxy_ping_probe_timeout_ms)
       classify_spawn_exit"

text \<open>Whether the process has exited, and the error.\<close>

definition wait_for_ready_or_exit :: "'w xctest_env \<Rightarrow> launch_config \<Rightarrow> nat \<Rightarrow> 'w \<Rightarrow> ((bool \<times> go_error option) \<times> 'w) option" where
  "wait_for_ready_or_exit env c fuel w =
     (case await_ready (runner_race env c) xctest_poll_interval_ms (LcLaunchTimeoutMs c) fuel w of
        None \<Rightarrow> None
      | Some ((out, e), w') \<Rightarrow>
          Some (case out of
            ReadinessReady \<Rightarrow> (False, None) | ReadinessExited \<Rightarrow> (True, e) | ReadinessTimeout \<Rightarrow> (False, Some (xctest_timeout c))
          | ReadinessCtxDone \<Rightarrow> (False, e), w'))"

text \<open>What the caller can stop: nothing, or the spawned process, by \<open>xctest_kill\<close>.\<close>

datatype kill_handle = NoopKill | KillSpawned

definition xctest_kill :: "'w xctest_env \<Rightarrow> kill_handle \<Rightarrow> 'w \<Rightarrow> kill_handle \<times> 'w" where
  "xctest_kill env h w =
     (case h of NoopKill \<Rightarrow> (NoopKill, w) | KillSpawned \<Rightarrow> (NoopKill, IeAwaitExit env (IeCancel env w)))"

definition spawn_and_wait :: "'w xctest_env \<Rightarrow> launch_config \<Rightarrow> string list \<Rightarrow> nat \<Rightarrow> 'w \<Rightarrow> ((go_error + kill_handle) \<times> 'w) option" where
  "spawn_and_wait env c args fuel w =
     (case wait_for_ready_or_exit env c fuel (IeSpawn env ''xcodebuild'' args w) of
        None \<Rightarrow> None
      | Some ((exited, None), w') \<Rightarrow> Some (Inr KillSpawned, w')
      | Some ((exited, Some e), w') \<Rightarrow>
          Some (Inl e, if exited then IeCancel env w' else IeAwaitExit env (IeCancel env w')))"

definition no_project :: "launch_config \<Rightarrow> string \<Rightarrow> go_error" where
  "no_project c project =
     LauncherError ''no-project''
       (lc_project_file_name c @ '' not found at '' @ project @ ''. Run `cd '' @ LcProjectDir c @ '' && make setup` first.'')"

definition xctest_ensure_running :: "'w xctest_env \<Rightarrow> launch_config \<Rightarrow> nat \<Rightarrow> 'w \<Rightarrow> ((go_error + kill_handle) \<times> 'w) option" where
  "xctest_ensure_running env c fuel w =
     (case PeContextErr env w of
        Some e \<Rightarrow> Some (Inl e, w)
      | None \<Rightarrow>
          (case probe_iproxy_ping (ios_env.truncate env) (LcPort c) iproxy_ping_probe_timeout_ms w of
             (True, w1) \<Rightarrow> Some (Inr NoopKill, w1)
           | (False, w1) \<Rightarrow>
               (let project = XeJoin env [LcProjectDir c, lc_project_file_name c];
                    config = (if LcKind c = KindDevice then xctest_config_device else xctest_config_simulator);
                    runnerApp = XeJoin env [LcProjectDir c, ''build'', ''Build'', ''Products'', config, lc_runner_app_name c];
                    derived = XeJoin env [LcProjectDir c, ''build''];
                    found = (case XeStat env project w1 of StatTime m \<Rightarrow> True | _ \<Rightarrow> False)
                in if \<not> found then Some (Inl (no_project c project), w1)
                   else case (if needs_build env c runnerApp w1 then xctest_build env c project derived w1 else (Inr (), w1)) of
                     (Inl e, w2) \<Rightarrow> Some (Inl e, w2)
                   | (Inr u, w2) \<Rightarrow>
                       (case spawn_args c project derived of
                          Inl e \<Rightarrow> Some (Inl e, w2)
                        | Inr args \<Rightarrow> spawn_and_wait env c args fuel w2))))"

section \<open>What success means\<close>

lemma spawn_round_sound:
  "race_round (spawn_race e0 probe cl) timeoutMs deadlineMs w = (Some (ReadinessReady, e), w') \<Longrightarrow> e = None"
  by (auto simp: race_round_def spawn_race_def split: prod.splits if_splits race_signal.splits)

lemma race_never_fails:
  "await_loop (spawn_race e0 probe cl) pollMs timeoutMs deadlineMs n w = Some ((ReadinessReady, e), w') \<Longrightarrow> e = None"
proof (induction n arbitrary: w)
  case (Suc n)
  then show ?case
    using spawn_round_sound [of e0 probe cl timeoutMs deadlineMs w e w']
    by (auto split: prod.splits sum.splits if_splits option.splits)
qed simp

text \<open>A launcher that has spawned the runner and returns without an error has just had its ping answered.\<close>

lemma spawn_ready:
  assumes "spawn_and_wait env c args fuel w = Some (Inr h, w')"
  shows "\<exists>w1. probe_iproxy_ping (ios_env.truncate env) (LcPort c) iproxy_ping_probe_timeout_ms w1 = (True, w')"
proof -
  let ?start = "IeSpawn env ''xcodebuild'' args w"
  obtain out e w2 where run: "await_ready (runner_race env c) xctest_poll_interval_ms (LcLaunchTimeoutMs c) fuel ?start =
      Some ((out, e), w2)"
  proof (cases "await_ready (runner_race env c) xctest_poll_interval_ms (LcLaunchTimeoutMs c) fuel ?start")
    case None
    then show ?thesis
      using assms by (simp add: spawn_and_wait_def wait_for_ready_or_exit_def)
  qed (use that in \<open>metis surj_pair\<close>)
  have failed: "e = None \<Longrightarrow> out \<in> {ReadinessReady, ReadinessTimeout}"
    using run [unfolded await_ready_def] by (metis await_loop_failed)
  have ready: "out = ReadinessReady \<and> w2 = w'"
    using assms failed by (cases out; cases e) (simp_all add: spawn_and_wait_def wait_for_ready_or_exit_def run)
  have "e = None"
    using run [unfolded await_ready_def runner_race_def] ready by (metis race_never_fails)
  then obtain w1 where "RcProbe (runner_race env c) w1 = (Inr True, w')"
    using run [unfolded await_ready_def] ready by (metis await_loop_outcome)
  then show ?thesis
    by (cases "probe_iproxy_ping (ios_env.truncate env) (LcPort c) iproxy_ping_probe_timeout_ms w1")
      (auto simp: runner_race_def spawn_race_def)
qed

end
