(* ===== verification/Net_Capture.thy ===== *)
theory Net_Capture
  imports Go_Fold Wire_Errors Android_Driver Runner_Core
begin

text \<open>
  \<^verbatim>\<open>netcapture\<close>: requests recorded by a proxy as lines of JSON in a file that grows while it is read
  (\<^verbatim>\<open>file_capture.go\<close>), the adapter without a proxy (\<^verbatim>\<open>null_capture.go\<close>), the choice of an adapter
  (\<^verbatim>\<open>factory.go\<close>) and of its target (\<^verbatim>\<open>config_string.go\<close>). Parameters: the file system, the decoder of a
  line, \<^verbatim>\<open>url.Parse\<close>, and the result of converting a float out of range to an integer.
\<close>

section \<open>Records\<close>

text \<open>A line before its fields are known to be there.\<close>

record raw_captured_request =
  RawMethod :: string
  RawURL :: string
  RawStatus :: "f64 option"
  RawHeaders :: "(string \<times> string) list"
  RawBody :: any_value
  RawTimestamp :: "f64 option"

record 'w capture_env =
  CeExists :: "string \<Rightarrow> 'w \<Rightarrow> bool"
  CeReadFile :: "string \<Rightarrow> 'w \<Rightarrow> go_error + string"
  CeClock :: "('w, go_error) clock"
  CeDecode :: "string \<Rightarrow> raw_captured_request option"
  CeParseURL :: "string \<Rightarrow> (string \<times> string \<times> string) option"
  CePrintable :: "nat \<Rightarrow> bool"
  CeWild :: "f64 \<Rightarrow> int"

record file_capture =
  FcPath :: string
  FcRequests :: "captured_request list"
  FcLastSize :: nat
  FcLastReadErr :: "go_error option"

definition capture_poll_interval_ms :: int where "capture_poll_interval_ms = 100"

definition new_file_capture :: "string \<Rightarrow> file_capture" where
  "new_file_capture src = \<lparr>FcPath = src, FcRequests = [], FcLastSize = 0, FcLastReadErr = None\<rparr>"

section \<open>Lines\<close>

definition captured_of :: "(f64 \<Rightarrow> int) \<Rightarrow> raw_captured_request \<Rightarrow> captured_request option" where
  "captured_of wild raw =
     (if RawMethod raw = [] \<or> RawURL raw = [] then None
      else case RawStatus raw of
        None \<Rightarrow> None
      | Some status \<Rightarrow>
          Some \<lparr>CapMethod = RawMethod raw, CapURL = RawURL raw, CapStatus = f_to_int wild status, CapHeaders = RawHeaders raw,
            CapBody = RawBody raw,
            CapTimestampMs = (case RawTimestamp raw of None \<Rightarrow> 0 | Some t \<Rightarrow> f_to_int wild t)\<rparr>)"

definition parse_capture_line :: "'w capture_env \<Rightarrow> string \<Rightarrow> captured_request option" where
  "parse_capture_line env line =
     (let trimmed = trim_space line in
      if trimmed = [] then None
      else case CeDecode env trimmed of None \<Rightarrow> None | Some raw \<Rightarrow> captured_of (CeWild env) raw)"

definition parse_capture_lines :: "'w capture_env \<Rightarrow> string \<Rightarrow> captured_request list" where
  "parse_capture_lines env content = List.map_filter (parse_capture_line env) (split_on newline_char content)"

section \<open>Reading the file\<close>

definition read_capture_file :: "'w capture_env \<Rightarrow> file_capture \<Rightarrow> 'w \<Rightarrow> string option \<times> file_capture" where
  "read_capture_file env f w =
     (if \<not> CeExists env (FcPath f) w then (None, f\<lparr>FcLastReadErr := None\<rparr>)
      else case CeReadFile env (FcPath f) w of
        Inl e \<Rightarrow> (None, f\<lparr>FcLastReadErr := Some e\<rparr>)
      | Inr content \<Rightarrow> (Some content, f\<lparr>FcLastReadErr := None\<rparr>))"

definition load_existing :: "'w capture_env \<Rightarrow> 'w \<Rightarrow> file_capture \<Rightarrow> file_capture" where
  "load_existing env w f =
     (case read_capture_file env f w of
        (None, f') \<Rightarrow> f'\<lparr>FcRequests := [], FcLastSize := 0\<rparr>
      | (Some content, f') \<Rightarrow> f'\<lparr>FcLastSize := length content, FcRequests := parse_capture_lines env content\<rparr>)"

definition load_content :: "'w capture_env \<Rightarrow> string \<Rightarrow> file_capture \<Rightarrow> file_capture" where
  "load_content env content f =
     (let from_size = (if length content < FcLastSize f then 0 else FcLastSize f) in
      if length content \<le> from_size then f\<lparr>FcLastSize := from_size\<rparr>
      else f\<lparr>FcLastSize := length content,
             FcRequests := FcRequests f @ parse_capture_lines env (drop from_size content)\<rparr>)"

definition load_new :: "'w capture_env \<Rightarrow> 'w \<Rightarrow> file_capture \<Rightarrow> file_capture" where
  "load_new env w f =
     (case read_capture_file env f w of (None, f') \<Rightarrow> f' | (Some content, f') \<Rightarrow> load_content env content f')"

definition current_file_length :: "'w capture_env \<Rightarrow> 'w \<Rightarrow> file_capture \<Rightarrow> nat \<times> file_capture" where
  "current_file_length env w f =
     (case read_capture_file env f w of (None, f') \<Rightarrow> (0, f') | (Some content, f') \<Rightarrow> (length content, f'))"

definition capture_reset :: "'w capture_env \<Rightarrow> 'w \<Rightarrow> file_capture \<Rightarrow> file_capture" where
  "capture_reset env w f =
     (case current_file_length env w (f\<lparr>FcRequests := []\<rparr>) of (n, f') \<Rightarrow> f'\<lparr>FcLastSize := n\<rparr>)"

definition capture_all :: "'w capture_env \<Rightarrow> 'w \<Rightarrow> file_capture \<Rightarrow> captured_request list \<times> file_capture" where
  "capture_all env w f = (let f' = load_new env w f in (FcRequests f', f'))"

definition capture_start :: "'w capture_env \<Rightarrow> 'w \<Rightarrow> file_capture \<Rightarrow> file_capture" where
  "capture_start = load_existing"

section \<open>Matching\<close>

definition capture_methods :: "(string \<times> string) list" where
  "capture_methods =
     [(''get'', ''GET''), (''post'', ''POST''), (''put'', ''PUT''), (''patch'', ''PATCH''), (''delete'', ''DELETE''),
      (''head'', ''HEAD''), (''options'', ''OPTIONS'')]"

definition pattern_space :: "char \<Rightarrow> bool" where
  "pattern_space c \<longleftrightarrow> c \<in> {CHR '' '', CHR 0x09, CHR 0x0A, CHR 0x0C, CHR 0x0D}"

text \<open>
  The last group of \<^verbatim>\<open>\s+(.+)$\<close>: white space as far as it goes, but one for the group, which has no line
  break.
\<close>

definition pattern_rest :: "string \<Rightarrow> string option" where
  "pattern_rest s =
     (let blanks = takeWhile pattern_space s; tail_part = dropWhile pattern_space s in
      if blanks = [] \<or> newline_char \<in> set tail_part then None
      else if tail_part \<noteq> [] then Some tail_part
      else if length blanks \<ge> 2 \<and> List.last blanks \<noteq> newline_char then Some [List.last blanks]
      else None)"

definition parse_capture_pattern :: "string \<Rightarrow> string \<times> string" where
  "parse_capture_pattern pat =
     (case List.map_filter (\<lambda>(low, method).
          case match_folded low pat of None \<Rightarrow> None | Some s \<Rightarrow> map_option (\<lambda>r. (method, trim_space r)) (pattern_rest s))
        capture_methods of
        [] \<Rightarrow> ([], trim_space pat)
      | m # _ \<Rightarrow> m)"

definition capture_path_of :: "'w capture_env \<Rightarrow> string \<Rightarrow> string option" where
  "capture_path_of env rawURL =
     (case CeParseURL env rawURL of
        None \<Rightarrow> None
      | Some (scheme, host, urlPath) \<Rightarrow> if scheme = [] \<or> host = [] then None else Some urlPath)"

definition matches_capture_path :: "'w capture_env \<Rightarrow> string \<Rightarrow> string \<Rightarrow> bool" where
  "matches_capture_path env rawURL pat \<longleftrightarrow>
     (case capture_path_of env rawURL of
        None \<Rightarrow> contains rawURL pat
      | Some urlPath \<Rightarrow>
          if has_prefix pat ''/'' then
            (if has_suffix pat ''*'' then has_prefix urlPath (butlast pat) else urlPath = pat)
          else contains rawURL pat)"

definition request_matches :: "'w capture_env \<Rightarrow> string \<Rightarrow> string \<Rightarrow> captured_request \<Rightarrow> bool" where
  "request_matches env method pat req \<longleftrightarrow>
     (method = [] \<or> fold_text (CapMethod req) = map lower_char method) \<and> matches_capture_path env (CapURL req) pat"

definition find_match :: "'w capture_env \<Rightarrow> file_capture \<Rightarrow> string \<Rightarrow> string \<Rightarrow> captured_request option" where
  "find_match env f method pat = find (request_matches env method pat) (rev (FcRequests f))"

section \<open>Waiting\<close>

definition read_failed_text :: "'w capture_env \<Rightarrow> string \<Rightarrow> int \<Rightarrow> string" where
  "read_failed_text env pat timeoutMs =
     ''timed out waiting for '' @ go_quote (CePrintable env) pat @ '' after '' @ itoa timeoutMs @
     ''ms: the capture file could not be read: ''"

definition no_match_text :: "'w capture_env \<Rightarrow> string \<Rightarrow> int \<Rightarrow> nat \<Rightarrow> string" where
  "no_match_text env pat timeoutMs n =
     ''Timed out waiting for '' @ go_quote (CePrintable env) pat @ '' after '' @ itoa timeoutMs @ ''ms, captured '' @ utoa n @
     '' requests total, check that the proxy is running and the app routes through it''"

definition wait_failure :: "'w capture_env \<Rightarrow> string \<Rightarrow> int \<Rightarrow> file_capture \<Rightarrow> go_error" where
  "wait_failure env pat timeoutMs f =
     (case FcLastReadErr f of
        Some e \<Rightarrow> WrapError (read_failed_text env pat timeoutMs) e
      | None \<Rightarrow> PlainError (no_match_text env pat timeoutMs (length (FcRequests f))))"

fun capture_wait_loop ::
  "'w capture_env \<Rightarrow> string \<Rightarrow> int \<Rightarrow> int \<Rightarrow> nat \<Rightarrow> file_capture \<times> 'w \<Rightarrow> ((go_error + captured_request) \<times> file_capture \<times> 'w) option" where
  "capture_wait_loop env pat timeoutMs deadline 0 s = None"
| "capture_wait_loop env pat timeoutMs deadline (Suc n) s =
     (if NowMs (CeClock env) (snd s) < deadline then
        (let f = load_new env (snd s) (fst s) in
         case (case parse_capture_pattern pat of (method, urlPat) \<Rightarrow> find_match env f method urlPat) of
           Some req \<Rightarrow> Some (Inr req, f, snd s)
         | None \<Rightarrow>
             (case SleepMs (CeClock env) capture_poll_interval_ms (snd s) of
                (Inl e, w') \<Rightarrow> Some (Inl e, f, w')
              | (Inr u, w') \<Rightarrow> capture_wait_loop env pat timeoutMs deadline n (f, w')))
      else Some (Inl (wait_failure env pat timeoutMs (fst s)), s))"

definition wait_for_request ::
  "'w capture_env \<Rightarrow> nat \<Rightarrow> string \<Rightarrow> int \<Rightarrow> file_capture \<times> 'w \<Rightarrow> ((go_error + captured_request) \<times> file_capture \<times> 'w) option" where
  "wait_for_request env fuel pat timeoutMs s =
     capture_wait_loop env pat timeoutMs (NowMs (CeClock env) (snd s) + timeoutMs) fuel s"

section \<open>Adapters\<close>

record capture_config =
  CcType :: string
  CcPath :: string
  CcHost :: string
  CcPort :: int

datatype 'x capture_adapter = NullCapture | FileCapture file_capture | OtherCapture 'x

definition null_wait_error :: "(nat \<Rightarrow> bool) \<Rightarrow> string \<Rightarrow> go_error" where
  "null_wait_error pr pat =
     PlainError (''capture('' @ go_quote pr pat @ '') requires a network capture adapter but none is configured, pass '' @
       ''--proxy <type>:<path> to the CLI, or set captureConfig in your script runner options'')"

type_synonym 'x capture_factory = "capture_config \<Rightarrow> go_error + 'x capture_adapter"

definition file_factory :: "string \<Rightarrow> string \<Rightarrow> 'x capture_factory" where
  "file_factory kind what cfg =
     (if CcPath cfg = [] then
        Inl (PlainError (''capture config type '' @ [CHR 0x22] @ kind @ [CHR 0x22] @ '' requires a '' @ [CHR 0x22] @ ''path'' @
          [CHR 0x22] @ '' to the '' @ what))
      else Inr (FileCapture (new_file_capture (CcPath cfg))))"

definition builtin_registry :: "(string \<times> 'x capture_factory) list" where
  "builtin_registry =
     [(''none'', \<lambda>cfg. Inr NullCapture), (''file'', file_factory ''file'' ''JSON-lines capture file''),
      (''mitmproxy'', file_factory ''mitmproxy'' ''mitmproxy addon's JSON-lines output file'')]"

definition register_capture :: "string \<Rightarrow> 'x capture_factory \<Rightarrow> (string \<times> 'x capture_factory) list \<Rightarrow> (string \<times> 'x capture_factory) list" where
  "register_capture kind f registry = (kind, f) # filter (\<lambda>e. fst e \<noteq> kind) registry"

definition new_capture ::
  "(nat \<Rightarrow> bool) \<Rightarrow> (string \<times> 'x capture_factory) list \<Rightarrow> capture_config option \<Rightarrow> go_error + 'x capture_adapter" where
  "new_capture pr registry config =
     (case config of
        None \<Rightarrow> Inr NullCapture
      | Some cfg \<Rightarrow>
          if CcType cfg = ''none'' then Inr NullCapture
          else case map_of registry (CcType cfg) of
            None \<Rightarrow>
              Inl (PlainError (''unknown capture adapter type '' @ go_quote pr (CcType cfg) @ ''; available: '' @
                join_with '', '' (sort (map fst registry))))
          | Some f \<Rightarrow> f cfg)"

definition parse_config_string :: "string \<Rightarrow> capture_config option" where
  "parse_config_string s =
     (let kind = takeWhile (\<lambda>c. c \<noteq> CHR '':'') s in
      if s = [] then None
      else if kind = [] \<or> kind = s then Some \<lparr>CcType = ''file'', CcPath = s, CcHost = [], CcPort = 0\<rparr>
      else Some \<lparr>CcType = kind, CcPath = drop (length kind + 1) s, CcHost = [], CcPort = 0\<rparr>)"

end
