(* ===== verification/Net_Capture_Props.thy ===== *)
theory Net_Capture_Props
  imports Net_Capture Runner_Values_Props
begin

text \<open>
  What is read of a capture file that grows: every record appended since a reset when the reads fall between
  lines, and nothing of a record that a read cuts in two. What waiting for a request returns.
\<close>

section \<open>A file that grows by whole lines\<close>

lemma parse_lines_append: "parse_capture_lines env (a @ newline_char # b) = parse_capture_lines env a @ parse_capture_lines env b"
  by (simp add: parse_capture_lines_def split_on_append List.map_filter_def)

lemma parse_lines_empty [simp]: "parse_capture_lines env [] = []"
  by (simp add: parse_capture_lines_def List.map_filter_def parse_capture_line_def trim_space_def Let_def)

definition whole_lines :: "string \<Rightarrow> bool" where
  "whole_lines p \<longleftrightarrow> p \<noteq> [] \<and> List.last p = newline_char"

lemma parse_whole_lines: "whole_lines p \<Longrightarrow> parse_capture_lines env (p @ q) = parse_capture_lines env p @ parse_capture_lines env q"
  by (cases p rule: rev_cases) (auto simp: whole_lines_def parse_lines_append [of env _ q] parse_lines_append [of env _ "[]"])

text \<open>Reads of a file while it grows: after each piece that is appended, the new part is loaded.\<close>

fun grow_and_load :: "'w capture_env \<Rightarrow> string list \<Rightarrow> file_capture \<times> string \<Rightarrow> file_capture \<times> string" where
  "grow_and_load env [] s = s"
| "grow_and_load env (p # ps) (f, content) = grow_and_load env ps (load_content env (content @ p) f, content @ p)"

lemma load_piece:
  assumes "FcLastSize f = length content" "whole_lines p"
  shows "load_content env (content @ p) f =
    f\<lparr>FcLastSize := length (content @ p), FcRequests := FcRequests f @ parse_capture_lines env p\<rparr>"
  using assms by (auto simp: load_content_def whole_lines_def Let_def)

lemma grow_whole_lines:
  "FcLastSize f = length content \<Longrightarrow> list_all whole_lines ps \<Longrightarrow>
   FcRequests (fst (grow_and_load env ps (f, content))) = FcRequests f @ parse_capture_lines env (concat ps)"
proof (induction ps arbitrary: f content)
  case (Cons p ps)
  then show ?case
    by (simp add: load_piece parse_whole_lines)
qed simp

text \<open>
  C25: After a reset, a file that grows by whole lines is read, in however many reads, as exactly the records
  appended since, in order, as one read of them gives; records before the reset are gone, also those on disk
  that no read had seen.
\<close>

theorem grown_lines_read_once:
  assumes "CeExists env (FcPath f) w" "CeReadFile env (FcPath f) w = Inr content" "list_all whole_lines ps"
  shows "FcRequests (fst (grow_and_load env ps (capture_reset env w f, content))) = parse_capture_lines env (concat ps)"
proof -
  have "FcLastSize (capture_reset env w f) = length content" "FcRequests (capture_reset env w f) = []"
    using assms by (simp_all add: capture_reset_def current_file_length_def read_capture_file_def)
  with grow_whole_lines [OF this(1) assms(3), of env] show ?thesis
    by simp
qed

text \<open>A decoder that knows one line, and a file of one old line.\<close>

definition one_line :: string where
  "one_line = ''{}''"

definition one_raw :: raw_captured_request where
  "one_raw = \<lparr>RawMethod = ''GET'', RawURL = ''/a'', RawStatus = Some (Fin 200), RawHeaders = [], RawBody = NilValue, RawTimestamp = None\<rparr>"

definition one_env :: "string capture_env" where
  "one_env =
     \<lparr>CeExists = (\<lambda>p w. True), CeReadFile = (\<lambda>p w. Inr w),
      CeClock = \<lparr>NowMs = (\<lambda>w. 0), SleepMs = (\<lambda>ms w. (Inr (), w)), CtxErr = (\<lambda>w. None)\<rparr>,
      CeDecode = (\<lambda>s. if s = one_line then Some one_raw else None), CeParseURL = (\<lambda>s. None), CePrintable = (\<lambda>n. True),
      CeWild = (\<lambda>x. 0)\<rparr>"

theorem grown_lines_read_once_witness:
  "FcRequests (fst (grow_and_load one_env [one_line @ [newline_char], one_line @ [newline_char]]
      (capture_reset one_env ''old'' (new_file_capture ''f''), ''old''))) =
   parse_capture_lines one_env (concat [one_line @ [newline_char], one_line @ [newline_char]])"
  using grown_lines_read_once [of one_env "new_file_capture ''f''" "''old''" "''old''" "[one_line @ [newline_char], one_line @ [newline_char]]"]
  by (simp add: one_env_def whole_lines_def)

section \<open>A record cut by a read\<close>

lemma parse_no_newline: "newline_char \<notin> set s \<Longrightarrow> parse_capture_lines env s = (case parse_capture_line env s of None \<Rightarrow> [] | Some r \<Rightarrow> [r])"
proof -
  assume "newline_char \<notin> set s"
  then have "split_on newline_char s = [s]"
    by (induction s) auto
  then show ?thesis
    by (simp add: parse_capture_lines_def List.map_filter_def split: option.split)
qed

text \<open>
  C39: A record that is read while its line is being written is lost: the first read takes its first part for a
  malformed line and moves past it, the next read sees only the rest. One read after the write finds it.
\<close>

theorem record_cut_by_read_lost:
  assumes line: "newline_char \<notin> set (a @ b)" "a \<noteq> []" and whole: "parse_capture_line env (a @ b) = Some req"
    and parts: "parse_capture_line env a = None" "parse_capture_line env b = None"
  shows "FcRequests (fst (grow_and_load env [a, b @ [newline_char]] (new_file_capture src, []))) = [] \<and>
    FcRequests (fst (grow_and_load env [a @ b @ [newline_char]] (new_file_capture src, []))) = [req]"
proof -
  have "parse_capture_lines env (b @ [newline_char]) = []" "parse_capture_lines env a = []"
    "parse_capture_lines env ((a @ b) @ [newline_char]) = [req]"
    using parse_lines_append [of env b "[]"] parse_lines_append [of env "a @ b" "[]"] line(1) whole parts by (simp_all add: parse_no_newline)
  then show ?thesis
    using line(2) by (simp add: load_content_def new_file_capture_def Let_def)
qed

theorem record_cut_by_read_lost_witness:
  "FcRequests (fst (grow_and_load one_env [''{'', ''}'' @ [newline_char]] (new_file_capture ''f'', []))) = [] \<and>
   length (FcRequests (fst (grow_and_load one_env [''{'' @ ''}'' @ [newline_char]] (new_file_capture ''f'', [])))) = 1"
proof -
  have "trim_space ''{'' = ''{''" "trim_space ''}'' = ''}''" "trim_space ''{}'' = ''{}''"
    by (rule trim_space_ascii, simp_all add: byte_of_def is_space_rune_def)+
  then have "parse_capture_line one_env ''{'' = None" "parse_capture_line one_env ''}'' = None"
    "\<exists>req. parse_capture_line one_env (''{'' @ ''}'') = Some req"
    by (simp_all add: parse_capture_line_def one_env_def one_line_def one_raw_def captured_of_def Let_def)
  then show ?thesis
    using record_cut_by_read_lost [of "''{''" "''}''" one_env _ "''f''"] by (auto simp: newline_char_def)
qed

section \<open>Waiting\<close>

lemma find_match_sound:
  "find_match env f method pat = Some req \<Longrightarrow> req \<in> set (FcRequests f) \<and> request_matches env method pat req"
  by (auto simp: find_match_def find_Some_iff) (metis length_rev nth_mem set_rev)

lemma capture_wait_returns:
  assumes sleep: "\<forall>w w'. SleepMs (CeClock env) capture_poll_interval_ms w = (Inr (), w') \<longrightarrow>
      NowMs (CeClock env) w + capture_poll_interval_ms \<le> NowMs (CeClock env) w'"
  shows "deadline - NowMs (CeClock env) (snd s) \<le> int n * capture_poll_interval_ms \<Longrightarrow>
    capture_wait_loop env pat timeoutMs deadline (Suc n) s \<noteq> None"
proof (induction n arbitrary: s)
  case (Suc n)
  let ?f = "load_new env (snd s) (fst s)"
  obtain mth urlPat where pat: "parse_capture_pattern pat = (mth, urlPat)"
    by (cases "parse_capture_pattern pat")
  obtain r w' where sl: "SleepMs (CeClock env) capture_poll_interval_ms (snd s) = (r, w')"
    by (cases "SleepMs (CeClock env) capture_poll_interval_ms (snd s)")
  note step = capture_wait_loop.simps(2) [of env pat timeoutMs deadline "Suc n" s]
  show ?case
  proof (cases r)
    case (Inr u)
    then have "NowMs (CeClock env) (snd s) + capture_poll_interval_ms \<le> NowMs (CeClock env) w'"
      using sleep sl by simp
    with Suc.prems have "deadline - NowMs (CeClock env) w' \<le> int n * capture_poll_interval_ms"
      by (simp add: algebra_simps)
    with Suc.IH [of "(?f, w')"] show ?thesis
      unfolding step by (simp add: Let_def pat sl Inr split: option.split del: capture_wait_loop.simps)
  qed (unfold step, simp add: Let_def pat sl split: option.split del: capture_wait_loop.simps)
qed simp

text \<open>A request that a wait returns was captured and matches the pattern.\<close>

lemma capture_wait_sound:
  "capture_wait_loop env pat timeoutMs deadline n s = Some (Inr req, f, w') \<Longrightarrow>
   req \<in> set (FcRequests f) \<and> request_matches env (fst (parse_capture_pattern pat)) (snd (parse_capture_pattern pat)) req"
proof (induction n arbitrary: s)
  case (Suc n)
  then show ?case
    by (auto simp: Let_def split: prod.splits option.splits sum.splits if_splits dest: find_match_sound)
qed simp

end
