(* ===== verification/Suite_Discovery.thy ===== *)
theory Suite_Discovery
  imports Wire_Errors Runner_Values "HOL-Library.List_Lexorder" "HOL-Library.Char_ord"
begin

text \<open>
  \<^verbatim>\<open>suite\<close>: glob patterns over relative paths (\<^verbatim>\<open>glob.go\<close>) and the files of a suite selected by them and by
  tags (\<^verbatim>\<open>discovery.go\<close>). A pattern is compiled to the pieces of a regular expression, whose text and whose
  meaning over the runes of a path are given. Parameters: the directories and files, which do not change
  while they are searched; \<^verbatim>\<open>filepath\<close>; the YAML decoder; and what each look at the context finds.
\<close>

section \<open>Glob patterns\<close>

datatype glob_item = AnyDirs | AnyRun | SegmentRun | SegmentChar | Literal nat

fun glob_items :: "nat list \<Rightarrow> glob_item list" where
  "glob_items [] = []"
| "glob_items (c # cs) =
     (if c = 42 then
        (case cs of
           d # ds \<Rightarrow>
             if d = 42 then (case ds of e # es \<Rightarrow> if e = 47 then AnyDirs # glob_items es else AnyRun # glob_items ds | [] \<Rightarrow> [AnyRun])
             else SegmentRun # glob_items cs
         | [] \<Rightarrow> [SegmentRun])
      else if c = 63 then SegmentChar # glob_items cs
      else Literal c # glob_items cs)"

definition glob_special_chars :: string where
  "glob_special_chars = ''.+^${}()|[]'' @ [CHR 0x5C]"

fun item_source :: "glob_item \<Rightarrow> string" where
  "item_source AnyDirs = ''(?:.*/)?''"
| "item_source AnyRun = ''.*''"
| "item_source SegmentRun = ''[^/]*''"
| "item_source SegmentChar = ''[^/]''"
| "item_source (Literal c) = (if c \<in> set (map byte_of glob_special_chars) then [CHR 0x5C] else []) @ string_of_runes [c]"

text \<open>A backslash of the pattern is a slash.\<close>

definition pattern_items :: "string \<Rightarrow> glob_item list" where
  "pattern_items pat = glob_items (runes_of (map (\<lambda>c. if c = CHR 0x5C then CHR ''/'' else c) pat))"

definition compile_glob :: "string \<Rightarrow> string" where
  "compile_glob pat = ''^'' @ concat (map item_source (pattern_items pat)) @ ''$''"

text \<open>The meaning of the expression: a dot is any rune but a line feed.\<close>

primrec glob_accepts :: "glob_item list \<Rightarrow> nat list \<Rightarrow> bool" where
  "glob_accepts [] s = (s = [])"
| "glob_accepts (i # is) s =
     (case i of
        Literal c \<Rightarrow> (case s of [] \<Rightarrow> False | d # ds \<Rightarrow> d = c \<and> glob_accepts is ds)
      | SegmentChar \<Rightarrow> (case s of [] \<Rightarrow> False | d # ds \<Rightarrow> d \<noteq> 47 \<and> glob_accepts is ds)
      | SegmentRun \<Rightarrow> list_ex (\<lambda>k. 47 \<notin> set (take k s) \<and> glob_accepts is (drop k s)) [0..<length s + 1]
      | AnyRun \<Rightarrow> list_ex (\<lambda>k. 10 \<notin> set (take k s) \<and> glob_accepts is (drop k s)) [0..<length s + 1]
      | AnyDirs \<Rightarrow>
          glob_accepts is s \<or>
          list_ex (\<lambda>k. s ! k = 47 \<and> 10 \<notin> set (take k s) \<and> glob_accepts is (drop (k + 1) s)) [0..<length s])"

definition matches_glob :: "string \<Rightarrow> string \<Rightarrow> bool" where
  "matches_glob relativePath pat = glob_accepts (pattern_items pat) (runes_of relativePath)"

definition match_any :: "string list \<Rightarrow> string \<Rightarrow> bool" where
  "match_any patterns relativePath = list_ex (matches_glob relativePath) patterns"

section \<open>The corpus\<close>

record dir_entry =
  EnName :: string
  EnIsDir :: bool
  EnIsRegular :: bool

record suite_selector =
  SelTags :: "string list"
  SelGlobs :: "string list"

record discovery_options =
  DoCwd :: string
  DoTestRoots :: "string list"

record 'w discovery_env =
  DcCheck :: "'w \<Rightarrow> go_error option \<times> 'w"
  DcReadDir :: "string \<Rightarrow> dir_entry list option"
  DcReadFile :: "string \<Rightarrow> string option"
  DcYaml :: "string \<Rightarrow> (string \<times> any_value) list option"
  DcIsAbs :: "string \<Rightarrow> bool"
  DcClean :: "string \<Rightarrow> string"
  DcJoin :: "string \<Rightarrow> string \<Rightarrow> string"
  DcRel :: "string \<Rightarrow> string \<Rightarrow> string option"

definition yaml_extensions :: "string list" where "yaml_extensions = [''.yml'', ''.yaml'']"
definition skipped_names :: "string list" where "skipped_names = [''node_modules'']"

definition is_skipped :: "string \<Rightarrow> bool" where
  "is_skipped nm \<longleftrightarrow> has_prefix nm ''.'' \<or> nm \<in> set skipped_names"

definition has_yaml_extension :: "string \<Rightarrow> bool" where
  "has_yaml_extension nm \<longleftrightarrow>
     CHR ''.'' \<in> set nm \<and> CHR ''.'' # rev (takeWhile (\<lambda>c. c \<noteq> CHR ''.'') (rev nm)) \<in> set yaml_extensions"

definition resolve_dir :: "'w discovery_env \<Rightarrow> string \<Rightarrow> string \<Rightarrow> string" where
  "resolve_dir env cwd src = (if DcIsAbs env src then DcClean env src else DcClean env (DcJoin env cwd src))"

definition to_posix_relative :: "'w discovery_env \<Rightarrow> string \<Rightarrow> string \<Rightarrow> string" where
  "to_posix_relative env dir f = (case DcRel env dir f of None \<Rightarrow> f | Some rel \<Rightarrow> rel)"

definition has_any_tag :: "string list \<Rightarrow> string list \<Rightarrow> bool" where
  "has_any_tag fileTags wanted = list_ex (\<lambda>t. t \<in> set wanted) fileTags"

definition read_top_level_tags :: "'w discovery_env \<Rightarrow> string \<Rightarrow> string list" where
  "read_top_level_tags env f =
     (case DcReadFile env f of
        None \<Rightarrow> []
      | Some raw \<Rightarrow>
          (case DcYaml env raw of
             None \<Rightarrow> []
           | Some doc \<Rightarrow>
               (case map_of doc ''tags'' of
                  Some (AnyArray vs) \<Rightarrow> List.map_filter (\<lambda>v. case v of AnyString s \<Rightarrow> Some s | _ \<Rightarrow> None) vs
                | _ \<Rightarrow> [])))"

text \<open>The walk, which looks at the context before each entry; its first argument bounds the depth.\<close>

type_synonym ('w, 'a) search = "'w \<Rightarrow> ((go_error + 'a) \<times> 'w) option"

fun walk_entries ::
  "'w discovery_env \<Rightarrow> (string \<Rightarrow> ('w, string list) search) \<Rightarrow> string \<Rightarrow> dir_entry list \<Rightarrow> string list \<Rightarrow> ('w, string list) search" where
  "walk_entries env descend dir [] found w = Some (Inr found, w)"
| "walk_entries env descend dir (e # es) found w =
     (case DcCheck env w of
        (Some err, w1) \<Rightarrow> Some (Inl err, w1)
      | (None, w1) \<Rightarrow>
          (let full = DcJoin env dir (EnName e) in
           if is_skipped (EnName e) then walk_entries env descend dir es found w1
           else if EnIsDir e then
             (case descend full w1 of
                None \<Rightarrow> None
              | Some (Inl err, w2) \<Rightarrow> Some (Inl err, w2)
              | Some (Inr nested, w2) \<Rightarrow> walk_entries env descend dir es (found @ nested) w2)
           else if EnIsRegular e \<and> has_yaml_extension (EnName e) then walk_entries env descend dir es (found @ [full]) w1
           else walk_entries env descend dir es found w1))"

primrec walk_yaml_files :: "'w discovery_env \<Rightarrow> nat \<Rightarrow> string \<Rightarrow> ('w, string list) search" where
  "walk_yaml_files env 0 = (\<lambda>dir w. None)"
| "walk_yaml_files env (Suc n) = (\<lambda>dir w.
     case DcReadDir env dir of
       None \<Rightarrow> Some (Inr [], w)
     | Some es \<Rightarrow> walk_entries env (walk_yaml_files env n) dir es [] w)"

definition matching_files :: "'w discovery_env \<Rightarrow> string list \<Rightarrow> string \<Rightarrow> string list \<Rightarrow> string list" where
  "matching_files env globs dir files =
     filter (\<lambda>f. globs = [] \<or> match_any globs (to_posix_relative env dir f)) files"

fun search_roots ::
  "'w discovery_env \<Rightarrow> nat \<Rightarrow> string list \<Rightarrow> string list \<Rightarrow> string list \<Rightarrow> ('w, string list) search" where
  "search_roots env fuel globs [] matches w = Some (Inr matches, w)"
| "search_roots env fuel globs (dir # dirs) matches w =
     (case DcCheck env w of
        (Some err, w1) \<Rightarrow> Some (Inl err, w1)
      | (None, w1) \<Rightarrow>
          (case walk_yaml_files env fuel dir w1 of
             None \<Rightarrow> None
           | Some (Inl err, w2) \<Rightarrow> Some (Inl err, w2)
           | Some (Inr files, w2) \<Rightarrow> search_roots env fuel globs dirs (matches @ matching_files env globs dir files) w2))"

fun keep_tagged :: "'w discovery_env \<Rightarrow> string list \<Rightarrow> string list \<Rightarrow> string list \<Rightarrow> ('w, string list) search" where
  "keep_tagged env tags [] kept w = Some (Inr kept, w)"
| "keep_tagged env tags (f # fs) kept w =
     (case DcCheck env w of
        (Some err, w1) \<Rightarrow> Some (Inl err, w1)
      | (None, w1) \<Rightarrow>
          keep_tagged env tags fs (if has_any_tag (read_top_level_tags env f) tags then kept @ [f] else kept) w1)"

definition selector_error :: "suite_selector \<Rightarrow> discovery_options \<Rightarrow> go_error option" where
  "selector_error sel opts =
     (if SelTags sel = [] \<and> SelGlobs sel = [] then
        Some (PlainError ''a suite selector requires at least one of tags or globs'')
      else if SelTags sel \<noteq> [] \<and> SelGlobs sel = [] \<and> DoTestRoots opts = [] then
        Some (PlainError (''selecting a suite by tags alone requires testRoots in the '' @
          ''project config, or at least one glob to narrow the search''))
      else None)"

definition search_dirs :: "'w discovery_env \<Rightarrow> discovery_options \<Rightarrow> string list" where
  "search_dirs env opts =
     (if DoTestRoots opts \<noteq> [] then map (resolve_dir env (DoCwd opts)) (DoTestRoots opts)
      else [resolve_dir env (DoCwd opts) ''.''])"

definition resolve_suite :: "'w discovery_env \<Rightarrow> nat \<Rightarrow> suite_selector \<Rightarrow> discovery_options \<Rightarrow> ('w, string list) search" where
  "resolve_suite env fuel sel opts w =
     (case selector_error sel opts of
        Some err \<Rightarrow> Some (Inl err, w)
      | None \<Rightarrow>
          (case DcCheck env w of
             (Some err, w0) \<Rightarrow> Some (Inl err, w0)
           | (None, w0) \<Rightarrow>
               (case search_roots env fuel (SelGlobs sel) (search_dirs env opts) [] w0 of
                  None \<Rightarrow> None
                | Some (Inl err, w1) \<Rightarrow> Some (Inl err, w1)
                | Some (Inr matches, w1) \<Rightarrow>
                    (case (if SelTags sel \<noteq> [] then keep_tagged env (SelTags sel) (remdups matches) [] w1
                           else Some (Inr (remdups matches), w1)) of
                       None \<Rightarrow> None
                     | Some (Inl err, w2) \<Rightarrow> Some (Inl err, w2)
                     | Some (Inr candidates, w2) \<Rightarrow> Some (Inr (sort candidates), w2)))))"

end
