(* ===== verification/Suite_Discovery_Props.thy ===== *)
theory Suite_Discovery_Props
  imports Suite_Discovery
begin

text \<open>
  What the selection of a suite promises: the files found are exactly those of the corpus that a pattern and a
  tag select, each once and in order, and the search ends on a tree of bounded depth.
\<close>

section \<open>Patterns\<close>

lemma glob_accepts_literals [simp]:
  "glob_accepts (map Literal p) s \<longleftrightarrow> s = p"
proof (induction p arbitrary: s)
  case (Cons a p) then show ?case by (cases s) auto
qed simp

lemma glob_items_literals:
  "42 \<notin> set p \<Longrightarrow> 63 \<notin> set p \<Longrightarrow> glob_items p = map Literal p"
  by (induction p) auto

lemma literal_pattern_matches_itself:
  assumes "42 \<notin> set (runes_of pat)" and "63 \<notin> set (runes_of pat)" and "CHR 0x5C \<notin> set pat"
  shows "matches_glob relativePath pat \<longleftrightarrow> runes_of relativePath = runes_of pat"
proof -
  have "map (\<lambda>c. if c = CHR 0x5C then CHR ''/'' else c) pat = pat" using assms(3) by (induction pat) auto
  then show ?thesis by (simp add: matches_glob_def pattern_items_def glob_items_literals assms)
qed

text \<open>A pattern without a double star keeps the number of segments.\<close>

definition slashes :: "nat list \<Rightarrow> nat" where "slashes s = length (filter (\<lambda>r. r = 47) s)"

lemma slashes_split: "slashes s = slashes (take k s) + slashes (drop k s)"
  by (metis append_take_drop_id filter_append length_append slashes_def)

lemma slashes_none: "47 \<notin> set s \<Longrightarrow> slashes s = 0"
  by (auto simp: slashes_def filter_empty_conv)

lemma glob_accepts_segments:
  assumes "glob_accepts is s" and "AnyDirs \<notin> set is" and "AnyRun \<notin> set is"
  shows "slashes s = length (filter (\<lambda>i. i = Literal 47) is)"
  using assms
proof (induction "is" arbitrary: s)
  case (Cons i js)
  show ?case
  proof (cases i)
    case SegmentRun
    then have "list_ex (\<lambda>k. 47 \<notin> set (take k s) \<and> glob_accepts js (drop k s)) [0..<length s + 1]"
      using Cons.prems(1) by simp
    then obtain k where k: "47 \<notin> set (take k s)" "glob_accepts js (drop k s)"
      unfolding list_ex_iff by blast
    then show ?thesis using Cons.IH [OF k(2)] Cons.prems SegmentRun slashes_split [of s k] slashes_none [OF k(1)] by simp
  qed (use Cons in \<open>auto simp: slashes_def split: list.splits\<close>)
qed (simp add: slashes_def)

section \<open>The corpus\<close>

inductive corpus_file :: "'w discovery_env \<Rightarrow> string \<Rightarrow> string \<Rightarrow> bool" for env where
  here: "DcReadDir env dir = Some es \<Longrightarrow> e \<in> set es \<Longrightarrow> \<not> is_skipped (EnName e) \<Longrightarrow> \<not> EnIsDir e \<Longrightarrow>
         EnIsRegular e \<Longrightarrow> has_yaml_extension (EnName e) \<Longrightarrow> corpus_file env dir (DcJoin env dir (EnName e))"
| below: "DcReadDir env dir = Some es \<Longrightarrow> e \<in> set es \<Longrightarrow> \<not> is_skipped (EnName e) \<Longrightarrow> EnIsDir e \<Longrightarrow>
         corpus_file env (DcJoin env dir (EnName e)) f \<Longrightarrow> corpus_file env dir f"

definition entry_gives :: "'w discovery_env \<Rightarrow> string \<Rightarrow> dir_entry \<Rightarrow> string \<Rightarrow> bool" where
  "entry_gives env dir e f \<longleftrightarrow>
     \<not> is_skipped (EnName e) \<and>
     (if EnIsDir e then corpus_file env (DcJoin env dir (EnName e)) f
      else EnIsRegular e \<and> has_yaml_extension (EnName e) \<and> f = DcJoin env dir (EnName e))"

lemma corpus_file_iff:
  "corpus_file env dir f \<longleftrightarrow> (\<exists>es. DcReadDir env dir = Some es \<and> (\<exists>e\<in>set es. entry_gives env dir e f))"
proof
  assume "corpus_file env dir f"
  then show "\<exists>es. DcReadDir env dir = Some es \<and> (\<exists>e\<in>set es. entry_gives env dir e f)"
    by cases (auto simp: entry_gives_def)
next
  assume "\<exists>es. DcReadDir env dir = Some es \<and> (\<exists>e\<in>set es. entry_gives env dir e f)"
  then show "corpus_file env dir f"
    by (auto simp: entry_gives_def split: if_splits intro: corpus_file.intros)
qed

text \<open>What a search may return: the files it should, or the error of a look at the context.\<close>

definition search_gives :: "'w discovery_env \<Rightarrow> string set \<Rightarrow> ((go_error + string list) \<times> 'w) option \<Rightarrow> bool" where
  "search_gives env S r \<longleftrightarrow>
     (case r of
        None \<Rightarrow> False
      | Some (Inl err, _) \<Rightarrow> \<exists>w. fst (DcCheck env w) = Some err
      | Some (Inr files, _) \<Rightarrow> set files = S)"

lemma search_gives_simps [simp]:
  "\<not> search_gives env S None"
  "search_gives env S (Some (Inl err, w)) \<longleftrightarrow> (\<exists>w. fst (DcCheck env w) = Some err)"
  "search_gives env S (Some (Inr files, w)) \<longleftrightarrow> set files = S"
  by (simp_all add: search_gives_def)

lemma search_gives_cases:
  assumes "search_gives env S r"
  obtains (stopped) err w where "r = Some (Inl err, w)" and "\<exists>w. fst (DcCheck env w) = Some err"
  | (found) files w where "r = Some (Inr files, w)" and "set files = S"
  using assms by (auto simp: search_gives_def split: option.splits prod.splits sum.splits)

lemma check_cases:
  obtains (ended) err w1 where "DcCheck env w = (Some err, w1)" and "\<exists>w. fst (DcCheck env w) = Some err"
  | (live) w1 where "DcCheck env w = (None, w1)"
proof (cases "fst (DcCheck env w)")
  case None
  then show thesis using live [of "snd (DcCheck env w)"] by (simp add: prod_eq_iff)
next
  case (Some err)
  then show thesis using ended [of err "snd (DcCheck env w)"] by (auto simp: prod_eq_iff)
qed

lemma walk_entries_gives:
  assumes "\<And>e w. e \<in> set es \<Longrightarrow> \<not> is_skipped (EnName e) \<Longrightarrow> EnIsDir e \<Longrightarrow>
             search_gives env {f. corpus_file env (DcJoin env dir (EnName e)) f} (descend (DcJoin env dir (EnName e)) w)"
  shows "search_gives env (set found \<union> (\<Union>e\<in>set es. Collect (entry_gives env dir e))) (walk_entries env descend dir es found w)"
  using assms
proof (induction es arbitrary: found w)
  case (Cons e es)
  have IH: "search_gives env (set found \<union> (\<Union>e\<in>set es. Collect (entry_gives env dir e))) (walk_entries env descend dir es found w)"
    for found w by (rule Cons.IH) (rule Cons.prems, simp_all)
  have goal_set: "set found \<union> (\<Union>e'\<in>set (e # es). Collect (entry_gives env dir e')) =
      (set found \<union> Collect (entry_gives env dir e)) \<union> (\<Union>e\<in>set es. Collect (entry_gives env dir e))" by auto
  show ?case
  proof (cases rule: check_cases [of env w])
    case (live w1)
    consider (skipped) "is_skipped (EnName e)" | (dir) "\<not> is_skipped (EnName e)" "EnIsDir e"
      | (script) "\<not> is_skipped (EnName e)" "\<not> EnIsDir e" "EnIsRegular e \<and> has_yaml_extension (EnName e)"
      | (other) "\<not> is_skipped (EnName e)" "\<not> EnIsDir e" "\<not> (EnIsRegular e \<and> has_yaml_extension (EnName e))" by blast
    then show ?thesis
    proof cases
      case skipped
      then have "Collect (entry_gives env dir e) = {}" by (auto simp: entry_gives_def)
      then show ?thesis unfolding goal_set using IH [of found w1] live skipped by (simp only: walk_entries.simps Let_def Un_empty_right if_True prod.case option.case)
    next
      case dir
      then have e: "Collect (entry_gives env dir e) = {f. corpus_file env (DcJoin env dir (EnName e)) f}"
        by (auto simp: entry_gives_def)
      have "search_gives env {f. corpus_file env (DcJoin env dir (EnName e)) f} (descend (DcJoin env dir (EnName e)) w1)"
        using dir by (intro Cons.prems) simp_all
      then show ?thesis
      proof (cases rule: search_gives_cases)
        case (found files w2)
        then show ?thesis unfolding goal_set e using live dir IH [of "found @ files" w2] by (simp add: Let_def)
      qed (use live dir in \<open>auto simp: Let_def\<close>)
    next
      case script
      then have "Collect (entry_gives env dir e) = {DcJoin env dir (EnName e)}" by (auto simp: entry_gives_def)
      then show ?thesis unfolding goal_set using IH [of "found @ [DcJoin env dir (EnName e)]" w1] live script
        by (simp add: Let_def)
    next
      case other
      then have e: "Collect (entry_gives env dir e) = {}" by (auto simp: entry_gives_def)
      have "walk_entries env descend dir (e # es) found w = walk_entries env descend dir es found w1"
        using live other by (auto simp: Let_def)
      then show ?thesis unfolding goal_set e Un_empty_right by (simp only: IH)
    qed
  qed auto
qed simp

text \<open>A level of the directories that falls with every step down bounds the depth of the tree.\<close>

definition ranked :: "'w discovery_env \<Rightarrow> (string \<Rightarrow> nat) \<Rightarrow> bool" where
  "ranked env lv \<longleftrightarrow>
     (\<forall>dir es e. DcReadDir env dir = Some es \<longrightarrow> e \<in> set es \<longrightarrow> EnIsDir e \<longrightarrow> \<not> is_skipped (EnName e) \<longrightarrow>
        lv (DcJoin env dir (EnName e)) < lv dir)"

lemma walk_yaml_files_gives:
  "ranked env lv \<Longrightarrow> lv dir < fuel \<Longrightarrow> search_gives env {f. corpus_file env dir f} (walk_yaml_files env fuel dir w)"
proof (induction fuel arbitrary: dir w)
  case (Suc n)
  show ?case
  proof (cases "DcReadDir env dir")
    case None
    then show ?thesis by (auto simp: corpus_file_iff)
  next
    case (Some es)
    have "{f. corpus_file env dir f} = set [] \<union> (\<Union>e\<in>set es. Collect (entry_gives env dir e))"
      by (auto simp: corpus_file_iff [of env dir] Some)
    moreover have "search_gives env {f. corpus_file env (DcJoin env dir (EnName e)) f} (walk_yaml_files env n (DcJoin env dir (EnName e)) w)"
      if "e \<in> set es" "\<not> is_skipped (EnName e)" "EnIsDir e" for e w
    proof (rule Suc.IH)
      show "lv (DcJoin env dir (EnName e)) < n"
        using Suc.prems that Some unfolding ranked_def by (meson less_Suc_eq_le order_less_le_trans)
    qed (rule Suc.prems)
    ultimately show ?thesis using Some walk_entries_gives [of es env dir _ "[]" w] by simp
  qed
qed simp

section \<open>The selection\<close>

definition glob_selects :: "'w discovery_env \<Rightarrow> string list \<Rightarrow> string \<Rightarrow> string \<Rightarrow> bool" where
  "glob_selects env globs dir f \<longleftrightarrow> globs = [] \<or> match_any globs (to_posix_relative env dir f)"

lemma search_roots_gives:
  assumes "ranked env lv" and "\<And>dir. dir \<in> set dirs \<Longrightarrow> lv dir < fuel"
  shows "search_gives env (set matches \<union> {f. \<exists>dir\<in>set dirs. corpus_file env dir f \<and> glob_selects env globs dir f})
           (search_roots env fuel globs dirs matches w)"
  using assms(2)
proof (induction dirs arbitrary: matches w)
  case (Cons dir dirs)
  have IH: "search_gives env (set matches \<union> {f. \<exists>dir\<in>set dirs. corpus_file env dir f \<and> glob_selects env globs dir f})
      (search_roots env fuel globs dirs matches w)" for matches w by (rule Cons.IH) (rule Cons.prems, simp)
  show ?case
  proof (cases rule: check_cases [of env w])
    case (live w1)
    have "search_gives env {f. corpus_file env dir f} (walk_yaml_files env fuel dir w1)"
      by (rule walk_yaml_files_gives [OF assms(1)]) (rule Cons.prems, simp)
    then show ?thesis
    proof (cases rule: search_gives_cases)
      case (found files w2)
      have "set (matches @ matching_files env globs dir files) \<union>
            {f. \<exists>dir\<in>set dirs. corpus_file env dir f \<and> glob_selects env globs dir f} =
            set matches \<union> {f. \<exists>d\<in>set (dir # dirs). corpus_file env d f \<and> glob_selects env globs d f}"
        using found(2) by (auto simp: matching_files_def glob_selects_def)
      then show ?thesis using live found IH [of "matches @ matching_files env globs dir files" w2] by simp
    qed (use live in auto)
  qed auto
qed simp

lemma keep_tagged_gives:
  "search_gives env (set kept \<union> {f\<in>set fs. has_any_tag (read_top_level_tags env f) tags}) (keep_tagged env tags fs kept w)"
proof (induction fs arbitrary: kept w)
  case (Cons f fs)
  show ?case
  proof (cases rule: check_cases [of env w])
    case (live w1)
    let ?kept = "if has_any_tag (read_top_level_tags env f) tags then kept @ [f] else kept"
    have "set ?kept \<union> {f\<in>set fs. has_any_tag (read_top_level_tags env f) tags} =
          set kept \<union> {f'\<in>set (f # fs). has_any_tag (read_top_level_tags env f') tags}" by auto
    then show ?thesis using live Cons.IH [of ?kept w1] by simp
  qed auto
qed simp

lemma keep_tagged_distinct:
  "keep_tagged env tags fs kept w = Some (Inr out, w') \<Longrightarrow> distinct fs \<Longrightarrow> distinct kept \<Longrightarrow> set fs \<inter> set kept = {} \<Longrightarrow> distinct out"
proof (induction fs arbitrary: kept w)
  case (Cons f fs)
  then show ?case by (cases rule: check_cases [of env w]) (auto split: if_splits)
qed simp

definition suite_flow :: "'w discovery_env \<Rightarrow> suite_selector \<Rightarrow> discovery_options \<Rightarrow> string \<Rightarrow> bool" where
  "suite_flow env sel opts f \<longleftrightarrow>
     (\<exists>dir\<in>set (search_dirs env opts). corpus_file env dir f \<and> glob_selects env (SelGlobs sel) dir f) \<and>
     (SelTags sel = [] \<or> has_any_tag (read_top_level_tags env f) (SelTags sel))"

definition suite_result :: "'w discovery_env \<Rightarrow> suite_selector \<Rightarrow> discovery_options \<Rightarrow> ((go_error + string list) \<times> 'w) option \<Rightarrow> bool" where
  "suite_result env sel opts r \<longleftrightarrow>
     (case r of
        None \<Rightarrow> False
      | Some (Inl err, _) \<Rightarrow>
          (case selector_error sel opts of Some e \<Rightarrow> err = e | None \<Rightarrow> \<exists>w. fst (DcCheck env w) = Some err)
      | Some (Inr flows, _) \<Rightarrow>
          selector_error sel opts = None \<and> set flows = Collect (suite_flow env sel opts) \<and> sorted flows \<and> distinct flows)"

lemma suite_result_simps [simp]:
  "\<not> suite_result env sel opts None"
  "suite_result env sel opts (Some (Inl err, w)) \<longleftrightarrow>
     (case selector_error sel opts of Some e \<Rightarrow> err = e | None \<Rightarrow> \<exists>w. fst (DcCheck env w) = Some err)"
  "suite_result env sel opts (Some (Inr flows, w)) \<longleftrightarrow>
     selector_error sel opts = None \<and> set flows = Collect (suite_flow env sel opts) \<and> sorted flows \<and> distinct flows"
  by (simp_all add: suite_result_def)

text \<open>
  C24: On a directory tree of bounded depth the selection of a suite ends, and it either reports the selector's
  own mistake or the end of its context, or returns in ascending order and each once exactly the files under
  the search directories that a pattern accepts (or no pattern is given) and that carry a wanted tag (or none is
  wanted); hidden directories, \<^verbatim>\<open>node_modules\<close>, unreadable directories and other kinds of file contribute
  nothing.
\<close>

theorem resolve_suite_selects:
  assumes depth: "ranked env lv" and fuel: "\<And>dir. dir \<in> set (search_dirs env opts) \<Longrightarrow> lv dir < fuel"
  shows "suite_result env sel opts (resolve_suite env fuel sel opts w)"
proof (cases "selector_error sel opts")
  case None
  show ?thesis
  proof (cases rule: check_cases [of env w])
    case (live w0)
    have "search_gives env {f. \<exists>dir\<in>set (search_dirs env opts). corpus_file env dir f \<and> glob_selects env (SelGlobs sel) dir f}
        (search_roots env fuel (SelGlobs sel) (search_dirs env opts) [] w0)"
      using search_roots_gives [OF depth fuel, where matches = "[]"] by simp
    then show ?thesis
    proof (cases rule: search_gives_cases)
      case (found matches w1)
      show ?thesis
      proof (cases "SelTags sel = []")
        case True
        then have "set (sort (remdups matches)) = Collect (suite_flow env sel opts)" using found(2) by (auto simp: suite_flow_def)
        then show ?thesis using None live found(1) True by (simp add: resolve_suite_def)
      next
        case False
        have "search_gives env {f\<in>set matches. has_any_tag (read_top_level_tags env f) (SelTags sel)}
            (keep_tagged env (SelTags sel) (remdups matches) [] w1)"
          using keep_tagged_gives [of env "[]" "remdups matches"] by simp
        then show ?thesis
        proof (cases rule: search_gives_cases)
          case kept: (found files w2)
          have "set files = Collect (suite_flow env sel opts)"
            using kept(2) found(2) False by (auto simp: suite_flow_def)
          moreover have "distinct files" using keep_tagged_distinct [OF kept(1)] by simp
          ultimately show ?thesis using None live found(1) kept(1) False by (simp add: resolve_suite_def)
        qed (use None live found(1) False in \<open>simp add: resolve_suite_def\<close>)
      qed
    qed (use None live in \<open>simp add: resolve_suite_def\<close>)
  qed (use None in \<open>simp add: resolve_suite_def\<close>)
qed (simp add: resolve_suite_def)

text \<open>A corpus of two scripts, one of them in a folder, beside a hidden folder that holds a third.\<close>

definition sample_corpus :: "nat discovery_env" where
  "sample_corpus =
     \<lparr>DcCheck = \<lambda>w. (None, w + 1),
      DcReadDir = \<lambda>dir.
        (if dir = ''r'' then Some [\<lparr>EnName = ''sub'', EnIsDir = True, EnIsRegular = False\<rparr>,
           \<lparr>EnName = ''.git'', EnIsDir = True, EnIsRegular = False\<rparr>,
           \<lparr>EnName = ''a.yml'', EnIsDir = False, EnIsRegular = True\<rparr>]
         else if dir = ''r/sub'' \<or> dir = ''r/.git'' then Some [\<lparr>EnName = ''b.yaml'', EnIsDir = False, EnIsRegular = True\<rparr>,
           \<lparr>EnName = ''c.txt'', EnIsDir = False, EnIsRegular = True\<rparr>]
         else None),
      DcReadFile = \<lambda>f. Some f,
      DcYaml = \<lambda>raw. Some [(''tags'', AnyArray [AnyString ''smoke''])],
      DcIsAbs = \<lambda>src. True, DcClean = (\<lambda>src. src), DcJoin = \<lambda>a b. a @ ''/'' @ b,
      DcRel = \<lambda>dir f. Some (drop (length dir + 1) f)\<rparr>"

definition sample_depth :: "string \<Rightarrow> nat" where "sample_depth dir = (if dir = ''r'' then 2 else 1)"

lemma sample_corpus_ranked: "ranked sample_corpus sample_depth"
  by (auto simp: ranked_def sample_corpus_def sample_depth_def is_skipped_def split: if_splits)

lemma resolve_suite_selects_witness:
  "suite_result sample_corpus \<lparr>SelTags = [''smoke''], SelGlobs = [''**/*'']\<rparr> \<lparr>DoCwd = ''r'', DoTestRoots = [''r'']\<rparr>
     (resolve_suite sample_corpus 3 \<lparr>SelTags = [''smoke''], SelGlobs = [''**/*'']\<rparr> \<lparr>DoCwd = ''r'', DoTestRoots = [''r'']\<rparr> 0)"
  by (rule resolve_suite_selects [OF sample_corpus_ranked]) (simp add: search_dirs_def resolve_dir_def sample_corpus_def sample_depth_def)

lemma sample_suite:
  "map_option (map_sum id id \<circ> fst)
     (resolve_suite sample_corpus 3 \<lparr>SelTags = [''smoke''], SelGlobs = []\<rparr> \<lparr>DoCwd = ''r'', DoTestRoots = [''r'']\<rparr> 0)
     = Some (Inr [''r/a.yml'', ''r/sub/b.yaml''])"
  by code_simp

end
