(* ===== verification/Config_Validate.thy ===== *)
theory Config_Validate
  imports Wire_Errors Runner_Core "HOL-Library.State_Monad" "HOL-Library.List_Lexorder" "HOL-Library.Char_ord"
begin

text \<open>
  \<^verbatim>\<open>config\<close>: the project configuration, from the decoded document to its typed form (\<^verbatim>\<open>types.go\<close>,
  \<^verbatim>\<open>validate.go\<close>, \<^verbatim>\<open>validate_primitives.go\<close>, \<^verbatim>\<open>validate_entities.go\<close>). The collector of issues is the state
  of a state monad. A Go map is the list of its entries; where the code sorts the keys so does the model.
\<close>

section \<open>Types\<close>

definition PlatformAndroid :: string where "PlatformAndroid = ''android''"
definition PlatformIOS :: string where "PlatformIOS = ''ios''"
definition LaunchModeFresh :: string where "LaunchModeFresh = ''fresh''"
definition LaunchModeAttach :: string where "LaunchModeAttach = ''attach''"
definition PreconditionsSkip :: string where "PreconditionsSkip = ''skip''"
definition PreconditionsForce :: string where "PreconditionsForce = ''force''"
definition ReportFormatHTML :: string where "ReportFormatHTML = ''html''"
definition ReportFormatJSON :: string where "ReportFormatJSON = ''json''"

record config_app =
  CaID :: string
  CaPlatform :: string
  CaAppID :: string
  CaArtifact :: "string option"

record config_environment =
  CnApp :: string
  CnVars :: "(string \<times> string) list option"
  CnDevice :: "string option"
  CnProxy :: "string option"

record launch_policy =
  LpMode :: "string option"
  LpClearData :: "bool option"

record report_config =
  RcFormats :: "string list"
  RcOutDir :: string

record config_suite =
  CsTags :: "string list option"
  CsGlobs :: "string list option"

record atomyx_config =
  CfProject :: string
  CfApps :: "config_app list"
  CfEnvironments :: "(string \<times> config_environment) list"
  CfEnvironmentOrder :: "string list"
  CfLaunch :: "launch_policy option"
  CfPreconditions :: "string option"
  CfReport :: "report_config option"
  CfSuites :: "(string \<times> config_suite) list option"
  CfTestRoots :: "string list option"
  CfDataRoots :: "string list option"

section \<open>Issues\<close>

datatype path_segment = KeySegment string | IndexSegment nat

type_synonym issue_path = "path_segment list"

record validation_issue =
  ViPath :: issue_path
  ViMessage :: string

type_synonym issues = "validation_issue list"
type_synonym 'a collecting = "(issues, 'a) state"
type_synonym object_value = "(string \<times> any_value) list"

definition add_issue :: "issue_path \<Rightarrow> string \<Rightarrow> unit collecting" where
  "add_issue loc msg = State (\<lambda>c. ((), c @ [\<lparr>ViPath = loc, ViMessage = msg\<rparr>]))"

text \<open>A failed check: the issue and no value.\<close>

definition reject :: "issue_path \<Rightarrow> string \<Rightarrow> 'a option collecting" where
  "reject loc msg = do { u \<leftarrow> add_issue loc msg; State_Monad.return None }"

definition with_segment :: "issue_path \<Rightarrow> path_segment \<Rightarrow> issue_path" where
  "with_segment loc segment = loc @ [segment]"

text \<open>A list under the \<^verbatim>\<open>%v\<close> verb.\<close>

definition list_text :: "string list \<Rightarrow> string" where
  "list_text xs = ''['' @ join_with '' '' xs @ '']''"

section \<open>Primitives\<close>

definition check_unknown_keys :: "object_value \<Rightarrow> string list \<Rightarrow> issue_path \<Rightarrow> unit collecting" where
  "check_unknown_keys obj allowed loc =
     (let extra = filter (\<lambda>k. k \<notin> set allowed) (map fst obj) in
      if extra \<noteq> [] then add_issue loc (''unrecognized key(s): '' @ list_text (sort extra)) else State_Monad.return ())"

definition as_object :: "any_value \<Rightarrow> issue_path \<Rightarrow> object_value option collecting" where
  "as_object raw loc = (case raw of AnyMap obj \<Rightarrow> State_Monad.return (Some obj) | _ \<Rightarrow> reject loc ''expected an object'')"

definition check_string :: "nat \<Rightarrow> any_value \<Rightarrow> issue_path \<Rightarrow> string option collecting" where
  "check_string minLen raw loc =
     (case raw of
        AnyString s \<Rightarrow>
          if length s < minLen then reject loc (''string too short, expected at least '' @ utoa minLen @ '' character(s)'')
          else State_Monad.return (Some s)
      | _ \<Rightarrow> reject loc ''expected a string'')"

definition required_string :: "object_value \<Rightarrow> string \<Rightarrow> nat \<Rightarrow> issue_path \<Rightarrow> string option collecting" where
  "required_string obj key minLen loc =
     (case map_of obj key of
        None \<Rightarrow> reject (with_segment loc (KeySegment key)) ''required''
      | Some raw \<Rightarrow> check_string minLen raw (with_segment loc (KeySegment key)))"

text \<open>
  An optional field: \<open>None\<close> a failed check, \<open>Some None\<close> a field that is absent or null. The last argument checks
  the value of the field.
\<close>

definition optional_field ::
  "object_value \<Rightarrow> string \<Rightarrow> issue_path \<Rightarrow> (any_value \<Rightarrow> issue_path \<Rightarrow> 'a option collecting) \<Rightarrow> 'a option option collecting" where
  "optional_field obj key loc check =
     (case map_of obj key of
        None \<Rightarrow> State_Monad.return (Some None)
      | Some NilValue \<Rightarrow> State_Monad.return (Some None)
      | Some raw \<Rightarrow> do { r \<leftarrow> check raw (with_segment loc (KeySegment key)); State_Monad.return (map_option Some r) })"

definition optional_string :: "object_value \<Rightarrow> string \<Rightarrow> nat \<Rightarrow> issue_path \<Rightarrow> string option option collecting" where
  "optional_string obj key minLen loc = optional_field obj key loc (check_string minLen)"

definition check_bool :: "any_value \<Rightarrow> issue_path \<Rightarrow> bool option collecting" where
  "check_bool raw loc = (case raw of AnyBool b \<Rightarrow> State_Monad.return (Some b) | _ \<Rightarrow> reject loc ''expected a boolean'')"

definition optional_bool :: "object_value \<Rightarrow> string \<Rightarrow> issue_path \<Rightarrow> bool option option collecting" where
  "optional_bool obj key loc = optional_field obj key loc check_bool"

text \<open>The loops over the items of a list or the entries of an object: every item is checked, and one that fails fails all.\<close>

primrec validate_each ::
  "('a \<Rightarrow> issue_path \<Rightarrow> 'b option collecting) \<Rightarrow> issue_path \<Rightarrow> (path_segment \<times> 'a) list \<Rightarrow> 'b list option collecting" where
  "validate_each f loc [] = State_Monad.return (Some [])"
| "validate_each f loc (item # rest) = do {
     entry \<leftarrow> f (snd item) (with_segment loc (fst item));
     entries \<leftarrow> validate_each f loc rest;
     State_Monad.return (case (entry, entries) of (Some e, Some es) \<Rightarrow> Some (e # es) | _ \<Rightarrow> None)
   }"

definition index_segments :: "'a list \<Rightarrow> (path_segment \<times> 'a) list" where
  "index_segments xs = zip (map IndexSegment [0..<length xs]) xs"

definition key_segments :: "(string \<times> 'a) list \<Rightarrow> (path_segment \<times> string \<times> 'a) list" where
  "key_segments es = map (\<lambda>e. (KeySegment (fst e), e)) es"

definition check_item :: "nat \<Rightarrow> any_value \<Rightarrow> issue_path \<Rightarrow> string option collecting" where
  "check_item minItemLen item loc =
     (case item of
        AnyString s \<Rightarrow>
          if length s < minItemLen then reject loc ''expected a non-empty string'' else State_Monad.return (Some s)
      | _ \<Rightarrow> reject loc ''expected a non-empty string'')"

definition check_string_array :: "nat \<Rightarrow> any_value \<Rightarrow> issue_path \<Rightarrow> string list option collecting" where
  "check_string_array minItemLen raw loc =
     (case raw of
        AnyArray xs \<Rightarrow> validate_each (check_item minItemLen) loc (index_segments xs)
      | _ \<Rightarrow> reject loc ''expected an array'')"

text \<open>A failed and an absent array are the same \<^verbatim>\<open>nil\<close>.\<close>

definition optional_string_array :: "object_value \<Rightarrow> string \<Rightarrow> nat \<Rightarrow> issue_path \<Rightarrow> string list option collecting" where
  "optional_string_array obj key minItemLen loc =
     do { r \<leftarrow> optional_field obj key loc (check_string_array minItemLen); State_Monad.return (Option.bind r (\<lambda>x. x)) }"

definition check_map_entry :: "string \<times> any_value \<Rightarrow> issue_path \<Rightarrow> (string \<times> string) option collecting" where
  "check_map_entry e loc =
     (case snd e of AnyString s \<Rightarrow> State_Monad.return (Some (fst e, s)) | _ \<Rightarrow> reject loc ''expected a string'')"

definition check_string_map :: "any_value \<Rightarrow> issue_path \<Rightarrow> (string \<times> string) list option collecting" where
  "check_string_map raw loc =
     (case raw of AnyMap src \<Rightarrow> validate_each check_map_entry loc (key_segments src) | _ \<Rightarrow> reject loc ''expected an object'')"

definition optional_string_map :: "object_value \<Rightarrow> string \<Rightarrow> issue_path \<Rightarrow> (string \<times> string) list option option collecting" where
  "optional_string_map obj key loc = optional_field obj key loc check_string_map"

definition check_enum :: "string list \<Rightarrow> any_value \<Rightarrow> issue_path \<Rightarrow> string option collecting" where
  "check_enum values raw loc =
     (case raw of
        AnyString s \<Rightarrow> if s \<in> set values then State_Monad.return (Some s) else reject loc (''expected one of '' @ list_text values)
      | _ \<Rightarrow> reject loc (''expected one of '' @ list_text values))"

definition validate_enum :: "object_value \<Rightarrow> string \<Rightarrow> string list \<Rightarrow> issue_path \<Rightarrow> string option collecting" where
  "validate_enum obj key values loc =
     do { r \<leftarrow> optional_field obj key loc (check_enum values); State_Monad.return (Option.bind r (\<lambda>x. x)) }"

definition validate_enum_required :: "object_value \<Rightarrow> string \<Rightarrow> string list \<Rightarrow> issue_path \<Rightarrow> string option collecting" where
  "validate_enum_required obj key values loc =
     (case map_of obj key of
        None \<Rightarrow> reject (with_segment loc (KeySegment key)) ''required''
      | Some raw \<Rightarrow> check_enum values raw (with_segment loc (KeySegment key)))"

section \<open>Entities\<close>

definition app_entry_keys :: "string list" where "app_entry_keys = [''id'', ''platform'', ''appId'', ''artifact'']"
definition environment_entry_keys :: "string list" where "environment_entry_keys = [''app'', ''vars'', ''device'', ''proxy'']"
definition launch_policy_keys :: "string list" where "launch_policy_keys = [''mode'', ''clearData'']"
definition report_keys :: "string list" where "report_keys = [''formats'', ''outDir'']"
definition suite_entry_keys :: "string list" where "suite_entry_keys = [''tags'', ''globs'']"
definition top_level_keys :: "string list" where
  "top_level_keys = [''project'', ''apps'', ''environments'', ''launch'', ''preconditions'', ''report'', ''suites'', ''testRoots'', ''dataRoots'']"

text \<open>A check of an object: its fields when it is one.\<close>

definition on_object :: "any_value \<Rightarrow> issue_path \<Rightarrow> (object_value \<Rightarrow> 'a option collecting) \<Rightarrow> 'a option collecting" where
  "on_object raw loc body = do { r \<leftarrow> as_object raw loc; (case r of None \<Rightarrow> State_Monad.return None | Some obj \<Rightarrow> body obj) }"

definition validate_app_entry :: "any_value \<Rightarrow> issue_path \<Rightarrow> config_app option collecting" where
  "validate_app_entry raw loc = on_object raw loc (\<lambda>obj. do {
     u \<leftarrow> check_unknown_keys obj app_entry_keys loc;
     rid \<leftarrow> required_string obj ''id'' 1 loc;
     platform \<leftarrow> validate_enum_required obj ''platform'' [PlatformAndroid, PlatformIOS] loc;
     appID \<leftarrow> required_string obj ''appId'' 1 loc;
     artifact \<leftarrow> optional_string obj ''artifact'' 0 loc;
     State_Monad.return (case (rid, platform, appID, artifact) of
       (Some i, Some p, Some a, Some art) \<Rightarrow> Some \<lparr>CaID = i, CaPlatform = p, CaAppID = a, CaArtifact = art\<rparr>
     | _ \<Rightarrow> None)
   })"

definition check_apps :: "any_value \<Rightarrow> issue_path \<Rightarrow> config_app list option collecting" where
  "check_apps raw loc =
     (case raw of
        AnyArray [] \<Rightarrow> reject loc ''apps requires at least one entry''
      | AnyArray (x # xs) \<Rightarrow> validate_each validate_app_entry loc (index_segments (x # xs))
      | _ \<Rightarrow> reject loc ''expected an array'')"

definition validate_apps :: "object_value \<Rightarrow> issue_path \<Rightarrow> config_app list option collecting" where
  "validate_apps obj loc =
     (case map_of obj ''apps'' of
        None \<Rightarrow> reject (with_segment loc (KeySegment ''apps'')) ''required''
      | Some raw \<Rightarrow> check_apps raw (with_segment loc (KeySegment ''apps'')))"

definition validate_environment_entry :: "any_value \<Rightarrow> issue_path \<Rightarrow> config_environment option collecting" where
  "validate_environment_entry raw loc = on_object raw loc (\<lambda>obj. do {
     u \<leftarrow> check_unknown_keys obj environment_entry_keys loc;
     app \<leftarrow> required_string obj ''app'' 1 loc;
     vars \<leftarrow> optional_string_map obj ''vars'' loc;
     device \<leftarrow> optional_string obj ''device'' 1 loc;
     proxy \<leftarrow> optional_string obj ''proxy'' 0 loc;
     State_Monad.return (case (app, vars, device, proxy) of
       (Some a, Some v, Some d, Some p) \<Rightarrow> Some \<lparr>CnApp = a, CnVars = v, CnDevice = d, CnProxy = p\<rparr>
     | _ \<Rightarrow> None)
   })"

text \<open>The entries of an object by ascending name, each with its name.\<close>

definition sorted_entries :: "(string \<times> 'a) list \<Rightarrow> (string \<times> 'a) list" where
  "sorted_entries es = sort_key fst es"

definition named_entry ::
  "(any_value \<Rightarrow> issue_path \<Rightarrow> 'a option collecting) \<Rightarrow> string \<times> any_value \<Rightarrow> issue_path \<Rightarrow> (string \<times> 'a) option collecting" where
  "named_entry f e loc = do { r \<leftarrow> f (snd e) loc; State_Monad.return (map_option (\<lambda>x. (fst e, x)) r) }"

definition check_named ::
  "(any_value \<Rightarrow> issue_path \<Rightarrow> 'a option collecting) \<Rightarrow> any_value \<Rightarrow> issue_path \<Rightarrow> (string \<times> 'a) list option collecting" where
  "check_named f raw loc =
     (case raw of
        AnyMap obj \<Rightarrow> validate_each (named_entry f) loc (key_segments (sorted_entries obj))
      | _ \<Rightarrow> reject loc ''expected an object'')"

definition validate_environments :: "object_value \<Rightarrow> issue_path \<Rightarrow> (string \<times> config_environment) list option collecting" where
  "validate_environments obj loc =
     (case map_of obj ''environments'' of
        None \<Rightarrow> reject (with_segment loc (KeySegment ''environments'')) ''required''
      | Some raw \<Rightarrow> check_named validate_environment_entry raw (with_segment loc (KeySegment ''environments'')))"

definition check_launch_policy :: "any_value \<Rightarrow> issue_path \<Rightarrow> launch_policy option collecting" where
  "check_launch_policy raw loc = on_object raw loc (\<lambda>obj. do {
     u \<leftarrow> check_unknown_keys obj launch_policy_keys loc;
     mode \<leftarrow> validate_enum obj ''mode'' [LaunchModeFresh, LaunchModeAttach] loc;
     clearData \<leftarrow> optional_bool obj ''clearData'' loc;
     State_Monad.return (map_option (\<lambda>cd. \<lparr>LpMode = mode, LpClearData = cd\<rparr>) clearData)
   })"

definition validate_launch_policy :: "object_value \<Rightarrow> issue_path \<Rightarrow> launch_policy option collecting" where
  "validate_launch_policy obj loc =
     do { r \<leftarrow> optional_field obj ''launch'' loc check_launch_policy; State_Monad.return (Option.bind r (\<lambda>x. x)) }"

definition check_format :: "any_value \<Rightarrow> issue_path \<Rightarrow> string option collecting" where
  "check_format item loc =
     (case item of
        AnyString s \<Rightarrow>
          if s \<noteq> ReportFormatHTML \<and> s \<noteq> ReportFormatJSON then reject loc (''expected 'html' or 'json'' @ [CHR 0x27])
          else State_Monad.return (Some s)
      | _ \<Rightarrow> reject loc (''expected 'html' or 'json'' @ [CHR 0x27]))"

definition check_report_formats :: "any_value \<Rightarrow> issue_path \<Rightarrow> string list option collecting" where
  "check_report_formats raw loc =
     (case raw of
        AnyArray [] \<Rightarrow> reject loc ''report.formats requires at least one format''
      | AnyArray (x # xs) \<Rightarrow> validate_each check_format loc (index_segments (x # xs))
      | _ \<Rightarrow> reject loc ''expected an array'')"

definition validate_report_formats :: "object_value \<Rightarrow> issue_path \<Rightarrow> string list option collecting" where
  "validate_report_formats obj loc =
     (case map_of obj ''formats'' of
        None \<Rightarrow> reject (with_segment loc (KeySegment ''formats'')) ''required''
      | Some raw \<Rightarrow> check_report_formats raw (with_segment loc (KeySegment ''formats'')))"

definition check_report :: "any_value \<Rightarrow> issue_path \<Rightarrow> report_config option collecting" where
  "check_report raw loc = on_object raw loc (\<lambda>obj. do {
     u \<leftarrow> check_unknown_keys obj report_keys loc;
     formats \<leftarrow> validate_report_formats obj loc;
     outDir \<leftarrow> required_string obj ''outDir'' 1 loc;
     State_Monad.return (case (formats, outDir) of (Some f, Some d) \<Rightarrow> Some \<lparr>RcFormats = f, RcOutDir = d\<rparr> | _ \<Rightarrow> None)
   })"

definition validate_report :: "object_value \<Rightarrow> issue_path \<Rightarrow> report_config option collecting" where
  "validate_report obj loc =
     do { r \<leftarrow> optional_field obj ''report'' loc check_report; State_Monad.return (Option.bind r (\<lambda>x. x)) }"

text \<open>The length of an array as supplied, and whether the field is something else than an array.\<close>

definition raw_array_presence :: "object_value \<Rightarrow> string \<Rightarrow> nat \<times> bool" where
  "raw_array_presence obj key =
     (case map_of obj key of
        None \<Rightarrow> (0, False)
      | Some NilValue \<Rightarrow> (0, False)
      | Some (AnyArray xs) \<Rightarrow> (length xs, False)
      | Some _ \<Rightarrow> (0, True))"

definition validate_suite_entry :: "any_value \<Rightarrow> issue_path \<Rightarrow> config_suite option collecting" where
  "validate_suite_entry raw loc = on_object raw loc (\<lambda>obj. do {
     u \<leftarrow> check_unknown_keys obj suite_entry_keys loc;
     tags \<leftarrow> optional_string_array obj ''tags'' 1 loc;
     globs \<leftarrow> optional_string_array obj ''globs'' 1 loc;
     (let (tagsLen, tagsAborted) = raw_array_presence obj ''tags'';
          (globsLen, globsAborted) = raw_array_presence obj ''globs'' in
      if tagsAborted \<or> globsAborted then State_Monad.return None
      else if tagsLen = 0 \<and> globsLen = 0 then reject loc ''a suite requires at least one of `tags` or `globs`''
      else State_Monad.return (Some \<lparr>CsTags = tags, CsGlobs = globs\<rparr>))
   })"

definition validate_suites :: "object_value \<Rightarrow> issue_path \<Rightarrow> (string \<times> config_suite) list option collecting" where
  "validate_suites obj loc =
     do { r \<leftarrow> optional_field obj ''suites'' loc (check_named validate_suite_entry); State_Monad.return (Option.bind r (\<lambda>x. x)) }"

definition app_reference_text :: "(nat \<Rightarrow> bool) \<Rightarrow> string \<Rightarrow> string \<Rightarrow> string" where
  "app_reference_text pr nm app = ''environments.'' @ nm @ ''.app references unknown app id '' @ go_quote pr app"

primrec check_references :: "(nat \<Rightarrow> bool) \<Rightarrow> string list \<Rightarrow> issue_path \<Rightarrow> (string \<times> config_environment) list \<Rightarrow> unit collecting" where
  "check_references pr appIDs loc [] = State_Monad.return ()"
| "check_references pr appIDs loc (e # es) = do {
     u \<leftarrow> (if CnApp (snd e) \<notin> set appIDs then
            add_issue (with_segment (with_segment (with_segment loc (KeySegment ''environments'')) (KeySegment (fst e))) (KeySegment ''app''))
              (app_reference_text pr (fst e) (CnApp (snd e)))
          else State_Monad.return ());
     check_references pr appIDs loc es
   }"

definition check_environment_app_references ::
  "(nat \<Rightarrow> bool) \<Rightarrow> config_app list \<Rightarrow> (string \<times> config_environment) list \<Rightarrow> issue_path \<Rightarrow> unit collecting" where
  "check_environment_app_references pr apps environments loc =
     check_references pr (map CaID apps) loc (sorted_entries environments)"

section \<open>The document\<close>

text \<open>The variables of \<^verbatim>\<open>ValidateDocument\<close> after the field checks.\<close>

record config_parts =
  PtProject :: string
  PtApps :: "config_app list option"
  PtEnvironments :: "(string \<times> config_environment) list option"
  PtLaunch :: "launch_policy option"
  PtPreconditions :: "string option"
  PtReport :: "report_config option"
  PtSuites :: "(string \<times> config_suite) list option"
  PtTestRoots :: "string list option"
  PtDataRoots :: "string list option"

definition validate_fields :: "object_value \<Rightarrow> config_parts collecting" where
  "validate_fields obj = do {
     u \<leftarrow> check_unknown_keys obj top_level_keys [];
     project \<leftarrow> required_string obj ''project'' 1 [];
     apps \<leftarrow> validate_apps obj [];
     environments \<leftarrow> validate_environments obj [];
     launch \<leftarrow> validate_launch_policy obj [];
     preconditions \<leftarrow> validate_enum obj ''preconditions'' [PreconditionsSkip, PreconditionsForce] [];
     report \<leftarrow> validate_report obj [];
     suites \<leftarrow> validate_suites obj [];
     testRoots \<leftarrow> optional_string_array obj ''testRoots'' 1 [];
     dataRoots \<leftarrow> optional_string_array obj ''dataRoots'' 1 [];
     State_Monad.return \<lparr>PtProject = (case project of None \<Rightarrow> [] | Some s \<Rightarrow> s), PtApps = apps, PtEnvironments = environments,
       PtLaunch = launch, PtPreconditions = preconditions, PtReport = report, PtSuites = suites, PtTestRoots = testRoots,
       PtDataRoots = dataRoots\<rparr>
   }"

definition build_config :: "config_parts \<Rightarrow> config_app list \<Rightarrow> (string \<times> config_environment) list \<Rightarrow> string list \<Rightarrow> atomyx_config" where
  "build_config pt apps environments order =
     \<lparr>CfProject = PtProject pt, CfApps = apps, CfEnvironments = environments, CfEnvironmentOrder = order, CfLaunch = PtLaunch pt,
       CfPreconditions = PtPreconditions pt, CfReport = PtReport pt, CfSuites = PtSuites pt, CfTestRoots = PtTestRoots pt,
       CfDataRoots = PtDataRoots pt\<rparr>"

text \<open>
  The last step dereferences the applications and the environments when there is no issue: \<open>None\<close> is the panic of
  a \<^verbatim>\<open>nil\<close> pointer there.
\<close>

definition validate_document :: "(nat \<Rightarrow> bool) \<Rightarrow> object_value \<Rightarrow> string list \<Rightarrow> (atomyx_config option \<times> issues) option" where
  "validate_document pr obj order =
     (case run_state (validate_fields obj) [] of
        (pt, c) \<Rightarrow>
          if c \<noteq> [] then Some (None, c)
          else case (PtApps pt, PtEnvironments pt) of
            (Some apps, Some environments) \<Rightarrow>
              (let c' = snd (run_state (check_environment_app_references pr apps environments []) []) in
               if c' \<noteq> [] then Some (None, c') else Some (Some (build_config pt apps environments order), []))
          | _ \<Rightarrow> None)"

section \<open>Decoding\<close>

text \<open>
  \<^verbatim>\<open>yaml_decode.go\<close> over the nodes the YAML library builds, whose parser and whose decoder of a scalar are
  parameters.
\<close>

datatype yaml_kind = MappingNode | SequenceNode | OtherNode

datatype yaml_node = YamlNode (NodeKind: yaml_kind) (NodeValue: string) (NodeContent: "yaml_node list")

record yaml_library =
  YlUnmarshal :: "string \<Rightarrow> yaml_node list option"
  YlString :: "yaml_node \<Rightarrow> string option"
  YlScalar :: "yaml_node \<Rightarrow> any_value option"

definition set_key :: "string \<Rightarrow> any_value \<Rightarrow> object_value \<Rightarrow> object_value" where
  "set_key k v out = filter (\<lambda>e. fst e \<noteq> k) out @ [(k, v)]"

fun decode_node :: "yaml_library \<Rightarrow> yaml_node \<Rightarrow> any_value option"
and decode_pairs :: "yaml_library \<Rightarrow> yaml_node list \<Rightarrow> object_value \<Rightarrow> object_value option"
and decode_items :: "yaml_library \<Rightarrow> yaml_node list \<Rightarrow> any_value list option"
where
  "decode_node lib (YamlNode kind v content) =
     (case kind of
        MappingNode \<Rightarrow> map_option AnyMap (decode_pairs lib content [])
      | SequenceNode \<Rightarrow> map_option AnyArray (decode_items lib content)
      | OtherNode \<Rightarrow> YlScalar lib (YamlNode kind v content))"
| "decode_pairs lib (k # v # rest) out =
     (case YlString lib k of
        None \<Rightarrow> None
      | Some key \<Rightarrow>
          (case decode_node lib v of None \<Rightarrow> None | Some value \<Rightarrow> decode_pairs lib rest (set_key key value out)))"
| "decode_pairs lib _ out = Some out"
| "decode_items lib [] = Some []"
| "decode_items lib (n # ns) =
     (case decode_node lib n of None \<Rightarrow> None | Some value \<Rightarrow> map_option (\<lambda>vs. value # vs) (decode_items lib ns))"

fun every_other :: "'a list \<Rightarrow> 'a list" where
  "every_other (k # v # rest) = k # every_other rest"
| "every_other _ = []"

fun environments_declaration_order :: "yaml_node list \<Rightarrow> string list" where
  "environments_declaration_order (k # v # rest) =
     (if NodeValue k \<noteq> ''environments'' then environments_declaration_order rest
      else if NodeKind v \<noteq> MappingNode then []
      else map NodeValue (every_other (NodeContent v)))"
| "environments_declaration_order _ = []"

definition decode_yaml_document :: "yaml_library \<Rightarrow> string \<Rightarrow> (object_value \<times> string list) option" where
  "decode_yaml_document lib raw =
     (case YlUnmarshal lib raw of
        None \<Rightarrow> None
      | Some [] \<Rightarrow> Some ([], [])
      | Some (rootNode # _) \<Rightarrow>
          if NodeKind rootNode \<noteq> MappingNode then None
          else case decode_node lib rootNode of
            Some (AnyMap decoded) \<Rightarrow> Some (decoded, environments_declaration_order (NodeContent rootNode))
          | _ \<Rightarrow> None)"

definition parse_and_validate :: "(nat \<Rightarrow> bool) \<Rightarrow> yaml_library \<Rightarrow> string \<Rightarrow> (atomyx_config option \<times> issues) option" where
  "parse_and_validate pr lib yamlContent =
     (case decode_yaml_document lib yamlContent of
        None \<Rightarrow> Some (None, [\<lparr>ViPath = [], ViMessage = ''expected a YAML mapping''\<rparr>])
      | Some (obj, order) \<Rightarrow> validate_document pr obj order)"

end
