(* ===== verification/Config_Props.thy ===== *)
theory Config_Props
  imports Config_Validate
begin

text \<open>
  What validation promises: it never dereferences a missing part, it accepts a document only with a configuration
  that obeys every rule, and it accepts every such configuration written out as a document.
\<close>

section \<open>Checks that collect issues\<close>

definition adds :: "'a collecting \<Rightarrow> bool" where
  "adds m \<longleftrightarrow> (\<forall>c. \<exists>d. snd (run_state m c) = c @ d)"

text \<open>A check without a new issue has a result with the property.\<close>

definition checked :: "'a collecting \<Rightarrow> ('a \<Rightarrow> bool) \<Rightarrow> bool" where
  "checked m P \<longleftrightarrow> adds m \<and> (\<forall>c. snd (run_state m c) = c \<longrightarrow> P (fst (run_state m c)))"

named_theorems checks

lemma adds_return [simp]: "adds (State_Monad.return x)"
  by (simp add: adds_def)

lemma adds_issue [simp]: "adds (add_issue loc msg)"
  by (simp add: adds_def add_issue_def)

lemma adds_bind: "adds m \<Longrightarrow> (\<And>x. adds (k x)) \<Longrightarrow> adds (State_Monad.bind m k)"
  unfolding adds_def run_state_bind by (auto split: prod.split) (metis append.assoc snd_conv)

lemma adds_reject [simp]: "adds (reject loc msg)"
  unfolding reject_def by (intro adds_bind) simp_all

lemma checked_adds: "checked m P \<Longrightarrow> adds m"
  by (simp add: checked_def)

lemma checked_return [simp]: "checked (State_Monad.return x) P \<longleftrightarrow> P x"
  by (simp add: checked_def)

lemma checked_issue [simp]: "checked (add_issue loc msg) P"
  by (simp add: checked_def) (simp add: add_issue_def)

lemma checked_reject [simp]: "checked (reject loc msg) P"
  by (simp add: checked_def) (simp add: reject_def add_issue_def)

lemma checked_bind:
  assumes m: "checked m P" and k: "\<And>x. P x \<Longrightarrow> checked (k x) Q" and a: "\<And>x. adds (k x)"
  shows "checked (State_Monad.bind m k) Q"
  unfolding checked_def
proof (intro conjI allI impI)
  show "adds (State_Monad.bind m k)" by (rule adds_bind [OF checked_adds [OF m] a])
  fix c
  assume s: "snd (run_state (State_Monad.bind m k) c) = c"
  obtain x c1 where m1: "run_state m c = (x, c1)" by fastforce
  obtain d where d: "c1 = c @ d" using checked_adds [OF m] m1 unfolding adds_def by (metis snd_conv)
  obtain d' where d': "snd (run_state (k x) c1) = c1 @ d'" using a unfolding adds_def by blast
  have "d = [] \<and> d' = []" using s m1 d d' by simp
  then have run: "run_state m c = (x, c)" and e: "snd (run_state (k x) c) = c" using m1 d d' by auto
  have "snd (run_state m c) = c \<longrightarrow> P (fst (run_state m c))" using m unfolding checked_def by blast
  then have "checked (k x) Q" using k run by simp
  then have "snd (run_state (k x) c) = c \<longrightarrow> Q (fst (run_state (k x) c))" unfolding checked_def by blast
  then show "Q (fst (run_state (State_Monad.bind m k) c))" using run e by simp
qed

lemma checked_weaken: "checked m P \<Longrightarrow> (\<And>x. P x \<Longrightarrow> Q x) \<Longrightarrow> checked m Q"
  by (auto simp: checked_def)

lemma checkedD: "checked m P \<Longrightarrow> run_state m c = (x, c) \<Longrightarrow> P x"
  unfolding checked_def by (metis fst_conv snd_conv)

text \<open>A check that finds nothing wrong.\<close>

definition passes :: "'a collecting \<Rightarrow> 'a \<Rightarrow> bool" where
  "passes m x \<longleftrightarrow> (\<forall>c. run_state m c = (x, c))"

lemma passes_return [simp]: "passes (State_Monad.return x) y \<longleftrightarrow> x = y"
  by (auto simp: passes_def)

lemma passes_bind: "passes m x \<Longrightarrow> passes (k x) y \<Longrightarrow> passes (State_Monad.bind m k) y"
  by (simp add: passes_def)

section \<open>Primitives\<close>

lemma adds_unknown_keys [simp]: "adds (check_unknown_keys obj allowed loc)"
  by (simp add: check_unknown_keys_def Let_def)

lemma passes_unknown_keys: "fst ` set obj \<subseteq> set allowed \<Longrightarrow> passes (check_unknown_keys obj allowed loc) ()"
  by (auto simp: check_unknown_keys_def Let_def filter_empty_conv)

definition gives :: "'a option collecting \<Rightarrow> ('a \<Rightarrow> bool) \<Rightarrow> bool" where
  "gives m P \<longleftrightarrow> checked m (\<lambda>r. \<exists>x. r = Some x \<and> P x)"

lemma gives_return [simp]: "gives (State_Monad.return r) P \<longleftrightarrow> (\<exists>x. r = Some x \<and> P x)"
  by (simp add: gives_def)

lemma gives_reject [simp]: "gives (reject loc msg) P"
  by (simp add: gives_def)

lemma gives_adds: "gives m P \<Longrightarrow> adds m"
  unfolding gives_def by (rule checked_adds)

lemma gives_weaken: "gives m P \<Longrightarrow> (\<And>x. P x \<Longrightarrow> Q x) \<Longrightarrow> gives m Q"
  unfolding gives_def by (erule checked_weaken) blast

lemma check_string_gives: "gives (check_string n raw loc) (\<lambda>s. n \<le> length s)"
  by (auto simp: check_string_def split: any_value.split)

lemma required_string_gives: "gives (required_string obj key n loc) (\<lambda>s. n \<le> length s)"
  by (simp add: required_string_def check_string_gives split: option.split)

lemma optional_field_gives:
  assumes "\<And>raw loc. map_of obj key = Some raw \<Longrightarrow> gives (check raw loc) P"
  shows "gives (optional_field obj key loc check) (pred_option P)"
proof (cases "map_of obj key")
  case (Some raw)
  have "gives (do { r \<leftarrow> check raw (with_segment loc (KeySegment key)); State_Monad.return (map_option Some r) }) (pred_option P)"
    unfolding gives_def by (rule checked_bind [OF assms [OF Some, unfolded gives_def]]) auto
  then show ?thesis using Some by (cases raw) (simp_all add: optional_field_def)
qed (simp add: optional_field_def)

lemma flat_optional_checked:
  assumes "\<And>raw loc. map_of obj key = Some raw \<Longrightarrow> gives (check raw loc) P"
  shows "checked (do { r \<leftarrow> optional_field obj key loc check; State_Monad.return (Option.bind r (\<lambda>x. x)) }) (pred_option P)"
  by (rule checked_bind [OF optional_field_gives [OF assms, unfolded gives_def]]) auto

lemma optional_string_gives: "gives (optional_string obj key n loc) (pred_option (\<lambda>s. n \<le> length s))"
  unfolding optional_string_def by (intro optional_field_gives check_string_gives)

lemma optional_bool_gives: "gives (optional_bool obj key loc) (\<lambda>x. True)"
proof -
  have "gives (optional_bool obj key loc) (pred_option (\<lambda>x. True))"
    unfolding optional_bool_def by (intro optional_field_gives) (simp add: check_bool_def split: any_value.split)
  then show ?thesis unfolding gives_def by (rule checked_weaken) auto
qed

lemma validate_each_gives:
  assumes "\<And>item loc. item \<in> set items \<Longrightarrow> gives (f (snd item) loc) (R (snd item))"
  shows "gives (validate_each f loc items) (list_all2 (\<lambda>item e. R (snd item) e) items)"
  using assms
proof (induction items)
  case (Cons item rest)
  have IH: "gives (validate_each f loc rest) (list_all2 (\<lambda>item e. R (snd item) e) rest)"
    by (rule Cons.IH) (rule Cons.prems, simp)
  have f: "gives (f (snd item) (with_segment loc (fst item))) (R (snd item))" by (rule Cons.prems) simp
  show ?case unfolding gives_def validate_each.simps
  proof (rule checked_bind [OF f [unfolded gives_def]])
    fix r
    show "adds (do { entries \<leftarrow> validate_each f loc rest;
        State_Monad.return (case (r, entries) of (Some e, Some es) \<Rightarrow> Some (e # es) | _ \<Rightarrow> None) })"
      by (rule adds_bind [OF gives_adds [OF IH]]) simp
    assume "\<exists>x. r = Some x \<and> R (snd item) x"
    then show "checked (do { entries \<leftarrow> validate_each f loc rest;
        State_Monad.return (case (r, entries) of (Some e, Some es) \<Rightarrow> Some (e # es) | _ \<Rightarrow> None) })
      (\<lambda>r. \<exists>es. r = Some es \<and> list_all2 (\<lambda>item e. R (snd item) e) (item # rest) es)"
      by (intro checked_bind [OF IH [unfolded gives_def]]) auto
  qed
qed simp

lemma list_all2_right: "list_all2 (\<lambda>x y. P y) xs ys \<longleftrightarrow> length xs = length ys \<and> (\<forall>y\<in>set ys. P y)"
  by (auto simp: list_all2_conv_all_nth all_set_conv_all_nth)

lemma validate_each_all:
  assumes "\<And>raw loc. gives (f raw loc) P"
  shows "gives (validate_each f loc items) (\<lambda>es. length es = length items \<and> (\<forall>e\<in>set es. P e))"
proof -
  have "gives (validate_each f loc items) (list_all2 (\<lambda>item e. P e) items)" by (intro validate_each_gives assms)
  then show ?thesis unfolding gives_def by (rule checked_weaken) (auto simp: list_all2_right)
qed

definition no_empty :: "string list \<Rightarrow> bool" where "no_empty xs \<longleftrightarrow> [] \<notin> set xs"

lemma string_array_gives: "gives (check_string_array 1 raw loc) (\<lambda>ss. no_empty ss \<and> (\<exists>xs. raw = AnyArray xs \<and> length ss = length xs))"
proof (cases raw)
  case (AnyArray xs)
  have "gives (check_item 1 raw loc) (\<lambda>s. s \<noteq> [])" for raw loc
    by (auto simp: check_item_def split: any_value.split)
  then have "gives (validate_each (check_item 1) loc (index_segments xs)) (\<lambda>es. length es = length (index_segments xs) \<and> (\<forall>e\<in>set es. e \<noteq> []))"
    by (intro validate_each_all)
  then show ?thesis unfolding gives_def check_string_array_def AnyArray
    by (simp del: checked_return) (erule checked_weaken, auto simp: no_empty_def index_segments_def)
qed (simp_all add: check_string_array_def)

lemma optional_string_array_checked:
  "checked (optional_string_array obj key 1 loc)
     (\<lambda>r. pred_option no_empty r \<and> \<not> snd (raw_array_presence obj key) \<and>
        (fst (raw_array_presence obj key) \<noteq> 0 \<longrightarrow> (\<exists>x xs. r = Some (x # xs))))"
  (is "checked _ ?Q")
proof (cases "map_of obj key")
  case (Some raw)
  show ?thesis
  proof (cases "raw = NilValue")
    case False
    let ?R = "\<lambda>ss. no_empty ss \<and> (\<exists>xs. raw = AnyArray xs \<and> length ss = length xs)"
    from False have f: "optional_field obj key loc (check_string_array 1) =
        do { r \<leftarrow> check_string_array 1 raw (with_segment loc (KeySegment key)); State_Monad.return (map_option Some r) }"
      using Some by (cases raw) (simp_all add: optional_field_def)
    have "checked (optional_field obj key loc (check_string_array 1)) (\<lambda>r. \<exists>ss. r = Some (Some ss) \<and> ?R ss)"
      unfolding f by (rule checked_bind [OF string_array_gives [unfolded gives_def]]) auto
    then show ?thesis unfolding optional_string_array_def
    proof (rule checked_bind)
      fix r
      assume "\<exists>ss. r = Some (Some ss) \<and> ?R ss"
      then obtain ss xs where r: "r = Some (Some ss)" "no_empty ss" and len: "raw = AnyArray xs" "length ss = length xs" by blast
      have "raw_array_presence obj key = (length xs, False)" using Some len(1) by (simp add: raw_array_presence_def)
      then show "checked (State_Monad.return (Option.bind r (\<lambda>x. x))) ?Q" using r len(2) by (cases ss) simp_all
    qed simp
  qed (simp add: Some optional_string_array_def optional_field_def raw_array_presence_def)
qed (simp add: optional_string_array_def optional_field_def raw_array_presence_def)

lemma string_map_gives:
  "(case raw of AnyMap src \<Rightarrow> distinct (map fst src) | _ \<Rightarrow> True) \<Longrightarrow> gives (check_string_map raw loc) (\<lambda>es. distinct (map fst es))"
proof (cases raw)
  case (AnyMap src)
  assume d: "case raw of AnyMap src \<Rightarrow> distinct (map fst src) | _ \<Rightarrow> True"
  have "gives (check_map_entry e loc) (\<lambda>x. fst x = fst e)" for e loc
    by (auto simp: check_map_entry_def split: any_value.split)
  then have "gives (validate_each check_map_entry loc (key_segments src)) (list_all2 (\<lambda>item x. fst x = fst (snd item)) (key_segments src))"
    by (intro validate_each_gives)
  moreover have "map fst es = map fst src" if "list_all2 (\<lambda>item x. fst x = fst (snd item)) (key_segments src) es" for es :: "(string \<times> string) list"
    using that by (auto simp: key_segments_def list_all2_map1 list_all2_conv_all_nth intro: nth_equalityI)
  ultimately have "gives (validate_each check_map_entry loc (key_segments src)) (\<lambda>es. distinct (map fst es))"
    using d AnyMap by (elim gives_weaken) simp
  then show ?thesis by (simp add: check_string_map_def AnyMap)
qed (simp_all add: check_string_map_def)

lemma check_enum_gives: "gives (check_enum values raw loc) (\<lambda>s. s \<in> set values)"
  by (auto simp: check_enum_def split: any_value.split)

lemma validate_enum_checked: "checked (validate_enum obj key values loc) (pred_option (\<lambda>s. s \<in> set values))"
  unfolding validate_enum_def by (intro flat_optional_checked check_enum_gives)

lemma validate_enum_required_gives: "gives (validate_enum_required obj key values loc) (\<lambda>s. s \<in> set values)"
  by (simp add: validate_enum_required_def check_enum_gives split: option.split)

lemma on_object_gives:
  assumes "\<And>obj. raw = AnyMap obj \<Longrightarrow> gives (body obj) P"
  shows "gives (on_object raw loc body) P"
proof (cases raw)
  case (AnyMap obj)
  then show ?thesis using assms by (simp add: on_object_def as_object_def)
next
qed (simp_all add: on_object_def as_object_def gives_def checked_def reject_def add_issue_def adds_def)

section \<open>Rules of the configuration\<close>

definition app_ok :: "config_app \<Rightarrow> bool" where
  "app_ok a \<longleftrightarrow> CaID a \<noteq> [] \<and> CaPlatform a \<in> {PlatformAndroid, PlatformIOS} \<and> CaAppID a \<noteq> []"

definition environment_ok :: "config_environment \<Rightarrow> bool" where
  "environment_ok e \<longleftrightarrow> CnApp e \<noteq> [] \<and> pred_option (\<lambda>vs. distinct (map fst vs)) (CnVars e) \<and> pred_option (\<lambda>d. d \<noteq> []) (CnDevice e)"

definition launch_ok :: "launch_policy \<Rightarrow> bool" where
  "launch_ok l \<longleftrightarrow> pred_option (\<lambda>s. s \<in> {LaunchModeFresh, LaunchModeAttach}) (LpMode l)"

definition report_ok :: "report_config \<Rightarrow> bool" where
  "report_ok r \<longleftrightarrow> RcFormats r \<noteq> [] \<and> set (RcFormats r) \<subseteq> {ReportFormatHTML, ReportFormatJSON} \<and> RcOutDir r \<noteq> []"

definition suite_ok :: "config_suite \<Rightarrow> bool" where
  "suite_ok s \<longleftrightarrow> pred_option no_empty (CsTags s) \<and> pred_option no_empty (CsGlobs s) \<and>
     ((\<exists>x xs. CsTags s = Some (x # xs)) \<or> (\<exists>x xs. CsGlobs s = Some (x # xs)))"

definition names_ok :: "(string \<times> 'a) list \<Rightarrow> bool" where
  "names_ok es \<longleftrightarrow> sorted (map fst es) \<and> distinct (map fst es)"

definition config_ok :: "atomyx_config \<Rightarrow> bool" where
  "config_ok cf \<longleftrightarrow>
     CfProject cf \<noteq> [] \<and> CfApps cf \<noteq> [] \<and> list_all app_ok (CfApps cf) \<and>
     names_ok (CfEnvironments cf) \<and> list_all (environment_ok \<circ> snd) (CfEnvironments cf) \<and>
     list_all (\<lambda>e. CnApp (snd e) \<in> CaID ` set (CfApps cf)) (CfEnvironments cf) \<and>
     pred_option launch_ok (CfLaunch cf) \<and> pred_option (\<lambda>s. s \<in> {PreconditionsSkip, PreconditionsForce}) (CfPreconditions cf) \<and>
     pred_option report_ok (CfReport cf) \<and>
     pred_option (\<lambda>es. names_ok es \<and> list_all (suite_ok \<circ> snd) es) (CfSuites cf) \<and>
     pred_option no_empty (CfTestRoots cf) \<and> pred_option no_empty (CfDataRoots cf)"

section \<open>Entities\<close>

text \<open>One field after another: the first is checked, the rest under what it promises.\<close>

lemma gives_then:
  assumes "gives m P" and "\<And>x. P x \<Longrightarrow> checked (k (Some x)) Q" and "\<And>r. adds (k r)"
  shows "checked (State_Monad.bind m k) Q"
  by (rule checked_bind [OF assms(1) [unfolded gives_def]]) (use assms(2,3) in auto)

lemma unknown_keys_then:
  assumes "checked (k ()) Q" shows "checked (State_Monad.bind (check_unknown_keys obj allowed loc) k) Q"
  by (rule checked_bind [where P = "\<lambda>x. True"]) (use assms in \<open>auto simp: checked_def\<close>)

lemmas adds_fields =
  adds_bind adds_return adds_unknown_keys gives_adds [OF required_string_gives] gives_adds [OF optional_string_gives]
  gives_adds [OF optional_bool_gives] gives_adds [OF validate_enum_required_gives] checked_adds [OF validate_enum_checked]
  checked_adds [OF optional_string_array_checked]

lemma app_entry_gives: "gives (validate_app_entry raw loc) app_ok"
  unfolding validate_app_entry_def
proof (rule on_object_gives)
  fix obj
  show "gives (do {
     u \<leftarrow> check_unknown_keys obj app_entry_keys loc;
     rid \<leftarrow> required_string obj ''id'' 1 loc;
     platform \<leftarrow> validate_enum_required obj ''platform'' [PlatformAndroid, PlatformIOS] loc;
     appID \<leftarrow> required_string obj ''appId'' 1 loc;
     artifact \<leftarrow> optional_string obj ''artifact'' 0 loc;
     State_Monad.return (case (rid, platform, appID, artifact) of
       (Some i, Some p, Some a, Some art) \<Rightarrow> Some \<lparr>CaID = i, CaPlatform = p, CaAppID = a, CaArtifact = art\<rparr>
     | _ \<Rightarrow> None) }) app_ok"
    unfolding gives_def
    by (intro unknown_keys_then gives_then [OF required_string_gives] gives_then [OF validate_enum_required_gives]
          gives_then [OF optional_string_gives] adds_fields)
      (auto simp: app_ok_def)
qed

lemma apps_gives: "gives (validate_apps obj loc) (\<lambda>as. as \<noteq> [] \<and> list_all app_ok as)"
proof -
  have "gives (validate_each validate_app_entry loc (index_segments (x # xs))) (\<lambda>as. as \<noteq> [] \<and> list_all app_ok as)" for x xs loc
    using validate_each_all [of validate_app_entry app_ok, OF app_entry_gives, of loc "index_segments (x # xs)"] unfolding gives_def
    by (rule checked_weaken) (auto simp: index_segments_def list_all_iff)
  then have "gives (check_apps raw loc) (\<lambda>as. as \<noteq> [] \<and> list_all app_ok as)" for raw loc
    by (simp add: check_apps_def split: any_value.split list.split)
  then show ?thesis by (simp add: validate_apps_def split: option.split)
qed

lemma wf_value_map: "wf_value (AnyMap obj) \<Longrightarrow> map_of obj key = Some raw \<Longrightarrow> wf_value raw"
  by (auto simp: list_all_iff dest: map_of_SomeD)

lemma environment_entry_gives: "wf_value raw \<Longrightarrow> gives (validate_environment_entry raw loc) environment_ok"
  unfolding validate_environment_entry_def
proof (rule on_object_gives)
  fix obj
  assume "wf_value raw" "raw = AnyMap obj"
  then have "gives (check_string_map v l) (\<lambda>es. distinct (map fst es))" if "map_of obj ''vars'' = Some v" for v l
    using wf_value_map [OF _ that] by (intro string_map_gives) (auto split: any_value.split)
  then have vars: "gives (optional_string_map obj ''vars'' loc) (pred_option (\<lambda>es. distinct (map fst es)))"
    unfolding optional_string_map_def by (rule optional_field_gives)
  show "gives (do {
     u \<leftarrow> check_unknown_keys obj environment_entry_keys loc;
     app \<leftarrow> required_string obj ''app'' 1 loc;
     vars \<leftarrow> optional_string_map obj ''vars'' loc;
     device \<leftarrow> optional_string obj ''device'' 1 loc;
     proxy \<leftarrow> optional_string obj ''proxy'' 0 loc;
     State_Monad.return (case (app, vars, device, proxy) of
       (Some a, Some v, Some d, Some p) \<Rightarrow> Some \<lparr>CnApp = a, CnVars = v, CnDevice = d, CnProxy = p\<rparr>
     | _ \<Rightarrow> None) }) environment_ok"
    unfolding gives_def
    by (intro unknown_keys_then gives_then [OF required_string_gives] gives_then [OF vars]
          gives_then [OF optional_string_gives] adds_fields gives_adds [OF vars])
      (auto simp: environment_ok_def elim: option.pred_mono_strong)
qed

lemma keys_of_all2: "list_all2 (\<lambda>item x. fst x = fst (snd item) \<and> Q x) (key_segments es) xs \<Longrightarrow> map fst xs = map fst es \<and> list_all Q xs"
  by (auto simp: key_segments_def list_all2_map1 list_all2_conv_all_nth list_all_length intro: nth_equalityI)

lemma check_named_gives:
  assumes wf: "wf_value raw" and f: "\<And>v loc. wf_value v \<Longrightarrow> gives (f v loc) Q"
  shows "gives (check_named f raw loc) (\<lambda>es. names_ok es \<and> list_all (Q \<circ> snd) es)"
proof (cases raw)
  case (AnyMap obj)
  have e: "gives (named_entry f e l) (\<lambda>x. fst x = fst e \<and> (Q \<circ> snd) x)" if "wf_value (snd e)" for e l
    unfolding gives_def named_entry_def by (rule checked_bind [OF f [OF that, unfolded gives_def]]) auto
  have "gives (validate_each (named_entry f) loc (key_segments (sorted_entries obj)))
      (list_all2 (\<lambda>item x. fst x = fst (snd item) \<and> (Q \<circ> snd) x) (key_segments (sorted_entries obj)))"
    using wf AnyMap by (intro validate_each_gives e) (auto simp: key_segments_def sorted_entries_def list_all_iff)
  then have "gives (validate_each (named_entry f) loc (key_segments (sorted_entries obj)))
      (\<lambda>es. map fst es = map fst (sorted_entries obj) \<and> list_all (Q \<circ> snd) es)"
    unfolding gives_def by (rule checked_weaken) (use keys_of_all2 in blast)
  moreover have "sorted (map fst (sorted_entries obj)) \<and> distinct (map fst (sorted_entries obj))"
    using wf AnyMap by (simp add: sorted_entries_def distinct_map)
  ultimately show ?thesis
    unfolding gives_def check_named_def AnyMap
    by (simp del: checked_return) (erule checked_weaken, auto simp: names_ok_def)
qed (simp_all add: check_named_def)

lemma environments_gives:
  assumes "wf_value (AnyMap obj)"
  shows "gives (validate_environments obj loc) (\<lambda>es. names_ok es \<and> list_all (environment_ok \<circ> snd) es)"
  using check_named_gives [OF wf_value_map [OF assms], of "''environments''" _ validate_environment_entry environment_ok]
  by (auto simp: validate_environments_def environment_entry_gives split: option.split)

lemma launch_policy_checked: "checked (validate_launch_policy obj loc) (pred_option launch_ok)"
  unfolding validate_launch_policy_def
proof (rule flat_optional_checked)
  fix raw l
  show "gives (check_launch_policy raw l) launch_ok" unfolding check_launch_policy_def
  proof (rule on_object_gives)
    fix obj
    show "gives (do {
       u \<leftarrow> check_unknown_keys obj launch_policy_keys l;
       mode \<leftarrow> validate_enum obj ''mode'' [LaunchModeFresh, LaunchModeAttach] l;
       clearData \<leftarrow> optional_bool obj ''clearData'' l;
       State_Monad.return (map_option (\<lambda>cd. \<lparr>LpMode = mode, LpClearData = cd\<rparr>) clearData) }) launch_ok"
      unfolding gives_def
      by (intro unknown_keys_then checked_bind [OF validate_enum_checked] gives_then [OF optional_bool_gives] adds_fields)
        (auto simp: launch_ok_def)
  qed
qed

lemma report_checked: "checked (validate_report obj loc) (pred_option report_ok)"
  unfolding validate_report_def
proof (rule flat_optional_checked)
  fix raw l
  have "gives (check_format x l) (\<lambda>s. s \<in> {ReportFormatHTML, ReportFormatJSON})" for x l
    by (auto simp: check_format_def split: any_value.split)
  then have "gives (validate_each check_format l (index_segments (x # xs)))
      (\<lambda>fs. length fs = length (index_segments (x # xs)) \<and> (\<forall>s\<in>set fs. s \<in> {ReportFormatHTML, ReportFormatJSON}))" for x xs l
    by (rule validate_each_all)
  then have "gives (validate_each check_format l (index_segments (x # xs))) (\<lambda>fs. fs \<noteq> [] \<and> set fs \<subseteq> {ReportFormatHTML, ReportFormatJSON})" for x xs l
    by (rule gives_weaken) (auto simp: index_segments_def)
  then have "gives (check_report_formats v l) (\<lambda>fs. fs \<noteq> [] \<and> set fs \<subseteq> {ReportFormatHTML, ReportFormatJSON})" for v l
    by (simp add: check_report_formats_def split: any_value.split list.split)
  then have formats: "gives (validate_report_formats obj l) (\<lambda>fs. fs \<noteq> [] \<and> set fs \<subseteq> {ReportFormatHTML, ReportFormatJSON})" for obj l
    by (simp add: validate_report_formats_def split: option.split)
  show "gives (check_report raw l) report_ok" unfolding check_report_def
  proof (rule on_object_gives)
    fix obj
    show "gives (do {
       u \<leftarrow> check_unknown_keys obj report_keys l;
       formats \<leftarrow> validate_report_formats obj l;
       outDir \<leftarrow> required_string obj ''outDir'' 1 l;
       State_Monad.return (case (formats, outDir) of (Some f, Some d) \<Rightarrow> Some \<lparr>RcFormats = f, RcOutDir = d\<rparr> | _ \<Rightarrow> None) }) report_ok"
      unfolding gives_def
      by (intro unknown_keys_then gives_then [OF formats] gives_then [OF required_string_gives] adds_fields gives_adds [OF formats])
        (auto simp: report_ok_def)
  qed
qed

lemma suite_entry_gives: "gives (validate_suite_entry raw loc) suite_ok"
  unfolding validate_suite_entry_def
proof (rule on_object_gives)
  fix obj
  let ?rest = "\<lambda>tags globs.
     let (tagsLen, tagsAborted) = raw_array_presence obj ''tags''; (globsLen, globsAborted) = raw_array_presence obj ''globs'' in
     if tagsAborted \<or> globsAborted then State_Monad.return None
     else if tagsLen = 0 \<and> globsLen = 0 then reject loc ''a suite requires at least one of `tags` or `globs`''
     else State_Monad.return (Some \<lparr>CsTags = tags, CsGlobs = globs\<rparr>)"
  have rest: "adds (?rest tags globs)" for tags globs by (simp split: prod.split)
  show "gives (do { u \<leftarrow> check_unknown_keys obj suite_entry_keys loc;
     tags \<leftarrow> optional_string_array obj ''tags'' 1 loc; globs \<leftarrow> optional_string_array obj ''globs'' 1 loc; ?rest tags globs }) suite_ok"
    unfolding gives_def
    by (intro unknown_keys_then checked_bind [OF optional_string_array_checked] adds_bind rest checked_adds [OF optional_string_array_checked])
      (auto simp: suite_ok_def split: prod.split)
qed

lemma suites_checked:
  assumes "wf_value (AnyMap obj)"
  shows "checked (validate_suites obj loc) (pred_option (\<lambda>es. names_ok es \<and> list_all (suite_ok \<circ> snd) es))"
  unfolding validate_suites_def
  by (intro flat_optional_checked check_named_gives) (auto intro: suite_entry_gives wf_value_map [OF assms])

lemma fields_checked:
  assumes "wf_value (AnyMap obj)"
  shows "checked (validate_fields obj) (\<lambda>pt. \<exists>apps envs. PtApps pt = Some apps \<and> PtEnvironments pt = Some envs \<and>
     PtProject pt \<noteq> [] \<and> apps \<noteq> [] \<and> list_all app_ok apps \<and> names_ok envs \<and> list_all (environment_ok \<circ> snd) envs \<and>
     pred_option launch_ok (PtLaunch pt) \<and> pred_option (\<lambda>s. s \<in> {PreconditionsSkip, PreconditionsForce}) (PtPreconditions pt) \<and>
     pred_option report_ok (PtReport pt) \<and> pred_option (\<lambda>es. names_ok es \<and> list_all (suite_ok \<circ> snd) es) (PtSuites pt) \<and>
     pred_option no_empty (PtTestRoots pt) \<and> pred_option no_empty (PtDataRoots pt))"
  unfolding validate_fields_def
  by (intro unknown_keys_then gives_then [OF required_string_gives] gives_then [OF apps_gives]
        gives_then [OF environments_gives [OF assms]] checked_bind [OF launch_policy_checked] checked_bind [OF validate_enum_checked]
        checked_bind [OF report_checked] checked_bind [OF suites_checked [OF assms]] checked_bind [OF optional_string_array_checked]
        adds_fields gives_adds [OF apps_gives] gives_adds [OF environments_gives [OF assms]] checked_adds [OF launch_policy_checked]
        checked_adds [OF report_checked] checked_adds [OF suites_checked [OF assms]])
    auto

lemma references_checked:
  "snd (run_state (check_references pr ids loc es) c) = c \<Longrightarrow> list_all (\<lambda>e. CnApp (snd e) \<in> set ids) es"
proof -
  have "checked (check_references pr ids loc es) (\<lambda>u. list_all (\<lambda>e. CnApp (snd e) \<in> set ids) es)"
  proof (induction es)
    case (Cons e es)
    show ?case unfolding check_references.simps
      by (rule checked_bind [where P = "\<lambda>u. CnApp (snd e) \<in> set ids"])
        (use Cons checked_adds [OF Cons] in \<open>auto elim: checked_weaken\<close>)
  qed simp
  then show "snd (run_state (check_references pr ids loc es) c) = c \<Longrightarrow> list_all (\<lambda>e. CnApp (snd e) \<in> set ids) es"
    unfolding checked_def by blast
qed

text \<open>
  C21: Validation of any document returns: it never dereferences a part that a failed check left out. It returns
  either a configuration and no issue, or issues and no configuration; and a configuration it returns obeys every
  rule, names of environments and suites are unique, and every environment names a declared application.
\<close>

theorem validated_config_ok:
  assumes "wf_value (AnyMap obj)"
  shows "case validate_document pr obj order of
      None \<Rightarrow> False
    | Some (None, issues) \<Rightarrow> issues \<noteq> []
    | Some (Some cf, issues) \<Rightarrow> issues = [] \<and> config_ok cf \<and> CfEnvironmentOrder cf = order"
proof -
  obtain pt c where run: "run_state (validate_fields obj) [] = (pt, c)" by fastforce
  show ?thesis
  proof (cases "c = []")
    case True
    obtain apps envs where parts: "PtApps pt = Some apps" "PtEnvironments pt = Some envs" and ok:
      "PtProject pt \<noteq> []" "apps \<noteq> []" "list_all app_ok apps" "names_ok envs" "list_all (environment_ok \<circ> snd) envs"
      "pred_option launch_ok (PtLaunch pt)" "pred_option (\<lambda>s. s \<in> {PreconditionsSkip, PreconditionsForce}) (PtPreconditions pt)"
      "pred_option report_ok (PtReport pt)" "pred_option (\<lambda>es. names_ok es \<and> list_all (suite_ok \<circ> snd) es) (PtSuites pt)"
      "pred_option no_empty (PtTestRoots pt)" "pred_option no_empty (PtDataRoots pt)"
      using checkedD [OF fields_checked [OF assms] run [unfolded True]] by (elim exE conjE) rule
    define c' where "c' = snd (run_state (check_environment_app_references pr apps envs []) [])"
    have doc: "validate_document pr obj order =
        (if c' \<noteq> [] then Some (None, c') else Some (Some (build_config pt apps envs order), []))"
      by (simp add: validate_document_def run True parts c'_def)
    show ?thesis
    proof (cases "c' = []")
      case True
      then have "list_all (\<lambda>e. CnApp (snd e) \<in> set (map CaID apps)) (sorted_entries envs)"
        unfolding c'_def check_environment_app_references_def by (rule references_checked)
      then have "list_all (\<lambda>e. CnApp (snd e) \<in> CaID ` set apps) envs" by (simp add: list_all_iff sorted_entries_def)
      then have "config_ok (build_config pt apps envs order)" using ok by (simp add: config_ok_def build_config_def)
      then show ?thesis using True by (simp add: doc) (simp add: build_config_def)
    qed (simp add: doc)
  qed (simp add: validate_document_def run)
qed

end
