(* ===== verification/Config_Roundtrip.thy ===== *)
theory Config_Roundtrip
  imports Config_Props
begin

text \<open>
  A configuration written out as a document, and its validation, which gives the configuration back.
\<close>

section \<open>Documents of configurations\<close>

definition opt_entry :: "string \<Rightarrow> ('a \<Rightarrow> any_value) \<Rightarrow> 'a option \<Rightarrow> object_value" where
  "opt_entry k f x = (case x of None \<Rightarrow> [] | Some v \<Rightarrow> [(k, f v)])"

definition strings_value :: "string list \<Rightarrow> any_value" where "strings_value xs = AnyArray (map AnyString xs)"

definition app_value :: "config_app \<Rightarrow> any_value" where
  "app_value a = AnyMap ([(''id'', AnyString (CaID a)), (''platform'', AnyString (CaPlatform a)), (''appId'', AnyString (CaAppID a))] @
     opt_entry ''artifact'' AnyString (CaArtifact a))"

definition vars_value :: "(string \<times> string) list \<Rightarrow> any_value" where
  "vars_value vs = AnyMap (map (\<lambda>v. (fst v, AnyString (snd v))) vs)"

definition environment_value :: "config_environment \<Rightarrow> any_value" where
  "environment_value e = AnyMap ([(''app'', AnyString (CnApp e))] @ opt_entry ''vars'' vars_value (CnVars e) @
     opt_entry ''device'' AnyString (CnDevice e) @ opt_entry ''proxy'' AnyString (CnProxy e))"

definition launch_value :: "launch_policy \<Rightarrow> any_value" where
  "launch_value l = AnyMap (opt_entry ''mode'' AnyString (LpMode l) @ opt_entry ''clearData'' AnyBool (LpClearData l))"

definition report_value :: "report_config \<Rightarrow> any_value" where
  "report_value r = AnyMap [(''formats'', strings_value (RcFormats r)), (''outDir'', AnyString (RcOutDir r))]"

definition suite_value :: "config_suite \<Rightarrow> any_value" where
  "suite_value s = AnyMap (opt_entry ''tags'' strings_value (CsTags s) @ opt_entry ''globs'' strings_value (CsGlobs s))"

definition named_value :: "('a \<Rightarrow> any_value) \<Rightarrow> (string \<times> 'a) list \<Rightarrow> any_value" where
  "named_value f es = AnyMap (map (\<lambda>e. (fst e, f (snd e))) es)"

definition document_of :: "atomyx_config \<Rightarrow> object_value" where
  "document_of cf =
     [(''project'', AnyString (CfProject cf)), (''apps'', AnyArray (map app_value (CfApps cf))),
      (''environments'', named_value environment_value (CfEnvironments cf))] @
     opt_entry ''launch'' launch_value (CfLaunch cf) @ opt_entry ''preconditions'' AnyString (CfPreconditions cf) @
     opt_entry ''report'' report_value (CfReport cf) @ opt_entry ''suites'' (named_value suite_value) (CfSuites cf) @
     opt_entry ''testRoots'' strings_value (CfTestRoots cf) @ opt_entry ''dataRoots'' strings_value (CfDataRoots cf)"

lemma map_of_opt_entry [simp]: "map_of (opt_entry k f x) k' = (if k = k' then map_option f x else None)"
  by (auto simp: opt_entry_def split: option.split)

declare map_of_append [simp del]

lemma map_of_opt_entry_append [simp]:
  "map_of (opt_entry k f x @ rest) k' =
     (if k = k' then (case x of None \<Rightarrow> map_of rest k' | Some v \<Rightarrow> Some (f v)) else map_of rest k')"
  by (cases x) (auto simp: opt_entry_def map_of_append)

lemma entity_not_nil [simp]:
  "launch_value l \<noteq> NilValue" "report_value r \<noteq> NilValue" "named_value g es \<noteq> NilValue" "strings_value xs \<noteq> NilValue"
  by (simp_all add: launch_value_def report_value_def named_value_def strings_value_def)

lemma in_opt_entry [simp]: "(a, b) \<in> set (opt_entry k f x) \<longleftrightarrow> a = k \<and> map_option f x = Some b"
  by (cases x) (auto simp: opt_entry_def)

section \<open>Checks that pass\<close>

lemma passes_each:
  "list_all2 (\<lambda>item x. \<forall>loc. passes (f (snd item) loc) (Some x)) items xs \<Longrightarrow> passes (validate_each f loc items) (Some xs)"
proof (induction items xs rule: list_all2_induct)
  case (Cons item items x xs)
  then show ?case unfolding validate_each.simps by (intro passes_bind [where x = "Some x"] passes_bind [where x = "Some xs"]) simp_all
qed simp

lemma passes_indexed:
  assumes "\<And>x loc. x \<in> set xs \<Longrightarrow> passes (f (g x) loc) (Some x)"
  shows "passes (validate_each f loc (index_segments (map g xs))) (Some xs)"
  using assms by (intro passes_each) (auto simp: index_segments_def list_all2_conv_all_nth)

lemma passes_field:
  assumes "map_of obj key = map_option g x" and "\<And>v loc. x = Some v \<Longrightarrow> passes (check (g v) loc) (Some v)" and "\<And>v. g v \<noteq> NilValue"
  shows "passes (optional_field obj key loc check) (Some x)"
proof (cases x)
  case (Some v)
  have "optional_field obj key loc check =
      do { r \<leftarrow> check (g v) (with_segment loc (KeySegment key)); State_Monad.return (map_option Some r) }"
    using assms(1) assms(3) [of v] by (cases "g v") (simp_all add: optional_field_def Some)
  then show ?thesis using assms(2) [OF Some] Some by (simp add: passes_bind [where x = "Some v"])
qed (use assms(1) in \<open>simp add: optional_field_def\<close>)

lemma passes_flat:
  "passes (optional_field obj key loc check) (Some x) \<Longrightarrow>
   passes (do { r \<leftarrow> optional_field obj key loc check; State_Monad.return (Option.bind r (\<lambda>x. x)) }) x"
  by (rule passes_bind) auto

lemma passes_required_string: "map_of obj key = Some (AnyString s) \<Longrightarrow> n \<le> length s \<Longrightarrow> passes (required_string obj key n loc) (Some s)"
  by (simp add: required_string_def check_string_def)

lemma passes_optional_string:
  assumes "map_of obj key = map_option AnyString x" and "\<And>s. x = Some s \<Longrightarrow> n \<le> length s"
  shows "passes (optional_string obj key n loc) (Some x)"
  unfolding optional_string_def
proof (rule passes_field [OF assms(1)])
  fix s l
  assume "x = Some s"
  then have "n \<le> length s" by (rule assms(2))
  then show "passes (check_string n (AnyString s) l) (Some s)" by (simp add: check_string_def)
qed simp

lemma passes_enum_required:
  "map_of obj key = Some (AnyString s) \<Longrightarrow> s \<in> set values \<Longrightarrow> passes (validate_enum_required obj key values loc) (Some s)"
  by (simp add: validate_enum_required_def check_enum_def)

lemma passes_enum:
  assumes "map_of obj key = map_option AnyString x" and "\<And>s. x = Some s \<Longrightarrow> s \<in> set values"
  shows "passes (validate_enum obj key values loc) x"
  unfolding validate_enum_def by (rule passes_flat, rule passes_field [OF assms(1)]) (auto simp: check_enum_def dest: assms(2))

lemma passes_string_array:
  assumes "map_of obj key = map_option strings_value x" and "pred_option no_empty x"
  shows "passes (optional_string_array obj key 1 loc) x"
  unfolding optional_string_array_def
proof (rule passes_flat, rule passes_field [OF assms(1)])
  fix ss l
  assume "x = Some ss"
  then have "no_empty ss" using assms(2) by simp
  then have "passes (validate_each (check_item 1) l (index_segments (map AnyString ss))) (Some ss)"
    by (intro passes_indexed) (auto simp: check_item_def no_empty_def)
  then show "passes (check_string_array 1 (strings_value ss) l) (Some ss)" by (simp add: check_string_array_def strings_value_def)
qed (simp add: strings_value_def)

lemma passes_object: "passes (body obj) r \<Longrightarrow> passes (on_object (AnyMap obj) loc body) r"
  by (simp add: on_object_def as_object_def)

lemma passes_keys: "fst ` set obj \<subseteq> set allowed \<Longrightarrow> passes (k ()) r \<Longrightarrow> passes (State_Monad.bind (check_unknown_keys obj allowed loc) k) r"
  by (rule passes_bind [OF passes_unknown_keys])

lemma sorted_entries_id: "names_ok es \<Longrightarrow> sorted_entries es = es"
  unfolding names_ok_def sorted_entries_def by (induction es) (simp_all add: insort_is_Cons)

lemma passes_named:
  assumes "names_ok es" and "\<And>e loc. e \<in> set es \<Longrightarrow> passes (f (g (snd e)) loc) (Some (snd e))"
  shows "passes (check_named f (named_value g es) loc) (Some es)"
proof -
  have "sorted_entries (map (\<lambda>e. (fst e, g (snd e))) es) = map (\<lambda>e. (fst e, g (snd e))) es"
    using assms(1) by (intro sorted_entries_id) (simp add: names_ok_def comp_def)
  moreover have "passes (named_entry f (fst e, g (snd e)) loc) (Some e)" if "e \<in> set es" for e loc
    unfolding named_entry_def using assms(2) [OF that] by (intro passes_bind) auto
  then have "passes (validate_each (named_entry f) loc (key_segments (map (\<lambda>e. (fst e, g (snd e))) es))) (Some es)"
    by (intro passes_each) (auto simp: key_segments_def list_all2_conv_all_nth)
  ultimately show ?thesis by (simp add: check_named_def named_value_def)
qed

section \<open>Entities\<close>

lemmas passes_fields =
  passes_object passes_keys passes_bind [OF passes_required_string] passes_bind [OF passes_optional_string]
  passes_bind [OF passes_enum_required] passes_bind [OF passes_enum] passes_bind [OF passes_string_array]

lemma passes_app: "app_ok a \<Longrightarrow> passes (validate_app_entry (app_value a) loc) (Some a)"
  unfolding validate_app_entry_def app_value_def
  by (intro passes_fields) (auto simp: app_ok_def app_entry_keys_def map_add_def Suc_le_eq)

lemma passes_vars:
  "map_of obj ''vars'' = map_option vars_value x \<Longrightarrow> passes (optional_string_map obj ''vars'' loc) (Some x)"
  unfolding optional_string_map_def
proof (rule passes_field [where g = vars_value])
  fix vs l
  have "passes (validate_each check_map_entry l (key_segments (map (\<lambda>v. (fst v, AnyString (snd v))) vs))) (Some vs)"
    by (intro passes_each) (auto simp: key_segments_def check_map_entry_def list_all2_conv_all_nth)
  then show "passes (check_string_map (vars_value vs) l) (Some vs)" by (simp add: check_string_map_def vars_value_def)
qed (simp_all add: vars_value_def)

lemma passes_environment: "environment_ok e \<Longrightarrow> passes (validate_environment_entry (environment_value e) loc) (Some e)"
  unfolding validate_environment_entry_def environment_value_def
  by (intro passes_fields passes_bind [OF passes_vars])
    (auto simp: environment_ok_def environment_entry_keys_def map_add_def Suc_le_eq split: option.split)

lemma passes_bool: "map_of obj key = map_option AnyBool x \<Longrightarrow> passes (optional_bool obj key loc) (Some x)"
  unfolding optional_bool_def by (rule passes_field) (auto simp: check_bool_def)

lemma passes_launch: "launch_ok l \<Longrightarrow> passes (check_launch_policy (launch_value l) loc) (Some l)"
  unfolding check_launch_policy_def launch_value_def
  by (intro passes_fields passes_bind [OF passes_bool])
    (auto simp: launch_ok_def launch_policy_keys_def map_add_def split: option.split)

lemma passes_formats:
  "fs \<noteq> [] \<Longrightarrow> set fs \<subseteq> {ReportFormatHTML, ReportFormatJSON} \<Longrightarrow> map_of obj ''formats'' = Some (strings_value fs) \<Longrightarrow>
   passes (validate_report_formats obj loc) (Some fs)"
proof -
  assume fs: "fs \<noteq> []" "set fs \<subseteq> {ReportFormatHTML, ReportFormatJSON}" and m: "map_of obj ''formats'' = Some (strings_value fs)"
  have "passes (validate_each check_format l (index_segments (map AnyString fs))) (Some fs)" for l
    using fs(2) by (intro passes_indexed) (auto simp: check_format_def)
  then show ?thesis using fs(1) m by (cases fs) (simp_all add: validate_report_formats_def check_report_formats_def strings_value_def)
qed

lemma passes_report: "report_ok r \<Longrightarrow> passes (check_report (report_value r) loc) (Some r)"
  unfolding check_report_def report_value_def
  by (intro passes_fields passes_bind [OF passes_formats]) (auto simp: report_ok_def report_keys_def Suc_le_eq)

lemma passes_suite:
  assumes "suite_ok s" shows "passes (validate_suite_entry (suite_value s) loc) (Some s)"
  unfolding validate_suite_entry_def suite_value_def
proof (intro passes_fields)
  let ?obj = "opt_entry ''tags'' strings_value (CsTags s) @ opt_entry ''globs'' strings_value (CsGlobs s)"
  have "raw_array_presence ?obj ''tags'' = (length (case CsTags s of None \<Rightarrow> [] | Some xs \<Rightarrow> xs), False)"
    "raw_array_presence ?obj ''globs'' = (length (case CsGlobs s of None \<Rightarrow> [] | Some xs \<Rightarrow> xs), False)"
    by (simp_all add: raw_array_presence_def map_add_def strings_value_def split: option.split)
  then show "passes (let (tagsLen, tagsAborted) = raw_array_presence ?obj ''tags''; (globsLen, globsAborted) = raw_array_presence ?obj ''globs'' in
     if tagsAborted \<or> globsAborted then State_Monad.return None
     else if tagsLen = 0 \<and> globsLen = 0 then reject loc ''a suite requires at least one of `tags` or `globs`''
     else State_Monad.return (Some \<lparr>CsTags = CsTags s, CsGlobs = CsGlobs s\<rparr>)) (Some s)"
    using assms by (auto simp: suite_ok_def split: option.split)
qed (use assms in \<open>auto simp: suite_ok_def suite_entry_keys_def map_add_def split: option.split\<close>)

section \<open>The document\<close>

lemma passes_references:
  "list_all (\<lambda>e. CnApp (snd e) \<in> CaID ` set apps) es \<Longrightarrow> passes (check_environment_app_references pr apps es loc) ()"
proof -
  have "list_all (\<lambda>e. CnApp (snd e) \<in> set ids) es \<Longrightarrow> passes (check_references pr ids loc es) ()" for ids es
    by (induction es) (auto intro: passes_bind)
  then show "list_all (\<lambda>e. CnApp (snd e) \<in> CaID ` set apps) es \<Longrightarrow> ?thesis"
    by (simp add: check_environment_app_references_def list_all_iff sorted_entries_def)
qed

text \<open>
  C22: Writing out a configuration that obeys the rules and validating the document gives the configuration back,
  without an issue.
\<close>

theorem config_document_roundtrip:
  assumes "config_ok cf"
  shows "validate_document pr (document_of cf) (CfEnvironmentOrder cf) = Some (Some cf, [])"
proof -
  let ?obj = "document_of cf"
  note ok = assms [unfolded config_ok_def]
  note doc = document_of_def
  have apps: "passes (validate_apps ?obj []) (Some (CfApps cf))"
  proof -
    have "passes (validate_each validate_app_entry loc (index_segments (map app_value (CfApps cf)))) (Some (CfApps cf))" for loc
      using ok by (intro passes_indexed passes_app) (auto simp: list_all_iff)
    then show ?thesis using ok by (cases "CfApps cf") (simp_all add: validate_apps_def check_apps_def doc)
  qed
  have environments: "passes (validate_environments ?obj []) (Some (CfEnvironments cf))"
    using ok passes_named [of "CfEnvironments cf" validate_environment_entry environment_value] passes_environment
    by (simp add: validate_environments_def doc list_all_iff)
  have launch: "passes (validate_launch_policy ?obj []) (CfLaunch cf)" unfolding validate_launch_policy_def
    by (rule passes_flat, rule passes_field [where g = launch_value]) (use ok in \<open>auto simp: doc split: option.split intro: passes_launch\<close>)
  have report: "passes (validate_report ?obj []) (CfReport cf)" unfolding validate_report_def
    by (rule passes_flat, rule passes_field [where g = report_value]) (use ok in \<open>auto simp: doc split: option.split intro: passes_report\<close>)
  have suites: "passes (validate_suites ?obj []) (CfSuites cf)" unfolding validate_suites_def
    by (rule passes_flat, rule passes_field [where g = "named_value suite_value"])
      (use ok in \<open>auto simp: doc list_all_iff split: option.split intro!: passes_named passes_suite\<close>)
  let ?pt = "\<lparr>PtProject = CfProject cf, PtApps = Some (CfApps cf), PtEnvironments = Some (CfEnvironments cf), PtLaunch = CfLaunch cf,
     PtPreconditions = CfPreconditions cf, PtReport = CfReport cf, PtSuites = CfSuites cf, PtTestRoots = CfTestRoots cf,
     PtDataRoots = CfDataRoots cf\<rparr>"
  have keys: "fst ` set ?obj \<subseteq> set top_level_keys" by (auto simp: document_of_def top_level_keys_def)
  have "passes (validate_fields ?obj) ?pt" unfolding validate_fields_def
    by (intro passes_fields keys passes_bind [OF apps] passes_bind [OF environments] passes_bind [OF launch] passes_bind [OF report]
          passes_bind [OF suites])
      (use ok in \<open>auto simp: doc Suc_le_eq split: option.split\<close>)
  moreover have "passes (check_environment_app_references pr (CfApps cf) (CfEnvironments cf) []) ()"
    using ok by (intro passes_references) (auto simp: list_all_iff)
  ultimately show ?thesis
    by (simp add: validate_document_def passes_def build_config_def)
qed

text \<open>A configuration with an application, an environment with a variable, a report and a suite.\<close>

definition sample_config :: atomyx_config where
  "sample_config =
     \<lparr>CfProject = ''p'', CfApps = [\<lparr>CaID = ''a'', CaPlatform = ''ios'', CaAppID = ''dev.a'', CaArtifact = None\<rparr>],
      CfEnvironments = [(''dev'', \<lparr>CnApp = ''a'', CnVars = Some [(''k'', ''v'')], CnDevice = None, CnProxy = Some []\<rparr>)],
      CfEnvironmentOrder = [''dev''], CfLaunch = Some \<lparr>LpMode = Some ''fresh'', LpClearData = Some True\<rparr>, CfPreconditions = None,
      CfReport = Some \<lparr>RcFormats = [''json''], RcOutDir = ''out''\<rparr>,
      CfSuites = Some [(''all'', \<lparr>CsTags = Some [], CsGlobs = Some [''**/*.yml'']\<rparr>)], CfTestRoots = None, CfDataRoots = Some [''d'']\<rparr>"

lemma sample_config_ok: "config_ok sample_config"
  by (simp add: config_ok_def sample_config_def app_ok_def environment_ok_def launch_ok_def report_ok_def suite_ok_def names_ok_def
      no_empty_def PlatformIOS_def LaunchModeFresh_def ReportFormatJSON_def)

lemma config_document_roundtrip_witness:
  "validate_document (\<lambda>r. True) (document_of sample_config) [''dev''] = Some (Some sample_config, [])"
  using config_document_roundtrip [OF sample_config_ok] by (simp add: sample_config_def)

lemma validated_config_ok_witness:
  "case validate_document (\<lambda>r. True) (document_of sample_config) [''dev''] of
      None \<Rightarrow> False
    | Some (None, issues) \<Rightarrow> issues \<noteq> []
    | Some (Some cf, issues) \<Rightarrow> issues = [] \<and> config_ok cf \<and> CfEnvironmentOrder cf = [''dev'']"
  by (rule validated_config_ok)
    (simp add: document_of_def sample_config_def opt_entry_def app_value_def environment_value_def vars_value_def launch_value_def
      report_value_def suite_value_def named_value_def strings_value_def)

end
