(* ===== verification/Config_Load.thy ===== *)
theory Config_Load
  imports Config_Validate
begin

text \<open>
  \<^verbatim>\<open>config\<close>: finding and loading a configuration (\<^verbatim>\<open>discover.go\<close>), the references to environment variables in it
  (\<^verbatim>\<open>envrefs.go\<close>) and the choice of an environment (\<^verbatim>\<open>select.go\<close>). Parameters: files, \<^verbatim>\<open>filepath\<close>, the
  environment of the process, the YAML library and which runes \<^verbatim>\<open>%q\<close> prints.
\<close>

section \<open>References\<close>

definition name_start :: "char \<Rightarrow> bool" where
  "name_start c \<longleftrightarrow> CHR ''A'' \<le> c \<and> c \<le> CHR ''Z'' \<or> CHR ''a'' \<le> c \<and> c \<le> CHR ''z'' \<or> c = CHR ''_''"

definition name_char :: "char \<Rightarrow> bool" where
  "name_char c \<longleftrightarrow> name_start c \<or> CHR ''0'' \<le> c \<and> c \<le> CHR ''9''"

definition env_ref_open :: string where "env_ref_open = ''${ENV:''"

text \<open>A reference at the start of a text: the name and what follows the closing brace.\<close>

definition env_ref :: "string \<Rightarrow> (string \<times> string) option" where
  "env_ref s =
     (if \<not> has_prefix s env_ref_open then None
      else let after = drop (length env_ref_open) s; nm = takeWhile name_char after; rest = dropWhile name_char after in
        (case (nm, rest) of
           (c # _, d # tail_part) \<Rightarrow> if name_start c \<and> d = CHR ''}'' then Some (nm, tail_part) else None
         | _ \<Rightarrow> None))"

lemma env_ref_shorter: "env_ref s = Some (nm, rest) \<Longrightarrow> length rest < length s"
proof -
  assume r: "env_ref s = Some (nm, rest)"
  then have "\<exists>d. dropWhile name_char (drop (length env_ref_open) s) = d # rest"
    by (auto simp: env_ref_def Let_def split: if_splits list.splits)
  then have "length rest < length (dropWhile name_char (drop (length env_ref_open) s))" by auto
  also have "\<dots> \<le> length (drop (length env_ref_open) s)" by (rule length_dropWhile_le)
  also have "\<dots> \<le> length s" by simp
  finally show ?thesis .
qed

text \<open>The text with every reference replaced, or the first variable that is not set.\<close>

function substitute_env :: "(string \<Rightarrow> string option) \<Rightarrow> string \<Rightarrow> string + string" where
  "substitute_env lookup [] = Inr []"
| "substitute_env lookup (c # cs) =
     (case env_ref (c # cs) of
        None \<Rightarrow> map_sum id (\<lambda>r. c # r) (substitute_env lookup cs)
      | Some (nm, rest) \<Rightarrow>
          (case lookup nm of None \<Rightarrow> Inl nm | Some value \<Rightarrow> map_sum id (\<lambda>r. value @ r) (substitute_env lookup rest)))"
  by pat_completeness auto
termination by (relation "measure (\<lambda>(lookup, s). length s)") (auto dest: env_ref_shorter)

definition unset_text :: "(nat \<Rightarrow> bool) \<Rightarrow> string \<Rightarrow> string \<Rightarrow> string \<Rightarrow> string \<Rightarrow> string" where
  "unset_text pr src varName environmentName key =
     src @ '' references environment variable '' @ go_quote pr varName @ '' in environments.'' @ environmentName @ ''.vars.'' @ key @
     '', but it is not set.''"

fun resolve_each_var ::
  "(nat \<Rightarrow> bool) \<Rightarrow> (string \<Rightarrow> string option) \<Rightarrow> string \<Rightarrow> string \<Rightarrow> (string \<times> string) list \<Rightarrow> go_error + (string \<times> string) list" where
  "resolve_each_var pr lookup environmentName src [] = Inr []"
| "resolve_each_var pr lookup environmentName src ((key, value) # vars) =
     (case substitute_env lookup value of
        Inl varName \<Rightarrow> Inl (PlainError (unset_text pr src varName environmentName key))
      | Inr replaced \<Rightarrow> map_sum id (\<lambda>vs. (key, replaced) # vs) (resolve_each_var pr lookup environmentName src vars))"

definition resolve_vars ::
  "(nat \<Rightarrow> bool) \<Rightarrow> (string \<Rightarrow> string option) \<Rightarrow> (string \<times> string) list \<Rightarrow> string \<Rightarrow> string \<Rightarrow> go_error + (string \<times> string) list" where
  "resolve_vars pr lookup vars environmentName src = resolve_each_var pr lookup environmentName src (sorted_entries vars)"

definition resolve_environment ::
  "(nat \<Rightarrow> bool) \<Rightarrow> (string \<Rightarrow> string option) \<Rightarrow> string \<Rightarrow> string \<Rightarrow> config_environment \<Rightarrow> go_error + config_environment" where
  "resolve_environment pr lookup src nm environment =
     (case CnVars environment of
        None \<Rightarrow> Inr environment
      | Some vars \<Rightarrow> map_sum id (\<lambda>resolved. environment\<lparr>CnVars := Some resolved\<rparr>) (resolve_vars pr lookup vars nm src))"

text \<open>The environments in the order the loop over the map takes them, which is any order.\<close>

fun resolve_environments ::
  "(nat \<Rightarrow> bool) \<Rightarrow> (string \<Rightarrow> string option) \<Rightarrow> string \<Rightarrow> (string \<times> config_environment) list \<Rightarrow> go_error + (string \<times> config_environment) list" where
  "resolve_environments pr lookup src [] = Inr []"
| "resolve_environments pr lookup src ((nm, environment) # es) =
     (case resolve_environment pr lookup src nm environment of
        Inl e \<Rightarrow> Inl e
      | Inr environment' \<Rightarrow> map_sum id (\<lambda>r. (nm, environment') # r) (resolve_environments pr lookup src es))"

definition resolve_env_refs :: "(nat \<Rightarrow> bool) \<Rightarrow> (string \<Rightarrow> string option) \<Rightarrow> atomyx_config \<Rightarrow> string \<Rightarrow> go_error + atomyx_config" where
  "resolve_env_refs pr lookup cfg src =
     (if CfEnvironments cfg = [] then Inr cfg
      else map_sum id (\<lambda>es. cfg\<lparr>CfEnvironments := es\<rparr>) (resolve_environments pr lookup src (CfEnvironments cfg)))"

section \<open>Loading\<close>

record loaded_config =
  LdPath :: string
  LdConfig :: atomyx_config

record load_options =
  LoCwd :: string
  LoConfigPath :: string

record load_env =
  LeLookup :: "string \<Rightarrow> string option"
  LePrintable :: "nat \<Rightarrow> bool"
  LeYaml :: yaml_library
  LeReadFile :: "string \<Rightarrow> go_error + string"
  LeNotExist :: "go_error \<Rightarrow> bool"
  LeExists :: "string \<Rightarrow> bool"
  LeIsAbs :: "string \<Rightarrow> bool"
  LeAbs :: "string \<Rightarrow> string option"
  LeJoin :: "string \<Rightarrow> string \<Rightarrow> string"
  LeDir :: "string \<Rightarrow> string"

datatype load_error = LoadFailed go_error | ValidationError string issues

definition segment_text :: "path_segment \<Rightarrow> string" where
  "segment_text segment = (case segment of KeySegment s \<Rightarrow> s | IndexSegment n \<Rightarrow> utoa n)"

definition path_string :: "issue_path \<Rightarrow> string" where
  "path_string loc = (if loc = [] then ''(root)'' else join_with ''.'' (map segment_text loc))"

definition load_error_text :: "(go_error \<Rightarrow> string) \<Rightarrow> load_error \<Rightarrow> string" where
  "load_error_text err e =
     (case e of
        LoadFailed g \<Rightarrow> err g
      | ValidationError src issues \<Rightarrow>
          ''invalid Atomyx config at '' @ src @ '': '' @
          join_with ''; '' (map (\<lambda>i. path_string (ViPath i) @ '': '' @ ViMessage i) issues))"

definition config_file_names :: "string list" where
  "config_file_names = [''atomyx.config.yaml'', ''atomyx.config.yml'']"

definition resolve_abs :: "load_env \<Rightarrow> string \<Rightarrow> string" where
  "resolve_abs env src = (if LeIsAbs env src then src else case LeAbs env src of None \<Rightarrow> src | Some a \<Rightarrow> a)"

definition resolve_config_path :: "load_env \<Rightarrow> string \<Rightarrow> string \<Rightarrow> string" where
  "resolve_config_path env cwd src = (if LeIsAbs env src then src else LeJoin env (resolve_abs env cwd) src)"

text \<open>The directories upwards; the first argument bounds how many. The empty path is none found.\<close>

fun discover_config_path :: "load_env \<Rightarrow> nat \<Rightarrow> string \<Rightarrow> string option" where
  "discover_config_path env 0 dir = None"
| "discover_config_path env (Suc n) dir =
     (case find (LeExists env) (map (LeJoin env dir) config_file_names) of
        Some candidate \<Rightarrow> Some candidate
      | None \<Rightarrow> if LeDir env dir = dir then Some [] else discover_config_path env n (LeDir env dir))"

text \<open>\<open>None\<close>: out of directories, or the panic of validation.\<close>

definition load_from :: "load_env \<Rightarrow> string \<Rightarrow> (load_error + loaded_config option) option" where
  "load_from env src =
     (case LeReadFile env src of
        Inl err \<Rightarrow>
          Some (Inl (LoadFailed (if LeNotExist env err then PlainError (''config file not found: '' @ src)
            else WrapError (''read config file '' @ src @ '': '') err)))
      | Inr raw \<Rightarrow>
          (case parse_and_validate (LePrintable env) (LeYaml env) raw of
             None \<Rightarrow> None
           | Some (cfg, issues) \<Rightarrow>
               if issues \<noteq> [] then Some (Inl (ValidationError src issues))
               else (case cfg of
                       None \<Rightarrow> None
                     | Some c \<Rightarrow>
                         Some (case resolve_env_refs (LePrintable env) (LeLookup env) c src of
                           Inl err \<Rightarrow> Inl (LoadFailed err)
                         | Inr resolved \<Rightarrow> Inr (Some \<lparr>LdPath = src, LdConfig = resolved\<rparr>)))))"

definition load_config :: "load_env \<Rightarrow> nat \<Rightarrow> load_options \<Rightarrow> (load_error + loaded_config option) option" where
  "load_config env fuel opts =
     (if LoConfigPath opts \<noteq> [] then load_from env (resolve_config_path env (LoCwd opts) (LoConfigPath opts))
      else case discover_config_path env fuel (resolve_abs env (LoCwd opts)) of
        None \<Rightarrow> None
      | Some discovered \<Rightarrow> if discovered = [] then Some (Inr None) else load_from env discovered)"

section \<open>Choosing an environment\<close>

record resolved_environment =
  ReName :: string
  ReAppID :: string
  ReVars :: "(string \<times> string) list"
  RePlatform :: string
  ReDeviceID :: "string option"
  ReProxy :: "string option"
  ReArtifact :: "string option"

definition available_environments :: "atomyx_config \<Rightarrow> string" where
  "available_environments cfg =
     (let names = (if length (CfEnvironmentOrder cfg) \<noteq> length (CfEnvironments cfg) then sort (map fst (CfEnvironments cfg))
                   else CfEnvironmentOrder cfg) in
      if names = [] then ''(none)'' else join_with '', '' names)"

definition retired_env_text :: "string \<Rightarrow> string" where
  "retired_env_text nm =
     ''--env now selects a named environment from the project config, '' @
     ''and no longer injects a variable. Use --var '' @ nm @ '' to inject a variable.''"

definition no_config_text :: "(nat \<Rightarrow> bool) \<Rightarrow> string \<Rightarrow> string" where
  "no_config_text pr nm = ''--env '' @ go_quote pr nm @ '' was given, but no atomyx.config.yaml or atomyx.config.yml was found.''"

definition unknown_environment_text :: "(nat \<Rightarrow> bool) \<Rightarrow> loaded_config \<Rightarrow> string \<Rightarrow> string" where
  "unknown_environment_text pr loaded nm =
     ''Environment '' @ go_quote pr nm @ '' not found in '' @ LdPath loaded @ ''. Available environments: '' @
     available_environments (LdConfig loaded) @ ''.''"

definition resolved_of :: "(nat \<Rightarrow> bool) \<Rightarrow> atomyx_config \<Rightarrow> string \<Rightarrow> config_environment \<Rightarrow> go_error + resolved_environment" where
  "resolved_of pr cfg selected environment =
     (case find (\<lambda>a. CaID a = CnApp environment) (CfApps cfg) of
        None \<Rightarrow> Inl (PlainError (app_reference_text pr selected (CnApp environment)))
      | Some app \<Rightarrow>
          Inr \<lparr>ReName = selected, ReAppID = CaAppID app, ReVars = (case CnVars environment of None \<Rightarrow> [] | Some vs \<Rightarrow> vs),
            RePlatform = CaPlatform app, ReDeviceID = CnDevice environment, ReProxy = CnProxy environment,
            ReArtifact = CaArtifact app\<rparr>)"

definition select_environment ::
  "(nat \<Rightarrow> bool) \<Rightarrow> loaded_config option \<Rightarrow> string \<Rightarrow> bool \<Rightarrow> go_error + resolved_environment option" where
  "select_environment pr loaded nm hasName =
     (if hasName \<and> CHR ''='' \<in> set nm then Inl (PlainError (retired_env_text nm))
      else case loaded of
        None \<Rightarrow> if hasName then Inl (PlainError (no_config_text pr nm)) else Inr None
      | Some ld \<Rightarrow>
          if hasName then
            (case map_of (CfEnvironments (LdConfig ld)) nm of
               None \<Rightarrow> Inl (PlainError (unknown_environment_text pr ld nm))
             | Some environment \<Rightarrow> map_sum id Some (resolved_of pr (LdConfig ld) nm environment))
          else (case CfEnvironments (LdConfig ld) of
                  [(only, environment)] \<Rightarrow> map_sum id Some (resolved_of pr (LdConfig ld) only environment)
                | _ \<Rightarrow> Inr None))"

end
