(* ===== verification/Config_Load_Props.thy ===== *)
theory Config_Load_Props
  imports Config_Roundtrip Config_Load
begin

text \<open>
  References to variables are replaced where they stand and nowhere else; and an environment of a configuration
  that was loaded always resolves.
\<close>

section \<open>References\<close>

datatype env_piece = EnvLiteral string | EnvRef string

fun piece_ok :: "env_piece \<Rightarrow> bool" where
  "piece_ok (EnvLiteral s) \<longleftrightarrow> CHR ''$'' \<notin> set s"
| "piece_ok (EnvRef nm) \<longleftrightarrow> (\<exists>c cs. nm = c # cs \<and> name_start c) \<and> list_all name_char nm"

fun piece_text :: "env_piece \<Rightarrow> string" where
  "piece_text (EnvLiteral s) = s"
| "piece_text (EnvRef nm) = env_ref_open @ nm @ ''}''"

fun piece_values :: "(string \<Rightarrow> string option) \<Rightarrow> env_piece list \<Rightarrow> string + string" where
  "piece_values lookup [] = Inr []"
| "piece_values lookup (EnvLiteral s # ps) = map_sum id (\<lambda>r. s @ r) (piece_values lookup ps)"
| "piece_values lookup (EnvRef nm # ps) =
     (case lookup nm of None \<Rightarrow> Inl nm | Some v \<Rightarrow> map_sum id (\<lambda>r. v @ r) (piece_values lookup ps))"

lemma map_sum_append: "map_sum id (\<lambda>r. c # r) (map_sum id (\<lambda>r. s @ r) x) = map_sum id (\<lambda>r. (c # s) @ r) x"
  by (cases x) auto

lemma env_ref_other: "c \<noteq> CHR ''$'' \<Longrightarrow> env_ref (c # cs) = None"
  by (simp add: env_ref_def env_ref_open_def)

lemma substitute_literal: "CHR ''$'' \<notin> set s \<Longrightarrow> substitute_env lookup (s @ r) = map_sum id (\<lambda>r. s @ r) (substitute_env lookup r)"
proof (induction s)
  case Nil
  then show ?case by (cases "substitute_env lookup r") auto
next
  case (Cons c s)
  then have "c \<noteq> CHR ''$''" and s: "CHR ''$'' \<notin> set s" by auto
  then have "substitute_env lookup ((c # s) @ r) = map_sum id (\<lambda>r. c # r) (substitute_env lookup (s @ r))"
    by (simp add: env_ref_other)
  then show ?case by (simp only: Cons.IH [OF s] map_sum_append)
qed

lemma substitute_reference:
  "env_ref s = Some (nm, rest) \<Longrightarrow>
   substitute_env lookup s = (case lookup nm of None \<Rightarrow> Inl nm | Some v \<Rightarrow> map_sum id (\<lambda>r. v @ r) (substitute_env lookup rest))"
  by (cases s) (auto simp: env_ref_def env_ref_open_def)

lemma takeWhile_name: "list_all name_char nm \<Longrightarrow> \<not> name_char d \<Longrightarrow> takeWhile name_char (nm @ d # r) = nm \<and> dropWhile name_char (nm @ d # r) = d # r"
  by (induction nm) auto

lemma env_ref_reference:
  assumes "piece_ok (EnvRef nm)"
  shows "env_ref (env_ref_open @ nm @ CHR ''}'' # r) = Some (nm, r)"
proof -
  have brace: "\<not> name_char (CHR ''}'')" by (simp add: name_char_def name_start_def less_eq_char_def)
  have "has_prefix (env_ref_open @ nm @ CHR ''}'' # r) env_ref_open" by (simp add: has_prefix_iff)
  then show ?thesis using assms takeWhile_name [OF _ brace, of nm r]
    by (auto simp: env_ref_def Let_def)
qed

text \<open>
  In a text of literal parts and references, each reference is replaced by the value of its variable and
  nothing else is changed, the values put in included, which are not searched again; the first variable that is
  not set is the one reported.
\<close>

theorem env_references_replaced:
  assumes "list_all piece_ok ps"
  shows "substitute_env lookup (concat (map piece_text ps)) = piece_values lookup ps"
  using assms
proof (induction ps)
  case (Cons p ps)
  then show ?case
  proof (cases p)
    case (EnvRef nm)
    have e: "env_ref (env_ref_open @ nm @ CHR ''}'' # concat (map piece_text ps)) = Some (nm, concat (map piece_text ps))"
      using Cons.prems EnvRef by (intro env_ref_reference) simp
    then show ?thesis using Cons by (simp add: EnvRef substitute_reference split: option.split)
  qed (simp add: substitute_literal)
qed simp

lemma env_references_replaced_witness:
  "substitute_env (\<lambda>nm. if nm = ''HOST'' then Some ''${ENV:A}'' else None) ''http://${ENV:HOST}/x'' = Inr ''http://${ENV:A}/x''"
  using env_references_replaced [of "[EnvLiteral ''http://'', EnvRef ''HOST'', EnvLiteral ''/x'']" "\<lambda>nm. if nm = ''HOST'' then Some ''${ENV:A}'' else None"]
  by (simp add: env_ref_open_def name_char_def name_start_def less_eq_char_def)

section \<open>Decoded documents\<close>

lemma set_key_distinct: "distinct (map fst out) \<Longrightarrow> distinct (map fst (set_key k v out))"
  by (auto simp: set_key_def distinct_map inj_on_def)

text \<open>What the YAML library decodes a scalar to has no repeated keys; it has no keys at all.\<close>

definition scalars_wf :: "yaml_library \<Rightarrow> bool" where
  "scalars_wf lib \<longleftrightarrow> (\<forall>n v. YlScalar lib n = Some v \<longrightarrow> wf_value v)"

lemma decode_wf:
  shows "decode_node lib n = Some v \<Longrightarrow> scalars_wf lib \<Longrightarrow> wf_value v"
    and "decode_pairs lib ns out = Some out' \<Longrightarrow> scalars_wf lib \<Longrightarrow> distinct (map fst out) \<Longrightarrow> list_all (\<lambda>e. wf_value (snd e)) out \<Longrightarrow>
           distinct (map fst out') \<and> list_all (\<lambda>e. wf_value (snd e)) out'"
    and "decode_items lib ns = Some vs \<Longrightarrow> scalars_wf lib \<Longrightarrow> list_all wf_value vs"
proof (induction lib n and lib ns out and lib ns arbitrary: v and out' and vs rule: decode_node_decode_pairs_decode_items.induct)
  case (1 lib kind v content)
  then show ?case by (cases kind) (auto simp: scalars_wf_def)
next
  case (2 lib k w rest out)
  then show ?case by (auto simp: set_key_distinct split: option.splits) (auto simp: set_key_def list_all_iff)
next
  case (5 lib n ns)
  then show ?case by (auto split: option.splits)
qed auto

lemma parse_and_validate_ok:
  assumes "scalars_wf lib"
  shows "case parse_and_validate pr lib raw of
      None \<Rightarrow> False | Some (None, issues) \<Rightarrow> issues \<noteq> [] | Some (Some cf, issues) \<Rightarrow> issues = [] \<and> config_ok cf"
proof (cases "decode_yaml_document lib raw")
  case (Some d)
  obtain obj order where d: "d = (obj, order)" by fastforce
  have "wf_value (AnyMap obj)"
    using Some decode_wf(1) [OF _ assms, of _ "AnyMap obj"]
    by (auto simp: d decode_yaml_document_def split: option.splits list.splits if_splits any_value.splits)
  then show ?thesis using validated_config_ok [where obj = obj and pr = pr and order = order]
    by (auto simp: parse_and_validate_def Some d split: option.splits)
qed (simp add: parse_and_validate_def)

section \<open>Resolution keeps the rules\<close>

lemma map_sum_Inr_iff: "map_sum id f x = Inr y \<longleftrightarrow> (\<exists>z. x = Inr z \<and> y = f z)"
  by (cases x) auto

lemma resolve_each_var_keys: "resolve_each_var pr lookup nm src vars = Inr vs \<Longrightarrow> map fst vs = map fst vars"
  by (induction pr lookup nm src vars arbitrary: vs rule: resolve_each_var.induct)
    (auto simp: map_sum_Inr_iff split: sum.splits)

lemma resolve_environment_ok:
  assumes "resolve_environment pr lookup src nm e = Inr e'" and "environment_ok e"
  shows "environment_ok e' \<and> CnApp e' = CnApp e"
proof (cases "CnVars e")
  case (Some vars)
  then obtain vs where vs: "resolve_vars pr lookup vars nm src = Inr vs" and e': "e' = e\<lparr>CnVars := Some vs\<rparr>"
    using assms(1) by (auto simp: resolve_environment_def map_sum_Inr_iff)
  have "distinct (map fst (sorted_entries vars))" using assms(2) Some by (simp add: environment_ok_def sorted_entries_def distinct_map)
  then have "distinct (map fst vs)" using resolve_each_var_keys vs unfolding resolve_vars_def by metis
  then show ?thesis using assms(2) e' Some by (simp add: environment_ok_def)
qed (use assms in \<open>simp add: resolve_environment_def\<close>)

lemma resolve_environments_ok:
  "resolve_environments pr lookup src es = Inr es' \<Longrightarrow> list_all (environment_ok \<circ> snd) es \<Longrightarrow>
   map fst es' = map fst es \<and> map (CnApp \<circ> snd) es' = map (CnApp \<circ> snd) es \<and> list_all (environment_ok \<circ> snd) es'"
  by (induction pr lookup src es arbitrary: es' rule: resolve_environments.induct)
    (auto simp: map_sum_Inr_iff split: sum.splits dest: resolve_environment_ok)

lemma resolve_env_refs_ok:
  assumes r: "resolve_env_refs pr lookup cfg src = Inr cfg'" and ok: "config_ok cfg"
  shows "config_ok cfg'"
proof (cases "CfEnvironments cfg = []")
  case False
  then obtain es where es: "resolve_environments pr lookup src (CfEnvironments cfg) = Inr es"
    and cfg': "cfg' = cfg\<lparr>CfEnvironments := es\<rparr>"
    using r by (auto simp: resolve_env_refs_def map_sum_Inr_iff)
  note same = resolve_environments_ok [OF es]
  have "list_all (environment_ok \<circ> snd) (CfEnvironments cfg)" using ok by (simp add: config_ok_def)
  note same = same [OF this]
  have "list_all (\<lambda>a. a \<in> CaID ` set (CfApps cfg)) (map (CnApp \<circ> snd) (CfEnvironments cfg))"
    using ok by (simp add: config_ok_def list_all_iff)
  then have "list_all (\<lambda>a. a \<in> CaID ` set (CfApps cfg)) (map (CnApp \<circ> snd) es)" using same by simp
  then have "list_all (\<lambda>e. CnApp (snd e) \<in> CaID ` set (CfApps cfg)) es" by (simp add: list_all_iff)
  then show ?thesis using ok same cfg' by (simp add: config_ok_def names_ok_def)
qed (use assms in \<open>simp add: resolve_env_refs_def\<close>)

section \<open>Loading and choosing\<close>

lemma load_from_ok:
  assumes "scalars_wf (LeYaml env)"
  shows "case load_from env src of None \<Rightarrow> False | Some (Inl e) \<Rightarrow> True | Some (Inr None) \<Rightarrow> False
     | Some (Inr (Some ld)) \<Rightarrow> LdPath ld = src \<and> config_ok (LdConfig ld)"
proof (cases "LeReadFile env src")
  case (Inr raw)
  obtain r where p: "parse_and_validate (LePrintable env) (LeYaml env) raw = Some r"
    using parse_and_validate_ok [OF assms, of "LePrintable env" raw] by (auto split: option.splits)
  obtain cfg issues where r: "r = (cfg, issues)" by fastforce
  show ?thesis
  proof (cases cfg)
    case None
    then show ?thesis using parse_and_validate_ok [OF assms, of "LePrintable env" raw] Inr p r
      by (simp add: load_from_def)
  next
    case (Some c)
    then have "issues = [] \<and> config_ok c" using parse_and_validate_ok [OF assms, of "LePrintable env" raw] p r by simp
    then show ?thesis using Inr p r Some resolve_env_refs_ok [of "LePrintable env" "LeLookup env" c src]
      by (auto simp: load_from_def split: sum.split)
  qed
qed (simp add: load_from_def)

lemma resolved_of_ok:
  assumes "config_ok cfg" and "(nm, e) \<in> set (CfEnvironments cfg)"
  shows "\<exists>app\<in>set (CfApps cfg). CaID app = CnApp e \<and>
    resolved_of pr cfg nm e = Inr \<lparr>ReName = nm, ReAppID = CaAppID app, ReVars = (case CnVars e of None \<Rightarrow> [] | Some vs \<Rightarrow> vs),
      RePlatform = CaPlatform app, ReDeviceID = CnDevice e, ReProxy = CnProxy e, ReArtifact = CaArtifact app\<rparr>"
proof -
  have "CnApp e \<in> CaID ` set (CfApps cfg)" using assms by (auto simp: config_ok_def list_all_iff)
  then obtain app where "find (\<lambda>a. CaID a = CnApp e) (CfApps cfg) = Some app"
    by (cases "find (\<lambda>a. CaID a = CnApp e) (CfApps cfg)") (auto simp: find_None_iff)
  moreover from this have "app \<in> set (CfApps cfg)" "CaID app = CnApp e" by (auto simp: find_Some_iff)
  ultimately show ?thesis by (auto simp: resolved_of_def)
qed

text \<open>What a choice among the environments of a configuration gives.\<close>

definition choice_ok :: "atomyx_config \<Rightarrow> string \<Rightarrow> bool \<Rightarrow> go_error + resolved_environment option \<Rightarrow> bool" where
  "choice_ok cfg nm hasName r \<longleftrightarrow>
     (case r of
        Inl e \<Rightarrow> hasName \<and> (CHR ''='' \<in> set nm \<or> nm \<notin> fst ` set (CfEnvironments cfg))
      | Inr None \<Rightarrow> \<not> hasName \<and> length (CfEnvironments cfg) \<noteq> 1
      | Inr (Some re) \<Rightarrow>
          (hasName \<and> ReName re = nm \<or> \<not> hasName \<and> length (CfEnvironments cfg) = 1) \<and>
          (\<exists>e app. (ReName re, e) \<in> set (CfEnvironments cfg) \<and> app \<in> set (CfApps cfg) \<and> CaID app = CnApp e \<and>
             ReAppID re = CaAppID app \<and> ReAppID re \<noteq> [] \<and> RePlatform re = CaPlatform app \<and>
             RePlatform re \<in> {PlatformAndroid, PlatformIOS} \<and> ReDeviceID re = CnDevice e \<and> ReProxy re = CnProxy e))"

lemma choice_of_resolved:
  assumes "config_ok cfg" and "(nm', e) \<in> set (CfEnvironments cfg)" and "hasName \<and> nm' = nm \<or> \<not> hasName \<and> length (CfEnvironments cfg) = 1"
  shows "choice_ok cfg nm hasName (map_sum id Some (resolved_of pr cfg nm' e))"
proof -
  obtain app where app: "app \<in> set (CfApps cfg)" "CaID app = CnApp e" and
    r: "resolved_of pr cfg nm' e = Inr \<lparr>ReName = nm', ReAppID = CaAppID app, ReVars = (case CnVars e of None \<Rightarrow> [] | Some vs \<Rightarrow> vs),
      RePlatform = CaPlatform app, ReDeviceID = CnDevice e, ReProxy = CnProxy e, ReArtifact = CaArtifact app\<rparr>"
    using resolved_of_ok [OF assms(1,2)] by blast
  have "app_ok app" using assms(1) app(1) by (simp add: config_ok_def list_all_iff)
  then show ?thesis using assms(2,3) app unfolding choice_ok_def r
    by (auto simp: app_ok_def intro!: exI [of _ e] bexI [of _ app])
qed

lemma select_choice_ok:
  assumes "config_ok (LdConfig ld)"
  shows "choice_ok (LdConfig ld) nm hasName (select_environment pr (Some ld) nm hasName)"
proof (cases hasName)
  case True
  show ?thesis
  proof (cases "map_of (CfEnvironments (LdConfig ld)) nm")
    case None
    then have "nm \<notin> fst ` set (CfEnvironments (LdConfig ld))" by (simp add: map_of_eq_None_iff)
    then show ?thesis using True None by (simp add: select_environment_def choice_ok_def)
  next
    case (Some e)
    then show ?thesis using True choice_of_resolved [OF assms map_of_SomeD [OF Some], of hasName nm pr]
      by (auto simp: select_environment_def) (simp add: choice_ok_def)
  qed
next
  case False
  then show ?thesis using choice_of_resolved [OF assms, of _ _ hasName nm pr]
    by (auto simp: select_environment_def choice_ok_def [of _ _ _ "Inr None"] split: list.split)
qed

text \<open>
  C23: Loading a configuration file that could be found always returns, without the panic of validation; what it
  returns without an error obeys every rule, and whatever environment is asked for, choosing it either reports a
  name that is not declared (or has an equals sign), or finds no default among several, or resolves to a declared
  application with its platform: the last error of the choice, an unknown application, never arises.
\<close>

theorem loaded_environment_resolves:
  assumes "scalars_wf (LeYaml env)"
  shows "load_from env src \<noteq> None \<and> load_from env src \<noteq> Some (Inr None) \<and>
    (\<forall>ld nm hasName pr. load_from env src = Some (Inr (Some ld)) \<longrightarrow>
       config_ok (LdConfig ld) \<and> choice_ok (LdConfig ld) nm hasName (select_environment pr (Some ld) nm hasName))"
  using load_from_ok [OF assms, of src] select_choice_ok by (auto split: option.splits sum.splits)

text \<open>A file of one application and one environment, and a library that takes every scalar for a text.\<close>

definition scalar_node :: "string \<Rightarrow> yaml_node" where "scalar_node s = YamlNode OtherNode s []"

definition sample_node :: yaml_node where
  "sample_node = YamlNode MappingNode []
     [scalar_node ''project'', scalar_node ''p'',
      scalar_node ''apps'', YamlNode SequenceNode [] [YamlNode MappingNode []
        [scalar_node ''id'', scalar_node ''a'', scalar_node ''platform'', scalar_node ''ios'', scalar_node ''appId'', scalar_node ''dev.a'']],
      scalar_node ''environments'', YamlNode MappingNode [] [scalar_node ''dev'', YamlNode MappingNode []
        [scalar_node ''app'', scalar_node ''a'']]]"

definition sample_load_env :: load_env where
  "sample_load_env =
     \<lparr>LeLookup = \<lambda>nm. None, LePrintable = \<lambda>r. True,
      LeYaml = \<lparr>YlUnmarshal = \<lambda>s. Some [sample_node], YlString = \<lambda>n. Some (NodeValue n), YlScalar = \<lambda>n. Some (AnyString (NodeValue n))\<rparr>,
      LeReadFile = \<lambda>f. Inr f, LeNotExist = \<lambda>e. False, LeExists = \<lambda>f. True, LeIsAbs = \<lambda>f. True, LeAbs = Some,
      LeJoin = \<lambda>a b. a @ ''/'' @ b, LeDir = \<lambda>d. d\<rparr>"

definition sample_loaded :: loaded_config where
  "sample_loaded =
     \<lparr>LdPath = ''f'', LdConfig =
       \<lparr>CfProject = ''p'', CfApps = [\<lparr>CaID = ''a'', CaPlatform = ''ios'', CaAppID = ''dev.a'', CaArtifact = None\<rparr>],
        CfEnvironments = [(''dev'', \<lparr>CnApp = ''a'', CnVars = None, CnDevice = None, CnProxy = None\<rparr>)],
        CfEnvironmentOrder = [''dev''], CfLaunch = None, CfPreconditions = None, CfReport = None, CfSuites = None,
        CfTestRoots = None, CfDataRoots = None\<rparr>\<rparr>"

lemma sample_load: "load_from sample_load_env ''f'' = Some (Inr (Some sample_loaded))"
  by code_simp

lemma loaded_environment_resolves_witness:
  "choice_ok (LdConfig sample_loaded) ''dev'' True (select_environment (\<lambda>r. True) (Some sample_loaded) ''dev'' True)"
proof -
  have "scalars_wf (LeYaml sample_load_env)" by (simp add: scalars_wf_def sample_load_env_def)
  from loaded_environment_resolves [OF this, of "''f''"] show ?thesis using sample_load by blast
qed

end
