(* ===== verification/Run_Storage.thy ===== *)
theory Run_Storage
  imports Wire_Errors Runner_Core "HOL-Library.List_Lexorder" "HOL-Library.Char_ord"
begin

text \<open>
  \<^verbatim>\<open>storage\<close>: the test run in flight (\<^verbatim>\<open>runstore.go\<close>), the records kept of it (\<^verbatim>\<open>records.go\<close>) and the two places
  they are kept in (\<^verbatim>\<open>storage.go\<close>, \<^verbatim>\<open>file_storage.go\<close>). Run records are shared by pointer: they live in a store,
  and a pointer is a position in it. Parameters: the clock, the JSON codec, \<^verbatim>\<open>filepath\<close> and the file system.
\<close>

section \<open>Runs\<close>

definition RunStatusRunning :: string where "RunStatusRunning = ''running''"
definition RunStatusPassed :: string where "RunStatusPassed = ''passed''"
definition RunStatusFailed :: string where "RunStatusFailed = ''failed''"
definition RunStatusError :: string where "RunStatusError = ''error''"

record run_bug_report =
  BgID :: string
  BgTitle :: string
  BgDescription :: string
  BgScreenshotPath :: string
  BgTimestamp :: int

record run_record =
  RrID :: string
  RrName :: string
  RrSource :: string
  RrStartedAt :: int
  RrFinishedAt :: "int option"
  RrStatus :: string
  RrActionCount :: int
  RrFindings :: "run_bug_report list"

text \<open>The runs ever started, in order; the one in flight; the number of the next.\<close>

record run_store =
  RsRuns :: "run_record list"
  RsActive :: "nat option"
  RsNextID :: nat

record start_options =
  SoName :: string
  SoSource :: "string option"

record record_bug_options =
  RbTitle :: string
  RbDescription :: string
  RbScreenshotPath :: "string option"

definition new_run_store :: run_store where
  "new_run_store = \<lparr>RsRuns = [], RsActive = None, RsNextID = 1\<rparr>"

type_synonym 'w now_clock = "'w \<Rightarrow> int \<times> 'w"

definition active_run :: "run_store \<Rightarrow> run_record option" where
  "active_run s = map_option (\<lambda>i. RsRuns s ! i) (RsActive s)"

definition update_run :: "nat \<Rightarrow> (run_record \<Rightarrow> run_record) \<Rightarrow> run_store \<Rightarrow> run_store" where
  "update_run i f s = s\<lparr>RsRuns := (RsRuns s)[i := f (RsRuns s ! i)]\<rparr>"

definition run_id :: "int \<Rightarrow> nat \<Rightarrow> string" where
  "run_id startedAt n = ''run-'' @ itoa startedAt @ ''-'' @ utoa n"

text \<open>The run that was in flight is marked as ended by an error.\<close>

definition error_predecessor :: "'w now_clock \<Rightarrow> run_store \<times> 'w \<Rightarrow> nat option \<times> run_store \<times> 'w" where
  "error_predecessor clk sw =
     (case RsActive (fst sw) of
        None \<Rightarrow> (None, sw)
      | Some i \<Rightarrow>
          if RrStatus (RsRuns (fst sw) ! i) = RunStatusRunning then
            (case clk (snd sw) of
               (finishedAt, w1) \<Rightarrow>
                 (Some i, update_run i (\<lambda>r. r\<lparr>RrStatus := RunStatusError, RrFinishedAt := Some finishedAt\<rparr>) (fst sw), w1))
          else (None, sw))"

definition add_run :: "run_record \<Rightarrow> run_store \<Rightarrow> nat \<times> run_store" where
  "add_run r s = (length (RsRuns s), s\<lparr>RsRuns := RsRuns s @ [r], RsActive := Some (length (RsRuns s)), RsNextID := RsNextID s + 1\<rparr>)"

definition start_run :: "'w now_clock \<Rightarrow> start_options \<Rightarrow> run_store \<times> 'w \<Rightarrow> (nat \<times> nat option) \<times> run_store \<times> 'w" where
  "start_run clk opts sw =
     (case error_predecessor clk sw of
        (pred, s1, w1) \<Rightarrow>
          (case clk w1 of
             (startedAt, w2) \<Rightarrow>
               (case add_run \<lparr>RrID = run_id startedAt (RsNextID s1), RrName = SoName opts,
                    RrSource = (case SoSource opts of None \<Rightarrow> ''unknown'' | Some src \<Rightarrow> src), RrStartedAt = startedAt,
                    RrFinishedAt = None, RrStatus = RunStatusRunning, RrActionCount = 0, RrFindings = []\<rparr> s1 of
                  (i, s2) \<Rightarrow> ((i, pred), s2, w2))))"

definition finish_run :: "'w now_clock \<Rightarrow> string \<Rightarrow> run_store \<times> 'w \<Rightarrow> nat option \<times> run_store \<times> 'w" where
  "finish_run clk status sw =
     (case RsActive (fst sw) of
        None \<Rightarrow> (None, sw)
      | Some i \<Rightarrow>
          (case clk (snd sw) of
             (finishedAt, w1) \<Rightarrow>
               (Some i,
                (update_run i (\<lambda>r. r\<lparr>RrStatus := (if status = [] then RunStatusPassed else status), RrFinishedAt := Some finishedAt\<rparr>)
                   (fst sw))\<lparr>RsActive := None\<rparr>, w1)))"

definition increment_actions :: "run_store \<Rightarrow> run_store" where
  "increment_actions s =
     (case RsActive s of None \<Rightarrow> s | Some i \<Rightarrow> update_run i (\<lambda>r. r\<lparr>RrActionCount := RrActionCount r + 1\<rparr>) s)"

definition no_active_run :: go_error where
  "no_active_run = PlainError ''storage: recordBug: no active run; call Start before RecordBug''"

definition bug_id :: "run_record \<Rightarrow> string" where
  "bug_id r = RrID r @ ''-bug-'' @ utoa (length (RrFindings r) + 1)"

definition record_bug ::
  "'w now_clock \<Rightarrow> record_bug_options \<Rightarrow> run_store \<times> 'w \<Rightarrow> (go_error + run_bug_report) \<times> run_store \<times> 'w" where
  "record_bug clk opts sw =
     (case RsActive (fst sw) of
        None \<Rightarrow> (Inl no_active_run, sw)
      | Some i \<Rightarrow>
          (case clk (snd sw) of
             (now, w1) \<Rightarrow>
               let bug = \<lparr>BgID = bug_id (RsRuns (fst sw) ! i), BgTitle = RbTitle opts, BgDescription = RbDescription opts,
                     BgScreenshotPath = (case RbScreenshotPath opts of None \<Rightarrow> [] | Some p \<Rightarrow> p), BgTimestamp = now\<rparr> in
               (Inr bug, update_run i (\<lambda>r. r\<lparr>RrFindings := RrFindings r @ [bug]\<rparr>) (fst sw), w1)))"

section \<open>Records\<close>

definition run_key_prefix :: string where "run_key_prefix = ''runs/''"
definition bug_key_prefix :: string where "bug_key_prefix = ''bugs/''"
definition run_key :: "string \<Rightarrow> string" where "run_key rid = run_key_prefix @ rid"
definition bug_key :: "string \<Rightarrow> string" where "bug_key rid = bug_key_prefix @ rid"

record persisted_run = run_record +
  PrDurationMs :: int
  PrSummary :: "string option"

definition new_persisted_run :: "run_record \<Rightarrow> string option \<Rightarrow> int \<Rightarrow> persisted_run" where
  "new_persisted_run r summary finishedAtFallback =
     (let finishedAt = (case RrFinishedAt r of None \<Rightarrow> finishedAtFallback | Some t \<Rightarrow> t) in
      run_record.extend r (persisted_run.fields (finishedAt - RrStartedAt r) summary))"

section \<open>Storage\<close>

text \<open>A value to store: a text, or anything else with its JSON. A target to load into: a text or anything else.\<close>

datatype 'd stored_data = TextData string | OtherData 'd
datatype load_target = IntoString | IntoOther

record 'd json_codec =
  CdMarshal :: "'d stored_data \<Rightarrow> go_error + string"
  CdMarshalIndent :: "'d \<Rightarrow> go_error + string"
  CdUnmarshal :: "load_target \<Rightarrow> string \<Rightarrow> go_error + 'd stored_data"

type_synonym memory_storage = "(string \<times> string) list"

definition memory_save :: "'d json_codec \<Rightarrow> string \<Rightarrow> 'd stored_data \<Rightarrow> memory_storage \<Rightarrow> go_error option \<times> memory_storage" where
  "memory_save cd key data store =
     (case CdMarshal cd data of
        Inl e \<Rightarrow> (Some e, store)
      | Inr raw \<Rightarrow> (None, (key, raw) # filter (\<lambda>e. fst e \<noteq> key) store))"

definition memory_load :: "'d json_codec \<Rightarrow> string \<Rightarrow> load_target \<Rightarrow> memory_storage \<Rightarrow> go_error + 'd stored_data option" where
  "memory_load cd key out store =
     (case map_of store key of None \<Rightarrow> Inr None | Some raw \<Rightarrow> map_sum id Some (CdUnmarshal cd out raw))"

definition memory_list :: "string \<Rightarrow> memory_storage \<Rightarrow> string list" where
  "memory_list pre store = sort (filter (\<lambda>k. pre = [] \<or> has_prefix k pre) (map fst store))"

definition memory_delete :: "string \<Rightarrow> memory_storage \<Rightarrow> memory_storage" where
  "memory_delete key store = filter (\<lambda>e. fst e \<noteq> key) store"

section \<open>Files\<close>

record 'w file_system =
  FsMkdirAll :: "string \<Rightarrow> 'w \<Rightarrow> go_error option \<times> 'w"
  FsStat :: "string \<Rightarrow> 'w \<Rightarrow> go_error + nat"
  FsNotExist :: "go_error \<Rightarrow> bool"
  FsCreateTemp :: "string \<Rightarrow> string \<Rightarrow> 'w \<Rightarrow> (go_error + string) \<times> 'w"
  FsWrite :: "string \<Rightarrow> string \<Rightarrow> 'w \<Rightarrow> go_error option \<times> 'w"
  FsClose :: "string \<Rightarrow> 'w \<Rightarrow> go_error option \<times> 'w"
  FsChmod :: "string \<Rightarrow> nat \<Rightarrow> 'w \<Rightarrow> go_error option \<times> 'w"
  FsRename :: "string \<Rightarrow> string \<Rightarrow> 'w \<Rightarrow> go_error option \<times> 'w"
  FsRemove :: "string \<Rightarrow> 'w \<Rightarrow> go_error option \<times> 'w"
  FsReadFile :: "string \<Rightarrow> 'w \<Rightarrow> go_error + string"
  FsWalk :: "string \<Rightarrow> 'w \<Rightarrow> go_error + (string \<times> bool) list"
  FsJoin :: "string \<Rightarrow> string \<Rightarrow> string"
  FsDir :: "string \<Rightarrow> string"
  FsBase :: "string \<Rightarrow> string"
  FsExt :: "string \<Rightarrow> string"
  FsRel :: "string \<Rightarrow> string \<Rightarrow> go_error + string"
  FsPrintable :: "nat \<Rightarrow> bool"

definition file_mode_file :: nat where "file_mode_file = 420"

text \<open>\<^verbatim>\<open>strings.ReplaceAll(key, "..", "_")\<close>.\<close>

fun neutralize_dots :: "string \<Rightarrow> string" where
  "neutralize_dots (a # b # r) =
     (if a = CHR ''.'' \<and> b = CHR ''.'' then CHR ''_'' # neutralize_dots r else a # neutralize_dots (b # r))"
| "neutralize_dots s = s"

definition path_for :: "'w file_system \<Rightarrow> string \<Rightarrow> string \<Rightarrow> string \<Rightarrow> string" where
  "path_for fs base key ext = FsJoin fs base (neutralize_dots key @ ''.'' @ ext)"

definition storage_root :: "(string \<Rightarrow> string \<Rightarrow> string) \<Rightarrow> string \<Rightarrow> string \<Rightarrow> go_error + string \<Rightarrow> go_error + string" where
  "storage_root join opt fromEnv home =
     (if opt \<noteq> [] then Inr opt
      else if fromEnv \<noteq> [] then Inr fromEnv
      else case home of
        Inl e \<Rightarrow> Inl (WrapError ''storage: resolving home directory: '' e)
      | Inr h \<Rightarrow> Inr (join h ''.atomyx''))"

text \<open>From an open temporary file to the file in its place.\<close>

definition put_in_place :: "'w file_system \<Rightarrow> string \<Rightarrow> string \<Rightarrow> string \<Rightarrow> nat \<Rightarrow> 'w \<Rightarrow> go_error option \<times> 'w" where
  "put_in_place fs tmp loc body perm w =
     (case FsWrite fs tmp body w of
        (Some e, w1) \<Rightarrow> (Some e, snd (FsClose fs tmp w1))
      | (None, w1) \<Rightarrow>
          (case FsClose fs tmp w1 of
             (Some e, w2) \<Rightarrow> (Some e, w2)
           | (None, w2) \<Rightarrow>
               (case FsChmod fs tmp perm w2 of
                  (Some e, w3) \<Rightarrow> (Some e, w3)
                | (None, w3) \<Rightarrow> FsRename fs tmp loc w3)))"

definition write_file_atomic :: "'w file_system \<Rightarrow> string \<Rightarrow> string \<Rightarrow> 'w \<Rightarrow> go_error option \<times> 'w" where
  "write_file_atomic fs loc body w =
     (case (case FsStat fs loc w of
              Inr perm \<Rightarrow> Inr perm
            | Inl e \<Rightarrow> if FsNotExist fs e then Inr file_mode_file else Inl e) of
        Inl e \<Rightarrow> (Some e, w)
      | Inr perm \<Rightarrow>
          (case FsCreateTemp fs (FsDir fs loc) (FsBase fs loc @ ''.*.tmp'') w of
             (Inl e, w1) \<Rightarrow> (Some e, w1)
           | (Inr tmp, w1) \<Rightarrow>
               (case put_in_place fs tmp loc body perm w1 of (err, w2) \<Rightarrow> (err, snd (FsRemove fs tmp w2)))))"

definition write_under :: "'w file_system \<Rightarrow> string \<Rightarrow> string \<Rightarrow> 'w \<Rightarrow> go_error option \<times> 'w" where
  "write_under fs loc body w =
     (case FsMkdirAll fs (FsDir fs loc) w of
        (Some e, w1) \<Rightarrow> (Some e, w1)
      | (None, w1) \<Rightarrow> write_file_atomic fs loc body w1)"

definition file_save ::
  "'w file_system \<Rightarrow> 'd json_codec \<Rightarrow> string \<Rightarrow> string \<Rightarrow> 'd stored_data \<Rightarrow> 'w \<Rightarrow> go_error option \<times> 'w" where
  "file_save fs cd base key data w =
     (case data of
        TextData s \<Rightarrow> write_under fs (path_for fs base key ''md'') s w
      | OtherData d \<Rightarrow>
          (case CdMarshalIndent cd d of
             Inl e \<Rightarrow> (Some e, w)
           | Inr body \<Rightarrow> write_under fs (path_for fs base key ''json'') body w))"

definition not_text_error :: "'w file_system \<Rightarrow> string \<Rightarrow> go_error" where
  "not_text_error fs key =
     PlainError (''storage: load '' @ go_quote (FsPrintable fs) key @ '': record is text, out must be *string'')"

definition load_text :: "'w file_system \<Rightarrow> string \<Rightarrow> string \<Rightarrow> load_target \<Rightarrow> 'w \<Rightarrow> go_error + 'd stored_data option" where
  "load_text fs base key out w =
     (case FsReadFile fs (path_for fs base key ''md'') w of
        Inl e \<Rightarrow> if FsNotExist fs e then Inr None else Inl e
      | Inr body \<Rightarrow> if out = IntoString then Inr (Some (TextData body)) else Inl (not_text_error fs key))"

definition file_load ::
  "'w file_system \<Rightarrow> 'd json_codec \<Rightarrow> string \<Rightarrow> string \<Rightarrow> load_target \<Rightarrow> 'w \<Rightarrow> go_error + 'd stored_data option" where
  "file_load fs cd base key out w =
     (case FsReadFile fs (path_for fs base key ''json'') w of
        Inl e \<Rightarrow> if FsNotExist fs e then load_text fs base key out w else Inl e
      | Inr body \<Rightarrow> map_sum id Some (CdUnmarshal cd out body))"

definition trim_ext :: "'w file_system \<Rightarrow> string \<Rightarrow> string" where
  "trim_ext fs rel = take (length rel - length (FsExt fs rel)) rel"

fun relative_keys :: "'w file_system \<Rightarrow> string \<Rightarrow> string list \<Rightarrow> go_error + string list" where
  "relative_keys fs base [] = Inr []"
| "relative_keys fs base (m # ms) =
     (case FsRel fs base m of
        Inl e \<Rightarrow> Inl e
      | Inr rel \<Rightarrow> map_sum id (\<lambda>ks. trim_ext fs rel # ks) (relative_keys fs base ms))"

definition file_list :: "'w file_system \<Rightarrow> string \<Rightarrow> string \<Rightarrow> 'w \<Rightarrow> go_error + string list" where
  "file_list fs root_dir pre w =
     (let base = (if pre = [] then root_dir else FsJoin fs root_dir pre) in
      case FsStat fs base w of
        Inl e \<Rightarrow> if FsNotExist fs e then Inr [] else Inl e
      | Inr _ \<Rightarrow>
          (case FsWalk fs base w of
             Inl e \<Rightarrow> Inl e
           | Inr entries \<Rightarrow>
               map_sum id sort (relative_keys fs root_dir
                 (map fst (filter (\<lambda>e. \<not> snd e \<and> FsExt fs (fst e) \<in> {''.json'', ''.md''}) entries)))))"

definition remove_record :: "'w file_system \<Rightarrow> string \<Rightarrow> 'w \<Rightarrow> go_error option \<times> 'w" where
  "remove_record fs loc w =
     (case FsRemove fs loc w of
        (Some e, w1) \<Rightarrow> if FsNotExist fs e then (None, w1) else (Some e, w1)
      | (None, w1) \<Rightarrow> (None, w1))"

definition file_delete :: "'w file_system \<Rightarrow> string \<Rightarrow> string \<Rightarrow> 'w \<Rightarrow> go_error option \<times> 'w" where
  "file_delete fs base key w =
     (case remove_record fs (path_for fs base key ''json'') w of
        (Some e, w1) \<Rightarrow> (Some e, w1)
      | (None, w1) \<Rightarrow> remove_record fs (path_for fs base key ''md'') w1)"

end
