(* ===== verification/Run_Storage_Props.thy ===== *)
theory Run_Storage_Props
  imports Run_Storage Runner_Values_Props
begin

text \<open>
  The runs of a process: their identities never repeat and a run that has ended does not change. Saving a record:
  whatever fails, the file is the old one or the new one.
\<close>

section \<open>Sequences of operations\<close>

datatype run_op = StartRun start_options | FinishRun string | CountAction | NoteBug record_bug_options

fun run_op_step :: "'w now_clock \<Rightarrow> run_op \<Rightarrow> run_store \<times> 'w \<Rightarrow> run_store \<times> 'w" where
  "run_op_step clk (StartRun opts) sw = snd (start_run clk opts sw)"
| "run_op_step clk (FinishRun status) sw = snd (finish_run clk status sw)"
| "run_op_step clk CountAction sw = (increment_actions (fst sw), snd sw)"
| "run_op_step clk (NoteBug opts) sw = snd (record_bug clk opts sw)"

definition run_ops :: "'w now_clock \<Rightarrow> run_op list \<Rightarrow> run_store \<times> 'w \<Rightarrow> run_store \<times> 'w" where
  "run_ops clk ops sw = fold (run_op_step clk) ops sw"

lemma run_ops_append: "run_ops clk (a @ b) sw = run_ops clk b (run_ops clk a sw)"
  by (simp add: run_ops_def)

section \<open>Identities\<close>

lemma utoa_no_dash: "CHR ''-'' \<notin> set (utoa n)"
  using utoa_digits [of n] by (auto simp: list_all_iff is_dec_def byte_of_def)

lemma takeWhile_until: "c \<notin> set a \<Longrightarrow> takeWhile (\<lambda>x. x \<noteq> c) (a @ c # r) = a"
  by (induction a) auto

lemma after_last_dash:
  assumes "x @ CHR ''-'' # a = y @ CHR ''-'' # b" and "CHR ''-'' \<notin> set a" and "CHR ''-'' \<notin> set b"
  shows "x = y \<and> a = b"
proof -
  have "rev a @ CHR ''-'' # rev x = rev b @ CHR ''-'' # rev y" using arg_cong [OF assms(1), of rev] by simp
  moreover have "takeWhile (\<lambda>c. c \<noteq> CHR ''-'') (rev a @ CHR ''-'' # rev x) = rev a"
    "takeWhile (\<lambda>c. c \<noteq> CHR ''-'') (rev b @ CHR ''-'' # rev y) = rev b"
    using assms(2,3) by (simp_all add: takeWhile_until)
  ultimately show ?thesis by (metis append_same_eq append_eq_append_conv list.inject rev_rev_ident same_append_eq)
qed

lemma run_id_number: "run_id t m = run_id u n \<Longrightarrow> m = n"
proof -
  assume "run_id t m = run_id u n"
  then have "(''run-'' @ itoa t) @ CHR ''-'' # utoa m = (''run-'' @ itoa u) @ CHR ''-'' # utoa n" by (simp add: run_id_def)
  from after_last_dash [OF this utoa_no_dash utoa_no_dash] show ?thesis by (simp add: utoa_inject)
qed

lemma bug_id_parts: "rid @ ''-bug-'' @ utoa m = rid' @ ''-bug-'' @ utoa n \<Longrightarrow> rid = rid' \<and> m = n"
proof -
  assume "rid @ ''-bug-'' @ utoa m = rid' @ ''-bug-'' @ utoa n"
  then have "(rid @ ''-bug'') @ CHR ''-'' # utoa m = (rid' @ ''-bug'') @ CHR ''-'' # utoa n" by simp
  from after_last_dash [OF this utoa_no_dash utoa_no_dash] show ?thesis by (simp add: utoa_inject)
qed

section \<open>The history of a process\<close>

definition run_ok :: "nat option \<Rightarrow> nat \<Rightarrow> run_record \<Rightarrow> bool" where
  "run_ok active i r \<longleftrightarrow>
     (\<exists>t. RrID r = run_id t (i + 1)) \<and>
     (RrFinishedAt r = None \<longleftrightarrow> active = Some i) \<and> (active = Some i \<longrightarrow> RrStatus r = RunStatusRunning) \<and>
     map BgID (RrFindings r) = map (\<lambda>j. RrID r @ ''-bug-'' @ utoa (j + 1)) [0..<length (RrFindings r)]"

definition history_ok :: "run_store \<Rightarrow> bool" where
  "history_ok s \<longleftrightarrow>
     RsNextID s = length (RsRuns s) + 1 \<and> (\<forall>i. RsActive s = Some i \<longrightarrow> i < length (RsRuns s)) \<and>
     (\<forall>i < length (RsRuns s). run_ok (RsActive s) i (RsRuns s ! i))"

text \<open>What had ended in a store is unchanged in a later one.\<close>

definition settled :: "run_store \<Rightarrow> run_store \<Rightarrow> bool" where
  "settled s s' \<longleftrightarrow>
     length (RsRuns s) \<le> length (RsRuns s') \<and>
     (\<forall>i < length (RsRuns s). RsActive s \<noteq> Some i \<longrightarrow> RsActive s' \<noteq> Some i \<and> RsRuns s' ! i = RsRuns s ! i)"

lemma history_new: "history_ok new_run_store"
  by (simp add: history_ok_def new_run_store_def)

lemma settled_refl [simp]: "settled s s"
  by (simp add: settled_def)

lemma settled_trans: "settled s s' \<Longrightarrow> settled s' s'' \<Longrightarrow> settled s s''"
  by (auto simp: settled_def dest: order_less_le_trans)

lemma history_update:
  assumes "history_ok s" and "RsActive s = Some i"
    and "run_ok active i (f (RsRuns s ! i))" and "active = Some i \<or> active = None"
  shows "history_ok ((update_run i f s)\<lparr>RsActive := active\<rparr>)"
  using assms by (auto simp: history_ok_def update_run_def run_ok_def nth_list_update)

lemma settled_update:
  "RsActive s = Some i \<Longrightarrow> active = Some i \<or> active = None \<Longrightarrow> settled s ((update_run i f s)\<lparr>RsActive := active\<rparr>)"
  by (auto simp: settled_def update_run_def)

lemma update_run_active: "(update_run i f s)\<lparr>RsActive := RsActive s\<rparr> = update_run i f s"
  by (simp add: update_run_def)

lemma history_active: "history_ok s \<Longrightarrow> RsActive s = Some i \<Longrightarrow> run_ok (Some i) i (RsRuns s ! i)"
  by (auto simp: history_ok_def)

lemma error_predecessor_ok:
  assumes "history_ok s" and "error_predecessor clk (s, w) = (pred, s1, w1)"
  shows "history_ok (s1\<lparr>RsActive := None\<rparr>) \<and> settled s (s1\<lparr>RsActive := None\<rparr>) \<and> RsNextID s1 = RsNextID s"
proof (cases "RsActive s")
  case None
  then have "s1 = s" "s\<lparr>RsActive := None\<rparr> = s" using assms(2) by (simp_all add: error_predecessor_def)
  then show ?thesis using assms(1) by simp
next
  case (Some i)
  have run: "run_ok (Some i) i (RsRuns s ! i)" using history_active [OF assms(1) Some] .
  obtain t w2 where t: "clk w = (t, w2)" by fastforce
  have s1: "s1 = update_run i (\<lambda>r. r\<lparr>RrStatus := RunStatusError, RrFinishedAt := Some t\<rparr>) s"
    using assms(2) run Some t by (simp add: error_predecessor_def run_ok_def)
  show ?thesis unfolding s1
  proof (intro conjI)
    show "history_ok ((update_run i (\<lambda>r. r\<lparr>RrStatus := RunStatusError, RrFinishedAt := Some t\<rparr>) s)\<lparr>RsActive := None\<rparr>)"
      using run by (intro history_update assms(1) Some) (auto simp: run_ok_def)
    show "settled s ((update_run i (\<lambda>r. r\<lparr>RrStatus := RunStatusError, RrFinishedAt := Some t\<rparr>) s)\<lparr>RsActive := None\<rparr>)"
      by (intro settled_update Some) simp
  qed (simp add: update_run_def)
qed

lemma add_run_ok:
  assumes "history_ok (s\<lparr>RsActive := None\<rparr>)" and "run_ok (Some (length (RsRuns s))) (length (RsRuns s)) r"
  shows "history_ok (snd (add_run r s)) \<and> settled (s\<lparr>RsActive := None\<rparr>) (snd (add_run r s))"
  using assms by (auto simp: history_ok_def settled_def add_run_def nth_append run_ok_def less_Suc_eq)

lemma run_op_step_ok:
  assumes "history_ok s"
  shows "history_ok (fst (run_op_step clk op (s, w))) \<and> settled s (fst (run_op_step clk op (s, w)))"
proof (cases op)
  case (StartRun opts)
  obtain pred s1 w1 where p: "error_predecessor clk (s, w) = (pred, s1, w1)" by (metis prod_cases3)
  obtain t w2 where t: "clk w1 = (t, w2)" by fastforce
  note ok = error_predecessor_ok [OF assms p]
  let ?r = "\<lparr>RrID = run_id t (RsNextID s1), RrName = SoName opts, RrSource = (case SoSource opts of None \<Rightarrow> ''unknown'' | Some src \<Rightarrow> src),
     RrStartedAt = t, RrFinishedAt = None, RrStatus = RunStatusRunning, RrActionCount = 0, RrFindings = []\<rparr>"
  have "RsNextID s1 = length (RsRuns s1) + 1" using ok by (simp add: history_ok_def)
  then have "run_ok (Some (length (RsRuns s1))) (length (RsRuns s1)) ?r" by (auto simp: run_ok_def)
  then have "history_ok (snd (add_run ?r s1)) \<and> settled (s1\<lparr>RsActive := None\<rparr>) (snd (add_run ?r s1))"
    using ok by (intro add_run_ok) simp_all
  then show ?thesis using ok settled_trans by (auto simp: StartRun start_run_def p t split: prod.split)
next
  case (FinishRun status)
  show ?thesis
  proof (cases "RsActive s")
    case (Some i)
    obtain t w2 where t: "clk w = (t, w2)" by fastforce
    let ?f = "\<lambda>r. r\<lparr>RrStatus := (if status = [] then RunStatusPassed else status), RrFinishedAt := Some t\<rparr>"
    have "run_ok None i (?f (RsRuns s ! i))" using history_active [OF assms Some] by (simp add: run_ok_def)
    then have "history_ok ((update_run i ?f s)\<lparr>RsActive := None\<rparr>)" by (intro history_update assms Some) auto
    then show ?thesis using settled_update [OF Some, of None ?f] by (simp add: FinishRun finish_run_def Some t)
  qed (simp add: FinishRun finish_run_def assms)
next
  case CountAction
  show ?thesis
  proof (cases "RsActive s")
    case (Some i)
    let ?f = "\<lambda>r. r\<lparr>RrActionCount := RrActionCount r + 1\<rparr>"
    have "run_ok (RsActive s) i (?f (RsRuns s ! i))" using history_active [OF assms Some] by (simp add: run_ok_def Some)
    then have "history_ok ((update_run i ?f s)\<lparr>RsActive := RsActive s\<rparr>)" by (intro history_update assms Some) (auto simp add: Some)
    moreover have "settled s ((update_run i ?f s)\<lparr>RsActive := RsActive s\<rparr>)" by (intro settled_update Some) (simp add: Some)
    ultimately show ?thesis unfolding update_run_active by (simp add: CountAction increment_actions_def Some)
  qed (simp add: CountAction increment_actions_def assms)
next
  case (NoteBug opts)
  show ?thesis
  proof (cases "RsActive s")
    case (Some i)
    obtain t w2 where t: "clk w = (t, w2)" by fastforce
    let ?bug = "\<lparr>BgID = bug_id (RsRuns s ! i), BgTitle = RbTitle opts, BgDescription = RbDescription opts,
       BgScreenshotPath = (case RbScreenshotPath opts of None \<Rightarrow> [] | Some p \<Rightarrow> p), BgTimestamp = t\<rparr>"
    let ?f = "\<lambda>r. r\<lparr>RrFindings := RrFindings r @ [?bug]\<rparr>"
    have "run_ok (RsActive s) i (?f (RsRuns s ! i))"
      using history_active [OF assms Some] by (simp add: run_ok_def Some bug_id_def)
    then have "history_ok ((update_run i ?f s)\<lparr>RsActive := RsActive s\<rparr>)" by (intro history_update assms Some) (auto simp add: Some)
    moreover have "settled s ((update_run i ?f s)\<lparr>RsActive := RsActive s\<rparr>)" by (intro settled_update Some) (simp add: Some)
    ultimately show ?thesis unfolding update_run_active by (simp add: NoteBug record_bug_def Some t Let_def)
  qed (simp add: NoteBug record_bug_def assms)
qed

lemma run_ops_ok:
  "history_ok (fst sw) \<Longrightarrow> history_ok (fst (run_ops clk ops sw)) \<and> settled (fst sw) (fst (run_ops clk ops sw))"
proof (induction ops arbitrary: sw)
  case (Cons op ops)
  have step: "history_ok (fst (run_op_step clk op sw)) \<and> settled (fst sw) (fst (run_op_step clk op sw))"
    using run_op_step_ok [OF Cons.prems, of clk op "snd sw"] by simp
  have "run_ops clk (op # ops) sw = run_ops clk ops (run_op_step clk op sw)" by (simp add: run_ops_def)
  then show ?case using Cons.IH [of "run_op_step clk op sw"] step settled_trans by metis
qed (simp add: run_ops_def)

lemma history_run_ids:
  assumes "history_ok s" shows "distinct (map RrID (RsRuns s))"
proof -
  have "RrID (RsRuns s ! i) \<noteq> RrID (RsRuns s ! j)" if "i < length (RsRuns s)" "j < length (RsRuns s)" "i \<noteq> j" for i j
    using assms that run_id_number by (auto simp: history_ok_def run_ok_def) (metis Suc_inject)
  then show ?thesis by (simp add: distinct_conv_nth)
qed

definition bug_ids :: "run_record \<Rightarrow> string list" where
  "bug_ids r = map BgID (RrFindings r)"

lemma distinct_tagged:
  assumes "distinct (map g rs)" and "\<And>r. r \<in> set rs \<Longrightarrow> distinct (f r)"
    and "\<And>r b. r \<in> set rs \<Longrightarrow> b \<in> set (f r) \<Longrightarrow> \<exists>n. b = mk (g r) n" and "\<And>k n k' n'. mk k n = mk k' n' \<Longrightarrow> k = k'"
  shows "distinct (concat (map f rs))"
  using assms(1-3)
proof (induction rs)
  case (Cons r rs)
  have "set (f r) \<inter> set (concat (map f rs)) = {}"
  proof (rule ccontr)
    assume "set (f r) \<inter> set (concat (map f rs)) \<noteq> {}"
    then obtain b r' where b: "b \<in> set (f r)" "r' \<in> set rs" "b \<in> set (f r')" by auto
    then obtain n n' where "b = mk (g r) n" "b = mk (g r') n'" using Cons.prems(3) by (meson list.set_intros)
    then show False using assms(4) Cons.prems(1) b(2) by (metis distinct.simps(2) image_eqI list.simps(9) set_map)
  qed
  then show ?case using Cons by auto
qed simp

lemma history_bug_ids:
  assumes "history_ok s" shows "distinct (concat (map bug_ids (RsRuns s)))"
proof (rule distinct_tagged [where g = RrID and mk = "\<lambda>rid n. rid @ ''-bug-'' @ utoa n"])
  show "distinct (map RrID (RsRuns s))" using history_run_ids [OF assms] .
next
  fix r assume "r \<in> set (RsRuns s)"
  then have ids: "bug_ids r = map (\<lambda>j. RrID r @ ''-bug-'' @ utoa (j + 1)) [0..<length (RrFindings r)]"
    using assms by (auto simp: history_ok_def run_ok_def bug_ids_def in_set_conv_nth)
  show "distinct (bug_ids r)" unfolding ids by (auto simp: distinct_map inj_on_def dest: bug_id_parts)
  show "\<exists>n. b = RrID r @ ''-bug-'' @ utoa n" if "b \<in> set (bug_ids r)" for b using that unfolding ids by auto
qed (use bug_id_parts in blast)

text \<open>
  C19: Over any starts, ends, actions and findings of a process, and whatever its clock says: no two runs and no two
  findings share an identity, the run in flight is the only one without an end and is running, and a run that
  has ended is never changed by what comes after.
\<close>

theorem run_history:
  "history_ok (fst (run_ops clk ops1 (new_run_store, w))) \<and>
   distinct (map RrID (RsRuns (fst (run_ops clk ops1 (new_run_store, w))))) \<and>
   distinct (concat (map bug_ids (RsRuns (fst (run_ops clk ops1 (new_run_store, w)))))) \<and>
   settled (fst (run_ops clk ops1 (new_run_store, w))) (fst (run_ops clk (ops1 @ ops2) (new_run_store, w)))"
proof -
  have h: "history_ok (fst (run_ops clk ops1 (new_run_store, w)))"
    using run_ops_ok [of "(new_run_store, w)" clk ops1] history_new by simp
  then show ?thesis using run_ops_ok [OF h, of clk ops2] by (simp add: history_run_ids history_bug_ids run_ops_append)
qed

section \<open>File systems\<close>

text \<open>
  What \<^verbatim>\<open>os\<close> documents of its calls, on the contents of the files: a new temporary file has a name no file has,
  and not that of the target; a write may stop in the middle; a rename puts the file in the place of the target
  or changes nothing; the other calls change no contents.
\<close>

definition fs_laws :: "'w file_system \<Rightarrow> ('w \<Rightarrow> string \<Rightarrow> string option) \<Rightarrow> bool" where
  "fs_laws fs view \<longleftrightarrow>
     (\<forall>d w. view (snd (FsMkdirAll fs d w)) = view w) \<and>
     (\<forall>loc w e w1. FsCreateTemp fs (FsDir fs loc) (FsBase fs loc @ ''.*.tmp'') w = (Inl e, w1) \<longrightarrow> view w1 = view w) \<and>
     (\<forall>loc w tmp w1. FsCreateTemp fs (FsDir fs loc) (FsBase fs loc @ ''.*.tmp'') w = (Inr tmp, w1) \<longrightarrow>
        tmp \<noteq> loc \<and> view w tmp = None \<and> view w1 = (view w)(tmp \<mapsto> [])) \<and>
     (\<forall>tmp body w e w1. FsWrite fs tmp body w = (Some e, w1) \<longrightarrow> (\<exists>part. view w1 = (view w)(tmp := part))) \<and>
     (\<forall>tmp body w w1. FsWrite fs tmp body w = (None, w1) \<longrightarrow> view w1 = (view w)(tmp \<mapsto> body)) \<and>
     (\<forall>tmp w. view (snd (FsClose fs tmp w)) = view w) \<and>
     (\<forall>tmp perm w. view (snd (FsChmod fs tmp perm w)) = view w) \<and>
     (\<forall>tmp loc w e w1. FsRename fs tmp loc w = (Some e, w1) \<longrightarrow> view w1 = view w) \<and>
     (\<forall>tmp loc w w1. FsRename fs tmp loc w = (None, w1) \<longrightarrow> view w1 = (view w)(loc := view w tmp, tmp := None)) \<and>
     (\<forall>tmp w e w1. FsRemove fs tmp w = (Some e, w1) \<longrightarrow> view w1 = view w) \<and>
     (\<forall>tmp w w1. FsRemove fs tmp w = (None, w1) \<longrightarrow> view w1 = (view w)(tmp := None)) \<and>
     (\<forall>loc w body. FsReadFile fs loc w = Inr body \<longrightarrow> view w loc = Some body) \<and>
     (\<forall>loc w e. FsReadFile fs loc w = Inl e \<longrightarrow> view w loc = None \<or> \<not> FsNotExist fs e)"

text \<open>The file is the old one or the new one, the new one when nothing failed, and other files are untouched.\<close>

definition replaced :: "('w \<Rightarrow> string \<Rightarrow> string option) \<Rightarrow> string \<Rightarrow> string \<Rightarrow> 'w \<Rightarrow> go_error option \<times> 'w \<Rightarrow> bool" where
  "replaced view loc body w r \<longleftrightarrow>
     (view (snd r) loc = view w loc \<or> view (snd r) loc = Some body) \<and>
     (fst r = None \<longrightarrow> view (snd r) loc = Some body) \<and>
     (\<forall>other. other \<noteq> loc \<longrightarrow> view w other \<noteq> None \<longrightarrow> view (snd r) other = view w other)"

lemma fs_laws_quiet:
  assumes "fs_laws fs view"
  shows "view (snd (FsMkdirAll fs d w)) = view w" "view (snd (FsClose fs tmp w)) = view w" "view (snd (FsChmod fs tmp perm w)) = view w"
  using assms by (simp_all add: fs_laws_def)

lemma fs_laws_create:
  "fs_laws fs view \<Longrightarrow> FsCreateTemp fs (FsDir fs loc) (FsBase fs loc @ ''.*.tmp'') w = (r, w1) \<Longrightarrow>
   case r of Inl e \<Rightarrow> view w1 = view w | Inr tmp \<Rightarrow> tmp \<noteq> loc \<and> view w tmp = None \<and> view w1 = (view w)(tmp \<mapsto> [])"
  by (cases r) (simp_all add: fs_laws_def)

lemma fs_laws_write:
  "fs_laws fs view \<Longrightarrow> FsWrite fs tmp body w = (r, w1) \<Longrightarrow>
   case r of None \<Rightarrow> view w1 = (view w)(tmp \<mapsto> body) | Some e \<Rightarrow> \<exists>part. view w1 = (view w)(tmp := part)"
  by (cases r) (simp_all add: fs_laws_def)

lemma fs_laws_rename:
  "fs_laws fs view \<Longrightarrow> FsRename fs tmp loc w = (r, w1) \<Longrightarrow>
   case r of None \<Rightarrow> view w1 = (view w)(loc := view w tmp, tmp := None) | Some e \<Rightarrow> view w1 = view w"
  by (cases r) (simp_all add: fs_laws_def)

lemma fs_laws_remove:
  "fs_laws fs view \<Longrightarrow> view (snd (FsRemove fs tmp w)) = view w \<or> view (snd (FsRemove fs tmp w)) = (view w)(tmp := None)"
  by (cases "FsRemove fs tmp w"; cases "fst (FsRemove fs tmp w)") (simp_all add: fs_laws_def)

lemma fs_laws_read:
  "fs_laws fs view \<Longrightarrow> FsReadFile fs loc w = r \<Longrightarrow>
   case r of Inr body \<Rightarrow> view w loc = Some body | Inl e \<Rightarrow> view w loc = None \<or> \<not> FsNotExist fs e"
  by (cases r) (simp_all add: fs_laws_def)

lemma put_in_place_view:
  assumes laws: "fs_laws fs view" and put: "put_in_place fs tmp loc body perm w = (err, w')"
  shows "case err of
      Some e \<Rightarrow> (\<exists>part. view w' = (view w)(tmp := part))
    | None \<Rightarrow> view w' = (view w)(loc \<mapsto> body, tmp := None)"
proof -
  obtain r1 w1 where wr: "FsWrite fs tmp body w = (r1, w1)" by fastforce
  obtain r2 w2 where cl: "FsClose fs tmp w1 = (r2, w2)" by fastforce
  obtain r3 w3 where ch: "FsChmod fs tmp perm w2 = (r3, w3)" by fastforce
  obtain r4 w4 where mv: "FsRename fs tmp loc w3 = (r4, w4)" by fastforce
  have v2: "view w2 = view w1" using fs_laws_quiet(2) [OF laws, of tmp w1] cl by simp
  have v3: "view w3 = view w2" using fs_laws_quiet(3) [OF laws, of tmp perm w2] ch by simp
  note v1 = fs_laws_write [OF laws wr] and v4 = fs_laws_rename [OF laws mv]
  show ?thesis
  proof (cases r1)
    case (Some e)
    then show ?thesis using put wr cl v1 v2 by (auto simp: put_in_place_def)
  next
    case None
    then have v3': "view w3 = (view w)(tmp \<mapsto> body)" using v1 v2 v3 by simp
    show ?thesis
    proof (cases "r2 = None \<and> r3 = None \<and> r4 = None")
      case True
      then have "err = None" "w' = w4" using put wr cl ch mv None by (simp_all add: put_in_place_def)
      then show ?thesis using v4 v3' True by auto
    next
      case False
      then obtain e where err: "err = Some e" and same: "view w' = view w3"
        using put wr cl ch mv None v2 v3 v4 by (cases r2; cases r3; cases r4) (auto simp: put_in_place_def)
      show ?thesis unfolding err same v3' by auto
    qed
  qed
qed

lemma write_under_replaced:
  assumes laws: "fs_laws fs view"
  shows "replaced view loc body w (write_under fs loc body w)"
proof -
  obtain r0 w0 where mk: "FsMkdirAll fs (FsDir fs loc) w = (r0, w0)" by fastforce
  have v0: "view w0 = view w" using fs_laws_quiet(1) [OF laws, of "FsDir fs loc" w] mk by simp
  have old: "replaced view loc body w (Some e, w1)" if "view w1 = view w" for e w1
    using that by (simp add: replaced_def)
  obtain r1 w1 where cr: "FsCreateTemp fs (FsDir fs loc) (FsBase fs loc @ ''.*.tmp'') w0 = (r1, w1)" by fastforce
  note created = fs_laws_create [OF laws cr]
  have place: "replaced view loc body w (case put_in_place fs tmp loc body perm w1 of (err, w2) \<Rightarrow> (err, snd (FsRemove fs tmp w2)))"
    if tmp: "r1 = Inr tmp" for tmp perm
  proof -
    obtain err w2 where put: "put_in_place fs tmp loc body perm w1 = (err, w2)" by fastforce
    have fresh: "tmp \<noteq> loc" "view w tmp = None" and v1: "view w1 = (view w)(tmp \<mapsto> [])" using created tmp v0 by auto
    have v2: "case err of Some e \<Rightarrow> (\<exists>part. view w2 = (view w)(tmp := part)) | None \<Rightarrow> view w2 = (view w)(loc \<mapsto> body, tmp := None)"
      using put_in_place_view [OF laws put] v1 by (auto split: option.splits)
    have rm: "view (snd (FsRemove fs tmp w2)) p = view w2 p" if "p \<noteq> tmp" for p
      using fs_laws_remove [OF laws, of tmp w2] that by auto
    have loc: "view w2 loc = view w loc \<or> view w2 loc = Some body" "err = None \<longrightarrow> view w2 loc = Some body"
      using v2 fresh by (auto split: option.splits)
    have other: "view (snd (FsRemove fs tmp w2)) p = view w p" if "p \<noteq> loc" "view w p \<noteq> None" for p
    proof -
      have "p \<noteq> tmp" using that fresh by auto
      then show ?thesis using v2 that rm [of p] by (auto split: option.splits)
    qed
    show ?thesis using loc other rm [of loc] fresh by (auto simp: replaced_def put)
  qed
  show ?thesis
  proof (cases r0)
    case None
    then show ?thesis using mk cr created v0 place old
      by (auto simp: write_under_def write_file_atomic_def split: sum.splits)
  qed (use mk v0 old in \<open>simp add: write_under_def\<close>)
qed

text \<open>
  C20: Whichever call fails on the way, saving a file leaves the old contents or the new ones in their place, the new
  ones when no error is reported, and no other file is changed.
\<close>

theorem write_under_atomic:
  "fs_laws fs view \<Longrightarrow> replaced view loc body w (write_under fs loc body w)"
  by (rule write_under_replaced)

section \<open>Records and their files\<close>

text \<open>A key cannot leave the directory: no component of the path of its file is the parent directory.\<close>

lemma neutral_no_dots: "\<not> contains (neutralize_dots key) ''..''"
proof -
  have "\<not> contains (neutralize_dots key) ''..'' \<and> (neutralize_dots key \<noteq> [] \<longrightarrow> key \<noteq> [] \<and> (hd (neutralize_dots key) = CHR ''.'' \<longrightarrow> hd key = CHR ''.''))"
  proof (induction key rule: neutralize_dots.induct)
    case (1 a b r)
    then show ?case by (cases "neutralize_dots (b # r)"; cases "neutralize_dots r") auto
  qed auto
  then show ?thesis by blast
qed

definition readable :: "'w file_system \<Rightarrow> ('w \<Rightarrow> string \<Rightarrow> string option) \<Rightarrow> 'w \<Rightarrow> bool" where
  "readable fs view w \<longleftrightarrow>
     (\<forall>loc. case view w loc of Some body \<Rightarrow> FsReadFile fs loc w = Inr body | None \<Rightarrow> \<exists>e. FsReadFile fs loc w = Inl e \<and> FsNotExist fs e)"

lemma readable_file: "readable fs view w \<Longrightarrow> view w loc = Some body \<Longrightarrow> FsReadFile fs loc w = Inr body"
  unfolding readable_def by (drule spec [of _ loc]) simp

lemma readable_none: "readable fs view w \<Longrightarrow> view w loc = None \<Longrightarrow> \<exists>e. FsReadFile fs loc w = Inl e \<and> FsNotExist fs e"
  unfolding readable_def by (drule spec [of _ loc]) simp

lemma write_under_view:
  assumes "fs_laws fs view" and "write_under fs loc body w = (None, w')"
  shows "view w' loc = Some body" and "other \<noteq> loc \<Longrightarrow> view w other \<noteq> None \<Longrightarrow> view w' other = view w other"
  using write_under_replaced [OF assms(1), of loc body w] assms(2) by (auto simp: replaced_def)

text \<open>
  C40: A record that was saved without an error is the one loaded next, when no file of the other kind has its key;
  and a text saved under a key that holds a JSON record is not: loading still gives the old record.
\<close>

theorem saved_record_loaded:
  assumes laws: "fs_laws fs view" and readable: "readable fs view w'"
    and save: "file_save fs cd base key data w = (None, w')"
    and kinds: "path_for fs base key ''json'' \<noteq> path_for fs base key ''md''"
    and codec: "\<And>d body. CdMarshalIndent cd d = Inr body \<Longrightarrow> CdUnmarshal cd IntoOther body = Inr (OtherData d)"
  shows "(case data of
      OtherData d \<Rightarrow> file_load fs cd base key IntoOther w' = Inr (Some (OtherData d))
    | TextData s \<Rightarrow>
        (case view w (path_for fs base key ''json'') of
           None \<Rightarrow> view w' (path_for fs base key ''json'') = None \<longrightarrow> file_load fs cd base key IntoString w' = Inr (Some (TextData s))
         | Some old \<Rightarrow> file_load fs cd base key IntoString w' = map_sum id Some (CdUnmarshal cd IntoString old)))"
proof (cases data)
  case (OtherData d)
  then obtain body where body: "CdMarshalIndent cd d = Inr body" and wr: "write_under fs (path_for fs base key ''json'') body w = (None, w')"
    using save by (auto simp: file_save_def split: sum.splits)
  have "FsReadFile fs (path_for fs base key ''json'') w' = Inr body"
    using write_under_view(1) [OF laws wr] readable by (rule readable_file [rotated])
  then show ?thesis using codec [OF body] OtherData by (simp add: file_load_def)
next
  case (TextData s)
  then have wr: "write_under fs (path_for fs base key ''md'') s w = (None, w')" using save by (simp add: file_save_def)
  have md: "FsReadFile fs (path_for fs base key ''md'') w' = Inr s"
    using write_under_view(1) [OF laws wr] readable by (rule readable_file [rotated])
  show ?thesis
  proof (cases "view w (path_for fs base key ''json'')")
    case None
    then show ?thesis using TextData md readable_none [OF readable, of "path_for fs base key ''json''"]
      by (auto simp: file_load_def load_text_def)
  next
    case (Some old)
    then have "view w' (path_for fs base key ''json'') = Some old" using write_under_view(2) [OF laws wr, of "path_for fs base key ''json''"] kinds by simp
    then have "FsReadFile fs (path_for fs base key ''json'') w' = Inr old" by (rule readable_file [OF readable])
    then show ?thesis using TextData Some by (simp add: file_load_def)
  qed
qed

section \<open>A file system of contents\<close>

definition fresh_name :: "(string \<times> string) list \<Rightarrow> string \<Rightarrow> string" where
  "fresh_name w pat = pat @ replicate (Suc (sum_list (map (length \<circ> fst) w))) (CHR ''x'')"

definition list_fs :: "(string \<times> string) list file_system" where
  "list_fs =
     \<lparr>FsMkdirAll = \<lambda>d w. (None, w),
      FsStat = \<lambda>p w. (case map_of w p of None \<Rightarrow> Inl Canceled | Some b \<Rightarrow> Inr 420),
      FsNotExist = \<lambda>e. True,
      FsCreateTemp = \<lambda>d pat w. (Inr (fresh_name w pat), (fresh_name w pat, []) # w),
      FsWrite = \<lambda>p b w. (None, (p, b) # w),
      FsClose = \<lambda>p w. (None, w), FsChmod = \<lambda>p m w. (None, w),
      FsRename = \<lambda>p q w. (case map_of w p of
          None \<Rightarrow> (Some Canceled, w)
        | Some b \<Rightarrow> (None, filter (\<lambda>e. fst e \<noteq> p) ((q, b) # w))),
      FsRemove = \<lambda>p w. (case map_of w p of None \<Rightarrow> (Some Canceled, w) | Some b \<Rightarrow> (None, filter (\<lambda>e. fst e \<noteq> p) w)),
      FsReadFile = \<lambda>p w. (case map_of w p of None \<Rightarrow> Inl Canceled | Some b \<Rightarrow> Inr b),
      FsWalk = \<lambda>b w. Inr (map (\<lambda>e. (fst e, False)) w),
      FsJoin = \<lambda>a b. a @ ''/'' @ b, FsDir = \<lambda>p. [], FsBase = \<lambda>p. p, FsExt = \<lambda>p. ''.json'',
      FsRel = \<lambda>a b. Inr b, FsPrintable = \<lambda>r. True\<rparr>"

lemma fresh_name_new: "map_of w (fresh_name w pat) = None"
proof -
  have "fresh_name w pat \<notin> fst ` set w"
  proof
    assume "fresh_name w pat \<in> fst ` set w"
    then have "length (fresh_name w pat) \<in> set (map (length \<circ> fst) w)" by (auto simp: image_iff) (metis fst_conv)
    then have "length (fresh_name w pat) \<le> sum_list (map (length \<circ> fst) w)" by (rule member_le_sum_list) simp
    then show False by (simp add: fresh_name_def)
  qed
  then show ?thesis by (simp add: map_of_eq_None_iff)
qed

lemma map_of_without: "map_of (filter (\<lambda>e. fst e \<noteq> p) w) = (map_of w)(p := None)"
  by (induction w) (auto simp: fun_eq_iff)

lemma list_fs_laws: "fs_laws list_fs map_of"
  unfolding fs_laws_def
  by (auto simp: list_fs_def fresh_name_new map_of_without split: option.splits) (auto simp: fresh_name_def)

lemma list_fs_readable: "readable list_fs map_of w"
  by (auto simp: readable_def list_fs_def split: option.splits)

lemma write_under_atomic_witness:
  "replaced map_of ''f.json'' ''new'' [(''f.json'', ''old'')] (write_under list_fs ''f.json'' ''new'' [(''f.json'', ''old'')])"
  by (rule write_under_atomic [OF list_fs_laws])

definition text_codec :: "string json_codec" where
  "text_codec = \<lparr>CdMarshal = \<lambda>d. Inr (case d of TextData s \<Rightarrow> s | OtherData s \<Rightarrow> s), CdMarshalIndent = \<lambda>d. Inr d,
     CdUnmarshal = \<lambda>out raw. Inr (OtherData raw)\<rparr>"

lemma saved_record_loaded_witness:
  "file_load list_fs text_codec ''r'' ''k'' IntoString (snd (file_save list_fs text_codec ''r'' ''k'' (TextData ''new'') [(''r/k.json'', ''old'')])) =
     Inr (Some (OtherData ''old''))"
proof -
  have "file_save list_fs text_codec ''r'' ''k'' (TextData ''new'') [(''r/k.json'', ''old'')] =
      (None, snd (file_save list_fs text_codec ''r'' ''k'' (TextData ''new'') [(''r/k.json'', ''old'')]))" by code_simp
  from saved_record_loaded [OF list_fs_laws list_fs_readable this] show ?thesis
    by (simp add: path_for_def list_fs_def text_codec_def)
qed

end
