(* ===== verification/Spec2Isabelle.thy ===== *)
theory Spec2Isabelle
  imports Prelude Stream_Reader Ws_Frame Expr_Props Ui_Analysis_Props Ui_Wait_Props Ui_Orchestra_Props Ui_Launch
    Ui_Swipe Runner_Values_Props Runner_Steps_Props Runner_Run_Trace Runner_Props Runner_Nesting Runner_Pointer_Props Script_Props
    Scenario_Props Driver_Trees_Props Android_Props Android_Launcher Tcp_Calls Ios_Props Xctest_Launcher Net_Capture_Props Suite_Discovery_Props
    Config_Load_Props Run_Storage_Props
begin

text \<open>
  \<^bold>\<open>Atomyx.\<close> The program drives mobile applications: a script (or a tool call) names elements of the
  screen and actions on them, the runner executes its steps through a command layer, and drivers
  carry them out on a device. This development models the Go code under \<^verbatim>\<open>src/core/internal\<close>.

  \<^bold>\<open>Parts and how they interact.\<close> The runner (\<^verbatim>\<open>runner\<close>) runs the steps of a script. A command of it
  calls the command layer \<^verbatim>\<open>Orchestra\<close> (\<^verbatim>\<open>orchestra\<close>), which selects elements in the tree a driver
  reports, waits for them by polling, scrolls them into view, checks that nothing covers them and
  acts on them through the driver port (\<^verbatim>\<open>driver\<close>). Expressions in scripts are evaluated by
  \<^verbatim>\<open>script/expression\<close>; values of captured requests are addressed by dotted paths and compared by the
  runner. The drivers talk to an agent on the device: over HTTP on Android, over lines of JSON on a TCP
  connection on iOS, over WebSocket frames to the helper of the simulator; launchers start the agents.
  A run takes its application and variables from the project configuration (\<^verbatim>\<open>config\<close>), a suite its
  files from \<^verbatim>\<open>suite\<close>, and requests the application made from \<^verbatim>\<open>netcapture\<close>.

  \<^bold>\<open>Foundations.\<close> \<open>Prelude\<close>: results as sums, decimal numerals, the functions of Go's \<^verbatim>\<open>strings\<close>
  package in use. \<open>Go_Text\<close>: UTF-8 and UTF-16. \<open>Go_Float\<close>: \<^verbatim>\<open>float64\<close> as rationals rounded to nearest
  even, with signed zero, infinities and NaN. \<open>Go_Number\<close>: \<^verbatim>\<open>strconv.ParseFloat\<close> and number formats.
  \<open>Go_Shortest\<close>: the shortest decimal numeral of a float is read back as the float. \<open>Go_Fold\<close>: matching without
  regard to case. \<open>Go_Effects\<close>: operations on an outside world \<open>'w\<close> that end with a value or an error.
  \<open>Stream_Reader\<close>: incremental readers, a locale for chunking.

  \<^bold>\<open>Theories and the code they model.\<close>
  \<^item> \<open>Ws_Frame\<close>: \<^verbatim>\<open>iossimdriver/ws_frame.go\<close> and \<^verbatim>\<open>readLoop\<close> of \<^verbatim>\<open>hid_client.go\<close>, with bytes as 8-bit words
    and the payload length as a 64-bit word read as \<^verbatim>\<open>int\<close>. Lemmas: a frame encoded is a frame
    decoded, in any chunking; the buffers on which slicing panics.
  \<^item> \<open>Expr_Tokens\<close>, \<open>Expr_Parser\<close>, \<open>Expr_Eval\<close>: \<^verbatim>\<open>script/expression\<close> from source text to value.
    \<open>Expr_Grammar\<close>: the parser accepts exactly the documented grammar, within its fuel (the length of
    the token list). \<open>Expr_Props\<close>: kinds, positions of errors.
  \<^item> \<open>Ui_Tree\<close>, \<open>Ui_Bounds\<close>, \<open>Ui_Select\<close>, \<open>Ui_Analysis\<close>: cursors, rectangles, selectors, overlays and
    obscurement of \<^verbatim>\<open>orchestra\<close>; \<open>Ui_Analysis_Props\<close>: their specifications.
  \<^item> \<open>Ui_Wait\<close>, \<open>Ui_Wait_Props\<close>: \<^verbatim>\<open>wait.go\<close> and \<^verbatim>\<open>finder.go\<close>; a poll loop takes its number of polls as fuel,
    and over a clock that passes the time over the interval plus two suffices.
  \<^item> \<open>Ui_Scroll\<close>, \<open>Ui_Swipe\<close>: \<^verbatim>\<open>scroll_controller.go\<close> and the endpoints of swipes.
  \<^item> \<open>Ui_Diagnostics\<close>, \<open>Ui_Transition\<close>: \<^verbatim>\<open>transition_diagnostics.go\<close> and \<^verbatim>\<open>transition_wait.go\<close>.
  \<^item> \<open>Ui_Orchestra\<close>: \<^verbatim>\<open>orchestra.go\<close>, a handler per definition over a \<open>driver\<close> record and the \<open>session\<close>
    (launched applications, keyboard hint). \<open>Ui_Device_Log\<close>: a device that logs its calls.
    \<open>Ui_Orchestra_Props\<close>, \<open>Ui_Launch\<close>: what taps and typing touch, launches at most once, also when
    interleaved. Waits inside a handler have a fuel of 32 polls, the retry of a tap two attempts.
  \<^item> \<open>Runner_Values\<close>, \<open>Runner_Steps\<close>, \<open>Runner_Step_Json\<close>: \<^verbatim>\<open>dotpath.go\<close>, the assertions, the steps of
    \<^verbatim>\<open>script/steps.go\<close> with their summaries and JSON; \<open>Runner_Values_Props\<close>, \<open>Runner_Steps_Props\<close>.
  \<^item> \<open>Runner_Core\<close>: \<^verbatim>\<open>runner.go\<close> over a registry of commands; \<open>run_state\<close> holds what \<^verbatim>\<open>runState\<close> and
    \<^verbatim>\<open>ScriptRunner\<close> hold, the events emitted and the world. A command is a computation that returns,
    panics or does not end. \<open>Runner_Pointer\<close>, \<open>Runner_Commands\<close>: the built-in commands.
  \<^item> \<open>Runner_Trace\<close>, \<open>Runner_Run_Trace\<close>: the grammar of the events of a run, by a locale that states what
    a command owes the runner, interpreted on the built-in registry. \<open>Runner_Nesting\<close>: the bound on
    nested lists (the first argument of \<open>run\<close>) does not matter once it suffices, again by a locale.
    \<open>Runner_Props\<close>: results, preconditions, setups. \<open>Runner_Pointer_Props\<close>: compiled gestures.
  \<^item> \<open>Script_Values\<close>: decoded YAML values and \<^verbatim>\<open>script/values.go\<close>, \<^verbatim>\<open>variables.go\<close>. \<open>Script_Normalize\<close>,
    \<open>Script_Normalize_Steps\<close>: \<^verbatim>\<open>normalize*.go\<close>, a definition per normalizer, raw step to canonical step or
    error. \<open>Script_Validate\<close>: \<^verbatim>\<open>validate.go\<close> of a step. \<open>Script_Parse\<close>: \<^verbatim>\<open>parse.go\<close> from the documents of a
    file. \<open>Script_Canonical\<close>, \<open>Script_Roundtrip\<close>: the canonical form of a raw step and that it normalizes
    to the same step. \<open>Script_Props\<close>: what an accepted script satisfies; templates.
  \<^item> \<open>Scenario_Parse\<close>: \<^verbatim>\<open>script/scenario_schema.go\<close>, \<^verbatim>\<open>scenario_parse.go\<close>. \<open>Scenario_Run\<close>:
    \<^verbatim>\<open>scenario/scenario.go\<close> and \<^verbatim>\<open>suite.go\<close> over the parser and the runner; \<open>Scenario_Props\<close>: what is
    recorded for every script and entry.

  \<^item> \<open>Driver_Trees\<close>: \<^verbatim>\<open>normalize.go\<close> of both drivers; \<open>Driver_Trees_Props\<close>: bounds written are bounds read.
  \<^item> \<open>Wire_Errors\<close>: the errors of \<^verbatim>\<open>transport\<close>, \<^verbatim>\<open>diag\<close> and the drivers and how they are classified.
    \<open>Agent_Http\<close>: \<^verbatim>\<open>http_client.go\<close>. \<open>Android_Driver\<close>: \<^verbatim>\<open>androiddriver\<close>, an operation of the port per
    definition; \<open>Android_Props\<close>: error codes, tunnels. \<open>Android_Launcher\<close>: from the package file to an agent
    that answers.
  \<^item> \<open>Tcp_Client\<close>: \<^verbatim>\<open>tcp_client.go\<close>, its critical sections; \<open>Tcp_Calls\<close>: callers, the read loop and
    reconnects as interleaved steps over them, and their invariant. \<open>Await_Ready\<close>: \<^verbatim>\<open>process/readiness.go\<close>.
    \<open>Ios_Driver\<close>, \<open>Ios_Props\<close>: \<^verbatim>\<open>iosdriver\<close> with its USB tunnel. \<open>Xctest_Launcher\<close>: building and starting the
    agent.
  \<^item> \<open>Net_Capture\<close>, \<open>Net_Capture_Props\<close>: \<^verbatim>\<open>netcapture\<close>, what reads of a growing file give.
  \<^item> \<open>Suite_Discovery\<close>, \<open>Suite_Discovery_Props\<close>: \<^verbatim>\<open>suite\<close>, the files selected against a description of the
    corpus.
  \<^item> \<open>Config_Validate\<close>, \<open>Config_Load\<close>: \<^verbatim>\<open>config\<close>, with the collector of issues as a state monad.
    \<open>Config_Props\<close>: what an accepted document satisfies. \<open>Config_Roundtrip\<close>: every configuration that does is
    accepted. \<open>Config_Load_Props\<close>: loading and choosing an environment together.
  \<^item> \<open>Run_Storage\<close>, \<open>Run_Storage_Props\<close>: \<^verbatim>\<open>storage\<close>, run records in a store, their history, and files saved over a
    file system whose laws are stated.

  \<^bold>\<open>Parameters.\<close> What is not in the repository is an argument: the device's agent behind HTTP or TCP, the
  clock, processes, sockets, files, the regular expression engine where a pattern is not fixed, the YAML and JSON decoders,
  \<^verbatim>\<open>filepath\<close>, \<^verbatim>\<open>url.Parse\<close>, the loaders of flow and script files,
  \<^verbatim>\<open>http.DetectContentType\<close>, cosine and sine, the Unicode tables (lower case outside ASCII,
  printable runes), the result of converting a float out of range to an integer, and the JSON text a
  snapshot of the tree is compared by. A fused multiply-add, which the compiler may use on some
  processors, is not modelled. Counters of requests are not wrapped.

  \<^bold>\<open>Fuel.\<close> Loops over an outside world (polls for an element, for the agent's health, for a captured
  request, directories upwards or down) take the number of rounds as an argument and give \<open>None\<close> when it is used
  up; with each goes a lemma that a number in reach of the timeout or the depth of the tree is enough.

  \<^bold>\<open>Not modelled.\<close> Logging; goroutines, mutexes and cancellation beyond the context check the code
  makes (launches and TCP calls, which guard against concurrency, are modelled as interleaved steps); the
  command line and the MCP and sidecar servers, which decode requests and call the parts above; device
  discovery and provisioning and the spawning of processes, which run platform tools; reports,
  which are text for a reader; of the simulator's channel the handshake and the table of pending
  replies; decoding YAML text and splitting a file into documents.
\<close>

end
